(* ===== verification/Vgpu_Prelude.thy ===== *)
theory Vgpu_Prelude
  imports Main "HOL-Library.Word" "HOL-Library.Monad_Syntax"
begin

text \<open>
  Types, error codes and generic lemmas shared by every component.

  Machine integers keep the width they have in C (\<open>uint32_t\<close> is \<open>32 word\<close>, \<open>size_t\<close>,
  \<open>uint64_t\<close> and addresses are \<open>64 word\<close>), so addition wraps exactly as in the sources.
  A C function that returns \<open>0\<close> or a negative errno returns a value of \<open>errno + 'a\<close>, where
  \<open>Inl\<close> is the error.  Little-endian readers and writers, first-free-slot search in a
  fixed-size table and checked arithmetic (the compiler's overflow builtins) are here too.
\<close>

unbundle bit_operations_syntax

type_synonym u8 = "8 word"
type_synonym u16 = "16 word"
type_synonym u32 = "32 word"
type_synonym u64 = "64 word"

datatype errno = EINVAL | ENOMEM | ENOTSUP | EOVERFLOW | ENOSPC | EIO | ETIMEDOUT
  | ENODEV | ENOENT | EEXIST | ENOSYS | EOTHER int

named_theorems le_simps "facts about little-endian byte sequences"
named_theorems inv_intros "introduction rules of component invariants"

section \<open>Little-endian byte sequences\<close>

definition le32 :: "u32 \<Rightarrow> u8 list" where
  "le32 w = [ucast w, ucast (drop_bit 8 w), ucast (drop_bit 16 w), ucast (drop_bit 24 w)]"

definition le64 :: "u64 \<Rightarrow> u8 list" where
  "le64 w = le32 (ucast w) @ le32 (ucast (drop_bit 32 w))"

text \<open>The readers return 0 for bytes past the end; every use in the model reads inside the list.\<close>

fun un32 :: "u8 list \<Rightarrow> u32" where
  "un32 (a # b # c # d # _) =
     ucast a OR push_bit 8 (ucast b) OR push_bit 16 (ucast c) OR push_bit 24 (ucast d)"
| "un32 _ = 0"

definition un64 :: "u8 list \<Rightarrow> u64" where
  "un64 bs = ucast (un32 bs) OR push_bit 32 (ucast (un32 (drop 4 bs)))"

lemma length_le32 [simp, le_simps]: "length (le32 w) = 4"
  by (simp add: le32_def)

lemma length_le64 [simp, le_simps]: "length (le64 w) = 8"
  by (simp add: le64_def)

lemma un32_le32 [simp, le_simps]: "un32 (le32 w @ rest) = w"
proof (rule bit_word_eqI)
  fix n assume n: "n < LENGTH(32)"
  consider "n < 8" | "8 \<le> n \<and> n < 16" | "16 \<le> n \<and> n < 24" | "24 \<le> n" by linarith
  thus "bit (un32 (le32 w @ rest)) n = bit w n"
    using n
    by cases (auto simp: le32_def bit_or_iff bit_push_bit_iff bit_unsigned_iff bit_drop_bit_eq)
qed

lemma un32_le32_nil [simp, le_simps]: "un32 (le32 w) = w"
  using un32_le32[of w "[]"] by simp

lemma un64_le64 [simp, le_simps]: "un64 (le64 w @ rest) = w"
proof (rule bit_word_eqI)
  fix n assume n: "n < LENGTH(64)"
  show "bit (un64 (le64 w @ rest)) n = bit w n"
    using n
    by (cases "n < 32")
      (auto simp: un64_def le64_def bit_or_iff bit_push_bit_iff bit_unsigned_iff bit_drop_bit_eq)
qed

lemma un64_le64_nil [simp, le_simps]: "un64 (le64 w) = w"
  using un64_le64[of w "[]"] by simp

lemma le32_inj [simp]: "le32 a = le32 b \<longleftrightarrow> a = b"
  by (metis un32_le32_nil)

lemma le64_inj [simp]: "le64 a = le64 b \<longleftrightarrow> a = b"
  by (metis un64_le64_nil)

lemma drop_le32 [simp]: "4 \<le> n \<Longrightarrow> drop n (le32 w @ rest) = drop (n - 4) rest"
  by simp

lemma un32_take: "4 \<le> n \<Longrightarrow> un32 (take n bs) = un32 bs"
proof -
  assume "4 \<le> n"
  then obtain m where "n = 4 + m" by (auto simp: le_iff_add)
  hence "n = Suc (Suc (Suc (Suc m)))" by simp
  thus ?thesis
    by (cases bs rule: un32.cases) auto
qed

lemma le32_un32: "4 \<le> length bs \<Longrightarrow> le32 (un32 bs) = take 4 bs"
proof -
  assume "4 \<le> length bs"
  then obtain a b c d xs where bs: "bs = a # b # c # d # xs"
    by (cases bs rule: un32.cases) auto
  have "ucast (un32 bs) = a" "ucast (drop_bit 8 (un32 bs)) = b" "ucast (drop_bit 16 (un32 bs)) = c"
    "ucast (drop_bit 24 (un32 bs)) = d"
    unfolding bs by (rule bit_word_eqI; auto simp: bit_or_iff bit_push_bit_iff bit_unsigned_iff bit_drop_bit_eq dest: bit_imp_le_length)+
  thus ?thesis by (simp add: le32_def bs)
qed

lemma le64_un64: "8 \<le> length bs \<Longrightarrow> le64 (un64 bs) = take 8 bs"
proof -
  assume l: "8 \<le> length bs"
  have "ucast (un64 bs) = un32 bs"
    by (rule bit_word_eqI) (auto simp: un64_def bit_or_iff bit_push_bit_iff bit_unsigned_iff)
  moreover have "ucast (drop_bit 32 (un64 bs)) = un32 (drop 4 bs)"
    by (rule bit_word_eqI)
      (auto simp: un64_def bit_or_iff bit_push_bit_iff bit_unsigned_iff bit_drop_bit_eq dest: bit_imp_le_length)
  ultimately have "le64 (un64 bs) = take 4 bs @ take 4 (drop 4 bs)"
    using l by (simp add: le64_def le32_un32)
  also have "\<dots> = take (4 + 4) bs" by (simp only: take_add)
  finally show ?thesis by simp
qed

section \<open>Results of commands that may not return\<close>

lemma bind_Some_iff:
  "Option.bind m f = Some y \<longleftrightarrow> (\<exists>x. m = Some x \<and> f x = Some y)"
  by (cases m) auto

lemma bind_not_None: "Option.bind m f \<noteq> None \<longleftrightarrow> (\<exists>x. m = Some x \<and> f x \<noteq> None)"
  by (cases m) auto

section \<open>Arithmetic with overflow detection\<close>

text \<open>\<open>__builtin_add_overflow\<close> and \<open>__builtin_mul_overflow\<close> on \<open>uint64_t\<close>: None when the
  mathematical result does not fit.\<close>

definition add_overflow :: "u64 \<Rightarrow> u64 \<Rightarrow> u64 option" where
  "add_overflow a b = (if unat a + unat b < 2 ^ 64 then Some (a + b) else None)"

definition mul_overflow :: "u64 \<Rightarrow> u64 \<Rightarrow> u64 option" where
  "mul_overflow a b = (if unat a * unat b < 2 ^ 64 then Some (a * b) else None)"

lemma unat_u64_less: "unat (w :: u64) < 18446744073709551616"
proof -
  have "unat w < 2 ^ LENGTH(64)" by (rule unsigned_less)
  thus ?thesis by simp
qed

lemma unat_u64_bound: "unat (c :: u64) = n \<Longrightarrow> n < 2 ^ 64"
  using unat_u64_less[of c] by simp

lemma unat_add_small: "unat a + unat b < 2 ^ LENGTH('a) \<Longrightarrow> unat (a + b) = unat a + unat b"
  for a b :: "'a::len word"
  by (simp add: unat_add_lem)

lemma unat_mult_small: "unat a * unat b < 2 ^ LENGTH('a) \<Longrightarrow> unat (a * b) = unat a * unat b"
  for a b :: "'a::len word"
  by (simp add: unat_mult_lem)

lemma add_overflow_Some:
  "add_overflow a b = Some c \<longleftrightarrow> unat c = unat a + unat b"
proof
  assume "add_overflow a b = Some c"
  thus "unat c = unat a + unat b"
    using unat_add_small[of a b] by (auto simp: add_overflow_def split: if_splits)
next
  assume *: "unat c = unat a + unat b"
  then have lt: "unat a + unat b < 2 ^ 64" by (rule unat_u64_bound)
  hence "unat (a + b) = unat c" using * unat_add_small[of a b] by simp
  hence "c = a + b" by (simp add: word_unat_eq_iff)
  with lt show "add_overflow a b = Some c" by (simp add: add_overflow_def)
qed

lemma add_overflow_None: "add_overflow a b = None \<longleftrightarrow> 2 ^ 64 \<le> unat a + unat b"
  by (auto simp: add_overflow_def)

lemma mul_overflow_Some:
  "mul_overflow a b = Some c \<longleftrightarrow> unat c = unat a * unat b"
proof
  assume "mul_overflow a b = Some c"
  thus "unat c = unat a * unat b"
    using unat_mult_small[of a b] by (auto simp: mul_overflow_def split: if_splits)
next
  assume *: "unat c = unat a * unat b"
  hence lt: "unat a * unat b < 2 ^ 64" by (rule unat_u64_bound)
  hence "unat (a * b) = unat c" using * unat_mult_small[of a b] by simp
  hence "c = a * b" by (simp add: word_unat_eq_iff)
  with lt show "mul_overflow a b = Some c" by (simp add: mul_overflow_def)
qed

lemma mul_overflow_None: "mul_overflow a b = None \<longleftrightarrow> 2 ^ 64 \<le> unat a * unat b"
  by (auto simp: mul_overflow_def)

lemma unat_u32_less: "unat (w :: u32) < 4294967296"
proof -
  have "unat w < 2 ^ LENGTH(32)" by (rule unsigned_less)
  thus ?thesis by simp
qed

lemma unat_u32_u64 [simp]: "unat (ucast (w :: u32) :: u64) = unat w"
proof -
  have "unat w < 2 ^ 64" using unat_u32_less[of w] by simp
  thus ?thesis by (simp add: unsigned_ucast_eq take_bit_nat_eq_self)
qed

lemma unat_plus_1: "b + 1 \<noteq> 0 \<Longrightarrow> unat (b + 1) = Suc (unat b)" for b :: "'a::len word"
  using unatSuc[of b] by (simp add: add.commute)

lemma less_plus_1: "a < b \<Longrightarrow> b + 1 \<noteq> 0 \<Longrightarrow> a < b + 1" for a b :: "'a::len word"
  by (simp add: word_less_nat_alt unat_plus_1)

lemma self_less_plus_1: "b + 1 \<noteq> 0 \<Longrightarrow> b < b + 1" for b :: "'a::len word"
  by (simp add: word_less_nat_alt unat_plus_1)

lemma unat_plus_1_le [simp]: "unat (b + 1) \<le> Suc (unat b)" for b :: "'a::len word"
  by (cases "b + 1 = 0") (simp_all add: unat_plus_1)

lemma unat_diff_1: "w \<noteq> 0 \<Longrightarrow> unat (w - 1) = unat w - 1" for w :: "'a::len word"
  by (simp add: unat_minus_one)

lemma ucast_u32_eq_0 [simp]: "(ucast (w :: u32) :: u64) = 0 \<longleftrightarrow> w = 0"
  by (metis unat_u32_u64 unat_eq_0)

lemma add3_overflow_Some:
  "Option.bind (add_overflow a b) (\<lambda>n. Option.bind (add_overflow n c) (\<lambda>n. add_overflow n d)) = Some e
   \<longleftrightarrow> unat e = unat a + unat b + unat c + unat d"
proof
  assume e: "unat e = unat a + unat b + unat c + unat d"
  hence lt: "unat a + unat b + unat c + unat d < 2 ^ 64" using unat_u64_less[of e] by simp
  hence "unat (a + b) = unat a + unat b" "unat (a + b + c) = unat a + unat b + unat c"
    using unat_add_small[of a b] unat_add_small[of "a + b" c] by simp_all
  with e lt have "add_overflow a b = Some (a + b)" "add_overflow (a + b) c = Some (a + b + c)"
    "add_overflow (a + b + c) d = Some e" by (simp_all add: add_overflow_Some)
  thus "Option.bind (add_overflow a b) (\<lambda>n. Option.bind (add_overflow n c) (\<lambda>n. add_overflow n d)) = Some e"
    by simp
qed (auto simp: bind_Some_iff add_overflow_Some)

lemma add_overflow_u32: "add_overflow (ucast a) (ucast b) = Some (ucast a + ucast b)" for a b :: u32
  using unat_u32_less[of a] unat_u32_less[of b] by (simp add: add_overflow_def)

lemma unat_add_u32: "unat (ucast a + ucast b :: u64) = unat a + unat b" for a b :: u32
  using unat_u32_less[of a] unat_u32_less[of b] by (simp add: unat_add_small)

lemma mul4_u32: "mul_overflow (ucast a) 4 = Some (ucast a * 4)" for a :: u32
  using unat_u32_less[of a] by (simp add: mul_overflow_def)

lemma unat_mul4_u32: "unat (ucast a * 4 :: u64) = unat a * 4" for a :: u32
  using unat_u32_less[of a] by (subst unat_mult_small) simp_all

lemma and_not_mask_nat:
  "unat (w AND NOT (mask k)) = unat w - unat w mod 2 ^ k" for w :: u64
proof -
  have t: "w AND mask k = take_bit k w" by (simp add: take_bit_eq_mask)
  have u: "unat (take_bit k w) = unat w mod 2 ^ k"
    by (simp only: unsigned_take_bit_eq) (simp add: take_bit_eq_mod)
  have "w - take_bit k w = w AND NOT (take_bit k w)"
    by (rule disjunctive_diff_eq_and_not) (simp add: bit_eq_iff bit_simps)
  also have "\<dots> = w AND NOT (mask k)"
    by (auto simp: bit_eq_iff bit_simps)
  finally have "w AND NOT (mask k) = w - take_bit k w" ..
  moreover have "take_bit k w \<le> w"
    unfolding word_le_nat_alt u by simp
  ultimately show ?thesis using u by (simp add: unat_sub)
qed

lemma and_mask_nat: "unat (w AND mask k) = unat w mod 2 ^ k" for w :: "'a::len word"
  by (simp only: take_bit_eq_mask [symmetric] unsigned_take_bit_eq) (simp add: take_bit_eq_mod)

section \<open>First matching slot of a table\<close>

primrec first_index :: "('a \<Rightarrow> bool) \<Rightarrow> 'a list \<Rightarrow> nat option" where
  "first_index P [] = None"
| "first_index P (x # xs) = (if P x then Some 0 else map_option Suc (first_index P xs))"

lemma first_index_Some:
  "first_index P xs = Some i \<longleftrightarrow> i < length xs \<and> P (xs ! i) \<and> (\<forall>j<i. \<not> P (xs ! j))"
proof (induction xs arbitrary: i)
  case (Cons x xs)
  show ?case
    by (cases i) (auto simp: Cons.IH All_less_Suc2)
qed simp

lemma first_index_None: "first_index P xs = None \<longleftrightarrow> (\<forall>x\<in>set xs. \<not> P x)"
  by (induction xs) auto

lemma first_index_SomeD:
  assumes "first_index P xs = Some i" shows "i < length xs" "P (xs ! i)"
  using assms by (auto simp: first_index_Some)

lemma first_index_unique:
  assumes "i < length xs" "P (xs ! i)" "\<And>j. j < length xs \<Longrightarrow> P (xs ! j) \<Longrightarrow> j = i"
  shows "first_index P xs = Some i"
proof -
  have "\<not> P (xs ! j)" if "j < i" for j
    using that assms(1) assms(3)[of j] by auto
  with assms(1,2) show ?thesis by (simp add: first_index_Some)
qed

lemma first_index_cong:
  assumes "length xs = length ys" "\<And>i. i < length xs \<Longrightarrow> P (xs ! i) = Q (ys ! i)"
  shows "first_index P xs = first_index Q ys"
  using assms
proof (induction xs arbitrary: ys)
  case (Cons x xs)
  then obtain y ys' where ys: "ys = y # ys'" by (cases ys) auto
  have "P x = Q y" using Cons.prems(2)[of 0] ys by simp
  moreover have "first_index P xs = first_index Q ys'"
    using Cons.IH[of ys'] Cons.prems ys
    by (metis Suc_less_eq length_Cons nat.inject nth_Cons_Suc)
  ultimately show ?case using ys by simp
qed simp

end
