(* ===== verification/Gpu_Proto.thy ===== *)
theory Gpu_Proto
  imports Vgpu_Prelude
begin

text \<open>
  The virtio-gpu wire ABI of \<open>virtio_gpu_proto.h\<close>: command, response and flag codes, one record per
  packed structure and its byte layout (\<open>enc_...\<close>; the CPU is little-endian and the structures are
  packed, so the bytes a request occupies in memory are the concatenation of its fields).
  Responses are read back with \<open>dec_...\<close>.  The sizes asserted by \<open>UKVGPU_STATIC_ASSERTS\<close> are lemmas.
\<close>

named_theorems proto_consts "numeric values of the ABI constants"

section \<open>Constants\<close>

definition MAX_SCANOUTS :: nat where [proto_consts]: "MAX_SCANOUTS = 16"
definition MAX_CAPSET_PAYLOAD :: nat where [proto_consts]: "MAX_CAPSET_PAYLOAD = 4096"
definition EVENT_DISPLAY :: u32 where [proto_consts]: "EVENT_DISPLAY = 1"
definition CMD_GET_DISPLAY_INFO :: u32 where [proto_consts]: "CMD_GET_DISPLAY_INFO = 0x0100"
definition CMD_RESOURCE_CREATE_2D :: u32 where [proto_consts]: "CMD_RESOURCE_CREATE_2D = 0x0101"
definition CMD_RESOURCE_UNREF :: u32 where [proto_consts]: "CMD_RESOURCE_UNREF = 0x0102"
definition CMD_SET_SCANOUT :: u32 where [proto_consts]: "CMD_SET_SCANOUT = 0x0103"
definition CMD_RESOURCE_FLUSH :: u32 where [proto_consts]: "CMD_RESOURCE_FLUSH = 0x0104"
definition CMD_TRANSFER_TO_HOST_2D :: u32 where [proto_consts]: "CMD_TRANSFER_TO_HOST_2D = 0x0105"
definition CMD_RESOURCE_ATTACH_BACKING :: u32 where [proto_consts]: "CMD_RESOURCE_ATTACH_BACKING = 0x0106"
definition CMD_RESOURCE_DETACH_BACKING :: u32 where [proto_consts]: "CMD_RESOURCE_DETACH_BACKING = 0x0107"
definition CMD_GET_CAPSET_INFO :: u32 where [proto_consts]: "CMD_GET_CAPSET_INFO = 0x0108"
definition CMD_GET_CAPSET :: u32 where [proto_consts]: "CMD_GET_CAPSET = 0x0109"
definition CMD_GET_EDID :: u32 where [proto_consts]: "CMD_GET_EDID = 0x010a"
definition CMD_RESOURCE_ASSIGN_UUID :: u32 where [proto_consts]: "CMD_RESOURCE_ASSIGN_UUID = 0x010b"
definition CMD_RESOURCE_CREATE_BLOB :: u32 where [proto_consts]: "CMD_RESOURCE_CREATE_BLOB = 0x010c"
definition CMD_SET_SCANOUT_BLOB :: u32 where [proto_consts]: "CMD_SET_SCANOUT_BLOB = 0x010d"
definition CMD_CTX_CREATE :: u32 where [proto_consts]: "CMD_CTX_CREATE = 0x0200"
definition CMD_CTX_DESTROY :: u32 where [proto_consts]: "CMD_CTX_DESTROY = 0x0201"
definition CMD_CTX_ATTACH_RESOURCE :: u32 where [proto_consts]: "CMD_CTX_ATTACH_RESOURCE = 0x0202"
definition CMD_CTX_DETACH_RESOURCE :: u32 where [proto_consts]: "CMD_CTX_DETACH_RESOURCE = 0x0203"
definition CMD_RESOURCE_CREATE_3D :: u32 where [proto_consts]: "CMD_RESOURCE_CREATE_3D = 0x0204"
definition CMD_TRANSFER_TO_HOST_3D :: u32 where [proto_consts]: "CMD_TRANSFER_TO_HOST_3D = 0x0205"
definition CMD_TRANSFER_FROM_HOST_3D :: u32 where [proto_consts]: "CMD_TRANSFER_FROM_HOST_3D = 0x0206"
definition CMD_SUBMIT_3D :: u32 where [proto_consts]: "CMD_SUBMIT_3D = 0x0207"
definition CMD_RESOURCE_MAP_BLOB :: u32 where [proto_consts]: "CMD_RESOURCE_MAP_BLOB = 0x0208"
definition CMD_RESOURCE_UNMAP_BLOB :: u32 where [proto_consts]: "CMD_RESOURCE_UNMAP_BLOB = 0x0209"
definition RESP_OK_NODATA :: u32 where [proto_consts]: "RESP_OK_NODATA = 0x1100"
definition RESP_OK_DISPLAY_INFO :: u32 where [proto_consts]: "RESP_OK_DISPLAY_INFO = 0x1101"
definition RESP_OK_CAPSET_INFO :: u32 where [proto_consts]: "RESP_OK_CAPSET_INFO = 0x1102"
definition RESP_OK_CAPSET :: u32 where [proto_consts]: "RESP_OK_CAPSET = 0x1103"
definition RESP_OK_EDID :: u32 where [proto_consts]: "RESP_OK_EDID = 0x1104"
definition RESP_OK_RESOURCE_UUID :: u32 where [proto_consts]: "RESP_OK_RESOURCE_UUID = 0x1105"
definition RESP_OK_MAP_INFO :: u32 where [proto_consts]: "RESP_OK_MAP_INFO = 0x1106"
definition RESP_ERR_UNSPEC :: u32 where [proto_consts]: "RESP_ERR_UNSPEC = 0x1200"
definition RESP_ERR_OUT_OF_MEMORY :: u32 where [proto_consts]: "RESP_ERR_OUT_OF_MEMORY = 0x1201"
definition RESP_ERR_INVALID_SCANOUT_ID :: u32 where [proto_consts]: "RESP_ERR_INVALID_SCANOUT_ID = 0x1202"
definition RESP_ERR_INVALID_RESOURCE_ID :: u32 where [proto_consts]: "RESP_ERR_INVALID_RESOURCE_ID = 0x1203"
definition RESP_ERR_INVALID_CONTEXT_ID :: u32 where [proto_consts]: "RESP_ERR_INVALID_CONTEXT_ID = 0x1204"
definition RESP_ERR_INVALID_PARAMETER :: u32 where [proto_consts]: "RESP_ERR_INVALID_PARAMETER = 0x1205"
definition FLAG_FENCE :: u32 where [proto_consts]: "FLAG_FENCE = 1"
definition FLAG_INFO_RING_IDX :: u32 where [proto_consts]: "FLAG_INFO_RING_IDX = 2"
definition FORMAT_B8G8R8A8_UNORM :: u32 where [proto_consts]: "FORMAT_B8G8R8A8_UNORM = 1"
definition FORMAT_B8G8R8X8_UNORM :: u32 where [proto_consts]: "FORMAT_B8G8R8X8_UNORM = 2"
definition FORMAT_A8R8G8B8_UNORM :: u32 where [proto_consts]: "FORMAT_A8R8G8B8_UNORM = 3"
definition FORMAT_X8R8G8B8_UNORM :: u32 where [proto_consts]: "FORMAT_X8R8G8B8_UNORM = 4"
definition FORMAT_R8G8B8A8_UNORM :: u32 where [proto_consts]: "FORMAT_R8G8B8A8_UNORM = 67"
definition FORMAT_X8B8G8R8_UNORM :: u32 where [proto_consts]: "FORMAT_X8B8G8R8_UNORM = 68"
definition FORMAT_A8B8G8R8_UNORM :: u32 where [proto_consts]: "FORMAT_A8B8G8R8_UNORM = 121"
definition FORMAT_R8G8B8X8_UNORM :: u32 where [proto_consts]: "FORMAT_R8G8B8X8_UNORM = 134"
definition CONTEXT_INIT_CAPSET_ID_MASK :: u32 where [proto_consts]: "CONTEXT_INIT_CAPSET_ID_MASK = 0x000000ff"
definition BLOB_MEM_GUEST :: u32 where [proto_consts]: "BLOB_MEM_GUEST = 0x0001"
definition BLOB_MEM_HOST3D :: u32 where [proto_consts]: "BLOB_MEM_HOST3D = 0x0002"
definition BLOB_MEM_HOST3D_GUEST :: u32 where [proto_consts]: "BLOB_MEM_HOST3D_GUEST = 0x0003"
definition BLOB_FLAG_USE_MAPPABLE :: u32 where [proto_consts]: "BLOB_FLAG_USE_MAPPABLE = 0x0001"
definition BLOB_FLAG_USE_SHAREABLE :: u32 where [proto_consts]: "BLOB_FLAG_USE_SHAREABLE = 0x0002"
definition BLOB_FLAG_USE_CROSS_DEVICE :: u32 where [proto_consts]: "BLOB_FLAG_USE_CROSS_DEVICE = 0x0004"
definition MAP_CACHE_MASK :: u32 where [proto_consts]: "MAP_CACHE_MASK = 0x0f"
definition MAP_CACHE_NONE :: u32 where [proto_consts]: "MAP_CACHE_NONE = 0x00"
definition MAP_CACHE_CACHED :: u32 where [proto_consts]: "MAP_CACHE_CACHED = 0x01"
definition MAP_CACHE_UNCACHED :: u32 where [proto_consts]: "MAP_CACHE_UNCACHED = 0x02"
definition MAP_CACHE_WC :: u32 where [proto_consts]: "MAP_CACHE_WC = 0x03"

text \<open>Feature bit numbers.\<close>

definition VIRTIO_GPU_F_VIRGL :: nat where [proto_consts]: "VIRTIO_GPU_F_VIRGL = 0"
definition VIRTIO_GPU_F_EDID :: nat where [proto_consts]: "VIRTIO_GPU_F_EDID = 1"
definition VIRTIO_GPU_F_RESOURCE_UUID :: nat where [proto_consts]: "VIRTIO_GPU_F_RESOURCE_UUID = 2"
definition VIRTIO_GPU_F_RESOURCE_BLOB :: nat where [proto_consts]: "VIRTIO_GPU_F_RESOURCE_BLOB = 3"
definition VIRTIO_GPU_F_CONTEXT_INIT :: nat where [proto_consts]: "VIRTIO_GPU_F_CONTEXT_INIT = 4"
definition VIRTIO_GPU_F_BLOB_ALIGNMENT :: nat where [proto_consts]: "VIRTIO_GPU_F_BLOB_ALIGNMENT = 5"

section \<open>Structures\<close>

record ukvgpu_ctrl_hdr =
  hdr_type :: u32
  hdr_flags :: u32
  hdr_fence_id :: u64
  hdr_ctx_id :: u32
  hdr_ring_idx :: u8
  hdr_padding :: "u8 \<times> u8 \<times> u8"

definition enc_ctrl_hdr :: "ukvgpu_ctrl_hdr \<Rightarrow> u8 list" where
  "enc_ctrl_hdr h = le32 (hdr_type h) @ le32 (hdr_flags h) @ le64 (hdr_fence_id h)
     @ le32 (hdr_ctx_id h) @ [hdr_ring_idx h]
     @ (case hdr_padding h of (p0, p1, p2) \<Rightarrow> [p0, p1, p2])"

text \<open>Byte \<open>i\<close> of a buffer; the model only reads inside buffers of the structure's size.\<close>

definition byte_at :: "u8 list \<Rightarrow> nat \<Rightarrow> u8" where
  "byte_at bs i = (if i < length bs then bs ! i else 0)"

definition dec_ctrl_hdr :: "u8 list \<Rightarrow> ukvgpu_ctrl_hdr" where
  "dec_ctrl_hdr bs =
     \<lparr> hdr_type = un32 bs, hdr_flags = un32 (drop 4 bs), hdr_fence_id = un64 (drop 8 bs),
       hdr_ctx_id = un32 (drop 16 bs), hdr_ring_idx = byte_at bs 20,
       hdr_padding = (byte_at bs 21, byte_at bs 22, byte_at bs 23) \<rparr>"

definition ukvgpu_resp_type :: "ukvgpu_ctrl_hdr option \<Rightarrow> u32" where
  "ukvgpu_resp_type h = (case h of None \<Rightarrow> 0 | Some h' \<Rightarrow> hdr_type h')"

record ukvgpu_config =
  cfg_events_read :: u32
  cfg_events_clear :: u32
  cfg_num_scanouts :: u32
  cfg_num_capsets :: u32
  cfg_blob_alignment :: u32

record ukvgpu_rect =
  rc_x :: u32
  rc_y :: u32
  rc_width :: u32
  rc_height :: u32

definition enc_rect :: "ukvgpu_rect \<Rightarrow> u8 list" where
  "enc_rect r =
     le32 (rc_x r) @ le32 (rc_y r) @ le32 (rc_width r) @ le32 (rc_height r)"

record ukvgpu_display_one =
  dsp_r :: ukvgpu_rect
  dsp_enabled :: u32
  dsp_flags :: u32

definition enc_display_one :: "ukvgpu_display_one \<Rightarrow> u8 list" where
  "enc_display_one r =
     enc_rect (dsp_r r) @ le32 (dsp_enabled r) @ le32 (dsp_flags r)"

record ukvgpu_resp_display_info =
  rdi_hdr :: ukvgpu_ctrl_hdr
  rdi_pmodes :: "ukvgpu_display_one list"

record ukvgpu_resource_create_2d =
  c2d_hdr :: ukvgpu_ctrl_hdr
  c2d_resource_id :: u32
  c2d_format :: u32
  c2d_width :: u32
  c2d_height :: u32

definition enc_resource_create_2d :: "ukvgpu_resource_create_2d \<Rightarrow> u8 list" where
  "enc_resource_create_2d r =
     enc_ctrl_hdr (c2d_hdr r) @ le32 (c2d_resource_id r) @ le32 (c2d_format r)
     @ le32 (c2d_width r) @ le32 (c2d_height r)"

record ukvgpu_resource_unref =
  unref_hdr :: ukvgpu_ctrl_hdr
  unref_resource_id :: u32
  unref_padding :: u32

definition enc_resource_unref :: "ukvgpu_resource_unref \<Rightarrow> u8 list" where
  "enc_resource_unref r =
     enc_ctrl_hdr (unref_hdr r) @ le32 (unref_resource_id r) @ le32 (unref_padding r)"

record ukvgpu_set_scanout =
  sso_hdr :: ukvgpu_ctrl_hdr
  sso_r :: ukvgpu_rect
  sso_scanout_id :: u32
  sso_resource_id :: u32

definition enc_set_scanout :: "ukvgpu_set_scanout \<Rightarrow> u8 list" where
  "enc_set_scanout r =
     enc_ctrl_hdr (sso_hdr r) @ enc_rect (sso_r r) @ le32 (sso_scanout_id r)
     @ le32 (sso_resource_id r)"

record ukvgpu_resource_flush =
  flush_hdr :: ukvgpu_ctrl_hdr
  flush_r :: ukvgpu_rect
  flush_resource_id :: u32
  flush_padding :: u32

definition enc_resource_flush :: "ukvgpu_resource_flush \<Rightarrow> u8 list" where
  "enc_resource_flush r =
     enc_ctrl_hdr (flush_hdr r) @ enc_rect (flush_r r) @ le32 (flush_resource_id r)
     @ le32 (flush_padding r)"

record ukvgpu_transfer_to_host_2d =
  t2d_hdr :: ukvgpu_ctrl_hdr
  t2d_r :: ukvgpu_rect
  t2d_offset :: u64
  t2d_resource_id :: u32
  t2d_padding :: u32

definition enc_transfer_to_host_2d :: "ukvgpu_transfer_to_host_2d \<Rightarrow> u8 list" where
  "enc_transfer_to_host_2d r =
     enc_ctrl_hdr (t2d_hdr r) @ enc_rect (t2d_r r) @ le64 (t2d_offset r)
     @ le32 (t2d_resource_id r) @ le32 (t2d_padding r)"

record ukvgpu_resource_attach_backing =
  ab_hdr :: ukvgpu_ctrl_hdr
  ab_resource_id :: u32
  ab_nr_entries :: u32

definition enc_resource_attach_backing :: "ukvgpu_resource_attach_backing \<Rightarrow> u8 list" where
  "enc_resource_attach_backing r =
     enc_ctrl_hdr (ab_hdr r) @ le32 (ab_resource_id r) @ le32 (ab_nr_entries r)"

record ukvgpu_resource_detach_backing =
  db_hdr :: ukvgpu_ctrl_hdr
  db_resource_id :: u32
  db_padding :: u32

definition enc_resource_detach_backing :: "ukvgpu_resource_detach_backing \<Rightarrow> u8 list" where
  "enc_resource_detach_backing r =
     enc_ctrl_hdr (db_hdr r) @ le32 (db_resource_id r) @ le32 (db_padding r)"

record ukvgpu_mem_entry =
  me_addr :: u64
  me_length :: u32
  me_padding :: u32

definition enc_mem_entry :: "ukvgpu_mem_entry \<Rightarrow> u8 list" where
  "enc_mem_entry r =
     le64 (me_addr r) @ le32 (me_length r) @ le32 (me_padding r)"

record ukvgpu_get_capset_info =
  gci_hdr :: ukvgpu_ctrl_hdr
  gci_capset_index :: u32
  gci_padding :: u32

definition enc_get_capset_info :: "ukvgpu_get_capset_info \<Rightarrow> u8 list" where
  "enc_get_capset_info r =
     enc_ctrl_hdr (gci_hdr r) @ le32 (gci_capset_index r) @ le32 (gci_padding r)"

record ukvgpu_resp_capset_info =
  rci_hdr :: ukvgpu_ctrl_hdr
  rci_capset_id :: u32
  rci_capset_max_version :: u32
  rci_capset_max_size :: u32
  rci_padding :: u32

record ukvgpu_get_capset =
  gc_hdr :: ukvgpu_ctrl_hdr
  gc_capset_id :: u32
  gc_capset_version :: u32

definition enc_get_capset :: "ukvgpu_get_capset \<Rightarrow> u8 list" where
  "enc_get_capset r =
     enc_ctrl_hdr (gc_hdr r) @ le32 (gc_capset_id r) @ le32 (gc_capset_version r)"

record ukvgpu_resp_capset =
  rcs_hdr :: ukvgpu_ctrl_hdr
  rcs_capset_data :: "u8 list"

record ukvgpu_get_edid =
  ge_hdr :: ukvgpu_ctrl_hdr
  ge_scanout :: u32
  ge_padding :: u32

definition enc_get_edid :: "ukvgpu_get_edid \<Rightarrow> u8 list" where
  "enc_get_edid r =
     enc_ctrl_hdr (ge_hdr r) @ le32 (ge_scanout r) @ le32 (ge_padding r)"

record ukvgpu_resp_edid =
  redid_hdr :: ukvgpu_ctrl_hdr
  redid_size :: u32
  redid_padding :: u32
  redid_edid :: "u8 list"

record ukvgpu_resource_assign_uuid =
  uuid_hdr :: ukvgpu_ctrl_hdr
  uuid_resource_id :: u32
  uuid_padding :: u32

definition enc_resource_assign_uuid :: "ukvgpu_resource_assign_uuid \<Rightarrow> u8 list" where
  "enc_resource_assign_uuid r =
     enc_ctrl_hdr (uuid_hdr r) @ le32 (uuid_resource_id r) @ le32 (uuid_padding r)"

record ukvgpu_ctx_create =
  cc_hdr :: ukvgpu_ctrl_hdr
  cc_nlen :: u32
  cc_context_init :: u32
  cc_debug_name :: "u8 list"

definition enc_ctx_create :: "ukvgpu_ctx_create \<Rightarrow> u8 list" where
  "enc_ctx_create r =
     enc_ctrl_hdr (cc_hdr r) @ le32 (cc_nlen r) @ le32 (cc_context_init r)
     @ take 64 (cc_debug_name r @ replicate 64 0)"

record ukvgpu_ctx_resource =
  cr_hdr :: ukvgpu_ctrl_hdr
  cr_resource_id :: u32
  cr_padding :: u32

definition enc_ctx_resource :: "ukvgpu_ctx_resource \<Rightarrow> u8 list" where
  "enc_ctx_resource r =
     enc_ctrl_hdr (cr_hdr r) @ le32 (cr_resource_id r) @ le32 (cr_padding r)"

record ukvgpu_resource_create_3d =
  c3d_hdr :: ukvgpu_ctrl_hdr
  c3d_resource_id :: u32
  c3d_target :: u32
  c3d_format :: u32
  c3d_bind :: u32
  c3d_width :: u32
  c3d_height :: u32
  c3d_depth :: u32
  c3d_array_size :: u32
  c3d_last_level :: u32
  c3d_nr_samples :: u32
  c3d_flags :: u32
  c3d_padding :: u32

definition enc_resource_create_3d :: "ukvgpu_resource_create_3d \<Rightarrow> u8 list" where
  "enc_resource_create_3d r =
     enc_ctrl_hdr (c3d_hdr r) @ le32 (c3d_resource_id r) @ le32 (c3d_target r)
     @ le32 (c3d_format r) @ le32 (c3d_bind r) @ le32 (c3d_width r) @ le32 (c3d_height r)
     @ le32 (c3d_depth r) @ le32 (c3d_array_size r) @ le32 (c3d_last_level r)
     @ le32 (c3d_nr_samples r) @ le32 (c3d_flags r) @ le32 (c3d_padding r)"

record ukvgpu_transfer_host_3d =
  t3d_hdr :: ukvgpu_ctrl_hdr
  t3d_resource_id :: u32
  t3d_level :: u32
  t3d_box_x :: u32
  t3d_box_y :: u32
  t3d_box_z :: u32
  t3d_box_w :: u32
  t3d_box_h :: u32
  t3d_box_d :: u32
  t3d_offset :: u64
  t3d_stride :: u32
  t3d_layer_stride :: u32

definition enc_transfer_host_3d :: "ukvgpu_transfer_host_3d \<Rightarrow> u8 list" where
  "enc_transfer_host_3d r =
     enc_ctrl_hdr (t3d_hdr r) @ le32 (t3d_resource_id r) @ le32 (t3d_level r)
     @ le32 (t3d_box_x r) @ le32 (t3d_box_y r) @ le32 (t3d_box_z r) @ le32 (t3d_box_w r)
     @ le32 (t3d_box_h r) @ le32 (t3d_box_d r) @ le64 (t3d_offset r) @ le32 (t3d_stride r)
     @ le32 (t3d_layer_stride r)"

record ukvgpu_cmd_submit_3d =
  s3d_hdr :: ukvgpu_ctrl_hdr
  s3d_size :: u32
  s3d_padding :: u32

definition enc_cmd_submit_3d :: "ukvgpu_cmd_submit_3d \<Rightarrow> u8 list" where
  "enc_cmd_submit_3d r =
     enc_ctrl_hdr (s3d_hdr r) @ le32 (s3d_size r) @ le32 (s3d_padding r)"

record ukvgpu_resource_create_blob =
  cb_hdr :: ukvgpu_ctrl_hdr
  cb_resource_id :: u32
  cb_blob_mem :: u32
  cb_blob_flags :: u32
  cb_nr_entries :: u32
  cb_blob_id :: u64
  cb_size :: u64

definition enc_resource_create_blob :: "ukvgpu_resource_create_blob \<Rightarrow> u8 list" where
  "enc_resource_create_blob r =
     enc_ctrl_hdr (cb_hdr r) @ le32 (cb_resource_id r) @ le32 (cb_blob_mem r)
     @ le32 (cb_blob_flags r) @ le32 (cb_nr_entries r) @ le64 (cb_blob_id r) @ le64 (cb_size r)"

record ukvgpu_resource_map_blob =
  mb_hdr :: ukvgpu_ctrl_hdr
  mb_resource_id :: u32
  mb_padding :: u32
  mb_offset :: u64

definition enc_resource_map_blob :: "ukvgpu_resource_map_blob \<Rightarrow> u8 list" where
  "enc_resource_map_blob r =
     enc_ctrl_hdr (mb_hdr r) @ le32 (mb_resource_id r) @ le32 (mb_padding r)
     @ le64 (mb_offset r)"

record ukvgpu_resp_map_info =
  rmi_hdr :: ukvgpu_ctrl_hdr
  rmi_map_info :: u32
  rmi_padding :: u32

record ukvgpu_resource_unmap_blob =
  ub_hdr :: ukvgpu_ctrl_hdr
  ub_resource_id :: u32
  ub_padding :: u32

definition enc_resource_unmap_blob :: "ukvgpu_resource_unmap_blob \<Rightarrow> u8 list" where
  "enc_resource_unmap_blob r =
     enc_ctrl_hdr (ub_hdr r) @ le32 (ub_resource_id r) @ le32 (ub_padding r)"


section \<open>Reading responses\<close>

definition dec_rect :: "u8 list \<Rightarrow> ukvgpu_rect" where
  "dec_rect bs = \<lparr> rc_x = un32 bs, rc_y = un32 (drop 4 bs), rc_width = un32 (drop 8 bs),
     rc_height = un32 (drop 12 bs) \<rparr>"

definition dec_display_one :: "u8 list \<Rightarrow> ukvgpu_display_one" where
  "dec_display_one bs = \<lparr> dsp_r = dec_rect bs, dsp_enabled = un32 (drop 16 bs),
     dsp_flags = un32 (drop 20 bs) \<rparr>"

definition dec_resp_display_info :: "u8 list \<Rightarrow> ukvgpu_resp_display_info" where
  "dec_resp_display_info bs = \<lparr> rdi_hdr = dec_ctrl_hdr bs,
     rdi_pmodes = map (\<lambda>i. dec_display_one (drop (24 + 24 * i) bs)) [0..<MAX_SCANOUTS] \<rparr>"

definition dec_resp_capset_info :: "u8 list \<Rightarrow> ukvgpu_resp_capset_info" where
  "dec_resp_capset_info bs = \<lparr> rci_hdr = dec_ctrl_hdr bs, rci_capset_id = un32 (drop 24 bs),
     rci_capset_max_version = un32 (drop 28 bs), rci_capset_max_size = un32 (drop 32 bs),
     rci_padding = un32 (drop 36 bs) \<rparr>"

definition dec_resp_capset :: "u8 list \<Rightarrow> ukvgpu_resp_capset" where
  "dec_resp_capset bs = \<lparr> rcs_hdr = dec_ctrl_hdr bs,
     rcs_capset_data = take MAX_CAPSET_PAYLOAD (drop 24 bs) \<rparr>"

definition dec_resp_edid :: "u8 list \<Rightarrow> ukvgpu_resp_edid" where
  "dec_resp_edid bs = \<lparr> redid_hdr = dec_ctrl_hdr bs, redid_size = un32 (drop 24 bs),
     redid_padding = un32 (drop 28 bs), redid_edid = take 1024 (drop 32 bs) \<rparr>"

definition dec_resp_map_info :: "u8 list \<Rightarrow> ukvgpu_resp_map_info" where
  "dec_resp_map_info bs = \<lparr> rmi_hdr = dec_ctrl_hdr bs, rmi_map_info = un32 (drop 24 bs),
     rmi_padding = un32 (drop 28 bs) \<rparr>"

text \<open>\<open>sizeof\<close> of the response structures, as the callers pass them to the control queue.\<close>

definition sizeof_ctrl_hdr :: nat where [proto_consts]: "sizeof_ctrl_hdr = 24"
definition sizeof_display_one :: nat where [proto_consts]: "sizeof_display_one = 24"
definition sizeof_resp_display_info :: nat where [proto_consts]:
  "sizeof_resp_display_info = 24 + 16 * 24"
definition sizeof_resp_capset_info :: nat where [proto_consts]: "sizeof_resp_capset_info = 40"
definition sizeof_resp_capset :: nat where [proto_consts]: "sizeof_resp_capset = 24 + 4096"
definition sizeof_resp_edid :: nat where [proto_consts]: "sizeof_resp_edid = 32 + 1024"
definition sizeof_resp_map_info :: nat where [proto_consts]: "sizeof_resp_map_info = 32"

section \<open>Layout lemmas\<close>

lemma length_enc_ctrl_hdr [simp, le_simps]: "length (enc_ctrl_hdr h) = 24"
  by (simp add: enc_ctrl_hdr_def split: prod.splits)

lemma length_enc_rect [simp, le_simps]: "length (enc_rect r) = 16"
  by (simp add: enc_rect_def)

lemma length_enc_display_one [simp, le_simps]: "length (enc_display_one r) = 24"
  by (simp add: enc_display_one_def)

lemma length_enc_resource_create_2d [simp, le_simps]: "length (enc_resource_create_2d r) = 40"
  by (simp add: enc_resource_create_2d_def)

lemma length_enc_resource_unref [simp, le_simps]: "length (enc_resource_unref r) = 32"
  by (simp add: enc_resource_unref_def)

lemma length_enc_set_scanout [simp, le_simps]: "length (enc_set_scanout r) = 48"
  by (simp add: enc_set_scanout_def)

lemma length_enc_resource_flush [simp, le_simps]: "length (enc_resource_flush r) = 48"
  by (simp add: enc_resource_flush_def)

lemma length_enc_transfer_to_host_2d [simp, le_simps]: "length (enc_transfer_to_host_2d r) = 56"
  by (simp add: enc_transfer_to_host_2d_def)

lemma length_enc_resource_attach_backing [simp, le_simps]: "length (enc_resource_attach_backing r) = 32"
  by (simp add: enc_resource_attach_backing_def)

lemma length_enc_resource_detach_backing [simp, le_simps]: "length (enc_resource_detach_backing r) = 32"
  by (simp add: enc_resource_detach_backing_def)

lemma length_enc_mem_entry [simp, le_simps]: "length (enc_mem_entry r) = 16"
  by (simp add: enc_mem_entry_def)

lemma length_enc_get_capset_info [simp, le_simps]: "length (enc_get_capset_info r) = 32"
  by (simp add: enc_get_capset_info_def)

lemma length_enc_get_capset [simp, le_simps]: "length (enc_get_capset r) = 32"
  by (simp add: enc_get_capset_def)

lemma length_enc_get_edid [simp, le_simps]: "length (enc_get_edid r) = 32"
  by (simp add: enc_get_edid_def)

lemma length_enc_resource_assign_uuid [simp, le_simps]: "length (enc_resource_assign_uuid r) = 32"
  by (simp add: enc_resource_assign_uuid_def)

lemma length_enc_ctx_create [simp, le_simps]: "length (enc_ctx_create r) = 96"
  by (simp add: enc_ctx_create_def)

lemma length_enc_ctx_resource [simp, le_simps]: "length (enc_ctx_resource r) = 32"
  by (simp add: enc_ctx_resource_def)

lemma length_enc_resource_create_3d [simp, le_simps]: "length (enc_resource_create_3d r) = 72"
  by (simp add: enc_resource_create_3d_def)

lemma length_enc_transfer_host_3d [simp, le_simps]: "length (enc_transfer_host_3d r) = 72"
  by (simp add: enc_transfer_host_3d_def)

lemma length_enc_cmd_submit_3d [simp, le_simps]: "length (enc_cmd_submit_3d r) = 32"
  by (simp add: enc_cmd_submit_3d_def)

lemma length_enc_resource_create_blob [simp, le_simps]: "length (enc_resource_create_blob r) = 56"
  by (simp add: enc_resource_create_blob_def)

lemma length_enc_resource_map_blob [simp, le_simps]: "length (enc_resource_map_blob r) = 40"
  by (simp add: enc_resource_map_blob_def)

lemma length_enc_resource_unmap_blob [simp, le_simps]: "length (enc_resource_unmap_blob r) = 32"
  by (simp add: enc_resource_unmap_blob_def)


lemma byte_at_append [simp]:
  "byte_at (xs @ ys) i = (if i < length xs then xs ! i else byte_at ys (i - length xs))"
  by (auto simp: byte_at_def nth_append)

lemma byte_at_Cons [simp]: "byte_at (x # xs) i = (if i = 0 then x else byte_at xs (i - 1))"
  by (auto simp: byte_at_def nth_Cons split: nat.splits)

lemma dec_enc_ctrl_hdr [simp]: "dec_ctrl_hdr (enc_ctrl_hdr h @ rest) = h"
  by (cases h) (auto simp: dec_ctrl_hdr_def enc_ctrl_hdr_def split: prod.splits)

lemma enc_ctrl_hdr_inj [simp]: "enc_ctrl_hdr a = enc_ctrl_hdr b \<longleftrightarrow> a = b"
  by (metis append_Nil2 dec_enc_ctrl_hdr)


text \<open>A control header occupies 24 bytes and is read back as it was written, whatever
  follows it; conversely 24 bytes read as a header are written back byte for byte, so the layout has
  no gap and no field overlaps another.\<close>

theorem ctrl_header_roundtrip:
  "length (enc_ctrl_hdr h) = 24 \<and> dec_ctrl_hdr (enc_ctrl_hdr h @ rest) = h \<and>
   (length bs = 24 \<longrightarrow> enc_ctrl_hdr (dec_ctrl_hdr bs) = bs)"
proof (intro conjI impI)
  assume l: "length bs = 24"
  have "enc_ctrl_hdr (dec_ctrl_hdr bs) = take 4 bs @ take 4 (drop 4 bs) @ take 8 (drop 8 bs)
      @ take 4 (drop 16 bs) @ [bs ! 20, bs ! 21, bs ! 22, bs ! 23]"
    using l by (simp add: enc_ctrl_hdr_def dec_ctrl_hdr_def le32_un32 le64_un64 byte_at_def)
  also have "[bs ! 20, bs ! 21, bs ! 22, bs ! 23] = take 4 (drop 20 bs)"
  proof -
    have four: "xs = [xs ! 0, xs ! 1, xs ! 2, xs ! 3]" if "length xs = 4" for xs :: "u8 list"
      using that by (cases xs rule: un32.cases) auto
    from four[of "drop 20 bs"] show ?thesis using l by simp
  qed
  also have "take 4 bs @ take 4 (drop 4 bs) @ take 8 (drop 8 bs) @ take 4 (drop 16 bs) @ take 4 (drop 20 bs)
      = take (4 + 4 + 8 + 4 + 4) bs"
    by (simp only: take_add) simp
  finally show "enc_ctrl_hdr (dec_ctrl_hdr bs) = bs" using l by simp
qed simp_all

lemma ctrl_header_roundtrip_witness:
  "enc_ctrl_hdr (dec_ctrl_hdr (replicate 24 7)) = replicate 24 7"
  using ctrl_header_roundtrip[of undefined "[]" "replicate 24 7"] by simp

text \<open>The sizes and offsets asserted by \<open>UKVGPU_STATIC_ASSERTS\<close> hold of the modelled
  layouts.\<close>

theorem static_asserts:
  "length (enc_ctrl_hdr h) = 24 \<and>
   take 8 (drop 8 (enc_ctrl_hdr h)) = le64 (hdr_fence_id h) \<and>
   length (enc_rect r) = 16 \<and> length (enc_resource_create_2d c2) = 40 \<and>
   length (enc_set_scanout so) = 48 \<and> length (enc_transfer_to_host_2d t2) = 56 \<and>
   length (enc_resource_attach_backing ab) = 32 \<and> length (enc_mem_entry me) = 16 \<and>
   sizeof_resp_display_info = 408 \<and> sizeof_resp_capset_info = 40 \<and>
   length (enc_get_capset gc) = 32 \<and> length (enc_ctx_create cc) = 96 \<and>
   length (enc_resource_create_blob cb) = 56 \<and> length (enc_resource_map_blob mb) = 40"
  by (simp add: sizeof_resp_display_info_def sizeof_resp_capset_info_def enc_ctrl_hdr_def split: prod.split)

end
