(* ===== verification/Slot_Table.thy ===== *)
theory Slot_Table
  imports Vgpu_Prelude
begin

text \<open>
  The interface of a fixed-size table of slots, each free or live with an identifier: find a live
  slot by identifier, find a free slot.  The driver keeps its resources and its contexts in such
  tables.  The lemmas say what a lookup returns after a slot is filled, changed or cleared.
\<close>

locale slot_table =
  fixes live :: "'e \<Rightarrow> bool"
    and ident :: "'e \<Rightarrow> 'k"
    and null :: 'k
    and find :: "'e list \<Rightarrow> 'k \<Rightarrow> nat option"
    and free :: "'e list \<Rightarrow> nat option"
  assumes find_sound: "find tab k = Some i \<Longrightarrow>
      i < length tab \<and> live (tab ! i) \<and> ident (tab ! i) = k \<and> k \<noteq> null"
    and find_complete: "i < length tab \<Longrightarrow> live (tab ! i) \<Longrightarrow> ident (tab ! i) = k \<Longrightarrow> k \<noteq> null \<Longrightarrow>
      find tab k \<noteq> None"
    and free_sound: "free tab = Some i \<Longrightarrow> i < length tab \<and> \<not> live (tab ! i)"
    and free_complete: "i < length tab \<Longrightarrow> \<not> live (tab ! i) \<Longrightarrow> free tab \<noteq> None"
begin

definition uniq :: "'e list \<Rightarrow> bool" where
  "uniq tab \<longleftrightarrow> (\<forall>i<length tab. \<forall>j<length tab.
     live (tab ! i) \<longrightarrow> live (tab ! j) \<longrightarrow> ident (tab ! i) = ident (tab ! j) \<longrightarrow> i = j)"

lemma uniqD:
  "uniq tab \<Longrightarrow> i < length tab \<Longrightarrow> j < length tab \<Longrightarrow> live (tab ! i) \<Longrightarrow> live (tab ! j) \<Longrightarrow>
   ident (tab ! i) = ident (tab ! j) \<Longrightarrow> i = j"
  unfolding uniq_def by blast

lemma uniq_fill:
  assumes "uniq tab" "i < length tab"
    "\<And>j. j < length tab \<Longrightarrow> live (tab ! j) \<Longrightarrow> j \<noteq> i \<Longrightarrow> ident (tab ! j) \<noteq> ident e"
  shows "uniq (tab[i := e])"
  using assms unfolding uniq_def by (simp add: nth_list_update) metis

lemma uniq_kill:
  assumes "uniq tab" "\<not> live e" shows "uniq (tab[i := e])"
  using assms unfolding uniq_def by (cases "i < length tab") (simp_all add: nth_list_update)

lemma uniq_change:
  assumes "uniq tab" "live e \<Longrightarrow> live (tab ! i)" "ident e = ident (tab ! i)"
  shows "uniq (tab[i := e])"
  using assms unfolding uniq_def by (cases "i < length tab") (auto simp: nth_list_update)

lemma find_iff:
  assumes "uniq tab" "k \<noteq> null"
  shows "find tab k = Some i \<longleftrightarrow> i < length tab \<and> live (tab ! i) \<and> ident (tab ! i) = k"
proof
  assume *: "i < length tab \<and> live (tab ! i) \<and> ident (tab ! i) = k"
  with find_complete assms(2) obtain j where j: "find tab k = Some j" by blast
  hence "j = i" using find_sound[OF j] * uniqD[OF assms(1)] by blast
  thus "find tab k = Some i" using j by simp
qed (use find_sound in blast)

lemma find_null: "find tab null = None"
  using find_sound[of tab null] by (cases "find tab null") auto

lemma find_None_iff:
  assumes "k \<noteq> null"
  shows "find tab k = None \<longleftrightarrow> (\<forall>i<length tab. live (tab ! i) \<longrightarrow> ident (tab ! i) \<noteq> k)"
  using assms find_sound find_complete by (cases "find tab k") blast+

lemma find_filled:
  assumes "uniq (tab[i := e])" "i < length tab" "live e" "ident e \<noteq> null"
  shows "find (tab[i := e]) (ident e) = Some i"
  using find_iff[OF assms(1,4)] assms by simp

lemma find_cleared:
  assumes "uniq tab" "find tab k = Some i" "\<not> live e"
  shows "find (tab[i := e]) k = None"
proof -
  note s = find_sound[OF assms(2)]
  have "ident (tab ! j) \<noteq> k" if "j < length tab" "live (tab ! j)" "j \<noteq> i" for j
    using uniqD[OF assms(1), of i j] s that by blast
  thus ?thesis using s assms(3) by (auto simp: find_None_iff nth_list_update)
qed

lemma find_other:
  assumes "uniq tab" "uniq (tab[i := e])" "i < length tab"
    "live e \<Longrightarrow> ident e \<noteq> k" "live (tab ! i) \<Longrightarrow> ident (tab ! i) \<noteq> k"
  shows "find (tab[i := e]) k = find tab k"
proof (cases "k = null")
  case True thus ?thesis by (simp add: find_null)
next
  case False
  have "find (tab[i := e]) k = Some j \<longleftrightarrow> find tab k = Some j" for j
    using assms find_iff[OF assms(1) False, of j] find_iff[OF assms(2) False, of j]
    by (cases "j = i") auto
  thus ?thesis by (cases "find tab k") (metis option.exhaust, simp)
qed

lemma free_None_iff: "free tab = None \<longleftrightarrow> (\<forall>i<length tab. live (tab ! i))"
  using free_sound free_complete by (cases "free tab") blast+

end

end
