(* ===== verification/Gpu_Device.thy ===== *)
theory Gpu_Device
  imports Gpu_Proto Slot_Table
begin

text \<open>
  The device state of \<open>virtio_gpu_real_priv.h\<close>, slot lookup and allocation, and the control queue:
  \<open>cmd_submit\<close> sends the bytes of one request, polls for its completion and classifies the response.

  Unikraft's virtqueue, scatter-gather lists, clock and heap are not part of the repository: they are
  the fields of \<open>'h env\<close>, functions on an abstract state \<open>'h\<close> of the platform and the host.  A
  \<open>'h sys\<close> is the device record, that platform state and the depth of the recursive mutex
  \<open>g_ctrlq_lock\<close>.  Polling may never end, so an operation that polls returns an \<open>option\<close>:
  None stands for a call that does not return.
\<close>

section \<open>State\<close>

definition UKVGPU_MAX_RESOURCES :: nat where [proto_consts]: "UKVGPU_MAX_RESOURCES = 128"
definition UKVGPU_MAX_CONTEXTS :: nat where [proto_consts]: "UKVGPU_MAX_CONTEXTS = 32"
definition UKVGPU_CTRLQ :: u32 where [proto_consts]: "UKVGPU_CTRLQ = 0"
definition UKVGPU_CURSORQ :: u32 where [proto_consts]: "UKVGPU_CURSORQ = 1"
definition UKVGPU_NR_QUEUES :: u32 where [proto_consts]: "UKVGPU_NR_QUEUES = 2"

record ukvgpu_resource_state =
  r_id :: u32
  r_live :: bool
  r_is_3d :: bool
  r_backing_attached :: bool
  r_is_blob :: bool
  r_mapped :: bool
  r_width :: u32
  r_height :: u32
  r_depth :: u32
  r_format :: u32
  r_blob_mem :: u32
  r_blob_flags :: u32
  r_map_info :: u32
  r_size :: u64
  r_blob_id :: u64
  r_host_visible_offset :: u64

definition zero_resource :: ukvgpu_resource_state where
  "zero_resource = \<lparr> r_id = 0, r_live = False, r_is_3d = False, r_backing_attached = False,
     r_is_blob = False, r_mapped = False, r_width = 0, r_height = 0, r_depth = 0, r_format = 0,
     r_blob_mem = 0, r_blob_flags = 0, r_map_info = 0, r_size = 0, r_blob_id = 0,
     r_host_visible_offset = 0 \<rparr>"

record ukvgpu_context_state =
  c_id :: u32
  c_capset_id :: u32
  c_live :: bool

definition zero_context :: ukvgpu_context_state where
  "zero_context = \<lparr> c_id = 0, c_capset_id = 0, c_live = False \<rparr>"

record uk_virtio_gpu_shm_region =
  shm_id :: u32
  shm_phys_addr :: u64
  shm_size :: u64
  shm_addr :: u64

record uk_virtio_gpu_metrics =
  m_probes :: u64
  m_resources_created :: u64
  m_resources_unrefed :: u64
  m_attach_calls :: u64
  m_detach_calls :: u64
  m_transfers_to_host :: u64
  m_transfers_from_host :: u64
  m_flushes :: u64
  m_fences_issued :: u64
  m_fence_waits :: u64
  m_contexts_created :: u64
  m_contexts_destroyed :: u64
  m_submits_3d :: u64
  m_blobs_created :: u64
  m_blobs_mapped :: u64
  m_blobs_unmapped :: u64
  m_bytes_to_host :: u64
  m_bytes_from_host :: u64

definition zero_metrics :: uk_virtio_gpu_metrics where
  "zero_metrics = \<lparr> m_probes = 0, m_resources_created = 0, m_resources_unrefed = 0,
     m_attach_calls = 0, m_detach_calls = 0, m_transfers_to_host = 0, m_transfers_from_host = 0,
     m_flushes = 0, m_fences_issued = 0, m_fence_waits = 0, m_contexts_created = 0,
     m_contexts_destroyed = 0, m_submits_3d = 0, m_blobs_created = 0, m_blobs_mapped = 0,
     m_blobs_unmapped = 0, m_bytes_to_host = 0, m_bytes_from_host = 0 \<rparr>"

text \<open>\<open>ctrlq\<close> and \<open>cursorq\<close> say whether the queue pointers are set.  The arrays \<open>resources\<close>,
  \<open>contexts\<close> and \<open>scanouts\<close> have their declared lengths in every state (\<open>dev_inv\<close>), so a loop up
  to the declared length is a loop over the list.\<close>

record uk_virtio_gpu_dev =
  ctrlq :: bool
  cursorq :: bool
  host_features :: u64
  negotiated_features :: u64
  num_scanouts :: u32
  num_capsets :: u32
  events_read :: u32
  blob_alignment :: u32
  next_blob_map_offset :: u64
  host_visible :: uk_virtio_gpu_shm_region
  scanouts :: "ukvgpu_display_one list"
  next_res :: u32
  next_ctx :: u32
  next_fence :: u64
  completed_fence :: u64
  resources :: "ukvgpu_resource_state list"
  contexts :: "ukvgpu_context_state list"
  metrics :: uk_virtio_gpu_metrics

text \<open>Result of one non-blocking look at the used ring: nothing yet (\<open>-ENOMSG\<close>), an error, or a
  completion with its cookie (is it ours?), the used length and the bytes the device wrote.\<close>

datatype vq_result = VqEmpty | VqError errno | VqDone bool u32 "u8 list"

record 'h env =
  env_sg_append :: "nat \<Rightarrow> u64 \<Rightarrow> 'h \<Rightarrow> errno option \<times> 'h"
  env_vq_enqueue :: "u8 list \<Rightarrow> u64 \<Rightarrow> 'h \<Rightarrow> errno option \<times> 'h"
  env_vq_notify :: "'h \<Rightarrow> 'h"
  env_vq_dequeue :: "'h \<Rightarrow> vq_result \<times> 'h"
  env_now_ns :: "'h \<Rightarrow> u64 \<times> 'h"
  env_malloc :: "u64 \<Rightarrow> 'h \<Rightarrow> bool \<times> 'h"
  env_free :: "'h \<Rightarrow> 'h"

record 'h sys =
  vg :: uk_virtio_gpu_dev
  host :: 'h
  g_ctrlq_lock :: nat

section \<open>Small helpers\<close>

definition resource_size_bytes :: "u32 \<Rightarrow> u32 \<Rightarrow> u32 \<Rightarrow> u64" where
  "resource_size_bytes w h d =
     (let wh = ucast w * ucast h in wh * ucast (if d \<noteq> 0 then d else 1) * 4)"

definition compat_format :: "u32 \<Rightarrow> u32" where
  "compat_format fmt = (if fmt = 1 then FORMAT_B8G8R8X8_UNORM else fmt)"

definition find_res :: "uk_virtio_gpu_dev \<Rightarrow> u32 \<Rightarrow> nat option" where
  "find_res d i = (if i = 0 then None
     else first_index (\<lambda>r. r_live r \<and> r_id r = i) (resources d))"

definition alloc_res :: "uk_virtio_gpu_dev \<Rightarrow> (nat \<times> uk_virtio_gpu_dev) option" where
  "alloc_res d = (case first_index (\<lambda>r. \<not> r_live r) (resources d) of
     None \<Rightarrow> None
   | Some i \<Rightarrow> Some (i, d\<lparr>
       resources := (resources d)[i := zero_resource\<lparr>r_id := next_res d, r_live := True\<rparr>],
       next_res := next_res d + 1,
       metrics := (metrics d)\<lparr>m_resources_created := m_resources_created (metrics d) + 1\<rparr>\<rparr>))"

definition find_ctx :: "uk_virtio_gpu_dev \<Rightarrow> u32 \<Rightarrow> nat option" where
  "find_ctx d i = (if i = 0 then None
     else first_index (\<lambda>c. c_live c \<and> c_id c = i) (contexts d))"

definition alloc_ctx :: "uk_virtio_gpu_dev \<Rightarrow> (nat \<times> uk_virtio_gpu_dev) option" where
  "alloc_ctx d = (case first_index (\<lambda>c. \<not> c_live c) (contexts d) of
     None \<Rightarrow> None
   | Some i \<Rightarrow> Some (i, d\<lparr>
       contexts := (contexts d)[i := zero_context\<lparr>c_id := next_ctx d, c_live := True\<rparr>],
       next_ctx := next_ctx d + 1\<rparr>))"

text \<open>Writing through a slot pointer, and \<open>memset\<close> of a slot.\<close>

definition res_upd :: "nat \<Rightarrow> (ukvgpu_resource_state \<Rightarrow> ukvgpu_resource_state)
    \<Rightarrow> uk_virtio_gpu_dev \<Rightarrow> uk_virtio_gpu_dev" where
  "res_upd i f d = d\<lparr>resources := (resources d)[i := f (resources d ! i)]\<rparr>"

definition ctx_upd :: "nat \<Rightarrow> (ukvgpu_context_state \<Rightarrow> ukvgpu_context_state)
    \<Rightarrow> uk_virtio_gpu_dev \<Rightarrow> uk_virtio_gpu_dev" where
  "ctx_upd i f d = d\<lparr>contexts := (contexts d)[i := f (contexts d ! i)]\<rparr>"

definition gpu_resp_errno :: "u32 \<Rightarrow> errno option" where
  "gpu_resp_errno t =
    (if t = RESP_OK_NODATA \<or> t = RESP_OK_DISPLAY_INFO \<or> t = RESP_OK_CAPSET_INFO \<or>
        t = RESP_OK_CAPSET \<or> t = RESP_OK_EDID \<or> t = RESP_OK_RESOURCE_UUID \<or> t = RESP_OK_MAP_INFO
     then None
     else if t = RESP_ERR_OUT_OF_MEMORY then Some ENOMEM
     else if t = RESP_ERR_INVALID_SCANOUT_ID \<or> t = RESP_ERR_INVALID_RESOURCE_ID \<or>
        t = RESP_ERR_INVALID_CONTEXT_ID \<or> t = RESP_ERR_INVALID_PARAMETER then Some EINVAL
     else Some EIO)"

text \<open>\<open>hdr_init\<close> takes whether the caller passed a fence pointer and returns what it stored there.\<close>

definition hdr_init :: "uk_virtio_gpu_dev \<Rightarrow> u32 \<Rightarrow> bool \<Rightarrow> u32
    \<Rightarrow> ukvgpu_ctrl_hdr \<times> u64 option \<times> uk_virtio_gpu_dev" where
  "hdr_init d t fence ctx =
    (let h = \<lparr> hdr_type = t, hdr_flags = 0, hdr_fence_id = 0, hdr_ctx_id = ctx, hdr_ring_idx = 0,
               hdr_padding = (0, 0, 0) \<rparr>
     in if fence
        then (h\<lparr>hdr_flags := FLAG_FENCE, hdr_fence_id := next_fence d\<rparr>, Some (next_fence d),
              d\<lparr>next_fence := next_fence d + 1\<rparr>)
        else (h, None, d))"

section \<open>The control queue\<close>

definition CMD_TIMEOUT_NS :: u64 where [proto_consts]: "CMD_TIMEOUT_NS = 5000000000"
definition MAX_CMD_SEGS :: nat where [proto_consts]: "MAX_CMD_SEGS = 4"

partial_function (option) dequeue_spin ::
    "'h env \<Rightarrow> u64 \<Rightarrow> 'h \<Rightarrow> ((errno + bool \<times> u32 \<times> u8 list) \<times> 'h) option" where
  "dequeue_spin e deadline h =
    (case env_vq_dequeue e h of
       (VqDone own used dat, h1) \<Rightarrow> Some (Inr (own, used, dat), h1)
     | (VqError er, h1) \<Rightarrow> Some (Inl er, h1)
     | (VqEmpty, h1) \<Rightarrow>
         (case env_now_ns e h1 of (t, h2) \<Rightarrow>
            if deadline < t then Some (Inl ETIMEDOUT, h2) else dequeue_spin e deadline h2))"

text \<open>The response classification after a completion: \<open>resp\<close> is the response buffer, zeroed by
  the caller and overwritten from its start by the device.\<close>

definition cmd_response :: "u32 \<Rightarrow> bool \<Rightarrow> u32 \<Rightarrow> u8 list \<Rightarrow> u32 \<Rightarrow> u64 option
    \<Rightarrow> uk_virtio_gpu_dev \<Rightarrow> (errno + u8 list) \<times> uk_virtio_gpu_dev" where
  "cmd_response cmd_type own used_len resp expect fence d =
    (let rh = dec_ctrl_hdr resp in
     if \<not> own then (Inl EIO, d)
     else if unat used_len < sizeof_ctrl_hdr then (Inl EIO, d)
     else if hdr_type rh = 0 \<and> (cmd_type = CMD_CTX_CREATE \<or> cmd_type = CMD_CTX_DESTROY)
     then (Inr resp, d)
     else case gpu_resp_errno (hdr_type rh) of
       Some er \<Rightarrow> (Inl er, d)
     | None \<Rightarrow>
        if expect \<noteq> 0 \<and> hdr_type rh \<noteq> expect then (Inl EIO, d)
        else (Inr resp,
              case fence of None \<Rightarrow> d
              | Some f \<Rightarrow> if hdr_flags rh AND FLAG_FENCE \<noteq> 0 \<and> hdr_fence_id rh = f
                          then d\<lparr>completed_fence := f\<rparr> else d))"

definition cmd_submit_locked :: "'h env \<Rightarrow> u8 list \<Rightarrow> nat \<Rightarrow> u32 \<Rightarrow> u64 option \<Rightarrow> 'h sys
    \<Rightarrow> ((errno + u8 list) \<times> 'h sys) option" where
  "cmd_submit_locked e req resp_len expect fence s =
    (let cmd_type = un32 req in
     if \<not> ctrlq (vg s) \<or> req = [] \<or> resp_len = 0 then Some (Inl EINVAL, s)
     else case env_sg_append e MAX_CMD_SEGS (of_nat (length req)) (host s) of
       (Some er, h1) \<Rightarrow> Some (Inl er, s\<lparr>host := h1\<rparr>)
     | (None, h1) \<Rightarrow>
      (case env_sg_append e MAX_CMD_SEGS (of_nat resp_len) h1 of
        (Some er, h2) \<Rightarrow> Some (Inl er, s\<lparr>host := h2\<rparr>)
      | (None, h2) \<Rightarrow>
       (case env_vq_enqueue e req (of_nat resp_len) h2 of
         (Some er, h3) \<Rightarrow> Some (Inl er, s\<lparr>host := h3\<rparr>)
       | (None, h3) \<Rightarrow>
        (case env_now_ns e (env_vq_notify e h3) of
          (t_wait, h4) \<Rightarrow>
          (case dequeue_spin e (t_wait + CMD_TIMEOUT_NS) h4 of
            None \<Rightarrow> None
          | Some (Inl er, h5) \<Rightarrow> Some (Inl er, s\<lparr>host := h5\<rparr>)
          | Some (Inr (own, used_len, dat), h5) \<Rightarrow>
              (case cmd_response cmd_type own used_len
                      (take resp_len (dat @ replicate resp_len 0)) expect fence (vg s) of
                (r, d) \<Rightarrow> Some (r, s\<lparr>vg := d, host := h5\<rparr>)))))))"

definition cmd_submit :: "'h env \<Rightarrow> u8 list \<Rightarrow> nat \<Rightarrow> u32 \<Rightarrow> u64 option \<Rightarrow> 'h sys
    \<Rightarrow> ((errno + u8 list) \<times> 'h sys) option" where
  "cmd_submit e req resp_len expect fence s =
    (case cmd_submit_locked e req resp_len expect fence (s\<lparr>g_ctrlq_lock := g_ctrlq_lock s + 1\<rparr>) of
       None \<Rightarrow> None
     | Some (rc, s') \<Rightarrow> Some (rc, s'\<lparr>g_ctrlq_lock := g_ctrlq_lock s' - 1\<rparr>))"


section \<open>The tables are slot tables\<close>

text \<open>The lookups as functions of the table alone, for the interface.\<close>

definition res_find :: "ukvgpu_resource_state list \<Rightarrow> u32 \<Rightarrow> nat option" where
  "res_find t i = (if i = 0 then None else first_index (\<lambda>r. r_live r \<and> r_id r = i) t)"

definition ctx_find :: "ukvgpu_context_state list \<Rightarrow> u32 \<Rightarrow> nat option" where
  "ctx_find t i = (if i = 0 then None else first_index (\<lambda>c. c_live c \<and> c_id c = i) t)"

lemma find_res_table: "find_res d = res_find (resources d)"
  by (rule ext) (simp add: find_res_def res_find_def)

lemma find_ctx_table: "find_ctx d = ctx_find (contexts d)"
  by (rule ext) (simp add: find_ctx_def ctx_find_def)

interpretation rt: slot_table r_live r_id 0 res_find "first_index (\<lambda>r. \<not> r_live r)"
proof (unfold_locales, goal_cases)
  case (1 tab k i)
  thus ?case by (auto simp: res_find_def first_index_Some split: if_splits)
next
  case (2 i tab k)
  thus ?case by (auto simp: res_find_def first_index_None)
next
  case (3 tab i)
  thus ?case by (simp add: first_index_Some)
next
  case (4 i tab)
  thus ?case by (auto simp: first_index_None)
qed

interpretation ct: slot_table c_live c_id 0 ctx_find "first_index (\<lambda>c. \<not> c_live c)"
proof (unfold_locales, goal_cases)
  case (1 tab k i)
  thus ?case by (auto simp: ctx_find_def first_index_Some split: if_splits)
next
  case (2 i tab k)
  thus ?case by (auto simp: ctx_find_def first_index_None)
next
  case (3 tab i)
  thus ?case by (simp add: first_index_Some)
next
  case (4 i tab)
  thus ?case by (auto simp: first_index_None)
qed

lemma zero_resource_simps [simp]:
  "\<not> r_live zero_resource" "r_id zero_resource = 0" "\<not> r_mapped zero_resource"
  "\<not> r_is_blob zero_resource"
  by (simp_all add: zero_resource_def)

lemma zero_context_simps [simp]: "\<not> c_live zero_context" "c_id zero_context = 0"
  by (simp_all add: zero_context_def)

lemma find_res_SomeD:
  "find_res d k = Some i \<Longrightarrow>
   i < length (resources d) \<and> r_live (resources d ! i) \<and> r_id (resources d ! i) = k \<and> k \<noteq> 0"
  unfolding find_res_table by (rule rt.find_sound)

lemma find_ctx_SomeD:
  "find_ctx d k = Some i \<Longrightarrow>
   i < length (contexts d) \<and> c_live (contexts d ! i) \<and> c_id (contexts d ! i) = k \<and> k \<noteq> 0"
  unfolding find_ctx_table by (rule ct.find_sound)

lemma find_res_cong [simp]:
  "find_res (d\<lparr>completed_fence := c\<rparr>) k = find_res d k"
  "find_res (d\<lparr>next_fence := nf\<rparr>) k = find_res d k"
  "find_res (d\<lparr>metrics := m\<rparr>) k = find_res d k"
  "find_ctx (d\<lparr>completed_fence := c\<rparr>) k = find_ctx d k"
  "find_ctx (d\<lparr>next_fence := nf\<rparr>) k = find_ctx d k"
  "find_ctx (d\<lparr>metrics := m\<rparr>) k = find_ctx d k"
  by (simp_all add: find_res_def find_ctx_def)

section \<open>Frame of a control command\<close>

lemma cmd_response_frame:
  assumes "cmd_response t own u resp ex f d = (r, d')"
  shows "\<exists>c. d' = d\<lparr>completed_fence := c\<rparr> \<and>
    (c = completed_fence d \<or> f = Some c \<and> (\<exists>resp. r = Inr resp))"
    and "r = Inr out \<Longrightarrow> out = resp"
  using assms
  by (auto simp: cmd_response_def Let_def split: if_splits option.splits
      intro: exI[where x = "completed_fence d"])

text \<open>What the operations rely on when they send a command: of the device record only
  \<open>completed_fence\<close> may change, to the fence of this command and only when it succeeded, the mutex
  is released, and the response has the size of the caller's buffer.\<close>

locale ctrl_transport =
  fixes submit :: "u8 list \<Rightarrow> nat \<Rightarrow> u32 \<Rightarrow> u64 option \<Rightarrow> 'h sys
      \<Rightarrow> ((errno + u8 list) \<times> 'h sys) option"
  assumes frame: "submit req n ex f s = Some (r, s') \<Longrightarrow>
      \<exists>c h. s' = s\<lparr>vg := (vg s)\<lparr>completed_fence := c\<rparr>, host := h\<rparr> \<and>
        (c = completed_fence (vg s) \<or> f = Some c \<and> (\<exists>resp. r = Inr resp))"
    and response_length: "submit req n ex f s = Some (Inr resp, s') \<Longrightarrow> length resp = n"
begin

lemma no_fence:
  assumes "submit req n ex None s = Some (r, s')" shows "\<exists>h. s' = s\<lparr>host := h\<rparr>"
  using frame[OF assms] by auto

lemma failed:
  assumes "submit req n ex f s = Some (Inl er, s')" shows "\<exists>h. s' = s\<lparr>host := h\<rparr>"
  using frame[OF assms] by auto

lemma succeeded:
  assumes "submit req n ex f s = Some (Inr resp, s')"
  shows "\<exists>c h. s' = s\<lparr>vg := (vg s)\<lparr>completed_fence := c\<rparr>, host := h\<rparr> \<and>
    (c = completed_fence (vg s) \<or> f = Some c)"
  using frame[OF assms] by auto

lemma preserves:
  assumes "submit req n ex f s = Some (r, s')" "P (vg s)"
    "\<And>c. f = Some c \<Longrightarrow> P ((vg s)\<lparr>completed_fence := c\<rparr>)"
  shows "P (vg s')"
  using frame[OF assms(1)] assms(2,3) by auto

end

lemma cmd_submit_locked_frame:
  assumes "cmd_submit_locked e req n ex f s = Some (r, s')"
  shows "\<exists>c h. s' = s\<lparr>vg := (vg s)\<lparr>completed_fence := c\<rparr>, host := h\<rparr> \<and>
    (c = completed_fence (vg s) \<or> f = Some c \<and> (\<exists>resp. r = Inr resp))"
proof -
  have same: "\<exists>c h. s\<lparr>host := h'\<rparr> = s\<lparr>vg := (vg s)\<lparr>completed_fence := c\<rparr>, host := h\<rparr> \<and>
      (c = completed_fence (vg s) \<or> f = Some c \<and> (\<exists>resp. r = Inr resp))" for h'
    by (rule exI[where x = "completed_fence (vg s)"], rule exI[where x = h']) simp
  show ?thesis
    using assms same[of "host s"] same
    by (auto simp: cmd_submit_locked_def Let_def dest!: cmd_response_frame(1)
        split: if_splits option.splits prod.splits sum.splits) 
qed

lemma cmd_submit_locked_length:
  assumes "cmd_submit_locked e req n ex f s = Some (Inr resp, s')"
  shows "length resp = n"
  using assms
  by (auto simp: cmd_submit_locked_def Let_def dest!: cmd_response_frame(2)
      split: if_splits option.splits prod.splits sum.splits)

interpretation cq: ctrl_transport "cmd_submit e" for e :: "'h env"
proof (unfold_locales, goal_cases)
  case (1 req n ex f s r s')
  then obtain s1 where s1: "cmd_submit_locked e req n ex f
      (s\<lparr>g_ctrlq_lock := g_ctrlq_lock s + 1\<rparr>) = Some (r, s1)"
    and s': "s' = s1\<lparr>g_ctrlq_lock := g_ctrlq_lock s1 - 1\<rparr>"
    by (auto simp: cmd_submit_def split: option.splits)
  from cmd_submit_locked_frame[OF s1] obtain c h
    where "s1 = s\<lparr>g_ctrlq_lock := g_ctrlq_lock s + 1, vg := (vg s)\<lparr>completed_fence := c\<rparr>, host := h\<rparr>"
      and "c = completed_fence (vg s) \<or> f = Some c \<and> (\<exists>resp. r = Inr resp)" by auto
  with s' show ?case by (intro exI[where x = c] exI[where x = h]) auto
next
  case (2 req n ex f s resp s')
  thus ?case by (auto simp: cmd_submit_def split: option.splits dest: cmd_submit_locked_length)
qed


lemmas cmd_submit_simps = cmd_submit_def cmd_submit_locked_def cmd_response_def Let_def

section \<open>Returning from the poll loop\<close>

text \<open>The platform clock advances while the queue stays empty: every poll that finds nothing reads
  a later time than the poll before, as long as the deadline has not passed.\<close>

definition clock_advances :: "'h env \<Rightarrow> u64 \<Rightarrow> bool" where
  "clock_advances e deadline \<longleftrightarrow> (\<exists>lb :: 'h \<Rightarrow> nat. \<forall>h h1 t h2.
     env_vq_dequeue e h = (VqEmpty, h1) \<longrightarrow> env_now_ns e h1 = (t, h2) \<longrightarrow> t \<le> deadline \<longrightarrow>
     lb h < lb h2 \<and> lb h2 \<le> unat t)"

lemma dequeue_spin_returns:
  assumes "clock_advances e deadline"
  shows "dequeue_spin e deadline h \<noteq> None"
proof -
  obtain lb :: "'a \<Rightarrow> nat" where lb: "\<And>h h1 t h2. env_vq_dequeue e h = (VqEmpty, h1) \<Longrightarrow>
      env_now_ns e h1 = (t, h2) \<Longrightarrow> t \<le> deadline \<Longrightarrow> lb h < lb h2 \<and> lb h2 \<le> unat t"
    using assms unfolding clock_advances_def by blast
  show ?thesis
  proof (induction "unat deadline - lb h" arbitrary: h rule: less_induct)
    case less
    have step: "dequeue_spin e deadline h2 \<noteq> None"
      if "env_vq_dequeue e h = (VqEmpty, h1)" "env_now_ns e h1 = (t, h2)" "\<not> deadline < t" for h1 t h2
    proof (rule less.hyps)
      have "lb h < lb h2 \<and> lb h2 \<le> unat t" using lb that by simp
      moreover have "unat t \<le> unat deadline" using that(3) by (simp add: word_less_nat_alt)
      ultimately show "unat deadline - lb h2 < unat deadline - lb h" by linarith
    qed
    show ?case
      using step
      by (subst dequeue_spin.simps) (auto split: prod.splits vq_result.splits)
  qed
qed

lemma cmd_submit_locked_returns:
  assumes "\<And>h t h'. env_now_ns e h = (t, h') \<Longrightarrow> clock_advances e (t + CMD_TIMEOUT_NS)"
  shows "cmd_submit_locked e req n ex f s \<noteq> None"
proof -
  have "dequeue_spin e (t + CMD_TIMEOUT_NS) h' \<noteq> None" if "env_now_ns e h = (t, h')" for h t h'
    using assms that by (intro dequeue_spin_returns) blast
  thus ?thesis
    by (auto simp: cmd_submit_locked_def Let_def
        simp del: not_None_eq split: option.splits prod.splits sum.splits)
qed

end
