(* ===== verification/Gpu_Invariant.thy ===== *)
theory Gpu_Invariant
  imports Gpu_Device
begin

text \<open>
  The invariant of the device record and the building blocks that keep it: slot identifiers are
  distinct, non-zero and below the next counter, only live blobs are mapped, completion stays below
  the next fence, and the windows that live blobs own in the host-visible region are disjoint and
  below the bump pointer \<open>next_blob_map_offset\<close>.  \<open>op_ok\<close> is the contract every operation is shown
  to satisfy.
\<close>

text \<open>The bytes of the host-visible region a live blob owns: first and first-after.\<close>

definition blob_window :: "ukvgpu_resource_state \<Rightarrow> (nat \<times> nat) option" where
  "blob_window r = (if r_live r \<and> r_is_blob r
     then Some (unat (r_host_visible_offset r), unat (r_host_visible_offset r) + unat (r_size r))
     else None)"

definition windows_apart :: "(nat \<times> nat) option \<Rightarrow> (nat \<times> nat) option \<Rightarrow> bool" where
  "windows_apart v w = (case (v, w) of (Some (a, b), Some (c, e)) \<Rightarrow> b \<le> c \<or> e \<le> a | _ \<Rightarrow> True)"

definition blob_windows :: "ukvgpu_resource_state list \<Rightarrow> u64 \<Rightarrow> bool" where
  "blob_windows t next \<longleftrightarrow>
    (\<forall>i<length t. case blob_window (t ! i) of None \<Rightarrow> True | Some (_, b) \<Rightarrow> b \<le> unat next) \<and>
    (\<forall>i<length t. \<forall>j<length t. i \<noteq> j \<longrightarrow> windows_apart (blob_window (t ! i)) (blob_window (t ! j)))"

lemma windows_apart_None [simp]: "windows_apart None w" "windows_apart v None"
  by (simp_all add: windows_apart_def split: option.splits)

lemma windows_apart_sym: "windows_apart v w \<Longrightarrow> windows_apart w v"
  by (auto simp: windows_apart_def split: option.splits)

lemma blob_windows_keep [inv_intros]:
  assumes "blob_windows t nx" "blob_window e = None \<or> blob_window e = blob_window (t ! i)"
  shows "blob_windows (t[i := e]) nx"
proof (cases "i < length t")
  case True
  have "blob_window (t[i := e] ! j) = None \<or> blob_window (t[i := e] ! j) = blob_window (t ! j)" for j
    using assms(2) True by (cases "j = i") auto
  thus ?thesis
    using assms(1) unfolding blob_windows_def
    by (metis length_list_update option.simps(4) windows_apart_None)
qed (use assms(1) in \<open>simp add: list_update_beyond\<close>)

lemma blob_windows_le:
  "blob_windows t nx \<Longrightarrow> j < length t \<Longrightarrow> blob_window (t ! j) = Some (c, e) \<Longrightarrow> e \<le> unat nx"
  unfolding blob_windows_def by fastforce

lemma blob_windows_apart:
  "blob_windows t nx \<Longrightarrow> i < length t \<Longrightarrow> j < length t \<Longrightarrow> i \<noteq> j \<Longrightarrow>
   windows_apart (blob_window (t ! i)) (blob_window (t ! j))"
  unfolding blob_windows_def by blast

lemma blob_windowsI:
  assumes "\<And>j c e. j < length t \<Longrightarrow> blob_window (t ! j) = Some (c, e) \<Longrightarrow> e \<le> unat nx"
    "\<And>i j. i < length t \<Longrightarrow> j < length t \<Longrightarrow> i \<noteq> j \<Longrightarrow>
       windows_apart (blob_window (t ! i)) (blob_window (t ! j))"
  shows "blob_windows t nx"
  using assms unfolding blob_windows_def by (auto split: option.splits)

lemma blob_windows_new:
  assumes "blob_windows t nx" "blob_window e = Some (a, b)" "unat nx \<le> a" "b \<le> unat nx'" "nx \<le> nx'"
  shows "blob_windows (t[i := e]) nx'"
proof (cases "i < length t")
  case True
  have le: "unat nx \<le> unat nx'" using assms(5) by (simp add: word_le_nat_alt)
  have apart: "windows_apart (Some (a, b)) (blob_window (t ! j))" if "j < length t" for j
    using blob_windows_le[OF assms(1) that] assms(3)
    by (fastforce simp: windows_apart_def split: option.splits)
  show ?thesis
  proof (rule blob_windowsI)
    fix j c f assume "j < length (t[i := e])" "blob_window (t[i := e] ! j) = Some (c, f)"
    thus "f \<le> unat nx'"
      using blob_windows_le[OF assms(1), of j c f] assms(2,4) le
      by (cases "j = i") auto
  next
    fix j k assume "j < length (t[i := e])" "k < length (t[i := e])" "j \<noteq> k"
    thus "windows_apart (blob_window (t[i := e] ! j)) (blob_window (t[i := e] ! k))"
      using True blob_windows_apart[OF assms(1), of j k] apart[of j] apart[of k] assms(2)
        windows_apart_sym[OF apart[of j]]
      by (simp add: nth_list_update)
  qed
next
  case False
  have "unat nx \<le> unat nx'" using assms(5) by (simp add: word_le_nat_alt)
  thus ?thesis
    using False assms(1) blob_windows_le[OF assms(1)] blob_windows_apart[OF assms(1)]
    by (intro blob_windowsI) (fastforce simp: list_update_beyond)+
qed

definition dev_inv :: "uk_virtio_gpu_dev \<Rightarrow> bool" where
  "dev_inv d \<longleftrightarrow>
    length (resources d) = UKVGPU_MAX_RESOURCES \<and> length (contexts d) = UKVGPU_MAX_CONTEXTS \<and>
    length (scanouts d) = MAX_SCANOUTS \<and>
    rt.uniq (resources d) \<and> ct.uniq (contexts d) \<and>
    (\<forall>i<length (resources d). r_live (resources d ! i) \<longrightarrow>
       r_id (resources d ! i) \<noteq> 0 \<and> r_id (resources d ! i) < next_res d) \<and>
    (\<forall>i<length (contexts d). c_live (contexts d ! i) \<longrightarrow>
       c_id (contexts d ! i) \<noteq> 0 \<and> c_id (contexts d ! i) < next_ctx d) \<and>
    (\<forall>i<length (resources d). r_mapped (resources d ! i) \<longrightarrow>
       r_live (resources d ! i) \<and> r_is_blob (resources d ! i)) \<and>
    completed_fence d < next_fence d \<and> next_res d \<noteq> 0 \<and> next_ctx d \<noteq> 0 \<and>
    blob_windows (resources d) (next_blob_map_offset d)"

text \<open>No counter is about to wrap to 0.\<close>

definition room :: "uk_virtio_gpu_dev \<Rightarrow> bool" where
  "room d \<longleftrightarrow> next_res d + 1 \<noteq> 0 \<and> next_ctx d + 1 \<noteq> 0 \<and> next_fence d + 1 \<noteq> 0"

lemma dev_inv_frame [simp]:
  "dev_inv (d\<lparr>metrics := m\<rparr>) = dev_inv d"
  "length sc = MAX_SCANOUTS \<Longrightarrow> length (scanouts d) = MAX_SCANOUTS \<Longrightarrow>
     dev_inv (d\<lparr>scanouts := sc\<rparr>) = dev_inv d"
  by (simp_all add: dev_inv_def)

lemma dev_inv_completed [inv_intros]:
  "dev_inv d \<Longrightarrow> c < next_fence d \<Longrightarrow> dev_inv (d\<lparr>completed_fence := c\<rparr>)"
  by (simp add: dev_inv_def)

lemma dev_inv_next_fence [inv_intros]:
  "dev_inv d \<Longrightarrow> next_fence d + 1 \<noteq> 0 \<Longrightarrow> dev_inv (d\<lparr>next_fence := next_fence d + 1\<rparr>)"
  by (simp add: dev_inv_def less_plus_1)

lemma alloc_res_SomeD:
  assumes "alloc_res d = Some (i, d')"
  shows "i < length (resources d)" "\<not> r_live (resources d ! i)"
    "d' = d\<lparr>resources := (resources d)[i := zero_resource\<lparr>r_id := next_res d, r_live := True\<rparr>],
       next_res := next_res d + 1,
       metrics := (metrics d)\<lparr>m_resources_created := m_resources_created (metrics d) + 1\<rparr>\<rparr>"
  using assms rt.free_sound[of "resources d" i] by (auto simp: alloc_res_def split: option.splits)

lemma dev_inv_alloc_res [inv_intros]:
  assumes "alloc_res d = Some (i, d')" "dev_inv d" "next_res d + 1 \<noteq> 0"
  shows "dev_inv d'"
proof -
  note a = alloc_res_SomeD[OF assms(1)]
  let ?r = "zero_resource\<lparr>r_id := next_res d, r_live := True\<rparr>"
  have "rt.uniq ((resources d)[i := ?r])"
    using assms(2) a(1,2) by (intro rt.uniq_fill) (auto simp: dev_inv_def)
  moreover have "blob_windows ((resources d)[i := ?r]) (next_blob_map_offset d)"
    using assms(2) by (intro blob_windows_keep) (auto simp: dev_inv_def blob_window_def zero_resource_def)
  ultimately show ?thesis
    using assms(2,3) a(1) self_less_plus_1[of "next_res d"] less_plus_1[of _ "next_res d"]
    unfolding a(3) dev_inv_def
    by (auto simp: nth_list_update zero_resource_def)
qed

lemma alloc_ctx_SomeD:
  assumes "alloc_ctx d = Some (i, d')"
  shows "i < length (contexts d)" "\<not> c_live (contexts d ! i)"
    "d' = d\<lparr>contexts := (contexts d)[i := zero_context\<lparr>c_id := next_ctx d, c_live := True\<rparr>],
       next_ctx := next_ctx d + 1\<rparr>"
  using assms ct.free_sound[of "contexts d" i] by (auto simp: alloc_ctx_def split: option.splits)

lemma dev_inv_alloc_ctx [inv_intros]:
  assumes "alloc_ctx d = Some (i, d')" "dev_inv d" "next_ctx d + 1 \<noteq> 0"
  shows "dev_inv d'"
proof -
  note a = alloc_ctx_SomeD[OF assms(1)]
  have "ct.uniq ((contexts d)[i := zero_context\<lparr>c_id := next_ctx d, c_live := True\<rparr>])"
    using assms(2) a(1,2) by (intro ct.uniq_fill) (auto simp: dev_inv_def)
  thus ?thesis
    using assms(2,3) a(1) self_less_plus_1[of "next_ctx d"] less_plus_1[of _ "next_ctx d"]
    unfolding a(3) dev_inv_def
    by (auto simp: nth_list_update zero_context_def)
qed

text \<open>Writing to a slot keeps the invariant when identity, liveness and the blob window stay.\<close>

definition res_keeps :: "ukvgpu_resource_state \<Rightarrow> ukvgpu_resource_state \<Rightarrow> bool" where
  "res_keeps r r' \<longleftrightarrow> r_live r' = r_live r \<and> r_id r' = r_id r \<and> blob_window r' = blob_window r \<and>
     (r_mapped r' \<longrightarrow> r_live r' \<and> r_is_blob r')"

lemma dev_inv_res_upd [inv_intros]:
  assumes "dev_inv d" "res_keeps (resources d ! i) (f (resources d ! i))"
  shows "dev_inv (res_upd i f d)"
proof -
  have "rt.uniq ((resources d)[i := f (resources d ! i)])"
    using assms by (intro rt.uniq_change) (auto simp: dev_inv_def res_keeps_def)
  moreover have "blob_windows ((resources d)[i := f (resources d ! i)]) (next_blob_map_offset d)"
    using assms by (intro blob_windows_keep) (auto simp: dev_inv_def res_keeps_def)
  ultimately show ?thesis
    using assms unfolding dev_inv_def res_keeps_def res_upd_def
    by (cases "i < length (resources d)") (auto simp: nth_list_update)
qed

lemma dev_inv_res_clear [inv_intros]:
  assumes "dev_inv d" shows "dev_inv (res_upd i (\<lambda>_. zero_resource) d)"
proof -
  have "rt.uniq ((resources d)[i := zero_resource])"
    using assms by (intro rt.uniq_kill) (auto simp: dev_inv_def)
  moreover have "blob_windows ((resources d)[i := zero_resource]) (next_blob_map_offset d)"
    using assms by (intro blob_windows_keep) (auto simp: dev_inv_def blob_window_def)
  ultimately show ?thesis
    using assms unfolding dev_inv_def res_upd_def
    by (cases "i < length (resources d)") (auto simp: nth_list_update)
qed

lemma dev_inv_ctx_upd [inv_intros]:
  assumes "dev_inv d" "c_live (f (contexts d ! i)) = c_live (contexts d ! i)"
    "c_id (f (contexts d ! i)) = c_id (contexts d ! i)"
  shows "dev_inv (ctx_upd i f d)"
proof -
  have "ct.uniq ((contexts d)[i := f (contexts d ! i)])"
    using assms by (intro ct.uniq_change) (auto simp: dev_inv_def)
  thus ?thesis
    using assms unfolding dev_inv_def ctx_upd_def
    by (cases "i < length (contexts d)") (auto simp: nth_list_update)
qed

lemma dev_inv_ctx_clear [inv_intros]:
  assumes "dev_inv d" shows "dev_inv (ctx_upd i (\<lambda>_. zero_context) d)"
proof -
  have "ct.uniq ((contexts d)[i := zero_context])"
    using assms by (intro ct.uniq_kill) (auto simp: dev_inv_def)
  thus ?thesis
    using assms unfolding dev_inv_def ctx_upd_def
    by (cases "i < length (contexts d)") (auto simp: nth_list_update)
qed

text \<open>A fresh slot becomes a blob whose window starts at \<open>next_blob_map_offset\<close>.\<close>

lemma dev_inv_new_blob [inv_intros]:
  assumes "dev_inv d" "r_live (resources d ! i)"
    "r_live (f (resources d ! i))" "r_id (f (resources d ! i)) = r_id (resources d ! i)"
    "blob_window (f (resources d ! i)) = Some (unat (next_blob_map_offset d), unat nx)"
    "r_mapped (f (resources d ! i)) \<Longrightarrow> r_is_blob (f (resources d ! i))"
    "next_blob_map_offset d \<le> nx"
  shows "dev_inv ((res_upd i f d)\<lparr>next_blob_map_offset := nx\<rparr>)"
proof -
  have "rt.uniq ((resources d)[i := f (resources d ! i)])"
    using assms by (intro rt.uniq_change) (auto simp: dev_inv_def)
  moreover have "blob_windows ((resources d)[i := f (resources d ! i)]) nx"
    using assms by (intro blob_windows_new) (auto simp: dev_inv_def)
  ultimately show ?thesis
    using assms unfolding dev_inv_def res_upd_def
    by (cases "i < length (resources d)") (auto simp: nth_list_update)
qed

lemma res_upd_simps [simp]:
  "contexts (res_upd i f d) = contexts d" "next_res (res_upd i f d) = next_res d"
  "next_ctx (res_upd i f d) = next_ctx d" "next_fence (res_upd i f d) = next_fence d"
  "completed_fence (res_upd i f d) = completed_fence d" "metrics (res_upd i f d) = metrics d"
  "length (resources (res_upd i f d)) = length (resources d)"
  "next_blob_map_offset (res_upd i f d) = next_blob_map_offset d"
  "scanouts (res_upd i f d) = scanouts d"
  by (simp_all add: res_upd_def)

lemma ctx_upd_simps [simp]:
  "resources (ctx_upd i f d) = resources d" "next_res (ctx_upd i f d) = next_res d"
  "next_ctx (ctx_upd i f d) = next_ctx d" "next_fence (ctx_upd i f d) = next_fence d"
  "completed_fence (ctx_upd i f d) = completed_fence d" "metrics (ctx_upd i f d) = metrics d"
  "length (contexts (ctx_upd i f d)) = length (contexts d)"
  "next_blob_map_offset (ctx_upd i f d) = next_blob_map_offset d"
  "scanouts (ctx_upd i f d) = scanouts d"
  by (simp_all add: ctx_upd_def)

section \<open>What every operation guarantees\<close>

text \<open>The contract between a state before and after one call: the mutex is released, a counter moves
  by at most one, and while no counter wraps the invariant is kept and completion never goes back.\<close>

definition op_ok :: "'h sys \<Rightarrow> 'h sys \<Rightarrow> bool" where
  "op_ok s s' \<longleftrightarrow> g_ctrlq_lock s' = g_ctrlq_lock s \<and>
     unat (next_res (vg s')) \<le> unat (next_res (vg s)) + 1 \<and>
     unat (next_ctx (vg s')) \<le> unat (next_ctx (vg s)) + 1 \<and>
     unat (next_fence (vg s')) \<le> unat (next_fence (vg s)) + 1 \<and>
     (dev_inv (vg s) \<longrightarrow> room (vg s) \<longrightarrow>
        dev_inv (vg s') \<and> completed_fence (vg s) \<le> completed_fence (vg s'))"

lemma op_ok_refl [simp]: "op_ok s s"
  by (simp add: op_ok_def)

lemma hdr_init_no_fence [simp]:
  "hdr_init d t False c = (\<lparr> hdr_type = t, hdr_flags = 0, hdr_fence_id = 0, hdr_ctx_id = c,
     hdr_ring_idx = 0, hdr_padding = (0, 0, 0) \<rparr>, None, d)"
  by (simp add: hdr_init_def)

lemma alloc_res_frame:
  assumes "alloc_res d = Some (i, d')"
  shows "next_res d' = next_res d + 1" "next_ctx d' = next_ctx d" "next_fence d' = next_fence d"
    "completed_fence d' = completed_fence d" "contexts d' = contexts d"
    "resources d' ! i = zero_resource\<lparr>r_id := next_res d, r_live := True\<rparr>"
    "length (resources d') = length (resources d)"
    "next_blob_map_offset d' = next_blob_map_offset d" "ctrlq d' = ctrlq d"
    "negotiated_features d' = negotiated_features d" "blob_alignment d' = blob_alignment d"
  using alloc_res_SomeD(1)[OF assms] by (simp_all add: alloc_res_SomeD(3)[OF assms])

lemma alloc_ctx_frame:
  assumes "alloc_ctx d = Some (i, d')"
  shows "next_res d' = next_res d" "next_ctx d' = next_ctx d + 1" "next_fence d' = next_fence d"
    "completed_fence d' = completed_fence d" "resources d' = resources d"
    "contexts d' ! i = zero_context\<lparr>c_id := next_ctx d, c_live := True\<rparr>"
    "length (contexts d') = length (contexts d)" "metrics d' = metrics d"
    "next_blob_map_offset d' = next_blob_map_offset d" "ctrlq d' = ctrlq d"
    "negotiated_features d' = negotiated_features d" "blob_alignment d' = blob_alignment d"
  using alloc_ctx_SomeD(1)[OF assms] by (simp_all add: alloc_ctx_SomeD(3)[OF assms])

lemma op_ok_host [simp]: "op_ok s (s\<lparr>host := h\<rparr>)"
  by (simp add: op_ok_def)

text \<open>Introduction rules for the shapes of final states the operations have: a write that moves no
  counter, a write after a slot allocation, a write after a fence was issued.\<close>

lemma op_ok_vg:
  assumes "next_res d' = next_res (vg s)" "next_ctx d' = next_ctx (vg s)"
    "next_fence d' = next_fence (vg s)" "completed_fence d' = completed_fence (vg s)"
    "dev_inv (vg s) \<Longrightarrow> dev_inv d'"
  shows "op_ok s (s\<lparr>host := h, vg := d'\<rparr>)" "op_ok s (s\<lparr>vg := d'\<rparr>)"
  using assms by (simp_all add: op_ok_def)

lemma op_ok_alloc_res:
  assumes a: "alloc_res (vg s) = Some (i, d0)"
    and inv: "dev_inv d0 \<Longrightarrow> i < length (resources d0) \<Longrightarrow>
      next_blob_map_offset d0 = next_blob_map_offset (vg s) \<Longrightarrow>
      resources d0 ! i = zero_resource\<lparr>r_id := next_res (vg s), r_live := True\<rparr> \<Longrightarrow> dev_inv d'"
    and "next_res d' = next_res d0" "next_ctx d' = next_ctx d0"
    "next_fence d' = next_fence d0" "completed_fence d' = completed_fence d0"
  shows "op_ok s (s\<lparr>host := h, vg := d'\<rparr>)"
  using assms(3-) inv dev_inv_alloc_res[OF a] alloc_res_SomeD(1)[OF a]
  by (auto simp: op_ok_def room_def alloc_res_frame[OF a])

lemma op_ok_fence:
  assumes "dev_inv ((vg s)\<lparr>next_fence := next_fence (vg s) + 1, completed_fence := c\<rparr>) \<Longrightarrow> dev_inv d'"
    "next_res d' = next_res (vg s)" "next_ctx d' = next_ctx (vg s)"
    "next_fence d' = next_fence (vg s) + 1" "completed_fence d' = c"
    "c = completed_fence (vg s) \<or> c = next_fence (vg s)"
  shows "op_ok s (s\<lparr>host := h, vg := d'\<rparr>)"
proof -
  have "dev_inv d' \<and> completed_fence (vg s) \<le> c" if d: "dev_inv (vg s)" "room (vg s)"
  proof
    from d have r: "next_fence (vg s) + 1 \<noteq> 0" and lt: "completed_fence (vg s) < next_fence (vg s)"
      by (auto simp: room_def dev_inv_def)
    have "c < next_fence (vg s) + 1"
      using assms(6) lt less_plus_1[OF lt r] self_less_plus_1[OF r] by auto
    hence "dev_inv (((vg s)\<lparr>next_fence := next_fence (vg s) + 1\<rparr>)\<lparr>completed_fence := c\<rparr>)"
      by (intro dev_inv_completed dev_inv_next_fence d r) simp
    thus "dev_inv d'" using assms(1) by simp
    show "completed_fence (vg s) \<le> c" using assms(6) lt by auto
  qed
  thus ?thesis using assms by (simp add: op_ok_def)
qed

lemma res_keepsI [intro]:
  assumes "r_live r' = r_live r" "r_id r' = r_id r" "r_is_blob r' = r_is_blob r"
   "r_mapped r' = r_mapped r" "r_mapped r \<Longrightarrow> r_live r \<and> r_is_blob r"
   "r_host_visible_offset r' = r_host_visible_offset r" "r_is_blob r \<Longrightarrow> r_size r' = r_size r"
  shows "res_keeps r r'"
  using assms by (auto simp: res_keeps_def blob_window_def)

lemma dev_inv_mapped:
  "dev_inv d \<Longrightarrow> i < length (resources d) \<Longrightarrow> r_mapped (resources d ! i) \<Longrightarrow>
   r_live (resources d ! i) \<and> r_is_blob (resources d ! i)"
  unfolding dev_inv_def by blast

lemma dev_inv_scanouts:
  "dev_inv d \<Longrightarrow> length sc = MAX_SCANOUTS \<Longrightarrow> dev_inv (d\<lparr>scanouts := sc\<rparr>)"
  by (simp add: dev_inv_def)

lemma dev_inv_res_write:
  assumes "dev_inv d" "i < length (resources d)"
    "let r = resources d ! i; r' = f r in r_live r' = r_live r \<and> r_id r' = r_id r \<and>
       r_is_blob r' = r_is_blob r \<and> r_mapped r' = r_mapped r \<and>
       r_host_visible_offset r' = r_host_visible_offset r \<and> (r_is_blob r \<longrightarrow> r_size r' = r_size r)"
  shows "dev_inv (res_upd i f d)"
  using assms dev_inv_mapped[OF assms(1,2)]
  by (intro dev_inv_res_upd) (auto simp: Let_def)

lemma hdr_init_fence_cases:
  assumes "hdr_init d t fence c = (h, f, d')"
  shows "fence \<and> f = Some (next_fence d) \<and> d' = d\<lparr>next_fence := next_fence d + 1\<rparr>
    \<or> \<not> fence \<and> f = None \<and> d' = d"
  using assms by (auto simp: hdr_init_def Let_def split: if_splits)

text \<open>A command whose header may carry a fence, followed by a write to the metrics only.\<close>

lemma op_ok_fenced_submit:
  assumes "hdr_init (vg s) t fence c = (h, f, d)"
    and "cmd_submit e req n ex f (s\<lparr>vg := d\<rparr>) = Some (r, s1)"
  shows "op_ok s s1" "op_ok s (s1\<lparr>vg := (vg s1)\<lparr>metrics := m\<rparr>\<rparr>)"
proof -
  obtain c h where "s1 = s\<lparr>vg := d\<lparr>completed_fence := c\<rparr>, host := h\<rparr>"
    and c: "c = completed_fence d \<or> f = Some c"
    using cq.frame[OF assms(2)] by auto
  hence s1: "s1 = s\<lparr>host := h, vg := d\<lparr>completed_fence := c\<rparr>\<rparr>" by simp
  have s2: "s1\<lparr>vg := (vg s1)\<lparr>metrics := m\<rparr>\<rparr>
      = s\<lparr>host := h, vg := d\<lparr>completed_fence := c, metrics := m\<rparr>\<rparr>" by (simp add: s1)
  from hdr_init_fence_cases[OF assms(1)] have "op_ok s s1 \<and> op_ok s (s1\<lparr>vg := (vg s1)\<lparr>metrics := m\<rparr>\<rparr>)"
  proof (elim disjE conjE)
    assume "fence" "f = Some (next_fence (vg s))" "d = (vg s)\<lparr>next_fence := next_fence (vg s) + 1\<rparr>"
    note facts = this c
    have "op_ok s (s\<lparr>host := h, vg := d\<lparr>completed_fence := c\<rparr>\<rparr>)"
      by (rule op_ok_fence[where c = c]) (use facts in auto)
    moreover have "op_ok s (s\<lparr>host := h, vg := d\<lparr>completed_fence := c, metrics := m\<rparr>\<rparr>)"
      by (rule op_ok_fence[where c = c]) (use facts in auto)
    ultimately show ?thesis by (simp add: s1)
  next
    assume "\<not> fence" "f = None" "d = vg s"
    thus ?thesis unfolding s2 unfolding s1 using c by (intro conjI op_ok_vg) simp_all
  qed
  thus "op_ok s s1" "op_ok s (s1\<lparr>vg := (vg s1)\<lparr>metrics := m\<rparr>\<rparr>)" by auto
qed

lemma op_ok_metrics_first:
  assumes "g_ctrlq_lock t = g_ctrlq_lock s" "vg t = (vg s)\<lparr>metrics := m\<rparr>"
  shows "op_ok s t" "op_ok t s' \<Longrightarrow> op_ok s s'"
  using assms by (simp_all add: op_ok_def room_def)

lemma op_ok_cong: "vg u = vg v \<Longrightarrow> g_ctrlq_lock u = g_ctrlq_lock v \<Longrightarrow> op_ok s u = op_ok s v"
  by (simp add: op_ok_def)

lemma op_ok_cong_start: "vg u = vg v \<Longrightarrow> g_ctrlq_lock u = g_ctrlq_lock v \<Longrightarrow> op_ok u s = op_ok v s"
  by (simp add: op_ok_def)

lemma op_ok_fenced_submit_heap:
  assumes h: "hdr_init (vg s) t fence c = (h, f, d)"
    and c: "cmd_submit e req n ex f (s\<lparr>vg := d, host := h1\<rparr>) = Some (r, s1)"
  shows "op_ok s (s1\<lparr>host := h2\<rparr>)" "op_ok s (s1\<lparr>host := h2, vg := (vg s1)\<lparr>metrics := m\<rparr>\<rparr>)"
proof -
  have c': "cmd_submit e req n ex f ((s\<lparr>host := h1\<rparr>)\<lparr>vg := d\<rparr>) = Some (r, s1)"
  proof -
    have eq: "(s\<lparr>host := h1\<rparr>)\<lparr>vg := d\<rparr> = s\<lparr>vg := d, host := h1\<rparr>" by simp
    show ?thesis unfolding eq by (rule c)
  qed
  have h': "hdr_init (vg (s\<lparr>host := h1\<rparr>)) t fence c = (h, f, d)" using h by simp
  have "op_ok s s1" "op_ok s (s1\<lparr>vg := (vg s1)\<lparr>metrics := m\<rparr>\<rparr>)"
    using op_ok_fenced_submit[OF h' c'] by (simp_all add: op_ok_cong_start[of "s\<lparr>host := h1\<rparr>" s])
  thus "op_ok s (s1\<lparr>host := h2\<rparr>)" "op_ok s (s1\<lparr>host := h2, vg := (vg s1)\<lparr>metrics := m\<rparr>\<rparr>)"
    by (simp_all add: op_ok_def)
qed

lemma op_ok_alloc_ctx:
  assumes a: "alloc_ctx (vg s) = Some (i, d0)"
    and inv: "dev_inv d0 \<Longrightarrow> next_fence d0 + 1 \<noteq> 0 \<Longrightarrow> dev_inv d'"
    and "next_res d' = next_res d0" "next_ctx d' = next_ctx d0"
    "next_fence d' = next_fence d0 + 1" "completed_fence d' = completed_fence d0"
  shows "op_ok s (s\<lparr>host := h, vg := d'\<rparr>)"
  using assms(3-) inv dev_inv_alloc_ctx[OF a] alloc_ctx_SomeD(1)[OF a]
  by (auto simp: op_ok_def room_def alloc_ctx_frame[OF a])

lemma dev_inv_fence_step:
  "dev_inv d \<Longrightarrow> n = next_fence d + 1 \<Longrightarrow> n \<noteq> 0 \<Longrightarrow> dev_inv (d\<lparr>next_fence := n\<rparr>)"
  using dev_inv_next_fence by blast

text \<open>Operations that move no counter compose.\<close>

definition op_quiet :: "'h sys \<Rightarrow> 'h sys \<Rightarrow> bool" where
  "op_quiet s s' \<longleftrightarrow> g_ctrlq_lock s' = g_ctrlq_lock s \<and>
     next_res (vg s') = next_res (vg s) \<and> next_ctx (vg s') = next_ctx (vg s) \<and>
     next_fence (vg s') = next_fence (vg s) \<and> completed_fence (vg s') = completed_fence (vg s) \<and>
     (dev_inv (vg s) \<longrightarrow> dev_inv (vg s'))"

lemma op_quiet_refl [simp]: "op_quiet s s" "op_quiet s (s\<lparr>host := h\<rparr>)"
  by (simp_all add: op_quiet_def)

lemma op_quiet_trans: "op_quiet s t \<Longrightarrow> op_quiet t u \<Longrightarrow> op_quiet s u"
  by (simp add: op_quiet_def)

lemma op_quiet_ok: "op_quiet s s' \<Longrightarrow> op_ok s s'"
  by (simp add: op_quiet_def op_ok_def)

lemma op_quiet_vg:
  assumes "next_res d' = next_res (vg s)" "next_ctx d' = next_ctx (vg s)"
    "next_fence d' = next_fence (vg s)" "completed_fence d' = completed_fence (vg s)"
    "dev_inv (vg s) \<Longrightarrow> dev_inv d'"
  shows "op_quiet s (s\<lparr>host := h, vg := d'\<rparr>)" "op_quiet s (s\<lparr>vg := d'\<rparr>)"
  using assms by (simp_all add: op_quiet_def)

end
