(* ===== verification/Gpu_Resources.thy ===== *)
theory Gpu_Resources
  imports Gpu_Invariant
begin

text \<open>
  2D and 3D resources of \<open>virtio_gpu_real.c\<close>: display info, creation, backing storage, transfers,
  flushes, scanout, destruction, UUIDs and the fence query.  An out-pointer that the code requires
  to be non-NULL is a boolean argument (is it set?) and its contents are the result; a fence
  out-pointer is a boolean too, and what the call stored through it comes back as \<open>u64 option\<close>
  beside the status, also when the call fails.
\<close>

section \<open>Caller-side structures\<close>

record uk_gpu_rect =
  rect_x :: u32
  rect_y :: u32
  rect_w :: u32
  rect_h :: u32

record uk_gpu_box =
  box_x :: u32
  box_y :: u32
  box_z :: u32
  box_w :: u32
  box_h :: u32
  box_d :: u32

record uk_virtio_gpu_resource_3d =
  desc_target :: u32
  desc_format :: u32
  desc_bind :: u32
  desc_width :: u32
  desc_height :: u32
  desc_depth :: u32
  desc_array_size :: u32
  desc_last_level :: u32
  desc_nr_samples :: u32
  desc_flags :: u32

record uk_virtio_gpu_transfer_3d =
  x_box :: uk_gpu_box
  x_offset :: u64
  x_level :: u32
  x_stride :: u32
  x_layer_stride :: u32

definition wire_rect :: "uk_gpu_rect \<Rightarrow> ukvgpu_rect" where
  "wire_rect r = \<lparr> rc_x = rect_x r, rc_y = rect_y r, rc_width = rect_w r, rc_height = rect_h r \<rparr>"

section \<open>Operations\<close>

definition uk_virtio_gpu_get_display_info :: "'h env \<Rightarrow> 'h sys
    \<Rightarrow> ((errno + unit) \<times> 'h sys) option" where
  "uk_virtio_gpu_get_display_info e s =
    (let (h, _, d) = hdr_init (vg s) CMD_GET_DISPLAY_INFO False 0 in
     case cmd_submit e (enc_ctrl_hdr h) sizeof_resp_display_info RESP_OK_DISPLAY_INFO None
            (s\<lparr>vg := d\<rparr>) of
       None \<Rightarrow> None
     | Some (Inl er, s1) \<Rightarrow> Some (Inl er, s1)
     | Some (Inr resp, s1) \<Rightarrow>
         Some (Inr (), s1\<lparr>vg := (vg s1)\<lparr>scanouts := rdi_pmodes (dec_resp_display_info resp)\<rparr>\<rparr>))"

definition uk_virtio_gpu_resource_create_2d :: "'h env \<Rightarrow> u32 \<Rightarrow> u32 \<Rightarrow> u32 \<Rightarrow> bool \<Rightarrow> 'h sys
    \<Rightarrow> ((errno + u32) \<times> 'h sys) option" where
  "uk_virtio_gpu_resource_create_2d e w h fmt out s =
    (if w = 0 \<or> h = 0 \<or> \<not> out then Some (Inl EINVAL, s)
     else case alloc_res (vg s) of
       None \<Rightarrow> Some (Inl ENOMEM, s)
     | Some (i, d0) \<Rightarrow>
        (let (hd, _, d) = hdr_init d0 CMD_RESOURCE_CREATE_2D False 0;
             req = \<lparr> c2d_hdr = hd, c2d_resource_id = r_id (resources d ! i),
                     c2d_format = compat_format fmt, c2d_width = w, c2d_height = h \<rparr> in
         case cmd_submit e (enc_resource_create_2d req) sizeof_ctrl_hdr RESP_OK_NODATA None
                (s\<lparr>vg := d\<rparr>) of
           None \<Rightarrow> None
         | Some (Inl er, s1) \<Rightarrow> Some (Inl er, s1\<lparr>vg := res_upd i (\<lambda>_. zero_resource) (vg s1)\<rparr>)
         | Some (Inr _, s1) \<Rightarrow>
             Some (Inr (r_id (resources (vg s1) ! i)),
               s1\<lparr>vg := res_upd i (\<lambda>r. r\<lparr>r_width := w, r_height := h, r_depth := 1,
                    r_format := c2d_format req, r_size := resource_size_bytes w h 1\<rparr>) (vg s1)\<rparr>)))"

text \<open>A scatter list is given by its segments (physical address, length).\<close>

definition uk_virtio_gpu_resource_attach_backing :: "'h env \<Rightarrow> u32 \<Rightarrow> (u64 \<times> u64) list option
    \<Rightarrow> 'h sys \<Rightarrow> ((errno + unit) \<times> 'h sys) option" where
  "uk_virtio_gpu_resource_attach_backing e res sg s =
    (case (find_res (vg s) res, sg) of
       (Some i, Some segs) \<Rightarrow>
        (if segs = [] \<or> 16 < length segs then Some (Inl EINVAL, s)
         else let (h, _, d) = hdr_init (vg s) CMD_RESOURCE_ATTACH_BACKING False 0 in
         if list_ex (\<lambda>(_, len). len = 0) segs then Some (Inl EINVAL, s\<lparr>vg := d\<rparr>)
         else let req = \<lparr> ab_hdr = h, ab_resource_id = res, ab_nr_entries = of_nat (length segs) \<rparr>;
                  ents = map (\<lambda>(a, len). \<lparr> me_addr = a, me_length = ucast len, me_padding = 0 \<rparr>) segs
         in case cmd_submit e (enc_resource_attach_backing req @ concat (map enc_mem_entry ents))
                   sizeof_ctrl_hdr RESP_OK_NODATA None (s\<lparr>vg := d\<rparr>) of
              None \<Rightarrow> None
            | Some (Inl er, s1) \<Rightarrow> Some (Inl er, s1)
            | Some (Inr _, s1) \<Rightarrow>
                (let d1 = res_upd i (\<lambda>r. r\<lparr>r_backing_attached := True\<rparr>) (vg s1) in
                 Some (Inr (), s1\<lparr>vg := d1\<lparr>metrics := (metrics d1)
                   \<lparr>m_attach_calls := m_attach_calls (metrics d1) + 1\<rparr>\<rparr>\<rparr>)))
     | _ \<Rightarrow> Some (Inl EINVAL, s))"

definition uk_virtio_gpu_transfer_to_host_2d :: "'h env \<Rightarrow> u32 \<Rightarrow> uk_gpu_rect option \<Rightarrow> bool
    \<Rightarrow> 'h sys \<Rightarrow> ((errno + unit) \<times> u64 option \<times> 'h sys) option" where
  "uk_virtio_gpu_transfer_to_host_2d e res rect fence s =
    (case (find_res (vg s) res, rect) of
       (Some i, Some rect) \<Rightarrow>
        (if rect_w rect = 0 \<or> rect_h rect = 0 \<or> \<not> r_backing_attached (resources (vg s) ! i)
         then Some (Inl EINVAL, None, s)
         else let (h, f, d) = hdr_init (vg s) CMD_TRANSFER_TO_HOST_2D fence 0;
                  req = \<lparr> t2d_hdr = h, t2d_r = wire_rect rect, t2d_offset = 0,
                          t2d_resource_id = res, t2d_padding = 0 \<rparr> in
         case cmd_submit e (enc_transfer_to_host_2d req) sizeof_ctrl_hdr RESP_OK_NODATA f
                (s\<lparr>vg := d\<rparr>) of
           None \<Rightarrow> None
         | Some (Inl er, s1) \<Rightarrow> Some (Inl er, f, s1)
         | Some (Inr _, s1) \<Rightarrow>
             Some (Inr (), f, s1\<lparr>vg := (vg s1)\<lparr>metrics := (metrics (vg s1))
               \<lparr>m_transfers_to_host := m_transfers_to_host (metrics (vg s1)) + 1,
                m_bytes_to_host := m_bytes_to_host (metrics (vg s1))
                  + ucast (rect_w rect) * ucast (rect_h rect) * 4\<rparr>\<rparr>\<rparr>))
     | _ \<Rightarrow> Some (Inl EINVAL, None, s))"

definition uk_virtio_gpu_resource_flush :: "'h env \<Rightarrow> u32 \<Rightarrow> uk_gpu_rect option \<Rightarrow> bool
    \<Rightarrow> 'h sys \<Rightarrow> ((errno + unit) \<times> u64 option \<times> 'h sys) option" where
  "uk_virtio_gpu_resource_flush e res rect fence s =
    (case (find_res (vg s) res, rect) of
       (Some _, Some rect) \<Rightarrow>
        (if rect_w rect = 0 \<or> rect_h rect = 0 then Some (Inl EINVAL, None, s)
         else let (h, f, d) = hdr_init (vg s) CMD_RESOURCE_FLUSH fence 0;
                  req = \<lparr> flush_hdr = h, flush_r = wire_rect rect, flush_resource_id = res,
                          flush_padding = 0 \<rparr> in
         case cmd_submit e (enc_resource_flush req) sizeof_ctrl_hdr RESP_OK_NODATA f
                (s\<lparr>vg := d\<rparr>) of
           None \<Rightarrow> None
         | Some (Inl er, s1) \<Rightarrow> Some (Inl er, f, s1)
         | Some (Inr _, s1) \<Rightarrow>
             Some (Inr (), f, s1\<lparr>vg := (vg s1)\<lparr>metrics := (metrics (vg s1))
               \<lparr>m_flushes := m_flushes (metrics (vg s1)) + 1\<rparr>\<rparr>\<rparr>))
     | _ \<Rightarrow> Some (Inl EINVAL, None, s))"

definition uk_virtio_gpu_transfer_and_flush_2d :: "'h env \<Rightarrow> u32 \<Rightarrow> uk_gpu_rect option \<Rightarrow> bool
    \<Rightarrow> 'h sys \<Rightarrow> ((errno + unit) \<times> u64 option \<times> 'h sys) option" where
  "uk_virtio_gpu_transfer_and_flush_2d e res rect fence s =
    (if \<not> fence then Some (Inl EINVAL, None, s)
     else case uk_virtio_gpu_transfer_to_host_2d e res rect False s of
       None \<Rightarrow> None
     | Some (Inl er, _, s1) \<Rightarrow> Some (Inl er, None, s1)
     | Some (Inr _, _, s1) \<Rightarrow> uk_virtio_gpu_resource_flush e res rect fence s1)"

definition uk_virtio_gpu_fence_wait :: "uk_virtio_gpu_dev \<Rightarrow> u64 \<Rightarrow> u64
    \<Rightarrow> (errno + unit) \<times> uk_virtio_gpu_dev" where
  "uk_virtio_gpu_fence_wait d fence timeout_ns =
    (if fence = 0 then (Inl EINVAL, d)
     else (if fence \<le> completed_fence d then Inr () else Inl ETIMEDOUT,
           d\<lparr>metrics := (metrics d)\<lparr>m_fence_waits := m_fence_waits (metrics d) + 1\<rparr>\<rparr>))"

definition uk_virtio_gpu_gl_set_scanout :: "'h env \<Rightarrow> u32 \<Rightarrow> u32 \<Rightarrow> uk_gpu_rect option
    \<Rightarrow> 'h sys \<Rightarrow> ((errno + unit) \<times> 'h sys) option" where
  "uk_virtio_gpu_gl_set_scanout e scanout res rect s =
    (case (find_res (vg s) res, rect) of
       (Some _, Some rect) \<Rightarrow>
        (if num_scanouts (vg s) \<le> scanout then Some (Inl EINVAL, s)
         else let (h, _, d) = hdr_init (vg s) CMD_SET_SCANOUT False 0;
                  req = \<lparr> sso_hdr = h, sso_r = wire_rect rect, sso_scanout_id = scanout,
                          sso_resource_id = res \<rparr> in
         case cmd_submit e (enc_set_scanout req) sizeof_ctrl_hdr RESP_OK_NODATA None
                (s\<lparr>vg := d\<rparr>) of
           None \<Rightarrow> None
         | Some (Inl er, s1) \<Rightarrow> Some (Inl er, s1)
         | Some (Inr _, s1) \<Rightarrow> Some (Inr (), s1))
     | _ \<Rightarrow> Some (Inl EINVAL, s))"

definition uk_virtio_gpu_gl_resource_detach_backing :: "'h env \<Rightarrow> u32 \<Rightarrow> 'h sys
    \<Rightarrow> ((errno + unit) \<times> 'h sys) option" where
  "uk_virtio_gpu_gl_resource_detach_backing e res s =
    (case find_res (vg s) res of
       None \<Rightarrow> Some (Inl EINVAL, s)
     | Some i \<Rightarrow>
        (if \<not> r_backing_attached (resources (vg s) ! i) then Some (Inl EINVAL, s)
         else let (h, _, d) = hdr_init (vg s) CMD_RESOURCE_DETACH_BACKING False 0;
                  req = \<lparr> db_hdr = h, db_resource_id = res, db_padding = 0 \<rparr> in
         case cmd_submit e (enc_resource_detach_backing req) sizeof_ctrl_hdr RESP_OK_NODATA None
                (s\<lparr>vg := d\<rparr>) of
           None \<Rightarrow> None
         | Some (Inl er, s1) \<Rightarrow> Some (Inl er, s1)
         | Some (Inr _, s1) \<Rightarrow>
             (let d1 = res_upd i (\<lambda>r. r\<lparr>r_backing_attached := False\<rparr>) (vg s1) in
              Some (Inr (), s1\<lparr>vg := d1\<lparr>metrics := (metrics d1)
                \<lparr>m_detach_calls := m_detach_calls (metrics d1) + 1\<rparr>\<rparr>\<rparr>))))"

definition uk_virtio_gpu_gl_resource_unref :: "'h env \<Rightarrow> u32 \<Rightarrow> 'h sys
    \<Rightarrow> ((errno + unit) \<times> 'h sys) option" where
  "uk_virtio_gpu_gl_resource_unref e res s =
    (case find_res (vg s) res of
       None \<Rightarrow> Some (Inl EINVAL, s)
     | Some i \<Rightarrow>
        (let (h, _, d) = hdr_init (vg s) CMD_RESOURCE_UNREF False 0;
             req = \<lparr> unref_hdr = h, unref_resource_id = res, unref_padding = 0 \<rparr> in
         case cmd_submit e (enc_resource_unref req) sizeof_ctrl_hdr RESP_OK_NODATA None
                (s\<lparr>vg := d\<rparr>) of
           None \<Rightarrow> None
         | Some (Inl er, s1) \<Rightarrow> Some (Inl er, s1)
         | Some (Inr _, s1) \<Rightarrow>
             (let d1 = res_upd i (\<lambda>_. zero_resource) (vg s1) in
              Some (Inr (), s1\<lparr>vg := d1\<lparr>metrics := (metrics d1)
                \<lparr>m_resources_unrefed := m_resources_unrefed (metrics d1) + 1\<rparr>\<rparr>\<rparr>))))"

definition F_VIRGL :: u64 where [proto_consts]: "F_VIRGL = 1"
definition F_EDID :: u64 where [proto_consts]: "F_EDID = 2"
definition F_RESOURCE_UUID :: u64 where [proto_consts]: "F_RESOURCE_UUID = 4"
definition F_RESOURCE_BLOB :: u64 where [proto_consts]: "F_RESOURCE_BLOB = 8"
definition F_CONTEXT_INIT :: u64 where [proto_consts]: "F_CONTEXT_INIT = 16"
definition F_BLOB_ALIGNMENT :: u64 where [proto_consts]: "F_BLOB_ALIGNMENT = 32"

text \<open>\<open>negotiated d F\<close> is the test \<open>d->negotiated_features & F\<close>.\<close>

definition negotiated :: "uk_virtio_gpu_dev \<Rightarrow> u64 \<Rightarrow> bool" where
  "negotiated d f = (negotiated_features d AND f \<noteq> 0)"

definition validate_xfer_3d :: "ukvgpu_resource_state option \<Rightarrow> uk_virtio_gpu_transfer_3d option
    \<Rightarrow> errno + unit" where
  "validate_xfer_3d ro xo =
    (case (ro, xo) of
       (Some r, Some x) \<Rightarrow>
        (let bx :: u64 = ucast (box_x (x_box x)); bw :: u64 = ucast (box_w (x_box x));
             bY :: u64 = ucast (box_y (x_box x)); bh :: u64 = ucast (box_h (x_box x));
             bz :: u64 = ucast (box_z (x_box x)); bd :: u64 = ucast (box_d (x_box x)) in
         if box_w (x_box x) = 0 \<or> box_h (x_box x) = 0 \<or> box_d (x_box x) = 0 then Inl EINVAL
         else case (add_overflow bx bw, add_overflow bY bh, add_overflow bz bd) of
           (Some end_x, Some end_y, Some end_z) \<Rightarrow>
            (if ucast (r_width r) < end_x \<or> ucast (r_height r) < end_y \<or> ucast (r_depth r) < end_z
             then Inl EINVAL
             else case mul_overflow bw 4 of
               None \<Rightarrow> Inl EINVAL
             | Some row_bytes \<Rightarrow>
                (let stride = (if x_stride x \<noteq> 0 then ucast (x_stride x) else row_bytes) in
                 if stride = 0 \<or> stride < row_bytes then Inl EINVAL
                 else case (if x_layer_stride x \<noteq> 0 then Some (ucast (x_layer_stride x))
                            else mul_overflow stride bh) of
                   None \<Rightarrow> Inl EINVAL
                 | Some layer_stride \<Rightarrow>
                    (if layer_stride = 0 \<or> layer_stride < stride * (bh - 1) + row_bytes
                     then Inl EINVAL
                     else case (mul_overflow layer_stride (bd - 1), mul_overflow stride (bh - 1)) of
                       (Some layer_tail, Some row_tail) \<Rightarrow>
                        (case Option.bind (add_overflow (x_offset x) layer_tail)
                                (\<lambda>need. Option.bind (add_overflow need row_tail)
                                  (\<lambda>need. add_overflow need row_bytes)) of
                           None \<Rightarrow> Inl EINVAL
                         | Some need \<Rightarrow> if need \<le> r_size r then Inr () else Inl EINVAL)
                     | _ \<Rightarrow> Inl EINVAL)))
         | _ \<Rightarrow> Inl EINVAL)
     | _ \<Rightarrow> Inl EINVAL)"

definition uk_virtio_gpu_gl_resource_assign_uuid :: "'h env \<Rightarrow> u32 \<Rightarrow> bool \<Rightarrow> 'h sys
    \<Rightarrow> ((errno + u8 list) \<times> 'h sys) option" where
  "uk_virtio_gpu_gl_resource_assign_uuid e res uuid s =
    (if find_res (vg s) res = None \<or> \<not> uuid then Some (Inl EINVAL, s)
     else if \<not> negotiated (vg s) F_RESOURCE_UUID then Some (Inl ENOTSUP, s)
     else let (h, _, d) = hdr_init (vg s) CMD_RESOURCE_ASSIGN_UUID False 0;
              req = \<lparr> uuid_hdr = h, uuid_resource_id = res, uuid_padding = 0 \<rparr> in
     case cmd_submit e (enc_resource_assign_uuid req) (sizeof_ctrl_hdr + 16) RESP_OK_RESOURCE_UUID
            None (s\<lparr>vg := d\<rparr>) of
       None \<Rightarrow> None
     | Some (Inl er, s1) \<Rightarrow> Some (Inl er, s1)
     | Some (Inr resp, s1) \<Rightarrow> Some (Inr (take 16 (drop 24 resp)), s1))"

definition uk_virtio_gpu_gl_resource_create_3d :: "'h env \<Rightarrow> uk_virtio_gpu_resource_3d option \<Rightarrow> bool
    \<Rightarrow> 'h sys \<Rightarrow> ((errno + u32) \<times> 'h sys) option" where
  "uk_virtio_gpu_gl_resource_create_3d e descr out s =
    (case descr of
       None \<Rightarrow> Some (Inl EINVAL, s)
     | Some dsc \<Rightarrow>
     if \<not> out \<or> desc_width dsc = 0 \<or> desc_height dsc = 0 \<or> desc_depth dsc = 0
     then Some (Inl EINVAL, s)
     else if \<not> negotiated (vg s) F_VIRGL then Some (Inl ENOTSUP, s)
     else case alloc_res (vg s) of
       None \<Rightarrow> Some (Inl ENOMEM, s)
     | Some (i, d0) \<Rightarrow>
        (let (hd, _, d) = hdr_init d0 CMD_RESOURCE_CREATE_3D False 0;
             req = \<lparr> c3d_hdr = hd, c3d_resource_id = r_id (resources d ! i),
                     c3d_target = desc_target dsc, c3d_format = desc_format dsc,
                     c3d_bind = desc_bind dsc, c3d_width = desc_width dsc,
                     c3d_height = desc_height dsc, c3d_depth = desc_depth dsc,
                     c3d_array_size = desc_array_size dsc, c3d_last_level = desc_last_level dsc,
                     c3d_nr_samples = desc_nr_samples dsc, c3d_flags = desc_flags dsc,
                     c3d_padding = 0 \<rparr> in
         case cmd_submit e (enc_resource_create_3d req) sizeof_ctrl_hdr RESP_OK_NODATA None
                (s\<lparr>vg := d\<rparr>) of
           None \<Rightarrow> None
         | Some (Inl er, s1) \<Rightarrow> Some (Inl er, s1\<lparr>vg := res_upd i (\<lambda>_. zero_resource) (vg s1)\<rparr>)
         | Some (Inr _, s1) \<Rightarrow>
             Some (Inr (r_id (resources (vg s1) ! i)),
               s1\<lparr>vg := res_upd i (\<lambda>r. r\<lparr>r_is_3d := True, r_width := desc_width dsc,
                    r_height := desc_height dsc, r_depth := desc_depth dsc,
                    r_format := desc_format dsc, r_size := resource_size_bytes
                      (desc_width dsc) (desc_height dsc) (desc_depth dsc)\<rparr>) (vg s1)\<rparr>)))"

definition transfer_3d :: "'h env \<Rightarrow> u32 \<Rightarrow> uk_virtio_gpu_transfer_3d option \<Rightarrow> bool \<Rightarrow> u32
    \<Rightarrow> 'h sys \<Rightarrow> ((errno + unit) \<times> u64 option \<times> 'h sys) option" where
  "transfer_3d e res xfer fence cmd s =
    (case validate_xfer_3d (map_option (\<lambda>i. resources (vg s) ! i) (find_res (vg s) res)) xfer of
       Inl er \<Rightarrow> Some (Inl er, None, s)
     | Inr _ \<Rightarrow>
        (let x = the xfer; b = x_box x; (h, f, d) = hdr_init (vg s) cmd fence 0;
             req = \<lparr> t3d_hdr = h, t3d_resource_id = res, t3d_level = x_level x,
                     t3d_box_x = box_x b, t3d_box_y = box_y b, t3d_box_z = box_z b,
                     t3d_box_w = box_w b, t3d_box_h = box_h b, t3d_box_d = box_d b,
                     t3d_offset = x_offset x, t3d_stride = x_stride x,
                     t3d_layer_stride = x_layer_stride x \<rparr> in
         case cmd_submit e (enc_transfer_host_3d req) sizeof_ctrl_hdr RESP_OK_NODATA f
                (s\<lparr>vg := d\<rparr>) of
           None \<Rightarrow> None
         | Some (Inl er, s1) \<Rightarrow> Some (Inl er, f, s1)
         | Some (Inr _, s1) \<Rightarrow>
             (let m = metrics (vg s1);
                  bytes = ucast (box_w b) * ucast (box_h b) * ucast (box_d b) * 4;
                  m' = (if cmd = CMD_TRANSFER_TO_HOST_3D
                        then m\<lparr>m_transfers_to_host := m_transfers_to_host m + 1,
                               m_bytes_to_host := m_bytes_to_host m + bytes\<rparr>
                        else m\<lparr>m_transfers_from_host := m_transfers_from_host m + 1,
                               m_bytes_from_host := m_bytes_from_host m + bytes\<rparr>)
              in Some (Inr (), f, s1\<lparr>vg := (vg s1)\<lparr>metrics := m'\<rparr>\<rparr>))))"

definition uk_virtio_gpu_gl_transfer_to_host_3d :: "'h env \<Rightarrow> u32 \<Rightarrow> uk_virtio_gpu_transfer_3d option
    \<Rightarrow> bool \<Rightarrow> 'h sys \<Rightarrow> ((errno + unit) \<times> u64 option \<times> 'h sys) option" where
  "uk_virtio_gpu_gl_transfer_to_host_3d e res xfer fence s =
    transfer_3d e res xfer fence CMD_TRANSFER_TO_HOST_3D s"

definition uk_virtio_gpu_gl_transfer_from_host_3d :: "'h env \<Rightarrow> u32 \<Rightarrow> uk_virtio_gpu_transfer_3d option
    \<Rightarrow> bool \<Rightarrow> 'h sys \<Rightarrow> ((errno + unit) \<times> u64 option \<times> 'h sys) option" where
  "uk_virtio_gpu_gl_transfer_from_host_3d e res xfer fence s =
    transfer_3d e res xfer fence CMD_TRANSFER_FROM_HOST_3D s"

section \<open>Bounds of validated transfers\<close>

text \<open>The contract of \<open>validate_xfer_3d\<close> over unbounded integers.\<close>

definition xfer_row_bytes :: "uk_virtio_gpu_transfer_3d \<Rightarrow> nat" where
  "xfer_row_bytes x = unat (box_w (x_box x)) * 4"

definition xfer_stride :: "uk_virtio_gpu_transfer_3d \<Rightarrow> nat" where
  "xfer_stride x = (if x_stride x = 0 then xfer_row_bytes x else unat (x_stride x))"

definition xfer_layer_stride :: "uk_virtio_gpu_transfer_3d \<Rightarrow> nat" where
  "xfer_layer_stride x = (if x_layer_stride x = 0 then xfer_stride x * unat (box_h (x_box x))
     else unat (x_layer_stride x))"

definition xfer_fits :: "ukvgpu_resource_state \<Rightarrow> uk_virtio_gpu_transfer_3d \<Rightarrow> bool" where
  "xfer_fits r x \<longleftrightarrow>
     (let b = x_box x in
      box_w b \<noteq> 0 \<and> box_h b \<noteq> 0 \<and> box_d b \<noteq> 0 \<and>
      unat (box_x b) + unat (box_w b) \<le> unat (r_width r) \<and>
      unat (box_y b) + unat (box_h b) \<le> unat (r_height r) \<and>
      unat (box_z b) + unat (box_d b) \<le> unat (r_depth r) \<and>
      xfer_row_bytes x \<le> xfer_stride x \<and>
      xfer_stride x * (unat (box_h b) - 1) + xfer_row_bytes x \<le> xfer_layer_stride x \<and>
      unat (x_offset x) + xfer_layer_stride x * (unat (box_d b) - 1)
        + xfer_stride x * (unat (box_h b) - 1) + xfer_row_bytes x \<le> unat (r_size r))"

definition xfer_tail :: "u64 \<Rightarrow> u64 \<Rightarrow> u64 option \<Rightarrow> u64 \<Rightarrow> u64 \<Rightarrow> u64 \<Rightarrow> u64 \<Rightarrow> errno + unit" where
  "xfer_tail st rb lso bh bd off sz =
    (case lso of
       None \<Rightarrow> Inl EINVAL
     | Some layer_stride \<Rightarrow>
        (if layer_stride = 0 \<or> layer_stride < st * (bh - 1) + rb
         then Inl EINVAL
         else case (mul_overflow layer_stride (bd - 1), mul_overflow st (bh - 1)) of
           (Some layer_tail, Some row_tail) \<Rightarrow>
            (case Option.bind (add_overflow off layer_tail)
                    (\<lambda>need. Option.bind (add_overflow need row_tail)
                      (\<lambda>need. add_overflow need rb)) of
               None \<Rightarrow> Inl EINVAL
             | Some need \<Rightarrow> if need \<le> sz then Inr () else Inl EINVAL)
         | _ \<Rightarrow> Inl EINVAL))"

lemma xfer_tail_Some:
  assumes "bh \<noteq> 0" "bd \<noteq> 0" "rb \<noteq> 0"
  shows "xfer_tail st rb (Some ls) bh bd off sz = (if
      unat st * (unat bh - 1) + unat rb \<le> unat ls \<and>
      unat off + unat ls * (unat bd - 1) + unat st * (unat bh - 1) + unat rb \<le> unat sz
    then Inr () else Inl EINVAL)" (is "_ = (if ?C then _ else _)")
proof (cases ?C)
  case True
  hence lt: "unat off + unat ls * (unat bd - 1) + unat st * (unat bh - 1) + unat rb < 2 ^ 64"
    using unat_u64_less[of sz] by simp
  have m1: "unat (ls * (bd - 1)) = unat ls * (unat bd - 1)"
    using lt assms by (subst unat_mult_small) (simp_all add: unat_diff_1)
  have m2: "unat (st * (bh - 1)) = unat st * (unat bh - 1)"
    using lt assms by (subst unat_mult_small) (simp_all add: unat_diff_1)
  have m3: "unat (st * (bh - 1) + rb) = unat st * (unat bh - 1) + unat rb"
    using lt m2 by (subst unat_add_small) simp_all
  have ls: "ls \<noteq> 0" "\<not> ls < st * (bh - 1) + rb"
    using True m3 assms(3) by (auto simp: word_less_nat_alt unat_eq_0)
  have o1: "mul_overflow ls (bd - 1) = Some (ls * (bd - 1))"
    "mul_overflow st (bh - 1) = Some (st * (bh - 1))"
    using m1 m2 assms by (simp_all add: mul_overflow_Some unat_diff_1)
  define e where "e = off + ls * (bd - 1) + st * (bh - 1) + rb"
  have e: "unat e = unat off + unat (ls * (bd - 1)) + unat (st * (bh - 1)) + unat rb"
    unfolding e_def using lt m1 m2 by (simp add: unat_add_small)
  have "e \<le> sz" using True e m1 m2 by (simp add: word_le_nat_alt)
  moreover have "Option.bind (add_overflow off (ls * (bd - 1)))
      (\<lambda>need. Option.bind (add_overflow need (st * (bh - 1))) (\<lambda>need. add_overflow need rb)) = Some e"
    using add3_overflow_Some e by blast
  ultimately show ?thesis using True ls o1 by (simp add: xfer_tail_def)
next
  case False
  have "xfer_tail st rb (Some ls) bh bd off sz = Inl EINVAL \<or>
      xfer_tail st rb (Some ls) bh bd off sz = Inr ()"
    by (auto simp: xfer_tail_def split: option.splits)
  moreover have ?C if ok: "xfer_tail st rb (Some ls) bh bd off sz = Inr ()"
  proof -
    from ok obtain lt rt e :: u64 where
      ls: "ls \<noteq> 0" "\<not> ls < st * (bh - 1) + rb"
      and lt: "unat lt = unat ls * (unat bd - 1)" and rt: "unat rt = unat st * (unat bh - 1)"
      and e: "unat e = unat off + unat lt + unat rt + unat rb" and le: "e \<le> sz"
      using assms
      by (auto simp: xfer_tail_def mul_overflow_Some add3_overflow_Some unat_diff_1
          split: option.splits if_splits)
    have "rt = st * (bh - 1)"
      using mul_overflow_Some[of st "bh - 1" rt] rt assms
      by (simp add: unat_diff_1 mul_overflow_def split: if_splits)
    moreover have "unat rt + unat rb < 2 ^ 64" using e unat_u64_less[of e] by simp
    ultimately have "unat (st * (bh - 1) + rb) = unat rt + unat rb" by (simp add: unat_add_small)
    thus ?C using ls le e lt rt by (simp add: word_less_nat_alt word_le_nat_alt)
  qed
  ultimately show ?thesis using False by auto
qed


lemma xfer_tail_None: "xfer_tail st rb None bh bd off sz = Inl EINVAL"
  by (simp add: xfer_tail_def)

lemma validate_iff:
  "validate_xfer_3d (Some r) (Some x) = (if xfer_fits r x then Inr () else Inl EINVAL)"
proof -
  let ?b = "x_box x"
  define rb :: u64 where "rb = ucast (box_w ?b) * 4"
  define st :: u64 where "st = (if x_stride x \<noteq> 0 then ucast (x_stride x) else rb)"
  define lso where "lso = (if x_layer_stride x \<noteq> 0 then Some (ucast (x_layer_stride x))
                            else mul_overflow st (ucast (box_h ?b)))"
  have u: "unat rb = xfer_row_bytes x" "unat st = xfer_stride x"
    by (simp_all add: rb_def st_def xfer_row_bytes_def xfer_stride_def unat_mul4_u32)
  let ?pre = "box_w ?b \<noteq> 0 \<and> box_h ?b \<noteq> 0 \<and> box_d ?b \<noteq> 0 \<and>
      unat (box_x ?b) + unat (box_w ?b) \<le> unat (r_width r) \<and>
      unat (box_y ?b) + unat (box_h ?b) \<le> unat (r_height r) \<and>
      unat (box_z ?b) + unat (box_d ?b) \<le> unat (r_depth r) \<and>
      xfer_row_bytes x \<le> xfer_stride x"
  have v: "validate_xfer_3d (Some r) (Some x) = (if ?pre then
      xfer_tail st rb lso (ucast (box_h ?b)) (ucast (box_d ?b)) (x_offset x) (r_size r)
      else Inl EINVAL)"
  proof -
    have rb0: "rb \<noteq> 0" if "box_w ?b \<noteq> 0"
      using that u(1) by (auto simp: xfer_row_bytes_def simp flip: unat_eq_0)
    have "st \<noteq> 0" if "box_w ?b \<noteq> 0" using rb0[OF that] by (simp add: st_def)
    thus ?thesis
      by (simp add: validate_xfer_3d_def Let_def add_overflow_u32 mul4_u32 word_less_nat_alt
          unat_add_u32 not_less flip: rb_def st_def lso_def u)
        (auto simp: xfer_tail_def not_less word_le_nat_alt word_less_nat_alt)
  qed
  show ?thesis
  proof (cases ?pre)
    case False
    thus ?thesis by (auto simp: v xfer_fits_def Let_def)
  next
    case pre: True
    hence nz: "ucast (box_h ?b) \<noteq> (0 :: u64)" "ucast (box_d ?b) \<noteq> (0 :: u64)" "rb \<noteq> 0"
      using u(1) by (auto simp: xfer_row_bytes_def simp flip: unat_eq_0)
    show ?thesis
    proof (cases lso)
      case (Some ls)
      hence "unat ls = xfer_layer_stride x"
        using u by (auto simp: lso_def xfer_layer_stride_def mul_overflow_Some split: if_splits)
      thus ?thesis
        using pre nz u by (simp add: v Some xfer_tail_Some xfer_fits_def Let_def)
    next
      case None
      hence x0: "x_layer_stride x = 0"
        and big: "2 ^ 64 \<le> xfer_stride x * unat (box_h ?b)"
        using u by (auto simp: lso_def mul_overflow_None split: if_splits)
      have "x_stride x = 0"
      proof (rule ccontr)
        assume "x_stride x \<noteq> 0"
        hence "xfer_stride x * unat (box_h ?b) < 2 ^ 32 * 2 ^ 32"
          using unat_u32_less[of "x_stride x"] unat_u32_less[of "box_h ?b"]
          by (intro mult_strict_mono) (simp_all add: xfer_stride_def)
        thus False using big by simp
      qed
      hence "xfer_stride x * (unat (box_h ?b) - 1) + xfer_row_bytes x
          = xfer_stride x * unat (box_h ?b)"
        using pre by (cases "unat (box_h ?b)") (auto simp: xfer_stride_def unat_eq_0)
      hence "\<not> xfer_fits r x"
        using big unat_u64_less[of "r_size r"] by (simp add: xfer_fits_def Let_def)
      thus ?thesis using pre None by (simp add: v xfer_tail_None)
    qed
  qed
qed

section \<open>Every operation keeps the contract\<close>

lemma get_display_info_ok:
  "uk_virtio_gpu_get_display_info e s = Some (r, s') \<Longrightarrow> op_ok s s'"
  by (auto simp: uk_virtio_gpu_get_display_info_def Let_def dec_resp_display_info_def
      dest!: cq.no_fence intro!: dev_inv_scanouts op_ok_vg split: option.splits sum.splits)

lemma create_2d_ok:
  assumes "uk_virtio_gpu_resource_create_2d e w h fmt out s = Some (r, s')"
  shows "op_ok s s'"
  using assms
  by (auto simp: uk_virtio_gpu_resource_create_2d_def Let_def
      dest!: cq.no_fence split: if_splits option.splits sum.splits
      elim!: op_ok_alloc_res intro!: dev_inv_res_clear dev_inv_res_write)

lemma attach_ok:
  assumes "uk_virtio_gpu_resource_attach_backing e res sg s = Some (r, s')"
  shows "op_ok s s'"
  using assms
  by (auto simp: uk_virtio_gpu_resource_attach_backing_def Let_def
      dest!: cq.no_fence find_res_SomeD intro!: op_ok_vg dev_inv_res_write
      split: if_splits option.splits sum.splits)

lemma detach_ok:
  assumes "uk_virtio_gpu_gl_resource_detach_backing e res s = Some (r, s')"
  shows "op_ok s s'"
  using assms
  by (auto simp: uk_virtio_gpu_gl_resource_detach_backing_def Let_def
      dest!: cq.no_fence find_res_SomeD intro!: op_ok_vg dev_inv_res_write
      split: if_splits option.splits sum.splits)

lemma unref_ok:
  assumes "uk_virtio_gpu_gl_resource_unref e res s = Some (r, s')"
  shows "op_ok s s'"
  using assms
  by (auto simp: uk_virtio_gpu_gl_resource_unref_def Let_def
      dest!: cq.no_fence intro!: op_ok_vg dev_inv_res_clear
      split: if_splits option.splits sum.splits)

lemma set_scanout_ok:
  assumes "uk_virtio_gpu_gl_set_scanout e sc res rect s = Some (r, s')"
  shows "op_ok s s'"
  using assms
  by (auto simp: uk_virtio_gpu_gl_set_scanout_def Let_def
      dest!: cq.no_fence split: if_splits option.splits sum.splits)

lemma assign_uuid_ok:
  assumes "uk_virtio_gpu_gl_resource_assign_uuid e res u s = Some (r, s')"
  shows "op_ok s s'"
  using assms
  by (auto simp: uk_virtio_gpu_gl_resource_assign_uuid_def Let_def
      dest!: cq.no_fence split: if_splits option.splits sum.splits)

lemma create_3d_ok:
  assumes "uk_virtio_gpu_gl_resource_create_3d e dsc out s = Some (r, s')"
  shows "op_ok s s'"
  using assms
  by (auto simp: uk_virtio_gpu_gl_resource_create_3d_def Let_def
      dest!: cq.no_fence split: if_splits option.splits sum.splits
      elim!: op_ok_alloc_res intro!: dev_inv_res_clear dev_inv_res_write)

lemma flush_ok:
  assumes "uk_virtio_gpu_resource_flush e res rect fence s = Some (r, f, s')"
  shows "op_ok s s'"
  using assms
  by (auto simp: uk_virtio_gpu_resource_flush_def Let_def
      intro: op_ok_fenced_submit split: if_splits option.splits sum.splits prod.splits)

lemma transfer_2d_ok:
  assumes "uk_virtio_gpu_transfer_to_host_2d e res rect fence s = Some (r, f, s')"
  shows "op_ok s s'"
  using assms
  by (auto simp: uk_virtio_gpu_transfer_to_host_2d_def Let_def
      intro: op_ok_fenced_submit split: if_splits option.splits sum.splits prod.splits)

lemma transfer_3d_ok:
  assumes "transfer_3d e res x fence cmd s = Some (r, f, s')"
  shows "op_ok s s'"
  using assms
  by (auto simp: transfer_3d_def Let_def
      intro: op_ok_fenced_submit split: if_splits option.splits sum.splits prod.splits)

lemma fence_wait_ok: "uk_virtio_gpu_fence_wait (vg s) f t = (r, d) \<Longrightarrow> op_ok s (s\<lparr>vg := d\<rparr>)"
  by (auto simp: uk_virtio_gpu_fence_wait_def intro!: op_ok_vg split: if_splits)


lemma transfer_2d_no_fence:
  assumes "uk_virtio_gpu_transfer_to_host_2d e res rect False s = Some (r, f, s')"
  shows "g_ctrlq_lock s' = g_ctrlq_lock s \<and> vg s' = (vg s)\<lparr>metrics := metrics (vg s')\<rparr>"
  using assms
  by (auto simp: uk_virtio_gpu_transfer_to_host_2d_def Let_def
      dest!: cq.no_fence split: if_splits option.splits sum.splits)

lemma transfer_and_flush_ok:
  assumes "uk_virtio_gpu_transfer_and_flush_2d e res rect fence s = Some (r, f, s')"
  shows "op_ok s s'"
  using assms
  by (auto simp: uk_virtio_gpu_transfer_and_flush_2d_def
      dest!: transfer_2d_no_fence flush_ok intro: op_ok_metrics_first
      split: if_splits option.splits sum.splits)

section \<open>Properties of transfers\<close>

text \<open>C6 (equivalence): the check on a 3D transfer accepts exactly the transfers that fit the
  resource in unbounded arithmetic: none of its 64-bit additions and multiplications, the unchecked
  ones included, can wrap around and let a transfer through or reject one that fits.\<close>

theorem transfer_validation_exact:
  "validate_xfer_3d (Some r) (Some x) = (if xfer_fits r x then Inr () else Inl EINVAL)"
  by (rule validate_iff)

text \<open>The offset of byte \<open>b\<close> of row \<open>j\<close> of layer \<open>k\<close> of a transfer.\<close>

definition xfer_byte :: "uk_virtio_gpu_transfer_3d \<Rightarrow> nat \<Rightarrow> nat \<Rightarrow> nat \<Rightarrow> nat" where
  "xfer_byte x k j b = unat (x_offset x) + k * xfer_layer_stride x + j * xfer_stride x + b"

lemma digits_inj:
  fixes m n a b c d :: nat
  assumes "a * m + b = c * m + d" "b < m" "d < m"
  shows "a = c \<and> b = d"
proof -
  have "(a * m + b) div m = (c * m + d) div m" using assms(1) by simp
  hence "a = c" using assms(2,3) by simp
  thus ?thesis using assms(1) by simp
qed

lemma row_below:
  fixes j h st rb :: nat
  assumes "j < h" "b < rb" "rb \<le> st"
  shows "j * st + b < st * (h - 1) + rb"
proof -
  have "j * st \<le> (h - 1) * st" using assms(1) by (intro mult_right_mono) auto
  hence "j * st + b < (h - 1) * st + rb" using assms(2) by linarith
  thus ?thesis unfolding mult.commute[of st] .
qed

text \<open>C28 (safety): every byte of every row of every layer of an accepted transfer lies inside the
  resource, and no two of them share an address.\<close>

theorem accepted_transfer_bytes:
  assumes "validate_xfer_3d (Some r) (Some x) = Inr ()"
    and "k < unat (box_d (x_box x))" "j < unat (box_h (x_box x))" "b < 4 * unat (box_w (x_box x))"
    and "k' < unat (box_d (x_box x))" "j' < unat (box_h (x_box x))" "b' < 4 * unat (box_w (x_box x))"
  shows "xfer_byte x k j b < unat (r_size r) \<and>
    (xfer_byte x k j b = xfer_byte x k' j' b' \<longleftrightarrow> k = k' \<and> j = j' \<and> b = b')"
proof -
  let ?h = "unat (box_h (x_box x))" and ?d = "unat (box_d (x_box x))"
  let ?st = "xfer_stride x" and ?ls = "xfer_layer_stride x" and ?rb = "xfer_row_bytes x"
  have fits: "xfer_fits r x" using assms(1) by (simp add: validate_iff split: if_splits)
  hence rs: "?rb \<le> ?st" and sl: "?st * (?h - 1) + ?rb \<le> ?ls"
    and size: "unat (x_offset x) + ?ls * (?d - 1) + ?st * (?h - 1) + ?rb \<le> unat (r_size r)"
    by (auto simp: xfer_fits_def Let_def)
  have b: "b < ?rb" "b' < ?rb" using assms(4,7) by (simp_all add: xfer_row_bytes_def)
  note row = row_below[OF assms(3) b(1) rs] row_below[OF assms(6) b(2) rs]
  have "k * ?ls \<le> ?ls * (?d - 1)"
    using assms(2) by (subst mult.commute[of ?ls], intro mult_right_mono) auto
  hence "xfer_byte x k j b < unat (r_size r)"
    using row(1) size unfolding xfer_byte_def by linarith
  moreover have "k = k' \<and> j = j' \<and> b = b'" if eq: "xfer_byte x k j b = xfer_byte x k' j' b'"
  proof -
    have "k * ?ls + (j * ?st + b) = k' * ?ls + (j' * ?st + b')"
      using eq unfolding xfer_byte_def by linarith
    moreover have "j * ?st + b < ?ls" "j' * ?st + b' < ?ls" using row sl by linarith+
    ultimately have "k = k'" "j * ?st + b = j' * ?st + b'" using digits_inj by blast+
    moreover have "b < ?st" "b' < ?st" using b rs by linarith+
    ultimately show ?thesis using digits_inj by blast
  qed
  ultimately show ?thesis by blast
qed

definition demo_xfer :: uk_virtio_gpu_transfer_3d where
  "demo_xfer = \<lparr> x_box = \<lparr> box_x = 1, box_y = 0, box_z = 0, box_w = 2, box_h = 2, box_d = 2 \<rparr>,
     x_offset = 4, x_level = 0, x_stride = 16, x_layer_stride = 0 \<rparr>"

definition demo_3d :: ukvgpu_resource_state where
  "demo_3d = zero_resource\<lparr>r_id := 1, r_live := True, r_is_3d := True, r_width := 4, r_height := 2,
     r_depth := 2, r_size := 64\<rparr>"

lemma accepted_transfer_bytes_witness:
  "xfer_byte demo_xfer 1 1 7 < unat (r_size demo_3d) \<and>
   (xfer_byte demo_xfer 1 1 7 = xfer_byte demo_xfer 1 0 7 \<longleftrightarrow> (1 :: nat) = 1 \<and> (1 :: nat) = 0 \<and> (7 :: nat) = 7)"
proof (rule accepted_transfer_bytes)
  have "xfer_fits demo_3d demo_xfer"
    by (simp add: xfer_fits_def demo_xfer_def demo_3d_def xfer_row_bytes_def xfer_stride_def
        xfer_layer_stride_def Let_def)
  thus "validate_xfer_3d (Some demo_3d) (Some demo_xfer) = Inr ()" by (simp add: validate_iff)
qed (simp_all add: demo_xfer_def)

text \<open>The size recorded for a resource is the true byte count modulo \<open>2^64\<close>; so it is
  exact whenever the count fits 64 bits, and otherwise smaller than the true count.\<close>

theorem resource_size_wraps_down:
  "unat (resource_size_bytes w h d) = unat w * unat h * unat (if d \<noteq> 0 then d else 1) * 4 mod 2 ^ 64"
proof -
  have "unat (a * b :: u64) = unat a * unat b mod 2 ^ 64" for a b
    by (simp add: unat_word_ariths)
  thus ?thesis
    unfolding resource_size_bytes_def Let_def
    by (simp add: mod_mult_left_eq mod_mult_right_eq mult.assoc)
qed

end
