(* ===== verification/Gpu_Contexts.thy ===== *)
theory Gpu_Contexts
  imports Gpu_Resources
begin

text \<open>
  Capability sets, EDID, metrics and rendering contexts of \<open>virtio_gpu_real.c\<close>: queries, context
  creation and destruction, attaching resources and submitting command streams (with a plain fence
  or with a per-ring context fence).
\<close>

section \<open>Queries\<close>

definition CAPSET_VIRGL :: u32 where [proto_consts]: "CAPSET_VIRGL = 1"
definition CAPSET_VIRGL2 :: u32 where [proto_consts]: "CAPSET_VIRGL2 = 2"
definition CAPSET_GFXSTREAM :: u32 where [proto_consts]: "CAPSET_GFXSTREAM = 3"
definition CAPSET_VENUS :: u32 where [proto_consts]: "CAPSET_VENUS = 4"
definition CAPSET_CROSS_DOMAIN :: u32 where [proto_consts]: "CAPSET_CROSS_DOMAIN = 5"
definition CAPSET_DRM :: u32 where [proto_consts]: "CAPSET_DRM = 6"
definition CAPSET_APIR :: u32 where [proto_consts]: "CAPSET_APIR = 10"

record uk_virtio_gpu_caps =
  caps_num_scanouts :: u32
  caps_num_capsets :: u32
  caps_device_features :: u64
  caps_negotiated_features :: u64
  caps_has_virgl :: bool
  caps_has_edid :: bool
  caps_has_resource_uuid :: bool
  caps_has_resource_blob :: bool
  caps_has_context_init :: bool
  caps_uses_blob_scanout :: bool
  caps_has_host_visible :: bool
  caps_has_blob_alignment :: bool
  caps_blob_alignment :: u32

record uk_virtio_gpu_capset_info =
  ci_id :: u32
  ci_max_version :: u32
  ci_max_size :: u32

definition uk_virtio_gpu_gl_caps_get :: "uk_virtio_gpu_dev \<Rightarrow> bool \<Rightarrow> errno + uk_virtio_gpu_caps" where
  "uk_virtio_gpu_gl_caps_get d caps =
    (if \<not> caps then Inl EINVAL
     else Inr \<lparr> caps_num_scanouts = num_scanouts d, caps_num_capsets = num_capsets d,
       caps_device_features = host_features d, caps_negotiated_features = negotiated_features d,
       caps_has_virgl = negotiated d F_VIRGL, caps_has_edid = negotiated d F_EDID,
       caps_has_resource_uuid = negotiated d F_RESOURCE_UUID,
       caps_has_resource_blob = negotiated d F_RESOURCE_BLOB,
       caps_has_context_init = negotiated d F_CONTEXT_INIT, caps_uses_blob_scanout = False,
       caps_has_host_visible = (shm_size (host_visible d) \<noteq> 0),
       caps_has_blob_alignment = negotiated d F_BLOB_ALIGNMENT,
       caps_blob_alignment = blob_alignment d \<rparr>)"

definition uk_virtio_gpu_gl_capset_info_get :: "'h env \<Rightarrow> u32 \<Rightarrow> bool \<Rightarrow> 'h sys
    \<Rightarrow> ((errno + uk_virtio_gpu_capset_info) \<times> 'h sys) option" where
  "uk_virtio_gpu_gl_capset_info_get e index info s =
    (if \<not> info \<or> num_capsets (vg s) \<le> index then Some (Inl EINVAL, s)
     else case env_malloc e (of_nat sizeof_resp_capset_info) (host s) of
       (False, h1) \<Rightarrow> Some (Inl ENOMEM, s\<lparr>host := h1\<rparr>)
     | (True, h1) \<Rightarrow>
        (let (h, _, d) = hdr_init (vg s) CMD_GET_CAPSET_INFO False 0;
             req = \<lparr> gci_hdr = h, gci_capset_index = index, gci_padding = 0 \<rparr> in
         case cmd_submit e (enc_get_capset_info req) sizeof_resp_capset_info RESP_OK_CAPSET_INFO
                None (s\<lparr>vg := d, host := h1\<rparr>) of
           None \<Rightarrow> None
         | Some (Inl er, s1) \<Rightarrow> Some (Inl er, s1\<lparr>host := env_free e (host s1)\<rparr>)
         | Some (Inr resp, s1) \<Rightarrow>
             (let r = dec_resp_capset_info resp in
              Some (Inr \<lparr> ci_id = rci_capset_id r, ci_max_version = rci_capset_max_version r,
                          ci_max_size = rci_capset_max_size r \<rparr>,
                    s1\<lparr>host := env_free e (host s1)\<rparr>))))"

text \<open>The result of \<open>capset_get\<close> is what is copied to \<open>buf\<close>: \<open>len\<close> bytes, also stored in \<open>actual_len\<close>.\<close>

definition uk_virtio_gpu_gl_capset_get :: "'h env \<Rightarrow> u32 \<Rightarrow> u32 \<Rightarrow> bool \<Rightarrow> nat \<Rightarrow> 'h sys
    \<Rightarrow> ((errno + u8 list) \<times> 'h sys) option" where
  "uk_virtio_gpu_gl_capset_get e capset_id version buf len s =
    (if \<not> buf \<or> len = 0 \<or> MAX_CAPSET_PAYLOAD < len then Some (Inl EINVAL, s)
     else case env_malloc e (of_nat sizeof_resp_capset) (host s) of
       (False, h1) \<Rightarrow> Some (Inl ENOMEM, s\<lparr>host := h1\<rparr>)
     | (True, h1) \<Rightarrow>
        (let (h, _, d) = hdr_init (vg s) CMD_GET_CAPSET False 0;
             req = \<lparr> gc_hdr = h, gc_capset_id = capset_id, gc_capset_version = version \<rparr> in
         case cmd_submit e (enc_get_capset req) sizeof_resp_capset RESP_OK_CAPSET
                None (s\<lparr>vg := d, host := h1\<rparr>) of
           None \<Rightarrow> None
         | Some (Inl er, s1) \<Rightarrow> Some (Inl er, s1\<lparr>host := env_free e (host s1)\<rparr>)
         | Some (Inr resp, s1) \<Rightarrow>
              Some (Inr (take len (rcs_capset_data (dec_resp_capset resp))),
                    s1\<lparr>host := env_free e (host s1)\<rparr>)))"

definition uk_virtio_gpu_gl_get_edid :: "'h env \<Rightarrow> u32 \<Rightarrow> bool \<Rightarrow> nat \<Rightarrow> 'h sys
    \<Rightarrow> ((errno + u8 list) \<times> 'h sys) option" where
  "uk_virtio_gpu_gl_get_edid e scanout buf len s =
    (if \<not> negotiated (vg s) F_EDID then Some (Inl ENOTSUP, s)
     else if \<not> buf \<or> len < 1024 then Some (Inl ENOSPC, s)
     else let (h, _, d) = hdr_init (vg s) CMD_GET_EDID False 0;
              req = \<lparr> ge_hdr = h, ge_scanout = scanout, ge_padding = 0 \<rparr> in
     case cmd_submit e (enc_get_edid req) sizeof_resp_edid RESP_OK_EDID None (s\<lparr>vg := d\<rparr>) of
       None \<Rightarrow> None
     | Some (Inl er, s1) \<Rightarrow> Some (Inl er, s1)
     | Some (Inr resp, s1) \<Rightarrow>
         (let r = dec_resp_edid resp;
              n = (if unat (redid_size r) \<le> 1024 then unat (redid_size r) else 1024) in
          Some (Inr (take n (redid_edid r)), s1)))"

definition uk_virtio_gpu_gl_metrics_get :: "uk_virtio_gpu_dev \<Rightarrow> bool \<Rightarrow> errno + uk_virtio_gpu_metrics" where
  "uk_virtio_gpu_gl_metrics_get d m = (if m then Inr (metrics d) else Inl EINVAL)"

definition uk_virtio_gpu_gl_metrics_reset :: "uk_virtio_gpu_dev \<Rightarrow> uk_virtio_gpu_dev" where
  "uk_virtio_gpu_gl_metrics_reset d = d\<lparr>metrics := zero_metrics\<rparr>"

definition uk_virtio_gpu_gl_capset_name :: "u32 \<Rightarrow> string" where
  "uk_virtio_gpu_gl_capset_name i =
    (if i = CAPSET_VIRGL then ''virgl'' else if i = CAPSET_VIRGL2 then ''virgl2''
     else if i = CAPSET_GFXSTREAM then ''gfxstream'' else if i = CAPSET_VENUS then ''venus''
     else if i = CAPSET_CROSS_DOMAIN then ''cross-domain'' else if i = CAPSET_DRM then ''drm''
     else if i = CAPSET_APIR then ''apir'' else ''unknown'')"

text \<open>The loop over the capset indices, \<open>k\<close> of them left from index \<open>i\<close>.\<close>

primrec has_capset_loop :: "'h env \<Rightarrow> u32 \<Rightarrow> nat \<Rightarrow> u32 \<Rightarrow> 'h sys \<Rightarrow> (bool \<times> 'h sys) option" where
  "has_capset_loop e cid 0 i s = Some (False, s)"
| "has_capset_loop e cid (Suc k) i s =
    (case uk_virtio_gpu_gl_capset_info_get e i True s of
       None \<Rightarrow> None
     | Some (Inl _, s1) \<Rightarrow> has_capset_loop e cid k (i + 1) s1
     | Some (Inr info, s1) \<Rightarrow>
         if ci_id info = cid then Some (True, s1) else has_capset_loop e cid k (i + 1) s1)"

definition has_capset :: "'h env \<Rightarrow> u32 \<Rightarrow> 'h sys \<Rightarrow> (bool \<times> 'h sys) option" where
  "has_capset e cid s = has_capset_loop e cid (unat (num_capsets (vg s))) 0 s"

section \<open>Contexts\<close>

record uk_virtio_gpu_context =
  ctx_id :: u32
  ctx_capset_id :: u32
  ctx_created :: bool

text \<open>\<open>name\<close> is the memory at the name pointer, up to a NUL byte.\<close>

definition strnlen :: "u8 list \<Rightarrow> nat \<Rightarrow> nat" where
  "strnlen str n = length (takeWhile (\<lambda>c. c \<noteq> 0) (take n str))"

definition uk_virtio_gpu_gl_context_create :: "'h env \<Rightarrow> u32 \<Rightarrow> u8 list option \<Rightarrow> bool \<Rightarrow> 'h sys
    \<Rightarrow> ((errno + uk_virtio_gpu_context) \<times> 'h sys) option" where
  "uk_virtio_gpu_gl_context_create e capset_id name ctx s =
    (if \<not> ctx \<or> capset_id = 0 then Some (Inl EINVAL, s)
     else if \<not> negotiated (vg s) F_VIRGL then Some (Inl ENOTSUP, s)
     else case (if negotiated (vg s) F_CONTEXT_INIT then has_capset e capset_id s
                else Some (True, s)) of
       None \<Rightarrow> None
     | Some (False, s0) \<Rightarrow> Some (Inl EINVAL, s0)
     | Some (True, s0) \<Rightarrow>
      (case alloc_ctx (vg s0) of
         None \<Rightarrow> Some (Inl ENOMEM, s0)
       | Some (i, d0) \<Rightarrow>
          (let d1 = ctx_upd i (\<lambda>c. c\<lparr>c_capset_id := capset_id\<rparr>) d0;
               (h, _, d) = hdr_init d1 CMD_CTX_CREATE True (c_id (contexts d1 ! i));
               n = (case name of None \<Rightarrow> 0 | Some nm \<Rightarrow> strnlen nm 64);
               req = \<lparr> cc_hdr = h, cc_nlen = of_nat n,
                       cc_context_init = (if negotiated d F_CONTEXT_INIT
                         then capset_id AND CONTEXT_INIT_CAPSET_ID_MASK else 0),
                       cc_debug_name = (case name of None \<Rightarrow> [] | Some nm \<Rightarrow> take n nm) \<rparr> in
           case cmd_submit e (enc_ctx_create req) sizeof_ctrl_hdr RESP_OK_NODATA None
                  (s0\<lparr>vg := d\<rparr>) of
             None \<Rightarrow> None
           | Some (Inl er, s1) \<Rightarrow> Some (Inl er, s1\<lparr>vg := ctx_upd i (\<lambda>_. zero_context) (vg s1)\<rparr>)
           | Some (Inr _, s1) \<Rightarrow>
               Some (Inr \<lparr> ctx_id = c_id (contexts (vg s1) ! i), ctx_capset_id = capset_id,
                           ctx_created = True \<rparr>,
                 s1\<lparr>vg := (vg s1)\<lparr>metrics := (metrics (vg s1))
                   \<lparr>m_contexts_created := m_contexts_created (metrics (vg s1)) + 1\<rparr>\<rparr>\<rparr>))))"

definition uk_virtio_gpu_gl_context_destroy :: "'h env \<Rightarrow> uk_virtio_gpu_context option \<Rightarrow> 'h sys
    \<Rightarrow> ((errno + uk_virtio_gpu_context) \<times> 'h sys) option" where
  "uk_virtio_gpu_gl_context_destroy e ctx s =
    (case Option.bind ctx (\<lambda>c. find_ctx (vg s) (ctx_id c)) of
       None \<Rightarrow> Some (Inl EINVAL, s)
     | Some i \<Rightarrow>
        (let (h, _, d) = hdr_init (vg s) CMD_CTX_DESTROY False (c_id (contexts (vg s) ! i)) in
         case cmd_submit e (enc_ctrl_hdr h) sizeof_ctrl_hdr RESP_OK_NODATA None (s\<lparr>vg := d\<rparr>) of
           None \<Rightarrow> None
         | Some (Inl er, s1) \<Rightarrow> Some (Inl er, s1)
         | Some (Inr _, s1) \<Rightarrow>
             (let d1 = ctx_upd i (\<lambda>_. zero_context) (vg s1) in
              Some (Inr ((the ctx)\<lparr>ctx_created := False\<rparr>),
                s1\<lparr>vg := d1\<lparr>metrics := (metrics d1)
                  \<lparr>m_contexts_destroyed := m_contexts_destroyed (metrics d1) + 1\<rparr>\<rparr>\<rparr>))))"

text \<open>\<open>ctx ? ctx->id : 0\<close>\<close>

definition ctx_id_or_0 :: "uk_virtio_gpu_context option \<Rightarrow> u32" where
  "ctx_id_or_0 ctx = (case ctx of None \<Rightarrow> 0 | Some c \<Rightarrow> ctx_id c)"

definition ctx_resource :: "'h env \<Rightarrow> uk_virtio_gpu_context option \<Rightarrow> u32 \<Rightarrow> u32 \<Rightarrow> 'h sys
    \<Rightarrow> ((errno + unit) \<times> 'h sys) option" where
  "ctx_resource e ctx res cmd s =
    (if find_ctx (vg s) (ctx_id_or_0 ctx) = None \<or> find_res (vg s) res = None
     then Some (Inl EINVAL, s)
     else let (h, _, d) = hdr_init (vg s) cmd False (ctx_id_or_0 ctx);
              req = \<lparr> cr_hdr = h, cr_resource_id = res, cr_padding = 0 \<rparr> in
     case cmd_submit e (enc_ctx_resource req) sizeof_ctrl_hdr RESP_OK_NODATA None (s\<lparr>vg := d\<rparr>) of
       None \<Rightarrow> None
     | Some (Inl er, s1) \<Rightarrow> Some (Inl er, s1)
     | Some (Inr _, s1) \<Rightarrow> Some (Inr (), s1))"

definition uk_virtio_gpu_gl_context_attach_resource :: "'h env \<Rightarrow> uk_virtio_gpu_context option \<Rightarrow> u32
    \<Rightarrow> 'h sys \<Rightarrow> ((errno + unit) \<times> 'h sys) option" where
  "uk_virtio_gpu_gl_context_attach_resource e ctx res s =
    ctx_resource e ctx res CMD_CTX_ATTACH_RESOURCE s"

definition uk_virtio_gpu_gl_context_detach_resource :: "'h env \<Rightarrow> uk_virtio_gpu_context option \<Rightarrow> u32
    \<Rightarrow> 'h sys \<Rightarrow> ((errno + unit) \<times> 'h sys) option" where
  "uk_virtio_gpu_gl_context_detach_resource e ctx res s =
    ctx_resource e ctx res CMD_CTX_DETACH_RESOURCE s"

definition uk_virtio_gpu_gl_context_submit :: "'h env \<Rightarrow> uk_virtio_gpu_context option
    \<Rightarrow> u8 list option \<Rightarrow> bool \<Rightarrow> 'h sys \<Rightarrow> ((errno + unit) \<times> u64 option \<times> 'h sys) option" where
  "uk_virtio_gpu_gl_context_submit e ctx cmd fence s =
    (case (find_ctx (vg s) (ctx_id_or_0 ctx), cmd) of
       (Some _, Some bytes) \<Rightarrow>
        (if bytes = [] \<or> 0xFFFFFFFF < length bytes then Some (Inl EINVAL, None, s)
         else case env_malloc e (32 + of_nat (length bytes)) (host s) of
           (False, h1) \<Rightarrow> Some (Inl ENOMEM, None, s\<lparr>host := h1\<rparr>)
         | (True, h1) \<Rightarrow>
            (let (h, f, d) = hdr_init (vg s) CMD_SUBMIT_3D fence (ctx_id_or_0 ctx);
                 req = \<lparr> s3d_hdr = h, s3d_size = of_nat (length bytes), s3d_padding = 0 \<rparr> in
             case cmd_submit e (enc_cmd_submit_3d req @ bytes) sizeof_ctrl_hdr RESP_OK_NODATA f
                    (s\<lparr>vg := d, host := h1\<rparr>) of
               None \<Rightarrow> None
             | Some (Inl er, s1) \<Rightarrow> Some (Inl er, f, s1\<lparr>host := env_free e (host s1)\<rparr>)
             | Some (Inr _, s1) \<Rightarrow>
                 Some (Inr (), f, s1\<lparr>host := env_free e (host s1),
                   vg := (vg s1)\<lparr>metrics := (metrics (vg s1))
                     \<lparr>m_submits_3d := m_submits_3d (metrics (vg s1)) + 1\<rparr>\<rparr>\<rparr>)))
     | _ \<Rightarrow> Some (Inl EINVAL, None, s))"

definition uk_virtio_gpu_gl_context_submit_synced :: "'h env \<Rightarrow> uk_virtio_gpu_context option
    \<Rightarrow> u8 list option \<Rightarrow> u8 \<Rightarrow> bool \<Rightarrow> 'h sys
    \<Rightarrow> ((errno + unit) \<times> u64 option \<times> 'h sys) option" where
  "uk_virtio_gpu_gl_context_submit_synced e ctx cmd ring_idx fence s =
    (case (find_ctx (vg s) (ctx_id_or_0 ctx), cmd) of
       (Some _, Some bytes) \<Rightarrow>
        (if bytes = [] \<or> 0xFFFFFFFF < length bytes then Some (Inl EINVAL, None, s)
         else case env_malloc e (32 + of_nat (length bytes)) (host s) of
           (False, h1) \<Rightarrow> Some (Inl ENOMEM, None, s\<lparr>host := h1\<rparr>)
         | (True, h1) \<Rightarrow>
            (let (h, f, d) = hdr_init (vg s) CMD_SUBMIT_3D True (ctx_id_or_0 ctx);
                 hd = h\<lparr>hdr_flags := hdr_flags h OR FLAG_INFO_RING_IDX, hdr_ring_idx := ring_idx\<rparr>;
                 req = \<lparr> s3d_hdr = hd, s3d_size = of_nat (length bytes), s3d_padding = 0 \<rparr>;
                 out = (if fence then f else None) in
             case cmd_submit e (enc_cmd_submit_3d req @ bytes) sizeof_ctrl_hdr RESP_OK_NODATA f
                    (s\<lparr>vg := d, host := h1\<rparr>) of
               None \<Rightarrow> None
             | Some (Inl er, s1) \<Rightarrow> Some (Inl er, out, s1\<lparr>host := env_free e (host s1)\<rparr>)
             | Some (Inr _, s1) \<Rightarrow>
                 Some (Inr (), out, s1\<lparr>host := env_free e (host s1),
                   vg := (vg s1)\<lparr>metrics := (metrics (vg s1))
                     \<lparr>m_submits_3d := m_submits_3d (metrics (vg s1)) + 1\<rparr>\<rparr>\<rparr>)))
     | _ \<Rightarrow> Some (Inl EINVAL, None, s))"

section \<open>Every operation keeps the contract\<close>

lemma capset_info_frame:
  "uk_virtio_gpu_gl_capset_info_get e i out s = Some (r, s') \<Longrightarrow> \<exists>h. s' = s\<lparr>host := h\<rparr>"
  by (auto simp: uk_virtio_gpu_gl_capset_info_get_def Let_def
      dest!: cq.no_fence split: if_splits option.splits sum.splits prod.splits bool.splits
      intro: exI[where x = "host s"])

lemma capset_get_frame:
  "uk_virtio_gpu_gl_capset_get e i v out len s = Some (r, s') \<Longrightarrow> \<exists>h. s' = s\<lparr>host := h\<rparr>"
  by (auto simp: uk_virtio_gpu_gl_capset_get_def Let_def
      dest!: cq.no_fence split: if_splits option.splits sum.splits prod.splits bool.splits
      intro: exI[where x = "host s"])

lemma get_edid_frame:
  "uk_virtio_gpu_gl_get_edid e i out len s = Some (r, s') \<Longrightarrow> \<exists>h. s' = s\<lparr>host := h\<rparr>"
  by (auto simp: uk_virtio_gpu_gl_get_edid_def Let_def
      dest!: cq.no_fence split: if_splits option.splits sum.splits prod.splits
      intro: exI[where x = "host s"])

lemma has_capset_loop_frame:
  "has_capset_loop e cid k i s = Some (b, s') \<Longrightarrow> \<exists>h. s' = s\<lparr>host := h\<rparr>"
proof (induction k arbitrary: i s)
  case 0
  thus ?case by (auto intro: exI[where x = "host s"])
next
  case (Suc k)
  thus ?case
    by (fastforce dest!: capset_info_frame split: option.splits sum.splits if_splits)
qed

lemma has_capset_frame: "has_capset e cid s = Some (b, s') \<Longrightarrow> \<exists>h. s' = s\<lparr>host := h\<rparr>"
  unfolding has_capset_def by (rule has_capset_loop_frame)

lemma ctx_resource_ok: "ctx_resource e ctx res cmd s = Some (r, s') \<Longrightarrow> op_ok s s'"
  by (auto simp: ctx_resource_def Let_def dest!: cq.no_fence
      split: if_splits option.splits sum.splits)

lemma context_submit_ok:
  "uk_virtio_gpu_gl_context_submit e ctx cmd fence s = Some (r, f, s') \<Longrightarrow> op_ok s s'"
  by (auto simp: uk_virtio_gpu_gl_context_submit_def Let_def
      intro: op_ok_fenced_submit_heap
      split: if_splits option.splits sum.splits prod.splits bool.splits)

lemma context_submit_synced_ok:
  "uk_virtio_gpu_gl_context_submit_synced e ctx cmd ring fence s = Some (r, f, s') \<Longrightarrow> op_ok s s'"
  by (auto simp: uk_virtio_gpu_gl_context_submit_synced_def Let_def
      intro: op_ok_fenced_submit_heap
      split: if_splits option.splits sum.splits prod.splits bool.splits)

lemma context_destroy_ok:
  "uk_virtio_gpu_gl_context_destroy e ctx s = Some (r, s') \<Longrightarrow> op_ok s s'"
  by (auto simp: uk_virtio_gpu_gl_context_destroy_def Let_def
      dest!: cq.no_fence intro!: op_ok_vg dev_inv_ctx_clear
      split: if_splits option.splits sum.splits)

lemma metrics_reset_ok: "op_ok s (s\<lparr>vg := uk_virtio_gpu_gl_metrics_reset (vg s)\<rparr>)"
  by (auto simp: uk_virtio_gpu_gl_metrics_reset_def intro!: op_ok_vg)

lemma context_create_ok:
  assumes "uk_virtio_gpu_gl_context_create e cid name out s = Some (r, s')"
  shows "op_ok s s'"
  using assms
  by (auto simp: uk_virtio_gpu_gl_context_create_def Let_def hdr_init_def
      dest!: cq.no_fence has_capset_frame split: if_splits option.splits sum.splits bool.splits
      elim!: op_ok_alloc_ctx intro!: dev_inv_ctx_clear dev_inv_ctx_upd dev_inv_fence_step)

end
