(* ===== verification/Gpu_Blobs.thy ===== *)
theory Gpu_Blobs
  imports Gpu_Contexts
begin

text \<open>
  Blob resources of \<open>virtio_gpu_real.c\<close>: creation (size rounding, placement in the host-visible
  region by a bump pointer), mapping, unmapping and destruction, and the thin wrappers of the
  public API.  The caller's \<open>struct uk_virtio_gpu_blob\<close> is an argument and comes back updated, since
  the code writes to it through the pointer also on some error paths.
\<close>

record uk_virtio_gpu_blob =
  blob_resource_id :: u32
  blob_mem :: u32
  blob_flags :: u32
  blob_map_info :: u32
  blob_id :: u64
  blob_size :: u64
  blob_host_visible_offset :: u64
  blob_mapped_addr :: u64
  blob_mapped_size :: u64
  blob_reply_notif :: u64
  blob_created :: bool
  blob_mapped :: bool

definition zero_blob :: uk_virtio_gpu_blob where
  "zero_blob = \<lparr> blob_resource_id = 0, blob_mem = 0, blob_flags = 0, blob_map_info = 0, blob_id = 0,
     blob_size = 0, blob_host_visible_offset = 0, blob_mapped_addr = 0, blob_mapped_size = 0,
     blob_reply_notif = 0, blob_created = False, blob_mapped = False \<rparr>"

section \<open>Operations\<close>

text \<open>The rounding block of \<open>blob_create_with_ctx\<close>: None when \<open>size + align - 1\<close> overflows.\<close>

definition blob_align :: "uk_virtio_gpu_dev \<Rightarrow> u64" where
  "blob_align d = (if negotiated d F_BLOB_ALIGNMENT \<and> blob_alignment d \<noteq> 0
     then ucast (blob_alignment d) else 4096)"

definition blob_aligned_size :: "uk_virtio_gpu_dev \<Rightarrow> u64 \<Rightarrow> u64 option" where
  "blob_aligned_size d sz =
    (let align = blob_align d in
     case add_overflow sz (align - 1) of
       None \<Rightarrow> None
     | Some rounded \<Rightarrow>
         (let a = rounded AND NOT (align - 1) in Some (if a = 0 then align else a)))"

definition uk_virtio_gpu_gl_blob_create_with_ctx :: "'h env \<Rightarrow> u32 \<Rightarrow> u64 \<Rightarrow> u32 \<Rightarrow> u32 \<Rightarrow> u64
    \<Rightarrow> uk_virtio_gpu_blob option \<Rightarrow> 'h sys
    \<Rightarrow> ((errno + uk_virtio_gpu_blob) \<times> 'h sys) option" where
  "uk_virtio_gpu_gl_blob_create_with_ctx e ctx sz mem flags bid blob s =
    (case blob of
       None \<Rightarrow> Some (Inl EINVAL, s)
     | Some blob \<Rightarrow>
     if sz = 0 \<or> blob_created blob then Some (Inl EINVAL, s)
     else if \<not> negotiated (vg s) F_RESOURCE_BLOB then Some (Inl ENOTSUP, s)
     else if mem \<noteq> BLOB_MEM_GUEST \<and> mem \<noteq> BLOB_MEM_HOST3D \<and> mem \<noteq> BLOB_MEM_HOST3D_GUEST
     then Some (Inl EINVAL, s)
     else case blob_aligned_size (vg s) sz of
       None \<Rightarrow> Some (Inl EOVERFLOW, s)
     | Some aligned_size \<Rightarrow>
      (case alloc_res (vg s) of
         None \<Rightarrow> Some (Inl ENOMEM, s)
       | Some (i, d0) \<Rightarrow>
          (let (h, _, d) = hdr_init d0 CMD_RESOURCE_CREATE_BLOB False ctx;
               req = \<lparr> cb_hdr = h, cb_resource_id = r_id (resources d ! i), cb_blob_mem = mem,
                       cb_blob_flags = flags, cb_nr_entries = 0, cb_blob_id = bid,
                       cb_size = aligned_size \<rparr> in
           case cmd_submit e (enc_resource_create_blob req) sizeof_ctrl_hdr RESP_OK_NODATA None
                  (s\<lparr>vg := d\<rparr>) of
             None \<Rightarrow> None
           | Some (Inl er, s1) \<Rightarrow> Some (Inl er, s1\<lparr>vg := res_upd i (\<lambda>_. zero_resource) (vg s1)\<rparr>)
           | Some (Inr _, s1) \<Rightarrow>
              (case add_overflow (next_blob_map_offset (vg s1)) aligned_size of
                 None \<Rightarrow> Some (Inl EOVERFLOW, s1\<lparr>vg := res_upd i (\<lambda>_. zero_resource) (vg s1)\<rparr>)
               | Some next \<Rightarrow>
                  (let off = next_blob_map_offset (vg s1);
                       d2 = (res_upd i (\<lambda>r. r\<lparr>r_is_3d := True, r_is_blob := True,
                              r_size := aligned_size, r_blob_mem := mem, r_blob_flags := flags,
                              r_blob_id := bid, r_host_visible_offset := off\<rparr>) (vg s1))
                            \<lparr>next_blob_map_offset := next\<rparr> in
                   Some (Inr (zero_blob\<lparr>blob_resource_id := r_id (resources d2 ! i),
                           blob_mem := mem, blob_flags := flags, blob_id := bid,
                           blob_size := aligned_size, blob_host_visible_offset := off,
                           blob_created := True\<rparr>),
                     s1\<lparr>vg := d2\<lparr>metrics := (metrics d2)
                       \<lparr>m_blobs_created := m_blobs_created (metrics d2) + 1\<rparr>\<rparr>\<rparr>))))))"

definition uk_virtio_gpu_gl_blob_create :: "'h env \<Rightarrow> u64 \<Rightarrow> u32 \<Rightarrow> u32 \<Rightarrow> u64
    \<Rightarrow> uk_virtio_gpu_blob option \<Rightarrow> 'h sys
    \<Rightarrow> ((errno + uk_virtio_gpu_blob) \<times> 'h sys) option" where
  "uk_virtio_gpu_gl_blob_create e sz mem flags bid blob s =
    uk_virtio_gpu_gl_blob_create_with_ctx e 0 sz mem flags bid blob s"

definition uk_virtio_gpu_gl_blob_unmap :: "'h env \<Rightarrow> uk_virtio_gpu_blob option \<Rightarrow> 'h sys
    \<Rightarrow> ((errno + unit) \<times> uk_virtio_gpu_blob option \<times> 'h sys) option" where
  "uk_virtio_gpu_gl_blob_unmap e blob s =
    (case Option.bind blob (\<lambda>b. find_res (vg s) (blob_resource_id b)) of
       None \<Rightarrow> Some (Inl EINVAL, blob, s)
     | Some i \<Rightarrow>
        (let b = the blob in
         if \<not> r_is_blob (resources (vg s) ! i) \<or> \<not> r_mapped (resources (vg s) ! i)
         then Some (Inl EINVAL, blob, s)
         else let (h, _, d) = hdr_init (vg s) CMD_RESOURCE_UNMAP_BLOB False 0;
                  req = \<lparr> ub_hdr = h, ub_resource_id = blob_resource_id b, ub_padding = 0 \<rparr> in
         case cmd_submit e (enc_resource_unmap_blob req) sizeof_ctrl_hdr RESP_OK_NODATA None
                (s\<lparr>vg := d\<rparr>) of
           None \<Rightarrow> None
         | Some (Inl er, s1) \<Rightarrow> Some (Inl er, blob, s1)
         | Some (Inr _, s1) \<Rightarrow>
             (let d1 = res_upd i (\<lambda>r. r\<lparr>r_mapped := False\<rparr>) (vg s1) in
              Some (Inr (), Some (b\<lparr>blob_mapped := False, blob_mapped_addr := 0,
                      blob_mapped_size := 0, blob_reply_notif := 0\<rparr>),
                s1\<lparr>vg := d1\<lparr>metrics := (metrics d1)
                  \<lparr>m_blobs_unmapped := m_blobs_unmapped (metrics d1) + 1\<rparr>\<rparr>\<rparr>))))"

definition uk_virtio_gpu_gl_blob_map :: "'h env \<Rightarrow> uk_virtio_gpu_blob option \<Rightarrow> 'h sys
    \<Rightarrow> ((errno + unit) \<times> uk_virtio_gpu_blob option \<times> 'h sys) option" where
  "uk_virtio_gpu_gl_blob_map e blob s =
    (case Option.bind blob (\<lambda>b. find_res (vg s) (blob_resource_id b)) of
       None \<Rightarrow> Some (Inl EINVAL, blob, s)
     | Some i \<Rightarrow>
        (let b = the blob; r = resources (vg s) ! i in
         if \<not> r_is_blob r \<or> r_mapped r \<or> \<not> blob_created b then Some (Inl EINVAL, blob, s)
         else if blob_flags b AND BLOB_FLAG_USE_MAPPABLE = 0 then Some (Inl EINVAL, blob, s)
         else let (h, _, d) = hdr_init (vg s) CMD_RESOURCE_MAP_BLOB False 0;
                  req = \<lparr> mb_hdr = h, mb_resource_id = blob_resource_id b, mb_padding = 0,
                          mb_offset = r_host_visible_offset r \<rparr> in
         case cmd_submit e (enc_resource_map_blob req) sizeof_resp_map_info RESP_OK_MAP_INFO None
                (s\<lparr>vg := d\<rparr>) of
           None \<Rightarrow> None
         | Some (Inl er, s1) \<Rightarrow> Some (Inl er, blob, s1)
         | Some (Inr resp, s1) \<Rightarrow>
             (let mi = rmi_map_info (dec_resp_map_info resp);
                  off = r_host_visible_offset r;
                  d1 = res_upd i (\<lambda>r. r\<lparr>r_map_info := mi, r_mapped := True\<rparr>) (vg s1);
                  b1 = b\<lparr>blob_map_info := mi, blob_host_visible_offset := off,
                         blob_mapped_size := blob_size b\<rparr>;
                  hv = host_visible d1 in
              if shm_addr hv \<noteq> 0 \<and> off + blob_size b \<le> shm_size hv
              then Some (Inr (), Some (b1\<lparr>blob_mapped_addr := shm_addr hv + off,
                           blob_reply_notif := shm_addr hv + off, blob_mapped := True\<rparr>),
                     s1\<lparr>vg := d1\<lparr>metrics := (metrics d1)
                       \<lparr>m_blobs_mapped := m_blobs_mapped (metrics d1) + 1\<rparr>\<rparr>\<rparr>)
              else case uk_virtio_gpu_gl_blob_unmap e (Some (b1\<lparr>blob_mapped := True\<rparr>)) (s1\<lparr>vg := d1\<rparr>) of
                     None \<Rightarrow> None
                   | Some (_, b2, s2) \<Rightarrow> Some (Inl ENOTSUP, b2, s2))))"

definition uk_virtio_gpu_gl_blob_destroy :: "'h env \<Rightarrow> uk_virtio_gpu_blob option \<Rightarrow> 'h sys
    \<Rightarrow> ((errno + unit) \<times> uk_virtio_gpu_blob option \<times> 'h sys) option" where
  "uk_virtio_gpu_gl_blob_destroy e blob s =
    (case blob of
       None \<Rightarrow> Some (Inl EINVAL, blob, s)
     | Some b \<Rightarrow>
        if \<not> blob_created b \<or> blob_mapped b then Some (Inl EINVAL, blob, s)
        else case uk_virtio_gpu_gl_resource_unref e (blob_resource_id b) s of
          None \<Rightarrow> None
        | Some (Inl _, s1) \<Rightarrow> Some (Inl EINVAL, blob, s1)
        | Some (Inr _, s1) \<Rightarrow> Some (Inr (), Some zero_blob, s1))"

definition uk_virtio_gpu_dev_shm_region_get :: "uk_virtio_gpu_dev \<Rightarrow> u32 \<Rightarrow> bool
    \<Rightarrow> errno + uk_virtio_gpu_shm_region" where
  "uk_virtio_gpu_dev_shm_region_get d i r =
    (if \<not> r then Inl EINVAL
     else if i \<noteq> 1 \<or> shm_size (host_visible d) = 0 then Inl ENOTSUP
     else Inr (host_visible d))"

section \<open>Public wrappers\<close>

definition uk_virtio_gpu_context_attach_blob :: "'h env \<Rightarrow> uk_virtio_gpu_context option
    \<Rightarrow> uk_virtio_gpu_blob option \<Rightarrow> 'h sys \<Rightarrow> ((errno + unit) \<times> 'h sys) option" where
  "uk_virtio_gpu_context_attach_blob e ctx b s =
    (case b of None \<Rightarrow> Some (Inl EINVAL, s)
     | Some b \<Rightarrow> uk_virtio_gpu_gl_context_attach_resource e ctx (blob_resource_id b) s)"

definition uk_virtio_gpu_context_detach_blob :: "'h env \<Rightarrow> uk_virtio_gpu_context option
    \<Rightarrow> uk_virtio_gpu_blob option \<Rightarrow> 'h sys \<Rightarrow> ((errno + unit) \<times> 'h sys) option" where
  "uk_virtio_gpu_context_detach_blob e ctx b s =
    (case b of None \<Rightarrow> Some (Inl EINVAL, s)
     | Some b \<Rightarrow> uk_virtio_gpu_gl_context_detach_resource e ctx (blob_resource_id b) s)"

definition uk_virtio_gpu_context_submit :: "'h env \<Rightarrow> uk_virtio_gpu_context option
    \<Rightarrow> u8 list option \<Rightarrow> 'h sys \<Rightarrow> ((errno + unit) \<times> 'h sys) option" where
  "uk_virtio_gpu_context_submit e ctx cmd s =
    (case uk_virtio_gpu_gl_context_submit e ctx cmd True s of
       None \<Rightarrow> None | Some (r, _, s1) \<Rightarrow> Some (r, s1))"

section \<open>Every operation keeps the contract\<close>

lemma unref_quiet:
  assumes "uk_virtio_gpu_gl_resource_unref e res s = Some (r, s')"
  shows "op_quiet s s'"
  using assms
  by (auto simp: uk_virtio_gpu_gl_resource_unref_def Let_def
      dest!: cq.no_fence intro!: op_quiet_vg dev_inv_res_clear
      split: if_splits option.splits sum.splits)

lemma blob_create_ok:
  assumes "uk_virtio_gpu_gl_blob_create_with_ctx e ctx sz mem flags bid blob s = Some (r, s')"
  shows "op_ok s s'"
proof -
  have new: "dev_inv ((res_upd i (\<lambda>r. r\<lparr>r_is_3d := True, r_is_blob := True, r_size := a,
      r_blob_mem := mem', r_blob_flags := flags, r_blob_id := bid,
      r_host_visible_offset := off\<rparr>) d)\<lparr>next_blob_map_offset := nx\<rparr>)"
    if "dev_inv d" "off = next_blob_map_offset d" "r_live (resources d ! i)" "\<not> r_mapped (resources d ! i)"
      "unat nx = unat off + unat a" for d i a nx off mem'
    using that by (intro dev_inv_new_blob) (simp_all add: blob_window_def word_le_nat_alt)
  show ?thesis
    using assms
    by (auto simp: uk_virtio_gpu_gl_blob_create_with_ctx_def Let_def add_overflow_Some
        dest!: cq.no_fence split: if_splits option.splits sum.splits
        elim!: op_ok_alloc_res intro!: dev_inv_res_clear new simp: alloc_res_frame)
qed

lemma dev_inv_map:
  assumes "dev_inv d" "i < length (resources d)" "r_live (resources d ! i)" "r_is_blob (resources d ! i)"
  shows "dev_inv (res_upd i (\<lambda>r. r\<lparr>r_map_info := mi, r_mapped := True\<rparr>) d)"
  using assms by (intro dev_inv_res_upd) (auto simp: res_keeps_def blob_window_def)

lemma dev_inv_unmap:
  assumes "dev_inv d"
  shows "dev_inv (res_upd i (\<lambda>r. r\<lparr>r_mapped := False\<rparr>) d)"
  using assms by (intro dev_inv_res_upd) (auto simp: res_keeps_def blob_window_def)

lemma blob_unmap_quiet:
  assumes "uk_virtio_gpu_gl_blob_unmap e blob s = Some (r, b, s')"
  shows "op_quiet s s'"
  using assms
  by (auto simp: uk_virtio_gpu_gl_blob_unmap_def Let_def
      dest!: cq.no_fence intro!: op_quiet_vg dev_inv_unmap
      split: if_splits option.splits sum.splits)

lemma blob_map_quiet:
  assumes "uk_virtio_gpu_gl_blob_map e blob s = Some (r, b, s')"
  shows "op_quiet s s'"
proof (cases "Option.bind blob (\<lambda>b. find_res (vg s) (blob_resource_id b))")
  case None
  thus ?thesis using assms by (simp add: uk_virtio_gpu_gl_blob_map_def)
next
  case (Some i)
  then obtain b0 where b0: "blob = Some b0" "find_res (vg s) (blob_resource_id b0) = Some i"
    by (auto simp: bind_Some_iff)
  note f = find_res_SomeD[OF b0(2)]
  define g :: "u32 \<Rightarrow> ukvgpu_resource_state \<Rightarrow> ukvgpu_resource_state" where "g mi = (\<lambda>r. r\<lparr>r_map_info := mi, r_mapped := True\<rparr>)" for mi
  have q: "op_quiet s (s\<lparr>host := h, vg := res_upd i (g mi) (vg s)\<rparr>)"
    "op_quiet s (s\<lparr>host := h, vg := (res_upd i (g mi) (vg s))\<lparr>metrics := m\<rparr>\<rparr>)"
    if "r_is_blob (resources (vg s) ! i)" for mi h m
    unfolding g_def using f that by (auto intro!: op_quiet_vg dev_inv_map)
  show ?thesis
    using assms b0
    by (auto simp: uk_virtio_gpu_gl_blob_map_def Let_def simp flip: g_def
        dest!: cq.no_fence intro!: q dest!: blob_unmap_quiet intro: op_quiet_trans[OF q(1)]
        split: if_splits option.splits sum.splits)
qed

lemma blob_destroy_quiet:
  assumes "uk_virtio_gpu_gl_blob_destroy e blob s = Some (r, b, s')"
  shows "op_quiet s s'"
  using assms
  by (auto simp: uk_virtio_gpu_gl_blob_destroy_def dest!: unref_quiet
      split: if_splits option.splits sum.splits)

lemma blob_wrappers_ok:
  "uk_virtio_gpu_context_attach_blob e ctx b s = Some (r, s') \<Longrightarrow> op_ok s s'"
  "uk_virtio_gpu_context_detach_blob e ctx b s = Some (r, s') \<Longrightarrow> op_ok s s'"
  "uk_virtio_gpu_context_submit e ctx cmd s = Some (r, s') \<Longrightarrow> op_ok s s'"
  by (auto simp: uk_virtio_gpu_context_attach_blob_def uk_virtio_gpu_context_detach_blob_def
      uk_virtio_gpu_context_submit_def uk_virtio_gpu_gl_context_attach_resource_def
      uk_virtio_gpu_gl_context_detach_resource_def
      dest: ctx_resource_ok context_submit_ok split: option.splits)

end
