(* ===== verification/Gpu_Probe.thy ===== *)
theory Gpu_Probe
  imports Gpu_Blobs
begin

text \<open>
  Device bring-up (\<open>vgpu_add_dev\<close>): feature negotiation, configuration space, the host-visible
  region, the queues, and the first display query.  The virtio bus and PCI transport are outside the
  repository: they are the fields of \<open>'h bus\<close>.  \<open>g_default_dev\<close> is an argument and a result.
\<close>

datatype dev_status = FEATURES_OK | FAIL

text \<open>\<open>bus_config_get\<close> takes the byte offset in \<open>struct ukvgpu_config\<close>.  \<open>bus_find_vqs\<close> returns the
  number of queues and the sizes of the first two.  \<open>bus_vqueue_setup\<close> fails with an error pointer.\<close>

record 'h bus =
  bus_feature_get :: "'h \<Rightarrow> u64 \<times> 'h"
  bus_feature_set :: "u64 \<Rightarrow> 'h \<Rightarrow> 'h"
  bus_status_update :: "dev_status \<Rightarrow> 'h \<Rightarrow> 'h"
  bus_status_features_ok :: "'h \<Rightarrow> bool \<times> 'h"
  bus_config_get :: "nat \<Rightarrow> 'h \<Rightarrow> (errno + u32) \<times> 'h"
  bus_shm_region_get :: "u8 \<Rightarrow> 'h \<Rightarrow> (errno + u64 \<times> u64) \<times> 'h"
  bus_find_vqs :: "nat \<Rightarrow> 'h \<Rightarrow> (errno + nat \<times> u16 \<times> u16) \<times> 'h"
  bus_vqueue_setup :: "u32 \<Rightarrow> u16 \<Rightarrow> 'h \<Rightarrow> errno option \<times> 'h"
  bus_vqueue_release :: "u32 \<Rightarrow> 'h \<Rightarrow> 'h"
  bus_intr_enable :: "u32 \<Rightarrow> 'h \<Rightarrow> 'h"
  bus_drv_up :: "'h \<Rightarrow> 'h"

definition zero_display :: ukvgpu_display_one where
  "zero_display = \<lparr> dsp_r = \<lparr> rc_x = 0, rc_y = 0, rc_width = 0, rc_height = 0 \<rparr>,
     dsp_enabled = 0, dsp_flags = 0 \<rparr>"

text \<open>The zeroed allocation and the initialisations on the line below it.\<close>

definition vgpu_new_dev :: uk_virtio_gpu_dev where
  "vgpu_new_dev = \<lparr> ctrlq = False, cursorq = False, host_features = 0, negotiated_features = 0,
     num_scanouts = 0, num_capsets = 0, events_read = 0, blob_alignment = 0,
     next_blob_map_offset = 0,
     host_visible = \<lparr> shm_id = 0, shm_phys_addr = 0, shm_size = 0, shm_addr = 0 \<rparr>,
     scanouts = replicate MAX_SCANOUTS zero_display,
     next_res = 1, next_ctx = 1, next_fence = 1, completed_fence = 0,
     resources = replicate UKVGPU_MAX_RESOURCES zero_resource,
     contexts = replicate UKVGPU_MAX_CONTEXTS zero_context,
     metrics = zero_metrics\<lparr>m_probes := 1\<rparr> \<rparr>"

definition negotiate :: "u64 \<Rightarrow> u64" where
  "negotiate hostf =
    (let f = 0;
         f = (if bit hostf VIRTIO_GPU_F_VIRGL then f OR F_VIRGL else f);
         f = (if bit hostf VIRTIO_GPU_F_EDID then f OR F_EDID else f);
         f = (if bit hostf VIRTIO_GPU_F_RESOURCE_UUID then f OR F_RESOURCE_UUID else f);
         f = (if bit hostf VIRTIO_GPU_F_RESOURCE_BLOB then f OR F_RESOURCE_BLOB else f);
         f = (if f AND F_VIRGL \<noteq> 0 \<and> bit hostf VIRTIO_GPU_F_CONTEXT_INIT
              then f OR F_CONTEXT_INIT else f);
         f = (if f AND F_RESOURCE_BLOB \<noteq> 0 \<and> bit hostf VIRTIO_GPU_F_BLOB_ALIGNMENT
              then f OR F_BLOB_ALIGNMENT else f)
     in f)"

text \<open>\<open>goto fail\<close>: mark the device failed and release what was set up.\<close>

definition vgpu_fail :: "'h env \<Rightarrow> 'h bus \<Rightarrow> uk_virtio_gpu_dev \<Rightarrow> 'h \<Rightarrow> 'h" where
  "vgpu_fail e b d h =
    (let h1 = bus_status_update b FAIL h;
         h2 = (if ctrlq d then bus_vqueue_release b UKVGPU_CTRLQ h1 else h1);
         h3 = (if cursorq d then bus_vqueue_release b UKVGPU_CURSORQ h2 else h2)
     in env_free e h3)"

definition clamp_scanouts :: "u32 \<Rightarrow> u32" where
  "clamp_scanouts ns = (if ns = 0 \<or> MAX_SCANOUTS < unat ns then 1 else ns)"

definition check_alignment :: "u32 \<Rightarrow> u32" where
  "check_alignment al = (if al = 0 \<or> al AND (al - 1) \<noteq> 0 then 4096 else al)"

text \<open>The four configuration reads; on an unreadable or invalid alignment 4096 is used.\<close>

definition vgpu_read_config :: "'h bus \<Rightarrow> u64 \<Rightarrow> uk_virtio_gpu_dev \<Rightarrow> 'h
    \<Rightarrow> (errno + uk_virtio_gpu_dev) \<times> 'h" where
  "vgpu_read_config b features d h =
    (case bus_config_get b 0 h of
       (Inl er, h1) \<Rightarrow> (Inl er, h1)
     | (Inr ev, h1) \<Rightarrow>
      (case bus_config_get b 8 h1 of
         (Inl er, h2) \<Rightarrow> (Inl er, h2)
       | (Inr ns, h2) \<Rightarrow>
        (case bus_config_get b 12 h2 of
           (Inl er, h3) \<Rightarrow> (Inl er, h3)
         | (Inr nc, h3) \<Rightarrow>
            (let d1 = d\<lparr>events_read := ev, num_capsets := nc,
                   num_scanouts := clamp_scanouts ns\<rparr> in
             if features AND F_BLOB_ALIGNMENT \<noteq> 0
             then case bus_config_get b 16 h3 of
                (Inl _, h4) \<Rightarrow> (Inr (d1\<lparr>blob_alignment := 4096\<rparr>), h4)
              | (Inr al, h4) \<Rightarrow>
                  (Inr (d1\<lparr>blob_alignment := check_alignment al\<rparr>), h4)
             else (Inr d1, h3)))))"

definition vgpu_read_shm :: "'h bus \<Rightarrow> u64 \<Rightarrow> uk_virtio_gpu_dev \<Rightarrow> 'h
    \<Rightarrow> uk_virtio_gpu_dev \<times> 'h" where
  "vgpu_read_shm b features d h =
    (if features AND F_RESOURCE_BLOB = 0 then (d, h)
     else case bus_shm_region_get b 1 h of
       (Inr (base, len), h1) \<Rightarrow>
         (if base \<noteq> 0 \<and> len \<noteq> 0
          then (d\<lparr>host_visible := \<lparr> shm_id = 1, shm_phys_addr = 0, shm_size = len, shm_addr = base \<rparr>\<rparr>, h1)
          else (d, h1))
     | (Inl _, h1) \<Rightarrow> (d, h1))"

text \<open>The queues.  The error of the \<open>Inl\<close> case is the value of \<open>rc\<close> at \<open>goto fail\<close>; None there is the
  value 0, which \<open>virtio_find_vqs\<close> gives when the device has no queue.\<close>

definition vgpu_setup_queues :: "'h bus \<Rightarrow> uk_virtio_gpu_dev \<Rightarrow> 'h
    \<Rightarrow> (errno option + unit) \<times> uk_virtio_gpu_dev \<times> 'h" where
  "vgpu_setup_queues b d h =
    (case bus_find_vqs b (unat UKVGPU_NR_QUEUES) h of
       (Inl er, h1) \<Rightarrow> (Inl (Some er), d, h1)
     | (Inr (n, q0, q1), h1) \<Rightarrow>
      if n < 1 then (Inl None, d, h1)
      else case bus_vqueue_setup b UKVGPU_CTRLQ (if q0 \<noteq> 0 then q0 else 16) h1 of
         (Some er, h2) \<Rightarrow> (Inl (Some er), d, h2)
       | (None, h2) \<Rightarrow>
          (let d1 = d\<lparr>ctrlq := True\<rparr>;
               (d2, h3) = (if 2 \<le> n
                  then case bus_vqueue_setup b UKVGPU_CURSORQ (if q1 \<noteq> 0 then q1 else 16) h2 of
                      (Some _, h3) \<Rightarrow> (d1\<lparr>cursorq := False\<rparr>, h3)
                    | (None, h3) \<Rightarrow> (d1\<lparr>cursorq := True\<rparr>, h3)
                  else (d1, h2));
               h4 = bus_intr_enable b UKVGPU_CTRLQ h3;
               h5 = (if cursorq d2 then bus_intr_enable b UKVGPU_CURSORQ h4 else h4)
           in (Inr (), d2, bus_drv_up b h5)))"

text \<open>The result is the return code (\<open>Inr ()\<close> is 0), \<open>g_default_dev\<close> and the platform state.\<close>

definition vgpu_add_dev :: "'h env \<Rightarrow> 'h bus \<Rightarrow> u64 \<Rightarrow> nat \<Rightarrow> uk_virtio_gpu_dev option \<Rightarrow> 'h
    \<Rightarrow> ((errno + unit) \<times> uk_virtio_gpu_dev option \<times> 'h) option" where
  "vgpu_add_dev e b sizeof_dev lock g_default_dev h =
    (case env_malloc e sizeof_dev h of
       (False, h1) \<Rightarrow> Some (Inl ENOMEM, g_default_dev, h1)
     | (True, h1) \<Rightarrow>
      (let (hostf, h2) = bus_feature_get b h1;
           d0 = vgpu_new_dev\<lparr>host_features := hostf\<rparr>;
           features = negotiate hostf;
           h3 = bus_status_update b FEATURES_OK (bus_feature_set b features h2) in
       case bus_status_features_ok b h3 of
         (False, h4) \<Rightarrow> Some (Inl EINVAL, g_default_dev, vgpu_fail e b d0 h4)
       | (True, h4) \<Rightarrow>
        (case vgpu_read_config b features (d0\<lparr>negotiated_features := features\<rparr>) h4 of
           (Inl er, h5) \<Rightarrow> Some (Inl er, g_default_dev, vgpu_fail e b d0 h5)
         | (Inr d1, h5) \<Rightarrow>
          (let (d2, h6) = vgpu_read_shm b features d1 h5 in
           case vgpu_setup_queues b d2 h6 of
             (Inl (Some er), d3, h7) \<Rightarrow> Some (Inl er, g_default_dev, vgpu_fail e b d3 h7)
           | (Inl None, d3, h7) \<Rightarrow> Some (Inr (), g_default_dev, vgpu_fail e b d3 h7)
           | (Inr _, d3, h7) \<Rightarrow>
            (case uk_virtio_gpu_get_display_info e \<lparr> vg = d3, host = h7, g_ctrlq_lock = lock \<rparr> of
               None \<Rightarrow> None
             | Some (Inl er, s1) \<Rightarrow> Some (Inl er, g_default_dev, vgpu_fail e b (vg s1) (host s1))
             | Some (Inr _, s1) \<Rightarrow> Some (Inr (), Some (vg s1), host s1))))))"

definition uk_virtio_gpu_probe :: "uk_virtio_gpu_dev option \<Rightarrow> bool
    \<Rightarrow> errno + uk_virtio_gpu_dev" where
  "uk_virtio_gpu_probe g_default_dev out =
    (if \<not> out then Inl EINVAL
     else case g_default_dev of None \<Rightarrow> Inl ENODEV | Some d \<Rightarrow> Inr d)"

definition vgpu_drv_init :: "bool \<Rightarrow> errno + unit" where
  "vgpu_drv_init a = (if a then Inr () else Inl EINVAL)"

end
