(* ===== verification/Gpu_Api.thy ===== *)
theory Gpu_Api
  imports Gpu_Probe
begin

text \<open>
  The driver as a whole: the calls a client can make, in any order, as steps of one state; what every
  sequence of calls preserves; and the properties that span resources, contexts, blobs and fences.
\<close>

datatype gpu_call =
    GetDisplayInfo
  | Create2D u32 u32 u32
  | AttachBacking u32 "(u64 \<times> u64) list option"
  | TransferToHost2D u32 "uk_gpu_rect option" bool
  | Flush u32 "uk_gpu_rect option" bool
  | TransferAndFlush2D u32 "uk_gpu_rect option" bool
  | FenceWait u64 u64
  | SetScanout u32 u32 "uk_gpu_rect option"
  | DetachBacking u32
  | Unref u32
  | AssignUuid u32
  | Create3D "uk_virtio_gpu_resource_3d option"
  | TransferToHost3D u32 "uk_virtio_gpu_transfer_3d option" bool
  | TransferFromHost3D u32 "uk_virtio_gpu_transfer_3d option" bool
  | CapsetInfo u32
  | CapsetGet u32 u32 nat
  | GetEdid u32 nat
  | MetricsReset
  | ContextCreate u32 "u8 list option"
  | ContextDestroy "uk_virtio_gpu_context option"
  | ContextAttach "uk_virtio_gpu_context option" u32
  | ContextDetach "uk_virtio_gpu_context option" u32
  | ContextSubmit "uk_virtio_gpu_context option" "u8 list option" bool
  | ContextSubmitSynced "uk_virtio_gpu_context option" "u8 list option" u8 bool
  | BlobCreate u32 u64 u32 u32 u64 "uk_virtio_gpu_blob option"
  | BlobMap "uk_virtio_gpu_blob option"
  | BlobUnmap "uk_virtio_gpu_blob option"
  | BlobDestroy "uk_virtio_gpu_blob option"

text \<open>The state after a call; None when the call does not return.\<close>

fun gpu_step :: "'h env \<Rightarrow> gpu_call \<Rightarrow> 'h sys \<Rightarrow> 'h sys option" where
  "gpu_step e GetDisplayInfo s = map_option snd (uk_virtio_gpu_get_display_info e s)"
| "gpu_step e (Create2D w h f) s = map_option snd (uk_virtio_gpu_resource_create_2d e w h f True s)"
| "gpu_step e (AttachBacking r sg) s = map_option snd (uk_virtio_gpu_resource_attach_backing e r sg s)"
| "gpu_step e (TransferToHost2D r rect f) s =
     map_option (snd \<circ> snd) (uk_virtio_gpu_transfer_to_host_2d e r rect f s)"
| "gpu_step e (Flush r rect f) s = map_option (snd \<circ> snd) (uk_virtio_gpu_resource_flush e r rect f s)"
| "gpu_step e (TransferAndFlush2D r rect f) s =
     map_option (snd \<circ> snd) (uk_virtio_gpu_transfer_and_flush_2d e r rect f s)"
| "gpu_step e (FenceWait f t) s = Some (s\<lparr>vg := snd (uk_virtio_gpu_fence_wait (vg s) f t)\<rparr>)"
| "gpu_step e (SetScanout sc r rect) s = map_option snd (uk_virtio_gpu_gl_set_scanout e sc r rect s)"
| "gpu_step e (DetachBacking r) s = map_option snd (uk_virtio_gpu_gl_resource_detach_backing e r s)"
| "gpu_step e (Unref r) s = map_option snd (uk_virtio_gpu_gl_resource_unref e r s)"
| "gpu_step e (AssignUuid r) s = map_option snd (uk_virtio_gpu_gl_resource_assign_uuid e r True s)"
| "gpu_step e (Create3D d) s = map_option snd (uk_virtio_gpu_gl_resource_create_3d e d True s)"
| "gpu_step e (TransferToHost3D r x f) s =
     map_option (snd \<circ> snd) (uk_virtio_gpu_gl_transfer_to_host_3d e r x f s)"
| "gpu_step e (TransferFromHost3D r x f) s =
     map_option (snd \<circ> snd) (uk_virtio_gpu_gl_transfer_from_host_3d e r x f s)"
| "gpu_step e (CapsetInfo i) s = map_option snd (uk_virtio_gpu_gl_capset_info_get e i True s)"
| "gpu_step e (CapsetGet i v n) s = map_option snd (uk_virtio_gpu_gl_capset_get e i v True n s)"
| "gpu_step e (GetEdid i n) s = map_option snd (uk_virtio_gpu_gl_get_edid e i True n s)"
| "gpu_step e MetricsReset s = Some (s\<lparr>vg := uk_virtio_gpu_gl_metrics_reset (vg s)\<rparr>)"
| "gpu_step e (ContextCreate c n) s = map_option snd (uk_virtio_gpu_gl_context_create e c n True s)"
| "gpu_step e (ContextDestroy c) s = map_option snd (uk_virtio_gpu_gl_context_destroy e c s)"
| "gpu_step e (ContextAttach c r) s = map_option snd (uk_virtio_gpu_gl_context_attach_resource e c r s)"
| "gpu_step e (ContextDetach c r) s = map_option snd (uk_virtio_gpu_gl_context_detach_resource e c r s)"
| "gpu_step e (ContextSubmit c cmd f) s =
     map_option (snd \<circ> snd) (uk_virtio_gpu_gl_context_submit e c cmd f s)"
| "gpu_step e (ContextSubmitSynced c cmd i f) s =
     map_option (snd \<circ> snd) (uk_virtio_gpu_gl_context_submit_synced e c cmd i f s)"
| "gpu_step e (BlobCreate c n m f i b) s =
     map_option snd (uk_virtio_gpu_gl_blob_create_with_ctx e c n m f i b s)"
| "gpu_step e (BlobMap b) s = map_option (snd \<circ> snd) (uk_virtio_gpu_gl_blob_map e b s)"
| "gpu_step e (BlobUnmap b) s = map_option (snd \<circ> snd) (uk_virtio_gpu_gl_blob_unmap e b s)"
| "gpu_step e (BlobDestroy b) s = map_option (snd \<circ> snd) (uk_virtio_gpu_gl_blob_destroy e b s)"

fun gpu_run :: "'h env \<Rightarrow> gpu_call list \<Rightarrow> 'h sys \<Rightarrow> 'h sys option" where
  "gpu_run e [] s = Some s"
| "gpu_run e (c # cs) s = (case gpu_step e c s of None \<Rightarrow> None | Some s1 \<Rightarrow> gpu_run e cs s1)"

lemmas op_ok_rules = get_display_info_ok create_2d_ok attach_ok transfer_2d_ok flush_ok
  transfer_and_flush_ok set_scanout_ok detach_ok unref_ok assign_uuid_ok create_3d_ok
  context_create_ok context_destroy_ok ctx_resource_ok context_submit_ok context_submit_synced_ok
  blob_create_ok blob_map_quiet[THEN op_quiet_ok] blob_unmap_quiet[THEN op_quiet_ok]
  blob_destroy_quiet[THEN op_quiet_ok]

lemma fence_wait_step_ok: "op_ok s (s\<lparr>vg := snd (uk_virtio_gpu_fence_wait (vg s) f t)\<rparr>)"
  by (cases "uk_virtio_gpu_fence_wait (vg s) f t") (simp add: fence_wait_ok)

lemma gpu_step_ok: "gpu_step e c s = Some s' \<Longrightarrow> op_ok s s'"
  by (cases c)
    (auto simp: uk_virtio_gpu_gl_transfer_to_host_3d_def uk_virtio_gpu_gl_transfer_from_host_3d_def
      uk_virtio_gpu_gl_context_attach_resource_def uk_virtio_gpu_gl_context_detach_resource_def
      metrics_reset_ok fence_wait_step_ok
      dest: op_ok_rules transfer_3d_ok
      dest!: capset_info_frame capset_get_frame get_edid_frame)


text \<open>How far the identifier counters have moved.\<close>

definition counters_below :: "nat \<Rightarrow> uk_virtio_gpu_dev \<Rightarrow> bool" where
  "counters_below n d \<longleftrightarrow> unat (next_res d) \<le> n \<and> unat (next_ctx d) \<le> n \<and> unat (next_fence d) \<le> n"

lemma plus_1_nonzero_u32: "unat b + 1 < 2 ^ 32 \<Longrightarrow> b + 1 \<noteq> 0" for b :: u32
  using unat_add_small[of b 1] by (auto simp: unat_eq_0)

lemma plus_1_nonzero_u64: "unat b + 1 < 2 ^ 32 \<Longrightarrow> b + 1 \<noteq> 0" for b :: u64
  using unat_add_small[of b 1] by (auto simp: unat_eq_0)

lemma counters_room: "counters_below n d \<Longrightarrow> n + 1 < 2 ^ 32 \<Longrightarrow> room d"
  unfolding counters_below_def room_def
  by (intro conjI plus_1_nonzero_u32 plus_1_nonzero_u64) linarith+

lemma gpu_step_inv:
  assumes "gpu_step e c s = Some s'" "dev_inv (vg s)" "counters_below n (vg s)" "n + 1 < 2 ^ 32"
  shows "dev_inv (vg s')" "counters_below (n + 1) (vg s')" "g_ctrlq_lock s' = g_ctrlq_lock s"
    "completed_fence (vg s) \<le> completed_fence (vg s')"
  using gpu_step_ok[OF assms(1)] assms(2,3) counters_room[OF assms(3,4)]
  by (auto simp: op_ok_def counters_below_def)

lemma gpu_run_inv:
  assumes "gpu_run e cs s = Some s'" "dev_inv (vg s)" "counters_below n (vg s)"
    "n + length cs < 2 ^ 32"
  shows "dev_inv (vg s') \<and> counters_below (n + length cs) (vg s') \<and>
    g_ctrlq_lock s' = g_ctrlq_lock s \<and> completed_fence (vg s) \<le> completed_fence (vg s')"
  using assms
proof (induction cs arbitrary: s n)
  case (Cons c cs)
  then obtain s1 where s1: "gpu_step e c s = Some s1" "gpu_run e cs s1 = Some s'"
    by (auto split: option.splits)
  have "n + 1 < 2 ^ 32" using Cons.prems(4) by simp
  note st = gpu_step_inv[OF s1(1) Cons.prems(2,3) this]
  show ?case using Cons.IH[OF s1(2) st(1,2)] st(3,4) Cons.prems(4) by auto
qed simp

section \<open>Bring-up establishes the invariant\<close>

lemma dev_inv_new: "dev_inv vgpu_new_dev" "counters_below 1 vgpu_new_dev"
proof -
  show "dev_inv vgpu_new_dev"
    unfolding dev_inv_def rt.uniq_def ct.uniq_def blob_windows_def vgpu_new_dev_def
    by (simp add: blob_window_def)
  show "counters_below 1 vgpu_new_dev" by (simp add: counters_below_def vgpu_new_dev_def)
qed

text \<open>What bring-up may still change in a new device.\<close>

definition fresh_dev :: "uk_virtio_gpu_dev \<Rightarrow> bool" where
  "fresh_dev d \<longleftrightarrow> dev_inv d \<and> counters_below 1 d"

lemma fresh_dev_frame [simp]:
  "fresh_dev (d\<lparr>host_features := a\<rparr>) = fresh_dev d"
  "fresh_dev (d\<lparr>negotiated_features := b\<rparr>) = fresh_dev d"
  "fresh_dev (d\<lparr>num_scanouts := x\<rparr>) = fresh_dev d"
  "fresh_dev (d\<lparr>num_capsets := x\<rparr>) = fresh_dev d"
  "fresh_dev (d\<lparr>events_read := x\<rparr>) = fresh_dev d"
  "fresh_dev (d\<lparr>blob_alignment := x\<rparr>) = fresh_dev d"
  "fresh_dev (d\<lparr>host_visible := r\<rparr>) = fresh_dev d"
  "fresh_dev (d\<lparr>ctrlq := q\<rparr>) = fresh_dev d"
  "fresh_dev (d\<lparr>cursorq := q\<rparr>) = fresh_dev d"
  by (simp_all add: fresh_dev_def dev_inv_def counters_below_def)

lemma fresh_new [simp]: "fresh_dev vgpu_new_dev"
  unfolding fresh_dev_def using dev_inv_new by blast

lemma read_config_fresh: "vgpu_read_config b f d h = (Inr d', h') \<Longrightarrow> fresh_dev d' = fresh_dev d"
  by (auto simp: vgpu_read_config_def Let_def split: prod.splits sum.splits if_splits)

lemma read_shm_fresh: "vgpu_read_shm b f d h = (d', h') \<Longrightarrow> fresh_dev d' = fresh_dev d"
  by (auto simp: vgpu_read_shm_def split: prod.splits sum.splits if_splits)

lemma setup_queues_fresh: "vgpu_setup_queues b d h = (r, d', h') \<Longrightarrow> fresh_dev d' = fresh_dev d"
  by (auto simp: vgpu_setup_queues_def Let_def split: prod.splits sum.splits if_splits option.splits)

lemma display_info_fresh:
  "uk_virtio_gpu_get_display_info e s = Some (r, s') \<Longrightarrow> fresh_dev (vg s) \<Longrightarrow> fresh_dev (vg s')"
  by (auto simp: uk_virtio_gpu_get_display_info_def Let_def dec_resp_display_info_def fresh_dev_def
      counters_below_def dest!: cq.no_fence intro!: dev_inv_scanouts split: option.splits sum.splits)

lemma add_dev_fresh:
  assumes "vgpu_add_dev e b n lk old h = Some (Inr (), Some d, h')" "old = None"
  shows "fresh_dev d"
  using assms
  by (auto simp: vgpu_add_dev_def Let_def read_config_fresh read_shm_fresh setup_queues_fresh
      dest!: display_info_fresh
      split: prod.splits sum.splits option.splits bool.splits if_splits)


section \<open>Every call returns\<close>

text \<open>The clock keeps advancing during every wait of the control queue.\<close>

definition platform_clock :: "'h env \<Rightarrow> bool" where
  "platform_clock e \<longleftrightarrow>
    (\<forall>h t h'. env_now_ns e h = (t, h') \<longrightarrow> clock_advances e (t + CMD_TIMEOUT_NS))"

lemma cmd_submit_returns:
  assumes "platform_clock e" shows "cmd_submit e req n ex f s \<noteq> None"
proof -
  have "cmd_submit_locked e req n ex f s' \<noteq> None" for s'
    using assms by (intro cmd_submit_locked_returns) (auto simp: platform_clock_def)
  thus ?thesis by (auto simp: cmd_submit_def split: option.splits)
qed

lemma capset_info_returns:
  "platform_clock e \<Longrightarrow> uk_virtio_gpu_gl_capset_info_get e i out s \<noteq> None"
  using cmd_submit_returns[of e]
  by (auto simp: uk_virtio_gpu_gl_capset_info_get_def Let_def
      simp del: not_None_eq split: option.splits sum.splits prod.splits bool.splits)

lemma has_capset_loop_returns: "platform_clock e \<Longrightarrow> has_capset_loop e cid k i s \<noteq> None"
  using capset_info_returns[of e]
  by (induction k arbitrary: i s) (auto simp del: not_None_eq split: option.splits sum.splits)

lemma blob_unmap_returns: "platform_clock e \<Longrightarrow> uk_virtio_gpu_gl_blob_unmap e b s \<noteq> None"
  using cmd_submit_returns[of e]
  by (auto simp: uk_virtio_gpu_gl_blob_unmap_def Let_def
      simp del: not_None_eq split: option.splits sum.splits)

lemma unref_returns: "platform_clock e \<Longrightarrow> uk_virtio_gpu_gl_resource_unref e r s \<noteq> None"
  using cmd_submit_returns[of e]
  by (auto simp: uk_virtio_gpu_gl_resource_unref_def Let_def
      simp del: not_None_eq split: option.splits sum.splits)

lemma returns_2d:
  assumes "platform_clock e"
  shows "uk_virtio_gpu_get_display_info e s \<noteq> None"
    "uk_virtio_gpu_resource_create_2d e w h f out s \<noteq> None"
    "uk_virtio_gpu_resource_attach_backing e r sg s \<noteq> None"
    "uk_virtio_gpu_transfer_to_host_2d e r rect fl s \<noteq> None"
    "uk_virtio_gpu_resource_flush e r rect fl s \<noteq> None"
    "uk_virtio_gpu_gl_set_scanout e sc r rect s \<noteq> None"
    "uk_virtio_gpu_gl_resource_detach_backing e r s \<noteq> None"
    "uk_virtio_gpu_gl_resource_assign_uuid e r u s \<noteq> None"
    "uk_virtio_gpu_gl_resource_create_3d e dsc out s \<noteq> None"
    "transfer_3d e r x fl cmd s \<noteq> None"
  using cmd_submit_returns[OF assms]
  by (auto simp: uk_virtio_gpu_get_display_info_def uk_virtio_gpu_resource_create_2d_def
      uk_virtio_gpu_resource_attach_backing_def uk_virtio_gpu_transfer_to_host_2d_def
      uk_virtio_gpu_resource_flush_def uk_virtio_gpu_gl_set_scanout_def
      uk_virtio_gpu_gl_resource_detach_backing_def uk_virtio_gpu_gl_resource_assign_uuid_def
      uk_virtio_gpu_gl_resource_create_3d_def transfer_3d_def Let_def
      simp del: not_None_eq split: option.splits sum.splits prod.splits)

lemma returns_ctx:
  assumes "platform_clock e"
  shows "uk_virtio_gpu_gl_capset_get e i v out n s \<noteq> None"
    "uk_virtio_gpu_gl_get_edid e i out n s \<noteq> None"
    "uk_virtio_gpu_gl_context_create e cid nm out s \<noteq> None"
    "uk_virtio_gpu_gl_context_destroy e c s \<noteq> None"
    "ctx_resource e c r cmd s \<noteq> None"
    "uk_virtio_gpu_gl_context_submit e c bytes fl s \<noteq> None"
    "uk_virtio_gpu_gl_context_submit_synced e c bytes ri fl s \<noteq> None"
  using cmd_submit_returns[OF assms] has_capset_loop_returns[OF assms]
  by (auto simp: uk_virtio_gpu_gl_capset_get_def uk_virtio_gpu_gl_get_edid_def
      uk_virtio_gpu_gl_context_create_def uk_virtio_gpu_gl_context_destroy_def has_capset_def
      ctx_resource_def uk_virtio_gpu_gl_context_submit_def
      uk_virtio_gpu_gl_context_submit_synced_def Let_def
      simp del: not_None_eq split: option.splits sum.splits prod.splits bool.splits)

lemma returns_blob:
  assumes "platform_clock e"
  shows "uk_virtio_gpu_gl_blob_create_with_ctx e c n m fl i b s \<noteq> None"
    "uk_virtio_gpu_gl_blob_map e b s \<noteq> None"
    "uk_virtio_gpu_gl_blob_destroy e b s \<noteq> None"
    "uk_virtio_gpu_transfer_and_flush_2d e r rect ff s \<noteq> None"
  using cmd_submit_returns[OF assms] blob_unmap_returns[OF assms] unref_returns[OF assms]
    returns_2d[OF assms]
  by (auto simp: uk_virtio_gpu_gl_blob_create_with_ctx_def uk_virtio_gpu_gl_blob_map_def
      uk_virtio_gpu_gl_blob_destroy_def uk_virtio_gpu_transfer_and_flush_2d_def Let_def
      simp del: not_None_eq split: option.splits sum.splits)

lemma gpu_step_returns: "platform_clock e \<Longrightarrow> gpu_step e c s \<noteq> None"
  using capset_info_returns[of e] blob_unmap_returns[of e] unref_returns[of e]
    returns_2d[of e] returns_ctx[of e] returns_blob[of e]
  by (cases c)
    (simp_all add: uk_virtio_gpu_gl_transfer_to_host_3d_def uk_virtio_gpu_gl_transfer_from_host_3d_def
      uk_virtio_gpu_gl_context_attach_resource_def uk_virtio_gpu_gl_context_detach_resource_def
      del: not_None_eq)

lemma gpu_run_returns: "platform_clock e \<Longrightarrow> gpu_run e cs s \<noteq> None"
  using gpu_step_returns[of e]
  by (induction cs arbitrary: s) (auto simp del: not_None_eq split: option.splits)

end
