(* ===== verification/Gpu_Demo.thy ===== *)
theory Gpu_Demo
  imports Gpu_Api
begin

text \<open>
  Concrete platforms and devices on which the properties of the driver are applied: a host that
  answers every command at once, a host that never answers, a bus with every feature, and a device
  as bring-up leaves it.
\<close>

section \<open>Two small platforms for concrete runs\<close>

text \<open>A host that answers every command at once with a response type that depends on the command,
  echoing the header's flags and fence, and a host that never answers while the clock advances by a
  second per reading.\<close>

definition answering_env :: "(u32 \<Rightarrow> u32) \<Rightarrow> u8 list env" where
  "answering_env reply = \<lparr> env_sg_append = (\<lambda>_ _ h. (None, h)),
     env_vq_enqueue = (\<lambda>req _ _. (None, req)), env_vq_notify = (\<lambda>h. h),
     env_vq_dequeue = (\<lambda>h. (VqDone True 24 (le32 (reply (un32 h)) @ drop 4 (take 24 h)), h)),
     env_now_ns = (\<lambda>h. (0, h)), env_malloc = (\<lambda>_ h. (True, h)), env_free = (\<lambda>h. h) \<rparr>"

definition ok_reply :: "u32 \<Rightarrow> u32" where
  "ok_reply c = (if c = CMD_GET_DISPLAY_INFO then RESP_OK_DISPLAY_INFO
     else if c = CMD_GET_CAPSET_INFO then RESP_OK_CAPSET_INFO
     else if c = CMD_GET_CAPSET then RESP_OK_CAPSET else if c = CMD_GET_EDID then RESP_OK_EDID
     else if c = CMD_RESOURCE_ASSIGN_UUID then RESP_OK_RESOURCE_UUID
     else if c = CMD_RESOURCE_MAP_BLOB then RESP_OK_MAP_INFO else RESP_OK_NODATA)"

definition silent_env :: "nat env" where
  "silent_env = \<lparr> env_sg_append = (\<lambda>_ _ h. (None, h)), env_vq_enqueue = (\<lambda>_ _ h. (None, h)),
     env_vq_notify = (\<lambda>h. h), env_vq_dequeue = (\<lambda>h. (VqEmpty, h)),
     env_now_ns = (\<lambda>h. (if h < 10 then of_nat (1000000000 * (h + 1)) else - 1, h + 1)),
     env_malloc = (\<lambda>_ h. (True, h)), env_free = (\<lambda>h. h) \<rparr>"

lemma answering_clock: "platform_clock (answering_env reply)"
  by (simp add: platform_clock_def clock_advances_def answering_env_def)

lemma answering_submit:
  "cmd_submit (answering_env reply) req n ex f s =
    (if \<not> ctrlq (vg s) \<or> req = [] \<or> n = 0 then Some (Inl EINVAL, s)
     else case cmd_response (un32 req) True 24
              (take n ((le32 (reply (un32 req)) @ drop 4 (take 24 req)) @ replicate n 0))
            ex f (vg s) of (r, d) \<Rightarrow> Some (r, s\<lparr>vg := d, host := req\<rparr>))"
  by (simp add: cmd_submit_def cmd_submit_locked_def answering_env_def Let_def
      dequeue_spin.simps split: prod.splits)

lemma un32_enc_ctrl_hdr [simp]: "un32 (enc_ctrl_hdr h @ rest) = hdr_type h"
  by (simp add: enc_ctrl_hdr_def)

lemma echoed_header:
  "24 \<le> n \<Longrightarrow> dec_ctrl_hdr (take n ((le32 t @ drop 4 (take 24 (enc_ctrl_hdr h @ rest))) @ zs))
     = h\<lparr>hdr_type := t\<rparr>"
proof -
  assume n: "24 \<le> n"
  have "le32 t @ drop 4 (enc_ctrl_hdr h) = enc_ctrl_hdr (h\<lparr>hdr_type := t\<rparr>)"
    by (simp add: enc_ctrl_hdr_def)
  hence "le32 t @ drop 4 (take 24 (enc_ctrl_hdr h @ rest)) = enc_ctrl_hdr (h\<lparr>hdr_type := t\<rparr>)" by simp
  thus ?thesis using n by simp
qed

text \<open>A command on the answering host, when the reply is the expected success.\<close>

definition echo_fence :: "ukvgpu_ctrl_hdr \<Rightarrow> u64 option \<Rightarrow> uk_virtio_gpu_dev \<Rightarrow> uk_virtio_gpu_dev" where
  "echo_fence h f d = (case f of None \<Rightarrow> d | Some i \<Rightarrow>
     if hdr_flags h AND FLAG_FENCE \<noteq> 0 \<and> hdr_fence_id h = i then d\<lparr>completed_fence := i\<rparr> else d)"

lemma cmd_response_echo:
  assumes "dec_ctrl_hdr R = h\<lparr>hdr_type := ex\<rparr>" "gpu_resp_errno ex = None"
  shows "cmd_response t True 24 R ex f d = (Inr R, echo_fence h f d)"
proof -
  have "ex \<noteq> 0" using assms(2) by (auto simp: gpu_resp_errno_def proto_consts)
  thus ?thesis
    using assms
    by (cases f) (simp_all add: cmd_response_def Let_def sizeof_ctrl_hdr_def echo_fence_def)
qed

lemma answering_ok:
  assumes "ctrlq (vg s)" "24 \<le> n" "reply (hdr_type h) = ex" "gpu_resp_errno ex = None"
  shows "\<exists>resp. cmd_submit (answering_env reply) (enc_ctrl_hdr h @ rest) n ex f s = Some (Inr resp,
    s\<lparr>vg := echo_fence h f (vg s), host := enc_ctrl_hdr h @ rest\<rparr>)"
proof -
  let ?req = "enc_ctrl_hdr h @ rest"
  let ?R = "take n ((le32 (reply (un32 ?req)) @ drop 4 (take 24 ?req)) @ replicate n 0)"
  have ne: "?req \<noteq> []" "n \<noteq> 0"
    using length_enc_ctrl_hdr[of h] assms(2) by (auto simp del: length_enc_ctrl_hdr)
  have "dec_ctrl_hdr ?R = h\<lparr>hdr_type := ex\<rparr>"
    using echoed_header[OF assms(2)] assms(3) by (simp only: un32_enc_ctrl_hdr)
  from cmd_response_echo[OF this assms(4)] show ?thesis
    using assms(1) ne by (simp only: answering_submit) (simp only: if_False not_True_eq_False disj_not1 simp_thms prod.case, blast)
qed

lemma silent_clock: "platform_clock silent_env"
  unfolding platform_clock_def
proof (intro allI impI)
  have small: "unat (of_nat (1000000000 * (k + 1)) :: u64) = 1000000000 * (k + 1)" if "k < 10" for k
    using that by (simp only: unat_of_nat) simp
  fix h t h' assume "env_now_ns silent_env h = (t, h')"
  hence t: "t = (if h < 10 then of_nat (1000000000 * (h + 1)) else - 1)"
    by (simp add: silent_env_def)
  have "unat (t + CMD_TIMEOUT_NS) < 20000000000"
  proof (cases "h < 10")
    case True
    hence "unat t \<le> 10000000000" using small t by simp
    thus ?thesis by (subst unat_add_small) (simp_all add: CMD_TIMEOUT_NS_def)
  qed (simp add: t CMD_TIMEOUT_NS_def)
  moreover have "unat (- 1 :: u64) = 2 ^ 64 - 1"
    by (simp add: unsigned_minus_1_eq_mask mask_eq_exp_minus_1)
  ultimately have big: "\<not> - 1 \<le> t + CMD_TIMEOUT_NS" by (auto simp: word_le_nat_alt)
  show "clock_advances silent_env (t + CMD_TIMEOUT_NS)"
    unfolding clock_advances_def
  proof (rule exI[where x = "\<lambda>h. 1000000000 * h"], intro allI impI)
    fix k h1 u h2
    assume "env_vq_dequeue silent_env k = (VqEmpty, h1)" "env_now_ns silent_env h1 = (u, h2)"
      "u \<le> t + CMD_TIMEOUT_NS"
    thus "1000000000 * k < 1000000000 * h2 \<and> 1000000000 * h2 \<le> unat u"
      using big small[of k] by (auto simp: silent_env_def split: if_splits)
  qed
qed

definition demo_dev :: uk_virtio_gpu_dev where
  "demo_dev = vgpu_new_dev\<lparr>ctrlq := True, num_scanouts := 1, num_capsets := 1,
     negotiated_features := 0x3F, blob_alignment := 4096,
     host_visible := \<lparr> shm_id = 1, shm_phys_addr = 0, shm_size = 0x10000, shm_addr = 0x70000000 \<rparr>\<rparr>"

definition demo_sys :: "'h \<Rightarrow> 'h sys" where
  "demo_sys h = \<lparr> vg = demo_dev, host = h, g_ctrlq_lock = 0 \<rparr>"

lemma demo_fresh: "fresh_dev demo_dev" by (simp add: demo_dev_def)

lemma demo_inv: "dev_inv demo_dev" "counters_below 1 demo_dev"
  using demo_fresh unfolding fresh_dev_def by blast+

definition demo_bus :: "'h bus" where
  "demo_bus = \<lparr> bus_feature_get = (\<lambda>h. (0x3F, h)), bus_feature_set = (\<lambda>_ h. h),
     bus_status_update = (\<lambda>_ h. h), bus_status_features_ok = (\<lambda>h. (True, h)),
     bus_config_get = (\<lambda>off h. (Inr (if off = 16 then 4096 else 1), h)),
     bus_shm_region_get = (\<lambda>_ h. (Inr (0x70000000, 0x10000), h)),
     bus_find_vqs = (\<lambda>_ h. (Inr (2, 64, 16), h)), bus_vqueue_setup = (\<lambda>_ _ h. (None, h)),
     bus_vqueue_release = (\<lambda>_ h. h), bus_intr_enable = (\<lambda>_ h. h), bus_drv_up = (\<lambda>h. h) \<rparr>"

lemma ok_reply_simps [simp]:
  "ok_reply CMD_GET_DISPLAY_INFO = RESP_OK_DISPLAY_INFO"
  "ok_reply CMD_RESOURCE_CREATE_2D = RESP_OK_NODATA"
  "ok_reply CMD_RESOURCE_UNREF = RESP_OK_NODATA"
  "ok_reply CMD_RESOURCE_CREATE_BLOB = RESP_OK_NODATA"
  "ok_reply CMD_RESOURCE_MAP_BLOB = RESP_OK_MAP_INFO"
  "ok_reply CMD_RESOURCE_FLUSH = RESP_OK_NODATA"
  by (simp_all add: ok_reply_def proto_consts)

lemma resp_ok_simps [simp]:
  "gpu_resp_errno RESP_OK_NODATA = None" "gpu_resp_errno RESP_OK_DISPLAY_INFO = None"
  "gpu_resp_errno RESP_OK_MAP_INFO = None"
  by (simp_all add: gpu_resp_errno_def)

text \<open>Successful commands on the answering host, as a rewrite with an opaque response.\<close>

definition answer :: "u8 list \<Rightarrow> nat \<Rightarrow> u8 list" where
  "answer req n = take n ((le32 (ok_reply (un32 req)) @ drop 4 (take 24 req)) @ replicate n 0)"

lemma answered:
  assumes "ctrlq (vg s)" "24 \<le> n" "ok_reply (hdr_type h) = ex" "gpu_resp_errno ex = None"
  shows "cmd_submit (answering_env ok_reply) (enc_ctrl_hdr h @ rest) n ex f s =
    Some (Inr (answer (enc_ctrl_hdr h @ rest) n),
      s\<lparr>vg := echo_fence h f (vg s), host := enc_ctrl_hdr h @ rest\<rparr>)"
proof -
  let ?req = "enc_ctrl_hdr h @ rest"
  have ne: "?req \<noteq> []" "n \<noteq> 0"
    using length_enc_ctrl_hdr[of h] assms(2) by (auto simp del: length_enc_ctrl_hdr)
  have "dec_ctrl_hdr (answer ?req n) = h\<lparr>hdr_type := ex\<rparr>"
    using echoed_header[OF assms(2)] assms(3) by (simp only: answer_def un32_enc_ctrl_hdr)
  from cmd_response_echo[OF this assms(4)] show ?thesis
    using assms(1) ne
    by (simp only: answering_submit answer_def if_False not_True_eq_False disj_not1 simp_thms prod.case)
qed

lemmas answered_hdr = answered[where rest = "[]", simplified]

lemma echo_None [simp]: "echo_fence h None d = d"
  by (simp add: echo_fence_def)

lemma answering_heap [simp]:
  "env_malloc (answering_env reply) n h = (True, h)" "env_free (answering_env reply) h = h"
  by (simp_all add: answering_env_def)

lemma demo_bus_simps [simp]:
  "bus_feature_get demo_bus h = (0x3F, h)" "bus_feature_set demo_bus f h = h"
  "bus_status_update demo_bus st h = h" "bus_status_features_ok demo_bus h = (True, h)"
  "bus_config_get demo_bus off h = (Inr (if off = 16 then 4096 else 1), h)"
  "bus_shm_region_get demo_bus i h = (Inr (0x70000000, 0x10000), h)"
  "bus_find_vqs demo_bus n h = (Inr (2, 64, 16), h)" "bus_vqueue_setup demo_bus q z h = (None, h)"
  "bus_vqueue_release demo_bus q h = h" "bus_intr_enable demo_bus q h = h" "bus_drv_up demo_bus h = h"
  by (simp_all add: demo_bus_def)

lemma display_info_answered:
  "ctrlq (vg s) \<Longrightarrow> \<exists>sc h. uk_virtio_gpu_get_display_info (answering_env ok_reply) s =
     Some (Inr (), s\<lparr>host := h, vg := (vg s)\<lparr>scanouts := sc\<rparr>\<rparr>)"
  by (simp add: uk_virtio_gpu_get_display_info_def Let_def answered_hdr sizeof_resp_display_info_def)
    (intro exI, rule refl)

lemma demo_bring_up:
  "\<exists>d h'. vgpu_add_dev (answering_env ok_reply) demo_bus 0 0 None [] = Some (Inr (), Some d, h')"
proof -
  have q: "vgpu_setup_queues demo_bus d h = (Inr (), d\<lparr>ctrlq := True, cursorq := True\<rparr>, h)" for d h
    by (simp add: vgpu_setup_queues_def Let_def)
  obtain d1 where c: "vgpu_read_config demo_bus (negotiate 0x3F)
      (vgpu_new_dev\<lparr>host_features := 0x3F, negotiated_features := negotiate 0x3F\<rparr>) ([] :: u8 list) = (Inr d1, [])"
    by (cases "negotiate 0x3F AND F_BLOB_ALIGNMENT = 0") (auto simp: vgpu_read_config_def Let_def)
  obtain d2 where m: "vgpu_read_shm demo_bus (negotiate 0x3F) d1 ([] :: u8 list) = (d2, [])"
    by (cases "negotiate 0x3F AND F_RESOURCE_BLOB = 0") (auto simp: vgpu_read_shm_def)
  let ?s = "\<lparr> vg = d2\<lparr>ctrlq := True, cursorq := True\<rparr>, host = [] :: u8 list, g_ctrlq_lock = 0 \<rparr>"
  obtain sc h where "uk_virtio_gpu_get_display_info (answering_env ok_reply) ?s =
      Some (Inr (), ?s\<lparr>host := h, vg := (vg ?s)\<lparr>scanouts := sc\<rparr>\<rparr>)"
    using display_info_answered[of ?s] by auto
  thus ?thesis by (simp add: vgpu_add_dev_def Let_def c m q)
qed

text \<open>The first resource on the demo device.\<close>

lemma demo_alloc:
  "alloc_res demo_dev = Some (0, demo_dev\<lparr>
     resources := (resources demo_dev)[0 := zero_resource\<lparr>r_id := 1, r_live := True\<rparr>], next_res := 2,
     metrics := (metrics demo_dev)\<lparr>m_resources_created := m_resources_created (metrics demo_dev) + 1\<rparr>\<rparr>)"
proof -
  have "first_index (\<lambda>r. \<not> r_live r) (resources demo_dev) = Some 0"
    by (simp add: first_index_Some demo_dev_def vgpu_new_dev_def UKVGPU_MAX_RESOURCES_def)
  moreover have "next_res demo_dev = 1" by (simp add: demo_dev_def vgpu_new_dev_def)
  ultimately show ?thesis by (simp add: alloc_res_def)
qed

lemma demo_create_2d:
  "\<exists>s'. uk_virtio_gpu_resource_create_2d (answering_env ok_reply) 4 4 1 True (demo_sys []) = Some (Inr 1, s')"
proof -
  have "ctrlq demo_dev" "resources demo_dev \<noteq> []"
    by (simp_all add: demo_dev_def vgpu_new_dev_def UKVGPU_MAX_RESOURCES_def)
  thus ?thesis
    by (simp add: uk_virtio_gpu_resource_create_2d_def Let_def demo_sys_def demo_alloc
      enc_resource_create_2d_def answered sizeof_ctrl_hdr_def)
qed

end
