(* ===== verification/Gpu_Properties.thy ===== *)
theory Gpu_Properties
  imports Gpu_Demo
begin

text \<open>
  The properties of the driver as a whole and the lemmas they rest on, each followed or, for those
  that need a prepared device, accompanied in the last section by an application to a concrete
  device and platform of \<open>Gpu_Demo\<close>.
\<close>

lemma find_res_res_upd:
  assumes "\<And>r. r_live (f r) = r_live r \<and> r_id (f r) = r_id r"
  shows "find_res (res_upd i f d) k = find_res d k"
proof -
  have "first_index (\<lambda>r. r_live r \<and> r_id r = k) ((resources d)[i := f (resources d ! i)])
      = first_index (\<lambda>r. r_live r \<and> r_id r = k) (resources d)"
  proof (rule first_index_cong)
    fix j assume "j < length ((resources d)[i := f (resources d ! i)])"
    thus "(r_live ((resources d)[i := f (resources d ! i)] ! j) \<and>
          r_id ((resources d)[i := f (resources d ! i)] ! j) = k)
        = (r_live (resources d ! j) \<and> r_id (resources d ! j) = k)"
      using assms by (cases "j = i") simp_all
  qed simp
  thus ?thesis by (simp add: find_res_def res_upd_def)
qed

lemma find_res_dead:
  assumes "\<not> r_live (resources d ! i)" "\<not> r_live e"
  shows "find_res (d\<lparr>resources := (resources d)[i := e]\<rparr>) k = find_res d k"
proof -
  have "first_index (\<lambda>r. r_live r \<and> r_id r = k) ((resources d)[i := e])
      = first_index (\<lambda>r. r_live r \<and> r_id r = k) (resources d)"
  proof (rule first_index_cong)
    fix j assume "j < length ((resources d)[i := e])"
    thus "(r_live ((resources d)[i := e] ! j) \<and> r_id ((resources d)[i := e] ! j) = k)
        = (r_live (resources d ! j) \<and> r_id (resources d ! j) = k)"
      using assms by (cases "j = i") simp_all
  qed simp
  thus ?thesis by (simp add: find_res_def)
qed

lemma alloc_then_clear:
  assumes "alloc_res d = Some (i, d')"
  shows "find_res (res_upd i (\<lambda>_. zero_resource) d') k = find_res d k"
    "resources (res_upd i (\<lambda>_. zero_resource) d') = (resources d)[i := zero_resource]"
proof -
  note a = alloc_res_SomeD[OF assms]
  show "resources (res_upd i (\<lambda>_. zero_resource) d') = (resources d)[i := zero_resource]"
    using a by (simp add: res_upd_def)
  hence "find_res (res_upd i (\<lambda>_. zero_resource) d') k
      = find_res (d\<lparr>resources := (resources d)[i := zero_resource]\<rparr>) k"
    by (simp add: find_res_def)
  thus "find_res (res_upd i (\<lambda>_. zero_resource) d') k = find_res d k"
    using a(2) by (simp add: find_res_dead)
qed

lemma alloc_res_fresh:
  assumes "alloc_res d = Some (i, d')" "dev_inv d" "next_res d + 1 \<noteq> 0"
  shows "next_res d \<noteq> 0" "find_res d (next_res d) = None" "find_res d' (next_res d) = Some i"
    "k \<noteq> next_res d \<Longrightarrow> find_res d' k = find_res d k"
proof -
  note a = alloc_res_SomeD[OF assms(1)]
  have inv': "dev_inv d'" using dev_inv_alloc_res[OF assms] .
  have u: "rt.uniq (resources d)" "rt.uniq (resources d')"
    using assms(2) inv' by (auto simp: dev_inv_def)
  show nz: "next_res d \<noteq> 0" using assms(2) by (auto simp: dev_inv_def)
  have "r_id (resources d ! j) \<noteq> next_res d" if "j < length (resources d)" "r_live (resources d ! j)" for j
    using assms(2) that unfolding dev_inv_def by (metis order_less_irrefl)
  thus "find_res d (next_res d) = None"
    unfolding find_res_table using nz by (subst rt.find_None_iff) auto
  show "find_res d' (next_res d) = Some i"
    unfolding find_res_table using a(1) u nz alloc_res_frame[OF assms(1)]
    by (subst rt.find_iff) (auto simp: zero_resource_def)
  show "find_res d' k = find_res d k" if "k \<noteq> next_res d"
    using rt.find_other[of "resources d" i "zero_resource\<lparr>r_id := next_res d, r_live := True\<rparr>" k]
      u a that unfolding find_res_table by (simp add: zero_resource_def)
qed

text \<open>A 2D resource that is created gets an identifier no live resource had; it can
  then be looked up with the requested geometry, and every other identifier still finds what it
  found before.\<close>

theorem create_2d_registers:
  assumes "uk_virtio_gpu_resource_create_2d e w h fmt True s = Some (Inr rid, s')"
    and "dev_inv (vg s)" "room (vg s)"
  shows "rid \<noteq> 0 \<and> find_res (vg s) rid = None \<and>
    (\<exists>i. find_res (vg s') rid = Some i \<and>
       (let r = resources (vg s') ! i in r_width r = w \<and> r_height r = h \<and> r_depth r = 1 \<and>
          r_format r = compat_format fmt \<and> r_size r = resource_size_bytes w h 1 \<and>
          \<not> r_backing_attached r \<and> \<not> r_is_blob r)) \<and>
    (\<forall>k. k \<noteq> rid \<longrightarrow> find_res (vg s') k = find_res (vg s) k)"
proof -
  obtain i d0 where a: "alloc_res (vg s) = Some (i, d0)"
    using assms(1) by (auto simp: uk_virtio_gpu_resource_create_2d_def split: if_splits option.splits)
  let ?f = "\<lambda>r :: ukvgpu_resource_state. r\<lparr>r_width := w, r_height := h, r_depth := 1,
    r_format := compat_format fmt, r_size := resource_size_bytes w h 1\<rparr>"
  have s': "rid = next_res (vg s)" "vg s' = res_upd i ?f d0"
    using assms(1) a
    by (auto simp: uk_virtio_gpu_resource_create_2d_def Let_def alloc_res_frame
        dest!: cq.no_fence split: if_splits option.splits sum.splits)
  have nr: "next_res (vg s) + 1 \<noteq> 0" using assms(3) by (simp add: room_def)
  note f = alloc_res_fresh[OF a assms(2) nr]
  have same: "find_res (res_upd i ?f d0) k = find_res d0 k" for k
    by (rule find_res_res_upd) simp
  have "i < length (resources d0)" "resources d0 ! i = zero_resource\<lparr>r_id := next_res (vg s), r_live := True\<rparr>"
    using alloc_res_frame[OF a] alloc_res_SomeD(1)[OF a] by simp_all
  thus ?thesis
    unfolding s' same using f by (auto simp: res_upd_def Let_def zero_resource_def)
qed

definition same_lookups :: "uk_virtio_gpu_dev \<Rightarrow> uk_virtio_gpu_dev \<Rightarrow> bool" where
  "same_lookups d d' \<longleftrightarrow> (\<forall>k. find_res d' k = find_res d k) \<and> contexts d' = contexts d \<and>
     next_blob_map_offset d' = next_blob_map_offset d \<and> next_fence d' = next_fence d \<and>
     completed_fence d' = completed_fence d"

lemma same_lookups_clear:
  "alloc_res d = Some (i, d') \<Longrightarrow> same_lookups d (res_upd i (\<lambda>_. zero_resource) d')"
  by (simp add: same_lookups_def alloc_then_clear alloc_res_frame)

text \<open>C22 (error): when creating a 2D, 3D or blob resource fails, for whatever reason and at whatever
  stage, no identifier starts or stops resolving, no context changes, and the blob placement pointer
  and the fences are as before.\<close>

theorem failed_creation_leaves_no_trace:
  assumes "uk_virtio_gpu_resource_create_2d e w h fmt out s = Some (Inl er, s') \<or>
    uk_virtio_gpu_gl_resource_create_3d e dsc out s = Some (Inl er, s') \<or>
    uk_virtio_gpu_gl_blob_create_with_ctx e ctx n mem flags bid blob s = Some (Inl er, s')"
  shows "same_lookups (vg s) (vg s')"
proof -
  have refl: "same_lookups d d" for d by (simp add: same_lookups_def)
  from assms show ?thesis
    by (elim disjE)
      (auto simp: uk_virtio_gpu_resource_create_2d_def uk_virtio_gpu_gl_resource_create_3d_def
        uk_virtio_gpu_gl_blob_create_with_ctx_def Let_def refl
        intro!: same_lookups_clear dest!: cq.no_fence split: if_splits option.splits sum.splits)
qed

text \<open>Destroying a resource removes exactly that identifier.\<close>

theorem unref_removes:
  assumes "uk_virtio_gpu_gl_resource_unref e res s = Some (Inr (), s')" "dev_inv (vg s)"
  shows "find_res (vg s) res \<noteq> None \<and> find_res (vg s') res = None \<and>
    (\<forall>k. k \<noteq> res \<longrightarrow> find_res (vg s') k = find_res (vg s) k)"
proof -
  obtain i where i: "find_res (vg s) res = Some i"
    using assms(1) by (auto simp: uk_virtio_gpu_gl_resource_unref_def split: option.splits)
  have r: "resources (vg s') = (resources (vg s))[i := zero_resource]"
    using assms(1) i
    by (auto simp: uk_virtio_gpu_gl_resource_unref_def Let_def res_upd_def
        dest!: cq.no_fence split: option.splits sum.splits)
  note f = find_res_SomeD[OF i]
  have u: "rt.uniq (resources (vg s))" using assms(2) by (simp add: dev_inv_def)
  hence "rt.uniq ((resources (vg s))[i := zero_resource])" by (rule rt.uniq_kill) simp
  thus ?thesis
    using i f rt.find_cleared[OF u, of res i zero_resource] rt.find_other[OF u, of i zero_resource]
    unfolding find_res_table r by auto
qed

text \<open>Every operation given an identifier that does not resolve fails with
  \<open>EINVAL\<close> before the host sees anything: the whole state, platform included, is unchanged.\<close>

theorem unknown_resource_rejected:
  assumes "find_res (vg s) res = None"
  shows "uk_virtio_gpu_resource_attach_backing e res sg s = Some (Inl EINVAL, s) \<and>
    uk_virtio_gpu_transfer_to_host_2d e res rect fence s = Some (Inl EINVAL, None, s) \<and>
    uk_virtio_gpu_resource_flush e res rect fence s = Some (Inl EINVAL, None, s) \<and>
    uk_virtio_gpu_transfer_and_flush_2d e res rect fence s = Some (Inl EINVAL, None, s) \<and>
    uk_virtio_gpu_gl_set_scanout e sc res rect s = Some (Inl EINVAL, s) \<and>
    uk_virtio_gpu_gl_resource_detach_backing e res s = Some (Inl EINVAL, s) \<and>
    uk_virtio_gpu_gl_resource_unref e res s = Some (Inl EINVAL, s) \<and>
    uk_virtio_gpu_gl_resource_assign_uuid e res uuid s = Some (Inl EINVAL, s) \<and>
    transfer_3d e res xfer fence cmd s = Some (Inl EINVAL, None, s) \<and>
    ctx_resource e ctx res cmd s = Some (Inl EINVAL, s) \<and>
    (blob_resource_id b = res \<longrightarrow>
      uk_virtio_gpu_gl_blob_map e (Some b) s = Some (Inl EINVAL, Some b, s) \<and>
      uk_virtio_gpu_gl_blob_unmap e (Some b) s = Some (Inl EINVAL, Some b, s) \<and>
      uk_virtio_gpu_gl_blob_destroy e (Some b) s = Some (Inl EINVAL, Some b, s))"
  using assms
  by (simp add: uk_virtio_gpu_resource_attach_backing_def uk_virtio_gpu_transfer_to_host_2d_def
      uk_virtio_gpu_resource_flush_def uk_virtio_gpu_transfer_and_flush_2d_def
      uk_virtio_gpu_gl_set_scanout_def uk_virtio_gpu_gl_resource_detach_backing_def
      uk_virtio_gpu_gl_resource_unref_def uk_virtio_gpu_gl_resource_assign_uuid_def
      transfer_3d_def validate_xfer_3d_def ctx_resource_def uk_virtio_gpu_gl_blob_map_def
      uk_virtio_gpu_gl_blob_unmap_def uk_virtio_gpu_gl_blob_destroy_def)

lemma cmd_response_success:
  assumes "cmd_response t own u resp ex f d = (Inr out, d')"
  shows "own \<and> 24 \<le> unat u \<and> out = resp \<and>
    (gpu_resp_errno (un32 resp) = None \<and> (ex = 0 \<or> un32 resp = ex) \<or>
     un32 resp = 0 \<and> t \<in> {CMD_CTX_CREATE, CMD_CTX_DESTROY}) \<and>
    (d' = d \<or> (\<exists>i. f = Some i \<and> un32 (drop 4 resp) AND FLAG_FENCE \<noteq> 0 \<and>
       un64 (drop 8 resp) = i \<and> d' = d\<lparr>completed_fence := i\<rparr>))"
  using assms
  by (auto simp: cmd_response_def Let_def dec_ctrl_hdr_def sizeof_ctrl_hdr_def
      split: if_splits option.splits)


text \<open>Rounding a blob size to a power-of-two alignment gives the least multiple of the
  alignment that is not below the size; it is refused exactly when \<open>size + align - 1\<close> does not fit 64
  bits.\<close>

theorem blob_size_rounding:
  assumes "unat (blob_align d) = 2 ^ k" "sz \<noteq> 0"
  shows "case blob_aligned_size d sz of
      None \<Rightarrow> 2 ^ 64 \<le> unat sz + 2 ^ k - 1
    | Some a \<Rightarrow> 2 ^ k dvd unat a \<and> unat sz \<le> unat a \<and> unat a < unat sz + 2 ^ k"
proof -
  let ?al = "blob_align d"
  have "(2::nat) ^ k < 2 ^ 64" using assms(1) unat_u64_less[of ?al] by simp
  hence k: "k < 64" by (rule power_less_imp_less_exp[rotated]) simp
  have "?al = of_nat (unat ?al)" by simp
  also have "\<dots> = 2 ^ k" unfolding assms(1) by simp
  finally have al: "?al = 2 ^ k" .
  have m: "?al - 1 = mask k" by (simp add: al mask_eq_exp_minus_1)
  have um: "unat (?al - 1) = 2 ^ k - 1"
    using assms(1) by (subst unat_diff_1) (auto simp flip: unat_eq_0)
  show ?thesis
  proof (cases "add_overflow sz (?al - 1)")
    case None
    hence "2 ^ 64 \<le> unat sz + (2 ^ k - 1)" unfolding add_overflow_None um .
    moreover have "unat sz + (2 ^ k - 1) \<le> unat sz + 2 ^ k - 1" by simp
    ultimately show ?thesis
      using None by (simp only: blob_aligned_size_def Let_def option.case)
  next
    case (Some w)
    have w: "unat w = unat sz + (2 ^ k - 1)" using Some um by (simp add: add_overflow_Some)
    let ?a = "w AND NOT (mask k)"
    have a: "unat ?a = unat w - unat w mod 2 ^ k" by (rule and_not_mask_nat)
    have lt: "unat w mod 2 ^ k < 2 ^ k" by simp
    have le: "unat w mod 2 ^ k \<le> unat w" by simp
    have ge: "unat sz \<le> unat ?a" using a w lt le by linarith
    moreover have "?a \<noteq> 0" using ge assms(2) by (auto simp: unat_eq_0)
    moreover have "2 ^ k dvd unat ?a" using a by (simp add: dvd_minus_mod)
    moreover have "unat ?a < unat sz + 2 ^ k"
    proof -
      have "unat ?a \<le> unat w" using a by simp
      moreover have "(0::nat) < 2 ^ k" by simp
      ultimately show ?thesis using w by linarith
    qed
    moreover have "blob_aligned_size d sz = Some (if ?a = 0 then ?al else ?a)"
      using Some by (simp only: blob_aligned_size_def Let_def m option.case)
    ultimately show ?thesis by simp
  qed
qed

lemma blob_size_rounding_witness:
  "case blob_aligned_size demo_dev 5000 of
      None \<Rightarrow> 2 ^ 64 \<le> unat (5000 :: u64) + 2 ^ 12 - 1
    | Some a \<Rightarrow> 2 ^ 12 dvd unat a \<and> unat (5000 :: u64) \<le> unat a \<and> unat a < unat (5000 :: u64) + 2 ^ 12"
  by (rule blob_size_rounding) (simp_all add: blob_align_def demo_dev_def negotiated_def F_BLOB_ALIGNMENT_def)

text \<open>C14 (safety): a successful map of a blob whose size is the one it was created with puts it at
  its own window of the host-visible region, inside the region, disjoint from the window of every
  other live blob.\<close>

theorem blob_map_stays_in_window:
  assumes "uk_virtio_gpu_gl_blob_map e (Some b) s = Some (Inr (), Some b', s')"
    and "dev_inv (vg s)" "find_res (vg s) (blob_resource_id b) = Some i"
    and "blob_size b = r_size (resources (vg s) ! i)"
  shows "let r = resources (vg s) ! i; hv = host_visible (vg s) in
    blob_mapped_addr b' = shm_addr hv + r_host_visible_offset r \<and>
    unat (r_host_visible_offset r) + unat (blob_size b) \<le> unat (shm_size hv) \<and>
    r_mapped (resources (vg s') ! i) \<and>
    (\<forall>j<length (resources (vg s)). j \<noteq> i \<longrightarrow>
       windows_apart (blob_window r) (blob_window (resources (vg s) ! j)))"
proof -
  let ?r = "resources (vg s) ! i" and ?hv = "host_visible (vg s)"
  note f = find_res_SomeD[OF assms(3)]
  have m: "r_is_blob ?r" "r_host_visible_offset ?r + blob_size b \<le> shm_size ?hv"
    "blob_mapped_addr b' = shm_addr ?hv + r_host_visible_offset ?r" "r_mapped (resources (vg s') ! i)"
    using assms(1,3) f
    by (auto simp: uk_virtio_gpu_gl_blob_map_def Let_def res_upd_def
        dest!: cq.no_fence split: if_splits option.splits sum.splits)
  have bw: "blob_windows (resources (vg s)) (next_blob_map_offset (vg s))"
    using assms(2) by (simp add: dev_inv_def)
  have "unat (r_host_visible_offset ?r) + unat (r_size ?r) \<le> unat (next_blob_map_offset (vg s))"
    using f m(1) by (intro blob_windows_le[OF bw, of i "unat (r_host_visible_offset ?r)"])
      (simp_all add: blob_window_def)
  hence "unat (r_host_visible_offset ?r) + unat (blob_size b) < 2 ^ 64"
    using assms(4) unat_u64_less[of "next_blob_map_offset (vg s)"] by simp
  hence "unat (r_host_visible_offset ?r) + unat (blob_size b) \<le> unat (shm_size ?hv)"
    using m(2) by (simp add: word_le_nat_alt unat_add_small)
  thus ?thesis
    using m blob_windows_apart[OF bw] f by (auto simp: Let_def)
qed

lemma power_of_two_word:
  fixes al :: "'a::len word"
  assumes "al \<noteq> 0" "al AND (al - 1) = 0"
  shows "\<exists>k<LENGTH('a). al = 2 ^ k"
proof -
  let ?n = "unat al"
  have pos: "0 < ?n" using assms(1) by (simp add: unat_gt_0)
  obtain k where k: "2 ^ k \<le> ?n" "?n < 2 ^ Suc k"
    using ex_power_ivl1[of 2 ?n] pos by auto
  have "2 ^ k < (2::nat) ^ LENGTH('a)" using k(1) unsigned_less[of al] le_less_trans by blast
  hence kl: "k < LENGTH('a)" by (rule power_less_imp_less_exp[rotated]) simp
  have "?n = 2 ^ k"
  proof (rule ccontr)
    assume "?n \<noteq> 2 ^ k"
    hence m: "2 ^ k \<le> ?n - 1" "?n - 1 < 2 ^ Suc k" using k by auto
    have b: "bit m k" if "2 ^ k \<le> m" "m < 2 ^ Suc k" for m :: nat
    proof -
      have "m div 2 ^ k = 1" using that by (intro div_nat_eqI) auto
      thus ?thesis by (simp add: bit_iff_odd)
    qed
    have "bit (unat al) k" "bit (unat (al - 1)) k"
      using b[OF k] b[OF m] unat_diff_1[OF assms(1)] by simp_all
    hence "bit al k" "bit (al - 1) k" using kl by (simp_all add: bit_unsigned_iff)
    hence "bit (al AND (al - 1)) k" by (simp add: bit_and_iff)
    thus False using assms(2) by simp
  qed
  moreover have "al = of_nat ?n" by simp
  ultimately have "al = 2 ^ k" by (metis of_nat_numeral of_nat_power)
  thus ?thesis using kl by blast
qed

lemma feature_bits:
  "F_VIRGL = 2 ^ 0" "F_EDID = 2 ^ 1" "F_RESOURCE_UUID = 2 ^ 2" "F_RESOURCE_BLOB = 2 ^ 3"
  "F_CONTEXT_INIT = 2 ^ 4" "F_BLOB_ALIGNMENT = 2 ^ 5"
  by (simp_all add: proto_consts)

lemma and_power_nz: "w AND 2 ^ n \<noteq> 0 \<longleftrightarrow> bit w n" for w :: u64
  by (simp add: and_exp_eq_0_iff_not_bit)

lemma bit_set_if:
  "k < 64 \<Longrightarrow> bit (if c then f OR 2 ^ k else f) n \<longleftrightarrow> bit f n \<or> c \<and> n = k" for f :: u64
  by (auto simp: bit_or_iff bit_exp_iff)

lemma negotiate_bits:
  "bit (negotiate h) n \<longleftrightarrow>
    n = 0 \<and> bit h 0 \<or> n = 1 \<and> bit h 1 \<or> n = 2 \<and> bit h 2 \<or> n = 3 \<and> bit h 3 \<or>
    n = 4 \<and> bit h 4 \<and> bit h 0 \<or> n = 5 \<and> bit h 5 \<and> bit h 3"
  unfolding negotiate_def Let_def feature_bits and_power_nz
    VIRTIO_GPU_F_VIRGL_def VIRTIO_GPU_F_EDID_def VIRTIO_GPU_F_RESOURCE_UUID_def
    VIRTIO_GPU_F_RESOURCE_BLOB_def VIRTIO_GPU_F_CONTEXT_INIT_def VIRTIO_GPU_F_BLOB_ALIGNMENT_def
  by (simp only: bit_set_if) (simp; blast)

lemma negotiated_bits:
  "negotiated d F_VIRGL \<longleftrightarrow> bit (negotiated_features d) 0"
  "negotiated d F_EDID \<longleftrightarrow> bit (negotiated_features d) 1"
  "negotiated d F_RESOURCE_BLOB \<longleftrightarrow> bit (negotiated_features d) 3"
  "negotiated d F_CONTEXT_INIT \<longleftrightarrow> bit (negotiated_features d) 4"
  "negotiated d F_BLOB_ALIGNMENT \<longleftrightarrow> bit (negotiated_features d) 5"
  unfolding negotiated_def feature_bits by (rule and_power_nz)+


lemma check_alignment_power: "\<exists>k<32. check_alignment al = 2 ^ k"
  using power_of_two_word[of al]
  by (cases "al = 0 \<or> al AND (al - 1) \<noteq> 0") (auto simp: check_alignment_def intro: exI[where x = 12])

lemma clamp_scanouts_range: "1 \<le> unat (clamp_scanouts ns)" "unat (clamp_scanouts ns) \<le> 16"
  by (auto simp: clamp_scanouts_def MAX_SCANOUTS_def Suc_le_eq unat_gt_0)

lemma read_config_facts:
  assumes "vgpu_read_config b f d h = (Inr d', h')"
  shows "negotiated_features d' = negotiated_features d \<and> host_features d' = host_features d \<and>
    host_visible d' = host_visible d \<and> 1 \<le> unat (num_scanouts d') \<and> unat (num_scanouts d') \<le> 16 \<and>
    (f AND F_BLOB_ALIGNMENT \<noteq> 0 \<longrightarrow> (\<exists>k<32. blob_alignment d' = 2 ^ k))"
proof -
  have al: "\<exists>k<32. (4096 :: u32) = 2 ^ k" by (rule exI[where x = 12]) simp
  show ?thesis
    using assms clamp_scanouts_range check_alignment_power al
    by (auto simp: vgpu_read_config_def Let_def simp del: One_nat_def
        split: prod.splits sum.splits if_split_asm)
qed

lemma read_shm_facts:
  assumes "vgpu_read_shm b f d h = (d', h')" "shm_size (host_visible d) = 0"
  shows "negotiated_features d' = negotiated_features d \<and> host_features d' = host_features d \<and>
    num_scanouts d' = num_scanouts d \<and> blob_alignment d' = blob_alignment d \<and>
    (shm_size (host_visible d') \<noteq> 0 \<longrightarrow> f AND F_RESOURCE_BLOB \<noteq> 0 \<and> shm_addr (host_visible d') \<noteq> 0)"
  using assms by (auto simp: vgpu_read_shm_def split: prod.splits sum.splits if_splits)

lemma setup_queues_facts:
  assumes "vgpu_setup_queues b d h = (Inr u, d', h')"
  shows "ctrlq d' \<and> negotiated_features d' = negotiated_features d \<and>
    host_features d' = host_features d \<and> num_scanouts d' = num_scanouts d \<and>
    blob_alignment d' = blob_alignment d \<and> host_visible d' = host_visible d"
  using assms
  by (auto simp: vgpu_setup_queues_def Let_def split: prod.splits sum.splits if_splits option.splits)

lemma display_info_facts:
  assumes "uk_virtio_gpu_get_display_info e s = Some (r, s')"
  shows "vg s' = (vg s)\<lparr>scanouts := scanouts (vg s')\<rparr>"
  using assms
  by (auto simp: uk_virtio_gpu_get_display_info_def Let_def
      dest!: cq.no_fence split: option.splits sum.splits)

lemma add_dev_stages:
  assumes "vgpu_add_dev e b n lk None h = Some (Inr (), Some d, h')"
  obtains hf d1 d2 d3 h1 h2 h3 h4 h5 sc where
    "vgpu_read_config b (negotiate hf) (vgpu_new_dev\<lparr>host_features := hf,
       negotiated_features := negotiate hf\<rparr>) h1 = (Inr d1, h2)"
    "vgpu_read_shm b (negotiate hf) d1 h2 = (d2, h3)"
    "vgpu_setup_queues b d2 h3 = (Inr (), d3, h4)"
    "d = d3\<lparr>scanouts := sc\<rparr>"
  using assms
  by (auto simp: vgpu_add_dev_def Let_def
      dest!: display_info_facts
      split: prod.splits sum.splits option.splits bool.splits if_splits)

text \<open>C31 (safety): a device that bring-up accepts has negotiated only features the host offers;
  context types only with 3D rendering; blob alignment only with blobs, and then a power of two; it
  has 1 to 16 scanouts, a control queue, and a host-visible region only with blobs and an address.\<close>

theorem bring_up_negotiates:
  assumes "vgpu_add_dev e b n lk None h = Some (Inr (), Some d, h')"
  shows "(\<forall>i. bit (negotiated_features d) i \<longrightarrow> bit (host_features d) i) \<and>
    (negotiated d F_CONTEXT_INIT \<longrightarrow> negotiated d F_VIRGL) \<and>
    (negotiated d F_BLOB_ALIGNMENT \<longrightarrow>
       negotiated d F_RESOURCE_BLOB \<and> (\<exists>k<32. blob_alignment d = 2 ^ k)) \<and>
    (shm_size (host_visible d) \<noteq> 0 \<longrightarrow>
       negotiated d F_RESOURCE_BLOB \<and> shm_addr (host_visible d) \<noteq> 0) \<and>
    num_scanouts d \<in> {1..16} \<and> ctrlq d"
proof -
  obtain hf d1 d2 d3 h1 h2 h3 h4 h5 sc where
    st: "vgpu_read_config b (negotiate hf) (vgpu_new_dev\<lparr>host_features := hf,
       negotiated_features := negotiate hf\<rparr>) h1 = (Inr d1, h2)"
    "vgpu_read_shm b (negotiate hf) d1 h2 = (d2, h3)"
    "vgpu_setup_queues b d2 h3 = (Inr (), d3, h4)" "d = d3\<lparr>scanouts := sc\<rparr>"
    by (rule add_dev_stages[OF assms])
  note c = read_config_facts[OF st(1)]
  have "shm_size (host_visible d1) = 0" using c by (simp add: vgpu_new_dev_def)
  note m = read_shm_facts[OF st(2) this] and q = setup_queues_facts[OF st(3)]
  have nf: "negotiated_features d = negotiate hf" "host_features d = hf"
    using st(4) c m q by simp_all
  have bal: "negotiate hf AND F_BLOB_ALIGNMENT \<noteq> 0 \<longleftrightarrow> negotiated d F_BLOB_ALIGNMENT"
    "negotiate hf AND F_RESOURCE_BLOB \<noteq> 0 \<longleftrightarrow> negotiated d F_RESOURCE_BLOB"
    by (simp_all add: negotiated_def nf)
  have "num_scanouts d \<in> {1..16}"
    using c m q st(4) by (simp add: word_le_nat_alt)
  moreover have "\<forall>i. bit (negotiated_features d) i \<longrightarrow> bit (host_features d) i"
    unfolding nf by (auto simp: negotiate_bits)
  moreover have "negotiated d F_CONTEXT_INIT \<longrightarrow> negotiated d F_VIRGL"
    "negotiated d F_BLOB_ALIGNMENT \<longrightarrow> negotiated d F_RESOURCE_BLOB"
    unfolding negotiated_bits nf by (auto simp: negotiate_bits)
  ultimately show ?thesis using c m q st(4) bal by auto
qed

text \<open>C25 (termination): on a platform whose clock advances while the control queue is empty, every
  sequence of driver calls returns, whatever the host answers or fails to answer.\<close>

theorem gpu_calls_return:
  assumes "platform_clock e" shows "\<exists>s'. gpu_run e calls s = Some s'"
  using gpu_run_returns[OF assms] by auto

lemma gpu_calls_return_witness:
  "\<exists>s'. gpu_run silent_env [Create2D 4 4 1, ContextCreate 4 None] (demo_sys 0) = Some s'"
  by (rule gpu_calls_return[OF silent_clock])

text \<open>C1 (invariant): from a successful bring-up on, any sequence of fewer than \<open>2^32 - 1\<close> calls with any
  arguments and any host behaviour keeps the device invariant (distinct non-zero identifiers below
  their counters, only live blobs mapped, disjoint blob windows below the placement pointer, completion
  below the next fence) and leaves the control-queue mutex as it was.\<close>

theorem gpu_sequences_keep_invariant:
  assumes "vgpu_add_dev e b n lk None h = Some (Inr (), Some d, h')"
    and "gpu_run e calls \<lparr> vg = d, host = h', g_ctrlq_lock = lk \<rparr> = Some s'"
    and "length calls < 2 ^ 32 - 1"
  shows "dev_inv (vg s') \<and> g_ctrlq_lock s' = lk"
proof -
  have "dev_inv d" "counters_below 1 d"
    using add_dev_fresh[OF assms(1)] unfolding fresh_dev_def by auto
  thus ?thesis using gpu_run_inv[OF assms(2), of 1] assms(3) by simp
qed


section \<open>The properties on concrete devices\<close>

definition demo_dev2 :: uk_virtio_gpu_dev where
  "demo_dev2 = snd (the (alloc_res demo_dev))"

definition demo_sys2 :: "u8 list sys" where
  "demo_sys2 = \<lparr> vg = demo_dev2, host = [], g_ctrlq_lock = 0 \<rparr>"

lemma demo_room: "next_res demo_dev + 1 \<noteq> 0" "room demo_dev"
  by (simp_all add: room_def demo_dev_def vgpu_new_dev_def)

lemma demo2_alloc: "alloc_res demo_dev = Some (0, demo_dev2)"
  by (simp add: demo_dev2_def demo_alloc)

lemma demo_dev2_eq: "demo_dev2 = demo_dev\<lparr>
     resources := (resources demo_dev)[0 := zero_resource\<lparr>r_id := 1, r_live := True\<rparr>], next_res := 2,
     metrics := (metrics demo_dev)\<lparr>m_resources_created := m_resources_created (metrics demo_dev) + 1\<rparr>\<rparr>"
  by (simp add: demo_dev2_def demo_alloc)

lemma demo2: "dev_inv demo_dev2" "find_res demo_dev2 1 = Some 0" "ctrlq demo_dev2"
    "length (resources demo_dev2) = 128" "host_visible demo_dev2 = host_visible demo_dev"
    "resources demo_dev2 ! 0 = zero_resource\<lparr>r_id := 1, r_live := True\<rparr>"
    "next_blob_map_offset demo_dev2 = 0"
proof -
  have n: "next_res demo_dev = 1" by (simp add: demo_dev_def vgpu_new_dev_def)
  show "dev_inv demo_dev2" by (rule dev_inv_alloc_res[OF demo2_alloc demo_inv(1) demo_room(1)])
  show "find_res demo_dev2 1 = Some 0"
    using alloc_res_fresh(3)[OF demo2_alloc demo_inv(1) demo_room(1)] n by simp
  show "resources demo_dev2 ! 0 = zero_resource\<lparr>r_id := 1, r_live := True\<rparr>"
    using alloc_res_frame[OF demo2_alloc] n by simp
qed (simp_all add: demo_dev2_eq demo_dev_def vgpu_new_dev_def UKVGPU_MAX_RESOURCES_def)

definition demo_dev3 :: uk_virtio_gpu_dev where
  "demo_dev3 = (res_upd 0 (\<lambda>r. r\<lparr>r_is_blob := True, r_size := 4096\<rparr>) demo_dev2)
     \<lparr>next_blob_map_offset := 4096\<rparr>"

definition demo_blob :: uk_virtio_gpu_blob where
  "demo_blob = zero_blob\<lparr>blob_resource_id := 1, blob_flags := 1, blob_size := 4096, blob_created := True\<rparr>"

lemma demo3: "dev_inv demo_dev3" "find_res demo_dev3 1 = Some 0" "ctrlq demo_dev3"
    "host_visible demo_dev3 = host_visible demo_dev"
    "resources demo_dev3 ! 0 =
       zero_resource\<lparr>r_id := 1, r_live := True, r_is_blob := True, r_size := 4096\<rparr>"
proof -
  show "dev_inv demo_dev3"
    unfolding demo_dev3_def using demo2
    by (intro dev_inv_new_blob) (simp_all add: blob_window_def zero_resource_def)
  show "find_res demo_dev3 1 = Some 0"
    using demo2(2) find_res_res_upd[of "\<lambda>r. r\<lparr>r_is_blob := True, r_size := 4096\<rparr>" 0 demo_dev2 1]
    by (simp add: demo_dev3_def find_res_def)
qed (use demo2 in \<open>simp_all add: demo_dev3_def res_upd_def\<close>)

lemma gpu_sequences_keep_invariant_witness:
  "\<exists>d h' s'. gpu_run (answering_env ok_reply) [Create2D 4 4 1, Unref 1]
      \<lparr> vg = d, host = h', g_ctrlq_lock = 0 \<rparr> = Some s' \<and> dev_inv (vg s') \<and> g_ctrlq_lock s' = 0"
proof -
  obtain d h' where d: "vgpu_add_dev (answering_env ok_reply) demo_bus 0 0 None [] = Some (Inr (), Some d, h')"
    using demo_bring_up by blast
  obtain s' where s': "gpu_run (answering_env ok_reply) [Create2D 4 4 1, Unref 1]
      \<lparr> vg = d, host = h', g_ctrlq_lock = 0 \<rparr> = Some s'"
    using gpu_run_returns[OF answering_clock, of ok_reply "[Create2D 4 4 1, Unref 1]"] by (metis not_None_eq)
  show ?thesis using gpu_sequences_keep_invariant[OF d s'] s' by auto
qed


lemma create_2d_registers_witness:
  "\<exists>s' :: u8 list sys. (1 :: u32) \<noteq> 0 \<and> find_res demo_dev 1 = None \<and>
    (\<exists>i. find_res (vg s') 1 = Some i \<and>
       (let r = resources (vg s') ! i in r_width r = 4 \<and> r_height r = 4 \<and> r_depth r = 1 \<and>
          r_format r = compat_format 1 \<and> r_size r = resource_size_bytes 4 4 1 \<and>
          \<not> r_backing_attached r \<and> \<not> r_is_blob r)) \<and>
    (\<forall>k. k \<noteq> 1 \<longrightarrow> find_res (vg s') k = find_res demo_dev k)"
proof -
  obtain s' where s': "uk_virtio_gpu_resource_create_2d (answering_env ok_reply) 4 4 1 True (demo_sys [])
      = Some (Inr 1, s')" using demo_create_2d by blast
  have "dev_inv (vg (demo_sys []))" "room (vg (demo_sys []))"
    using demo_inv demo_room by (simp_all add: demo_sys_def)
  from create_2d_registers[OF s' this] show ?thesis by (auto simp: demo_sys_def)
qed

lemma failed_creation_leaves_no_trace_witness:
  "\<exists>s' :: nat sys. same_lookups vgpu_new_dev (vg s')"
proof -
  let ?s = "\<lparr> vg = vgpu_new_dev, host = 0, g_ctrlq_lock = 0 \<rparr> :: nat sys"
  have "alloc_res vgpu_new_dev \<noteq> None \<and> (\<forall>i d. alloc_res vgpu_new_dev = Some (i, d) \<longrightarrow> \<not> ctrlq d)"
    by (auto simp: alloc_res_def first_index_None vgpu_new_dev_def UKVGPU_MAX_RESOURCES_def
        split: option.splits)
  then obtain i d where "alloc_res vgpu_new_dev = Some (i, d)" "\<not> ctrlq d" by auto
  hence "\<exists>s'. uk_virtio_gpu_resource_create_2d silent_env 4 4 1 True ?s = Some (Inl EINVAL, s')"
    by (simp add: uk_virtio_gpu_resource_create_2d_def Let_def cmd_submit_def cmd_submit_locked_def)
  then obtain s' where "uk_virtio_gpu_resource_create_2d silent_env 4 4 1 True ?s = Some (Inl EINVAL, s')"
    by blast
  from failed_creation_leaves_no_trace[OF disjI1[OF this]] show ?thesis by auto
qed

lemma unref_removes_witness:
  "\<exists>s' :: u8 list sys. find_res demo_dev2 1 \<noteq> None \<and> find_res (vg s') 1 = None \<and>
    (\<forall>k. k \<noteq> 1 \<longrightarrow> find_res (vg s') k = find_res demo_dev2 k)"
proof -
  have "\<exists>s'. uk_virtio_gpu_gl_resource_unref (answering_env ok_reply) 1 demo_sys2 = Some (Inr (), s')"
    by (simp add: uk_virtio_gpu_gl_resource_unref_def Let_def demo_sys2_def demo2
        enc_resource_unref_def answered sizeof_ctrl_hdr_def)
  then obtain s' where "uk_virtio_gpu_gl_resource_unref (answering_env ok_reply) 1 demo_sys2 = Some (Inr (), s')"
    by blast
  from unref_removes[OF this] show ?thesis using demo2(1) by (auto simp: demo_sys2_def)
qed

lemma unknown_resource_rejected_witness:
  "uk_virtio_gpu_gl_resource_unref silent_env 5 (demo_sys 0) = Some (Inl EINVAL, demo_sys 0)"
proof -
  have "find_res (vg (demo_sys (0 :: nat))) 5 = None"
    by (simp add: find_res_def first_index_None demo_sys_def demo_dev_def vgpu_new_dev_def)
  from unknown_resource_rejected[OF this] show ?thesis by blast
qed


lemma blob_map_stays_in_window_witness:
  "\<exists>(b' :: uk_virtio_gpu_blob) (s' :: u8 list sys). let r = resources demo_dev3 ! 0; hv = host_visible demo_dev3 in
    blob_mapped_addr b' = shm_addr hv + r_host_visible_offset r \<and>
    unat (r_host_visible_offset r) + unat (blob_size demo_blob) \<le> unat (shm_size hv) \<and>
    r_mapped (resources (vg s') ! 0) \<and>
    (\<forall>j<length (resources demo_dev3). j \<noteq> 0 \<longrightarrow>
       windows_apart (blob_window r) (blob_window (resources demo_dev3 ! j)))"
proof -
  let ?s = "\<lparr> vg = demo_dev3, host = [], g_ctrlq_lock = 0 \<rparr> :: u8 list sys"
  have z: "r_host_visible_offset zero_resource = 0" "\<not> r_mapped zero_resource"
    by (simp_all add: zero_resource_def)
  have hv: "host_visible (res_upd i f d) = host_visible d" for i f d by (simp add: res_upd_def)
  have b: "blob_resource_id demo_blob = 1" "blob_created demo_blob" "blob_flags demo_blob = 1"
    "blob_size demo_blob = 4096" by (simp_all add: demo_blob_def)
  have hd: "shm_addr (host_visible demo_dev) = 0x70000000" "shm_size (host_visible demo_dev) = 0x10000"
    by (simp_all add: demo_dev_def)
  have "\<exists>b' s'. uk_virtio_gpu_gl_blob_map (answering_env ok_reply) (Some demo_blob) ?s
      = Some (Inr (), Some b', s')"
    by (simp add: uk_virtio_gpu_gl_blob_map_def Let_def b demo3 BLOB_FLAG_USE_MAPPABLE_def
        enc_resource_map_blob_def answered sizeof_resp_map_info_def z hv hd)
  then obtain b' s' where m: "uk_virtio_gpu_gl_blob_map (answering_env ok_reply) (Some demo_blob) ?s
      = Some (Inr (), Some b', s')" by blast
  have "dev_inv (vg ?s)" "find_res (vg ?s) (blob_resource_id demo_blob) = Some 0"
    "blob_size demo_blob = r_size (resources (vg ?s) ! 0)"
    using demo3 b by simp_all
  from blob_map_stays_in_window[OF m this] show ?thesis
    by (intro exI[where x = b'] exI[where x = s']) (simp only: sys.simps)
qed

lemma bring_up_negotiates_witness:
  "\<exists>d. (\<forall>i. bit (negotiated_features d) i \<longrightarrow> bit (host_features d) i) \<and>
    (negotiated d F_CONTEXT_INIT \<longrightarrow> negotiated d F_VIRGL) \<and>
    (negotiated d F_BLOB_ALIGNMENT \<longrightarrow>
       negotiated d F_RESOURCE_BLOB \<and> (\<exists>k<32. blob_alignment d = 2 ^ k)) \<and>
    (shm_size (host_visible d) \<noteq> 0 \<longrightarrow>
       negotiated d F_RESOURCE_BLOB \<and> shm_addr (host_visible d) \<noteq> 0) \<and>
    num_scanouts d \<in> {1..16} \<and> ctrlq d"
proof -
  obtain d h' where d: "vgpu_add_dev (answering_env ok_reply) demo_bus 0 0 None [] = Some (Inr (), Some d, h')"
    using demo_bring_up by blast
  from bring_up_negotiates[OF d] show ?thesis by blast
qed

end
