(* ===== verification/Gpu_Apir.thy ===== *)
theory Gpu_Apir
  imports Vgpu_Prelude
begin

text \<open>
  The APIR message codec at the end of \<open>virtio_gpu_real.c\<close>: bounds-checked 32-bit reads and writes
  at a moving offset, the message header, the handshake, and the operations that are not supported.
  A buffer is the list of its bytes; a writer returns the buffer also when it fails, because earlier
  fields may have been written.  NULL buffers are None.
\<close>

definition apir_put_u32 :: "u8 list \<Rightarrow> nat \<Rightarrow> u32 \<Rightarrow> (errno + nat) \<times> u8 list" where
  "apir_put_u32 buf off v =
    (if length buf < off \<or> length buf - off < 4 then (Inl ENOSPC, buf)
     else (Inr (off + 4), take off buf @ le32 v @ drop (off + 4) buf))"

definition apir_get_u32 :: "u8 list \<Rightarrow> nat \<Rightarrow> errno + u32 \<times> nat" where
  "apir_get_u32 buf off =
    (if length buf < off \<or> length buf - off < 4 then Inl EINVAL
     else Inr (un32 (drop off buf), off + 4))"

record uk_virtio_gpu_apir_msg =
  msg_command_type :: u32
  msg_flags :: u32
  msg_reply_resource_id :: u32

record uk_virtio_gpu_apir_handshake =
  hs_guest_major :: u32
  hs_guest_minor :: u32
  hs_host_major :: u32
  hs_host_minor :: u32

record uk_virtio_gpu_apir_status =
  st_transport_rc :: u32
  st_host_rc :: u32
  st_reply_size :: u32

definition APIR_PROTOCOL_MAJOR :: u32 where "APIR_PROTOCOL_MAJOR = 0"
definition APIR_PROTOCOL_MINOR :: u32 where "APIR_PROTOCOL_MINOR = 1"
definition APIR_HANDSHAKE_MAGIC :: u32 where "APIR_HANDSHAKE_MAGIC = 0xab1e"
definition APIR_COMMAND_HANDSHAKE :: u32 where "APIR_COMMAND_HANDSHAKE = 0"
definition APIR_COMMAND_LENGTH :: u32 where "APIR_COMMAND_LENGTH = 3"

text \<open>The result carries the value stored in \<open>*used\<close> and the buffer.\<close>

definition uk_virtio_gpu_apir_encode_header :: "u8 list option \<Rightarrow> uk_virtio_gpu_apir_msg option
    \<Rightarrow> (errno + nat) \<times> u8 list option" where
  "uk_virtio_gpu_apir_encode_header buf msg =
    (case (buf, msg) of
       (Some b, Some m) \<Rightarrow>
        (if APIR_COMMAND_LENGTH \<le> msg_command_type m then (Inl EINVAL, buf)
         else case apir_put_u32 b 0 (msg_command_type m) of
           (Inl er, b1) \<Rightarrow> (Inl er, Some b1)
         | (Inr off1, b1) \<Rightarrow>
          (case apir_put_u32 b1 off1 (msg_flags m) of
             (Inl er, b2) \<Rightarrow> (Inl er, Some b2)
           | (Inr off2, b2) \<Rightarrow>
            (case apir_put_u32 b2 off2 (msg_reply_resource_id m) of
               (rc, b3) \<Rightarrow> (rc, Some b3))))
     | _ \<Rightarrow> (Inl EINVAL, buf))"

definition uk_virtio_gpu_apir_decode_header :: "u8 list option \<Rightarrow> uk_virtio_gpu_apir_msg option
    \<Rightarrow> (errno + nat) \<times> uk_virtio_gpu_apir_msg option" where
  "uk_virtio_gpu_apir_decode_header buf msg =
    (case (buf, msg) of
       (Some b, Some m) \<Rightarrow>
        (case apir_get_u32 b 0 of
           Inl er \<Rightarrow> (Inl er, Some m)
         | Inr (v1, off1) \<Rightarrow>
          (let m1 = m\<lparr>msg_command_type := v1\<rparr> in
           case apir_get_u32 b off1 of
             Inl er \<Rightarrow> (Inl er, Some m1)
           | Inr (v2, off2) \<Rightarrow>
            (let m2 = m1\<lparr>msg_flags := v2\<rparr> in
             case apir_get_u32 b off2 of
               Inl er \<Rightarrow> (Inl er, Some m2)
             | Inr (v3, off3) \<Rightarrow>
                (let m3 = m2\<lparr>msg_reply_resource_id := v3\<rparr> in
                 if APIR_COMMAND_LENGTH \<le> msg_command_type m3 then (Inl EINVAL, Some m3)
                 else (Inr off3, Some m3)))))
     | _ \<Rightarrow> (Inl EINVAL, msg))"

definition uk_virtio_gpu_apir_encode_handshake :: "u8 list option \<Rightarrow> u32
    \<Rightarrow> (errno + nat) \<times> u8 list option" where
  "uk_virtio_gpu_apir_encode_handshake buf reply_resource_id =
    (case uk_virtio_gpu_apir_encode_header buf (Some \<lparr> msg_command_type = APIR_COMMAND_HANDSHAKE,
            msg_flags = 0, msg_reply_resource_id = reply_resource_id \<rparr>) of
       (Inr off, Some b) \<Rightarrow>
        (case apir_put_u32 b off APIR_PROTOCOL_MAJOR of
           (Inl er, b1) \<Rightarrow> (Inl er, Some b1)
         | (Inr off1, b1) \<Rightarrow>
          (case apir_put_u32 b1 off1 APIR_PROTOCOL_MINOR of (rc, b2) \<Rightarrow> (rc, Some b2)))
     | (rc, b) \<Rightarrow> (rc, b))"

definition uk_virtio_gpu_apir_decode_handshake_reply :: "u32 \<Rightarrow> bool
    \<Rightarrow> errno + uk_virtio_gpu_apir_handshake" where
  "uk_virtio_gpu_apir_decode_handshake_reply host_rc reply =
    (if \<not> reply \<or> host_rc \<noteq> APIR_HANDSHAKE_MAGIC then Inl EINVAL
     else Inr \<lparr> hs_guest_major = APIR_PROTOCOL_MAJOR, hs_guest_minor = APIR_PROTOCOL_MINOR,
                hs_host_major = APIR_PROTOCOL_MAJOR, hs_host_minor = APIR_PROTOCOL_MINOR \<rparr>)"

text \<open>\<open>apir_handshake\<close>, \<open>apir_load_library\<close> and \<open>apir_forward\<close> share one body: \<open>-ENOTSUP\<close>, also
  reported in \<open>transport_rc\<close> when a status is wanted (ENOTSUP is 95).\<close>

definition apir_unsupported :: "bool \<Rightarrow> errno \<times> uk_virtio_gpu_apir_status option" where
  "apir_unsupported status =
    (ENOTSUP, if status then Some \<lparr> st_transport_rc = - 95, st_host_rc = 0, st_reply_size = 0 \<rparr> else None)"

lemma apir_put_length: "apir_put_u32 buf off v = (r, b) \<Longrightarrow> length b = length buf"
  by (auto simp: apir_put_u32_def split: if_splits)

lemma apir_encode_header_long:
  assumes "12 \<le> length b" "\<not> APIR_COMMAND_LENGTH \<le> msg_command_type m"
  shows "uk_virtio_gpu_apir_encode_header (Some b) (Some m) =
    (Inr 12, Some (le32 (msg_command_type m) @ le32 (msg_flags m) @ le32 (msg_reply_resource_id m)
       @ drop 12 b))"
proof -
  have "\<not> length b - 8 < 4" "\<not> length b - 4 < 4" using assms(1) by arith+
  thus ?thesis
    using assms by (simp add: uk_virtio_gpu_apir_encode_header_def apir_put_u32_def)
qed

lemma apir_decode_header_long:
  assumes "12 \<le> length b"
  shows "uk_virtio_gpu_apir_decode_header (Some b) (Some m0) =
    (let m = \<lparr> msg_command_type = un32 b, msg_flags = un32 (drop 4 b),
               msg_reply_resource_id = un32 (drop 8 b) \<rparr> in
     (if APIR_COMMAND_LENGTH \<le> un32 b then Inl EINVAL else Inr 12, Some m))"
proof -
  have "\<not> length b - 8 < 4" "\<not> length b - 4 < 4" using assms by arith+
  thus ?thesis
    using assms
    by (cases m0) (simp add: uk_virtio_gpu_apir_decode_header_def apir_get_u32_def Let_def)
qed

text \<open>A header is encoded exactly when the buffer holds 12 bytes and the command is
  known; decoding the buffer gives the message back, the bytes after the header are untouched, and
  the buffer never changes length.\<close>

theorem apir_header_roundtrip:
  "(case uk_virtio_gpu_apir_encode_header (Some b) (Some m) of
      (Inr n, Some b') \<Rightarrow> n = 12 \<and> length b' = length b \<and> drop 12 b' = drop 12 b \<and>
        msg_command_type m < APIR_COMMAND_LENGTH \<and>
        uk_virtio_gpu_apir_decode_header (Some b') (Some m0) = (Inr 12, Some m)
    | (Inl EINVAL, Some b') \<Rightarrow> b' = b \<and> APIR_COMMAND_LENGTH \<le> msg_command_type m
    | (Inl er, Some b') \<Rightarrow> er = ENOSPC \<and> length b < 12 \<and> length b' = length b
    | (_, None) \<Rightarrow> False)"
proof (cases "APIR_COMMAND_LENGTH \<le> msg_command_type m")
  case True
  thus ?thesis by (simp add: uk_virtio_gpu_apir_encode_header_def)
next
  case known: False
  show ?thesis
  proof (cases "12 \<le> length b")
    case True
    let ?b = "le32 (msg_command_type m) @ le32 (msg_flags m) @ le32 (msg_reply_resource_id m) @ drop 12 b"
    have "uk_virtio_gpu_apir_decode_header (Some ?b) (Some m0) = (Inr 12, Some m)"
      using known True by (subst apir_decode_header_long) (simp_all add: Let_def)
    thus ?thesis
      using known True by (simp add: apir_encode_header_long not_le)
  next
    case False
    show ?thesis
      using known False
      by (auto simp: uk_virtio_gpu_apir_encode_header_def apir_put_u32_def split: if_splits)
  qed
qed

end
