(* ===== verification/Gpu_Profile.thy ===== *)
theory Gpu_Profile
  imports Vgpu_Prelude
begin

text \<open>
  The profiling counters of \<open>virtio_gpu_real.c\<close> (\<open>vogue_prof_*\<close>): two phases of accumulators, the
  current phase, and a wall clock that runs between the start of a phase's measured repetitions and
  the next phase change.  Time is passed in as the value the clock returned.
\<close>

record vogue_prof_phase =
  l2_ns :: u64
  l2_calls :: u64
  sub_active_ns :: u64
  sub_wait_ns :: u64
  sub_calls :: u64
  sub_bytes :: u64
  fence_ns :: u64
  fence_calls :: u64
  l3_ns :: u64
  l3_calls :: u64
  flush_ns :: u64
  flush_calls :: u64
  flush_bytes :: u64
  flush_fail :: u64
  enc_ns :: u64
  enc_calls :: u64
  stub_ns :: u64
  stub_calls :: u64
  wall_ns :: u64

definition zero_phase :: vogue_prof_phase where
  "zero_phase = \<lparr> l2_ns = 0, l2_calls = 0, sub_active_ns = 0, sub_wait_ns = 0, sub_calls = 0,
     sub_bytes = 0, fence_ns = 0, fence_calls = 0, l3_ns = 0, l3_calls = 0, flush_ns = 0,
     flush_calls = 0, flush_bytes = 0, flush_fail = 0, enc_ns = 0, enc_calls = 0, stub_ns = 0,
     stub_calls = 0, wall_ns = 0 \<rparr>"

definition VOGUE_PROF_PHASE_N :: nat where "VOGUE_PROF_PHASE_N = 2"

record vogue_prof =
  g_prof :: "vogue_prof_phase list"
  g_prof_phase :: nat
  g_wall_start :: u64
  g_wall_active :: bool

text \<open>Updating the accumulators of the current phase.\<close>

definition cur_phase :: "(vogue_prof_phase \<Rightarrow> vogue_prof_phase) \<Rightarrow> vogue_prof \<Rightarrow> vogue_prof" where
  "cur_phase f p = p\<lparr>g_prof := (g_prof p)[g_prof_phase p := f (g_prof p ! g_prof_phase p)]\<rparr>"

definition close_wall :: "u64 \<Rightarrow> vogue_prof \<Rightarrow> vogue_prof" where
  "close_wall now p =
    (cur_phase (\<lambda>c. c\<lparr>wall_ns := wall_ns c + (now - g_wall_start p)\<rparr>) p)\<lparr>g_wall_active := False\<rparr>"

definition vogue_prof_set_phase :: "u64 \<Rightarrow> int \<Rightarrow> vogue_prof \<Rightarrow> vogue_prof" where
  "vogue_prof_set_phase now phase p =
    (let p1 = (if g_wall_active p \<and> phase \<noteq> int (g_prof_phase p) then close_wall now p else p) in
     if 0 \<le> phase \<and> phase < int VOGUE_PROF_PHASE_N then p1\<lparr>g_prof_phase := nat phase\<rparr> else p1)"

definition vogue_prof_reset :: "vogue_prof \<Rightarrow> vogue_prof" where
  "vogue_prof_reset p =
    p\<lparr>g_prof := replicate VOGUE_PROF_PHASE_N zero_phase, g_prof_phase := 0, g_wall_active := False\<rparr>"

definition vogue_prof_reset_phase :: "u64 \<Rightarrow> int \<Rightarrow> vogue_prof \<Rightarrow> vogue_prof" where
  "vogue_prof_reset_phase now phase p =
    (let p1 = (if 0 \<le> phase \<and> phase < int VOGUE_PROF_PHASE_N
               then p\<lparr>g_prof := (g_prof p)[nat phase := zero_phase]\<rparr> else p)
     in p1\<lparr>g_wall_start := now, g_wall_active := True\<rparr>)"

definition vogue_prof_add_l2 :: "u64 \<Rightarrow> vogue_prof \<Rightarrow> vogue_prof" where
  "vogue_prof_add_l2 ns = cur_phase (\<lambda>c. c\<lparr>l2_ns := l2_ns c + ns, l2_calls := l2_calls c + 1\<rparr>)"

definition vogue_prof_add_submit :: "u64 \<Rightarrow> u64 \<Rightarrow> u32 \<Rightarrow> vogue_prof \<Rightarrow> vogue_prof" where
  "vogue_prof_add_submit active_ns wait_ns bytes = cur_phase (\<lambda>c. c\<lparr>
     sub_active_ns := sub_active_ns c + active_ns, sub_wait_ns := sub_wait_ns c + wait_ns,
     sub_bytes := sub_bytes c + ucast bytes, sub_calls := sub_calls c + 1\<rparr>)"

definition vogue_prof_add_fence :: "u64 \<Rightarrow> vogue_prof \<Rightarrow> vogue_prof" where
  "vogue_prof_add_fence ns = cur_phase (\<lambda>c. c\<lparr>fence_ns := fence_ns c + ns, fence_calls := fence_calls c + 1\<rparr>)"

definition vogue_prof_add_l3 :: "u64 \<Rightarrow> vogue_prof \<Rightarrow> vogue_prof" where
  "vogue_prof_add_l3 ns = cur_phase (\<lambda>c. c\<lparr>l3_ns := l3_ns c + ns, l3_calls := l3_calls c + 1\<rparr>)"

definition vogue_prof_add_flush :: "u64 \<Rightarrow> u32 \<Rightarrow> int \<Rightarrow> vogue_prof \<Rightarrow> vogue_prof" where
  "vogue_prof_add_flush ns bytes rc = cur_phase (\<lambda>c.
     let c1 = c\<lparr>flush_ns := flush_ns c + ns, flush_bytes := flush_bytes c + ucast bytes,
                flush_calls := flush_calls c + 1\<rparr>
     in if rc \<noteq> 0 then c1\<lparr>flush_fail := flush_fail c1 + 1\<rparr> else c1)"

definition vogue_prof_add_encode :: "u64 \<Rightarrow> vogue_prof \<Rightarrow> vogue_prof" where
  "vogue_prof_add_encode ns = cur_phase (\<lambda>c. c\<lparr>enc_ns := enc_ns c + ns, enc_calls := enc_calls c + 1\<rparr>)"

definition vogue_prof_add_stub :: "u64 \<Rightarrow> vogue_prof \<Rightarrow> vogue_prof" where
  "vogue_prof_add_stub ns = cur_phase (\<lambda>c. c\<lparr>stub_ns := stub_ns c + ns, stub_calls := stub_calls c + 1\<rparr>)"

text \<open>The state change of \<open>vogue_prof_report\<close> in a build with profiling; the printing is not modelled.\<close>

definition vogue_prof_report :: "bool \<Rightarrow> u64 \<Rightarrow> vogue_prof \<Rightarrow> vogue_prof" where
  "vogue_prof_report enabled now p =
    (if enabled \<and> g_wall_active p then close_wall now p else p)"

section \<open>Isolation of the phases\<close>

definition prof_inv :: "vogue_prof \<Rightarrow> bool" where
  "prof_inv p \<longleftrightarrow> length (g_prof p) = VOGUE_PROF_PHASE_N \<and> g_prof_phase p < VOGUE_PROF_PHASE_N"

datatype prof_op = SetPhase u64 int | Reset | ResetPhase u64 int | AddL2 u64 | AddSubmit u64 u64 u32
  | AddFence u64 | AddL3 u64 | AddFlush u64 u32 int | AddEncode u64 | AddStub u64 | Report u64

fun prof_step :: "prof_op \<Rightarrow> vogue_prof \<Rightarrow> vogue_prof" where
  "prof_step (SetPhase now ph) p = vogue_prof_set_phase now ph p"
| "prof_step Reset p = vogue_prof_reset p"
| "prof_step (ResetPhase now ph) p = vogue_prof_reset_phase now ph p"
| "prof_step (AddL2 ns) p = vogue_prof_add_l2 ns p"
| "prof_step (AddSubmit a w b) p = vogue_prof_add_submit a w b p"
| "prof_step (AddFence ns) p = vogue_prof_add_fence ns p"
| "prof_step (AddL3 ns) p = vogue_prof_add_l3 ns p"
| "prof_step (AddFlush ns b rc) p = vogue_prof_add_flush ns b rc p"
| "prof_step (AddEncode ns) p = vogue_prof_add_encode ns p"
| "prof_step (AddStub ns) p = vogue_prof_add_stub ns p"
| "prof_step (Report now) p = vogue_prof_report True now p"

lemma cur_phase_simps [simp]:
  "length (g_prof (cur_phase f p)) = length (g_prof p)"
  "g_prof_phase (cur_phase f p) = g_prof_phase p"
  "i \<noteq> g_prof_phase p \<Longrightarrow> g_prof (cur_phase f p) ! i = g_prof p ! i"
  by (simp_all add: cur_phase_def)

lemmas prof_defs = vogue_prof_set_phase_def vogue_prof_reset_def vogue_prof_reset_phase_def
  vogue_prof_add_l2_def vogue_prof_add_submit_def vogue_prof_add_fence_def vogue_prof_add_l3_def
  vogue_prof_add_flush_def vogue_prof_add_encode_def vogue_prof_add_stub_def vogue_prof_report_def
  close_wall_def

lemma prof_step_inv: "prof_inv p \<Longrightarrow> prof_inv (prof_step c p)"
  by (cases c) (auto simp: prof_defs prof_inv_def VOGUE_PROF_PHASE_N_def Let_def)

text \<open>Which phases a call may write to.\<close>

fun prof_touches :: "prof_op \<Rightarrow> vogue_prof \<Rightarrow> nat \<Rightarrow> bool" where
  "prof_touches Reset p i = True"
| "prof_touches (ResetPhase now ph) p i = (int i = ph)"
| "prof_touches c p i = (i = g_prof_phase p)"

lemma prof_step_frame:
  "prof_inv p \<Longrightarrow> i < VOGUE_PROF_PHASE_N \<Longrightarrow> \<not> prof_touches c p i \<Longrightarrow>
   g_prof (prof_step c p) ! i = g_prof p ! i"
  by (cases c) (auto simp: prof_defs prof_inv_def Let_def)

definition prof_run :: "prof_op list \<Rightarrow> vogue_prof \<Rightarrow> vogue_prof" where
  "prof_run cs p = fold prof_step cs p"

text \<open>Whatever sequence of profiling calls is made, including phase numbers out of
  range, the current phase stays a valid index; and a phase that is neither current nor reset during
  the sequence keeps every one of its counters.\<close>

theorem profiling_phases_isolated:
  assumes "prof_inv p" "i < VOGUE_PROF_PHASE_N"
    and "\<forall>k<length cs. \<not> prof_touches (cs ! k) (prof_run (take k cs) p) i"
  shows "prof_inv (prof_run cs p) \<and> g_prof (prof_run cs p) ! i = g_prof p ! i"
  using assms
proof (induction cs arbitrary: p)
  case Nil
  thus ?case by (simp add: prof_run_def)
next
  case (Cons c cs)
  have first: "\<not> prof_touches c p i" using Cons.prems(3)[rule_format, of 0] by (simp add: prof_run_def)
  have "\<forall>k<length cs. \<not> prof_touches (cs ! k) (prof_run (take k cs) (prof_step c p)) i"
  proof (intro allI impI)
    fix k assume "k < length cs"
    thus "\<not> prof_touches (cs ! k) (prof_run (take k cs) (prof_step c p)) i"
      using Cons.prems(3)[rule_format, of "Suc k"] by (simp add: prof_run_def)
  qed
  from Cons.IH[OF prof_step_inv[OF Cons.prems(1)] Cons.prems(2) this]
  show ?case using prof_step_frame[OF Cons.prems(1,2) first] by (simp add: prof_run_def)
qed


lemma profiling_phases_isolated_witness:
  "prof_inv (prof_run [AddL2 5, SetPhase 9 7, AddFence 3] (vogue_prof_reset undefined)) \<and>
   g_prof (prof_run [AddL2 5, SetPhase 9 7, AddFence 3] (vogue_prof_reset undefined)) ! 1
     = g_prof (vogue_prof_reset undefined) ! 1"
proof (rule profiling_phases_isolated)
  show "prof_inv (vogue_prof_reset undefined)"
    by (simp add: prof_inv_def vogue_prof_reset_def VOGUE_PROF_PHASE_N_def)
  show "\<forall>k<length [AddL2 5, SetPhase 9 7, AddFence 3].
      \<not> prof_touches ([AddL2 5, SetPhase 9 7, AddFence 3] ! k)
          (prof_run (take k [AddL2 5, SetPhase 9 7, AddFence 3]) (vogue_prof_reset undefined)) 1"
    by (auto simp: less_Suc_eq prof_run_def prof_defs Let_def VOGUE_PROF_PHASE_N_def numeral_eq_Suc)
qed (simp add: VOGUE_PROF_PHASE_N_def)

end
