(* ===== verification/Bounded_Sink.thy ===== *)
theory Bounded_Sink
  imports Vgpu_Prelude
begin

text \<open>
  The interface of a command encoder with a fixed buffer: a chunk is appended whole, or the sink is
  marked as overflown and refuses everything that follows.  The Venus encoder is a sink of bytes and
  the virgl encoder a sink of 32-bit words; the lemmas here are about sequences of chunks.
\<close>

locale bounded_sink =
  fixes wf :: "'e \<Rightarrow> bool"
    and stuck :: "'e \<Rightarrow> bool"
    and content :: "'e \<Rightarrow> 'c list"
    and room :: "'e \<Rightarrow> nat"
    and small :: "'c list \<Rightarrow> bool"
    and put :: "'c list \<Rightarrow> 'e \<Rightarrow> 'e"
  assumes put_wf: "wf e \<Longrightarrow> small c \<Longrightarrow> wf (put c e)"
    and put_stuck: "wf e \<Longrightarrow> stuck e \<Longrightarrow> put c e = e"
    and put_fits: "wf e \<Longrightarrow> small c \<Longrightarrow> \<not> stuck e \<Longrightarrow> length c \<le> room e \<Longrightarrow>
      content (put c e) = content e @ c \<and> room (put c e) = room e - length c \<and> \<not> stuck (put c e)"
    and put_full: "wf e \<Longrightarrow> small c \<Longrightarrow> \<not> stuck e \<Longrightarrow> room e < length c \<Longrightarrow>
      content (put c e) = content e \<and> room (put c e) = room e \<and> stuck (put c e)"
begin

definition puts :: "'c list list \<Rightarrow> 'e \<Rightarrow> 'e" where
  "puts cs e = fold put cs e"

lemma puts_simps [simp]: "puts [] e = e" "puts (c # cs) e = puts cs (put c e)"
  by (simp_all add: puts_def)

lemma puts_append: "puts (cs @ ds) e = puts ds (puts cs e)"
  by (simp add: puts_def)

lemma puts_wf: "wf e \<Longrightarrow> \<forall>c\<in>set cs. small c \<Longrightarrow> wf (puts cs e)"
  by (induction cs arbitrary: e) (auto intro: put_wf)

lemma puts_stuck: "wf e \<Longrightarrow> stuck e \<Longrightarrow> puts cs e = e"
  by (induction cs) (auto simp: put_stuck)

lemma puts_fits:
  assumes "wf e" "\<forall>c\<in>set cs. small c" "\<not> stuck e" "length (concat cs) \<le> room e"
  shows "content (puts cs e) = content e @ concat cs \<and>
    room (puts cs e) = room e - length (concat cs) \<and> \<not> stuck (puts cs e)"
  using assms
proof (induction cs arbitrary: e)
  case (Cons c cs)
  have "content (put c e) = content e @ c \<and> room (put c e) = room e - length c \<and> \<not> stuck (put c e)"
    using Cons.prems by (intro put_fits) auto
  with Cons.IH[of "put c e"] Cons.prems put_wf[of e c] show ?case by auto
qed simp

text \<open>When the chunks do not all fit, those before the first that does not are kept and the sink is
  stuck: the content is the intended stream cut at a chunk boundary.\<close>

lemma puts_full:
  assumes "wf e" "\<forall>c\<in>set cs. small c" "\<not> stuck e" "room e < length (concat cs)"
  shows "\<exists>k<length cs. content (puts cs e) = content e @ concat (take k cs) \<and> stuck (puts cs e)"
  using assms
proof (induction cs arbitrary: e)
  case (Cons c cs)
  show ?case
  proof (cases "length c \<le> room e")
    case True
    hence p: "content (put c e) = content e @ c \<and> room (put c e) = room e - length c \<and> \<not> stuck (put c e)"
      using Cons.prems by (intro put_fits) auto
    moreover have "room (put c e) < length (concat cs)" using p Cons.prems(4) True by simp
    ultimately obtain k where "k < length cs"
      "content (puts cs (put c e)) = content (put c e) @ concat (take k cs)" "stuck (puts cs (put c e))"
      using Cons.IH[of "put c e"] Cons.prems(1,2) put_wf[of e c] by auto
    thus ?thesis using p by (intro exI[of _ "Suc k"]) simp
  next
    case False
    hence "content (put c e) = content e \<and> stuck (put c e)"
      using put_full[of e c] Cons.prems by auto
    moreover have "puts cs (put c e) = put c e"
      using calculation Cons.prems put_wf[of e c] by (simp add: puts_stuck)
    ultimately show ?thesis by (intro exI[of _ 0]) simp
  qed
qed simp

lemma puts_complete:
  assumes "wf e" "\<forall>c\<in>set cs. small c" "\<not> stuck (puts cs e)"
  shows "content (puts cs e) = content e @ concat cs"
proof -
  have "\<not> stuck e" using assms puts_stuck[of e cs] by auto
  thus ?thesis
    using assms puts_fits[of e cs] puts_full[of e cs] by (cases "length (concat cs) \<le> room e") auto
qed

lemma stuck_iff:
  assumes "wf e" "\<forall>c\<in>set cs. small c" "\<not> stuck e"
  shows "stuck (puts cs e) \<longleftrightarrow> room e < length (concat cs)"
  using puts_fits[OF assms] puts_full[OF assms] by (meson linorder_not_le)

end

end
