(* ===== verification/Virgl_Encoder.thy ===== *)
theory Virgl_Encoder
  imports Bounded_Sink
begin

text \<open>
  The virgl command encoder of \<open>virgl_encoder.c\<close> and \<open>virgl_encoder.h\<close>: a bounded sink of 32 words
  and the three commands of the kmscube render path.  A \<open>float\<close> argument is its 32-bit pattern (what
  \<open>f2u\<close> returns) and a \<open>double\<close> its 64-bit pattern.  Return code \<open>-1\<close> is \<open>EOTHER 1\<close>.
\<close>

named_theorems virgl_consts "constants of the virgl protocol"

definition UK_VIRGL_ENC_BUF_WORDS :: u32 where [virgl_consts]: "UK_VIRGL_ENC_BUF_WORDS = 32"
definition UK_VIRGL_FORMAT_B8G8R8X8_UNORM :: u32 where [virgl_consts]: "UK_VIRGL_FORMAT_B8G8R8X8_UNORM = 2"
definition UK_VIRGL_FORMAT_B8G8R8A8_UNORM :: u32 where [virgl_consts]: "UK_VIRGL_FORMAT_B8G8R8A8_UNORM = 3"
definition UK_VIRGL_PIPE_TEXTURE_2D :: u32 where [virgl_consts]: "UK_VIRGL_PIPE_TEXTURE_2D = 2"
definition UK_VIRGL_PIPE_BIND_RENDER_TARGET :: u32 where [virgl_consts]: "UK_VIRGL_PIPE_BIND_RENDER_TARGET = 2"
definition UK_VIRGL_PIPE_BIND_SAMPLER_VIEW :: u32 where [virgl_consts]: "UK_VIRGL_PIPE_BIND_SAMPLER_VIEW = 4"
definition UK_VIRGL_CLEAR_COLOR0 :: u32 where [virgl_consts]: "UK_VIRGL_CLEAR_COLOR0 = push_bit 2 1"
definition UK_VIRGL_CLEAR_DEPTH :: u32 where [virgl_consts]: "UK_VIRGL_CLEAR_DEPTH = push_bit 0 1"
definition UK_VIRGL_CLEAR_STENCIL :: u32 where [virgl_consts]: "UK_VIRGL_CLEAR_STENCIL = push_bit 1 1"
definition VIRGL_CCMD_CREATE_OBJECT :: u32 where [virgl_consts]: "VIRGL_CCMD_CREATE_OBJECT = 1"
definition VIRGL_CCMD_SET_FRAMEBUFFER_STATE :: u32 where [virgl_consts]: "VIRGL_CCMD_SET_FRAMEBUFFER_STATE = 5"
definition VIRGL_CCMD_CLEAR :: u32 where [virgl_consts]: "VIRGL_CCMD_CLEAR = 7"
definition VIRGL_OBJECT_SURFACE :: u32 where [virgl_consts]: "VIRGL_OBJECT_SURFACE = 8"
definition OBJ_SURFACE_SIZE :: u32 where [virgl_consts]: "OBJ_SURFACE_SIZE = 5"
definition FB_STATE_SIZE :: "u32 \<Rightarrow> u32" where [virgl_consts]: "FB_STATE_SIZE n = n + 2"
definition OBJ_CLEAR_SIZE :: u32 where [virgl_consts]: "OBJ_CLEAR_SIZE = 8"

record uk_virgl_encoder =
  vg_buf :: "u32 list"
  vg_pos :: u32
  vg_overflow :: bool

definition cmd_hdr :: "u32 \<Rightarrow> u32 \<Rightarrow> u32 \<Rightarrow> u32" where
  "cmd_hdr len obj cmd = push_bit 16 len OR push_bit 8 obj OR cmd"

definition enc_word :: "uk_virgl_encoder \<Rightarrow> u32 \<Rightarrow> (errno + unit) \<times> uk_virgl_encoder" where
  "enc_word enc w =
    (if vg_overflow enc \<or> vg_pos enc \<ge> UK_VIRGL_ENC_BUF_WORDS
     then (Inl (EOTHER 1), enc\<lparr>vg_overflow := True\<rparr>)
     else (Inr (), enc\<lparr>vg_buf := (vg_buf enc)[unat (vg_pos enc) := w], vg_pos := vg_pos enc + 1\<rparr>))"

definition d2u :: "u64 \<Rightarrow> u32 \<times> u32" where
  "d2u d = (ucast (d AND 0xffffffff), ucast (drop_bit 32 d))"

definition uk_virgl_encoder_init :: "uk_virgl_encoder \<Rightarrow> uk_virgl_encoder" where
  "uk_virgl_encoder_init enc =
    enc\<lparr>vg_pos := 0, vg_overflow := False, vg_buf := replicate (unat UK_VIRGL_ENC_BUF_WORDS) 0\<rparr>"

text \<open>The chain \<open>if (enc_word(enc, w)) return -1;\<close> over the words of a command.\<close>

fun enc_words :: "uk_virgl_encoder \<Rightarrow> u32 list \<Rightarrow> (errno + unit) \<times> uk_virgl_encoder" where
  "enc_words enc [] = (Inr (), enc)"
| "enc_words enc (w # ws) =
    (case enc_word enc w of
       (Inl _, enc) \<Rightarrow> (Inl (EOTHER 1), enc)
     | (Inr _, enc) \<Rightarrow> enc_words enc ws)"

definition uk_virgl_encode_create_surface :: "uk_virgl_encoder option \<Rightarrow> u32 \<Rightarrow> u32 \<Rightarrow> u32 \<Rightarrow> u32
    \<Rightarrow> (errno + unit) \<times> uk_virgl_encoder option" where
  "uk_virgl_encode_create_surface enc surf_handle res_handle fmt level =
    (case enc of
       None \<Rightarrow> (Inl EINVAL, None)
     | Some e \<Rightarrow>
        if surf_handle = 0 \<or> res_handle = 0 then (Inl EINVAL, enc)
        else map_prod id Some (enc_words e
          [cmd_hdr OBJ_SURFACE_SIZE VIRGL_OBJECT_SURFACE VIRGL_CCMD_CREATE_OBJECT,
           surf_handle, res_handle, fmt, level, level]))"

definition uk_virgl_encode_set_framebuffer :: "uk_virgl_encoder option \<Rightarrow> u32
    \<Rightarrow> (errno + unit) \<times> uk_virgl_encoder option" where
  "uk_virgl_encode_set_framebuffer enc surf_handle =
    (case enc of
       None \<Rightarrow> (Inl EINVAL, None)
     | Some e \<Rightarrow> map_prod id Some (enc_words e
          [cmd_hdr (FB_STATE_SIZE 1) 0 VIRGL_CCMD_SET_FRAMEBUFFER_STATE, 1, 0, surf_handle]))"

text \<open>\<open>depth\<close> is 1.0 as a double.\<close>

definition uk_virgl_encode_clear :: "uk_virgl_encoder option \<Rightarrow> u32 \<Rightarrow> u32 \<Rightarrow> u32 \<Rightarrow> u32
    \<Rightarrow> (errno + unit) \<times> uk_virgl_encoder option" where
  "uk_virgl_encode_clear enc r g b a =
    (case enc of
       None \<Rightarrow> (Inl EINVAL, None)
     | Some e \<Rightarrow> (case d2u 0x3ff0000000000000 of (dlo, dhi) \<Rightarrow>
         map_prod id Some (enc_words e
          [cmd_hdr OBJ_CLEAR_SIZE 0 VIRGL_CCMD_CLEAR, UK_VIRGL_CLEAR_COLOR0, r, g, b, a, dlo, dhi, 0])))"

definition uk_virgl_encoder_len :: "uk_virgl_encoder \<Rightarrow> u64" where
  "uk_virgl_encoder_len enc = ucast (vg_pos enc) * 4"

definition uk_virgl_encoder_words :: "uk_virgl_encoder \<Rightarrow> u32" where
  "uk_virgl_encoder_words enc = vg_pos enc"

section \<open>The encoder is a bounded sink of words\<close>

definition vg_wf :: "uk_virgl_encoder \<Rightarrow> bool" where
  "vg_wf e \<longleftrightarrow> length (vg_buf e) = 32 \<and> unat (vg_pos e) \<le> 32"

definition vg_content :: "uk_virgl_encoder \<Rightarrow> u32 list" where
  "vg_content e = take (unat (vg_pos e)) (vg_buf e)"

definition vg_room :: "uk_virgl_encoder \<Rightarrow> nat" where
  "vg_room e = 32 - unat (vg_pos e)"

definition vg_put :: "u32 list \<Rightarrow> uk_virgl_encoder \<Rightarrow> uk_virgl_encoder" where
  "vg_put c e = fold (\<lambda>w e. snd (enc_word e w)) c e"

definition one_word :: "u32 list \<Rightarrow> bool" where
  "one_word c \<longleftrightarrow> length c \<le> 1"

lemma enc_word_cases:
  assumes "vg_wf e"
  shows "snd (enc_word e w) = (if vg_overflow e then e
     else if vg_room e = 0 then e\<lparr>vg_overflow := True\<rparr>
     else e\<lparr>vg_buf := (vg_buf e)[unat (vg_pos e) := w], vg_pos := vg_pos e + 1\<rparr>)"
    and "fst (enc_word e w) = (if vg_overflow e \<or> vg_room e = 0 then Inl (EOTHER 1) else Inr ())"
    and "vg_room e \<noteq> 0 \<Longrightarrow> unat (vg_pos e + 1) = Suc (unat (vg_pos e))"
proof -
  have full: "vg_pos e \<ge> UK_VIRGL_ENC_BUF_WORDS \<longleftrightarrow> vg_room e = 0"
    by (auto simp: virgl_consts word_le_nat_alt vg_room_def)
  show "snd (enc_word e w) = (if vg_overflow e then e
     else if vg_room e = 0 then e\<lparr>vg_overflow := True\<rparr>
     else e\<lparr>vg_buf := (vg_buf e)[unat (vg_pos e) := w], vg_pos := vg_pos e + 1\<rparr>)"
    "fst (enc_word e w) = (if vg_overflow e \<or> vg_room e = 0 then Inl (EOTHER 1) else Inr ())"
    using full by (auto simp: enc_word_def)
  show "unat (vg_pos e + 1) = Suc (unat (vg_pos e))" if "vg_room e \<noteq> 0"
    using that by (subst unat_add_small) (auto simp: vg_room_def)
qed

interpretation gs: bounded_sink vg_wf vg_overflow vg_content vg_room one_word vg_put
proof (unfold_locales, goal_cases)
  case (1 e c)
  thus ?case
    using enc_word_cases[OF 1(1)]
    by (cases c) (auto simp: vg_put_def one_word_def vg_wf_def vg_room_def)
next
  case (2 e c)
  thus ?case by (induction c) (simp_all add: vg_put_def enc_word_cases)
next
  case (3 e c)
  thus ?case
    using enc_word_cases[OF 3(1)]
    by (cases c) (auto simp: vg_put_def one_word_def vg_content_def vg_room_def vg_wf_def take_Suc_conv_app_nth)
next
  case (4 e c)
  thus ?case
    using enc_word_cases[OF 4(1)]
    by (cases c) (auto simp: vg_put_def one_word_def vg_content_def vg_room_def)
qed

lemma enc_words_puts:
  assumes "vg_wf e" "\<not> vg_overflow e"
  shows "snd (enc_words e ws) = gs.puts (map (\<lambda>w. [w]) ws) e"
    and "fst (enc_words e ws) = (if vg_overflow (gs.puts (map (\<lambda>w. [w]) ws) e) then Inl (EOTHER 1) else Inr ())"
proof -
  have p: "snd (enc_word e w) = vg_put [w] e" for w e by (simp add: vg_put_def)
  have *: "enc_words e ws = ((if vg_overflow (gs.puts (map (\<lambda>w. [w]) ws) e) then Inl (EOTHER 1) else Inr ()),
      gs.puts (map (\<lambda>w. [w]) ws) e)"
    using assms
  proof (induction ws arbitrary: e)
    case (Cons w ws)
    have wf: "vg_wf (vg_put [w] e)" using Cons.prems by (intro gs.put_wf) (simp_all add: one_word_def)
    show ?case
    proof (cases "vg_room e = 0")
      case True
      hence "fst (enc_word e w) = Inl (EOTHER 1)" "vg_overflow (vg_put [w] e)"
        using enc_word_cases[OF Cons.prems(1)] Cons.prems(2) p[of e w, symmetric] by simp_all
      thus ?thesis
        using p[of e w] gs.puts_stuck[OF wf] by (cases "enc_word e w") auto
    next
      case False
      hence "fst (enc_word e w) = Inr ()" "\<not> vg_overflow (vg_put [w] e)"
        using enc_word_cases[OF Cons.prems(1)] Cons.prems(2) p[of e w, symmetric] by simp_all
      thus ?thesis
        using p[of e w] Cons.IH[OF wf] by (cases "enc_word e w") auto
    qed
  qed simp
  show "snd (enc_words e ws) = gs.puts (map (\<lambda>w. [w]) ws) e"
    "fst (enc_words e ws) = (if vg_overflow (gs.puts (map (\<lambda>w. [w]) ws) e) then Inl (EOTHER 1) else Inr ())"
    by (simp_all add: *)
qed

section \<open>The three commands\<close>

definition words_appended :: "uk_virgl_encoder \<Rightarrow> u32 list
    \<Rightarrow> (errno + unit) \<times> uk_virgl_encoder option \<Rightarrow> bool" where
  "words_appended e ws out \<longleftrightarrow>
    (case out of
       (r, Some e') \<Rightarrow> vg_wf e' \<and>
         (if length ws \<le> vg_room e
          then r = Inr () \<and> \<not> vg_overflow e' \<and> vg_content e' = vg_content e @ ws
          else r = Inl (EOTHER 1) \<and> vg_overflow e' \<and>
            (\<exists>k<length ws. vg_content e' = vg_content e @ take k ws))
     | (r, None) \<Rightarrow> False)"

lemma enc_words_appended:
  assumes "vg_wf e" "\<not> vg_overflow e"
  shows "words_appended e ws (map_prod id Some (enc_words e ws))"
proof -
  let ?cs = "map (\<lambda>w. [w]) ws"
  have c: "concat (map (\<lambda>w. [w]) xs) = xs" for xs :: "u32 list" by (induction xs) simp_all
  have o: "\<forall>c\<in>set ?cs. one_word c" by (auto simp: one_word_def)
  show ?thesis
    using enc_words_puts[OF assms, of ws] gs.puts_wf[OF assms(1) o]
      gs.puts_fits[OF assms(1) o assms(2)] gs.puts_full[OF assms(1) o assms(2)]
    by (cases "enc_words e ws") (auto simp: words_appended_def c take_map not_le)
qed

text \<open>C40 (error): a virgl command is appended whole and returns 0 when its words fit in the buffer;
  otherwise it returns -1, marks the encoder and leaves a prefix of its words.  It never writes past
  the 32 words, and invalid handles are refused before anything is written.\<close>

theorem virgl_commands_bounded:
  assumes "vg_wf e" "\<not> vg_overflow e" "sh \<noteq> 0" "res \<noteq> 0"
  shows "words_appended e [0x00050801, sh, res, fmt, level, level]
      (uk_virgl_encode_create_surface (Some e) sh res fmt level) \<and>
    words_appended e [0x00030005, 1, 0, sh] (uk_virgl_encode_set_framebuffer (Some e) sh) \<and>
    words_appended e [0x00080007, 4, r, g, b, a, 0, 0x3ff00000, 0] (uk_virgl_encode_clear (Some e) r g b a) \<and>
    uk_virgl_encode_create_surface (Some e) 0 res fmt level = (Inl EINVAL, Some e) \<and>
    uk_virgl_encode_create_surface (Some e) sh 0 fmt level = (Inl EINVAL, Some e)"
  using assms enc_words_appended[OF assms(1,2)]
  by (simp add: uk_virgl_encode_create_surface_def uk_virgl_encode_set_framebuffer_def
      uk_virgl_encode_clear_def d2u_def cmd_hdr_def virgl_consts del: enc_words.simps)

definition fresh_virgl :: uk_virgl_encoder where
  "fresh_virgl = uk_virgl_encoder_init \<lparr> vg_buf = [], vg_pos = 0, vg_overflow = False \<rparr>"

lemma fresh_virgl_wf: "vg_wf fresh_virgl" "\<not> vg_overflow fresh_virgl" "vg_room fresh_virgl = 32"
  by (simp_all add: fresh_virgl_def uk_virgl_encoder_init_def vg_wf_def vg_room_def virgl_consts)

theorem virgl_commands_bounded_witness:
  "words_appended fresh_virgl [0x00080007, 4, 0, 0, 0, 0, 0, 0x3ff00000, 0]
     (uk_virgl_encode_clear (Some fresh_virgl) 0 0 0 0)"
  using virgl_commands_bounded[of fresh_virgl 1 1] fresh_virgl_wf by simp

text \<open>One surface, one framebuffer and one clear command fit in a fresh encoder, as
  the comment on its size says: 19 words, which is 76 bytes.\<close>

theorem virgl_frame_fits:
  assumes "sh \<noteq> 0" "res \<noteq> 0"
  shows "\<exists>e1 e2 e3.
    uk_virgl_encode_create_surface (Some (uk_virgl_encoder_init e)) sh res fmt level = (Inr (), Some e1) \<and>
    uk_virgl_encode_set_framebuffer (Some e1) sh = (Inr (), Some e2) \<and>
    uk_virgl_encode_clear (Some e2) r g b a = (Inr (), Some e3) \<and>
    uk_virgl_encoder_words e3 = 19 \<and> uk_virgl_encoder_len e3 = 76 \<and>
    vg_content e3 = [0x00050801, sh, res, fmt, level, level, 0x00030005, 1, 0, sh,
      0x00080007, 4, r, g, b, a, 0, 0x3ff00000, 0]"
proof -
  have r: "replicate 32 (0::u32) = [0,0,0,0,0,0,0,0,0,0,0,0,0,0,0,0,0,0,0,0,0,0,0,0,0,0,0,0,0,0,0,0]"
    by (simp add: numeral_eq_Suc)
  show ?thesis
    using assms
    by (simp add: uk_virgl_encode_create_surface_def uk_virgl_encode_set_framebuffer_def
      uk_virgl_encode_clear_def uk_virgl_encoder_init_def d2u_def cmd_hdr_def virgl_consts enc_word_def
      uk_virgl_encoder_words_def uk_virgl_encoder_len_def vg_content_def r)
      (simp add: word_le_nat_alt)
qed

theorem virgl_frame_fits_witness:
  "\<exists>e1 e2 e3.
    uk_virgl_encode_create_surface (Some (uk_virgl_encoder_init fresh_virgl)) 1 5 2 0 = (Inr (), Some e1) \<and>
    uk_virgl_encode_set_framebuffer (Some e1) 1 = (Inr (), Some e2) \<and>
    uk_virgl_encode_clear (Some e2) 0 0 0 0 = (Inr (), Some e3) \<and> uk_virgl_encoder_len e3 = 76"
  using virgl_frame_fits[of 1 5 fresh_virgl 2 0 0 0 0 0] by auto

end
