(* ===== verification/Venus_Encoder.thy ===== *)
theory Venus_Encoder
  imports Bounded_Sink
begin

text \<open>
  The Venus command-stream encoder of \<open>venus_cs.c\<close>, the adapter \<open>vn_cs.h\<close> under the generated
  encoders, and the generated encoders of scalars, strings and pointers
  (\<open>generated/vn_protocol_driver_cs.h\<close>, \<open>vn_protocol_driver_types.h\<close>).  The encoder is a bounded sink
  of bytes.  The receiver pointer of these functions is never NULL in the sources' calls and has no
  NULL branch here; a source pointer that may be NULL is an \<open>option\<close>.
\<close>

section \<open>The encoder\<close>

text \<open>\<open>ve_buf\<close> is the memory behind \<open>buf\<close>: the caller's \<open>cap\<close> bytes.\<close>

record uk_venus_encoder =
  ve_buf :: "u8 list"
  ve_cap :: u64
  ve_pos :: u64
  ve_overflow :: bool

text \<open>A store of \<open>bs\<close> at \<open>pos\<close>.  A store past the end of the buffer would change its length.\<close>

definition poke :: "'a list \<Rightarrow> nat \<Rightarrow> 'a list \<Rightarrow> 'a list" where
  "poke m pos bs = take pos m @ bs @ drop (pos + length bs) m"

definition uk_venus_encoder_init :: "u8 list option \<Rightarrow> u64 \<Rightarrow> errno + uk_venus_encoder" where
  "uk_venus_encoder_init buf cap =
    (case buf of
       None \<Rightarrow> Inl EINVAL
     | Some b \<Rightarrow> if cap = 0 then Inl EINVAL
                 else Inr \<lparr> ve_buf = b, ve_cap = cap, ve_pos = 0, ve_overflow = False \<rparr>)"

definition uk_venus_encoder_reset :: "uk_venus_encoder \<Rightarrow> uk_venus_encoder" where
  "uk_venus_encoder_reset enc = enc\<lparr>ve_pos := 0, ve_overflow := False\<rparr>"

definition uk_venus_encoder_size :: "uk_venus_encoder option \<Rightarrow> u64" where
  "uk_venus_encoder_size enc = (case enc of None \<Rightarrow> 0 | Some e \<Rightarrow> ve_pos e)"

definition uk_venus_encoder_overflow :: "uk_venus_encoder option \<Rightarrow> bool" where
  "uk_venus_encoder_overflow enc = (case enc of None \<Rightarrow> True | Some e \<Rightarrow> ve_overflow e)"

definition uk_venus_encode_bytes :: "uk_venus_encoder \<Rightarrow> u8 list option \<Rightarrow> u64 \<Rightarrow> uk_venus_encoder" where
  "uk_venus_encode_bytes enc src len =
    (if ve_overflow enc \<or> len = 0 then enc
     else if ve_pos enc + len > ve_cap enc then enc\<lparr>ve_overflow := True\<rparr>
     else enc\<lparr>ve_buf := poke (ve_buf enc) (unat (ve_pos enc))
                (case src of Some s \<Rightarrow> take (unat len) s | None \<Rightarrow> replicate (unat len) 0),
              ve_pos := ve_pos enc + len\<rparr>)"

definition uk_venus_encode_uint32 :: "uk_venus_encoder \<Rightarrow> u32 \<Rightarrow> uk_venus_encoder" where
  "uk_venus_encode_uint32 enc v =
    (if ve_overflow enc then enc
     else if ve_pos enc + 4 > ve_cap enc then enc\<lparr>ve_overflow := True\<rparr>
     else enc\<lparr>ve_buf := poke (ve_buf enc) (unat (ve_pos enc)) (le32 v), ve_pos := ve_pos enc + 4\<rparr>)"

definition uk_venus_encode_uint64 :: "uk_venus_encoder \<Rightarrow> u64 \<Rightarrow> uk_venus_encoder" where
  "uk_venus_encode_uint64 enc v =
    (if ve_overflow enc then enc
     else if ve_pos enc + 8 > ve_cap enc then enc\<lparr>ve_overflow := True\<rparr>
     else enc\<lparr>ve_buf := poke (ve_buf enc) (unat (ve_pos enc)) (le64 v), ve_pos := ve_pos enc + 8\<rparr>)"

text \<open>A C string is the list of its bytes before the terminating NUL.\<close>

definition uk_venus_encode_cstring :: "uk_venus_encoder \<Rightarrow> u8 list option \<Rightarrow> uk_venus_encoder" where
  "uk_venus_encode_cstring enc s =
    (case s of
       None \<Rightarrow> uk_venus_encode_uint64 enc 0
     | Some cs \<Rightarrow>
        (let n = of_nat (length cs) + 1;
             enc = uk_venus_encode_uint64 enc n;
             enc = uk_venus_encode_bytes enc (Some (cs @ [0])) n;
             rm = n AND 3
         in if rm \<noteq> 0 then uk_venus_encode_bytes enc (Some (le32 0)) (4 - rm) else enc))"

definition VN_PTR_PRESENT :: u64 where "VN_PTR_PRESENT = 1"
definition VN_PTR_NULL :: u64 where "VN_PTR_NULL = 0"

definition uk_venus_encode_pointer_flag :: "uk_venus_encoder \<Rightarrow> bool \<Rightarrow> uk_venus_encoder" where
  "uk_venus_encode_pointer_flag enc present =
    uk_venus_encode_uint64 enc (if present then VN_PTR_PRESENT else VN_PTR_NULL)"

section \<open>The adapter \<open>vn_cs.h\<close>\<close>

text \<open>\<open>struct vn_cs_encoder\<close> holds one pointer to a \<open>uk_venus_encoder\<close>; it is that encoder here.\<close>

definition vn_cs_encoder_get_len :: "uk_venus_encoder \<Rightarrow> u64" where
  "vn_cs_encoder_get_len enc = uk_venus_encoder_size (Some enc)"

definition vn_cs_encoder_reserve :: "uk_venus_encoder \<Rightarrow> u64 \<Rightarrow> bool" where
  "vn_cs_encoder_reserve enc sz = True"

definition vn_cs_encoder_write :: "uk_venus_encoder \<Rightarrow> u64 \<Rightarrow> u8 list \<Rightarrow> u64 \<Rightarrow> uk_venus_encoder" where
  "vn_cs_encoder_write enc sz dat data_size =
    (let enc = uk_venus_encode_bytes enc (Some dat) data_size
     in if sz > data_size then uk_venus_encode_bytes enc None (sz - data_size) else enc)"

text \<open>The decoder: the bytes from \<open>cur\<close> to \<open>end\<close> and the fatal flag.  A read returns the bytes it
  stored in the caller's variable, None when it stored nothing.  \<open>cur + size > end\<close> compares
  pointers into the reply buffer; a size past its end is the branch.\<close>

record vn_cs_decoder =
  dc_rest :: "u8 list"
  dc_fatal :: bool

definition vn_cs_decoder_set_fatal :: "vn_cs_decoder \<Rightarrow> vn_cs_decoder" where
  "vn_cs_decoder_set_fatal dec = dec\<lparr>dc_fatal := True\<rparr>"

definition vn_cs_decoder_read :: "vn_cs_decoder \<Rightarrow> nat \<Rightarrow> nat \<Rightarrow> u8 list option \<times> vn_cs_decoder" where
  "vn_cs_decoder_read dec sz data_size =
    (if sz > length (dc_rest dec) then (None, dec\<lparr>dc_fatal := True\<rparr>)
     else (Some (take data_size (dc_rest dec)), dec\<lparr>dc_rest := drop sz (dc_rest dec)\<rparr>))"

definition vn_cs_decoder_peek :: "vn_cs_decoder \<Rightarrow> nat \<Rightarrow> nat \<Rightarrow> u8 list option \<times> vn_cs_decoder" where
  "vn_cs_decoder_peek dec sz data_size =
    (if data_size > length (dc_rest dec) then (None, dec\<lparr>dc_fatal := True\<rparr>)
     else (Some (take data_size (dc_rest dec)), dec))"

definition vn_cs_handle_load_id :: "u64 \<Rightarrow> u64" where "vn_cs_handle_load_id hdl = hdl"
definition vn_cs_handle_store_id :: "u64 \<Rightarrow> u64" where "vn_cs_handle_store_id oid = oid"

definition vn_cs_renderer_protocol_has_extension :: "u32 \<Rightarrow> bool" where
  "vn_cs_renderer_protocol_has_extension n = True"

definition vn_cs_renderer_protocol_has_api_version :: "u32 \<Rightarrow> bool" where
  "vn_cs_renderer_protocol_has_api_version n = True"

section \<open>The generated scalar encoders\<close>

definition vn_encode :: "uk_venus_encoder \<Rightarrow> u64 \<Rightarrow> u8 list \<Rightarrow> u64 \<Rightarrow> uk_venus_encoder" where
  "vn_encode enc sz dat data_size = vn_cs_encoder_write enc sz dat data_size"

definition vn_decode :: "vn_cs_decoder \<Rightarrow> nat \<Rightarrow> nat \<Rightarrow> u8 list option \<times> vn_cs_decoder" where
  "vn_decode dec sz data_size = vn_cs_decoder_read dec sz data_size"

definition vn_sizeof_uint64_t :: u64 where "vn_sizeof_uint64_t = 8"
definition vn_encode_uint64_t :: "uk_venus_encoder \<Rightarrow> u64 \<Rightarrow> uk_venus_encoder" where
  "vn_encode_uint64_t enc v = vn_encode enc 8 (le64 v) 8"
definition vn_decode_uint64_t :: "vn_cs_decoder \<Rightarrow> u64 option \<times> vn_cs_decoder" where
  "vn_decode_uint64_t dec = (case vn_decode dec 8 8 of (r, d) \<Rightarrow> (map_option un64 r, d))"

definition vn_sizeof_int32_t :: u64 where "vn_sizeof_int32_t = 4"
definition vn_encode_int32_t :: "uk_venus_encoder \<Rightarrow> u32 \<Rightarrow> uk_venus_encoder" where
  "vn_encode_int32_t enc v = vn_encode enc 4 (le32 v) 4"
definition vn_decode_int32_t :: "vn_cs_decoder \<Rightarrow> u32 option \<times> vn_cs_decoder" where
  "vn_decode_int32_t dec = (case vn_decode dec 4 4 of (r, d) \<Rightarrow> (map_option un32 r, d))"

definition vn_sizeof_VkStructureType :: u64 where "vn_sizeof_VkStructureType = vn_sizeof_int32_t"
definition vn_encode_VkStructureType :: "uk_venus_encoder \<Rightarrow> u32 \<Rightarrow> uk_venus_encoder" where
  "vn_encode_VkStructureType enc v = vn_encode_int32_t enc v"

definition vn_sizeof_size_t :: u64 where "vn_sizeof_size_t = vn_sizeof_uint64_t"
definition vn_encode_size_t :: "uk_venus_encoder \<Rightarrow> u64 \<Rightarrow> uk_venus_encoder" where
  "vn_encode_size_t enc v = vn_encode_uint64_t enc v"
definition vn_decode_size_t :: "vn_cs_decoder \<Rightarrow> u64 option \<times> vn_cs_decoder" where
  "vn_decode_size_t dec = vn_decode_uint64_t dec"

definition vn_sizeof_blob_array :: "u64 \<Rightarrow> u64" where
  "vn_sizeof_blob_array sz = (sz + 3) AND NOT 3"
definition vn_encode_blob_array :: "uk_venus_encoder \<Rightarrow> u8 list \<Rightarrow> u64 \<Rightarrow> uk_venus_encoder" where
  "vn_encode_blob_array enc val sz = vn_encode enc ((sz + 3) AND NOT 3) val sz"
definition vn_sizeof_char_array :: "u64 \<Rightarrow> u64" where
  "vn_sizeof_char_array sz = vn_sizeof_blob_array sz"
definition vn_encode_char_array :: "uk_venus_encoder \<Rightarrow> u8 list \<Rightarrow> u64 \<Rightarrow> uk_venus_encoder" where
  "vn_encode_char_array enc val sz = vn_encode_blob_array enc (val @ [0]) sz"

definition vn_sizeof_array_size :: "u64 \<Rightarrow> u64" where
  "vn_sizeof_array_size n = vn_sizeof_uint64_t"
definition vn_encode_array_size :: "uk_venus_encoder \<Rightarrow> u64 \<Rightarrow> uk_venus_encoder" where
  "vn_encode_array_size enc n = vn_encode_uint64_t enc n"
definition vn_decode_array_size_unchecked :: "vn_cs_decoder \<Rightarrow> u64 option \<times> vn_cs_decoder" where
  "vn_decode_array_size_unchecked dec = vn_decode_uint64_t dec"

definition vn_sizeof_simple_pointer :: "bool \<Rightarrow> u64" where
  "vn_sizeof_simple_pointer val = vn_sizeof_array_size (if val then 1 else 0)"
definition vn_encode_simple_pointer :: "uk_venus_encoder \<Rightarrow> bool \<Rightarrow> uk_venus_encoder" where
  "vn_encode_simple_pointer enc val = vn_encode_array_size enc (if val then 1 else 0)"

definition vn_sizeof_uint32_t :: u64 where "vn_sizeof_uint32_t = 4"
definition vn_encode_uint32_t :: "uk_venus_encoder \<Rightarrow> u32 \<Rightarrow> uk_venus_encoder" where
  "vn_encode_uint32_t enc v = vn_encode enc 4 (le32 v) 4"
definition vn_decode_uint32_t :: "vn_cs_decoder \<Rightarrow> u32 option \<times> vn_cs_decoder" where
  "vn_decode_uint32_t dec = (case vn_decode dec 4 4 of (r, d) \<Rightarrow> (map_option un32 r, d))"

definition vn_sizeof_VkFlags :: u64 where "vn_sizeof_VkFlags = vn_sizeof_uint32_t"
definition vn_encode_VkFlags :: "uk_venus_encoder \<Rightarrow> u32 \<Rightarrow> uk_venus_encoder" where
  "vn_encode_VkFlags enc v = vn_encode_uint32_t enc v"

definition vn_sizeof_VkCommandTypeEXT :: u64 where "vn_sizeof_VkCommandTypeEXT = vn_sizeof_int32_t"
definition vn_encode_VkCommandTypeEXT :: "uk_venus_encoder \<Rightarrow> u32 \<Rightarrow> uk_venus_encoder" where
  "vn_encode_VkCommandTypeEXT enc v = vn_encode_int32_t enc v"

section \<open>The encoder is a bounded sink of bytes\<close>

text \<open>The buffer and every appended chunk have at most \<open>2 ^ 62\<close> bytes, so \<open>pos + len\<close> does not
  wrap; the sources' buffers have a few hundred bytes.\<close>

definition ve_wf :: "uk_venus_encoder \<Rightarrow> bool" where
  "ve_wf e \<longleftrightarrow> length (ve_buf e) = unat (ve_cap e) \<and> unat (ve_pos e) \<le> unat (ve_cap e) \<and>
     unat (ve_cap e) \<le> 2 ^ 62"

definition ve_content :: "uk_venus_encoder \<Rightarrow> u8 list" where
  "ve_content e = take (unat (ve_pos e)) (ve_buf e)"

definition ve_room :: "uk_venus_encoder \<Rightarrow> nat" where
  "ve_room e = unat (ve_cap e) - unat (ve_pos e)"

definition small_bytes :: "u8 list \<Rightarrow> bool" where
  "small_bytes c \<longleftrightarrow> length c \<le> 2 ^ 62"

definition ve_put :: "u8 list \<Rightarrow> uk_venus_encoder \<Rightarrow> uk_venus_encoder" where
  "ve_put c e = uk_venus_encode_bytes e (Some c) (of_nat (length c))"

lemma poke_nil [simp]: "poke m pos [] = m"
  by (simp add: poke_def)

lemma length_poke: "pos + length bs \<le> length m \<Longrightarrow> length (poke m pos bs) = length m"
  by (simp add: poke_def)

lemma take_poke: "pos \<le> length m \<Longrightarrow> take (pos + length bs) (poke m pos bs) = take pos m @ bs"
  by (simp add: poke_def)

lemma unat_of_nat_u64: "n < 2 ^ 64 \<Longrightarrow> unat (of_nat n :: u64) = n"
  by (simp add: unat_of_nat take_bit_nat_eq_self)

lemma ve_put_cases:
  assumes "ve_wf e" "small_bytes c"
  shows "ve_put c e = (if ve_overflow e then e
     else if length c \<le> ve_room e
     then e\<lparr>ve_buf := poke (ve_buf e) (unat (ve_pos e)) c, ve_pos := ve_pos e + of_nat (length c)\<rparr>
     else e\<lparr>ve_overflow := True\<rparr>)"
    and "length c \<le> ve_room e \<Longrightarrow> unat (ve_pos e + of_nat (length c)) = unat (ve_pos e) + length c"
proof -
  have l: "unat (of_nat (length c) :: u64) = length c"
    using assms(2) by (intro unat_of_nat_u64) (simp add: small_bytes_def)
  have p: "unat (ve_pos e + of_nat (length c)) = unat (ve_pos e) + length c"
    using assms l by (subst unat_add_small) (simp_all add: small_bytes_def ve_wf_def)
  thus "length c \<le> ve_room e \<Longrightarrow> unat (ve_pos e + of_nat (length c)) = unat (ve_pos e) + length c" .
  have gt: "ve_cap e < ve_pos e + of_nat (length c) \<longleftrightarrow> ve_room e < length c"
    using p assms(1) by (auto simp: ve_room_def ve_wf_def word_less_nat_alt)
  show "ve_put c e = (if ve_overflow e then e
     else if length c \<le> ve_room e
     then e\<lparr>ve_buf := poke (ve_buf e) (unat (ve_pos e)) c, ve_pos := ve_pos e + of_nat (length c)\<rparr>
     else e\<lparr>ve_overflow := True\<rparr>)"
  proof (cases "c = []")
    case True
    thus ?thesis by (simp add: ve_put_def uk_venus_encode_bytes_def)
  next
    case False
    hence "of_nat (length c) \<noteq> (0 :: u64)" using l by (metis length_0_conv unat_0)
    thus ?thesis
      using gt by (simp add: ve_put_def uk_venus_encode_bytes_def l not_less)
  qed
qed

interpretation vs: bounded_sink ve_wf ve_overflow ve_content ve_room small_bytes ve_put
proof (unfold_locales, goal_cases)
  case (1 e c)
  thus ?case
    using ve_put_cases[OF 1] by (auto simp: ve_wf_def length_poke ve_room_def)
next
  case (2 e c)
  thus ?case by (simp add: ve_put_def uk_venus_encode_bytes_def)
next
  case (3 e c)
  thus ?case
    using ve_put_cases[OF 3(1,2)]
    by (auto simp: ve_content_def ve_room_def take_poke ve_wf_def)
next
  case (4 e c)
  thus ?case
    using ve_put_cases[OF 4(1,2)] by (auto simp: ve_content_def ve_room_def)
qed

section \<open>Chunks of the scalar encoders\<close>

lemma of_nat_unat_u64: "of_nat (unat w) = w" for w :: u64
  by simp

lemma mask_2_u64: "mask 2 = (3 :: u64)" by (simp add: mask_eq_exp_minus_1)

lemma unat_and3: "unat (x AND 3 :: u64) = unat x mod 4"
  using and_mask_nat[of x 2] by (simp add: mask_2_u64)

lemma unat_and_not3: "unat (x AND NOT 3 :: u64) = unat x - unat x mod 4"
  using and_not_mask_nat[of x 2] by (simp only: mask_2_u64) simp

named_theorems chunk_simps "encoders as sequences of chunks"

lemma encode_uint64_chunk [chunk_simps]: "uk_venus_encode_uint64 e v = vs.puts [le64 v] e"
  by (simp add: uk_venus_encode_uint64_def ve_put_def uk_venus_encode_bytes_def)

lemma encode_uint32_chunk [chunk_simps]: "uk_venus_encode_uint32 e v = vs.puts [le32 v] e"
  by (simp add: uk_venus_encode_uint32_def ve_put_def uk_venus_encode_bytes_def)

lemma vn_encode_exact: "length c < 2 ^ 64 \<Longrightarrow> vn_encode e (of_nat (length c)) c (of_nat (length c)) = vs.puts [c] e"
  by (simp add: vn_encode_def vn_cs_encoder_write_def ve_put_def)

lemma vn_encode_uint64_chunk [chunk_simps]: "vn_encode_uint64_t e v = vs.puts [le64 v] e"
  using vn_encode_exact[of "le64 v" e] by (simp add: vn_encode_uint64_t_def)

lemma vn_encode_uint32_chunk [chunk_simps]: "vn_encode_uint32_t e v = vs.puts [le32 v] e"
  using vn_encode_exact[of "le32 v" e] by (simp add: vn_encode_uint32_t_def)

lemma vn_encode_int32_chunk [chunk_simps]: "vn_encode_int32_t e v = vs.puts [le32 v] e"
  using vn_encode_exact[of "le32 v" e] by (simp add: vn_encode_int32_t_def)

lemmas scalar_encoders [chunk_simps] = vn_encode_VkStructureType_def vn_encode_size_t_def
  vn_encode_array_size_def vn_encode_simple_pointer_def vn_encode_VkFlags_def
  vn_encode_VkCommandTypeEXT_def

text \<open>The padding that follows \<open>n\<close> bytes.\<close>

definition pad4 :: "nat \<Rightarrow> u8 list list" where
  "pad4 n = (if n mod 4 = 0 then [] else [replicate (4 - n mod 4) 0])"

lemma round4:
  "n mod 4 \<noteq> 0 \<Longrightarrow> n + 3 - (n + 3) mod 4 = n + (4 - n mod 4)" for n :: nat
proof -
  assume nz: "n mod 4 \<noteq> 0"
  have "n mod 4 < 4" by simp
  then obtain r where r: "n mod 4 = Suc r" "r < 3" using nz by (cases "n mod 4") auto
  have "n = 4 * (n div 4) + Suc r" using r(1) by (metis mult_div_mod_eq)
  then obtain q where n: "n = 4 * q + Suc r" by blast
  have "(n + 3) mod 4 = r" using n r(2) by (simp add: mod_add_eq[symmetric] add.commute)
  thus ?thesis using n r by simp
qed

lemma length_pad4: "length (concat (pad4 n)) = (n + 3) div 4 * 4 - n"
proof (cases "n mod 4 = 0")
  case True
  then obtain q where "n = 4 * q" by auto
  thus ?thesis by (simp add: pad4_def)
next
  case False
  thus ?thesis using round4[OF False] by (simp add: pad4_def minus_mod_eq_div_mult[symmetric])
qed

lemma put_zeros:
  assumes "n < 2 ^ 64" shows "uk_venus_encode_bytes e None (of_nat n) = vs.puts [replicate n 0] e"
  using unat_of_nat_u64[OF assms] by (simp add: ve_put_def uk_venus_encode_bytes_def)

lemma blob_array_chunks:
  assumes "small_bytes c"
  shows "vn_encode_blob_array e c (of_nat (length c)) = vs.puts (c # pad4 (length c)) e"
proof -
  define n where "n = length c"
  have n: "n \<le> 2 ^ 62" using assms by (simp add: small_bytes_def n_def)
  have un: "unat (of_nat n :: u64) = n" "unat (of_nat n + 3 :: u64) = n + 3"
    using n unat_of_nat_u64[of n] by (simp_all add: unat_add_small)
  have up: "unat ((of_nat n + 3) AND NOT 3 :: u64) = n + 3 - (n + 3) mod 4"
    by (simp only: unat_and_not3 un)
  have gt: "(of_nat n + 3) AND NOT 3 > (of_nat n :: u64) \<longleftrightarrow> n mod 4 \<noteq> 0"
    unfolding word_less_nat_alt up un by presburger
  have d: "((of_nat n + 3) AND NOT 3) - (of_nat n :: u64) = of_nat (4 - n mod 4)" if "n mod 4 \<noteq> 0"
  proof -
    have "unat (((of_nat n + 3) AND NOT 3) - (of_nat n :: u64)) = n + 3 - (n + 3) mod 4 - n"
      using unat_sub[OF order.strict_implies_order, OF iffD2[OF gt that]] by (simp only: up un)
    also have "\<dots> = 4 - n mod 4" by (simp only: round4[OF that] diff_add_inverse)
    finally show ?thesis by (metis of_nat_unat_u64)
  qed
  show ?thesis
    unfolding vn_encode_blob_array_def vn_encode_def vn_cs_encoder_write_def Let_def
      n_def[symmetric]
    using gt d n put_zeros[of "4 - n mod 4"]
    by (cases "n mod 4 = 0") (auto simp: pad4_def ve_put_def n_def)
qed

lemma cstring_chunks:
  assumes "length s < 2 ^ 62"
  shows "uk_venus_encode_cstring e (Some s) =
    vs.puts (le64 (of_nat (length s) + 1) # (s @ [0]) # pad4 (length s + 1)) e"
proof -
  define n where "n = length s + 1"
  have n: "of_nat (length s) + 1 = (of_nat n :: u64)" by (simp add: n_def)
  have un: "unat (of_nat n :: u64) = n" using assms unat_of_nat_u64[of n] by (simp add: n_def)
  have rm: "unat (of_nat n AND 3 :: u64) = n mod 4" by (simp add: unat_and3 un)
  hence rm0: "of_nat n AND 3 = (0 :: u64) \<longleftrightarrow> n mod 4 = 0" by (metis unat_eq_0)
  have "of_nat n AND 3 = (of_nat (n mod 4) :: u64)" using rm by (metis of_nat_unat_u64)
  hence r: "4 - (of_nat n AND 3) = (of_nat (4 - n mod 4) :: u64)" by (simp add: of_nat_diff)
  have z: "uk_venus_encode_bytes e' (Some (le32 0)) (of_nat (4 - n mod 4)) =
      vs.puts [replicate (4 - n mod 4) 0] e'" for e'
  proof -
    have "unat (of_nat (4 - n mod 4) :: u64) = 4 - n mod 4" by (rule unat_of_nat_u64) simp
    moreover have "take k (le32 0) = replicate k 0" if "k \<le> 4" for k
    proof -
      have "le32 0 = replicate 4 0" by (simp add: le32_def numeral_eq_Suc)
      thus ?thesis using that by simp
    qed
    ultimately show ?thesis
      by (simp add: ve_put_def uk_venus_encode_bytes_def)
  qed
  show ?thesis
    using rm0 z
    by (simp add: uk_venus_encode_cstring_def Let_def n r encode_uint64_chunk pad4_def n_def[symmetric])
      (simp add: ve_put_def n_def)
qed

lemma char_array_chunks:
  assumes "length s < 2 ^ 62"
  shows "vn_encode_char_array e s (of_nat (length s) + 1) = vs.puts ((s @ [0]) # pad4 (length s + 1)) e"
  using assms blob_array_chunks[of "s @ [0]" e]
  by (simp add: vn_encode_char_array_def small_bytes_def add.commute)

end
