(* ===== verification/Venus_Commands.thy ===== *)
theory Venus_Commands
  imports Venus_Encoder
begin

text \<open>
  The Venus commands of \<open>venus_cs.c\<close>: bootstrap (instance, physical devices, device, queues), reply
  stream, ring transport and queries.  Each is the generated encoder it calls
  (\<open>generated/vn_protocol_driver_{transport,instance,device,queue,buffer}.h\<close>), applied to the
  structure the function fills.  The values of \<open>VK_STRUCTURE_TYPE_*\<close> and the array bounds
  \<open>VK_MAX_MEMORY_*\<close> come from the Khronos headers, which are not in the repository: they are the
  fields of \<open>vk_headers\<close>.  Handles are 64-bit guest identifiers, floats their 32-bit patterns, and a
  \<open>pNext\<close> chain is a list of the extension structures the encoders know, or others they skip.
\<close>

record vk_headers =
  ST_APPLICATION_INFO :: u32
  ST_INSTANCE_CREATE_INFO :: u32
  ST_DEVICE_QUEUE_CREATE_INFO :: u32
  ST_DEVICE_CREATE_INFO :: u32
  ST_DEVICE_QUEUE_INFO_2 :: u32
  MAX_MEMORY_TYPES :: nat
  MAX_MEMORY_HEAPS :: nat

named_theorems venus_consts "constants of the Venus protocol"

definition ST_RING_CREATE_INFO_MESA :: u32 where [venus_consts]: "ST_RING_CREATE_INFO_MESA = 1000384000"
definition ST_DEVICE_QUEUE_TIMELINE_INFO_MESA :: u32 where [venus_consts]: "ST_DEVICE_QUEUE_TIMELINE_INFO_MESA = 1000384005"
definition ST_RING_MONITOR_INFO_MESA :: u32 where [venus_consts]: "ST_RING_MONITOR_INFO_MESA = 1000384006"
definition ST_RING_PRIORITY_INFO_MESA :: u32 where [venus_consts]: "ST_RING_PRIORITY_INFO_MESA = 1000384007"
definition GENERATE_REPLY_BIT_EXT :: u32 where [venus_consts]: "GENERATE_REPLY_BIT_EXT = 1"

definition VN_CMD_vkCreateInstance :: u32 where [venus_consts]: "VN_CMD_vkCreateInstance = 0"
definition VN_CMD_vkEnumeratePhysicalDevices :: u32 where [venus_consts]: "VN_CMD_vkEnumeratePhysicalDevices = 2"
definition VN_CMD_vkGetPhysicalDeviceProperties :: u32 where [venus_consts]: "VN_CMD_vkGetPhysicalDeviceProperties = 6"
definition VN_CMD_vkGetPhysicalDeviceMemoryProperties :: u32 where [venus_consts]: "VN_CMD_vkGetPhysicalDeviceMemoryProperties = 8"
definition VN_CMD_vkCreateDevice :: u32 where [venus_consts]: "VN_CMD_vkCreateDevice = 11"
definition VN_CMD_vkGetDeviceQueue :: u32 where [venus_consts]: "VN_CMD_vkGetDeviceQueue = 17"
definition VN_CMD_vkQueueSubmit :: u32 where [venus_consts]: "VN_CMD_vkQueueSubmit = 18"
definition VN_CMD_vkQueueWaitIdle :: u32 where [venus_consts]: "VN_CMD_vkQueueWaitIdle = 19"
definition VN_CMD_vkGetBufferMemoryRequirements :: u32 where [venus_consts]: "VN_CMD_vkGetBufferMemoryRequirements = 30"
definition VN_CMD_vkGetDeviceQueue2 :: u32 where [venus_consts]: "VN_CMD_vkGetDeviceQueue2 = 155"
definition VN_CMD_vkSetReplyCommandStreamMESA :: u32 where [venus_consts]: "VN_CMD_vkSetReplyCommandStreamMESA = 178"
definition VN_CMD_vkCreateRingMESA :: u32 where [venus_consts]: "VN_CMD_vkCreateRingMESA = 188"
definition VN_CMD_vkDestroyRingMESA :: u32 where [venus_consts]: "VN_CMD_vkDestroyRingMESA = 189"
definition VN_CMD_vkNotifyRingMESA :: u32 where [venus_consts]: "VN_CMD_vkNotifyRingMESA = 190"

definition UK_VENUS_RING_HEAD_OFFSET :: u64 where [venus_consts]: "UK_VENUS_RING_HEAD_OFFSET = 0"
definition UK_VENUS_RING_TAIL_OFFSET :: u64 where [venus_consts]: "UK_VENUS_RING_TAIL_OFFSET = 64"
definition UK_VENUS_RING_STATUS_OFFSET :: u64 where [venus_consts]: "UK_VENUS_RING_STATUS_OFFSET = 128"
definition UK_VENUS_RING_BUFFER_OFFSET :: u64 where [venus_consts]: "UK_VENUS_RING_BUFFER_OFFSET = 192"
definition UK_VENUS_RING_CTRL_SIZE :: u64 where [venus_consts]: "UK_VENUS_RING_CTRL_SIZE = 192"
definition UK_VENUS_CAPSET_ID :: u32 where [venus_consts]: "UK_VENUS_CAPSET_ID = 4"
definition UK_VENUS_MAX_PHYSDEV :: u32 where [venus_consts]: "UK_VENUS_MAX_PHYSDEV = 16"

datatype pnext = RingMonitorInfo u32 | RingPriorityInfo u32 | DeviceQueueTimelineInfo u32 | OtherInfo u32

section \<open>Handles\<close>

definition vn_sizeof_handle :: u64 where "vn_sizeof_handle = 8"

definition vn_encode_VkInstance :: "uk_venus_encoder \<Rightarrow> u64 \<Rightarrow> uk_venus_encoder" where
  "vn_encode_VkInstance enc hdl = vn_encode_uint64_t enc (vn_cs_handle_load_id hdl)"
definition vn_encode_VkPhysicalDevice :: "uk_venus_encoder \<Rightarrow> u64 \<Rightarrow> uk_venus_encoder" where
  "vn_encode_VkPhysicalDevice enc hdl = vn_encode_uint64_t enc (vn_cs_handle_load_id hdl)"
definition vn_encode_VkDevice :: "uk_venus_encoder \<Rightarrow> u64 \<Rightarrow> uk_venus_encoder" where
  "vn_encode_VkDevice enc hdl = vn_encode_uint64_t enc (vn_cs_handle_load_id hdl)"
definition vn_encode_VkQueue :: "uk_venus_encoder \<Rightarrow> u64 \<Rightarrow> uk_venus_encoder" where
  "vn_encode_VkQueue enc hdl = vn_encode_uint64_t enc (vn_cs_handle_load_id hdl)"
definition vn_encode_VkFence :: "uk_venus_encoder \<Rightarrow> u64 \<Rightarrow> uk_venus_encoder" where
  "vn_encode_VkFence enc hdl = vn_encode_uint64_t enc (vn_cs_handle_load_id hdl)"
definition vn_encode_VkBuffer :: "uk_venus_encoder \<Rightarrow> u64 \<Rightarrow> uk_venus_encoder" where
  "vn_encode_VkBuffer enc hdl = vn_encode_uint64_t enc (vn_cs_handle_load_id hdl)"

text \<open>An optional string, as the encoders write it: its size with the NUL, then its bytes padded.\<close>

definition vn_encode_string :: "uk_venus_encoder \<Rightarrow> u8 list option \<Rightarrow> uk_venus_encoder" where
  "vn_encode_string enc str =
    (case str of
       Some s \<Rightarrow>
        (let string_size = of_nat (length s) + 1;
             enc = vn_encode_array_size enc string_size
         in vn_encode_char_array enc s string_size)
     | None \<Rightarrow> vn_encode_array_size enc 0)"

definition vn_sizeof_string :: "u8 list option \<Rightarrow> u64" where
  "vn_sizeof_string str =
    (case str of
       Some s \<Rightarrow> (let string_size = of_nat (length s) + 1
                  in vn_sizeof_array_size string_size + vn_sizeof_char_array string_size)
     | None \<Rightarrow> vn_sizeof_array_size 0)"

text \<open>A counted array of strings, or NULL.\<close>

definition vn_encode_strings :: "uk_venus_encoder \<Rightarrow> u32 \<Rightarrow> u8 list list option \<Rightarrow> uk_venus_encoder" where
  "vn_encode_strings enc n names =
    (case names of
       Some ns \<Rightarrow> fold (\<lambda>s enc. vn_encode_string enc (Some s)) (take (unat n) ns)
                    (vn_encode_array_size enc (ucast n))
     | None \<Rightarrow> vn_encode_array_size enc 0)"

section \<open>Transport commands\<close>

record VkCommandStreamDescriptionMESA =
  csd_resourceId :: u32
  csd_offset :: u64
  csd_size :: u64

definition vn_sizeof_VkCommandStreamDescriptionMESA :: u64 where
  "vn_sizeof_VkCommandStreamDescriptionMESA =
    vn_sizeof_uint32_t + vn_sizeof_size_t + vn_sizeof_size_t"

definition vn_encode_VkCommandStreamDescriptionMESA ::
    "uk_venus_encoder \<Rightarrow> VkCommandStreamDescriptionMESA \<Rightarrow> uk_venus_encoder" where
  "vn_encode_VkCommandStreamDescriptionMESA enc val =
    (let enc = vn_encode_uint32_t enc (csd_resourceId val);
         enc = vn_encode_size_t enc (csd_offset val)
     in vn_encode_size_t enc (csd_size val))"

record VkRingCreateInfoMESA =
  rci_pNext :: "pnext list"
  rci_flags :: u32
  rci_resourceId :: u32
  rci_offset :: u64
  rci_size :: u64
  rci_idleTimeout :: u64
  rci_headOffset :: u64
  rci_tailOffset :: u64
  rci_statusOffset :: u64
  rci_bufferOffset :: u64
  rci_bufferSize :: u64
  rci_extraOffset :: u64
  rci_extraSize :: u64

fun vn_encode_VkRingCreateInfoMESA_pnext :: "uk_venus_encoder \<Rightarrow> pnext list \<Rightarrow> uk_venus_encoder" where
  "vn_encode_VkRingCreateInfoMESA_pnext enc [] = vn_encode_simple_pointer enc False"
| "vn_encode_VkRingCreateInfoMESA_pnext enc (RingMonitorInfo v # ps) =
    (let enc = vn_encode_simple_pointer enc True;
         enc = vn_encode_VkStructureType enc ST_RING_MONITOR_INFO_MESA;
         enc = vn_encode_VkRingCreateInfoMESA_pnext enc ps
     in vn_encode_uint32_t enc v)"
| "vn_encode_VkRingCreateInfoMESA_pnext enc (RingPriorityInfo v # ps) =
    (let enc = vn_encode_simple_pointer enc True;
         enc = vn_encode_VkStructureType enc ST_RING_PRIORITY_INFO_MESA;
         enc = vn_encode_VkRingCreateInfoMESA_pnext enc ps
     in vn_encode_int32_t enc v)"
| "vn_encode_VkRingCreateInfoMESA_pnext enc (_ # ps) = vn_encode_VkRingCreateInfoMESA_pnext enc ps"

fun vn_sizeof_VkRingCreateInfoMESA_pnext :: "pnext list \<Rightarrow> u64" where
  "vn_sizeof_VkRingCreateInfoMESA_pnext [] = vn_sizeof_simple_pointer False"
| "vn_sizeof_VkRingCreateInfoMESA_pnext (RingMonitorInfo v # ps) =
    vn_sizeof_simple_pointer True + vn_sizeof_VkStructureType +
    vn_sizeof_VkRingCreateInfoMESA_pnext ps + vn_sizeof_uint32_t"
| "vn_sizeof_VkRingCreateInfoMESA_pnext (RingPriorityInfo v # ps) =
    vn_sizeof_simple_pointer True + vn_sizeof_VkStructureType +
    vn_sizeof_VkRingCreateInfoMESA_pnext ps + vn_sizeof_int32_t"
| "vn_sizeof_VkRingCreateInfoMESA_pnext (_ # ps) = vn_sizeof_VkRingCreateInfoMESA_pnext ps"

definition vn_encode_VkRingCreateInfoMESA_self ::
    "uk_venus_encoder \<Rightarrow> VkRingCreateInfoMESA \<Rightarrow> uk_venus_encoder" where
  "vn_encode_VkRingCreateInfoMESA_self enc val =
    (let enc = vn_encode_VkFlags enc (rci_flags val);
         enc = vn_encode_uint32_t enc (rci_resourceId val);
         enc = vn_encode_size_t enc (rci_offset val);
         enc = vn_encode_size_t enc (rci_size val);
         enc = vn_encode_uint64_t enc (rci_idleTimeout val);
         enc = vn_encode_size_t enc (rci_headOffset val);
         enc = vn_encode_size_t enc (rci_tailOffset val);
         enc = vn_encode_size_t enc (rci_statusOffset val);
         enc = vn_encode_size_t enc (rci_bufferOffset val);
         enc = vn_encode_size_t enc (rci_bufferSize val);
         enc = vn_encode_size_t enc (rci_extraOffset val)
     in vn_encode_size_t enc (rci_extraSize val))"

definition vn_sizeof_VkRingCreateInfoMESA_self :: u64 where
  "vn_sizeof_VkRingCreateInfoMESA_self =
    vn_sizeof_VkFlags + vn_sizeof_uint32_t + vn_sizeof_size_t + vn_sizeof_size_t +
    vn_sizeof_uint64_t + vn_sizeof_size_t + vn_sizeof_size_t + vn_sizeof_size_t +
    vn_sizeof_size_t + vn_sizeof_size_t + vn_sizeof_size_t + vn_sizeof_size_t"

definition vn_encode_VkRingCreateInfoMESA ::
    "uk_venus_encoder \<Rightarrow> VkRingCreateInfoMESA \<Rightarrow> uk_venus_encoder" where
  "vn_encode_VkRingCreateInfoMESA enc val =
    (let enc = vn_encode_VkStructureType enc ST_RING_CREATE_INFO_MESA;
         enc = vn_encode_VkRingCreateInfoMESA_pnext enc (rci_pNext val)
     in vn_encode_VkRingCreateInfoMESA_self enc val)"

definition vn_sizeof_VkRingCreateInfoMESA :: "VkRingCreateInfoMESA \<Rightarrow> u64" where
  "vn_sizeof_VkRingCreateInfoMESA val =
    vn_sizeof_VkStructureType + vn_sizeof_VkRingCreateInfoMESA_pnext (rci_pNext val) +
    vn_sizeof_VkRingCreateInfoMESA_self"

definition vn_encode_vkSetReplyCommandStreamMESA ::
    "uk_venus_encoder \<Rightarrow> u32 \<Rightarrow> VkCommandStreamDescriptionMESA option \<Rightarrow> uk_venus_encoder" where
  "vn_encode_vkSetReplyCommandStreamMESA enc cmd_flags pStream =
    (let enc = vn_encode_VkCommandTypeEXT enc VN_CMD_vkSetReplyCommandStreamMESA;
         enc = vn_encode_VkFlags enc cmd_flags;
         enc = vn_encode_simple_pointer enc (pStream \<noteq> None)
     in case pStream of Some st \<Rightarrow> vn_encode_VkCommandStreamDescriptionMESA enc st | None \<Rightarrow> enc)"

definition vn_sizeof_vkSetReplyCommandStreamMESA :: "VkCommandStreamDescriptionMESA option \<Rightarrow> u64" where
  "vn_sizeof_vkSetReplyCommandStreamMESA pStream =
    vn_sizeof_VkCommandTypeEXT + vn_sizeof_VkFlags + vn_sizeof_simple_pointer (pStream \<noteq> None) +
    (case pStream of Some _ \<Rightarrow> vn_sizeof_VkCommandStreamDescriptionMESA | None \<Rightarrow> 0)"

definition vn_encode_vkCreateRingMESA ::
    "uk_venus_encoder \<Rightarrow> u32 \<Rightarrow> u64 \<Rightarrow> VkRingCreateInfoMESA option \<Rightarrow> uk_venus_encoder" where
  "vn_encode_vkCreateRingMESA enc cmd_flags ring pCreateInfo =
    (let enc = vn_encode_VkCommandTypeEXT enc VN_CMD_vkCreateRingMESA;
         enc = vn_encode_VkFlags enc cmd_flags;
         enc = vn_encode_uint64_t enc ring;
         enc = vn_encode_simple_pointer enc (pCreateInfo \<noteq> None)
     in case pCreateInfo of Some ci \<Rightarrow> vn_encode_VkRingCreateInfoMESA enc ci | None \<Rightarrow> enc)"

definition vn_sizeof_vkCreateRingMESA :: "VkRingCreateInfoMESA option \<Rightarrow> u64" where
  "vn_sizeof_vkCreateRingMESA pCreateInfo =
    vn_sizeof_VkCommandTypeEXT + vn_sizeof_VkFlags + vn_sizeof_uint64_t +
    vn_sizeof_simple_pointer (pCreateInfo \<noteq> None) +
    (case pCreateInfo of Some ci \<Rightarrow> vn_sizeof_VkRingCreateInfoMESA ci | None \<Rightarrow> 0)"

definition vn_encode_vkDestroyRingMESA :: "uk_venus_encoder \<Rightarrow> u32 \<Rightarrow> u64 \<Rightarrow> uk_venus_encoder" where
  "vn_encode_vkDestroyRingMESA enc cmd_flags ring =
    (let enc = vn_encode_VkCommandTypeEXT enc VN_CMD_vkDestroyRingMESA;
         enc = vn_encode_VkFlags enc cmd_flags
     in vn_encode_uint64_t enc ring)"

definition vn_sizeof_vkDestroyRingMESA :: u64 where
  "vn_sizeof_vkDestroyRingMESA = vn_sizeof_VkCommandTypeEXT + vn_sizeof_VkFlags + vn_sizeof_uint64_t"

definition vn_encode_vkNotifyRingMESA ::
    "uk_venus_encoder \<Rightarrow> u32 \<Rightarrow> u64 \<Rightarrow> u32 \<Rightarrow> u32 \<Rightarrow> uk_venus_encoder" where
  "vn_encode_vkNotifyRingMESA enc cmd_flags ring seqno flags =
    (let enc = vn_encode_VkCommandTypeEXT enc VN_CMD_vkNotifyRingMESA;
         enc = vn_encode_VkFlags enc cmd_flags;
         enc = vn_encode_uint64_t enc ring;
         enc = vn_encode_uint32_t enc seqno
     in vn_encode_VkFlags enc flags)"

definition vn_sizeof_vkNotifyRingMESA :: u64 where
  "vn_sizeof_vkNotifyRingMESA =
    vn_sizeof_VkCommandTypeEXT + vn_sizeof_VkFlags + vn_sizeof_uint64_t + vn_sizeof_uint32_t + vn_sizeof_VkFlags"

definition uk_venus_encode_vkSetReplyCommandStreamMESA ::
    "uk_venus_encoder \<Rightarrow> u32 \<Rightarrow> u64 \<Rightarrow> u64 \<Rightarrow> uk_venus_encoder" where
  "uk_venus_encode_vkSetReplyCommandStreamMESA enc resource_id off sz =
    vn_encode_vkSetReplyCommandStreamMESA enc 0
      (Some \<lparr> csd_resourceId = resource_id, csd_offset = off, csd_size = sz \<rparr>)"

definition ring_create_info :: "u32 \<Rightarrow> u64 \<Rightarrow> u64 \<Rightarrow> VkRingCreateInfoMESA" where
  "ring_create_info resource_id bsize buf_size =
    \<lparr> rci_pNext = [], rci_flags = 0, rci_resourceId = resource_id, rci_offset = 0,
      rci_size = bsize, rci_idleTimeout = 0, rci_headOffset = UK_VENUS_RING_HEAD_OFFSET,
      rci_tailOffset = UK_VENUS_RING_TAIL_OFFSET, rci_statusOffset = UK_VENUS_RING_STATUS_OFFSET,
      rci_bufferOffset = UK_VENUS_RING_BUFFER_OFFSET, rci_bufferSize = buf_size,
      rci_extraOffset = UK_VENUS_RING_BUFFER_OFFSET + buf_size, rci_extraSize = 0 \<rparr>"

definition uk_venus_encode_vkCreateRingMESA ::
    "uk_venus_encoder \<Rightarrow> u64 \<Rightarrow> u32 \<Rightarrow> u64 \<Rightarrow> u64 \<Rightarrow> uk_venus_encoder" where
  "uk_venus_encode_vkCreateRingMESA enc ring_id resource_id bsize buf_size =
    vn_encode_vkCreateRingMESA enc 0 ring_id (Some (ring_create_info resource_id bsize buf_size))"

definition uk_venus_encode_vkDestroyRingMESA :: "uk_venus_encoder \<Rightarrow> u64 \<Rightarrow> uk_venus_encoder" where
  "uk_venus_encode_vkDestroyRingMESA enc ring_id = vn_encode_vkDestroyRingMESA enc 0 ring_id"

definition uk_venus_encode_vkNotifyRingMESA ::
    "uk_venus_encoder \<Rightarrow> u64 \<Rightarrow> u32 \<Rightarrow> uk_venus_encoder" where
  "uk_venus_encode_vkNotifyRingMESA enc ring_id seqno =
    vn_encode_vkNotifyRingMESA enc 0 ring_id seqno 0"

section \<open>Instance and physical devices\<close>

record VkApplicationInfo =
  ai_pApplicationName :: "u8 list option"
  ai_applicationVersion :: u32
  ai_pEngineName :: "u8 list option"
  ai_engineVersion :: u32
  ai_apiVersion :: u32

record VkInstanceCreateInfo =
  ici_flags :: u32
  ici_pApplicationInfo :: "VkApplicationInfo option"
  ici_enabledLayerCount :: u32
  ici_ppEnabledLayerNames :: "u8 list list option"
  ici_enabledExtensionCount :: u32
  ici_ppEnabledExtensionNames :: "u8 list list option"

definition vn_encode_VkApplicationInfo_self ::
    "uk_venus_encoder \<Rightarrow> VkApplicationInfo \<Rightarrow> uk_venus_encoder" where
  "vn_encode_VkApplicationInfo_self enc val =
    (let enc = vn_encode_string enc (ai_pApplicationName val);
         enc = vn_encode_uint32_t enc (ai_applicationVersion val);
         enc = vn_encode_string enc (ai_pEngineName val);
         enc = vn_encode_uint32_t enc (ai_engineVersion val)
     in vn_encode_uint32_t enc (ai_apiVersion val))"

definition vn_encode_VkApplicationInfo ::
    "vk_headers \<Rightarrow> uk_venus_encoder \<Rightarrow> VkApplicationInfo \<Rightarrow> uk_venus_encoder" where
  "vn_encode_VkApplicationInfo H enc val =
    (let enc = vn_encode_VkStructureType enc (ST_APPLICATION_INFO H);
         enc = vn_encode_simple_pointer enc False
     in vn_encode_VkApplicationInfo_self enc val)"

definition vn_encode_VkInstanceCreateInfo_self ::
    "vk_headers \<Rightarrow> uk_venus_encoder \<Rightarrow> VkInstanceCreateInfo \<Rightarrow> uk_venus_encoder" where
  "vn_encode_VkInstanceCreateInfo_self H enc val =
    (let enc = vn_encode_VkFlags enc (ici_flags val);
         enc = vn_encode_simple_pointer enc (ici_pApplicationInfo val \<noteq> None);
         enc = (case ici_pApplicationInfo val of
                  Some ai \<Rightarrow> vn_encode_VkApplicationInfo H enc ai | None \<Rightarrow> enc);
         enc = vn_encode_uint32_t enc (ici_enabledLayerCount val);
         enc = vn_encode_strings enc (ici_enabledLayerCount val) (ici_ppEnabledLayerNames val);
         enc = vn_encode_uint32_t enc (ici_enabledExtensionCount val)
     in vn_encode_strings enc (ici_enabledExtensionCount val) (ici_ppEnabledExtensionNames val))"

definition vn_encode_VkInstanceCreateInfo ::
    "vk_headers \<Rightarrow> uk_venus_encoder \<Rightarrow> VkInstanceCreateInfo \<Rightarrow> uk_venus_encoder" where
  "vn_encode_VkInstanceCreateInfo H enc val =
    (let enc = vn_encode_VkStructureType enc (ST_INSTANCE_CREATE_INFO H);
         enc = vn_encode_simple_pointer enc False
     in vn_encode_VkInstanceCreateInfo_self H enc val)"

text \<open>\<open>pAllocator\<close> is NULL in every call (the generated code asserts it).\<close>

definition vn_encode_vkCreateInstance :: "vk_headers \<Rightarrow> uk_venus_encoder \<Rightarrow> u32
    \<Rightarrow> VkInstanceCreateInfo option \<Rightarrow> u64 option \<Rightarrow> uk_venus_encoder" where
  "vn_encode_vkCreateInstance H enc cmd_flags pCreateInfo pInstance =
    (let enc = vn_encode_VkCommandTypeEXT enc VN_CMD_vkCreateInstance;
         enc = vn_encode_VkFlags enc cmd_flags;
         enc = vn_encode_simple_pointer enc (pCreateInfo \<noteq> None);
         enc = (case pCreateInfo of Some ci \<Rightarrow> vn_encode_VkInstanceCreateInfo H enc ci | None \<Rightarrow> enc);
         enc = vn_encode_simple_pointer enc False;
         enc = vn_encode_simple_pointer enc (pInstance \<noteq> None)
     in case pInstance of Some i \<Rightarrow> vn_encode_VkInstance enc i | None \<Rightarrow> enc)"

text \<open>The bytes of \<open>"unikraft-venus"\<close>.\<close>

definition engine_name :: "u8 list" where
  "engine_name = [117, 110, 105, 107, 114, 97, 102, 116, 45, 118, 101, 110, 117, 115]"

definition uk_venus_encode_vkCreateInstance :: "vk_headers \<Rightarrow> uk_venus_encoder \<Rightarrow> u64
    \<Rightarrow> u8 list option \<Rightarrow> u32 \<Rightarrow> u32 \<Rightarrow> u8 list list option \<Rightarrow> uk_venus_encoder" where
  "uk_venus_encode_vkCreateInstance H enc instance_handle app_name api_version n_extensions extensions =
    vn_encode_vkCreateInstance H enc 0
      (Some \<lparr> ici_flags = 0,
              ici_pApplicationInfo = Some \<lparr> ai_pApplicationName = app_name,
                ai_applicationVersion = 0, ai_pEngineName = Some engine_name,
                ai_engineVersion = 1, ai_apiVersion = api_version \<rparr>,
              ici_enabledLayerCount = 0, ici_ppEnabledLayerNames = None,
              ici_enabledExtensionCount = n_extensions,
              ici_ppEnabledExtensionNames = (if n_extensions \<noteq> 0 then extensions else None) \<rparr>)
      (Some instance_handle)"

definition vn_encode_vkEnumeratePhysicalDevices :: "uk_venus_encoder \<Rightarrow> u32 \<Rightarrow> u64 \<Rightarrow> u32 option
    \<Rightarrow> u64 list option \<Rightarrow> uk_venus_encoder" where
  "vn_encode_vkEnumeratePhysicalDevices enc cmd_flags inst pCount pDevices =
    (let n = (case pCount of Some c \<Rightarrow> c | None \<Rightarrow> 0);
         enc = vn_encode_VkCommandTypeEXT enc VN_CMD_vkEnumeratePhysicalDevices;
         enc = vn_encode_VkFlags enc cmd_flags;
         enc = vn_encode_VkInstance enc inst;
         enc = vn_encode_simple_pointer enc (pCount \<noteq> None);
         enc = (case pCount of Some c \<Rightarrow> vn_encode_uint32_t enc c | None \<Rightarrow> enc)
     in case pDevices of
          Some pds \<Rightarrow> fold (\<lambda>pd enc. vn_encode_VkPhysicalDevice enc pd) (take (unat n) pds)
                         (vn_encode_array_size enc (ucast n))
        | None \<Rightarrow> vn_encode_array_size enc 0)"

text \<open>The handles array has at least the counted entries (at most 16 are read).\<close>

definition uk_venus_encode_vkEnumeratePhysicalDevices :: "uk_venus_encoder \<Rightarrow> u64 \<Rightarrow> u32
    \<Rightarrow> u64 list option \<Rightarrow> uk_venus_encoder" where
  "uk_venus_encode_vkEnumeratePhysicalDevices enc instance_handle max_devices device_handles =
    (let count = (if max_devices > UK_VENUS_MAX_PHYSDEV then UK_VENUS_MAX_PHYSDEV else max_devices);
         pd = (case device_handles of Some hs \<Rightarrow> take (unat count) hs
               | None \<Rightarrow> replicate (unat count) 0)
     in vn_encode_vkEnumeratePhysicalDevices enc 0 instance_handle (Some count)
          (if count \<noteq> 0 \<and> device_handles \<noteq> None then Some pd else None))"

section \<open>Devices and queues\<close>

record VkDeviceQueueCreateInfo =
  qci_flags :: u32
  qci_queueFamilyIndex :: u32
  qci_queueCount :: u32
  qci_pQueuePriorities :: "u32 list option"

record VkDeviceCreateInfo =
  dci_flags :: u32
  dci_queueCreateInfoCount :: u32
  dci_pQueueCreateInfos :: "VkDeviceQueueCreateInfo list option"
  dci_enabledLayerCount :: u32
  dci_ppEnabledLayerNames :: "u8 list list option"
  dci_enabledExtensionCount :: u32
  dci_ppEnabledExtensionNames :: "u8 list list option"

definition vn_encode_float_array :: "uk_venus_encoder \<Rightarrow> u32 list \<Rightarrow> u32 \<Rightarrow> uk_venus_encoder" where
  "vn_encode_float_array enc val count =
    (let sz = 4 * ucast count in vn_encode enc sz (concat (map le32 (take (unat count) val))) sz)"

text \<open>The \<open>pNext\<close> chain of both structures is NULL in the sources' calls.\<close>

definition vn_encode_VkDeviceQueueCreateInfo_self ::
    "uk_venus_encoder \<Rightarrow> VkDeviceQueueCreateInfo \<Rightarrow> uk_venus_encoder" where
  "vn_encode_VkDeviceQueueCreateInfo_self enc val =
    (let enc = vn_encode_VkFlags enc (qci_flags val);
         enc = vn_encode_uint32_t enc (qci_queueFamilyIndex val);
         enc = vn_encode_uint32_t enc (qci_queueCount val)
     in case qci_pQueuePriorities val of
          Some ps \<Rightarrow> vn_encode_float_array (vn_encode_array_size enc (ucast (qci_queueCount val)))
                       ps (qci_queueCount val)
        | None \<Rightarrow> vn_encode_array_size enc 0)"

definition vn_encode_VkDeviceQueueCreateInfo ::
    "vk_headers \<Rightarrow> uk_venus_encoder \<Rightarrow> VkDeviceQueueCreateInfo \<Rightarrow> uk_venus_encoder" where
  "vn_encode_VkDeviceQueueCreateInfo H enc val =
    (let enc = vn_encode_VkStructureType enc (ST_DEVICE_QUEUE_CREATE_INFO H);
         enc = vn_encode_simple_pointer enc False
     in vn_encode_VkDeviceQueueCreateInfo_self enc val)"

text \<open>\<open>pEnabledFeatures\<close> is NULL in the sources' call.\<close>

definition vn_encode_VkDeviceCreateInfo_self ::
    "vk_headers \<Rightarrow> uk_venus_encoder \<Rightarrow> VkDeviceCreateInfo \<Rightarrow> uk_venus_encoder" where
  "vn_encode_VkDeviceCreateInfo_self H enc val =
    (let enc = vn_encode_VkFlags enc (dci_flags val);
         enc = vn_encode_uint32_t enc (dci_queueCreateInfoCount val);
         enc = (case dci_pQueueCreateInfos val of
                  Some qs \<Rightarrow> fold (\<lambda>q enc. vn_encode_VkDeviceQueueCreateInfo H enc q)
                               (take (unat (dci_queueCreateInfoCount val)) qs)
                               (vn_encode_array_size enc (ucast (dci_queueCreateInfoCount val)))
                | None \<Rightarrow> vn_encode_array_size enc 0);
         enc = vn_encode_uint32_t enc (dci_enabledLayerCount val);
         enc = vn_encode_strings enc (dci_enabledLayerCount val) (dci_ppEnabledLayerNames val);
         enc = vn_encode_uint32_t enc (dci_enabledExtensionCount val);
         enc = vn_encode_strings enc (dci_enabledExtensionCount val) (dci_ppEnabledExtensionNames val)
     in vn_encode_simple_pointer enc False)"

definition vn_encode_VkDeviceCreateInfo ::
    "vk_headers \<Rightarrow> uk_venus_encoder \<Rightarrow> VkDeviceCreateInfo \<Rightarrow> uk_venus_encoder" where
  "vn_encode_VkDeviceCreateInfo H enc val =
    (let enc = vn_encode_VkStructureType enc (ST_DEVICE_CREATE_INFO H);
         enc = vn_encode_simple_pointer enc False
     in vn_encode_VkDeviceCreateInfo_self H enc val)"

definition vn_encode_vkCreateDevice :: "vk_headers \<Rightarrow> uk_venus_encoder \<Rightarrow> u32 \<Rightarrow> u64
    \<Rightarrow> VkDeviceCreateInfo option \<Rightarrow> u64 option \<Rightarrow> uk_venus_encoder" where
  "vn_encode_vkCreateDevice H enc cmd_flags physicalDevice pCreateInfo pDevice =
    (let enc = vn_encode_VkCommandTypeEXT enc VN_CMD_vkCreateDevice;
         enc = vn_encode_VkFlags enc cmd_flags;
         enc = vn_encode_VkPhysicalDevice enc physicalDevice;
         enc = vn_encode_simple_pointer enc (pCreateInfo \<noteq> None);
         enc = (case pCreateInfo of Some ci \<Rightarrow> vn_encode_VkDeviceCreateInfo H enc ci | None \<Rightarrow> enc);
         enc = vn_encode_simple_pointer enc False;
         enc = vn_encode_simple_pointer enc (pDevice \<noteq> None)
     in case pDevice of Some d \<Rightarrow> vn_encode_VkDevice enc d | None \<Rightarrow> enc)"

definition uk_venus_encode_vkCreateDevice :: "vk_headers \<Rightarrow> uk_venus_encoder \<Rightarrow> u64 \<Rightarrow> u64 \<Rightarrow> u32
    \<Rightarrow> u32 \<Rightarrow> u32 \<Rightarrow> u8 list list option \<Rightarrow> uk_venus_encoder" where
  "uk_venus_encode_vkCreateDevice H enc physical_device_handle device_handle queue_family_index
      queue_priority n_extensions extensions =
    vn_encode_vkCreateDevice H enc 0 physical_device_handle
      (Some \<lparr> dci_flags = 0, dci_queueCreateInfoCount = 1,
              dci_pQueueCreateInfos = Some [\<lparr> qci_flags = 0, qci_queueFamilyIndex = queue_family_index,
                qci_queueCount = 1, qci_pQueuePriorities = Some [queue_priority] \<rparr>],
              dci_enabledLayerCount = 0, dci_ppEnabledLayerNames = None,
              dci_enabledExtensionCount = n_extensions,
              dci_ppEnabledExtensionNames = (if n_extensions \<noteq> 0 then extensions else None) \<rparr>)
      (Some device_handle)"

definition vn_encode_vkGetDeviceQueue :: "uk_venus_encoder \<Rightarrow> u32 \<Rightarrow> u64 \<Rightarrow> u32 \<Rightarrow> u32 \<Rightarrow> u64 option
    \<Rightarrow> uk_venus_encoder" where
  "vn_encode_vkGetDeviceQueue enc cmd_flags device queueFamilyIndex queueIndex pQueue =
    (let enc = vn_encode_VkCommandTypeEXT enc VN_CMD_vkGetDeviceQueue;
         enc = vn_encode_VkFlags enc cmd_flags;
         enc = vn_encode_VkDevice enc device;
         enc = vn_encode_uint32_t enc queueFamilyIndex;
         enc = vn_encode_uint32_t enc queueIndex;
         enc = vn_encode_simple_pointer enc (pQueue \<noteq> None)
     in case pQueue of Some q \<Rightarrow> vn_encode_VkQueue enc q | None \<Rightarrow> enc)"

definition uk_venus_encode_vkGetDeviceQueue :: "uk_venus_encoder \<Rightarrow> u64 \<Rightarrow> u32 \<Rightarrow> u32 \<Rightarrow> u64
    \<Rightarrow> uk_venus_encoder" where
  "uk_venus_encode_vkGetDeviceQueue enc device_handle queue_family_index queue_index queue_handle =
    vn_encode_vkGetDeviceQueue enc 0 device_handle queue_family_index queue_index (Some queue_handle)"

record VkDeviceQueueInfo2 =
  dqi_pNext :: "pnext list"
  dqi_flags :: u32
  dqi_queueFamilyIndex :: u32
  dqi_queueIndex :: u32

fun vn_encode_VkDeviceQueueInfo2_pnext :: "uk_venus_encoder \<Rightarrow> pnext list \<Rightarrow> uk_venus_encoder" where
  "vn_encode_VkDeviceQueueInfo2_pnext enc [] = vn_encode_simple_pointer enc False"
| "vn_encode_VkDeviceQueueInfo2_pnext enc (DeviceQueueTimelineInfo v # ps) =
    (let enc = vn_encode_simple_pointer enc True;
         enc = vn_encode_VkStructureType enc ST_DEVICE_QUEUE_TIMELINE_INFO_MESA;
         enc = vn_encode_VkDeviceQueueInfo2_pnext enc ps
     in vn_encode_uint32_t enc v)"
| "vn_encode_VkDeviceQueueInfo2_pnext enc (_ # ps) = vn_encode_VkDeviceQueueInfo2_pnext enc ps"

definition vn_encode_VkDeviceQueueInfo2 ::
    "vk_headers \<Rightarrow> uk_venus_encoder \<Rightarrow> VkDeviceQueueInfo2 \<Rightarrow> uk_venus_encoder" where
  "vn_encode_VkDeviceQueueInfo2 H enc val =
    (let enc = vn_encode_VkStructureType enc (ST_DEVICE_QUEUE_INFO_2 H);
         enc = vn_encode_VkDeviceQueueInfo2_pnext enc (dqi_pNext val);
         enc = vn_encode_VkFlags enc (dqi_flags val);
         enc = vn_encode_uint32_t enc (dqi_queueFamilyIndex val)
     in vn_encode_uint32_t enc (dqi_queueIndex val))"

definition vn_encode_vkGetDeviceQueue2 :: "vk_headers \<Rightarrow> uk_venus_encoder \<Rightarrow> u32 \<Rightarrow> u64
    \<Rightarrow> VkDeviceQueueInfo2 option \<Rightarrow> u64 option \<Rightarrow> uk_venus_encoder" where
  "vn_encode_vkGetDeviceQueue2 H enc cmd_flags device pQueueInfo pQueue =
    (let enc = vn_encode_VkCommandTypeEXT enc VN_CMD_vkGetDeviceQueue2;
         enc = vn_encode_VkFlags enc cmd_flags;
         enc = vn_encode_VkDevice enc device;
         enc = vn_encode_simple_pointer enc (pQueueInfo \<noteq> None);
         enc = (case pQueueInfo of Some qi \<Rightarrow> vn_encode_VkDeviceQueueInfo2 H enc qi | None \<Rightarrow> enc);
         enc = vn_encode_simple_pointer enc (pQueue \<noteq> None)
     in case pQueue of Some q \<Rightarrow> vn_encode_VkQueue enc q | None \<Rightarrow> enc)"

definition uk_venus_encode_vkGetDeviceQueue2 :: "vk_headers \<Rightarrow> uk_venus_encoder \<Rightarrow> u64 \<Rightarrow> u32 \<Rightarrow> u32
    \<Rightarrow> u32 \<Rightarrow> u64 \<Rightarrow> uk_venus_encoder" where
  "uk_venus_encode_vkGetDeviceQueue2 H enc device_handle queue_family_index queue_index ring_idx queue_handle =
    vn_encode_vkGetDeviceQueue2 H enc 0 device_handle
      (Some \<lparr> dqi_pNext = [DeviceQueueTimelineInfo ring_idx], dqi_flags = 0,
              dqi_queueFamilyIndex = queue_family_index, dqi_queueIndex = queue_index \<rparr>)
      (Some queue_handle)"

text \<open>\<open>vkQueueSubmit\<close> with no submissions: \<open>pSubmits\<close> is NULL.\<close>

definition vn_encode_vkQueueSubmit_null :: "uk_venus_encoder \<Rightarrow> u32 \<Rightarrow> u64 \<Rightarrow> u32 \<Rightarrow> u64
    \<Rightarrow> uk_venus_encoder" where
  "vn_encode_vkQueueSubmit_null enc cmd_flags queue submitCount fence =
    (let enc = vn_encode_VkCommandTypeEXT enc VN_CMD_vkQueueSubmit;
         enc = vn_encode_VkFlags enc cmd_flags;
         enc = vn_encode_VkQueue enc queue;
         enc = vn_encode_uint32_t enc submitCount;
         enc = vn_encode_array_size enc 0
     in vn_encode_VkFence enc fence)"

definition uk_venus_encode_vkQueueSubmit_empty :: "uk_venus_encoder \<Rightarrow> u64 \<Rightarrow> u64 \<Rightarrow> uk_venus_encoder" where
  "uk_venus_encode_vkQueueSubmit_empty enc queue_handle fence_handle =
    vn_encode_vkQueueSubmit_null enc 0 queue_handle 0 fence_handle"

section \<open>Queries\<close>

text \<open>In a request the properties are written partially: no field but the array sizes.\<close>

definition vn_encode_vkGetPhysicalDeviceProperties :: "uk_venus_encoder \<Rightarrow> u32 \<Rightarrow> u64 \<Rightarrow> bool
    \<Rightarrow> uk_venus_encoder" where
  "vn_encode_vkGetPhysicalDeviceProperties enc cmd_flags physicalDevice pProperties =
    (let enc = vn_encode_VkCommandTypeEXT enc VN_CMD_vkGetPhysicalDeviceProperties;
         enc = vn_encode_VkFlags enc cmd_flags;
         enc = vn_encode_VkPhysicalDevice enc physicalDevice
     in vn_encode_simple_pointer enc pProperties)"

definition uk_venus_encode_vkGetPhysicalDeviceProperties ::
    "uk_venus_encoder \<Rightarrow> u64 \<Rightarrow> uk_venus_encoder" where
  "uk_venus_encode_vkGetPhysicalDeviceProperties enc physdev_handle =
    vn_encode_vkGetPhysicalDeviceProperties enc GENERATE_REPLY_BIT_EXT physdev_handle True"

definition vn_encode_VkPhysicalDeviceMemoryProperties_partial ::
    "vk_headers \<Rightarrow> uk_venus_encoder \<Rightarrow> uk_venus_encoder" where
  "vn_encode_VkPhysicalDeviceMemoryProperties_partial H enc =
    (let enc = vn_encode_array_size enc (of_nat (MAX_MEMORY_TYPES H))
     in vn_encode_array_size enc (of_nat (MAX_MEMORY_HEAPS H)))"

definition vn_encode_vkGetPhysicalDeviceMemoryProperties :: "vk_headers \<Rightarrow> uk_venus_encoder \<Rightarrow> u32
    \<Rightarrow> u64 \<Rightarrow> bool \<Rightarrow> uk_venus_encoder" where
  "vn_encode_vkGetPhysicalDeviceMemoryProperties H enc cmd_flags physicalDevice pProperties =
    (let enc = vn_encode_VkCommandTypeEXT enc VN_CMD_vkGetPhysicalDeviceMemoryProperties;
         enc = vn_encode_VkFlags enc cmd_flags;
         enc = vn_encode_VkPhysicalDevice enc physicalDevice;
         enc = vn_encode_simple_pointer enc pProperties
     in if pProperties then vn_encode_VkPhysicalDeviceMemoryProperties_partial H enc else enc)"

definition uk_venus_encode_vkGetPhysicalDeviceMemoryProperties ::
    "vk_headers \<Rightarrow> uk_venus_encoder \<Rightarrow> u64 \<Rightarrow> uk_venus_encoder" where
  "uk_venus_encode_vkGetPhysicalDeviceMemoryProperties H enc physdev_handle =
    vn_encode_vkGetPhysicalDeviceMemoryProperties H enc GENERATE_REPLY_BIT_EXT physdev_handle True"

definition vn_encode_vkGetBufferMemoryRequirements :: "uk_venus_encoder \<Rightarrow> u32 \<Rightarrow> u64 \<Rightarrow> u64 \<Rightarrow> bool
    \<Rightarrow> uk_venus_encoder" where
  "vn_encode_vkGetBufferMemoryRequirements enc cmd_flags device buffer pRequirements =
    (let enc = vn_encode_VkCommandTypeEXT enc VN_CMD_vkGetBufferMemoryRequirements;
         enc = vn_encode_VkFlags enc cmd_flags;
         enc = vn_encode_VkDevice enc device;
         enc = vn_encode_VkBuffer enc buffer
     in vn_encode_simple_pointer enc pRequirements)"

definition uk_venus_encode_vkGetBufferMemoryRequirements ::
    "uk_venus_encoder \<Rightarrow> u64 \<Rightarrow> u64 \<Rightarrow> uk_venus_encoder" where
  "uk_venus_encode_vkGetBufferMemoryRequirements enc device buffer =
    vn_encode_vkGetBufferMemoryRequirements enc GENERATE_REPLY_BIT_EXT device buffer True"

definition vn_encode_vkQueueWaitIdle :: "uk_venus_encoder \<Rightarrow> u32 \<Rightarrow> u64 \<Rightarrow> uk_venus_encoder" where
  "vn_encode_vkQueueWaitIdle enc cmd_flags queue =
    (let enc = vn_encode_VkCommandTypeEXT enc VN_CMD_vkQueueWaitIdle;
         enc = vn_encode_VkFlags enc cmd_flags
     in vn_encode_VkQueue enc queue)"

definition uk_venus_encode_vkQueueWaitIdle :: "uk_venus_encoder \<Rightarrow> u64 \<Rightarrow> uk_venus_encoder" where
  "uk_venus_encode_vkQueueWaitIdle enc queue = vn_encode_vkQueueWaitIdle enc 0 queue"

end
