(* ===== verification/Venus_Wire.thy ===== *)
theory Venus_Wire
  imports Venus_Commands
begin

text \<open>
  The wire format of the Venus commands as lists of chunks, the lemmas that reduce every encoder to
  its chunks, and what a sequence of commands leaves in the buffer.
\<close>

section \<open>Chunks of strings and extension chains\<close>

definition str_chunks :: "u8 list option \<Rightarrow> u8 list list" where
  "str_chunks str = (case str of None \<Rightarrow> [le64 0]
     | Some s \<Rightarrow> le64 (of_nat (length s) + 1) # (s @ [0]) # pad4 (length s + 1))"

definition strs_chunks :: "u32 \<Rightarrow> u8 list list option \<Rightarrow> u8 list list" where
  "strs_chunks n names = (case names of None \<Rightarrow> [le64 0]
     | Some ns \<Rightarrow> le64 (ucast n) # concat (map (\<lambda>s. str_chunks (Some s)) (take (unat n) ns)))"

fun ring_pnext_chunks :: "pnext list \<Rightarrow> u8 list list" where
  "ring_pnext_chunks [] = [le64 0]"
| "ring_pnext_chunks (RingMonitorInfo v # ps) =
    [le64 1, le32 ST_RING_MONITOR_INFO_MESA] @ ring_pnext_chunks ps @ [le32 v]"
| "ring_pnext_chunks (RingPriorityInfo v # ps) =
    [le64 1, le32 ST_RING_PRIORITY_INFO_MESA] @ ring_pnext_chunks ps @ [le32 v]"
| "ring_pnext_chunks (_ # ps) = ring_pnext_chunks ps"

definition short_str :: "u8 list \<Rightarrow> bool" where
  "short_str s \<longleftrightarrow> length s < 2 ^ 61"

definition short_opt :: "u8 list option \<Rightarrow> bool" where
  "short_opt s \<longleftrightarrow> (case s of None \<Rightarrow> True | Some s \<Rightarrow> short_str s)"

definition short_strs :: "u8 list list option \<Rightarrow> bool" where
  "short_strs ns \<longleftrightarrow> (case ns of None \<Rightarrow> True | Some ns \<Rightarrow> \<forall>s\<in>set ns. short_str s)"

lemma fold_puts:
  assumes "\<And>x e. x \<in> set xs \<Longrightarrow> f x e = vs.puts (g x) e"
  shows "fold f xs e = vs.puts (concat (map g xs)) e"
  using assms by (induction xs arbitrary: e) (simp_all add: vs.puts_append)

lemma puts_puts: "vs.puts ds (vs.puts cs e) = vs.puts (cs @ ds) e"
  by (simp only: vs.puts_append)

lemma string_chunks: "short_opt s \<Longrightarrow> vn_encode_string e s = vs.puts (str_chunks s) e"
  by (auto simp: vn_encode_string_def str_chunks_def short_opt_def short_str_def char_array_chunks
      chunk_simps Let_def split: option.split)

lemma strings_chunks: "short_strs ns \<Longrightarrow> vn_encode_strings e n ns = vs.puts (strs_chunks n ns) e"
  by (auto simp: vn_encode_strings_def strs_chunks_def short_strs_def chunk_simps string_chunks
      short_opt_def split: option.split intro!: fold_puts [THEN trans] dest!: in_set_takeD)

lemma ring_pnext_encode [chunk_simps]:
  "vn_encode_VkRingCreateInfoMESA_pnext e ps = vs.puts (ring_pnext_chunks ps) e"
  by (induction e ps rule: vn_encode_VkRingCreateInfoMESA_pnext.induct)
    (simp_all only: vn_encode_VkRingCreateInfoMESA_pnext.simps ring_pnext_chunks.simps chunk_simps
      puts_puts append_Cons append_Nil Let_def simp_thms if_True if_False)

lemma float_chunk [chunk_simps]: "vn_encode_float_array e [p] 1 = vs.puts [le32 p] e"
  using vn_encode_exact[of "le32 p" e] by (simp add: vn_encode_float_array_def)

lemma handle_chunks [chunk_simps]:
  "vn_encode_VkInstance e h = vs.puts [le64 h] e"
  "vn_encode_VkPhysicalDevice e h = vs.puts [le64 h] e"
  "vn_encode_VkDevice e h = vs.puts [le64 h] e"
  "vn_encode_VkQueue e h = vs.puts [le64 h] e"
  "vn_encode_VkFence e h = vs.puts [le64 h] e"
  "vn_encode_VkBuffer e h = vs.puts [le64 h] e"
  by (simp_all only: vn_encode_VkInstance_def vn_encode_VkPhysicalDevice_def vn_encode_VkDevice_def
      vn_encode_VkQueue_def vn_encode_VkFence_def vn_encode_VkBuffer_def vn_cs_handle_load_id_def
      chunk_simps)

lemmas chunk_rules = chunk_simps puts_puts append_Cons append_Nil Let_def

section \<open>Commands\<close>

text \<open>A call of one of the encoders of \<open>venus_cs.c\<close> and \<open>venus_compute.c\<close>, with its arguments.\<close>

datatype venus_cmd =
    CreateInstance u64 "u8 list option" u32 u32 "u8 list list option"
  | EnumeratePhysicalDevices u64 u32 "u64 list option"
  | CreateDevice u64 u64 u32 u32 u32 "u8 list list option"
  | GetDeviceQueue u64 u32 u32 u64
  | GetDeviceQueue2 u64 u32 u32 u32 u64
  | QueueSubmitEmpty u64 u64
  | SetReplyCommandStream u32 u64 u64
  | GetPhysicalDeviceProperties u64
  | GetPhysicalDeviceMemoryProperties u64
  | GetBufferMemoryRequirements u64 u64
  | QueueWaitIdle u64
  | CreateRing u64 u32 u64 u64
  | DestroyRing u64
  | NotifyRing u64 u32

fun venus_encode :: "vk_headers \<Rightarrow> venus_cmd \<Rightarrow> uk_venus_encoder \<Rightarrow> uk_venus_encoder" where
  "venus_encode H (CreateInstance i a v n x) enc = uk_venus_encode_vkCreateInstance H enc i a v n x"
| "venus_encode H (EnumeratePhysicalDevices i n hs) enc = uk_venus_encode_vkEnumeratePhysicalDevices enc i n hs"
| "venus_encode H (CreateDevice p d q f n x) enc = uk_venus_encode_vkCreateDevice H enc p d q f n x"
| "venus_encode H (GetDeviceQueue d f i q) enc = uk_venus_encode_vkGetDeviceQueue enc d f i q"
| "venus_encode H (GetDeviceQueue2 d f i r q) enc = uk_venus_encode_vkGetDeviceQueue2 H enc d f i r q"
| "venus_encode H (QueueSubmitEmpty q f) enc = uk_venus_encode_vkQueueSubmit_empty enc q f"
| "venus_encode H (SetReplyCommandStream r off sz) enc = uk_venus_encode_vkSetReplyCommandStreamMESA enc r off sz"
| "venus_encode H (GetPhysicalDeviceProperties p) enc = uk_venus_encode_vkGetPhysicalDeviceProperties enc p"
| "venus_encode H (GetPhysicalDeviceMemoryProperties p) enc = uk_venus_encode_vkGetPhysicalDeviceMemoryProperties H enc p"
| "venus_encode H (GetBufferMemoryRequirements d b) enc = uk_venus_encode_vkGetBufferMemoryRequirements enc d b"
| "venus_encode H (QueueWaitIdle q) enc = uk_venus_encode_vkQueueWaitIdle enc q"
| "venus_encode H (CreateRing r res bs buf) enc = uk_venus_encode_vkCreateRingMESA enc r res bs buf"
| "venus_encode H (DestroyRing r) enc = uk_venus_encode_vkDestroyRingMESA enc r"
| "venus_encode H (NotifyRing r sq) enc = uk_venus_encode_vkNotifyRingMESA enc r sq"

text \<open>The fields each command puts on the wire, in order.\<close>

fun venus_wire :: "vk_headers \<Rightarrow> venus_cmd \<Rightarrow> u8 list list" where
  "venus_wire H (CreateInstance i a v n x) =
    [le32 0, le32 0, le64 1, le32 (ST_INSTANCE_CREATE_INFO H), le64 0, le32 0,
     le64 1, le32 (ST_APPLICATION_INFO H), le64 0] @ str_chunks a @ [le32 0] @
    str_chunks (Some engine_name) @ [le32 1, le32 v, le32 0, le64 0, le32 n] @
    strs_chunks n (if n \<noteq> 0 then x else None) @ [le64 0, le64 1, le64 i]"
| "venus_wire H (EnumeratePhysicalDevices i n hs) =
    (let c = min n 16 in
     [le32 2, le32 0, le64 i, le64 1, le32 c] @
     (case hs of Some hs \<Rightarrow> if c \<noteq> 0 then le64 (ucast c) # map le64 (take (unat c) hs) else [le64 0]
      | None \<Rightarrow> [le64 0]))"
| "venus_wire H (CreateDevice p d q f n x) =
    [le32 11, le32 0, le64 p, le64 1, le32 (ST_DEVICE_CREATE_INFO H), le64 0, le32 0, le32 1,
     le64 1, le32 (ST_DEVICE_QUEUE_CREATE_INFO H), le64 0, le32 0, le32 q, le32 1, le64 1, le32 f,
     le32 0, le64 0, le32 n] @ strs_chunks n (if n \<noteq> 0 then x else None) @
    [le64 0, le64 0, le64 1, le64 d]"
| "venus_wire H (GetDeviceQueue d f i q) =
    [le32 17, le32 0, le64 d, le32 f, le32 i, le64 1, le64 q]"
| "venus_wire H (GetDeviceQueue2 d f i r q) =
    [le32 155, le32 0, le64 d, le64 1, le32 (ST_DEVICE_QUEUE_INFO_2 H), le64 1, le32 1000384005,
     le64 0, le32 r, le32 0, le32 f, le32 i, le64 1, le64 q]"
| "venus_wire H (QueueSubmitEmpty q f) = [le32 18, le32 0, le64 q, le32 0, le64 0, le64 f]"
| "venus_wire H (SetReplyCommandStream r off sz) =
    [le32 178, le32 0, le64 1, le32 r, le64 off, le64 sz]"
| "venus_wire H (GetPhysicalDeviceProperties p) = [le32 6, le32 1, le64 p, le64 1]"
| "venus_wire H (GetPhysicalDeviceMemoryProperties p) =
    [le32 8, le32 1, le64 p, le64 1, le64 (of_nat (MAX_MEMORY_TYPES H)), le64 (of_nat (MAX_MEMORY_HEAPS H))]"
| "venus_wire H (GetBufferMemoryRequirements d b) = [le32 30, le32 1, le64 d, le64 b, le64 1]"
| "venus_wire H (QueueWaitIdle q) = [le32 19, le32 0, le64 q]"
| "venus_wire H (CreateRing r res bs buf) =
    [le32 188, le32 0, le64 r, le64 1, le32 1000384000, le64 0, le32 0, le32 res, le64 0, le64 bs,
     le64 0, le64 0, le64 64, le64 128, le64 192, le64 buf, le64 (192 + buf), le64 0]"
| "venus_wire H (DestroyRing r) = [le32 189, le32 0, le64 r]"
| "venus_wire H (NotifyRing r sq) = [le32 190, le32 0, le64 r, le32 sq, le32 0]"

fun cmd_strings_ok :: "venus_cmd \<Rightarrow> bool" where
  "cmd_strings_ok (CreateInstance i a v n x) \<longleftrightarrow> short_opt a \<and> short_strs x"
| "cmd_strings_ok (CreateDevice p d q f n x) \<longleftrightarrow> short_strs x"
| "cmd_strings_ok _ \<longleftrightarrow> True"

lemma engine_name_short [simp]: "short_opt (Some engine_name)"
  by (simp add: short_opt_def short_str_def engine_name_def)

lemma short_strs_if [simp]: "short_strs None" "short_strs x \<Longrightarrow> short_strs (if b then x else None)"
  by (simp_all add: short_strs_def)

lemma handles_chunks: "fold (\<lambda>h. vs.puts [le64 h]) hs e = vs.puts (map le64 hs) e"
  using fold_puts[of hs "\<lambda>h. vs.puts [le64 h]" "\<lambda>h. [le64 h]" e] by (simp add: concat_map_singleton)

lemma instance_wire:
  "short_opt a \<Longrightarrow> short_strs x \<Longrightarrow>
   venus_encode H (CreateInstance i a v n x) e = vs.puts (venus_wire H (CreateInstance i a v n x)) e"
  by (simp add: uk_venus_encode_vkCreateInstance_def vn_encode_vkCreateInstance_def
      vn_encode_VkInstanceCreateInfo_def vn_encode_VkInstanceCreateInfo_self_def
      vn_encode_VkApplicationInfo_def vn_encode_VkApplicationInfo_self_def string_chunks strings_chunks
      strs_chunks_def [of _ None] chunk_rules venus_consts del: vs.puts_simps)

lemma enumerate_wire:
  "venus_encode H (EnumeratePhysicalDevices i n hs) e =
   vs.puts (venus_wire H (EnumeratePhysicalDevices i n hs)) e"
  by (simp add: uk_venus_encode_vkEnumeratePhysicalDevices_def min_def
      vn_encode_vkEnumeratePhysicalDevices_def handles_chunks chunk_rules venus_consts
      not_less split: option.split del: vs.puts_simps)

lemma device_wire:
  "short_strs x \<Longrightarrow>
   venus_encode H (CreateDevice p d q f n x) e = vs.puts (venus_wire H (CreateDevice p d q f n x)) e"
  by (simp add: uk_venus_encode_vkCreateDevice_def vn_encode_vkCreateDevice_def
      vn_encode_VkDeviceCreateInfo_def vn_encode_VkDeviceCreateInfo_self_def
      vn_encode_VkDeviceQueueCreateInfo_def vn_encode_VkDeviceQueueCreateInfo_self_def strings_chunks
      strs_chunks_def [of _ None] chunk_rules venus_consts del: vs.puts_simps)

lemma ring_wire:
  "venus_encode H (CreateRing r res bs buf) e = vs.puts (venus_wire H (CreateRing r res bs buf)) e"
  "venus_encode H (DestroyRing r) e = vs.puts (venus_wire H (DestroyRing r)) e"
  "venus_encode H (NotifyRing r sq) e = vs.puts (venus_wire H (NotifyRing r sq)) e"
  by (simp_all add: uk_venus_encode_vkCreateRingMESA_def vn_encode_vkCreateRingMESA_def
      vn_encode_VkRingCreateInfoMESA_def vn_encode_VkRingCreateInfoMESA_self_def ring_create_info_def
      uk_venus_encode_vkDestroyRingMESA_def vn_encode_vkDestroyRingMESA_def
      uk_venus_encode_vkNotifyRingMESA_def vn_encode_vkNotifyRingMESA_def
      chunk_rules venus_consts del: vs.puts_simps)

lemma other_wire:
  "venus_encode H (GetDeviceQueue d f i q) e = vs.puts (venus_wire H (GetDeviceQueue d f i q)) e"
  "venus_encode H (GetDeviceQueue2 d f i rg q) e = vs.puts (venus_wire H (GetDeviceQueue2 d f i rg q)) e"
  "venus_encode H (QueueSubmitEmpty q fe) e = vs.puts (venus_wire H (QueueSubmitEmpty q fe)) e"
  "venus_encode H (SetReplyCommandStream rs off sz) e = vs.puts (venus_wire H (SetReplyCommandStream rs off sz)) e"
  "venus_encode H (GetPhysicalDeviceProperties d) e = vs.puts (venus_wire H (GetPhysicalDeviceProperties d)) e"
  "venus_encode H (GetPhysicalDeviceMemoryProperties d) e = vs.puts (venus_wire H (GetPhysicalDeviceMemoryProperties d)) e"
  "venus_encode H (GetBufferMemoryRequirements d b) e = vs.puts (venus_wire H (GetBufferMemoryRequirements d b)) e"
  "venus_encode H (QueueWaitIdle q) e = vs.puts (venus_wire H (QueueWaitIdle q)) e"
  by (simp_all add: uk_venus_encode_vkGetDeviceQueue_def vn_encode_vkGetDeviceQueue_def
      uk_venus_encode_vkGetDeviceQueue2_def vn_encode_vkGetDeviceQueue2_def vn_encode_VkDeviceQueueInfo2_def
      uk_venus_encode_vkQueueSubmit_empty_def vn_encode_vkQueueSubmit_null_def
      uk_venus_encode_vkSetReplyCommandStreamMESA_def vn_encode_vkSetReplyCommandStreamMESA_def
      vn_encode_VkCommandStreamDescriptionMESA_def
      uk_venus_encode_vkGetPhysicalDeviceProperties_def vn_encode_vkGetPhysicalDeviceProperties_def
      uk_venus_encode_vkGetPhysicalDeviceMemoryProperties_def vn_encode_vkGetPhysicalDeviceMemoryProperties_def
      vn_encode_VkPhysicalDeviceMemoryProperties_partial_def
      uk_venus_encode_vkGetBufferMemoryRequirements_def vn_encode_vkGetBufferMemoryRequirements_def
      uk_venus_encode_vkQueueWaitIdle_def vn_encode_vkQueueWaitIdle_def
      chunk_rules venus_consts del: vs.puts_simps)

lemma venus_encode_wire:
  assumes "cmd_strings_ok c" shows "venus_encode H c e = vs.puts (venus_wire H c) e"
  using assms by (cases c) (simp_all only: cmd_strings_ok.simps instance_wire enumerate_wire device_wire ring_wire other_wire)

section \<open>Streams of commands\<close>

definition venus_stream :: "vk_headers \<Rightarrow> venus_cmd list \<Rightarrow> uk_venus_encoder \<Rightarrow> uk_venus_encoder" where
  "venus_stream H cs enc = fold (venus_encode H) cs enc"

definition stream_chunks :: "vk_headers \<Rightarrow> venus_cmd list \<Rightarrow> u8 list list" where
  "stream_chunks H cs = concat (map (venus_wire H) cs)"

lemma venus_stream_puts:
  "\<forall>c\<in>set cs. cmd_strings_ok c \<Longrightarrow> venus_stream H cs e = vs.puts (stream_chunks H cs) e"
  unfolding venus_stream_def stream_chunks_def by (rule fold_puts) (simp add: venus_encode_wire)

lemma small_le [simp]: "small_bytes (le32 v)" "small_bytes (le64 w)"
  by (simp_all add: small_bytes_def)

lemma small_pad [simp]: "c \<in> set (pad4 n) \<Longrightarrow> small_bytes c"
  by (auto simp: pad4_def small_bytes_def split: if_splits)

lemma small_str: "short_opt s \<Longrightarrow> c \<in> set (str_chunks s) \<Longrightarrow> small_bytes c"
  by (auto simp: str_chunks_def short_opt_def short_str_def split: option.splits)
    (simp add: small_bytes_def)

lemma small_strs: "short_strs ns \<Longrightarrow> c \<in> set (strs_chunks n ns) \<Longrightarrow> small_bytes c"
  by (auto simp: strs_chunks_def short_strs_def short_opt_def split: option.splits
      dest!: in_set_takeD elim!: small_str [rotated])

lemma small_wire: "cmd_strings_ok k \<Longrightarrow> c \<in> set (venus_wire H k) \<Longrightarrow> small_bytes c"
  by (cases k)
    (auto simp: Let_def small_str [OF engine_name_short] small_str small_strs
      small_strs [OF short_strs_if(1)] split: option.splits if_splits)

text \<open>Every field, string and array takes a multiple of four bytes.\<close>

lemma pad4_dvd: "4 dvd n + length (concat (pad4 n))"
proof (cases "n mod 4 = 0")
  case True
  thus ?thesis by (simp add: pad4_def mod_eq_0_iff_dvd)
next
  case False
  have "n + (4 - n mod 4) = n div 4 * 4 + 4"
    using minus_mod_eq_div_mult[of n 4] mod_less_divisor[of 4 n] mod_less_eq_dividend[of n 4] by linarith
  thus ?thesis using False by (simp add: pad4_def)
qed

lemma str_dvd: "4 dvd length (concat (str_chunks s))"
proof (cases s)
  case (Some x)
  have "length (concat (str_chunks s)) = 8 + (Suc (length x) + length (concat (pad4 (Suc (length x)))))"
    by (simp add: str_chunks_def Some)
  thus ?thesis using pad4_dvd[of "Suc (length x)"] by (simp only:) (rule dvd_add; simp)
qed (simp add: str_chunks_def)

lemma strs_dvd: "4 dvd length (concat (strs_chunks n ns))"
proof -
  have "4 dvd length (concat (concat (map (\<lambda>s. str_chunks (Some s)) xs)))" for xs
    by (induction xs) (auto intro: dvd_add str_dvd)
  thus ?thesis by (auto simp: strs_chunks_def split: option.split)
qed

lemma handles_dvd: "length (concat (map le64 hs)) = 8 * length hs"
  by (induction hs) simp_all

lemma wire_dvd: "4 dvd length (concat (venus_wire H c))"
proof -
  have handles: "4 dvd length (concat (map le64 hs))" for hs
    unfolding handles_dvd by simp
  have num: "4 dvd a + b \<longleftrightarrow> 4 dvd b" if "4 dvd a" for a b :: nat
    using that by (rule dvd_add_right_iff)
  show ?thesis
    using str_dvd strs_dvd handles
    by (cases c) (auto simp: Let_def handles_dvd simp del: concat.simps(2)
        simp: concat.simps(2) split: option.split intro!: dvd_add)
qed

lemma stream_dvd: "4 dvd length (concat (stream_chunks H cs))"
  by (induction cs) (auto simp: stream_chunks_def intro: dvd_add wire_dvd)

lemma small_stream:
  "\<forall>c\<in>set cs. cmd_strings_ok c \<Longrightarrow> \<forall>c\<in>set (stream_chunks H cs). small_bytes c"
  by (auto simp: stream_chunks_def intro: small_wire)

lemma put_frame: "ve_cap (ve_put c e) = ve_cap e"
  by (simp add: ve_put_def uk_venus_encode_bytes_def)

lemma puts_cap: "ve_cap (vs.puts cs e) = ve_cap e"
  by (induction cs arbitrary: e) (simp_all add: put_frame)

lemma puts_pos:
  assumes "\<not> ve_overflow (vs.puts cs e)"
  shows "ve_pos (vs.puts cs e) = ve_pos e + of_nat (length (concat cs))"
proof -
  have stuck: "ve_overflow e \<Longrightarrow> ve_overflow (vs.puts cs e)" for cs e
    by (induction cs arbitrary: e) (simp_all add: ve_put_def uk_venus_encode_bytes_def)
  show ?thesis using assms
  proof (induction cs arbitrary: e)
    case (Cons c cs)
    hence "\<not> ve_overflow (ve_put c e)" using stuck by auto
    hence "ve_pos (ve_put c e) = ve_pos e + of_nat (length c)"
      by (auto simp: ve_put_def uk_venus_encode_bytes_def split: if_splits)
    thus ?case using Cons by (simp add: add.assoc)
  qed simp
qed

text \<open>C3 (refinement): encoding a sequence of Venus commands appends exactly their wire fields to the
  buffer when they fit.  When they do not, the encoder is marked as overflown and holds the same stream
  cut before one of its fields.  In both cases it keeps its capacity and stays inside its buffer, and
  the length of the stream is a multiple of four.\<close>

theorem venus_stream_refines:
  assumes "ve_wf e" "\<not> ve_overflow e" "\<forall>c\<in>set cs. cmd_strings_ok c"
  shows "ve_wf (venus_stream H cs e) \<and> ve_cap (venus_stream H cs e) = ve_cap e \<and>
    4 dvd length (concat (stream_chunks H cs)) \<and>
    (if length (concat (stream_chunks H cs)) \<le> ve_room e
     then \<not> ve_overflow (venus_stream H cs e) \<and>
       ve_content (venus_stream H cs e) = ve_content e @ concat (stream_chunks H cs)
     else ve_overflow (venus_stream H cs e) \<and>
       (\<exists>k<length (stream_chunks H cs).
          ve_content (venus_stream H cs e) = ve_content e @ concat (take k (stream_chunks H cs))))"
proof -
  note small = small_stream[OF assms(3), of H]
  show ?thesis
    unfolding venus_stream_puts[OF assms(3)]
    using vs.puts_wf[OF assms(1) small] vs.puts_fits[OF assms(1) small assms(2)]
      vs.puts_full[OF assms(1) small assms(2)]
    by (auto simp: puts_cap stream_dvd not_le)
qed

definition demo_encoder :: "uk_venus_encoder" where
  "demo_encoder = \<lparr> ve_buf = replicate 64 0, ve_cap = 64, ve_pos = 0, ve_overflow = False \<rparr>"

text \<open>The values of the Khronos headers.\<close>

definition khronos :: vk_headers where
  "khronos = \<lparr> ST_APPLICATION_INFO = 0, ST_INSTANCE_CREATE_INFO = 1, ST_DEVICE_QUEUE_CREATE_INFO = 2,
     ST_DEVICE_CREATE_INFO = 3, ST_DEVICE_QUEUE_INFO_2 = 1000145003, MAX_MEMORY_TYPES = 32,
     MAX_MEMORY_HEAPS = 16 \<rparr>"

lemma demo_encoder_wf: "ve_wf demo_encoder" "\<not> ve_overflow demo_encoder" "ve_content demo_encoder = []"
  "ve_room demo_encoder = 64"
  by (simp_all add: demo_encoder_def ve_wf_def ve_content_def ve_room_def)

theorem venus_stream_refines_witness:
  "ve_content (venus_stream khronos [DestroyRing 7, NotifyRing 7 9] demo_encoder) =
   [189, 0, 0, 0, 0, 0, 0, 0, 7, 0, 0, 0, 0, 0, 0, 0,
    190, 0, 0, 0, 0, 0, 0, 0, 7, 0, 0, 0, 0, 0, 0, 0, 9, 0, 0, 0, 0, 0, 0, 0]"
  using venus_stream_refines[of demo_encoder "[DestroyRing 7, NotifyRing 7 9]" khronos]
  by (simp add: demo_encoder_wf stream_chunks_def) (simp add: le64_def le32_def)

text \<open>An encoder that does not overflow has advanced by exactly the number of bytes the
  generated \<open>vn_sizeof\<close> functions announce, for every ring transport command and every chain of
  extension structures.\<close>

theorem transport_sizes:
  "(if ve_overflow (vn_encode_vkCreateRingMESA e fl ring ci) then True
    else ve_pos (vn_encode_vkCreateRingMESA e fl ring ci) = ve_pos e + vn_sizeof_vkCreateRingMESA ci) \<and>
   (if ve_overflow (vn_encode_vkDestroyRingMESA e fl ring) then True
    else ve_pos (vn_encode_vkDestroyRingMESA e fl ring) = ve_pos e + vn_sizeof_vkDestroyRingMESA) \<and>
   (if ve_overflow (vn_encode_vkNotifyRingMESA e fl ring sq nf) then True
    else ve_pos (vn_encode_vkNotifyRingMESA e fl ring sq nf) = ve_pos e + vn_sizeof_vkNotifyRingMESA) \<and>
   (if ve_overflow (vn_encode_vkSetReplyCommandStreamMESA e fl st) then True
    else ve_pos (vn_encode_vkSetReplyCommandStreamMESA e fl st) =
      ve_pos e + vn_sizeof_vkSetReplyCommandStreamMESA st)"
proof -
  have pn: "vn_sizeof_VkRingCreateInfoMESA_pnext ps = of_nat (length (concat (ring_pnext_chunks ps)))" for ps
    by (induction ps rule: ring_pnext_chunks.induct)
      (simp_all add: vn_sizeof_simple_pointer_def vn_sizeof_array_size_def vn_sizeof_uint64_t_def
        vn_sizeof_VkStructureType_def vn_sizeof_int32_t_def vn_sizeof_uint32_t_def add.assoc)
  show ?thesis
    by (auto simp: vn_encode_vkCreateRingMESA_def vn_encode_VkRingCreateInfoMESA_def
        vn_encode_VkRingCreateInfoMESA_self_def vn_encode_vkDestroyRingMESA_def
        vn_encode_vkNotifyRingMESA_def vn_encode_vkSetReplyCommandStreamMESA_def
        vn_encode_VkCommandStreamDescriptionMESA_def chunk_rules puts_pos
        vn_sizeof_vkCreateRingMESA_def vn_sizeof_VkRingCreateInfoMESA_def pn
        vn_sizeof_VkRingCreateInfoMESA_self_def vn_sizeof_vkDestroyRingMESA_def
        vn_sizeof_vkNotifyRingMESA_def vn_sizeof_vkSetReplyCommandStreamMESA_def
        vn_sizeof_VkCommandStreamDescriptionMESA_def vn_sizeof_VkCommandTypeEXT_def
        vn_sizeof_VkFlags_def vn_sizeof_uint64_t_def vn_sizeof_int32_t_def vn_sizeof_uint32_t_def
        vn_sizeof_size_t_def vn_sizeof_VkStructureType_def vn_sizeof_simple_pointer_def
        vn_sizeof_array_size_def split: option.split simp del: vs.puts_simps)
qed

text \<open>The hand-written string encoder of \<open>venus_cs.c\<close> leaves the encoder in the same
  state as the generated Mesa sequence: array size with the NUL, then the padded characters.\<close>

theorem cstring_matches_mesa:
  assumes "length s < 2 ^ 61"
  shows "uk_venus_encode_cstring e (Some s) =
    vn_encode_char_array (vn_encode_array_size e (of_nat (length s) + 1)) s (of_nat (length s) + 1)"
  using assms by (simp add: cstring_chunks char_array_chunks chunk_simps)

theorem cstring_matches_mesa_witness:
  "ve_content (uk_venus_encode_cstring demo_encoder (Some engine_name)) =
   ve_content (vn_encode_char_array (vn_encode_array_size demo_encoder 15) engine_name 15)"
  using cstring_matches_mesa[of engine_name demo_encoder] by (simp add: engine_name_def)

text \<open>The reply decoder reads back the scalars the encoder writes and advances past
  them; at the end of the reply it delivers nothing, keeps its position and becomes fatal.\<close>

lemma decoder_reads_scalars:
  "vn_decode_uint64_t \<lparr>dc_rest = le64 v @ r, dc_fatal = b\<rparr> = (Some v, \<lparr>dc_rest = r, dc_fatal = b\<rparr>) \<and>
   vn_decode_uint32_t \<lparr>dc_rest = le32 w @ r, dc_fatal = b\<rparr> = (Some w, \<lparr>dc_rest = r, dc_fatal = b\<rparr>) \<and>
   vn_decode_int32_t \<lparr>dc_rest = le32 w @ r, dc_fatal = b\<rparr> = (Some w, \<lparr>dc_rest = r, dc_fatal = b\<rparr>) \<and>
   vn_decode_uint64_t d =
     (if length (dc_rest d) < 8 then (None, d\<lparr>dc_fatal := True\<rparr>)
      else (Some (un64 (take 8 (dc_rest d))), d\<lparr>dc_rest := drop 8 (dc_rest d)\<rparr>))"
  by (simp add: vn_decode_uint64_t_def vn_decode_uint32_t_def vn_decode_int32_t_def vn_decode_def
      vn_cs_decoder_read_def)

text \<open>A sequence of scalars through the generated encoders, and through the decoders of the same types.\<close>

datatype vn_scalar = VnInt u32 | VnUint u32 | VnUint64 u64

fun encode_scalar :: "vn_scalar \<Rightarrow> uk_venus_encoder \<Rightarrow> uk_venus_encoder" where
  "encode_scalar (VnInt w) e = vn_encode_int32_t e w"
| "encode_scalar (VnUint w) e = vn_encode_uint32_t e w"
| "encode_scalar (VnUint64 w) e = vn_encode_uint64_t e w"

fun decode_scalar :: "vn_scalar \<Rightarrow> vn_cs_decoder \<Rightarrow> vn_scalar option \<times> vn_cs_decoder" where
  "decode_scalar (VnInt _) d = apfst (map_option VnInt) (vn_decode_int32_t d)"
| "decode_scalar (VnUint _) d = apfst (map_option VnUint) (vn_decode_uint32_t d)"
| "decode_scalar (VnUint64 _) d = apfst (map_option VnUint64) (vn_decode_uint64_t d)"

fun decode_scalars :: "vn_scalar list \<Rightarrow> vn_cs_decoder \<Rightarrow> vn_scalar option list \<times> vn_cs_decoder" where
  "decode_scalars [] d = ([], d)"
| "decode_scalars (v # vs) d = (case decode_scalar v d of (r, d1) \<Rightarrow> apfst (Cons r) (decode_scalars vs d1))"

fun scalar_bytes :: "vn_scalar \<Rightarrow> u8 list" where
  "scalar_bytes (VnInt w) = le32 w" | "scalar_bytes (VnUint w) = le32 w" | "scalar_bytes (VnUint64 w) = le64 w"

lemma encode_scalars_puts: "fold encode_scalar vs e = vs.puts (map scalar_bytes vs) e"
proof (induction vs arbitrary: e)
  case (Cons v vs)
  thus ?case by (cases v) (simp_all add: chunk_simps)
qed simp

lemma decode_scalar_bytes: "decode_scalar v \<lparr>dc_rest = scalar_bytes v @ r, dc_fatal = b\<rparr> = (Some v, \<lparr>dc_rest = r, dc_fatal = b\<rparr>)"
  using decoder_reads_scalars by (cases v) simp_all

lemma decode_scalar_short:
  "length (dc_rest d) < length (scalar_bytes v) \<Longrightarrow> decode_scalar v d = (None, d\<lparr>dc_fatal := True\<rparr>)"
  by (cases v) (simp_all add: vn_decode_uint64_t_def vn_decode_uint32_t_def vn_decode_int32_t_def vn_decode_def
      vn_cs_decoder_read_def)

lemma decode_scalars_bytes:
  "decode_scalars vs \<lparr>dc_rest = concat (map scalar_bytes vs) @ r, dc_fatal = b\<rparr> = (map Some vs, \<lparr>dc_rest = r, dc_fatal = b\<rparr>)"
  by (induction vs) (simp_all add: decode_scalar_bytes)

text \<open>Any sequence of scalars that fits the encoder's buffer is read back value by value from
  the bytes it appended, leaving exactly what follows; one scalar more than the bytes hold yields nothing
  and makes the decoder fatal.\<close>

theorem scalars_roundtrip:
  assumes "ve_wf e" "\<not> ve_overflow e" "length (concat (map scalar_bytes vs)) \<le> ve_room e" "length r < length (scalar_bytes v)"
  shows "\<exists>bytes. ve_content (fold encode_scalar vs e) = ve_content e @ bytes \<and> \<not> ve_overflow (fold encode_scalar vs e) \<and>
    decode_scalars vs \<lparr>dc_rest = bytes @ r, dc_fatal = b\<rparr> = (map Some vs, \<lparr>dc_rest = r, dc_fatal = b\<rparr>) \<and>
    decode_scalars (vs @ [v]) \<lparr>dc_rest = bytes @ r, dc_fatal = b\<rparr> =
      (map Some vs @ [None], \<lparr>dc_rest = r, dc_fatal = True\<rparr>)"
proof -
  have "small_bytes (scalar_bytes w)" for w by (cases w) (simp_all add: small_le)
  hence "ve_content (fold encode_scalar vs e) = ve_content e @ concat (map scalar_bytes vs) \<and>
      \<not> ve_overflow (fold encode_scalar vs e)"
    using vs.puts_fits[OF assms(1) _ assms(2,3)] by (simp add: encode_scalars_puts)
  moreover have "decode_scalars (us @ [v]) \<lparr>dc_rest = concat (map scalar_bytes us) @ r, dc_fatal = b\<rparr> =
      (map Some us @ [None], \<lparr>dc_rest = r, dc_fatal = True\<rparr>)" for us
    using decode_scalar_short[of "\<lparr>dc_rest = r, dc_fatal = b\<rparr>" v] assms(4)
    by (induction us) (simp_all add: decode_scalar_bytes)
  ultimately show ?thesis using decode_scalars_bytes by blast
qed

theorem scalars_roundtrip_witness:
  "\<exists>bytes. decode_scalars [VnUint 7, VnUint64 9] \<lparr>dc_rest = bytes @ [1], dc_fatal = False\<rparr> =
      ([Some (VnUint 7), Some (VnUint64 9)], \<lparr>dc_rest = [1], dc_fatal = False\<rparr>) \<and>
    ve_content (fold encode_scalar [VnUint 7, VnUint64 9] demo_encoder) = ve_content demo_encoder @ bytes"
proof -
  have "length (concat (map scalar_bytes [VnUint 7, VnUint64 9])) \<le> ve_room demo_encoder" "\<not> ve_overflow demo_encoder"
    by (simp_all add: demo_encoder_def ve_room_def)
  from scalars_roundtrip[OF demo_encoder_wf(1) this(2,1), of "[1]" "VnInt 0" False] show ?thesis by auto
qed

end
