(* ===== verification/Venus_Compute.thy ===== *)
theory Venus_Compute
  imports Venus_Wire
begin

text \<open>
  The command encoders of \<open>venus_compute.c\<close>: memory, buffers, shader modules, pipelines, descriptors,
  command pools and buffers, command recording, fences and queue submission.  Each is the generated
  encoder it calls (\<open>generated/vn_protocol_driver_*.h\<close>), applied to the structure the function fills.

  Structure types and enumerators of the Khronos headers, which are not in the repository, are the
  fields of \<open>vk_enums\<close>.  An array argument has at least the counted entries.  No call passes an
  allocator or a \<open>pNext\<close> chain, and \<open>n_push_ranges\<close> is at most 1.
\<close>

record vk_enums =
  ST_MEMORY_ALLOCATE_INFO :: u32
  ST_BUFFER_CREATE_INFO :: u32
  ST_SHADER_MODULE_CREATE_INFO :: u32
  ST_PIPELINE_LAYOUT_CREATE_INFO :: u32
  ST_COMPUTE_PIPELINE_CREATE_INFO :: u32
  ST_PIPELINE_SHADER_STAGE_CREATE_INFO :: u32
  ST_DESCRIPTOR_SET_LAYOUT_CREATE_INFO :: u32
  ST_DESCRIPTOR_POOL_CREATE_INFO :: u32
  ST_DESCRIPTOR_SET_ALLOCATE_INFO :: u32
  ST_WRITE_DESCRIPTOR_SET :: u32
  ST_COMMAND_POOL_CREATE_INFO :: u32
  ST_COMMAND_BUFFER_ALLOCATE_INFO :: u32
  ST_COMMAND_BUFFER_BEGIN_INFO :: u32
  ST_FENCE_CREATE_INFO :: u32
  ST_SUBMIT_INFO :: u32
  SHARING_MODE_EXCLUSIVE :: u32
  SHARING_MODE_CONCURRENT :: u32
  SHADER_STAGE_COMPUTE_BIT :: u32
  PIPELINE_BIND_POINT_COMPUTE :: u32
  DESCRIPTOR_TYPE_STORAGE_BUFFER :: u32
  COMMAND_BUFFER_LEVEL_PRIMARY :: u32
  FENCE_CREATE_SIGNALED_BIT :: u32
  TRUE_BOOL32 :: u32
  NULL_HANDLE :: u64

definition VN_CMD_vkAllocateMemory :: u32 where [venus_consts]: "VN_CMD_vkAllocateMemory = 21"
definition VN_CMD_vkFreeMemory :: u32 where [venus_consts]: "VN_CMD_vkFreeMemory = 22"
definition VN_CMD_vkBindBufferMemory :: u32 where [venus_consts]: "VN_CMD_vkBindBufferMemory = 28"
definition VN_CMD_vkCreateFence :: u32 where [venus_consts]: "VN_CMD_vkCreateFence = 35"
definition VN_CMD_vkResetFences :: u32 where [venus_consts]: "VN_CMD_vkResetFences = 37"
definition VN_CMD_vkWaitForFences :: u32 where [venus_consts]: "VN_CMD_vkWaitForFences = 39"
definition VN_CMD_vkCreateBuffer :: u32 where [venus_consts]: "VN_CMD_vkCreateBuffer = 50"
definition VN_CMD_vkDestroyBuffer :: u32 where [venus_consts]: "VN_CMD_vkDestroyBuffer = 51"
definition VN_CMD_vkCreateShaderModule :: u32 where [venus_consts]: "VN_CMD_vkCreateShaderModule = 59"
definition VN_CMD_vkDestroyShaderModule :: u32 where [venus_consts]: "VN_CMD_vkDestroyShaderModule = 60"
definition VN_CMD_vkCreateComputePipelines :: u32 where [venus_consts]: "VN_CMD_vkCreateComputePipelines = 66"
definition VN_CMD_vkDestroyPipeline :: u32 where [venus_consts]: "VN_CMD_vkDestroyPipeline = 67"
definition VN_CMD_vkCreatePipelineLayout :: u32 where [venus_consts]: "VN_CMD_vkCreatePipelineLayout = 68"
definition VN_CMD_vkDestroyPipelineLayout :: u32 where [venus_consts]: "VN_CMD_vkDestroyPipelineLayout = 69"
definition VN_CMD_vkCreateDescriptorSetLayout :: u32 where [venus_consts]: "VN_CMD_vkCreateDescriptorSetLayout = 72"
definition VN_CMD_vkDestroyDescriptorSetLayout :: u32 where [venus_consts]: "VN_CMD_vkDestroyDescriptorSetLayout = 73"
definition VN_CMD_vkCreateDescriptorPool :: u32 where [venus_consts]: "VN_CMD_vkCreateDescriptorPool = 74"
definition VN_CMD_vkDestroyDescriptorPool :: u32 where [venus_consts]: "VN_CMD_vkDestroyDescriptorPool = 75"
definition VN_CMD_vkAllocateDescriptorSets :: u32 where [venus_consts]: "VN_CMD_vkAllocateDescriptorSets = 77"
definition VN_CMD_vkUpdateDescriptorSets :: u32 where [venus_consts]: "VN_CMD_vkUpdateDescriptorSets = 79"
definition VN_CMD_vkCreateCommandPool :: u32 where [venus_consts]: "VN_CMD_vkCreateCommandPool = 85"
definition VN_CMD_vkDestroyCommandPool :: u32 where [venus_consts]: "VN_CMD_vkDestroyCommandPool = 86"
definition VN_CMD_vkAllocateCommandBuffers :: u32 where [venus_consts]: "VN_CMD_vkAllocateCommandBuffers = 88"
definition VN_CMD_vkFreeCommandBuffers :: u32 where [venus_consts]: "VN_CMD_vkFreeCommandBuffers = 89"
definition VN_CMD_vkBeginCommandBuffer :: u32 where [venus_consts]: "VN_CMD_vkBeginCommandBuffer = 90"
definition VN_CMD_vkEndCommandBuffer :: u32 where [venus_consts]: "VN_CMD_vkEndCommandBuffer = 91"
definition VN_CMD_vkCmdBindPipeline :: u32 where [venus_consts]: "VN_CMD_vkCmdBindPipeline = 93"
definition VN_CMD_vkCmdBindDescriptorSets :: u32 where [venus_consts]: "VN_CMD_vkCmdBindDescriptorSets = 103"
definition VN_CMD_vkCmdDispatch :: u32 where [venus_consts]: "VN_CMD_vkCmdDispatch = 110"
definition VN_CMD_vkCmdCopyBuffer :: u32 where [venus_consts]: "VN_CMD_vkCmdCopyBuffer = 112"
definition VN_CMD_vkCmdFillBuffer :: u32 where [venus_consts]: "VN_CMD_vkCmdFillBuffer = 118"
definition VN_CMD_vkCmdPipelineBarrier :: u32 where [venus_consts]: "VN_CMD_vkCmdPipelineBarrier = 126"
definition VN_CMD_vkCmdPushConstants :: u32 where [venus_consts]: "VN_CMD_vkCmdPushConstants = 132"
definition UK_VENUS_MAX_BINDINGS :: u32 where "UK_VENUS_MAX_BINDINGS = 64"

section \<open>Scalars, handles and arrays\<close>

definition vn_encode_VkDeviceSize :: "uk_venus_encoder \<Rightarrow> u64 \<Rightarrow> uk_venus_encoder" where
  "vn_encode_VkDeviceSize enc v = vn_encode_uint64_t enc v"
definition vn_encode_VkBool32 :: "uk_venus_encoder \<Rightarrow> u32 \<Rightarrow> uk_venus_encoder" where
  "vn_encode_VkBool32 enc v = vn_encode_uint32_t enc v"
definition vn_encode_VkPipelineBindPoint :: "uk_venus_encoder \<Rightarrow> u32 \<Rightarrow> uk_venus_encoder" where
  "vn_encode_VkPipelineBindPoint enc v = vn_encode_int32_t enc v"
definition vn_encode_VkDescriptorType :: "uk_venus_encoder \<Rightarrow> u32 \<Rightarrow> uk_venus_encoder" where
  "vn_encode_VkDescriptorType enc v = vn_encode_int32_t enc v"
definition vn_encode_VkSharingMode :: "uk_venus_encoder \<Rightarrow> u32 \<Rightarrow> uk_venus_encoder" where
  "vn_encode_VkSharingMode enc v = vn_encode_int32_t enc v"
definition vn_encode_VkCommandBufferLevel :: "uk_venus_encoder \<Rightarrow> u32 \<Rightarrow> uk_venus_encoder" where
  "vn_encode_VkCommandBufferLevel enc v = vn_encode_int32_t enc v"
definition vn_encode_VkShaderStageFlagBits :: "uk_venus_encoder \<Rightarrow> u32 \<Rightarrow> uk_venus_encoder" where
  "vn_encode_VkShaderStageFlagBits enc v = vn_encode_int32_t enc v"
definition vn_encode_VkDeviceMemory :: "uk_venus_encoder \<Rightarrow> u64 \<Rightarrow> uk_venus_encoder" where
  "vn_encode_VkDeviceMemory enc v = vn_encode_uint64_t enc (vn_cs_handle_load_id v)"
definition vn_encode_VkShaderModule :: "uk_venus_encoder \<Rightarrow> u64 \<Rightarrow> uk_venus_encoder" where
  "vn_encode_VkShaderModule enc v = vn_encode_uint64_t enc (vn_cs_handle_load_id v)"
definition vn_encode_VkPipelineLayout :: "uk_venus_encoder \<Rightarrow> u64 \<Rightarrow> uk_venus_encoder" where
  "vn_encode_VkPipelineLayout enc v = vn_encode_uint64_t enc (vn_cs_handle_load_id v)"
definition vn_encode_VkPipeline :: "uk_venus_encoder \<Rightarrow> u64 \<Rightarrow> uk_venus_encoder" where
  "vn_encode_VkPipeline enc v = vn_encode_uint64_t enc (vn_cs_handle_load_id v)"
definition vn_encode_VkPipelineCache :: "uk_venus_encoder \<Rightarrow> u64 \<Rightarrow> uk_venus_encoder" where
  "vn_encode_VkPipelineCache enc v = vn_encode_uint64_t enc (vn_cs_handle_load_id v)"
definition vn_encode_VkDescriptorSetLayout :: "uk_venus_encoder \<Rightarrow> u64 \<Rightarrow> uk_venus_encoder" where
  "vn_encode_VkDescriptorSetLayout enc v = vn_encode_uint64_t enc (vn_cs_handle_load_id v)"
definition vn_encode_VkDescriptorPool :: "uk_venus_encoder \<Rightarrow> u64 \<Rightarrow> uk_venus_encoder" where
  "vn_encode_VkDescriptorPool enc v = vn_encode_uint64_t enc (vn_cs_handle_load_id v)"
definition vn_encode_VkDescriptorSet :: "uk_venus_encoder \<Rightarrow> u64 \<Rightarrow> uk_venus_encoder" where
  "vn_encode_VkDescriptorSet enc v = vn_encode_uint64_t enc (vn_cs_handle_load_id v)"
definition vn_encode_VkCommandPool :: "uk_venus_encoder \<Rightarrow> u64 \<Rightarrow> uk_venus_encoder" where
  "vn_encode_VkCommandPool enc v = vn_encode_uint64_t enc (vn_cs_handle_load_id v)"
definition vn_encode_VkCommandBuffer :: "uk_venus_encoder \<Rightarrow> u64 \<Rightarrow> uk_venus_encoder" where
  "vn_encode_VkCommandBuffer enc v = vn_encode_uint64_t enc (vn_cs_handle_load_id v)"
definition vn_encode_VkSemaphore :: "uk_venus_encoder \<Rightarrow> u64 \<Rightarrow> uk_venus_encoder" where
  "vn_encode_VkSemaphore enc v = vn_encode_uint64_t enc (vn_cs_handle_load_id v)"

definition vn_encode_uint32_t_array :: "uk_venus_encoder \<Rightarrow> u32 list \<Rightarrow> u32 \<Rightarrow> uk_venus_encoder" where
  "vn_encode_uint32_t_array enc val count =
    (let sz = 4 * ucast count in vn_encode enc sz (concat (map le32 (take (unat count) val))) sz)"

text \<open>The loop over a counted array, or NULL, as every generated encoder writes it.\<close>

definition vn_encode_array :: "(uk_venus_encoder \<Rightarrow> 'a \<Rightarrow> uk_venus_encoder) \<Rightarrow> uk_venus_encoder \<Rightarrow> u32
    \<Rightarrow> 'a list option \<Rightarrow> uk_venus_encoder" where
  "vn_encode_array f enc n xs =
    (case xs of
       Some ys \<Rightarrow> fold (\<lambda>y enc. f enc y) (take (unat n) ys) (vn_encode_array_size enc (ucast n))
     | None \<Rightarrow> vn_encode_array_size enc 0)"

definition vn_encode_optional :: "(uk_venus_encoder \<Rightarrow> 'a \<Rightarrow> uk_venus_encoder) \<Rightarrow> uk_venus_encoder \<Rightarrow> 'a option
    \<Rightarrow> uk_venus_encoder" where
  "vn_encode_optional f enc x =
    (let enc = vn_encode_simple_pointer enc (x \<noteq> None)
     in case x of Some v \<Rightarrow> f enc v | None \<Rightarrow> enc)"

section \<open>Structures\<close>

record VkMemoryAllocateInfo =
  mai_allocationSize :: u64
  mai_memoryTypeIndex :: u32

definition vn_encode_VkMemoryAllocateInfo_self :: "uk_venus_encoder \<Rightarrow> VkMemoryAllocateInfo \<Rightarrow> uk_venus_encoder" where
  "vn_encode_VkMemoryAllocateInfo_self enc val =
    (let enc = vn_encode_VkDeviceSize enc (mai_allocationSize val)
     in vn_encode_uint32_t enc (mai_memoryTypeIndex val))"

definition vn_encode_VkMemoryAllocateInfo ::
    "vk_enums \<Rightarrow> uk_venus_encoder \<Rightarrow> VkMemoryAllocateInfo \<Rightarrow> uk_venus_encoder" where
  "vn_encode_VkMemoryAllocateInfo C enc val =
    (let enc = vn_encode_VkStructureType enc (ST_MEMORY_ALLOCATE_INFO C);
         enc = vn_encode_simple_pointer enc False
     in vn_encode_VkMemoryAllocateInfo_self enc val)"

record VkBufferCreateInfo =
  bci_flags :: u32
  bci_size :: u64
  bci_usage :: u32
  bci_sharingMode :: u32
  bci_queueFamilyIndexCount :: u32
  bci_pQueueFamilyIndices :: "u32 list"

definition vn_encode_VkBufferCreateInfo_self :: "vk_enums \<Rightarrow> uk_venus_encoder \<Rightarrow> VkBufferCreateInfo \<Rightarrow> uk_venus_encoder" where
  "vn_encode_VkBufferCreateInfo_self C enc val =
    (let enc = vn_encode_VkFlags enc (bci_flags val);
         enc = vn_encode_VkDeviceSize enc (bci_size val);
         enc = vn_encode_VkFlags enc (bci_usage val);
         enc = vn_encode_VkSharingMode enc (bci_sharingMode val);
         enc = vn_encode_uint32_t enc (bci_queueFamilyIndexCount val)
     in if bci_sharingMode val = SHARING_MODE_CONCURRENT C
        then vn_encode_uint32_t_array (vn_encode_array_size enc (ucast (bci_queueFamilyIndexCount val)))
               (bci_pQueueFamilyIndices val) (bci_queueFamilyIndexCount val)
        else vn_encode_array_size enc 0)"

definition vn_encode_VkBufferCreateInfo ::
    "vk_enums \<Rightarrow> uk_venus_encoder \<Rightarrow> VkBufferCreateInfo \<Rightarrow> uk_venus_encoder" where
  "vn_encode_VkBufferCreateInfo C enc val =
    (let enc = vn_encode_VkStructureType enc (ST_BUFFER_CREATE_INFO C);
         enc = vn_encode_simple_pointer enc False
     in vn_encode_VkBufferCreateInfo_self C enc val)"

record VkShaderModuleCreateInfo =
  smi_flags :: u32
  smi_codeSize :: u64
  smi_pCode :: "u32 list option"

definition vn_encode_VkShaderModuleCreateInfo_self :: "uk_venus_encoder \<Rightarrow> VkShaderModuleCreateInfo \<Rightarrow> uk_venus_encoder" where
  "vn_encode_VkShaderModuleCreateInfo_self enc val =
    (let enc = vn_encode_VkFlags enc (smi_flags val);
         enc = vn_encode_size_t enc (smi_codeSize val)
     in case smi_pCode val of
          Some code \<Rightarrow> vn_encode_uint32_t_array (vn_encode_array_size enc (smi_codeSize val div 4)) code
                         (ucast (smi_codeSize val div 4))
        | None \<Rightarrow> vn_encode_array_size enc 0)"

definition vn_encode_VkShaderModuleCreateInfo ::
    "vk_enums \<Rightarrow> uk_venus_encoder \<Rightarrow> VkShaderModuleCreateInfo \<Rightarrow> uk_venus_encoder" where
  "vn_encode_VkShaderModuleCreateInfo C enc val =
    (let enc = vn_encode_VkStructureType enc (ST_SHADER_MODULE_CREATE_INFO C);
         enc = vn_encode_simple_pointer enc False
     in vn_encode_VkShaderModuleCreateInfo_self enc val)"

record VkPushConstantRange =
  pcr_stageFlags :: u32
  pcr_offset :: u32
  pcr_size :: u32

definition vn_encode_VkPushConstantRange :: "uk_venus_encoder \<Rightarrow> VkPushConstantRange \<Rightarrow> uk_venus_encoder" where
  "vn_encode_VkPushConstantRange enc val =
    (let enc = vn_encode_VkFlags enc (pcr_stageFlags val);
         enc = vn_encode_uint32_t enc (pcr_offset val)
     in vn_encode_uint32_t enc (pcr_size val))"

record VkPipelineLayoutCreateInfo =
  pli_flags :: u32
  pli_setLayoutCount :: u32
  pli_pSetLayouts :: "u64 list option"
  pli_pushConstantRangeCount :: u32
  pli_pPushConstantRanges :: "VkPushConstantRange list option"

definition vn_encode_VkPipelineLayoutCreateInfo_self :: "uk_venus_encoder \<Rightarrow> VkPipelineLayoutCreateInfo \<Rightarrow> uk_venus_encoder" where
  "vn_encode_VkPipelineLayoutCreateInfo_self enc val =
    (let enc = vn_encode_VkFlags enc (pli_flags val);
         enc = vn_encode_uint32_t enc (pli_setLayoutCount val);
         enc = vn_encode_array vn_encode_VkDescriptorSetLayout enc (pli_setLayoutCount val) (pli_pSetLayouts val);
         enc = vn_encode_uint32_t enc (pli_pushConstantRangeCount val)
     in vn_encode_array vn_encode_VkPushConstantRange enc (pli_pushConstantRangeCount val)
          (pli_pPushConstantRanges val))"

definition vn_encode_VkPipelineLayoutCreateInfo ::
    "vk_enums \<Rightarrow> uk_venus_encoder \<Rightarrow> VkPipelineLayoutCreateInfo \<Rightarrow> uk_venus_encoder" where
  "vn_encode_VkPipelineLayoutCreateInfo C enc val =
    (let enc = vn_encode_VkStructureType enc (ST_PIPELINE_LAYOUT_CREATE_INFO C);
         enc = vn_encode_simple_pointer enc False
     in vn_encode_VkPipelineLayoutCreateInfo_self enc val)"

text \<open>\<open>pSpecializationInfo\<close> is NULL in the sources' call.\<close>

record VkPipelineShaderStageCreateInfo =
  ssi_flags :: u32
  ssi_stage :: u32
  ssi_module :: u64
  ssi_pName :: "u8 list option"

definition vn_encode_VkPipelineShaderStageCreateInfo_self :: "uk_venus_encoder \<Rightarrow> VkPipelineShaderStageCreateInfo \<Rightarrow> uk_venus_encoder" where
  "vn_encode_VkPipelineShaderStageCreateInfo_self enc val =
    (let enc = vn_encode_VkFlags enc (ssi_flags val);
         enc = vn_encode_VkShaderStageFlagBits enc (ssi_stage val);
         enc = vn_encode_VkShaderModule enc (ssi_module val);
         enc = vn_encode_string enc (ssi_pName val)
     in vn_encode_simple_pointer enc False)"

definition vn_encode_VkPipelineShaderStageCreateInfo ::
    "vk_enums \<Rightarrow> uk_venus_encoder \<Rightarrow> VkPipelineShaderStageCreateInfo \<Rightarrow> uk_venus_encoder" where
  "vn_encode_VkPipelineShaderStageCreateInfo C enc val =
    (let enc = vn_encode_VkStructureType enc (ST_PIPELINE_SHADER_STAGE_CREATE_INFO C);
         enc = vn_encode_simple_pointer enc False
     in vn_encode_VkPipelineShaderStageCreateInfo_self enc val)"

record VkComputePipelineCreateInfo =
  cpi_flags :: u32
  cpi_stage :: VkPipelineShaderStageCreateInfo
  cpi_layout :: u64
  cpi_basePipelineHandle :: u64
  cpi_basePipelineIndex :: u32

definition vn_encode_VkComputePipelineCreateInfo_self :: "vk_enums \<Rightarrow> uk_venus_encoder \<Rightarrow> VkComputePipelineCreateInfo \<Rightarrow> uk_venus_encoder" where
  "vn_encode_VkComputePipelineCreateInfo_self C enc val =
    (let enc = vn_encode_VkFlags enc (cpi_flags val);
         enc = vn_encode_VkPipelineShaderStageCreateInfo C enc (cpi_stage val);
         enc = vn_encode_VkPipelineLayout enc (cpi_layout val);
         enc = vn_encode_VkPipeline enc (cpi_basePipelineHandle val)
     in vn_encode_int32_t enc (cpi_basePipelineIndex val))"

definition vn_encode_VkComputePipelineCreateInfo ::
    "vk_enums \<Rightarrow> uk_venus_encoder \<Rightarrow> VkComputePipelineCreateInfo \<Rightarrow> uk_venus_encoder" where
  "vn_encode_VkComputePipelineCreateInfo C enc val =
    (let enc = vn_encode_VkStructureType enc (ST_COMPUTE_PIPELINE_CREATE_INFO C);
         enc = vn_encode_simple_pointer enc False
     in vn_encode_VkComputePipelineCreateInfo_self C enc val)"

text \<open>\<open>pImmutableSamplers\<close> is NULL in the sources' call.\<close>

record VkDescriptorSetLayoutBinding =
  slb_binding :: u32
  slb_descriptorType :: u32
  slb_descriptorCount :: u32
  slb_stageFlags :: u32

definition vn_encode_VkDescriptorSetLayoutBinding :: "uk_venus_encoder \<Rightarrow> VkDescriptorSetLayoutBinding \<Rightarrow> uk_venus_encoder" where
  "vn_encode_VkDescriptorSetLayoutBinding enc val =
    (let enc = vn_encode_uint32_t enc (slb_binding val);
         enc = vn_encode_VkDescriptorType enc (slb_descriptorType val);
         enc = vn_encode_uint32_t enc (slb_descriptorCount val);
         enc = vn_encode_VkFlags enc (slb_stageFlags val)
     in vn_encode_array_size enc 0)"

record VkDescriptorSetLayoutCreateInfo =
  sli_flags :: u32
  sli_bindingCount :: u32
  sli_pBindings :: "VkDescriptorSetLayoutBinding list option"

definition vn_encode_VkDescriptorSetLayoutCreateInfo_self :: "uk_venus_encoder \<Rightarrow> VkDescriptorSetLayoutCreateInfo \<Rightarrow> uk_venus_encoder" where
  "vn_encode_VkDescriptorSetLayoutCreateInfo_self enc val =
    (let enc = vn_encode_VkFlags enc (sli_flags val);
         enc = vn_encode_uint32_t enc (sli_bindingCount val)
     in vn_encode_array vn_encode_VkDescriptorSetLayoutBinding enc (sli_bindingCount val) (sli_pBindings val))"

definition vn_encode_VkDescriptorSetLayoutCreateInfo ::
    "vk_enums \<Rightarrow> uk_venus_encoder \<Rightarrow> VkDescriptorSetLayoutCreateInfo \<Rightarrow> uk_venus_encoder" where
  "vn_encode_VkDescriptorSetLayoutCreateInfo C enc val =
    (let enc = vn_encode_VkStructureType enc (ST_DESCRIPTOR_SET_LAYOUT_CREATE_INFO C);
         enc = vn_encode_simple_pointer enc False
     in vn_encode_VkDescriptorSetLayoutCreateInfo_self enc val)"

record VkDescriptorPoolSize =
  dps_type :: u32
  dps_descriptorCount :: u32

definition vn_encode_VkDescriptorPoolSize :: "uk_venus_encoder \<Rightarrow> VkDescriptorPoolSize \<Rightarrow> uk_venus_encoder" where
  "vn_encode_VkDescriptorPoolSize enc val =
    (let enc = vn_encode_VkDescriptorType enc (dps_type val)
     in vn_encode_uint32_t enc (dps_descriptorCount val))"

record VkDescriptorPoolCreateInfo =
  dpi_flags :: u32
  dpi_maxSets :: u32
  dpi_poolSizeCount :: u32
  dpi_pPoolSizes :: "VkDescriptorPoolSize list option"

definition vn_encode_VkDescriptorPoolCreateInfo_self :: "uk_venus_encoder \<Rightarrow> VkDescriptorPoolCreateInfo \<Rightarrow> uk_venus_encoder" where
  "vn_encode_VkDescriptorPoolCreateInfo_self enc val =
    (let enc = vn_encode_VkFlags enc (dpi_flags val);
         enc = vn_encode_uint32_t enc (dpi_maxSets val);
         enc = vn_encode_uint32_t enc (dpi_poolSizeCount val)
     in vn_encode_array vn_encode_VkDescriptorPoolSize enc (dpi_poolSizeCount val) (dpi_pPoolSizes val))"

definition vn_encode_VkDescriptorPoolCreateInfo ::
    "vk_enums \<Rightarrow> uk_venus_encoder \<Rightarrow> VkDescriptorPoolCreateInfo \<Rightarrow> uk_venus_encoder" where
  "vn_encode_VkDescriptorPoolCreateInfo C enc val =
    (let enc = vn_encode_VkStructureType enc (ST_DESCRIPTOR_POOL_CREATE_INFO C);
         enc = vn_encode_simple_pointer enc False
     in vn_encode_VkDescriptorPoolCreateInfo_self enc val)"

record VkDescriptorSetAllocateInfo =
  dsa_descriptorPool :: u64
  dsa_descriptorSetCount :: u32
  dsa_pSetLayouts :: "u64 list option"

definition vn_encode_VkDescriptorSetAllocateInfo_self :: "uk_venus_encoder \<Rightarrow> VkDescriptorSetAllocateInfo \<Rightarrow> uk_venus_encoder" where
  "vn_encode_VkDescriptorSetAllocateInfo_self enc val =
    (let enc = vn_encode_VkDescriptorPool enc (dsa_descriptorPool val);
         enc = vn_encode_uint32_t enc (dsa_descriptorSetCount val)
     in vn_encode_array vn_encode_VkDescriptorSetLayout enc (dsa_descriptorSetCount val) (dsa_pSetLayouts val))"

definition vn_encode_VkDescriptorSetAllocateInfo ::
    "vk_enums \<Rightarrow> uk_venus_encoder \<Rightarrow> VkDescriptorSetAllocateInfo \<Rightarrow> uk_venus_encoder" where
  "vn_encode_VkDescriptorSetAllocateInfo C enc val =
    (let enc = vn_encode_VkStructureType enc (ST_DESCRIPTOR_SET_ALLOCATE_INFO C);
         enc = vn_encode_simple_pointer enc False
     in vn_encode_VkDescriptorSetAllocateInfo_self enc val)"

record VkDescriptorBufferInfo =
  dbi_buffer :: u64
  dbi_offset :: u64
  dbi_range :: u64

definition vn_encode_VkDescriptorBufferInfo :: "uk_venus_encoder \<Rightarrow> VkDescriptorBufferInfo \<Rightarrow> uk_venus_encoder" where
  "vn_encode_VkDescriptorBufferInfo enc val =
    (let enc = vn_encode_VkBuffer enc (dbi_buffer val);
         enc = vn_encode_VkDeviceSize enc (dbi_offset val)
     in vn_encode_VkDeviceSize enc (dbi_range val))"

text \<open>\<open>pImageInfo\<close> and \<open>pTexelBufferView\<close> are NULL in the sources' call.\<close>

record VkWriteDescriptorSet =
  wds_dstSet :: u64
  wds_dstBinding :: u32
  wds_dstArrayElement :: u32
  wds_descriptorCount :: u32
  wds_descriptorType :: u32
  wds_pBufferInfo :: "VkDescriptorBufferInfo list option"

definition vn_encode_VkWriteDescriptorSet_self :: "uk_venus_encoder \<Rightarrow> VkWriteDescriptorSet \<Rightarrow> uk_venus_encoder" where
  "vn_encode_VkWriteDescriptorSet_self enc val =
    (let enc = vn_encode_VkDescriptorSet enc (wds_dstSet val);
         enc = vn_encode_uint32_t enc (wds_dstBinding val);
         enc = vn_encode_uint32_t enc (wds_dstArrayElement val);
         enc = vn_encode_uint32_t enc (wds_descriptorCount val);
         enc = vn_encode_VkDescriptorType enc (wds_descriptorType val);
         enc = vn_encode_array_size enc 0;
         enc = vn_encode_array vn_encode_VkDescriptorBufferInfo enc (wds_descriptorCount val) (wds_pBufferInfo val)
     in vn_encode_array_size enc 0)"

definition vn_encode_VkWriteDescriptorSet ::
    "vk_enums \<Rightarrow> uk_venus_encoder \<Rightarrow> VkWriteDescriptorSet \<Rightarrow> uk_venus_encoder" where
  "vn_encode_VkWriteDescriptorSet C enc val =
    (let enc = vn_encode_VkStructureType enc (ST_WRITE_DESCRIPTOR_SET C);
         enc = vn_encode_simple_pointer enc False
     in vn_encode_VkWriteDescriptorSet_self enc val)"

record VkCommandPoolCreateInfo =
  cpo_flags :: u32
  cpo_queueFamilyIndex :: u32

definition vn_encode_VkCommandPoolCreateInfo_self :: "uk_venus_encoder \<Rightarrow> VkCommandPoolCreateInfo \<Rightarrow> uk_venus_encoder" where
  "vn_encode_VkCommandPoolCreateInfo_self enc val =
    (let enc = vn_encode_VkFlags enc (cpo_flags val)
     in vn_encode_uint32_t enc (cpo_queueFamilyIndex val))"

definition vn_encode_VkCommandPoolCreateInfo ::
    "vk_enums \<Rightarrow> uk_venus_encoder \<Rightarrow> VkCommandPoolCreateInfo \<Rightarrow> uk_venus_encoder" where
  "vn_encode_VkCommandPoolCreateInfo C enc val =
    (let enc = vn_encode_VkStructureType enc (ST_COMMAND_POOL_CREATE_INFO C);
         enc = vn_encode_simple_pointer enc False
     in vn_encode_VkCommandPoolCreateInfo_self enc val)"

record VkCommandBufferAllocateInfo =
  cba_commandPool :: u64
  cba_level :: u32
  cba_commandBufferCount :: u32

definition vn_encode_VkCommandBufferAllocateInfo_self :: "uk_venus_encoder \<Rightarrow> VkCommandBufferAllocateInfo \<Rightarrow> uk_venus_encoder" where
  "vn_encode_VkCommandBufferAllocateInfo_self enc val =
    (let enc = vn_encode_VkCommandPool enc (cba_commandPool val);
         enc = vn_encode_VkCommandBufferLevel enc (cba_level val)
     in vn_encode_uint32_t enc (cba_commandBufferCount val))"

definition vn_encode_VkCommandBufferAllocateInfo ::
    "vk_enums \<Rightarrow> uk_venus_encoder \<Rightarrow> VkCommandBufferAllocateInfo \<Rightarrow> uk_venus_encoder" where
  "vn_encode_VkCommandBufferAllocateInfo C enc val =
    (let enc = vn_encode_VkStructureType enc (ST_COMMAND_BUFFER_ALLOCATE_INFO C);
         enc = vn_encode_simple_pointer enc False
     in vn_encode_VkCommandBufferAllocateInfo_self enc val)"

text \<open>\<open>pInheritanceInfo\<close> is NULL in the sources' call.\<close>

record VkCommandBufferBeginInfo =
  cbb_flags :: u32

definition vn_encode_VkCommandBufferBeginInfo_self :: "uk_venus_encoder \<Rightarrow> VkCommandBufferBeginInfo \<Rightarrow> uk_venus_encoder" where
  "vn_encode_VkCommandBufferBeginInfo_self enc val =
    (let enc = vn_encode_VkFlags enc (cbb_flags val)
     in vn_encode_simple_pointer enc False)"

definition vn_encode_VkCommandBufferBeginInfo ::
    "vk_enums \<Rightarrow> uk_venus_encoder \<Rightarrow> VkCommandBufferBeginInfo \<Rightarrow> uk_venus_encoder" where
  "vn_encode_VkCommandBufferBeginInfo C enc val =
    (let enc = vn_encode_VkStructureType enc (ST_COMMAND_BUFFER_BEGIN_INFO C);
         enc = vn_encode_simple_pointer enc False
     in vn_encode_VkCommandBufferBeginInfo_self enc val)"

record VkBufferCopy =
  bcp_srcOffset :: u64
  bcp_dstOffset :: u64
  bcp_size :: u64

definition vn_encode_VkBufferCopy :: "uk_venus_encoder \<Rightarrow> VkBufferCopy \<Rightarrow> uk_venus_encoder" where
  "vn_encode_VkBufferCopy enc val =
    (let enc = vn_encode_VkDeviceSize enc (bcp_srcOffset val);
         enc = vn_encode_VkDeviceSize enc (bcp_dstOffset val)
     in vn_encode_VkDeviceSize enc (bcp_size val))"

record VkFenceCreateInfo =
  fci_flags :: u32

definition vn_encode_VkFenceCreateInfo_self :: "uk_venus_encoder \<Rightarrow> VkFenceCreateInfo \<Rightarrow> uk_venus_encoder" where
  "vn_encode_VkFenceCreateInfo_self enc val =
    vn_encode_VkFlags enc (fci_flags val)"

definition vn_encode_VkFenceCreateInfo ::
    "vk_enums \<Rightarrow> uk_venus_encoder \<Rightarrow> VkFenceCreateInfo \<Rightarrow> uk_venus_encoder" where
  "vn_encode_VkFenceCreateInfo C enc val =
    (let enc = vn_encode_VkStructureType enc (ST_FENCE_CREATE_INFO C);
         enc = vn_encode_simple_pointer enc False
     in vn_encode_VkFenceCreateInfo_self enc val)"

record VkSubmitInfo =
  sbi_waitSemaphoreCount :: u32
  sbi_pWaitSemaphores :: "u64 list option"
  sbi_pWaitDstStageMask :: "u32 list option"
  sbi_commandBufferCount :: u32
  sbi_pCommandBuffers :: "u64 list option"
  sbi_signalSemaphoreCount :: u32
  sbi_pSignalSemaphores :: "u64 list option"

definition vn_encode_VkSubmitInfo_self :: "uk_venus_encoder \<Rightarrow> VkSubmitInfo \<Rightarrow> uk_venus_encoder" where
  "vn_encode_VkSubmitInfo_self enc val =
    (let enc = vn_encode_uint32_t enc (sbi_waitSemaphoreCount val);
         enc = vn_encode_array vn_encode_VkSemaphore enc (sbi_waitSemaphoreCount val) (sbi_pWaitSemaphores val);
         enc = vn_encode_array vn_encode_VkFlags enc (sbi_waitSemaphoreCount val) (sbi_pWaitDstStageMask val);
         enc = vn_encode_uint32_t enc (sbi_commandBufferCount val);
         enc = vn_encode_array vn_encode_VkCommandBuffer enc (sbi_commandBufferCount val) (sbi_pCommandBuffers val);
         enc = vn_encode_uint32_t enc (sbi_signalSemaphoreCount val)
     in vn_encode_array vn_encode_VkSemaphore enc (sbi_signalSemaphoreCount val) (sbi_pSignalSemaphores val))"

definition vn_encode_VkSubmitInfo ::
    "vk_enums \<Rightarrow> uk_venus_encoder \<Rightarrow> VkSubmitInfo \<Rightarrow> uk_venus_encoder" where
  "vn_encode_VkSubmitInfo C enc val =
    (let enc = vn_encode_VkStructureType enc (ST_SUBMIT_INFO C);
         enc = vn_encode_simple_pointer enc False
     in vn_encode_VkSubmitInfo_self enc val)"

section \<open>Generated commands\<close>

definition vn_encode_vkAllocateMemory :: "vk_enums \<Rightarrow> uk_venus_encoder \<Rightarrow> u32 \<Rightarrow> u64
    \<Rightarrow> VkMemoryAllocateInfo option \<Rightarrow> u64 option \<Rightarrow> uk_venus_encoder" where
  "vn_encode_vkAllocateMemory C enc cmd_flags device pAllocateInfo pMemory =
    (let enc = vn_encode_VkCommandTypeEXT enc VN_CMD_vkAllocateMemory;
         enc = vn_encode_VkFlags enc cmd_flags;
         enc = vn_encode_VkDevice enc device;
         enc = vn_encode_optional (vn_encode_VkMemoryAllocateInfo C) enc pAllocateInfo;
         enc = vn_encode_simple_pointer enc False
     in vn_encode_optional vn_encode_VkDeviceMemory enc pMemory)"

definition vn_encode_vkFreeMemory :: "uk_venus_encoder \<Rightarrow> u32 \<Rightarrow> u64 \<Rightarrow> u64
    \<Rightarrow> uk_venus_encoder" where
  "vn_encode_vkFreeMemory enc cmd_flags device memory =
    (let enc = vn_encode_VkCommandTypeEXT enc VN_CMD_vkFreeMemory;
         enc = vn_encode_VkFlags enc cmd_flags;
         enc = vn_encode_VkDevice enc device;
         enc = vn_encode_VkDeviceMemory enc memory
     in vn_encode_simple_pointer enc False)"

definition vn_encode_vkBindBufferMemory :: "uk_venus_encoder \<Rightarrow> u32 \<Rightarrow> u64 \<Rightarrow> u64
    \<Rightarrow> u64 \<Rightarrow> u64 \<Rightarrow> uk_venus_encoder" where
  "vn_encode_vkBindBufferMemory enc cmd_flags device buffer memory memoryOffset =
    (let enc = vn_encode_VkCommandTypeEXT enc VN_CMD_vkBindBufferMemory;
         enc = vn_encode_VkFlags enc cmd_flags;
         enc = vn_encode_VkDevice enc device;
         enc = vn_encode_VkBuffer enc buffer;
         enc = vn_encode_VkDeviceMemory enc memory
     in vn_encode_VkDeviceSize enc memoryOffset)"

definition vn_encode_vkCreateBuffer :: "vk_enums \<Rightarrow> uk_venus_encoder \<Rightarrow> u32 \<Rightarrow> u64
    \<Rightarrow> VkBufferCreateInfo option \<Rightarrow> u64 option \<Rightarrow> uk_venus_encoder" where
  "vn_encode_vkCreateBuffer C enc cmd_flags device pCreateInfo pBuffer =
    (let enc = vn_encode_VkCommandTypeEXT enc VN_CMD_vkCreateBuffer;
         enc = vn_encode_VkFlags enc cmd_flags;
         enc = vn_encode_VkDevice enc device;
         enc = vn_encode_optional (vn_encode_VkBufferCreateInfo C) enc pCreateInfo;
         enc = vn_encode_simple_pointer enc False
     in vn_encode_optional vn_encode_VkBuffer enc pBuffer)"

definition vn_encode_vkDestroyBuffer :: "uk_venus_encoder \<Rightarrow> u32 \<Rightarrow> u64 \<Rightarrow> u64
    \<Rightarrow> uk_venus_encoder" where
  "vn_encode_vkDestroyBuffer enc cmd_flags device buffer =
    (let enc = vn_encode_VkCommandTypeEXT enc VN_CMD_vkDestroyBuffer;
         enc = vn_encode_VkFlags enc cmd_flags;
         enc = vn_encode_VkDevice enc device;
         enc = vn_encode_VkBuffer enc buffer
     in vn_encode_simple_pointer enc False)"

definition vn_encode_vkCreateShaderModule :: "vk_enums \<Rightarrow> uk_venus_encoder \<Rightarrow> u32 \<Rightarrow> u64
    \<Rightarrow> VkShaderModuleCreateInfo option \<Rightarrow> u64 option \<Rightarrow> uk_venus_encoder" where
  "vn_encode_vkCreateShaderModule C enc cmd_flags device pCreateInfo pShaderModule =
    (let enc = vn_encode_VkCommandTypeEXT enc VN_CMD_vkCreateShaderModule;
         enc = vn_encode_VkFlags enc cmd_flags;
         enc = vn_encode_VkDevice enc device;
         enc = vn_encode_optional (vn_encode_VkShaderModuleCreateInfo C) enc pCreateInfo;
         enc = vn_encode_simple_pointer enc False
     in vn_encode_optional vn_encode_VkShaderModule enc pShaderModule)"

definition vn_encode_vkDestroyShaderModule :: "uk_venus_encoder \<Rightarrow> u32 \<Rightarrow> u64 \<Rightarrow> u64
    \<Rightarrow> uk_venus_encoder" where
  "vn_encode_vkDestroyShaderModule enc cmd_flags device shaderModule =
    (let enc = vn_encode_VkCommandTypeEXT enc VN_CMD_vkDestroyShaderModule;
         enc = vn_encode_VkFlags enc cmd_flags;
         enc = vn_encode_VkDevice enc device;
         enc = vn_encode_VkShaderModule enc shaderModule
     in vn_encode_simple_pointer enc False)"

definition vn_encode_vkCreatePipelineLayout :: "vk_enums \<Rightarrow> uk_venus_encoder \<Rightarrow> u32 \<Rightarrow> u64
    \<Rightarrow> VkPipelineLayoutCreateInfo option \<Rightarrow> u64 option \<Rightarrow> uk_venus_encoder" where
  "vn_encode_vkCreatePipelineLayout C enc cmd_flags device pCreateInfo pPipelineLayout =
    (let enc = vn_encode_VkCommandTypeEXT enc VN_CMD_vkCreatePipelineLayout;
         enc = vn_encode_VkFlags enc cmd_flags;
         enc = vn_encode_VkDevice enc device;
         enc = vn_encode_optional (vn_encode_VkPipelineLayoutCreateInfo C) enc pCreateInfo;
         enc = vn_encode_simple_pointer enc False
     in vn_encode_optional vn_encode_VkPipelineLayout enc pPipelineLayout)"

definition vn_encode_vkDestroyPipelineLayout :: "uk_venus_encoder \<Rightarrow> u32 \<Rightarrow> u64 \<Rightarrow> u64
    \<Rightarrow> uk_venus_encoder" where
  "vn_encode_vkDestroyPipelineLayout enc cmd_flags device pipelineLayout =
    (let enc = vn_encode_VkCommandTypeEXT enc VN_CMD_vkDestroyPipelineLayout;
         enc = vn_encode_VkFlags enc cmd_flags;
         enc = vn_encode_VkDevice enc device;
         enc = vn_encode_VkPipelineLayout enc pipelineLayout
     in vn_encode_simple_pointer enc False)"

definition vn_encode_vkCreateComputePipelines :: "vk_enums \<Rightarrow> uk_venus_encoder \<Rightarrow> u32 \<Rightarrow> u64
    \<Rightarrow> u64 \<Rightarrow> u32 \<Rightarrow> VkComputePipelineCreateInfo list option \<Rightarrow> u64 list option \<Rightarrow> uk_venus_encoder" where
  "vn_encode_vkCreateComputePipelines C enc cmd_flags device pipelineCache createInfoCount pCreateInfos pPipelines =
    (let enc = vn_encode_VkCommandTypeEXT enc VN_CMD_vkCreateComputePipelines;
         enc = vn_encode_VkFlags enc cmd_flags;
         enc = vn_encode_VkDevice enc device;
         enc = vn_encode_VkPipelineCache enc pipelineCache;
         enc = vn_encode_uint32_t enc createInfoCount;
         enc = vn_encode_array (vn_encode_VkComputePipelineCreateInfo C) enc createInfoCount pCreateInfos;
         enc = vn_encode_simple_pointer enc False
     in vn_encode_array vn_encode_VkPipeline enc createInfoCount pPipelines)"

definition vn_encode_vkDestroyPipeline :: "uk_venus_encoder \<Rightarrow> u32 \<Rightarrow> u64 \<Rightarrow> u64
    \<Rightarrow> uk_venus_encoder" where
  "vn_encode_vkDestroyPipeline enc cmd_flags device pipeline =
    (let enc = vn_encode_VkCommandTypeEXT enc VN_CMD_vkDestroyPipeline;
         enc = vn_encode_VkFlags enc cmd_flags;
         enc = vn_encode_VkDevice enc device;
         enc = vn_encode_VkPipeline enc pipeline
     in vn_encode_simple_pointer enc False)"

definition vn_encode_vkCreateDescriptorSetLayout :: "vk_enums \<Rightarrow> uk_venus_encoder \<Rightarrow> u32 \<Rightarrow> u64
    \<Rightarrow> VkDescriptorSetLayoutCreateInfo option \<Rightarrow> u64 option \<Rightarrow> uk_venus_encoder" where
  "vn_encode_vkCreateDescriptorSetLayout C enc cmd_flags device pCreateInfo pSetLayout =
    (let enc = vn_encode_VkCommandTypeEXT enc VN_CMD_vkCreateDescriptorSetLayout;
         enc = vn_encode_VkFlags enc cmd_flags;
         enc = vn_encode_VkDevice enc device;
         enc = vn_encode_optional (vn_encode_VkDescriptorSetLayoutCreateInfo C) enc pCreateInfo;
         enc = vn_encode_simple_pointer enc False
     in vn_encode_optional vn_encode_VkDescriptorSetLayout enc pSetLayout)"

definition vn_encode_vkDestroyDescriptorSetLayout :: "uk_venus_encoder \<Rightarrow> u32 \<Rightarrow> u64 \<Rightarrow> u64
    \<Rightarrow> uk_venus_encoder" where
  "vn_encode_vkDestroyDescriptorSetLayout enc cmd_flags device descriptorSetLayout =
    (let enc = vn_encode_VkCommandTypeEXT enc VN_CMD_vkDestroyDescriptorSetLayout;
         enc = vn_encode_VkFlags enc cmd_flags;
         enc = vn_encode_VkDevice enc device;
         enc = vn_encode_VkDescriptorSetLayout enc descriptorSetLayout
     in vn_encode_simple_pointer enc False)"

definition vn_encode_vkCreateDescriptorPool :: "vk_enums \<Rightarrow> uk_venus_encoder \<Rightarrow> u32 \<Rightarrow> u64
    \<Rightarrow> VkDescriptorPoolCreateInfo option \<Rightarrow> u64 option \<Rightarrow> uk_venus_encoder" where
  "vn_encode_vkCreateDescriptorPool C enc cmd_flags device pCreateInfo pDescriptorPool =
    (let enc = vn_encode_VkCommandTypeEXT enc VN_CMD_vkCreateDescriptorPool;
         enc = vn_encode_VkFlags enc cmd_flags;
         enc = vn_encode_VkDevice enc device;
         enc = vn_encode_optional (vn_encode_VkDescriptorPoolCreateInfo C) enc pCreateInfo;
         enc = vn_encode_simple_pointer enc False
     in vn_encode_optional vn_encode_VkDescriptorPool enc pDescriptorPool)"

definition vn_encode_vkDestroyDescriptorPool :: "uk_venus_encoder \<Rightarrow> u32 \<Rightarrow> u64 \<Rightarrow> u64
    \<Rightarrow> uk_venus_encoder" where
  "vn_encode_vkDestroyDescriptorPool enc cmd_flags device descriptorPool =
    (let enc = vn_encode_VkCommandTypeEXT enc VN_CMD_vkDestroyDescriptorPool;
         enc = vn_encode_VkFlags enc cmd_flags;
         enc = vn_encode_VkDevice enc device;
         enc = vn_encode_VkDescriptorPool enc descriptorPool
     in vn_encode_simple_pointer enc False)"

definition vn_encode_vkAllocateDescriptorSets :: "vk_enums \<Rightarrow> uk_venus_encoder \<Rightarrow> u32 \<Rightarrow> u64
    \<Rightarrow> VkDescriptorSetAllocateInfo option \<Rightarrow> u64 list option \<Rightarrow> uk_venus_encoder" where
  "vn_encode_vkAllocateDescriptorSets C enc cmd_flags device pAllocateInfo pDescriptorSets =
    (let enc = vn_encode_VkCommandTypeEXT enc VN_CMD_vkAllocateDescriptorSets;
         enc = vn_encode_VkFlags enc cmd_flags;
         enc = vn_encode_VkDevice enc device;
         enc = vn_encode_optional (vn_encode_VkDescriptorSetAllocateInfo C) enc pAllocateInfo
     in vn_encode_array vn_encode_VkDescriptorSet enc
          (case pAllocateInfo of Some ai \<Rightarrow> dsa_descriptorSetCount ai | None \<Rightarrow> 0) pDescriptorSets)"

text \<open>\<open>pDescriptorCopies\<close> is NULL in the sources' call.\<close>

definition vn_encode_vkUpdateDescriptorSets :: "vk_enums \<Rightarrow> uk_venus_encoder \<Rightarrow> u32 \<Rightarrow> u64
    \<Rightarrow> u32 \<Rightarrow> VkWriteDescriptorSet list option \<Rightarrow> u32 \<Rightarrow> uk_venus_encoder" where
  "vn_encode_vkUpdateDescriptorSets C enc cmd_flags device descriptorWriteCount pDescriptorWrites descriptorCopyCount =
    (let enc = vn_encode_VkCommandTypeEXT enc VN_CMD_vkUpdateDescriptorSets;
         enc = vn_encode_VkFlags enc cmd_flags;
         enc = vn_encode_VkDevice enc device;
         enc = vn_encode_uint32_t enc descriptorWriteCount;
         enc = vn_encode_array (vn_encode_VkWriteDescriptorSet C) enc descriptorWriteCount pDescriptorWrites;
         enc = vn_encode_uint32_t enc descriptorCopyCount
     in vn_encode_array_size enc 0)"

definition vn_encode_vkCreateCommandPool :: "vk_enums \<Rightarrow> uk_venus_encoder \<Rightarrow> u32 \<Rightarrow> u64
    \<Rightarrow> VkCommandPoolCreateInfo option \<Rightarrow> u64 option \<Rightarrow> uk_venus_encoder" where
  "vn_encode_vkCreateCommandPool C enc cmd_flags device pCreateInfo pCommandPool =
    (let enc = vn_encode_VkCommandTypeEXT enc VN_CMD_vkCreateCommandPool;
         enc = vn_encode_VkFlags enc cmd_flags;
         enc = vn_encode_VkDevice enc device;
         enc = vn_encode_optional (vn_encode_VkCommandPoolCreateInfo C) enc pCreateInfo;
         enc = vn_encode_simple_pointer enc False
     in vn_encode_optional vn_encode_VkCommandPool enc pCommandPool)"

definition vn_encode_vkDestroyCommandPool :: "uk_venus_encoder \<Rightarrow> u32 \<Rightarrow> u64 \<Rightarrow> u64
    \<Rightarrow> uk_venus_encoder" where
  "vn_encode_vkDestroyCommandPool enc cmd_flags device commandPool =
    (let enc = vn_encode_VkCommandTypeEXT enc VN_CMD_vkDestroyCommandPool;
         enc = vn_encode_VkFlags enc cmd_flags;
         enc = vn_encode_VkDevice enc device;
         enc = vn_encode_VkCommandPool enc commandPool
     in vn_encode_simple_pointer enc False)"

definition vn_encode_vkAllocateCommandBuffers :: "vk_enums \<Rightarrow> uk_venus_encoder \<Rightarrow> u32 \<Rightarrow> u64
    \<Rightarrow> VkCommandBufferAllocateInfo option \<Rightarrow> u64 list option \<Rightarrow> uk_venus_encoder" where
  "vn_encode_vkAllocateCommandBuffers C enc cmd_flags device pAllocateInfo pCommandBuffers =
    (let enc = vn_encode_VkCommandTypeEXT enc VN_CMD_vkAllocateCommandBuffers;
         enc = vn_encode_VkFlags enc cmd_flags;
         enc = vn_encode_VkDevice enc device;
         enc = vn_encode_optional (vn_encode_VkCommandBufferAllocateInfo C) enc pAllocateInfo
     in vn_encode_array vn_encode_VkCommandBuffer enc
          (case pAllocateInfo of Some ai \<Rightarrow> cba_commandBufferCount ai | None \<Rightarrow> 0) pCommandBuffers)"

definition vn_encode_vkFreeCommandBuffers :: "uk_venus_encoder \<Rightarrow> u32 \<Rightarrow> u64 \<Rightarrow> u64
    \<Rightarrow> u32 \<Rightarrow> u64 list option \<Rightarrow> uk_venus_encoder" where
  "vn_encode_vkFreeCommandBuffers enc cmd_flags device commandPool commandBufferCount pCommandBuffers =
    (let enc = vn_encode_VkCommandTypeEXT enc VN_CMD_vkFreeCommandBuffers;
         enc = vn_encode_VkFlags enc cmd_flags;
         enc = vn_encode_VkDevice enc device;
         enc = vn_encode_VkCommandPool enc commandPool;
         enc = vn_encode_uint32_t enc commandBufferCount
     in vn_encode_array vn_encode_VkCommandBuffer enc commandBufferCount pCommandBuffers)"

definition vn_encode_vkBeginCommandBuffer :: "vk_enums \<Rightarrow> uk_venus_encoder \<Rightarrow> u32 \<Rightarrow> u64
    \<Rightarrow> VkCommandBufferBeginInfo option \<Rightarrow> uk_venus_encoder" where
  "vn_encode_vkBeginCommandBuffer C enc cmd_flags commandBuffer pBeginInfo =
    (let enc = vn_encode_VkCommandTypeEXT enc VN_CMD_vkBeginCommandBuffer;
         enc = vn_encode_VkFlags enc cmd_flags;
         enc = vn_encode_VkCommandBuffer enc commandBuffer
     in vn_encode_optional (vn_encode_VkCommandBufferBeginInfo C) enc pBeginInfo)"

definition vn_encode_vkEndCommandBuffer :: "uk_venus_encoder \<Rightarrow> u32 \<Rightarrow> u64
    \<Rightarrow> uk_venus_encoder" where
  "vn_encode_vkEndCommandBuffer enc cmd_flags commandBuffer =
    (let enc = vn_encode_VkCommandTypeEXT enc VN_CMD_vkEndCommandBuffer;
         enc = vn_encode_VkFlags enc cmd_flags
     in vn_encode_VkCommandBuffer enc commandBuffer)"

definition vn_encode_vkCmdBindPipeline :: "uk_venus_encoder \<Rightarrow> u32 \<Rightarrow> u64 \<Rightarrow> u32
    \<Rightarrow> u64 \<Rightarrow> uk_venus_encoder" where
  "vn_encode_vkCmdBindPipeline enc cmd_flags commandBuffer pipelineBindPoint pipeline =
    (let enc = vn_encode_VkCommandTypeEXT enc VN_CMD_vkCmdBindPipeline;
         enc = vn_encode_VkFlags enc cmd_flags;
         enc = vn_encode_VkCommandBuffer enc commandBuffer;
         enc = vn_encode_VkPipelineBindPoint enc pipelineBindPoint
     in vn_encode_VkPipeline enc pipeline)"

definition vn_encode_vkCmdBindDescriptorSets :: "uk_venus_encoder \<Rightarrow> u32 \<Rightarrow> u64 \<Rightarrow> u32
    \<Rightarrow> u64 \<Rightarrow> u32 \<Rightarrow> u32 \<Rightarrow> u64 list option \<Rightarrow> u32 \<Rightarrow> u32 list option \<Rightarrow> uk_venus_encoder" where
  "vn_encode_vkCmdBindDescriptorSets enc cmd_flags commandBuffer pipelineBindPoint layout firstSet descriptorSetCount pDescriptorSets dynamicOffsetCount pDynamicOffsets =
    (let enc = vn_encode_VkCommandTypeEXT enc VN_CMD_vkCmdBindDescriptorSets;
         enc = vn_encode_VkFlags enc cmd_flags;
         enc = vn_encode_VkCommandBuffer enc commandBuffer;
         enc = vn_encode_VkPipelineBindPoint enc pipelineBindPoint;
         enc = vn_encode_VkPipelineLayout enc layout;
         enc = vn_encode_uint32_t enc firstSet;
         enc = vn_encode_uint32_t enc descriptorSetCount;
         enc = vn_encode_array vn_encode_VkDescriptorSet enc descriptorSetCount pDescriptorSets;
         enc = vn_encode_uint32_t enc dynamicOffsetCount
     in case pDynamicOffsets of
          Some os \<Rightarrow> vn_encode_uint32_t_array (vn_encode_array_size enc (ucast dynamicOffsetCount)) os dynamicOffsetCount
        | None \<Rightarrow> vn_encode_array_size enc 0)"

definition vn_encode_vkCmdPushConstants :: "uk_venus_encoder \<Rightarrow> u32 \<Rightarrow> u64 \<Rightarrow> u64
    \<Rightarrow> u32 \<Rightarrow> u32 \<Rightarrow> u32 \<Rightarrow> u8 list option \<Rightarrow> uk_venus_encoder" where
  "vn_encode_vkCmdPushConstants enc cmd_flags commandBuffer layout stageFlags off sz pValues =
    (let enc = vn_encode_VkCommandTypeEXT enc VN_CMD_vkCmdPushConstants;
         enc = vn_encode_VkFlags enc cmd_flags;
         enc = vn_encode_VkCommandBuffer enc commandBuffer;
         enc = vn_encode_VkPipelineLayout enc layout;
         enc = vn_encode_VkFlags enc stageFlags;
         enc = vn_encode_uint32_t enc off;
         enc = vn_encode_uint32_t enc sz
     in case pValues of
          Some vs \<Rightarrow> vn_encode_blob_array (vn_encode_array_size enc (ucast sz)) vs (ucast sz)
        | None \<Rightarrow> vn_encode_array_size enc 0)"

definition vn_encode_vkCmdDispatch :: "uk_venus_encoder \<Rightarrow> u32 \<Rightarrow> u64 \<Rightarrow> u32
    \<Rightarrow> u32 \<Rightarrow> u32 \<Rightarrow> uk_venus_encoder" where
  "vn_encode_vkCmdDispatch enc cmd_flags commandBuffer groupCountX groupCountY groupCountZ =
    (let enc = vn_encode_VkCommandTypeEXT enc VN_CMD_vkCmdDispatch;
         enc = vn_encode_VkFlags enc cmd_flags;
         enc = vn_encode_VkCommandBuffer enc commandBuffer;
         enc = vn_encode_uint32_t enc groupCountX;
         enc = vn_encode_uint32_t enc groupCountY
     in vn_encode_uint32_t enc groupCountZ)"

definition vn_encode_vkCmdCopyBuffer :: "uk_venus_encoder \<Rightarrow> u32 \<Rightarrow> u64 \<Rightarrow> u64
    \<Rightarrow> u64 \<Rightarrow> u32 \<Rightarrow> VkBufferCopy list option \<Rightarrow> uk_venus_encoder" where
  "vn_encode_vkCmdCopyBuffer enc cmd_flags commandBuffer srcBuffer dstBuffer regionCount pRegions =
    (let enc = vn_encode_VkCommandTypeEXT enc VN_CMD_vkCmdCopyBuffer;
         enc = vn_encode_VkFlags enc cmd_flags;
         enc = vn_encode_VkCommandBuffer enc commandBuffer;
         enc = vn_encode_VkBuffer enc srcBuffer;
         enc = vn_encode_VkBuffer enc dstBuffer;
         enc = vn_encode_uint32_t enc regionCount
     in vn_encode_array vn_encode_VkBufferCopy enc regionCount pRegions)"

definition vn_encode_vkCmdFillBuffer :: "uk_venus_encoder \<Rightarrow> u32 \<Rightarrow> u64 \<Rightarrow> u64
    \<Rightarrow> u64 \<Rightarrow> u64 \<Rightarrow> u32 \<Rightarrow> uk_venus_encoder" where
  "vn_encode_vkCmdFillBuffer enc cmd_flags commandBuffer dstBuffer dstOffset sz dat =
    (let enc = vn_encode_VkCommandTypeEXT enc VN_CMD_vkCmdFillBuffer;
         enc = vn_encode_VkFlags enc cmd_flags;
         enc = vn_encode_VkCommandBuffer enc commandBuffer;
         enc = vn_encode_VkBuffer enc dstBuffer;
         enc = vn_encode_VkDeviceSize enc dstOffset;
         enc = vn_encode_VkDeviceSize enc sz
     in vn_encode_uint32_t enc dat)"

text \<open>The three barrier arrays are NULL in the sources' call.\<close>

definition vn_encode_vkCmdPipelineBarrier :: "uk_venus_encoder \<Rightarrow> u32 \<Rightarrow> u64 \<Rightarrow> u32
    \<Rightarrow> u32 \<Rightarrow> u32 \<Rightarrow> u32 \<Rightarrow> u32 \<Rightarrow> u32 \<Rightarrow> uk_venus_encoder" where
  "vn_encode_vkCmdPipelineBarrier enc cmd_flags commandBuffer srcStageMask dstStageMask dependencyFlags memoryBarrierCount bufferMemoryBarrierCount imageMemoryBarrierCount =
    (let enc = vn_encode_VkCommandTypeEXT enc VN_CMD_vkCmdPipelineBarrier;
         enc = vn_encode_VkFlags enc cmd_flags;
         enc = vn_encode_VkCommandBuffer enc commandBuffer;
         enc = vn_encode_VkFlags enc srcStageMask;
         enc = vn_encode_VkFlags enc dstStageMask;
         enc = vn_encode_VkFlags enc dependencyFlags;
         enc = vn_encode_uint32_t enc memoryBarrierCount;
         enc = vn_encode_array_size enc 0;
         enc = vn_encode_uint32_t enc bufferMemoryBarrierCount;
         enc = vn_encode_array_size enc 0;
         enc = vn_encode_uint32_t enc imageMemoryBarrierCount
     in vn_encode_array_size enc 0)"

definition vn_encode_vkCreateFence :: "vk_enums \<Rightarrow> uk_venus_encoder \<Rightarrow> u32 \<Rightarrow> u64
    \<Rightarrow> VkFenceCreateInfo option \<Rightarrow> u64 option \<Rightarrow> uk_venus_encoder" where
  "vn_encode_vkCreateFence C enc cmd_flags device pCreateInfo pFence =
    (let enc = vn_encode_VkCommandTypeEXT enc VN_CMD_vkCreateFence;
         enc = vn_encode_VkFlags enc cmd_flags;
         enc = vn_encode_VkDevice enc device;
         enc = vn_encode_optional (vn_encode_VkFenceCreateInfo C) enc pCreateInfo;
         enc = vn_encode_simple_pointer enc False
     in vn_encode_optional vn_encode_VkFence enc pFence)"

definition vn_encode_vkResetFences :: "uk_venus_encoder \<Rightarrow> u32 \<Rightarrow> u64 \<Rightarrow> u32
    \<Rightarrow> u64 list option \<Rightarrow> uk_venus_encoder" where
  "vn_encode_vkResetFences enc cmd_flags device fenceCount pFences =
    (let enc = vn_encode_VkCommandTypeEXT enc VN_CMD_vkResetFences;
         enc = vn_encode_VkFlags enc cmd_flags;
         enc = vn_encode_VkDevice enc device;
         enc = vn_encode_uint32_t enc fenceCount
     in vn_encode_array vn_encode_VkFence enc fenceCount pFences)"

definition vn_encode_vkWaitForFences :: "uk_venus_encoder \<Rightarrow> u32 \<Rightarrow> u64 \<Rightarrow> u32
    \<Rightarrow> u64 list option \<Rightarrow> u32 \<Rightarrow> u64 \<Rightarrow> uk_venus_encoder" where
  "vn_encode_vkWaitForFences enc cmd_flags device fenceCount pFences waitAll timeout =
    (let enc = vn_encode_VkCommandTypeEXT enc VN_CMD_vkWaitForFences;
         enc = vn_encode_VkFlags enc cmd_flags;
         enc = vn_encode_VkDevice enc device;
         enc = vn_encode_uint32_t enc fenceCount;
         enc = vn_encode_array vn_encode_VkFence enc fenceCount pFences;
         enc = vn_encode_VkBool32 enc waitAll
     in vn_encode_uint64_t enc timeout)"

definition vn_encode_vkQueueSubmit :: "vk_enums \<Rightarrow> uk_venus_encoder \<Rightarrow> u32 \<Rightarrow> u64
    \<Rightarrow> u32 \<Rightarrow> VkSubmitInfo list option \<Rightarrow> u64 \<Rightarrow> uk_venus_encoder" where
  "vn_encode_vkQueueSubmit C enc cmd_flags queue submitCount pSubmits fence =
    (let enc = vn_encode_VkCommandTypeEXT enc VN_CMD_vkQueueSubmit;
         enc = vn_encode_VkFlags enc cmd_flags;
         enc = vn_encode_VkQueue enc queue;
         enc = vn_encode_uint32_t enc submitCount;
         enc = vn_encode_array (vn_encode_VkSubmitInfo C) enc submitCount pSubmits
     in vn_encode_VkFence enc fence)"

section \<open>The encoders of \<open>venus_compute.c\<close>\<close>

definition uk_venus_encode_vkAllocateMemory ::
    "vk_enums \<Rightarrow> uk_venus_encoder \<Rightarrow> u64 \<Rightarrow> u64
    \<Rightarrow> u64 \<Rightarrow> u32 \<Rightarrow> uk_venus_encoder" where
  "uk_venus_encode_vkAllocateMemory C enc device mem_handle alloc_size mem_type_index =
    vn_encode_vkAllocateMemory C enc 0 device
      (Some \<lparr> mai_allocationSize = alloc_size, mai_memoryTypeIndex = mem_type_index \<rparr>) (Some mem_handle)"

definition uk_venus_encode_vkFreeMemory ::
    "uk_venus_encoder \<Rightarrow> u64 \<Rightarrow> u64
    \<Rightarrow> uk_venus_encoder" where
  "uk_venus_encode_vkFreeMemory enc device memory =
    vn_encode_vkFreeMemory enc 0 device memory"

definition uk_venus_encode_vkBindBufferMemory ::
    "uk_venus_encoder \<Rightarrow> u64 \<Rightarrow> u64 \<Rightarrow> u64
    \<Rightarrow> u64 \<Rightarrow> uk_venus_encoder" where
  "uk_venus_encode_vkBindBufferMemory enc device buffer memory off =
    vn_encode_vkBindBufferMemory enc 0 device buffer memory off"

definition uk_venus_encode_vkCreateBuffer ::
    "vk_enums \<Rightarrow> uk_venus_encoder \<Rightarrow> u64 \<Rightarrow> u64
    \<Rightarrow> u64 \<Rightarrow> u32 \<Rightarrow> uk_venus_encoder" where
  "uk_venus_encode_vkCreateBuffer C enc device buffer_handle sz usage =
    vn_encode_vkCreateBuffer C enc 0 device
      (Some \<lparr> bci_flags = 0, bci_size = sz, bci_usage = usage, bci_sharingMode = SHARING_MODE_EXCLUSIVE C,
              bci_queueFamilyIndexCount = 0, bci_pQueueFamilyIndices = [] \<rparr>) (Some buffer_handle)"

definition uk_venus_encode_vkDestroyBuffer ::
    "uk_venus_encoder \<Rightarrow> u64 \<Rightarrow> u64
    \<Rightarrow> uk_venus_encoder" where
  "uk_venus_encode_vkDestroyBuffer enc device buffer =
    vn_encode_vkDestroyBuffer enc 0 device buffer"

definition uk_venus_encode_vkCreateShaderModule ::
    "vk_enums \<Rightarrow> uk_venus_encoder \<Rightarrow> u64 \<Rightarrow> u64
    \<Rightarrow> u32 list option \<Rightarrow> u32 \<Rightarrow> uk_venus_encoder" where
  "uk_venus_encode_vkCreateShaderModule C enc device shader_handle spirv spirv_words =
    vn_encode_vkCreateShaderModule C enc 0 device
      (Some \<lparr> smi_flags = 0, smi_codeSize = ucast spirv_words * 4, smi_pCode = spirv \<rparr>) (Some shader_handle)"

definition uk_venus_encode_vkDestroyShaderModule ::
    "uk_venus_encoder \<Rightarrow> u64 \<Rightarrow> u64
    \<Rightarrow> uk_venus_encoder" where
  "uk_venus_encode_vkDestroyShaderModule enc device shader_module =
    vn_encode_vkDestroyShaderModule enc 0 device shader_module"

definition uk_venus_encode_vkCreatePipelineLayout ::
    "vk_enums \<Rightarrow> uk_venus_encoder \<Rightarrow> u64 \<Rightarrow> u64
    \<Rightarrow> u32 \<Rightarrow> u64 list \<Rightarrow> u32 \<Rightarrow> u32 \<Rightarrow> u32 \<Rightarrow> u32 \<Rightarrow> uk_venus_encoder" where
  "uk_venus_encode_vkCreatePipelineLayout C enc device layout_handle n_set_layouts set_layout_handles n_push_ranges push_stage_flags push_offset push_size =
    (let n_set_layouts = (if n_set_layouts > UK_VENUS_MAX_BINDINGS then UK_VENUS_MAX_BINDINGS else n_set_layouts);
         sl = take (unat n_set_layouts) set_layout_handles;
         pcr = \<lparr> pcr_stageFlags = push_stage_flags, pcr_offset = push_offset, pcr_size = push_size \<rparr>
     in vn_encode_vkCreatePipelineLayout C enc 0 device
          (Some \<lparr> pli_flags = 0, pli_setLayoutCount = n_set_layouts,
                  pli_pSetLayouts = (if n_set_layouts \<noteq> 0 then Some sl else None),
                  pli_pushConstantRangeCount = n_push_ranges,
                  pli_pPushConstantRanges = (if n_push_ranges \<noteq> 0 then Some [pcr] else None) \<rparr>)
          (Some layout_handle))"

definition uk_venus_encode_vkDestroyPipelineLayout ::
    "uk_venus_encoder \<Rightarrow> u64 \<Rightarrow> u64
    \<Rightarrow> uk_venus_encoder" where
  "uk_venus_encode_vkDestroyPipelineLayout enc device pipeline_layout =
    vn_encode_vkDestroyPipelineLayout enc 0 device pipeline_layout"

text \<open>\<open>"main"\<close>\<close>

definition main_name :: "u8 list" where "main_name = [109, 97, 105, 110]"

definition uk_venus_encode_vkCreateComputePipelines ::
    "vk_enums \<Rightarrow> uk_venus_encoder \<Rightarrow> u64 \<Rightarrow> u64
    \<Rightarrow> u64 \<Rightarrow> u64 \<Rightarrow> u8 list option \<Rightarrow> uk_venus_encoder" where
  "uk_venus_encode_vkCreateComputePipelines C enc device pipeline_handle pipeline_layout shader_module entry_point =
    vn_encode_vkCreateComputePipelines C enc 0 device (NULL_HANDLE C) 1
      (Some [\<lparr> cpi_flags = 0,
               cpi_stage = \<lparr> ssi_flags = 0, ssi_stage = SHADER_STAGE_COMPUTE_BIT C, ssi_module = shader_module,
                 ssi_pName = Some (case entry_point of Some n \<Rightarrow> n | None \<Rightarrow> main_name) \<rparr>,
               cpi_layout = pipeline_layout, cpi_basePipelineHandle = NULL_HANDLE C,
               cpi_basePipelineIndex = -1 \<rparr>])
      (Some [pipeline_handle])"

definition uk_venus_encode_vkDestroyPipeline ::
    "uk_venus_encoder \<Rightarrow> u64 \<Rightarrow> u64
    \<Rightarrow> uk_venus_encoder" where
  "uk_venus_encode_vkDestroyPipeline enc device pipeline =
    vn_encode_vkDestroyPipeline enc 0 device pipeline"

definition uk_venus_encode_vkCreateDescriptorSetLayout ::
    "vk_enums \<Rightarrow> uk_venus_encoder \<Rightarrow> u64 \<Rightarrow> u64
    \<Rightarrow> u32 \<Rightarrow> u32 list \<Rightarrow> u32 list \<Rightarrow> u32 list \<Rightarrow> u32 list \<Rightarrow> uk_venus_encoder" where
  "uk_venus_encode_vkCreateDescriptorSetLayout C enc device layout_handle n_bindings binding_nums desc_types desc_counts stage_flags =
    (let n_bindings = (if n_bindings > UK_VENUS_MAX_BINDINGS then UK_VENUS_MAX_BINDINGS else n_bindings);
         b = map (\<lambda>i. \<lparr> slb_binding = binding_nums ! i, slb_descriptorType = desc_types ! i,
                         slb_descriptorCount = desc_counts ! i, slb_stageFlags = stage_flags ! i \<rparr>)
               [0..<unat n_bindings]
     in vn_encode_vkCreateDescriptorSetLayout C enc 0 device
          (Some \<lparr> sli_flags = 0, sli_bindingCount = n_bindings,
                  sli_pBindings = (if n_bindings \<noteq> 0 then Some b else None) \<rparr>) (Some layout_handle))"

definition uk_venus_encode_vkDestroyDescriptorSetLayout ::
    "uk_venus_encoder \<Rightarrow> u64 \<Rightarrow> u64
    \<Rightarrow> uk_venus_encoder" where
  "uk_venus_encode_vkDestroyDescriptorSetLayout enc device layout =
    vn_encode_vkDestroyDescriptorSetLayout enc 0 device layout"

definition uk_venus_encode_vkCreateDescriptorPool ::
    "vk_enums \<Rightarrow> uk_venus_encoder \<Rightarrow> u64 \<Rightarrow> u64
    \<Rightarrow> u32 \<Rightarrow> u32 \<Rightarrow> u32 list \<Rightarrow> u32 list \<Rightarrow> uk_venus_encoder" where
  "uk_venus_encode_vkCreateDescriptorPool C enc device pool_handle max_sets pool_size_count desc_types desc_counts =
    (let pool_size_count = (if pool_size_count > UK_VENUS_MAX_BINDINGS then UK_VENUS_MAX_BINDINGS else pool_size_count);
         ps = map (\<lambda>i. \<lparr> dps_type = desc_types ! i, dps_descriptorCount = desc_counts ! i \<rparr>) [0..<unat pool_size_count]
     in vn_encode_vkCreateDescriptorPool C enc 0 device
          (Some \<lparr> dpi_flags = 0, dpi_maxSets = max_sets, dpi_poolSizeCount = pool_size_count,
                  dpi_pPoolSizes = (if pool_size_count \<noteq> 0 then Some ps else None) \<rparr>) (Some pool_handle))"

definition uk_venus_encode_vkDestroyDescriptorPool ::
    "uk_venus_encoder \<Rightarrow> u64 \<Rightarrow> u64
    \<Rightarrow> uk_venus_encoder" where
  "uk_venus_encode_vkDestroyDescriptorPool enc device pool =
    vn_encode_vkDestroyDescriptorPool enc 0 device pool"

definition uk_venus_encode_vkAllocateDescriptorSets ::
    "vk_enums \<Rightarrow> uk_venus_encoder \<Rightarrow> u64 \<Rightarrow> u64
    \<Rightarrow> u32 \<Rightarrow> u64 list \<Rightarrow> u64 list \<Rightarrow> uk_venus_encoder" where
  "uk_venus_encode_vkAllocateDescriptorSets C enc device pool n_sets set_layout_handles set_handles =
    (let n_sets = (if n_sets > UK_VENUS_MAX_BINDINGS then UK_VENUS_MAX_BINDINGS else n_sets);
         sl = take (unat n_sets) set_layout_handles;
         out = take (unat n_sets) set_handles
     in vn_encode_vkAllocateDescriptorSets C enc 0 device
          (Some \<lparr> dsa_descriptorPool = pool, dsa_descriptorSetCount = n_sets,
                  dsa_pSetLayouts = (if n_sets \<noteq> 0 then Some sl else None) \<rparr>) (Some out))"

definition uk_venus_encode_vkUpdateDescriptorSets_storage ::
    "vk_enums \<Rightarrow> uk_venus_encoder \<Rightarrow> u64 \<Rightarrow> u64
    \<Rightarrow> u32 \<Rightarrow> u64 \<Rightarrow> u64 \<Rightarrow> u64 \<Rightarrow> uk_venus_encoder" where
  "uk_venus_encode_vkUpdateDescriptorSets_storage C enc device dset binding buffer buf_offset buf_range =
    vn_encode_vkUpdateDescriptorSets C enc 0 device 1
      (Some [\<lparr> wds_dstSet = dset, wds_dstBinding = binding, wds_dstArrayElement = 0, wds_descriptorCount = 1,
               wds_descriptorType = DESCRIPTOR_TYPE_STORAGE_BUFFER C,
               wds_pBufferInfo = Some [\<lparr> dbi_buffer = buffer, dbi_offset = buf_offset, dbi_range = buf_range \<rparr>] \<rparr>]) 0"

definition uk_venus_encode_vkCreateCommandPool ::
    "vk_enums \<Rightarrow> uk_venus_encoder \<Rightarrow> u64 \<Rightarrow> u64
    \<Rightarrow> u32 \<Rightarrow> uk_venus_encoder" where
  "uk_venus_encode_vkCreateCommandPool C enc device pool_handle queue_family_index =
    vn_encode_vkCreateCommandPool C enc 0 device
      (Some \<lparr> cpo_flags = 0, cpo_queueFamilyIndex = queue_family_index \<rparr>) (Some pool_handle)"

definition uk_venus_encode_vkDestroyCommandPool ::
    "uk_venus_encoder \<Rightarrow> u64 \<Rightarrow> u64
    \<Rightarrow> uk_venus_encoder" where
  "uk_venus_encode_vkDestroyCommandPool enc device pool =
    vn_encode_vkDestroyCommandPool enc 0 device pool"

definition uk_venus_encode_vkAllocateCommandBuffers ::
    "vk_enums \<Rightarrow> uk_venus_encoder \<Rightarrow> u64 \<Rightarrow> u64
    \<Rightarrow> u32 \<Rightarrow> u64 list \<Rightarrow> uk_venus_encoder" where
  "uk_venus_encode_vkAllocateCommandBuffers C enc device pool n_bufs cmd_buf_handles =
    (let n_bufs = (if n_bufs > UK_VENUS_MAX_BINDINGS then UK_VENUS_MAX_BINDINGS else n_bufs);
         out = take (unat n_bufs) cmd_buf_handles
     in vn_encode_vkAllocateCommandBuffers C enc 0 device
          (Some \<lparr> cba_commandPool = pool, cba_level = COMMAND_BUFFER_LEVEL_PRIMARY C,
                  cba_commandBufferCount = n_bufs \<rparr>) (Some out))"

definition uk_venus_encode_vkFreeCommandBuffers ::
    "uk_venus_encoder \<Rightarrow> u64 \<Rightarrow> u64 \<Rightarrow> u32
    \<Rightarrow> u64 list \<Rightarrow> uk_venus_encoder" where
  "uk_venus_encode_vkFreeCommandBuffers enc device pool n_bufs cmd_bufs =
    (let n_bufs = (if n_bufs > UK_VENUS_MAX_BINDINGS then UK_VENUS_MAX_BINDINGS else n_bufs);
         cb = take (unat n_bufs) cmd_bufs
     in vn_encode_vkFreeCommandBuffers enc 0 device pool n_bufs (if n_bufs \<noteq> 0 then Some cb else None))"

definition uk_venus_encode_vkBeginCommandBuffer ::
    "vk_enums \<Rightarrow> uk_venus_encoder \<Rightarrow> u64
    \<Rightarrow> uk_venus_encoder" where
  "uk_venus_encode_vkBeginCommandBuffer C enc cmd_buf =
    vn_encode_vkBeginCommandBuffer C enc 0 cmd_buf (Some \<lparr> cbb_flags = 0 \<rparr>)"

definition uk_venus_encode_vkEndCommandBuffer ::
    "uk_venus_encoder \<Rightarrow> u64 \<Rightarrow> uk_venus_encoder" where
  "uk_venus_encode_vkEndCommandBuffer enc cmd_buf =
    vn_encode_vkEndCommandBuffer enc 0 cmd_buf"

definition uk_venus_encode_vkCmdBindPipeline ::
    "vk_enums \<Rightarrow> uk_venus_encoder \<Rightarrow> u64 \<Rightarrow> u64
    \<Rightarrow> uk_venus_encoder" where
  "uk_venus_encode_vkCmdBindPipeline C enc cmd_buf pipeline =
    vn_encode_vkCmdBindPipeline enc 0 cmd_buf (PIPELINE_BIND_POINT_COMPUTE C) pipeline"

definition uk_venus_encode_vkCmdBindDescriptorSets ::
    "vk_enums \<Rightarrow> uk_venus_encoder \<Rightarrow> u64 \<Rightarrow> u64
    \<Rightarrow> u32 \<Rightarrow> u32 \<Rightarrow> u64 list \<Rightarrow> uk_venus_encoder" where
  "uk_venus_encode_vkCmdBindDescriptorSets C enc cmd_buf pipeline_layout first_set n_sets sets =
    (let n_sets = (if n_sets > UK_VENUS_MAX_BINDINGS then UK_VENUS_MAX_BINDINGS else n_sets);
         ds = take (unat n_sets) sets
     in vn_encode_vkCmdBindDescriptorSets enc 0 cmd_buf (PIPELINE_BIND_POINT_COMPUTE C) pipeline_layout
          first_set n_sets (if n_sets \<noteq> 0 then Some ds else None) 0 None)"

definition uk_venus_encode_vkCmdPushConstants ::
    "uk_venus_encoder \<Rightarrow> u64 \<Rightarrow> u64 \<Rightarrow> u32
    \<Rightarrow> u32 \<Rightarrow> u32 \<Rightarrow> u8 list option \<Rightarrow> uk_venus_encoder" where
  "uk_venus_encode_vkCmdPushConstants enc cmd_buf pipeline_layout stage_flags off sz values =
    vn_encode_vkCmdPushConstants enc 0 cmd_buf pipeline_layout stage_flags off sz values"

definition uk_venus_encode_vkCmdDispatch ::
    "uk_venus_encoder \<Rightarrow> u64 \<Rightarrow> u32 \<Rightarrow> u32
    \<Rightarrow> u32 \<Rightarrow> uk_venus_encoder" where
  "uk_venus_encode_vkCmdDispatch enc cmd_buf x y z =
    vn_encode_vkCmdDispatch enc 0 cmd_buf x y z"

definition uk_venus_encode_vkCmdCopyBuffer ::
    "uk_venus_encoder \<Rightarrow> u64 \<Rightarrow> u64 \<Rightarrow> u64
    \<Rightarrow> u64 \<Rightarrow> uk_venus_encoder" where
  "uk_venus_encode_vkCmdCopyBuffer enc cmd_buf src_buf dst_buf sz =
    vn_encode_vkCmdCopyBuffer enc 0 cmd_buf src_buf dst_buf 1
      (Some [\<lparr> bcp_srcOffset = 0, bcp_dstOffset = 0, bcp_size = sz \<rparr>])"

definition uk_venus_encode_vkCmdFillBuffer ::
    "uk_venus_encoder \<Rightarrow> u64 \<Rightarrow> u64 \<Rightarrow> u64
    \<Rightarrow> u64 \<Rightarrow> u32 \<Rightarrow> uk_venus_encoder" where
  "uk_venus_encode_vkCmdFillBuffer enc cmd_buf buffer off sz dat =
    vn_encode_vkCmdFillBuffer enc 0 cmd_buf buffer off sz dat"

definition uk_venus_encode_vkCmdPipelineBarrier ::
    "uk_venus_encoder \<Rightarrow> u64 \<Rightarrow> u32 \<Rightarrow> u32
    \<Rightarrow> uk_venus_encoder" where
  "uk_venus_encode_vkCmdPipelineBarrier enc cmd_buf src_stage dst_stage =
    vn_encode_vkCmdPipelineBarrier enc 0 cmd_buf src_stage dst_stage 0 0 0 0"

definition uk_venus_encode_vkCreateFence ::
    "vk_enums \<Rightarrow> uk_venus_encoder \<Rightarrow> u64 \<Rightarrow> u64
    \<Rightarrow> bool \<Rightarrow> uk_venus_encoder" where
  "uk_venus_encode_vkCreateFence C enc device fence_handle signaled =
    vn_encode_vkCreateFence C enc 0 device
      (Some \<lparr> fci_flags = (if signaled then FENCE_CREATE_SIGNALED_BIT C else 0) \<rparr>) (Some fence_handle)"

definition uk_venus_encode_vkResetFences ::
    "uk_venus_encoder \<Rightarrow> u64 \<Rightarrow> u32 \<Rightarrow> u64 list
    \<Rightarrow> uk_venus_encoder" where
  "uk_venus_encode_vkResetFences enc device n_fences fences =
    (let n_fences = (if n_fences > UK_VENUS_MAX_BINDINGS then UK_VENUS_MAX_BINDINGS else n_fences);
         f = take (unat n_fences) fences
     in vn_encode_vkResetFences enc 0 device n_fences (if n_fences \<noteq> 0 then Some f else None))"

definition uk_venus_encode_vkWaitForFences ::
    "vk_enums \<Rightarrow> uk_venus_encoder \<Rightarrow> u64 \<Rightarrow> u32
    \<Rightarrow> u64 list \<Rightarrow> u64 \<Rightarrow> uk_venus_encoder" where
  "uk_venus_encode_vkWaitForFences C enc device n_fences fences timeout_ns =
    (let n_fences = (if n_fences > UK_VENUS_MAX_BINDINGS then UK_VENUS_MAX_BINDINGS else n_fences);
         f = take (unat n_fences) fences
     in vn_encode_vkWaitForFences enc 0 device n_fences (if n_fences \<noteq> 0 then Some f else None) (TRUE_BOOL32 C) timeout_ns)"

definition uk_venus_encode_vkQueueSubmit ::
    "vk_enums \<Rightarrow> uk_venus_encoder \<Rightarrow> u64 \<Rightarrow> u32
    \<Rightarrow> u64 list \<Rightarrow> u64 \<Rightarrow> uk_venus_encoder" where
  "uk_venus_encode_vkQueueSubmit C enc queue n_cmd_bufs cmd_bufs fence =
    (let n_cmd_bufs = (if n_cmd_bufs > UK_VENUS_MAX_BINDINGS then UK_VENUS_MAX_BINDINGS else n_cmd_bufs);
         cb = take (unat n_cmd_bufs) cmd_bufs
     in vn_encode_vkQueueSubmit C enc 0 queue 1
          (Some [\<lparr> sbi_waitSemaphoreCount = 0, sbi_pWaitSemaphores = None, sbi_pWaitDstStageMask = None,
                   sbi_commandBufferCount = n_cmd_bufs,
                   sbi_pCommandBuffers = (if n_cmd_bufs \<noteq> 0 then Some cb else None),
                   sbi_signalSemaphoreCount = 0, sbi_pSignalSemaphores = None \<rparr>]) fence)"

end
