(* ===== verification/Venus_Compute_Wire.thy ===== *)
theory Venus_Compute_Wire
  imports Venus_Compute
begin

text \<open>
  The wire format of the compute commands as lists of chunks, and the lemmas that reduce the encoders
  of \<open>venus_compute.c\<close> to their chunks.
\<close>

section \<open>Chunks of scalars, arrays and structures\<close>

lemmas compute_scalars [chunk_simps] =
  vn_encode_VkDeviceSize_def vn_encode_VkBool32_def vn_encode_VkPipelineBindPoint_def
  vn_encode_VkDescriptorType_def vn_encode_VkSharingMode_def vn_encode_VkCommandBufferLevel_def
  vn_encode_VkShaderStageFlagBits_def vn_encode_VkDeviceMemory_def vn_encode_VkShaderModule_def
  vn_encode_VkPipelineLayout_def vn_encode_VkPipeline_def vn_encode_VkPipelineCache_def
  vn_encode_VkDescriptorSetLayout_def vn_encode_VkDescriptorPool_def vn_encode_VkDescriptorSet_def
  vn_encode_VkCommandPool_def vn_encode_VkCommandBuffer_def vn_encode_VkSemaphore_def
  vn_cs_handle_load_id_def

definition array_chunks :: "('a \<Rightarrow> u8 list list) \<Rightarrow> u32 \<Rightarrow> 'a list option \<Rightarrow> u8 list list" where
  "array_chunks g n xs = (case xs of None \<Rightarrow> [le64 0]
     | Some ys \<Rightarrow> le64 (ucast n) # concat (map g (take (unat n) ys)))"

lemma array_encode:
  assumes "\<And>e x. f e x = vs.puts (g x) e"
  shows "vn_encode_array f e n xs = vs.puts (array_chunks g n xs) e"
  using fold_puts[of _ "\<lambda>y e. f e y" g] assms
  by (auto simp: vn_encode_array_def array_chunks_def chunk_simps split: option.split)

definition handle_array :: "u32 \<Rightarrow> u64 list option \<Rightarrow> u8 list list" where
  "handle_array n hs = array_chunks (\<lambda>h. [le64 h]) n hs"

lemma handle_arrays [chunk_simps]:
  "vn_encode_array vn_encode_VkDescriptorSetLayout e n hs = vs.puts (handle_array n hs) e"
  "vn_encode_array vn_encode_VkDescriptorSet e n hs = vs.puts (handle_array n hs) e"
  "vn_encode_array vn_encode_VkCommandBuffer e n hs = vs.puts (handle_array n hs) e"
  "vn_encode_array vn_encode_VkFence e n hs = vs.puts (handle_array n hs) e"
  "vn_encode_array vn_encode_VkPipeline e n hs = vs.puts (handle_array n hs) e"
  "vn_encode_array vn_encode_VkSemaphore e n hs = vs.puts (handle_array n hs) e"
  unfolding handle_array_def by (rule array_encode, simp add: chunk_simps)+

lemma flags_array [chunk_simps]:
  "vn_encode_array vn_encode_VkFlags e n fs = vs.puts (array_chunks (\<lambda>f. [le32 f]) n fs) e"
  by (rule array_encode) (simp add: chunk_simps)

lemma optional_encode: "(\<And>e. f e v = vs.puts cs e) \<Longrightarrow> vn_encode_optional f e (Some v) = vs.puts (le64 1 # cs) e"
  by (simp add: vn_encode_optional_def chunk_simps)

lemma length_le32s: "length (concat (map le32 vs)) = 4 * length vs"
  by (induction vs) simp_all

definition words_chunk :: "u32 list \<Rightarrow> u32 \<Rightarrow> u8 list" where
  "words_chunk vs n = concat (map le32 (take (unat n) vs))"

lemma unat_times4: "unat (4 * ucast n :: u64) = 4 * unat n" for n :: u32
  using unat_mul4_u32[of n] by (simp add: mult.commute)

lemma words_array [chunk_simps]:
  assumes "unat n \<le> length vs"
  shows "vn_encode_uint32_t_array e vs n = vs.puts [words_chunk vs n] e"
proof -
  have "length (words_chunk vs n) = 4 * unat n" using assms by (simp add: words_chunk_def length_le32s)
  hence "of_nat (length (words_chunk vs n)) = (4 * ucast n :: u64)" by (metis of_nat_unat_u64 unat_times4)
  moreover have "length (words_chunk vs n) < 2 ^ 64"
    using \<open>length _ = _\<close> unat_u32_less[of n] by simp
  ultimately show ?thesis
    using vn_encode_exact[of "words_chunk vs n" e]
    by (simp add: vn_encode_uint32_t_array_def words_chunk_def[symmetric])
qed

definition words_array_chunks :: "u32 list option \<Rightarrow> u32 \<Rightarrow> u8 list list" where
  "words_array_chunks vs n = (case vs of None \<Rightarrow> [le64 0] | Some ws \<Rightarrow> [le64 (ucast n), words_chunk ws n])"

section \<open>Commands\<close>

text \<open>A call of one of the encoders, with its arguments.\<close>

text \<open>Memory, buffers, shaders, pipelines and descriptors; then command pools, recording, fences and
  submission.\<close>

datatype object_cmd =
    AllocateMemory u64 u64 u64 u32
  | FreeMemory u64 u64
  | BindBufferMemory u64 u64 u64 u64
  | CreateBuffer u64 u64 u64 u32
  | DestroyBuffer u64 u64
  | CreateShaderModule u64 u64 "u32 list option" u32
  | DestroyShaderModule u64 u64
  | CreatePipelineLayout u64 u64 u32 "u64 list" u32 u32 u32 u32
  | DestroyPipelineLayout u64 u64
  | CreateComputePipelines u64 u64 u64 u64 "u8 list option"
  | DestroyPipeline u64 u64
  | CreateDescriptorSetLayout u64 u64 u32 "u32 list" "u32 list" "u32 list" "u32 list"
  | DestroyDescriptorSetLayout u64 u64
  | CreateDescriptorPool u64 u64 u32 u32 "u32 list" "u32 list"
  | DestroyDescriptorPool u64 u64
  | AllocateDescriptorSets u64 u64 u32 "u64 list" "u64 list"
  | UpdateDescriptorSetsStorage u64 u64 u32 u64 u64 u64

datatype record_cmd =
    CreateCommandPool u64 u64 u32
  | DestroyCommandPool u64 u64
  | AllocateCommandBuffers u64 u64 u32 "u64 list"
  | FreeCommandBuffers u64 u64 u32 "u64 list"
  | BeginCommandBuffer u64
  | EndCommandBuffer u64
  | CmdBindPipeline u64 u64
  | CmdBindDescriptorSets u64 u64 u32 u32 "u64 list"
  | CmdPushConstants u64 u64 u32 u32 u32 "u8 list option"
  | CmdDispatch u64 u32 u32 u32
  | CmdCopyBuffer u64 u64 u64 u64
  | CmdFillBuffer u64 u64 u64 u64 u32
  | CmdPipelineBarrier u64 u32 u32
  | CreateFence u64 u64 bool
  | ResetFences u64 u32 "u64 list"
  | WaitForFences u64 u32 "u64 list" u64
  | QueueSubmit u64 u32 "u64 list" u64

primrec object_encode :: "vk_enums \<Rightarrow> object_cmd \<Rightarrow> uk_venus_encoder \<Rightarrow> uk_venus_encoder" where
  "object_encode C (AllocateMemory d m sz t) e = uk_venus_encode_vkAllocateMemory C e d m sz t"
| "object_encode C (FreeMemory d m) e = uk_venus_encode_vkFreeMemory e d m"
| "object_encode C (BindBufferMemory d b m off) e = uk_venus_encode_vkBindBufferMemory e d b m off"
| "object_encode C (CreateBuffer d b sz u) e = uk_venus_encode_vkCreateBuffer C e d b sz u"
| "object_encode C (DestroyBuffer d b) e = uk_venus_encode_vkDestroyBuffer e d b"
| "object_encode C (CreateShaderModule d h code n) e = uk_venus_encode_vkCreateShaderModule C e d h code n"
| "object_encode C (DestroyShaderModule d h) e = uk_venus_encode_vkDestroyShaderModule e d h"
| "object_encode C (CreatePipelineLayout d h n sl np st off sz) e = uk_venus_encode_vkCreatePipelineLayout C e d h n sl np st off sz"
| "object_encode C (DestroyPipelineLayout d h) e = uk_venus_encode_vkDestroyPipelineLayout e d h"
| "object_encode C (CreateComputePipelines d h l sm n) e = uk_venus_encode_vkCreateComputePipelines C e d h l sm n"
| "object_encode C (DestroyPipeline d h) e = uk_venus_encode_vkDestroyPipeline e d h"
| "object_encode C (CreateDescriptorSetLayout d h n bn ty ct sf) e = uk_venus_encode_vkCreateDescriptorSetLayout C e d h n bn ty ct sf"
| "object_encode C (DestroyDescriptorSetLayout d h) e = uk_venus_encode_vkDestroyDescriptorSetLayout e d h"
| "object_encode C (CreateDescriptorPool d h ms n ty ct) e = uk_venus_encode_vkCreateDescriptorPool C e d h ms n ty ct"
| "object_encode C (DestroyDescriptorPool d h) e = uk_venus_encode_vkDestroyDescriptorPool e d h"
| "object_encode C (AllocateDescriptorSets d p n sl hs) e = uk_venus_encode_vkAllocateDescriptorSets C e d p n sl hs"
| "object_encode C (UpdateDescriptorSetsStorage d st bi b off r) e = uk_venus_encode_vkUpdateDescriptorSets_storage C e d st bi b off r"

primrec record_encode :: "vk_enums \<Rightarrow> record_cmd \<Rightarrow> uk_venus_encoder \<Rightarrow> uk_venus_encoder" where
  "record_encode C (CreateCommandPool d h q) e = uk_venus_encode_vkCreateCommandPool C e d h q"
| "record_encode C (DestroyCommandPool d h) e = uk_venus_encode_vkDestroyCommandPool e d h"
| "record_encode C (AllocateCommandBuffers d p n hs) e = uk_venus_encode_vkAllocateCommandBuffers C e d p n hs"
| "record_encode C (FreeCommandBuffers d p n hs) e = uk_venus_encode_vkFreeCommandBuffers e d p n hs"
| "record_encode C (BeginCommandBuffer cb) e = uk_venus_encode_vkBeginCommandBuffer C e cb"
| "record_encode C (EndCommandBuffer cb) e = uk_venus_encode_vkEndCommandBuffer e cb"
| "record_encode C (CmdBindPipeline cb p) e = uk_venus_encode_vkCmdBindPipeline C e cb p"
| "record_encode C (CmdBindDescriptorSets cb l f n hs) e = uk_venus_encode_vkCmdBindDescriptorSets C e cb l f n hs"
| "record_encode C (CmdPushConstants cb l sf off sz vs) e = uk_venus_encode_vkCmdPushConstants e cb l sf off sz vs"
| "record_encode C (CmdDispatch cb x y z) e = uk_venus_encode_vkCmdDispatch e cb x y z"
| "record_encode C (CmdCopyBuffer cb a b sz) e = uk_venus_encode_vkCmdCopyBuffer e cb a b sz"
| "record_encode C (CmdFillBuffer cb b off sz v) e = uk_venus_encode_vkCmdFillBuffer e cb b off sz v"
| "record_encode C (CmdPipelineBarrier cb s t) e = uk_venus_encode_vkCmdPipelineBarrier e cb s t"
| "record_encode C (CreateFence d f g) e = uk_venus_encode_vkCreateFence C e d f g"
| "record_encode C (ResetFences d n fs) e = uk_venus_encode_vkResetFences e d n fs"
| "record_encode C (WaitForFences d n fs t) e = uk_venus_encode_vkWaitForFences C e d n fs t"
| "record_encode C (QueueSubmit q n cbs f) e = uk_venus_encode_vkQueueSubmit C e q n cbs f"

text \<open>The fields each command puts on the wire, in order.\<close>

definition clamp64 :: "u32 \<Rightarrow> u32" where "clamp64 n = min n 64"

definition handles_wire :: "u32 \<Rightarrow> u64 list \<Rightarrow> u8 list list" where
  "handles_wire n hs = (if n = 0 then [le64 0] else le64 (ucast (clamp64 n)) # map le64 (take (unat (clamp64 n)) hs))"

primrec object_wire :: "vk_enums \<Rightarrow> object_cmd \<Rightarrow> u8 list list" where
  "object_wire C (AllocateMemory d m sz t) =
    [le32 21, le32 0, le64 d, le64 1, le32 (ST_MEMORY_ALLOCATE_INFO C), le64 0, le64 sz, le32 t, le64 0, le64 1, le64 m]"
| "object_wire C (FreeMemory d m) = [le32 22, le32 0, le64 d, le64 m, le64 0]"
| "object_wire C (BindBufferMemory d b m off) = [le32 28, le32 0, le64 d, le64 b, le64 m, le64 off]"
| "object_wire C (CreateBuffer d b sz u) =
    [le32 50, le32 0, le64 d, le64 1, le32 (ST_BUFFER_CREATE_INFO C), le64 0, le32 0, le64 sz, le32 u,
     le32 (SHARING_MODE_EXCLUSIVE C), le32 0, le64 0] @
    (if SHARING_MODE_EXCLUSIVE C = SHARING_MODE_CONCURRENT C then [[]] else []) @ [le64 0, le64 1, le64 b]"
| "object_wire C (DestroyBuffer d b) = [le32 51, le32 0, le64 d, le64 b, le64 0]"
| "object_wire C (CreateShaderModule d h code n) =
    [le32 59, le32 0, le64 d, le64 1, le32 (ST_SHADER_MODULE_CREATE_INFO C), le64 0, le32 0, le64 (4 * ucast n)] @
    words_array_chunks code n @ [le64 0, le64 1, le64 h]"
| "object_wire C (DestroyShaderModule d h) = [le32 60, le32 0, le64 d, le64 h, le64 0]"
| "object_wire C (CreatePipelineLayout d h n sl np st off sz) =
    [le32 68, le32 0, le64 d, le64 1, le32 (ST_PIPELINE_LAYOUT_CREATE_INFO C), le64 0, le32 0, le32 (clamp64 n)] @
    handles_wire n sl @ [le32 np] @
    (if np = 0 then [le64 0] else [le64 (ucast np), le32 st, le32 off, le32 sz]) @ [le64 0, le64 1, le64 h]"
| "object_wire C (DestroyPipelineLayout d h) = [le32 69, le32 0, le64 d, le64 h, le64 0]"
| "object_wire C (CreateComputePipelines d h l sm n) =
    [le32 66, le32 0, le64 d, le64 (NULL_HANDLE C), le32 1, le64 1, le32 (ST_COMPUTE_PIPELINE_CREATE_INFO C), le64 0,
     le32 0, le32 (ST_PIPELINE_SHADER_STAGE_CREATE_INFO C), le64 0, le32 0, le32 (SHADER_STAGE_COMPUTE_BIT C), le64 sm] @
    str_chunks (Some (case n of Some s \<Rightarrow> s | None \<Rightarrow> main_name)) @
    [le64 0, le64 l, le64 (NULL_HANDLE C), le32 (-1), le64 0, le64 1, le64 h]"
| "object_wire C (DestroyPipeline d h) = [le32 67, le32 0, le64 d, le64 h, le64 0]"
| "object_wire C (CreateDescriptorSetLayout d h n bn ty ct sf) =
    [le32 72, le32 0, le64 d, le64 1, le32 (ST_DESCRIPTOR_SET_LAYOUT_CREATE_INFO C), le64 0, le32 0, le32 (clamp64 n)] @
    (if n = 0 then [le64 0] else le64 (ucast (clamp64 n)) #
       concat (map (\<lambda>i. [le32 (bn ! i), le32 (ty ! i), le32 (ct ! i), le32 (sf ! i), le64 0]) [0..<unat (clamp64 n)])) @
    [le64 0, le64 1, le64 h]"
| "object_wire C (DestroyDescriptorSetLayout d h) = [le32 73, le32 0, le64 d, le64 h, le64 0]"
| "object_wire C (CreateDescriptorPool d h ms n ty ct) =
    [le32 74, le32 0, le64 d, le64 1, le32 (ST_DESCRIPTOR_POOL_CREATE_INFO C), le64 0, le32 0, le32 ms, le32 (clamp64 n)] @
    (if n = 0 then [le64 0] else le64 (ucast (clamp64 n)) #
       concat (map (\<lambda>i. [le32 (ty ! i), le32 (ct ! i)]) [0..<unat (clamp64 n)])) @ [le64 0, le64 1, le64 h]"
| "object_wire C (DestroyDescriptorPool d h) = [le32 75, le32 0, le64 d, le64 h, le64 0]"
| "object_wire C (AllocateDescriptorSets d p n sl hs) =
    [le32 77, le32 0, le64 d, le64 1, le32 (ST_DESCRIPTOR_SET_ALLOCATE_INFO C), le64 0, le64 p, le32 (clamp64 n)] @
    handles_wire n sl @ le64 (ucast (clamp64 n)) # map le64 (take (unat (clamp64 n)) hs)"
| "object_wire C (UpdateDescriptorSetsStorage d st bi b off r) =
    [le32 79, le32 0, le64 d, le32 1, le64 1, le32 (ST_WRITE_DESCRIPTOR_SET C), le64 0, le64 st, le32 bi, le32 0, le32 1,
     le32 (DESCRIPTOR_TYPE_STORAGE_BUFFER C), le64 0, le64 1, le64 b, le64 off, le64 r, le64 0, le32 0, le64 0]"

primrec record_wire :: "vk_enums \<Rightarrow> record_cmd \<Rightarrow> u8 list list" where
  "record_wire C (CreateCommandPool d h q) =
    [le32 85, le32 0, le64 d, le64 1, le32 (ST_COMMAND_POOL_CREATE_INFO C), le64 0, le32 0, le32 q, le64 0, le64 1, le64 h]"
| "record_wire C (DestroyCommandPool d h) = [le32 86, le32 0, le64 d, le64 h, le64 0]"
| "record_wire C (AllocateCommandBuffers d p n hs) =
    [le32 88, le32 0, le64 d, le64 1, le32 (ST_COMMAND_BUFFER_ALLOCATE_INFO C), le64 0, le64 p,
     le32 (COMMAND_BUFFER_LEVEL_PRIMARY C), le32 (clamp64 n), le64 (ucast (clamp64 n))] @
    map le64 (take (unat (clamp64 n)) hs)"
| "record_wire C (FreeCommandBuffers d p n hs) = [le32 89, le32 0, le64 d, le64 p, le32 (clamp64 n)] @ handles_wire n hs"
| "record_wire C (BeginCommandBuffer cb) =
    [le32 90, le32 0, le64 cb, le64 1, le32 (ST_COMMAND_BUFFER_BEGIN_INFO C), le64 0, le32 0, le64 0]"
| "record_wire C (EndCommandBuffer cb) = [le32 91, le32 0, le64 cb]"
| "record_wire C (CmdBindPipeline cb p) = [le32 93, le32 0, le64 cb, le32 (PIPELINE_BIND_POINT_COMPUTE C), le64 p]"
| "record_wire C (CmdBindDescriptorSets cb l f n hs) =
    [le32 103, le32 0, le64 cb, le32 (PIPELINE_BIND_POINT_COMPUTE C), le64 l, le32 f, le32 (clamp64 n)] @
    handles_wire n hs @ [le32 0, le64 0]"
| "record_wire C (CmdPushConstants cb l sf off sz vs) =
    [le32 132, le32 0, le64 cb, le64 l, le32 sf, le32 off, le32 sz] @
    (case vs of None \<Rightarrow> [le64 0] | Some bs \<Rightarrow> [le64 (ucast sz), take (unat sz) bs] @ pad4 (unat sz))"
| "record_wire C (CmdDispatch cb x y z) = [le32 110, le32 0, le64 cb, le32 x, le32 y, le32 z]"
| "record_wire C (CmdCopyBuffer cb a b sz) =
    [le32 112, le32 0, le64 cb, le64 a, le64 b, le32 1, le64 1, le64 0, le64 0, le64 sz]"
| "record_wire C (CmdFillBuffer cb b off sz v) = [le32 118, le32 0, le64 cb, le64 b, le64 off, le64 sz, le32 v]"
| "record_wire C (CmdPipelineBarrier cb s t) =
    [le32 126, le32 0, le64 cb, le32 s, le32 t, le32 0, le32 0, le64 0, le32 0, le64 0, le32 0, le64 0]"
| "record_wire C (CreateFence d f g) =
    [le32 35, le32 0, le64 d, le64 1, le32 (ST_FENCE_CREATE_INFO C), le64 0,
     le32 (if g then FENCE_CREATE_SIGNALED_BIT C else 0), le64 0, le64 1, le64 f]"
| "record_wire C (ResetFences d n fs) = [le32 37, le32 0, le64 d, le32 (clamp64 n)] @ handles_wire n fs"
| "record_wire C (WaitForFences d n fs t) =
    [le32 39, le32 0, le64 d, le32 (clamp64 n)] @ handles_wire n fs @ [le32 (TRUE_BOOL32 C), le64 t]"
| "record_wire C (QueueSubmit q n cbs f) =
    [le32 18, le32 0, le64 q, le32 1, le64 1, le32 (ST_SUBMIT_INFO C), le64 0, le32 0, le64 0, le64 0, le32 (clamp64 n)] @
    handles_wire n cbs @ [le32 0, le64 0, le64 f]"

text \<open>The arrays are as long as their counts say, as far as they are read.\<close>

definition object_ok :: "object_cmd \<Rightarrow> bool" where
  "object_ok c \<longleftrightarrow> (case c of
     CreateShaderModule d h code n \<Rightarrow> (case code of None \<Rightarrow> True | Some ws \<Rightarrow> unat n \<le> length ws)
   | CreatePipelineLayout d h n sl np st off sz \<Rightarrow> np \<le> 1
   | CreateComputePipelines d h l sm n \<Rightarrow> short_opt n
   | _ \<Rightarrow> True)"

definition record_ok :: "record_cmd \<Rightarrow> bool" where
  "record_ok c \<longleftrightarrow> (case c of
     CmdPushConstants cb l sf off sz vs \<Rightarrow> (case vs of None \<Rightarrow> True | Some bs \<Rightarrow> unat sz \<le> length bs)
   | _ \<Rightarrow> True)"

lemma clamp_if: "(if UK_VENUS_MAX_BINDINGS < n then UK_VENUS_MAX_BINDINGS else n) = clamp64 n"
  by (auto simp: clamp64_def UK_VENUS_MAX_BINDINGS_def min_def)

lemma clamp64_0 [simp]: "clamp64 n = 0 \<longleftrightarrow> n = 0"
  by (auto simp: clamp64_def min_def)

lemma handles_wire [chunk_simps]:
  "handle_array (clamp64 n) (if n \<noteq> 0 then Some (take (unat (clamp64 n)) hs) else None) = handles_wire n hs"
  by (simp add: handle_array_def array_chunks_def handles_wire_def concat_map_singleton)

lemma handle_array_simps [chunk_simps]:
  "handle_array 0 None = [le64 0]"
  "handle_array 1 (Some [h]) = [le64 1, le64 h]"
  "handle_array n (Some (take (unat n) hs)) = le64 (ucast n) # map le64 (take (unat n) hs)"
  by (simp_all add: handle_array_def array_chunks_def concat_map_singleton)

lemma array_chunks_simps [chunk_simps]:
  "array_chunks g 0 None = [le64 0]" "array_chunks g 1 (Some [x]) = le64 1 # g x"
  by (simp_all add: array_chunks_def)

lemmas optional_some [chunk_simps] = vn_encode_optional_def

lemma ucast_back: "ucast (ucast n :: u64) = n" for n :: u32
  by (intro bit_word_eqI) (simp add: bit_unsigned_iff)

lemma words_chunk_nil: "words_chunk [] n = []"
  by (simp add: words_chunk_def)

lemma shader_words:
  "4 * ucast n div 4 = (ucast n :: u64)" "ucast (4 * ucast n div 4 :: u64) = n" for n :: u32
proof -
  have "unat (4 * ucast n div 4 :: u64) = unat (ucast n :: u64)"
    by (simp add: unat_div unat_times4)
  thus d: "4 * ucast n div 4 = (ucast n :: u64)" by (metis word_unat_eq_iff)
  show "ucast (4 * ucast n div 4 :: u64) = n" unfolding d by (rule ucast_back)
qed

named_theorems compute_defs "definitions of the compute encoders"

lemmas create_destroy_defs [compute_defs] =
  uk_venus_encode_vkAllocateMemory_def vn_encode_vkAllocateMemory_def vn_encode_VkMemoryAllocateInfo_def
  vn_encode_VkMemoryAllocateInfo_self_def uk_venus_encode_vkFreeMemory_def vn_encode_vkFreeMemory_def
  uk_venus_encode_vkBindBufferMemory_def vn_encode_vkBindBufferMemory_def
  uk_venus_encode_vkDestroyBuffer_def vn_encode_vkDestroyBuffer_def
  uk_venus_encode_vkDestroyShaderModule_def vn_encode_vkDestroyShaderModule_def
  uk_venus_encode_vkDestroyPipelineLayout_def vn_encode_vkDestroyPipelineLayout_def
  uk_venus_encode_vkDestroyPipeline_def vn_encode_vkDestroyPipeline_def
  uk_venus_encode_vkDestroyDescriptorSetLayout_def vn_encode_vkDestroyDescriptorSetLayout_def
  uk_venus_encode_vkDestroyDescriptorPool_def vn_encode_vkDestroyDescriptorPool_def
  uk_venus_encode_vkDestroyCommandPool_def vn_encode_vkDestroyCommandPool_def
  uk_venus_encode_vkCreateCommandPool_def vn_encode_vkCreateCommandPool_def
  vn_encode_VkCommandPoolCreateInfo_def vn_encode_VkCommandPoolCreateInfo_self_def
  uk_venus_encode_vkCreateFence_def vn_encode_vkCreateFence_def vn_encode_VkFenceCreateInfo_def
  vn_encode_VkFenceCreateInfo_self_def

lemmas compute_rules = compute_defs chunk_simps clamp_if puts_puts append_Cons append_Nil Let_def venus_consts

lemma simple_create_wire:
  "object_encode C (AllocateMemory d m sz t) e = vs.puts (object_wire C (AllocateMemory d m sz t)) e"
  "record_encode C (CreateCommandPool d h q) e = vs.puts (record_wire C (CreateCommandPool d h q)) e"
  "record_encode C (CreateFence d f g) e = vs.puts (record_wire C (CreateFence d f g)) e"
  by (simp_all add: compute_rules del: vs.puts_simps split del: if_split)

lemma destroy_wire:
  "object_encode C (FreeMemory d m) e = vs.puts (object_wire C (FreeMemory d m)) e"
  "object_encode C (BindBufferMemory d b m off) e = vs.puts (object_wire C (BindBufferMemory d b m off)) e"
  "object_encode C (DestroyBuffer d b) e = vs.puts (object_wire C (DestroyBuffer d b)) e"
  "object_encode C (DestroyShaderModule d h) e = vs.puts (object_wire C (DestroyShaderModule d h)) e"
  "object_encode C (DestroyPipelineLayout d h) e = vs.puts (object_wire C (DestroyPipelineLayout d h)) e"
  "object_encode C (DestroyPipeline d h) e = vs.puts (object_wire C (DestroyPipeline d h)) e"
  "object_encode C (DestroyDescriptorSetLayout d h) e = vs.puts (object_wire C (DestroyDescriptorSetLayout d h)) e"
  "object_encode C (DestroyDescriptorPool d h) e = vs.puts (object_wire C (DestroyDescriptorPool d h)) e"
  "record_encode C (DestroyCommandPool d h) e = vs.puts (record_wire C (DestroyCommandPool d h)) e"
  by (simp_all add: compute_rules del: vs.puts_simps split del: if_split)

lemmas record_encoders [compute_defs] =
  uk_venus_encode_vkBeginCommandBuffer_def vn_encode_vkBeginCommandBuffer_def
  vn_encode_VkCommandBufferBeginInfo_def vn_encode_VkCommandBufferBeginInfo_self_def
  uk_venus_encode_vkEndCommandBuffer_def vn_encode_vkEndCommandBuffer_def
  uk_venus_encode_vkCmdBindPipeline_def vn_encode_vkCmdBindPipeline_def
  uk_venus_encode_vkCmdBindDescriptorSets_def vn_encode_vkCmdBindDescriptorSets_def
  uk_venus_encode_vkCmdDispatch_def vn_encode_vkCmdDispatch_def
  uk_venus_encode_vkCmdFillBuffer_def vn_encode_vkCmdFillBuffer_def
  uk_venus_encode_vkCmdPipelineBarrier_def vn_encode_vkCmdPipelineBarrier_def
  uk_venus_encode_vkFreeCommandBuffers_def vn_encode_vkFreeCommandBuffers_def
  uk_venus_encode_vkResetFences_def vn_encode_vkResetFences_def
  uk_venus_encode_vkWaitForFences_def vn_encode_vkWaitForFences_def
  uk_venus_encode_vkAllocateCommandBuffers_def vn_encode_vkAllocateCommandBuffers_def
  vn_encode_VkCommandBufferAllocateInfo_def vn_encode_VkCommandBufferAllocateInfo_self_def
  uk_venus_encode_vkAllocateDescriptorSets_def vn_encode_vkAllocateDescriptorSets_def
  vn_encode_VkDescriptorSetAllocateInfo_def vn_encode_VkDescriptorSetAllocateInfo_self_def

lemmas record_rules = record_encoders chunk_simps clamp_if puts_puts append_Cons append_Nil Let_def venus_consts

lemma plain_record_wire:
  "record_encode C (BeginCommandBuffer cb) e = vs.puts (record_wire C (BeginCommandBuffer cb)) e"
  "record_encode C (EndCommandBuffer cb) e = vs.puts (record_wire C (EndCommandBuffer cb)) e"
  "record_encode C (CmdBindPipeline cb p) e = vs.puts (record_wire C (CmdBindPipeline cb p)) e"
  "record_encode C (CmdDispatch cb x y z) e = vs.puts (record_wire C (CmdDispatch cb x y z)) e"
  "record_encode C (CmdFillBuffer cb b off sz v) e = vs.puts (record_wire C (CmdFillBuffer cb b off sz v)) e"
  "record_encode C (CmdPipelineBarrier cb s t) e = vs.puts (record_wire C (CmdPipelineBarrier cb s t)) e"
  by (simp_all add: record_rules del: vs.puts_simps split del: if_split)

lemma handle_wire:
  "record_encode C (CmdBindDescriptorSets cb l f n hs) e = vs.puts (record_wire C (CmdBindDescriptorSets cb l f n hs)) e"
  "record_encode C (FreeCommandBuffers d p n hs) e = vs.puts (record_wire C (FreeCommandBuffers d p n hs)) e"
  "record_encode C (ResetFences d n hs) e = vs.puts (record_wire C (ResetFences d n hs)) e"
  "record_encode C (WaitForFences d n hs t) e = vs.puts (record_wire C (WaitForFences d n hs t)) e"
  "record_encode C (AllocateCommandBuffers d p n hs) e = vs.puts (record_wire C (AllocateCommandBuffers d p n hs)) e"
  "object_encode C (AllocateDescriptorSets d p n sl hs) e = vs.puts (object_wire C (AllocateDescriptorSets d p n sl hs)) e"
  by (simp_all add: record_rules del: vs.puts_simps split del: if_split)

lemma copy_wire: "record_encode C (CmdCopyBuffer cb a b sz) e = vs.puts (record_wire C (CmdCopyBuffer cb a b sz)) e"
proof -
  have "vn_encode_array vn_encode_VkBufferCopy e n rs =
      vs.puts (array_chunks (\<lambda>r. [le64 (bcp_srcOffset r), le64 (bcp_dstOffset r), le64 (bcp_size r)]) n rs) e" for e n rs
    by (rule array_encode) (simp add: vn_encode_VkBufferCopy_def record_rules del: vs.puts_simps split del: if_split)
  thus ?thesis
    by (simp add: uk_venus_encode_vkCmdCopyBuffer_def vn_encode_vkCmdCopyBuffer_def record_rules
        del: vs.puts_simps split del: if_split)
qed

lemma submit_wire: "record_encode C (QueueSubmit q n cbs f) e = vs.puts (record_wire C (QueueSubmit q n cbs f)) e"
proof -
  let ?g = "\<lambda>v. [le32 (ST_SUBMIT_INFO C), le64 0, le32 (sbi_waitSemaphoreCount v)] @
      handle_array (sbi_waitSemaphoreCount v) (sbi_pWaitSemaphores v) @
      array_chunks (\<lambda>f. [le32 f]) (sbi_waitSemaphoreCount v) (sbi_pWaitDstStageMask v) @
      [le32 (sbi_commandBufferCount v)] @ handle_array (sbi_commandBufferCount v) (sbi_pCommandBuffers v) @
      [le32 (sbi_signalSemaphoreCount v)] @ handle_array (sbi_signalSemaphoreCount v) (sbi_pSignalSemaphores v)"
  have "vn_encode_array (vn_encode_VkSubmitInfo C) e n rs = vs.puts (array_chunks ?g n rs) e" for e n rs
    by (rule array_encode)
      (simp add: vn_encode_VkSubmitInfo_def vn_encode_VkSubmitInfo_self_def record_rules del: vs.puts_simps split del: if_split)
  thus ?thesis
    by (simp add: uk_venus_encode_vkQueueSubmit_def vn_encode_vkQueueSubmit_def record_rules
        del: vs.puts_simps split del: if_split)
qed

lemma update_wire:
  "object_encode C (UpdateDescriptorSetsStorage d st bi b off r) e =
   vs.puts (object_wire C (UpdateDescriptorSetsStorage d st bi b off r)) e"
proof -
  let ?b = "\<lambda>v. [le64 (dbi_buffer v), le64 (dbi_offset v), le64 (dbi_range v)]"
  let ?g = "\<lambda>v. [le32 (ST_WRITE_DESCRIPTOR_SET C), le64 0, le64 (wds_dstSet v), le32 (wds_dstBinding v),
      le32 (wds_dstArrayElement v), le32 (wds_descriptorCount v), le32 (wds_descriptorType v), le64 0] @
      array_chunks ?b (wds_descriptorCount v) (wds_pBufferInfo v) @ [le64 0]"
  have "vn_encode_array vn_encode_VkDescriptorBufferInfo e n rs = vs.puts (array_chunks ?b n rs) e" for e n rs
    by (rule array_encode) (simp add: vn_encode_VkDescriptorBufferInfo_def record_rules del: vs.puts_simps split del: if_split)
  hence "vn_encode_array (vn_encode_VkWriteDescriptorSet C) e n rs = vs.puts (array_chunks ?g n rs) e" for e n rs
    by (intro array_encode)
      (simp add: vn_encode_VkWriteDescriptorSet_def vn_encode_VkWriteDescriptorSet_self_def record_rules del: vs.puts_simps split del: if_split)
  thus ?thesis
    by (simp add: uk_venus_encode_vkUpdateDescriptorSets_storage_def vn_encode_vkUpdateDescriptorSets_def
        record_rules del: vs.puts_simps split del: if_split)
qed

lemma push_wire:
  assumes "case vs of None \<Rightarrow> True | Some bs \<Rightarrow> unat sz \<le> length bs"
  shows "record_encode C (CmdPushConstants cb l sf off sz vs) e = vs.puts (record_wire C (CmdPushConstants cb l sf off sz vs)) e"
proof -
  have "vn_encode_blob_array e bs (ucast sz) = vs.puts (take (unat sz) bs # pad4 (unat sz)) e"
    if "unat sz \<le> length bs" for bs e
  proof -
    let ?t = "take (unat sz) bs"
    have lt: "length ?t = unat sz" using that by simp
    have len: "(ucast sz :: u64) = of_nat (length ?t)"
      using unat_u32_less[of sz] unat_of_nat_u64[of "unat sz"] unfolding lt by (simp add: word_unat_eq_iff)
    have small: "small_bytes ?t" using lt unat_u32_less[of sz] by (simp add: small_bytes_def)
    have "uk_venus_encode_bytes e (Some bs) (ucast sz) = uk_venus_encode_bytes e (Some (take (unat sz) bs)) (ucast sz)"
      by (simp add: uk_venus_encode_bytes_def)
    hence "vn_encode_blob_array e bs (ucast sz) = vn_encode_blob_array e (take (unat sz) bs) (ucast sz)"
      by (simp only: vn_encode_blob_array_def vn_encode_def vn_cs_encoder_write_def Let_def)
    also have "\<dots> = vn_encode_blob_array e ?t (of_nat (length ?t))" by (simp only: len)
    also have "\<dots> = vs.puts (?t # pad4 (length ?t)) e" by (rule blob_array_chunks[OF small])
    finally show ?thesis by (simp only: lt)
  qed
  thus ?thesis
    using assms
    by (simp add: uk_venus_encode_vkCmdPushConstants_def vn_encode_vkCmdPushConstants_def record_rules
        split: option.splits split del: if_split del: vs.puts_simps)
qed

lemma buffer_wire: "object_encode C (CreateBuffer d b sz u) e = vs.puts (object_wire C (CreateBuffer d b sz u)) e"
  by (simp add: uk_venus_encode_vkCreateBuffer_def vn_encode_vkCreateBuffer_def vn_encode_VkBufferCreateInfo_def
      vn_encode_VkBufferCreateInfo_self_def words_chunk_nil record_rules del: vs.puts_simps)

lemma shader_wire:
  assumes "object_ok (CreateShaderModule d h code n)"
  shows "object_encode C (CreateShaderModule d h code n) e = vs.puts (object_wire C (CreateShaderModule d h code n)) e"
  using assms
  by (simp add: uk_venus_encode_vkCreateShaderModule_def vn_encode_vkCreateShaderModule_def
      vn_encode_VkShaderModuleCreateInfo_def vn_encode_VkShaderModuleCreateInfo_self_def object_ok_def
      mult.commute[of "ucast n" "4 :: u64"] shader_words ucast_back words_array_chunks_def record_rules
      split: option.splits del: vs.puts_simps)

lemma layout_wire:
  assumes "object_ok (CreatePipelineLayout d h n sl np st off sz)"
  shows "object_encode C (CreatePipelineLayout d h n sl np st off sz) e =
    vs.puts (object_wire C (CreatePipelineLayout d h n sl np st off sz)) e"
proof -
  let ?g = "\<lambda>v. [le32 (pcr_stageFlags v), le32 (pcr_offset v), le32 (pcr_size v)]"
  have "vn_encode_array vn_encode_VkPushConstantRange e m rs = vs.puts (array_chunks ?g m rs) e" for e m rs
    by (rule array_encode) (simp add: vn_encode_VkPushConstantRange_def record_rules del: vs.puts_simps)
  moreover have "np = 0 \<or> np = 1"
  proof -
    have "unat np \<le> 1" using assms by (simp add: object_ok_def word_le_nat_alt)
    hence "unat np = 0 \<or> unat np = 1" by linarith
    thus ?thesis by (simp add: word_unat_eq_iff)
  qed
  ultimately show ?thesis
    by (auto simp add: uk_venus_encode_vkCreatePipelineLayout_def vn_encode_vkCreatePipelineLayout_def
        vn_encode_VkPipelineLayoutCreateInfo_def vn_encode_VkPipelineLayoutCreateInfo_self_def record_rules
        split del: if_split simp del: vs.puts_simps)
qed

lemma pipeline_wire:
  assumes "object_ok (CreateComputePipelines d h l sm n)"
  shows "object_encode C (CreateComputePipelines d h l sm n) e =
    vs.puts (object_wire C (CreateComputePipelines d h l sm n)) e"
proof -
  let ?s = "\<lambda>v. [le32 (ST_PIPELINE_SHADER_STAGE_CREATE_INFO C), le64 0, le32 (ssi_flags v), le32 (ssi_stage v),
      le64 (ssi_module v)] @ str_chunks (ssi_pName v) @ [le64 0]"
  let ?g = "\<lambda>v. [le32 (ST_COMPUTE_PIPELINE_CREATE_INFO C), le64 0, le32 (cpi_flags v)] @ ?s (cpi_stage v) @
      [le64 (cpi_layout v), le64 (cpi_basePipelineHandle v), le32 (cpi_basePipelineIndex v)]"
  have stage: "vn_encode_VkPipelineShaderStageCreateInfo C e v = vs.puts (?s v) e" if "short_opt (ssi_pName v)" for e v
    by (simp add: vn_encode_VkPipelineShaderStageCreateInfo_def vn_encode_VkPipelineShaderStageCreateInfo_self_def
        string_chunks[OF that] record_rules del: vs.puts_simps)
  have info: "vn_encode_VkComputePipelineCreateInfo C e v = vs.puts (?g v) e" if "short_opt (ssi_pName (cpi_stage v))" for e v
    by (simp add: vn_encode_VkComputePipelineCreateInfo_def vn_encode_VkComputePipelineCreateInfo_self_def stage[OF that]
        record_rules del: vs.puts_simps)
  have "vn_encode_array (vn_encode_VkComputePipelineCreateInfo C) e 1 (Some [v]) = vs.puts (le64 1 # ?g v) e"
    if "short_opt (ssi_pName (cpi_stage v))" for e v
    by (simp add: vn_encode_array_def info[OF that] record_rules del: vs.puts_simps)
  moreover have "short_opt (Some (case n of Some s \<Rightarrow> s | None \<Rightarrow> main_name))"
    using assms by (auto simp: object_ok_def short_opt_def short_str_def main_name_def split: option.splits)
  ultimately show ?thesis
    by (simp add: uk_venus_encode_vkCreateComputePipelines_def vn_encode_vkCreateComputePipelines_def record_rules
        del: vs.puts_simps)
qed

lemma descriptor_wire:
  "object_encode C (CreateDescriptorSetLayout d h n bn ty ct sf) e =
    vs.puts (object_wire C (CreateDescriptorSetLayout d h n bn ty ct sf)) e"
  "object_encode C (CreateDescriptorPool d h ms n ty ct) e = vs.puts (object_wire C (CreateDescriptorPool d h ms n ty ct)) e"
proof -
  have b: "vn_encode_array vn_encode_VkDescriptorSetLayoutBinding e m rs =
      vs.puts (array_chunks (\<lambda>v. [le32 (slb_binding v), le32 (slb_descriptorType v), le32 (slb_descriptorCount v),
        le32 (slb_stageFlags v), le64 0]) m rs) e" for e m rs
    by (rule array_encode) (simp add: vn_encode_VkDescriptorSetLayoutBinding_def record_rules del: vs.puts_simps)
  have p: "vn_encode_array vn_encode_VkDescriptorPoolSize e m rs =
      vs.puts (array_chunks (\<lambda>v. [le32 (dps_type v), le32 (dps_descriptorCount v)]) m rs) e" for e m rs
    by (rule array_encode) (simp add: vn_encode_VkDescriptorPoolSize_def record_rules del: vs.puts_simps)
  have arr: "array_chunks g (clamp64 n) (if n \<noteq> 0 then Some (map f [0..<unat (clamp64 n)]) else None) =
      (if n = 0 then [le64 0] else le64 (ucast (clamp64 n)) # concat (map (\<lambda>i. g (f i)) [0..<unat (clamp64 n)]))" for g f
    by (simp add: array_chunks_def comp_def)
  show "object_encode C (CreateDescriptorSetLayout d h n bn ty ct sf) e =
      vs.puts (object_wire C (CreateDescriptorSetLayout d h n bn ty ct sf)) e"
    by (simp add: uk_venus_encode_vkCreateDescriptorSetLayout_def vn_encode_vkCreateDescriptorSetLayout_def
        vn_encode_VkDescriptorSetLayoutCreateInfo_def vn_encode_VkDescriptorSetLayoutCreateInfo_self_def b arr record_rules
        cong: if_cong split del: if_split del: vs.puts_simps upt.simps)
  show "object_encode C (CreateDescriptorPool d h ms n ty ct) e = vs.puts (object_wire C (CreateDescriptorPool d h ms n ty ct)) e"
    by (simp add: uk_venus_encode_vkCreateDescriptorPool_def vn_encode_vkCreateDescriptorPool_def
        vn_encode_VkDescriptorPoolCreateInfo_def vn_encode_VkDescriptorPoolCreateInfo_self_def p arr record_rules
        cong: if_cong split del: if_split del: vs.puts_simps upt.simps)
qed

section \<open>Every command is its wire format\<close>

lemma object_encode_wire:
  assumes "object_ok c" shows "object_encode C c e = vs.puts (object_wire C c) e"
  using assms shader_wire layout_wire pipeline_wire
  by (cases c) (simp_all only: simple_create_wire destroy_wire handle_wire update_wire buffer_wire descriptor_wire)

lemma record_encode_wire:
  assumes "record_ok c" shows "record_encode C c e = vs.puts (record_wire C c) e"
  using assms
  by (cases c) (simp_all only: simple_create_wire destroy_wire plain_record_wire handle_wire copy_wire submit_wire
      push_wire record_ok_def record_cmd.case)

lemma small_handles [simp]: "c \<in> set (handles_wire n hs) \<Longrightarrow> small_bytes c"
  by (auto simp: handles_wire_def split: if_splits)

lemma small_object:
  assumes "object_ok k" "c \<in> set (object_wire C k)" shows "small_bytes c"
proof -
  have "small_bytes (words_chunk ws n)" for ws n
    using unat_u32_less[of n] by (auto simp: small_bytes_def words_chunk_def length_le32s min_def)
  moreover have "short_opt (Some main_name)" by (simp add: short_opt_def short_str_def main_name_def)
  moreover have "small_bytes []" by (simp add: small_bytes_def)
  ultimately show ?thesis
    using assms
    by (cases k) (auto simp: object_ok_def words_array_chunks_def split: option.splits if_splits dest: small_str[rotated])
qed

lemma small_record:
  assumes "record_ok k" "c \<in> set (record_wire C k)" shows "small_bytes c"
proof -
  have "small_bytes (take (unat sz) bs)" for sz :: u32 and bs
    using unat_u32_less[of sz] by (auto simp: small_bytes_def min_def)
  thus ?thesis
    using assms by (cases k) (auto simp: record_ok_def split: option.splits if_splits)
qed

end
