(* ===== verification/Gpu_Steps.thy ===== *)
theory Gpu_Steps
  imports Gpu_Api
begin

text \<open>
  What the layers above the driver rely on: an operation of theirs makes a bounded number of driver
  calls, between which the platform state (shared memory included) may change.  \<open>within k s s'\<close> says
  that \<open>s'\<close> is reached from \<open>s\<close> by at most \<open>k\<close> operations that keep the driver's contract.
\<close>

inductive api_steps :: "nat \<Rightarrow> 'h sys \<Rightarrow> 'h sys \<Rightarrow> bool" where
  api_none: "api_steps 0 s s"
| api_call: "api_steps n s t \<Longrightarrow> op_ok t u \<Longrightarrow> api_steps (Suc n) s u"
| api_host: "api_steps n s t \<Longrightarrow> api_steps n s (t\<lparr>host := h\<rparr>)"

definition within :: "nat \<Rightarrow> 'h sys \<Rightarrow> 'h sys \<Rightarrow> bool" where
  "within k s s' \<longleftrightarrow> (\<exists>n\<le>k. api_steps n s s')"

lemma api_steps_trans: "api_steps m t u \<Longrightarrow> api_steps n s t \<Longrightarrow> api_steps (n + m) s u"
  by (induction rule: api_steps.induct) (auto intro: api_steps.intros)

lemma within_refl [simp]: "within k s s"
  unfolding within_def by (blast intro: api_none)

lemma within_host [simp]: "within k s (s\<lparr>host := h\<rparr>)"
  unfolding within_def by (blast intro: api_none api_host)

lemma within_call: "op_ok s s' \<Longrightarrow> within (Suc k) s s'"
  unfolding within_def using api_call[OF api_none] by fastforce

lemma within_trans: "within a s t \<Longrightarrow> within b t u \<Longrightarrow> within (a + b) s u"
  unfolding within_def by (meson add_mono api_steps_trans)

lemma within_mono: "within a s t \<Longrightarrow> a \<le> b \<Longrightarrow> within b s t"
  unfolding within_def by (meson order_trans)

lemma within_step: "op_ok s t \<Longrightarrow> within k t u \<Longrightarrow> within (Suc k) s u"
  using within_trans[OF within_call[of s t 0], of k u] by simp

lemma within_host_first: "within k (s\<lparr>host := h\<rparr>) u \<Longrightarrow> within k s u"
  using within_trans[OF within_host[of 0 s h], of k u] by simp

lemma within_inv:
  assumes "within k s s'" "dev_inv (vg s)" "counters_below n (vg s)" "n + k < 2 ^ 32"
  shows "dev_inv (vg s') \<and> counters_below (n + k) (vg s') \<and> g_ctrlq_lock s' = g_ctrlq_lock s"
proof -
  obtain j where j: "j \<le> k" "api_steps j s s'" using assms(1) unfolding within_def by blast
  from j(2) assms(2,3) have "n + j < 2 ^ 32 \<Longrightarrow>
    dev_inv (vg s') \<and> counters_below (n + j) (vg s') \<and> g_ctrlq_lock s' = g_ctrlq_lock s"
  proof (induction rule: api_steps.induct)
    case (api_call j s t u)
    hence t: "dev_inv (vg t)" "counters_below (n + j) (vg t)" "g_ctrlq_lock t = g_ctrlq_lock s" by auto
    have "room (vg t)" using counters_room[OF t(2)] api_call.prems(1) by simp
    thus ?case using api_call.hyps(2) t unfolding op_ok_def counters_below_def by auto
  qed auto
  thus ?thesis using j(1) assms(4) unfolding counters_below_def by auto
qed

lemmas api_ok_rules = op_ok_rules transfer_3d_ok metrics_reset_ok

end
