(* ===== verification/Venus_Ring.thy ===== *)
theory Venus_Ring
  imports Gpu_Demo Venus_Wire
begin

text \<open>
  The host-visible command ring of \<open>venus_init.c\<close>: creation, staging writes, registration with the
  host, and the circular protocol (write, flush, wait).

  The ring lives in memory shared with the host.  A \<open>'h machine\<close> pairs the platform state of the
  control queue with that memory, a function from addresses to bytes; every control command may
  change both.  Results that poll return \<open>option\<close>, as for the control queue.  The \<open>dev\<close> and \<open>ring\<close>
  pointers are not NULL.
\<close>

section \<open>Shared memory\<close>

record 'h machine =
  link :: 'h
  shm :: "u64 \<Rightarrow> u8"

definition mem_store :: "u64 \<Rightarrow> u8 list \<Rightarrow> (u64 \<Rightarrow> u8) \<Rightarrow> u64 \<Rightarrow> u8" where
  "mem_store a bs m = (\<lambda>x. if unat (x - a) < length bs then bs ! unat (x - a) else m x)"

definition mem_load :: "u64 \<Rightarrow> nat \<Rightarrow> (u64 \<Rightarrow> u8) \<Rightarrow> u8 list" where
  "mem_load a n m = map (\<lambda>i. m (a + of_nat i)) [0..<n]"

definition load32 :: "u64 \<Rightarrow> (u64 \<Rightarrow> u8) \<Rightarrow> u32" where
  "load32 a m = un32 (mem_load a 4 m)"

abbreviation with_shm :: "((u64 \<Rightarrow> u8) \<Rightarrow> u64 \<Rightarrow> u8) \<Rightarrow> 'h machine sys \<Rightarrow> 'h machine sys" where
  "with_shm f s \<equiv> s\<lparr>host := (host s)\<lparr>shm := f (shm (host s))\<rparr>\<rparr>"

section \<open>State\<close>

definition UK_VENUS_CMD_BUF_MAX :: u64 where [venus_consts]: "UK_VENUS_CMD_BUF_MAX = 64 * 1024"
definition UK_VENUS_RING_DEFAULT_SIZE :: u64 where [venus_consts]: "UK_VENUS_RING_DEFAULT_SIZE = UK_VENUS_CMD_BUF_MAX"
definition UK_VENUS_RING_DEFAULT_BLOB_ID :: u64 where [venus_consts]: "UK_VENUS_RING_DEFAULT_BLOB_ID = 0x76656e757372696e"

record uk_venus_ring =
  ring_ctx :: uk_virtio_gpu_context
  ring_borrowed_ctx :: bool
  ring_blob :: uk_virtio_gpu_blob
  ring_base :: u64
  ring_size :: u64
  ring_write_pos :: u64
  ring_bytes_written :: u64
  ring_commands_submitted :: u64
  ring_ready :: bool
  ring_id :: u64
  ring_buf_size :: u32
  ring_buf_mask :: u32
  ring_cur_tail :: u32
  ring_protocol_ready :: bool

definition zero_ctx :: uk_virtio_gpu_context where
  "zero_ctx = \<lparr> ctx_id = 0, ctx_capset_id = 0, ctx_created = False \<rparr>"

definition zero_ring :: uk_venus_ring where
  "zero_ring = \<lparr> ring_ctx = zero_ctx, ring_borrowed_ctx = False, ring_blob = zero_blob, ring_base = 0,
     ring_size = 0, ring_write_pos = 0, ring_bytes_written = 0, ring_commands_submitted = 0,
     ring_ready = False, ring_id = 0, ring_buf_size = 0, ring_buf_mask = 0, ring_cur_tail = 0,
     ring_protocol_ready = False \<rparr>"

section \<open>Creation and destruction\<close>

text \<open>The bytes of the two context names.\<close>

definition name_venus :: "u8 list" where
  "name_venus = [117, 110, 105, 107, 114, 97, 102, 116, 45, 118, 101, 110, 117, 115]"
definition name_venus_ring :: "u8 list" where
  "name_venus_ring = name_venus @ [45, 114, 105, 110, 103]"

text \<open>The shared error tail: \<open>err_unmap\<close> falls through to \<open>err_blob\<close>; results are ignored.\<close>

definition ring_err_blob :: "'h env \<Rightarrow> uk_virtio_gpu_blob option \<Rightarrow> 'h sys \<Rightarrow> 'h sys option" where
  "ring_err_blob e b s = map_option (\<lambda>(_, _, s). s) (uk_virtio_gpu_gl_blob_destroy e b s)"

definition ring_err_unmap :: "'h env \<Rightarrow> uk_virtio_gpu_blob option \<Rightarrow> 'h sys \<Rightarrow> 'h sys option" where
  "ring_err_unmap e b s =
    (case uk_virtio_gpu_gl_blob_unmap e b s of
       None \<Rightarrow> None | Some (_, b, s) \<Rightarrow> ring_err_blob e b s)"

text \<open>Mapping and attaching the blob, the part both creations share: \<open>map_common\<close> of the first, the
  same statements of the second.\<close>

definition ring_map_common :: "'h env \<Rightarrow> uk_venus_ring \<Rightarrow> u64 \<Rightarrow> 'h sys
    \<Rightarrow> ((errno + uk_venus_ring) \<times> 'h sys) option" where
  "ring_map_common e ring sz s =
    (case uk_virtio_gpu_gl_blob_map e (Some (ring_blob ring)) s of
       None \<Rightarrow> None
     | Some (Inl er, b, s) \<Rightarrow> map_option (Pair (Inl er)) (ring_err_blob e b s)
     | Some (Inr _, b, s) \<Rightarrow>
        (let ring = ring\<lparr>ring_blob := the b\<rparr> in
         if blob_mapped_addr (the b) = 0 \<or> blob_mapped_size (the b) < sz
         then map_option (Pair (Inl ENOTSUP)) (ring_err_unmap e b s)
         else case uk_virtio_gpu_gl_context_attach_resource e (Some (ring_ctx ring))
                     (blob_resource_id (the b)) s of
           None \<Rightarrow> None
         | Some (Inl er, s) \<Rightarrow> map_option (Pair (Inl er)) (ring_err_unmap e b s)
         | Some (Inr _, s) \<Rightarrow>
             Some (Inr (ring\<lparr>ring_base := blob_mapped_addr (the b), ring_size := sz,
                 ring_write_pos := 0, ring_bytes_written := 0, ring_commands_submitted := 0,
                 ring_ready := True\<rparr>), s)))"

definition uk_venus_ring_create_on_ctx :: "'h env \<Rightarrow> uk_venus_ring \<Rightarrow> uk_virtio_gpu_context option
    \<Rightarrow> u64 \<Rightarrow> u64 \<Rightarrow> 'h sys \<Rightarrow> ((errno + unit) \<times> uk_venus_ring \<times> 'h sys) option" where
  "uk_venus_ring_create_on_ctx e ring ctx sz bid s =
    (case ctx of
       None \<Rightarrow> Some (Inl EINVAL, ring, s)
     | Some c \<Rightarrow>
     if sz = 0 \<or> ring_ready ring \<or> blob_created (ring_blob ring) then Some (Inl EINVAL, ring, s)
     else case uk_virtio_gpu_gl_caps_get (vg s) True of
       Inl er \<Rightarrow> Some (Inl er, ring, s)
     | Inr caps \<Rightarrow>
        if \<not> caps_has_context_init caps \<or> \<not> caps_has_resource_blob caps \<or> \<not> caps_has_host_visible caps
        then Some (Inl ENOTSUP, ring, s)
        else let ring = zero_ring\<lparr>ring_ctx := c, ring_borrowed_ctx := True\<rparr> in
        case uk_virtio_gpu_gl_blob_create_with_ctx e (ctx_id c) sz BLOB_MEM_HOST3D
               BLOB_FLAG_USE_MAPPABLE 0 (Some (ring_blob ring)) s of
          None \<Rightarrow> None
        | Some (Inl er, s) \<Rightarrow> Some (Inl er, zero_ring, s)
        | Some (Inr b, s) \<Rightarrow>
            (case ring_map_common e (ring\<lparr>ring_blob := b\<rparr>) sz s of
               None \<Rightarrow> None
             | Some (Inl er, s) \<Rightarrow> Some (Inl er, zero_ring, s)
             | Some (Inr ring, s) \<Rightarrow> Some (Inr (), ring, s)))"

definition uk_venus_ring_create :: "'h env \<Rightarrow> uk_venus_ring \<Rightarrow> u64 \<Rightarrow> u64 \<Rightarrow> 'h sys
    \<Rightarrow> ((errno + unit) \<times> uk_venus_ring \<times> 'h sys) option" where
  "uk_venus_ring_create e ring sz bid s =
    (if sz = 0 \<or> ring_ready ring \<or> ctx_created (ring_ctx ring) \<or> blob_created (ring_blob ring)
     then Some (Inl EINVAL, ring, s)
     else case uk_virtio_gpu_gl_caps_get (vg s) True of
       Inl er \<Rightarrow> Some (Inl er, ring, s)
     | Inr caps \<Rightarrow>
        if \<not> caps_has_context_init caps \<or> \<not> caps_has_resource_blob caps \<or> \<not> caps_has_host_visible caps
        then Some (Inl ENOTSUP, ring, s)
        else case uk_virtio_gpu_gl_context_create e UK_VENUS_CAPSET_ID (Some name_venus_ring) True s of
          None \<Rightarrow> None
        | Some (Inl er, s) \<Rightarrow> Some (Inl er, zero_ring, s)
        | Some (Inr c, s) \<Rightarrow>
        (let ring = zero_ring\<lparr>ring_ctx := c\<rparr>;
             err_ctx = (\<lambda>er s. map_option (\<lambda>(_, s). (Inl er, zero_ring, s))
                          (uk_virtio_gpu_gl_context_destroy e (Some c) s)) in
         case uk_virtio_gpu_gl_blob_create_with_ctx e (ctx_id c) sz BLOB_MEM_HOST3D
                BLOB_FLAG_USE_MAPPABLE bid (Some (ring_blob ring)) s of
           None \<Rightarrow> None
         | Some (Inl er, s) \<Rightarrow> err_ctx er s
         | Some (Inr b, s) \<Rightarrow>
             (case ring_map_common e (ring\<lparr>ring_blob := b\<rparr>) sz s of
                None \<Rightarrow> None
              | Some (Inl er, s) \<Rightarrow> err_ctx er s
              | Some (Inr ring, s) \<Rightarrow> Some (Inr (), ring, s))))"

definition uk_venus_ring_destroy :: "'h env \<Rightarrow> uk_venus_ring \<Rightarrow> 'h sys
    \<Rightarrow> (uk_venus_ring \<times> 'h sys) option" where
  "uk_venus_ring_destroy e ring s =
    (let c = ring_ctx ring; b = ring_blob ring in
     do {
       s \<leftarrow> (if ctx_created c \<and> blob_created b
             then map_option snd (uk_virtio_gpu_gl_context_detach_resource e (Some c) (blob_resource_id b) s)
             else Some s);
       (b, s) \<leftarrow> (if blob_mapped b
             then map_option (\<lambda>(_, b, s). (the b, s)) (uk_virtio_gpu_gl_blob_unmap e (Some b) s)
             else Some (b, s));
       s \<leftarrow> (if blob_created b
             then map_option (\<lambda>(_, _, s). s) (uk_virtio_gpu_gl_blob_destroy e (Some b) s)
             else Some s);
       s \<leftarrow> (if ctx_created c \<and> \<not> ring_borrowed_ctx ring
             then map_option snd (uk_virtio_gpu_gl_context_destroy e (Some c) s)
             else Some s);
       Some (zero_ring, s)
     })"

section \<open>Staging mode\<close>

definition uk_venus_ring_write :: "uk_venus_ring \<Rightarrow> u8 list option \<Rightarrow> (u64 \<Rightarrow> u8)
    \<Rightarrow> (errno + u64) \<times> uk_venus_ring \<times> (u64 \<Rightarrow> u8)" where
  "uk_venus_ring_write ring dat m =
    (if \<not> ring_ready ring \<or> ring_base ring = 0 then (Inl EINVAL, ring, m)
     else case dat of
       None \<Rightarrow> (Inl EINVAL, ring, m)
     | Some bs \<Rightarrow>
        let len = of_nat (length bs) in
        if bs = [] then (Inl EINVAL, ring, m)
        else if len > ring_size ring \<or> ring_write_pos ring > ring_size ring \<or>
                len > ring_size ring - ring_write_pos ring
        then (Inl ENOSPC, ring, m)
        else (Inr (ring_write_pos ring),
              ring\<lparr>ring_write_pos := ring_write_pos ring + len,
                   ring_bytes_written := ring_bytes_written ring + len\<rparr>,
              mem_store (ring_base ring + ring_write_pos ring) bs m))"

definition uk_venus_ring_submit :: "'h machine env \<Rightarrow> uk_venus_ring \<Rightarrow> uk_venus_encoder option
    \<Rightarrow> 'h machine sys \<Rightarrow> ((errno + u64) \<times> uk_venus_ring \<times> 'h machine sys) option" where
  "uk_venus_ring_submit e ring enc s =
    (case enc of
       None \<Rightarrow> Some (Inl EINVAL, ring, s)
     | Some enc \<Rightarrow>
        if \<not> ring_ready ring \<or> \<not> ctx_created (ring_ctx ring) then Some (Inl EINVAL, ring, s)
        else if ve_overflow enc then Some (Inl EOVERFLOW, ring, s)
        else if ve_pos enc = 0 then Some (Inl EINVAL, ring, s)
        else case uk_venus_ring_write ring (Some (take (unat (ve_pos enc)) (ve_buf enc))) (shm (host s)) of
          (Inl er, ring, m) \<Rightarrow> Some (Inl er, ring, s)
        | (Inr off, ring, m) \<Rightarrow>
            let s = with_shm (\<lambda>_. m) s in
            (case uk_virtio_gpu_gl_context_submit e (Some (ring_ctx ring))
                    (Some (mem_load (ring_base ring + off) (unat (ve_pos enc)) (shm (host s)))) True s of
               None \<Rightarrow> None
             | Some (Inl er, _, s) \<Rightarrow> Some (Inl er, ring, s)
             | Some (Inr _, f, s) \<Rightarrow>
                 Some (Inr (case f of Some fence \<Rightarrow> fence | None \<Rightarrow> 0),
                   ring\<lparr>ring_commands_submitted := ring_commands_submitted ring + 1\<rparr>, s)))"

definition uk_venus_submit :: "'h env \<Rightarrow> uk_virtio_gpu_context option \<Rightarrow> uk_venus_encoder option
    \<Rightarrow> 'h sys \<Rightarrow> ((errno + unit) \<times> 'h sys) option" where
  "uk_venus_submit e ctx enc s =
    (case (ctx, enc) of
       (Some c, Some enc) \<Rightarrow>
        if ve_overflow enc then Some (Inl EOVERFLOW, s)
        else if ve_pos enc = 0 then Some (Inl EINVAL, s)
        else map_option (\<lambda>(r, _, s). (r, s))
               (uk_virtio_gpu_gl_context_submit e (Some c)
                  (Some (take (unat (ve_pos enc)) (ve_buf enc))) True s)
     | _ \<Rightarrow> Some (Inl EINVAL, s))"

section \<open>Protocol mode\<close>

definition venus_prev_pow2 :: "u32 \<Rightarrow> u32" where
  "venus_prev_pow2 n =
    (if n = 0 then 0
     else let n = n OR drop_bit 1 n;
              n = n OR drop_bit 2 n;
              n = n OR drop_bit 4 n;
              n = n OR drop_bit 8 n;
              n = n OR drop_bit 16 n
          in n - drop_bit 1 n)"

definition uk_venus_ring_load_head :: "uk_venus_ring \<Rightarrow> (u64 \<Rightarrow> u8) \<Rightarrow> u32" where
  "uk_venus_ring_load_head ring m =
    (if ring_base ring = 0 \<or> \<not> ring_protocol_ready ring then 0
     else load32 (ring_base ring + UK_VENUS_RING_HEAD_OFFSET) m)"

text \<open>A command buffer on the stack, whose bytes before they are written do not matter, and the bytes
  an encoder holds.\<close>

definition stack_buf :: "nat \<Rightarrow> u8 list option" where
  "stack_buf n = Some (replicate n 0)"

definition encoded :: "uk_venus_encoder \<Rightarrow> u8 list" where
  "encoded enc = take (unat (ve_pos enc)) (ve_buf enc)"

definition uk_venus_ring_register :: "'h machine env \<Rightarrow> uk_venus_ring \<Rightarrow> u64 \<Rightarrow> 'h machine sys
    \<Rightarrow> ((errno + unit) \<times> uk_venus_ring \<times> 'h machine sys) option" where
  "uk_venus_ring_register e ring rid s =
    (if \<not> ring_ready ring \<or> \<not> ctx_created (ring_ctx ring) \<or> ring_base ring = 0
     then Some (Inl EINVAL, ring, s)
     else if ring_protocol_ready ring then Some (Inl EINVAL, ring, s)
     else if ring_size ring \<le> UK_VENUS_RING_CTRL_SIZE then Some (Inl EINVAL, ring, s)
     else let buf_size = venus_prev_pow2 (ucast (ring_size ring - UK_VENUS_RING_CTRL_SIZE)) in
     if buf_size = 0 then Some (Inl EINVAL, ring, s)
     else let s = with_shm (\<lambda>m. mem_store (ring_base ring + UK_VENUS_RING_STATUS_OFFSET) (le32 0)
                  (mem_store (ring_base ring + UK_VENUS_RING_TAIL_OFFSET) (le32 0)
                    (mem_store (ring_base ring + UK_VENUS_RING_HEAD_OFFSET) (le32 0) m))) s in
     case uk_venus_encoder_init (stack_buf 256) 256 of
       Inl er \<Rightarrow> Some (Inl er, ring, s)
     | Inr enc \<Rightarrow>
     let enc = uk_venus_encode_vkCreateRingMESA enc rid
                 (blob_resource_id (ring_blob ring)) (ring_size ring) (ucast buf_size) in
     if ve_overflow enc then Some (Inl ENOSPC, ring, s)
     else case uk_virtio_gpu_gl_context_submit e (Some (ring_ctx ring)) (Some (encoded enc)) True s of
       None \<Rightarrow> None
     | Some (Inl er, _, s) \<Rightarrow> Some (Inl er, ring, s)
     | Some (Inr _, _, s) \<Rightarrow>
         Some (Inr (), ring\<lparr>ring_id := rid, ring_buf_size := buf_size, ring_buf_mask := buf_size - 1,
           ring_cur_tail := 0, ring_protocol_ready := True\<rparr>, s))"

definition uk_venus_ring_unregister :: "'h env \<Rightarrow> uk_venus_ring \<Rightarrow> 'h sys
    \<Rightarrow> ((errno + unit) \<times> uk_venus_ring \<times> 'h sys) option" where
  "uk_venus_ring_unregister e ring s =
    (if \<not> ring_protocol_ready ring then Some (Inr (), ring, s)
     else case uk_venus_encoder_init (stack_buf 64) 64 of
       Inl er \<Rightarrow> Some (Inl er, ring, s)
     | Inr enc \<Rightarrow>
     let enc = uk_venus_encode_vkDestroyRingMESA enc (ring_id ring);
              ring' = ring\<lparr>ring_protocol_ready := False, ring_id := 0, ring_buf_size := 0,
                           ring_buf_mask := 0, ring_cur_tail := 0\<rparr> in
     if ve_overflow enc then Some (Inr (), ring', s)
     else map_option (\<lambda>(_, _, s). (Inr (), ring', s))
            (uk_virtio_gpu_gl_context_submit e (Some (ring_ctx ring)) (Some (encoded enc)) True s))"

definition uk_venus_ring_cmd_write :: "uk_venus_ring \<Rightarrow> u8 list option \<Rightarrow> u32 \<Rightarrow> (u64 \<Rightarrow> u8)
    \<Rightarrow> (errno + unit) \<times> uk_venus_ring \<times> (u64 \<Rightarrow> u8)" where
  "uk_venus_ring_cmd_write ring dat len m =
    (if \<not> ring_protocol_ready ring \<or> ring_base ring = 0 then (Inl EINVAL, ring, m)
     else case dat of
       None \<Rightarrow> (Inl EINVAL, ring, m)
     | Some bs \<Rightarrow>
        if len = 0 then (Inl EINVAL, ring, m)
        else let avail = ring_buf_size ring - (ring_cur_tail ring - uk_venus_ring_load_head ring m) in
        if len > avail then (Inl ENOSPC, ring, m)
        else let buf = ring_base ring + UK_VENUS_RING_BUFFER_OFFSET;
                 off = ring_cur_tail ring AND ring_buf_mask ring;
                 m' = (if off + len \<le> ring_buf_size ring
                       then mem_store (buf + ucast off) (take (unat len) bs) m
                       else let fst_len = ring_buf_size ring - off in
                            mem_store buf (take (unat (len - fst_len)) (drop (unat fst_len) bs))
                              (mem_store (buf + ucast off) (take (unat fst_len) bs) m))
             in (Inr (), ring\<lparr>ring_cur_tail := ring_cur_tail ring + len\<rparr>, m'))"

text \<open>The store of the tail in \<open>cmd_flush\<close>.\<close>

definition ring_store_tail :: "uk_venus_ring \<Rightarrow> (u64 \<Rightarrow> u8) \<Rightarrow> u64 \<Rightarrow> u8" where
  "ring_store_tail ring m =
    mem_store (ring_base ring + UK_VENUS_RING_TAIL_OFFSET) (le32 (ring_cur_tail ring)) m"

definition uk_venus_ring_cmd_flush :: "'h machine env \<Rightarrow> uk_venus_ring \<Rightarrow> 'h machine sys
    \<Rightarrow> ((errno + unit) \<times> 'h machine sys) option" where
  "uk_venus_ring_cmd_flush e ring s =
    (if \<not> ring_protocol_ready ring \<or> ring_base ring = 0 then Some (Inl EINVAL, s)
     else let s = with_shm (ring_store_tail ring) s in
     case uk_venus_encoder_init (stack_buf 64) 64 of
       Inl er \<Rightarrow> Some (Inl er, s)
     | Inr enc \<Rightarrow>
     let enc = uk_venus_encode_vkNotifyRingMESA enc (ring_id ring) (ring_cur_tail ring) in
     if ve_overflow enc then Some (Inl ENOSPC, s)
     else map_option (\<lambda>(r, _, s). (r, s))
            (uk_virtio_gpu_gl_context_submit e (Some (ring_ctx ring)) (Some (encoded enc)) True s))"

text \<open>The host runs between two polls: \<open>poll\<close> is what it does to the shared memory before the next
  read of the head.\<close>

partial_function (option) ring_wait_loop ::
    "('h machine \<Rightarrow> 'h machine) \<Rightarrow> uk_venus_ring \<Rightarrow> u32 \<Rightarrow> u32 \<Rightarrow> 'h machine
      \<Rightarrow> ((errno + unit) \<times> 'h machine) option" where
  "ring_wait_loop poll ring timeout_iters iters h =
    (let h = poll h in
     if load32 (ring_base ring + UK_VENUS_RING_HEAD_OFFSET) (shm h) = ring_cur_tail ring
     then Some (Inr (), h)
     else if timeout_iters \<noteq> - 1 \<and> timeout_iters \<le> iters then Some (Inl ETIMEDOUT, h)
     else ring_wait_loop poll ring timeout_iters (iters + 1) h)"

definition uk_venus_ring_cmd_wait :: "('h machine \<Rightarrow> 'h machine) \<Rightarrow> uk_venus_ring \<Rightarrow> u32 \<Rightarrow> 'h machine
    \<Rightarrow> ((errno + unit) \<times> 'h machine) option" where
  "uk_venus_ring_cmd_wait poll ring timeout_iters h =
    (if \<not> ring_protocol_ready ring \<or> ring_base ring = 0 then Some (Inl EINVAL, h)
     else ring_wait_loop poll ring timeout_iters 0 h)"

section \<open>The largest power of two\<close>

text \<open>\<open>s\<close> has bit \<open>i\<close> when \<open>n\<close> has one of the \<open>w\<close> bits from \<open>i\<close> on: what the shift cascade computes,
  with \<open>w\<close> doubling in every step.\<close>

definition smeared :: "u32 \<Rightarrow> nat \<Rightarrow> u32 \<Rightarrow> bool" where
  "smeared n w s \<longleftrightarrow> (\<forall>i. bit s i \<longleftrightarrow> (\<exists>j. i \<le> j \<and> j < i + w \<and> bit n j))"

lemma smear_step:
  assumes s: "smeared n w s" and v: "v = w + w"
  shows "smeared n v (s OR drop_bit w s)"
  unfolding smeared_def
proof
  fix i
  have "bit (s OR drop_bit w s) i \<longleftrightarrow>
      (\<exists>j. i \<le> j \<and> j < i + w \<and> bit n j) \<or> (\<exists>j. i + w \<le> j \<and> j < i + w + w \<and> bit n j)"
    using s unfolding smeared_def by (simp add: bit_or_iff bit_drop_bit_eq add.commute[of w])
  also have "\<dots> \<longleftrightarrow> (\<exists>j. i \<le> j \<and> j < i + v \<and> bit n j)"
  proof (intro iffI; elim disjE exE conjE)
    fix j assume j: "i \<le> j" "j < i + v" "bit n j"
    show "(\<exists>j. i \<le> j \<and> j < i + w \<and> bit n j) \<or> (\<exists>j. i + w \<le> j \<and> j < i + w + w \<and> bit n j)"
    proof (cases "j < i + w")
      case False
      hence "i + w \<le> j \<and> j < i + w + w" using j(2) v by simp
      thus ?thesis using j(3) by blast
    qed (use j in blast)
  next
    fix j assume "i \<le> j" "j < i + w" "bit n j"
    hence "i \<le> j \<and> j < i + v \<and> bit n j" using v by simp
    thus "\<exists>j. i \<le> j \<and> j < i + v \<and> bit n j" by blast
  next
    fix j assume "i + w \<le> j" "j < i + w + w" "bit n j"
    hence "i \<le> j \<and> j < i + v \<and> bit n j" using v by simp
    thus "\<exists>j. i \<le> j \<and> j < i + v \<and> bit n j" by blast
  qed
  finally show "bit (s OR drop_bit w s) i \<longleftrightarrow> (\<exists>j. i \<le> j \<and> j < i + v \<and> bit n j)" .
qed

lemma smeared_32:
  assumes "n \<noteq> 0" "smeared n 32 s"
  obtains k where "k < 32" "2 ^ k \<le> unat n" "unat n < 2 ^ (k + 1)" "s = mask (k + 1)"
proof -
  define k where "k = Max {j. bit n j}"
  have fin: "finite {j. bit n j}"
    by (rule finite_subset[of _ "{..<32}"]) (auto dest: bit_imp_le_length)
  have ne: "{j. bit n j} \<noteq> {}" using assms(1) by (auto simp: bit_eq_iff)
  have bk: "bit n k" using Max_in[OF fin ne] by (simp add: k_def)
  have top: "j \<le> k" if "bit n j" for j using Max_ge[OF fin] that by (simp add: k_def)
  have k: "k < 32" using bit_imp_le_length[OF bk] by simp
  have bs: "bit s i \<longleftrightarrow> i \<le> k" for i
  proof
    assume "bit s i"
    then obtain j where "i \<le> j" "bit n j" using assms(2) unfolding smeared_def by blast
    thus "i \<le> k" using top by (meson order_trans)
  next
    assume "i \<le> k"
    hence "i \<le> k \<and> k < i + 32 \<and> bit n k" using k bk by simp
    thus "bit s i" using assms(2) unfolding smeared_def by blast
  qed
  have s: "s = mask (k + 1)"
  proof (rule bit_word_eqI)
    fix i assume "i < LENGTH(32)"
    thus "bit s i \<longleftrightarrow> bit (mask (k + 1) :: u32) i"
      unfolding bs by (simp only: bit_mask_iff possible_bit_word) (use k in auto)
  qed
  have "n = take_bit (k + 1) n"
    by (rule bit_word_eqI) (auto simp: bit_take_bit_iff less_Suc_eq_le dest: top)
  hence "unat n = unat n mod 2 ^ (k + 1)"
    by (metis unsigned_take_bit_eq take_bit_eq_mod)
  hence ub: "unat n < 2 ^ (k + 1)"
    by (metis mod_less_divisor zero_less_numeral zero_less_power)
  have "odd (unat n div 2 ^ k)"
    using bk k by (simp add: bit_unsigned_iff flip: bit_iff_odd)
  hence "unat n div 2 ^ k \<noteq> 0" by (intro notI) simp
  hence "2 ^ k \<le> unat n" by (simp add: div_eq_0_iff not_less)
  with k ub s that show ?thesis by blast
qed

lemma unat_pow2_u32: "k < 32 \<Longrightarrow> unat (2 ^ k :: u32) = 2 ^ k"
proof -
  assume k: "k < 32"
  hence "(2::nat) ^ k < 2 ^ 32" by (intro power_strict_increasing) simp_all
  thus ?thesis using unat_of_nat[of "2 ^ k", where ?'a = 32] by (simp add: take_bit_nat_eq_self)
qed

lemma prev_pow2:
  assumes "n \<noteq> 0"
  obtains k where "k < 32" "unat (venus_prev_pow2 n) = 2 ^ k" "2 ^ k \<le> unat n" "unat n < 2 ^ (k + 1)"
proof -
  have s1: "smeared n 1 n"
    unfolding smeared_def by (auto intro: exI[where x = i for i] simp: less_Suc_eq_le dest: le_antisym)
  define a where "a = n OR drop_bit 1 n"
  define b where "b = a OR drop_bit 2 a"
  define c where "c = b OR drop_bit 4 b"
  define d where "d = c OR drop_bit 8 c"
  define f where "f = d OR drop_bit 16 d"
  have "smeared n 2 a" unfolding a_def by (rule smear_step[OF s1]) simp
  hence "smeared n 4 b" unfolding b_def by (rule smear_step) simp
  hence "smeared n 8 c" unfolding c_def by (rule smear_step) simp
  hence "smeared n 16 d" unfolding d_def by (rule smear_step) simp
  hence sm: "smeared n 32 f" unfolding f_def by (rule smear_step) simp
  have def_f: "venus_prev_pow2 n = f - drop_bit 1 f"
    using assms by (simp only: venus_prev_pow2_def Let_def if_False a_def b_def c_def d_def f_def)
  obtain k where k: "k < 32" "2 ^ k \<le> unat n" "unat n < 2 ^ (k + 1)"
    and s: "f = mask (k + 1)"
    using smeared_32[OF assms sm] by blast
  have "drop_bit 1 (mask (k + 1)) = (mask k :: u32)"
    by (rule bit_word_eqI) (use k(1) in \<open>auto simp: bit_drop_bit_eq bit_mask_iff\<close>)
  hence "venus_prev_pow2 n = mask (k + 1) - mask k"
    by (simp only: def_f s)
  also have "\<dots> = 2 ^ k" by (simp add: mask_eq_exp_minus_1)
  finally have "unat (venus_prev_pow2 n) = 2 ^ k" using k(1) by (simp add: unat_pow2_u32)
  with k that show ?thesis by blast
qed

end
