(* ===== verification/Venus_Ring_Fifo.thy ===== *)
theory Venus_Ring_Fifo
  imports Venus_Ring
begin

text \<open>
  The circular protocol of the Venus ring as a byte queue between the guest and the host: what
  \<open>cmd_write\<close> stores where, the invariant of head and tail, and the interleaving of guest writes and
  publications with host reads as a step relation whose reachable states lose, reorder and overwrite
  nothing.
\<close>

section \<open>Memory by offset\<close>

lemma unat_diff_word:
  fixes a b :: u64
  shows "unat (a - b) = (if unat b \<le> unat a then unat a - unat b else 2 ^ 64 + unat a - unat b)"
proof (cases "unat b \<le> unat a")
  case True
  thus ?thesis by (simp add: unat_sub word_le_nat_alt)
next
  case False
  have "unat a = (unat (a - b) + unat b) mod 2 ^ 64"
    using unat_word_ariths(1)[of "a - b" b] by simp
  moreover have "unat (a - b) < 2 ^ 64" "unat b < 2 ^ 64"
    using unat_u64_less[of "a - b"] unat_u64_less[of b] by simp_all
  ultimately have "unat (a - b) + unat b = unat a \<or> unat (a - b) + unat b = 2 ^ 64 + unat a"
    by (cases "unat (a - b) + unat b < 2 ^ 64") (auto simp: mod_if)
  thus ?thesis using False by auto
qed

lemma store_at:
  fixes i j :: nat
  assumes "i < 2 ^ 40" "j + length bs \<le> 2 ^ 40"
  shows "mem_store (base + of_nat j) bs m (base + of_nat i) =
    (if j \<le> i \<and> i < j + length bs then bs ! (i - j) else m (base + of_nat i))"
proof -
  have d: "base + of_nat i - (base + of_nat j) = (of_nat i - of_nat j :: u64)" by simp
  have "unat (of_nat i :: u64) = i" "unat (of_nat j :: u64) = j"
    using assms by (simp_all add: unat_of_nat_u64)
  hence "unat (of_nat i - of_nat j :: u64) = (if j \<le> i then i - j else 2 ^ 64 + i - j)"
    by (simp add: unat_diff_word)
  thus ?thesis using assms unfolding mem_store_def d by auto
qed

lemma load32_at: "load32 (base + of_nat c) m = un32 (map (\<lambda>i. m (base + of_nat (c + i))) [0..<4])"
  by (simp add: load32_def mem_load_def add.assoc)

lemma load32_frame:
  assumes "\<And>i. c \<le> i \<Longrightarrow> i < c + 4 \<Longrightarrow> m' (base + of_nat i) = m (base + of_nat i)"
  shows "load32 (base + of_nat c) m' = load32 (base + of_nat c) m"
  unfolding load32_at by (intro arg_cong[where f = un32] map_cong refl) (rule assms; simp)

lemma load32_store32:
  assumes "c < 2 ^ 32"
  shows "load32 (base + of_nat c) (mem_store (base + of_nat c) (le32 v) m) = v"
proof -
  have "map (\<lambda>i. mem_store (base + of_nat c) (le32 v) m (base + of_nat (c + i))) [0..<4] = le32 v"
  proof (rule nth_equalityI)
    fix i assume "i < length (map (\<lambda>i. mem_store (base + of_nat c) (le32 v) m (base + of_nat (c + i))) [0..<4])"
    hence "i < 4" by simp
    thus "map (\<lambda>i. mem_store (base + of_nat c) (le32 v) m (base + of_nat (c + i))) [0..<4] ! i = le32 v ! i"
      using assms store_at[of "c + i" c "le32 v" base m] by simp
  qed simp
  thus ?thesis unfolding load32_at by simp
qed

lemma store32_frame:
  assumes "i < 2 ^ 40" "c < 2 ^ 32" "i < c \<or> c + 4 \<le> i"
  shows "mem_store (base + of_nat c) (le32 v) m (base + of_nat i) = m (base + of_nat i)"
  using assms store_at[of i c "le32 v" base m] by auto

section \<open>The queue in the ring\<close>

abbreviation ring_len :: "uk_venus_ring \<Rightarrow> nat" where
  "ring_len ring \<equiv> unat (ring_buf_size ring)"

text \<open>The byte of the data buffer at a stream position, and the shared tail.\<close>

definition ring_byte :: "uk_venus_ring \<Rightarrow> (u64 \<Rightarrow> u8) \<Rightarrow> nat \<Rightarrow> u8" where
  "ring_byte ring m i = m (ring_base ring + of_nat (192 + i mod ring_len ring))"

definition shared_tail :: "uk_venus_ring \<Rightarrow> (u64 \<Rightarrow> u8) \<Rightarrow> u32" where
  "shared_tail ring m = load32 (ring_base ring + UK_VENUS_RING_TAIL_OFFSET) m"

definition backlog :: "uk_venus_ring \<Rightarrow> (u64 \<Rightarrow> u8) \<Rightarrow> nat" where
  "backlog ring m = unat (ring_cur_tail ring - uk_venus_ring_load_head ring m)"

definition pending :: "uk_venus_ring \<Rightarrow> (u64 \<Rightarrow> u8) \<Rightarrow> u8 list" where
  "pending ring m =
    map (\<lambda>i. ring_byte ring m (unat (uk_venus_ring_load_head ring m) + i)) [0..<backlog ring m]"

definition ring_inv :: "uk_venus_ring \<Rightarrow> (u64 \<Rightarrow> u8) \<Rightarrow> bool" where
  "ring_inv ring m \<longleftrightarrow> ring_protocol_ready ring \<and> ring_base ring \<noteq> 0 \<and>
     (\<exists>k<32. ring_len ring = 2 ^ k) \<and> ring_buf_mask ring = ring_buf_size ring - 1 \<and>
     backlog ring m \<le> ring_len ring"

lemma ring_inv_len:
  assumes "ring_inv ring m"
  shows "0 < ring_len ring" "ring_len ring \<le> 2 ^ 31" "ring_len ring dvd 2 ^ 32"
proof -
  obtain k where k: "k < 32" "ring_len ring = 2 ^ k" using assms unfolding ring_inv_def by blast
  show "0 < ring_len ring" "ring_len ring \<le> 2 ^ 31" "ring_len ring dvd 2 ^ 32"
    using k power_increasing[of k 31 "2::nat"] le_imp_power_dvd[of k 32 "2::nat"] by simp_all
qed

lemma ring_inv_mask:
  assumes "ring_inv ring m" shows "unat (x AND ring_buf_mask ring) = unat x mod ring_len ring"
proof -
  obtain k where k: "k < 32" "ring_len ring = 2 ^ k" using assms unfolding ring_inv_def by blast
  have "ring_buf_size ring = 2 ^ k" using k unat_pow2_u32[of k] by (simp add: word_unat_eq_iff)
  hence "ring_buf_mask ring = mask k"
    using assms unfolding ring_inv_def by (simp add: mask_eq_exp_minus_1)
  thus ?thesis by (simp add: and_mask_nat k(2))
qed

lemma unat_add_mod:
  assumes "n dvd 2 ^ 32" shows "unat (x + of_nat i :: u32) mod n = (unat x + i) mod n"
proof -
  have "unat (x + of_nat i) = (unat x + i) mod 2 ^ 32"
    by (simp add: unat_word_ariths unat_of_nat take_bit_eq_mod mod_add_right_eq)
  thus ?thesis using assms by (simp add: mod_mod_cancel)
qed

text \<open>Two stream positions less than a buffer apart use different slots.\<close>

lemma slots_apart:
  fixes h n a b :: nat
  assumes "a < b" "b < a + n" shows "(h + a) mod n \<noteq> (h + b) mod n"
proof
  assume "(h + a) mod n = (h + b) mod n"
  hence "n dvd (h + b) - (h + a)" using assms(1) by (metis add_le_cancel_left less_imp_le mod_eq_dvd_iff_nat)
  thus False using assms by (auto dest: dvd_imp_le)
qed

lemma head_at: "uk_venus_ring_load_head ring m =
    (if ring_base ring = 0 \<or> \<not> ring_protocol_ready ring then 0 else load32 (ring_base ring + of_nat 0) m)"
  by (simp add: uk_venus_ring_load_head_def UK_VENUS_RING_HEAD_OFFSET_def)

section \<open>What a write stores\<close>

text \<open>The two copies of \<open>cmd_write\<close> with offsets in the naturals.\<close>

definition ring_copy :: "u64 \<Rightarrow> nat \<Rightarrow> nat \<Rightarrow> u8 list \<Rightarrow> (u64 \<Rightarrow> u8) \<Rightarrow> u64 \<Rightarrow> u8" where
  "ring_copy base n off bs m =
    (if off + length bs \<le> n then mem_store (base + of_nat (192 + off)) bs m
     else mem_store (base + of_nat 192) (drop (n - off) bs)
            (mem_store (base + of_nat (192 + off)) (take (n - off) bs) m))"

lemma ring_copy_in:
  assumes "off < n" "n \<le> 2 ^ 31" "length bs \<le> n" "j < length bs"
  shows "ring_copy base n off bs m (base + of_nat (192 + (off + j) mod n)) = bs ! j"
proof (cases "off + j < n")
  case True
  thus ?thesis
    using assms by (simp add: ring_copy_def store_at del: of_nat_add of_nat_numeral) auto
next
  case False
  then obtain q where q: "off + j = n + q" by (metis le_add_diff_inverse not_le)
  hence "(off + j) mod n = q" "q < length bs - (n - off)" "n - off + q = j" using assms by (auto simp: mod_if)
  thus ?thesis
    using False assms q by (simp add: ring_copy_def store_at del: of_nat_add of_nat_numeral) arith
qed

lemma ring_copy_out:
  assumes "off < n" "n \<le> 2 ^ 31" "length bs \<le> n" "i < 2 ^ 40"
    "\<And>j. j < length bs \<Longrightarrow> i \<noteq> 192 + (off + j) mod n"
  shows "ring_copy base n off bs m (base + of_nat i) = m (base + of_nat i)"
proof -
  have a: "\<not> (192 + off \<le> i \<and> i < 192 + off + length bs \<and> i < 192 + n)"
  proof
    assume *: "192 + off \<le> i \<and> i < 192 + off + length bs \<and> i < 192 + n"
    hence "i - 192 - off < length bs" "(off + (i - 192 - off)) mod n = i - 192" by auto
    thus False using assms(5)[of "i - 192 - off"] * by simp
  qed
  have b: "\<not> (192 \<le> i \<and> i < 192 + (off + length bs - n))"
  proof
    assume *: "192 \<le> i \<and> i < 192 + (off + length bs - n)"
    define j where "j = i - 192 + (n - off)"
    have j: "j < length bs" "off + j = i - 192 + n" "i - 192 < n" using * assms j_def by linarith+
    hence "(off + j) mod n = i - 192" by simp
    thus False using assms(5)[OF j(1)] * by simp
  qed
  show ?thesis
  proof (cases "off + length bs \<le> n")
    case True
    thus ?thesis using a assms by (simp add: ring_copy_def store_at del: of_nat_add of_nat_numeral) linarith
  next
    case False
    hence "\<not> (192 + off \<le> i \<and> i < 192 + off + length (take (n - off) bs))"
      "\<not> (192 \<le> i \<and> i < 192 + length (drop (n - off) bs))"
      using a b assms by auto
    thus ?thesis using False assms(1-4) by (simp add: ring_copy_def store_at del: of_nat_add of_nat_numeral) blast
  qed
qed

lemma cmd_write_eq:
  assumes inv: "ring_inv ring m" and bs: "length bs = unat len" "bs \<noteq> []"
  shows "uk_venus_ring_cmd_write ring (Some bs) len m =
    (if ring_len ring < backlog ring m + length bs then (Inl ENOSPC, ring, m)
     else (Inr (), ring\<lparr>ring_cur_tail := ring_cur_tail ring + len\<rparr>,
       ring_copy (ring_base ring) (ring_len ring) (unat (ring_cur_tail ring) mod ring_len ring) bs m))"
proof -
  note n = ring_inv_len[OF inv]
  let ?n = "ring_len ring" and ?T = "ring_cur_tail ring" and ?o = "unat (ring_cur_tail ring) mod ring_len ring"
  let ?off = "?T AND ring_buf_mask ring"
  have b: "backlog ring m \<le> ?n" and pr: "ring_protocol_ready ring" "ring_base ring \<noteq> 0"
    using inv unfolding ring_inv_def by auto
  have l0: "len \<noteq> 0" using bs by auto
  have off: "unat ?off = ?o" by (rule ring_inv_mask[OF inv])
  have olt: "?o < ?n" using n(1) by simp
  have av: "unat (ring_buf_size ring - (?T - uk_venus_ring_load_head ring m)) = ?n - backlog ring m"
    using b by (subst unat_sub) (simp_all add: backlog_def word_le_nat_alt)
  have full: "len > ring_buf_size ring - (?T - uk_venus_ring_load_head ring m) \<longleftrightarrow>
      ?n < backlog ring m + length bs"
    using b by (auto simp: word_less_nat_alt av bs(1))
  show ?thesis
  proof (cases "?n < backlog ring m + length bs")
    case True
    thus ?thesis using pr l0 full by (simp add: uk_venus_ring_cmd_write_def Let_def)
  next
    case False
    hence ln: "length bs \<le> ?n" by simp
    have sum: "unat (?off + len) = ?o + length bs"
      using n(2) olt ln bs(1) off by (subst unat_add_small) simp_all
    have fits: "?off + len \<le> ring_buf_size ring \<longleftrightarrow> ?o + length bs \<le> ?n"
      by (simp add: word_le_nat_alt sum)
    have f: "unat (ring_buf_size ring - ?off) = ?n - ?o"
      using olt by (subst unat_sub) (simp_all add: off word_le_nat_alt)
    have r: "unat (len - (ring_buf_size ring - ?off)) = length bs - (?n - ?o)" if "\<not> ?o + length bs \<le> ?n"
      using that by (subst unat_sub) (simp_all add: f bs(1) word_le_nat_alt)
    have "ucast ?off = (of_nat ?o :: u64)" by (metis of_nat_unat_u64 off unat_u32_u64)
    hence at: "ring_base ring + of_nat 192 + ucast ?off = ring_base ring + of_nat (192 + ?o)"
      "ring_base ring + UK_VENUS_RING_BUFFER_OFFSET = ring_base ring + of_nat 192"
      by (simp_all add: UK_VENUS_RING_BUFFER_OFFSET_def)
    have d: "take (length bs - (?n - ?o)) (drop (?n - ?o) bs) = drop (?n - ?o) bs" by simp
    have tk: "take (unat len) bs = bs" using bs(1) by simp
    show ?thesis
      using False full pr l0 fits r
      by (simp add: uk_venus_ring_cmd_write_def Let_def ring_copy_def at f d tk del: of_nat_add of_nat_numeral)
  qed
qed

lemma cmd_write_frame:
  assumes inv: "ring_inv ring m" and bs: "length bs = unat len" "bs \<noteq> []"
    and ok: "uk_venus_ring_cmd_write ring (Some bs) len m = (Inr (), ring', m')"
  shows "backlog ring m + length bs \<le> ring_len ring"
    "ring' = ring\<lparr>ring_cur_tail := ring_cur_tail ring + len\<rparr>"
    "m' = ring_copy (ring_base ring) (ring_len ring) (unat (ring_cur_tail ring) mod ring_len ring) bs m"
  using ok unfolding cmd_write_eq[OF inv bs] by (auto split: if_splits)

lemma control_frame:
  assumes inv: "ring_inv ring m" and "length bs \<le> ring_len ring" "c + 4 \<le> 192"
  shows "load32 (ring_base ring + of_nat c)
      (ring_copy (ring_base ring) (ring_len ring) (unat t mod ring_len ring) bs m) =
    load32 (ring_base ring + of_nat c) m"
  using ring_inv_len[OF inv] assms(2,3)
  by (intro load32_frame ring_copy_out) auto

lemma head_frame:
  "ring_protocol_ready ring' = ring_protocol_ready ring \<Longrightarrow> ring_base ring' = ring_base ring \<Longrightarrow>
   load32 (ring_base ring + of_nat 0) m' = load32 (ring_base ring + of_nat 0) m \<Longrightarrow>
   uk_venus_ring_load_head ring' m' = uk_venus_ring_load_head ring m"
  by (simp add: uk_venus_ring_load_head_def UK_VENUS_RING_HEAD_OFFSET_def)

lemma cmd_write_spec:
  assumes inv: "ring_inv ring m" and bs: "length bs = unat len" "bs \<noteq> []"
    and ok: "uk_venus_ring_cmd_write ring (Some bs) len m = (Inr (), ring', m')"
  shows "ring_inv ring' m'" "pending ring' m' = pending ring m @ bs"
    "uk_venus_ring_load_head ring' m' = uk_venus_ring_load_head ring m"
    "shared_tail ring' m' = shared_tail ring m" "backlog ring' m' = backlog ring m + length bs"
proof -
  note n = ring_inv_len[OF inv]
  note w = cmd_write_frame[OF inv bs ok]
  let ?n = "ring_len ring" and ?H = "uk_venus_ring_load_head ring m" and ?T = "ring_cur_tail ring"
  let ?o = "unat ?T mod ?n"
  have ln: "length bs \<le> ?n" using w(1) by simp
  have hd: "uk_venus_ring_load_head ring' m' = ?H"
    unfolding w(2,3) by (rule head_frame) (use control_frame[OF inv ln, of 0] in simp_all)
  have st: "shared_tail ring' m' = shared_tail ring m"
    using control_frame[OF inv ln, of 64] by (simp add: shared_tail_def w(2,3) UK_VENUS_RING_TAIL_OFFSET_def)
  have t: "?T + len - ?H = (?T - ?H) + len" by simp
  have bl: "backlog ring' m' = backlog ring m + length bs"
    unfolding backlog_def hd using w(1) n(2) bs(1)
    by (simp add: w(2) t backlog_def unat_add_small)
  have inv': "ring_inv ring' m'"
    using inv w(1) bl unfolding ring_inv_def by (simp add: w(2))
  have pos: "(unat ?H + (backlog ring m + j)) mod ?n = (?o + j) mod ?n" for j
  proof -
    have "?T = ?H + of_nat (backlog ring m)" by (simp add: backlog_def)
    hence "unat ?T mod ?n = (unat ?H + backlog ring m) mod ?n" by (metis n(3) unat_add_mod)
    thus ?thesis by (metis add.assoc mod_add_left_eq)
  qed
  have new: "ring_byte ring' m' (unat ?H + (backlog ring m + j)) = bs ! j" if "j < length bs" for j
    using ring_copy_in[of ?o ?n bs j "ring_base ring" m] n that ln
    by (simp add: ring_byte_def w(2,3) pos del: of_nat_add of_nat_numeral)
  have old: "ring_byte ring' m' (unat ?H + i) = ring_byte ring m (unat ?H + i)" if "i < backlog ring m" for i
  proof -
    have "192 + (unat ?H + i) mod ?n \<noteq> 192 + (?o + j) mod ?n" if j: "j < length bs" for j
      using slots_apart[of i "backlog ring m + j" ?n "unat ?H"] \<open>i < backlog ring m\<close> j w(1)
      by (simp add: pos)
    moreover have "192 + (unat ?H + i) mod ?n < 2 ^ 40"
      using mod_less_divisor[OF n(1), of "unat ?H + i"] n(2) by simp
    ultimately show ?thesis
      using ring_copy_out[of ?o ?n bs "192 + (unat ?H + i) mod ?n" "ring_base ring" m] n ln
      by (simp add: ring_byte_def w(2,3) del: of_nat_add of_nat_numeral)
  qed
  have "pending ring' m' = pending ring m @ bs"
  proof (rule nth_equalityI)
    show "length (pending ring' m') = length (pending ring m @ bs)" by (simp add: pending_def bl)
    fix i assume "i < length (pending ring' m')"
    hence i: "i < backlog ring m + length bs" by (simp add: pending_def bl)
    show "pending ring' m' ! i = (pending ring m @ bs) ! i"
    proof (cases "i < backlog ring m")
      case True
      thus ?thesis by (simp add: pending_def bl hd old nth_append)
    next
      case False
      then obtain j where "i = backlog ring m + j" "j < length bs" using i by (metis add_less_cancel_left le_Suc_ex not_le)
      thus ?thesis using new[of j] by (simp add: pending_def bl hd nth_append)
    qed
  qed
  with inv' hd st bl show "ring_inv ring' m'" "pending ring' m' = pending ring m @ bs"
    "uk_venus_ring_load_head ring' m' = uk_venus_ring_load_head ring m"
    "shared_tail ring' m' = shared_tail ring m" "backlog ring' m' = backlog ring m + length bs" by simp_all
qed

section \<open>Guest and host, interleaved\<close>

text \<open>The ring, the shared memory, and what the guest has written and the host has consumed so far.
  The guest writes and publishes at any time; the host reads up to the tail it sees, advances the
  head, and sets status flags.\<close>

record ring_world =
  w_ring :: uk_venus_ring
  w_mem :: "u64 \<Rightarrow> u8"
  w_written :: "u8 list"
  w_consumed :: "u8 list"

definition host_read :: "uk_venus_ring \<Rightarrow> (u64 \<Rightarrow> u8) \<Rightarrow> nat \<Rightarrow> u8 list" where
  "host_read ring m n =
    map (\<lambda>i. ring_byte ring m (unat (uk_venus_ring_load_head ring m) + i)) [0..<n]"

inductive ring_step :: "ring_world \<Rightarrow> ring_world \<Rightarrow> bool" where
  GuestWrite: "uk_venus_ring_cmd_write (w_ring w) (Some bs) len (w_mem w) = (Inr (), ring', m') \<Longrightarrow>
    length bs = unat len \<Longrightarrow> bs \<noteq> [] \<Longrightarrow>
    ring_step w (w\<lparr>w_ring := ring', w_mem := m', w_written := w_written w @ bs\<rparr>)"
| GuestRefused: "uk_venus_ring_cmd_write (w_ring w) dat len (w_mem w) = (Inl er, ring', m') \<Longrightarrow>
    ring_step w (w\<lparr>w_ring := ring', w_mem := m'\<rparr>)"
| GuestPublish: "ring_step w (w\<lparr>w_mem := ring_store_tail (w_ring w) (w_mem w)\<rparr>)"
| HostConsume: "n \<le> unat (shared_tail (w_ring w) (w_mem w) - uk_venus_ring_load_head (w_ring w) (w_mem w)) \<Longrightarrow>
    ring_step w (w\<lparr>w_mem := mem_store (ring_base (w_ring w) + UK_VENUS_RING_HEAD_OFFSET)
        (le32 (uk_venus_ring_load_head (w_ring w) (w_mem w) + of_nat n)) (w_mem w),
      w_consumed := w_consumed w @ host_read (w_ring w) (w_mem w) n\<rparr>)"
| HostStatus: "ring_step w (w\<lparr>w_mem := mem_store (ring_base (w_ring w) + UK_VENUS_RING_STATUS_OFFSET)
        (le32 v) (w_mem w)\<rparr>)"

definition world_inv :: "ring_world \<Rightarrow> bool" where
  "world_inv w \<longleftrightarrow> ring_inv (w_ring w) (w_mem w) \<and>
     w_written w = w_consumed w @ pending (w_ring w) (w_mem w) \<and>
     unat (shared_tail (w_ring w) (w_mem w) - uk_venus_ring_load_head (w_ring w) (w_mem w))
       \<le> backlog (w_ring w) (w_mem w)"

lemma control_store:
  assumes "ring_inv ring m" "c + 4 \<le> 192" "c' + 4 \<le> 192" "c + 4 \<le> c' \<or> c' + 4 \<le> c"
  shows "load32 (ring_base ring + of_nat c) (mem_store (ring_base ring + of_nat c') (le32 v) m) =
      load32 (ring_base ring + of_nat c) m"
    and "ring_byte ring (mem_store (ring_base ring + of_nat c') (le32 v) m) i = ring_byte ring m i"
proof -
  show "load32 (ring_base ring + of_nat c) (mem_store (ring_base ring + of_nat c') (le32 v) m) =
      load32 (ring_base ring + of_nat c) m"
    using assms by (intro load32_frame store32_frame) auto
  have "192 + i mod ring_len ring < 2 ^ 40"
    using mod_less_divisor[OF ring_inv_len(1)[OF assms(1)], of i] ring_inv_len(2)[OF assms(1)] by simp
  thus "ring_byte ring (mem_store (ring_base ring + of_nat c') (le32 v) m) i = ring_byte ring m i"
    unfolding ring_byte_def using assms(3) by (intro store32_frame) auto
qed

lemma inv_head: "ring_inv ring m \<Longrightarrow> uk_venus_ring_load_head ring m' = load32 (ring_base ring + of_nat 0) m'"
  unfolding ring_inv_def head_at by simp

lemma inv_tail: "shared_tail ring m = load32 (ring_base ring + of_nat 64) m"
  by (simp add: shared_tail_def UK_VENUS_RING_TAIL_OFFSET_def)

lemma publish_inv:
  assumes "world_inv w"
  shows "world_inv (w\<lparr>w_mem := ring_store_tail (w_ring w) (w_mem w)\<rparr>)"
proof -
  let ?r = "w_ring w" and ?m = "w_mem w"
  have inv: "ring_inv ?r ?m" using assms by (simp add: world_inv_def)
  have st: "ring_store_tail ?r ?m = mem_store (ring_base ?r + of_nat 64) (le32 (ring_cur_tail ?r)) ?m"
    by (simp add: ring_store_tail_def UK_VENUS_RING_TAIL_OFFSET_def)
  have hd: "uk_venus_ring_load_head ?r (ring_store_tail ?r ?m) = uk_venus_ring_load_head ?r ?m"
    unfolding inv_head[OF inv] st using control_store(1)[OF inv, of 0 64] by simp
  have tl: "shared_tail ?r (ring_store_tail ?r ?m) = ring_cur_tail ?r"
    unfolding inv_tail st by (rule load32_store32) simp
  have "ring_byte ?r (ring_store_tail ?r ?m) i = ring_byte ?r ?m i" for i
    unfolding st using control_store(2)[OF inv, of 0 64] by simp
  thus ?thesis
    using assms by (simp add: world_inv_def ring_inv_def backlog_def pending_def hd tl)
qed

lemma status_inv:
  assumes "world_inv w"
  shows "world_inv (w\<lparr>w_mem := mem_store (ring_base (w_ring w) + UK_VENUS_RING_STATUS_OFFSET) (le32 v) (w_mem w)\<rparr>)"
proof -
  let ?r = "w_ring w" and ?m = "w_mem w"
  have inv: "ring_inv ?r ?m" using assms by (simp add: world_inv_def)
  have st: "UK_VENUS_RING_STATUS_OFFSET = of_nat 128" by (simp add: UK_VENUS_RING_STATUS_OFFSET_def)
  let ?m' = "mem_store (ring_base ?r + UK_VENUS_RING_STATUS_OFFSET) (le32 v) ?m"
  have "uk_venus_ring_load_head ?r ?m' = uk_venus_ring_load_head ?r ?m"
    unfolding inv_head[OF inv] st using control_store(1)[OF inv, of 0 128] by simp
  moreover have "shared_tail ?r ?m' = shared_tail ?r ?m"
    unfolding inv_tail st using control_store(1)[OF inv, of 64 128] by simp
  moreover have "ring_byte ?r ?m' i = ring_byte ?r ?m i" for i
    unfolding st using control_store(2)[OF inv, of 0 128] by simp
  ultimately show ?thesis
    using assms by (simp add: world_inv_def ring_inv_def backlog_def pending_def)
qed

lemma consume_inv:
  assumes "world_inv w"
    "n \<le> unat (shared_tail (w_ring w) (w_mem w) - uk_venus_ring_load_head (w_ring w) (w_mem w))"
  shows "world_inv (w\<lparr>w_mem := mem_store (ring_base (w_ring w) + UK_VENUS_RING_HEAD_OFFSET)
        (le32 (uk_venus_ring_load_head (w_ring w) (w_mem w) + of_nat n)) (w_mem w),
      w_consumed := w_consumed w @ host_read (w_ring w) (w_mem w) n\<rparr>)"
proof -
  let ?r = "w_ring w" and ?m = "w_mem w"
  let ?H = "uk_venus_ring_load_head ?r ?m" and ?T = "ring_cur_tail ?r" and ?S = "shared_tail ?r ?m"
  let ?m' = "mem_store (ring_base ?r + UK_VENUS_RING_HEAD_OFFSET) (le32 (?H + of_nat n)) ?m"
  have inv: "ring_inv ?r ?m" using assms by (simp add: world_inv_def)
  have st: "UK_VENUS_RING_HEAD_OFFSET = of_nat 0" by (simp add: UK_VENUS_RING_HEAD_OFFSET_def)
  have hd: "uk_venus_ring_load_head ?r ?m' = ?H + of_nat n"
    unfolding st by (subst inv_head[OF inv], rule load32_store32) simp
  have tl: "shared_tail ?r ?m' = ?S"
    unfolding inv_tail st using control_store(1)[OF inv, of 64 0] by simp
  have byte: "ring_byte ?r ?m' i = ring_byte ?r ?m i" for i
    unfolding st using control_store(2)[OF inv, of 64 0] by simp
  have nb: "n \<le> backlog ?r ?m" using assms by (simp add: world_inv_def)
  have n32: "unat (of_nat n :: u32) = n"
    using nb unat_u32_less[of "?T - ?H"] by (simp add: backlog_def unat_of_nat take_bit_nat_eq_self)
  have sub: "unat (x - (?H + of_nat n)) = unat (x - ?H) - n" if "n \<le> unat (x - ?H)" for x
  proof -
    have "x - (?H + of_nat n) = (x - ?H) - of_nat n" by simp
    thus ?thesis using that by (simp only:) (simp add: unat_sub word_le_nat_alt n32)
  qed
  have bl: "backlog ?r ?m' = backlog ?r ?m - n"
    using nb by (simp add: backlog_def hd sub)
  have byte_mod: "ring_byte ?r ?m (unat (?H + of_nat n) + i) = ring_byte ?r ?m (unat ?H + (n + i))" for i
  proof -
    have "(unat (?H + of_nat n) + i) mod ring_len ?r = (unat (?H + of_nat n) mod ring_len ?r + i) mod ring_len ?r"
      by (simp only: mod_add_left_eq)
    also have "\<dots> = (unat ?H + (n + i)) mod ring_len ?r"
      by (simp only: unat_add_mod[OF ring_inv_len(3)[OF inv]] mod_add_left_eq add.assoc)
    finally show ?thesis by (simp only: ring_byte_def)
  qed
  have "pending ?r ?m = host_read ?r ?m n @ pending ?r ?m'"
  proof (rule nth_equalityI)
    show "length (pending ?r ?m) = length (host_read ?r ?m n @ pending ?r ?m')"
      using nb by (simp add: pending_def host_read_def bl)
    fix i assume "i < length (pending ?r ?m)"
    hence i: "i < backlog ?r ?m" by (simp add: pending_def)
    show "pending ?r ?m ! i = (host_read ?r ?m n @ pending ?r ?m') ! i"
    proof (cases "i < n")
      case False
      hence "i - n < backlog ?r ?m - n" "n + (i - n) = i" using i by linarith+
      thus ?thesis using False i by (simp add: pending_def host_read_def bl nth_append hd byte byte_mod)
    qed (use i in \<open>simp add: pending_def host_read_def bl nth_append\<close>)
  qed
  thus ?thesis
    using assms nb inv unfolding world_inv_def
    by (simp add: tl hd bl sub ring_inv_def diff_le_mono le_diff_conv trans_le_add1)
qed

lemma ring_step_inv: "ring_step w w' \<Longrightarrow> world_inv w \<Longrightarrow> world_inv w'"
proof (induction rule: ring_step.induct)
  case (GuestWrite w bs len ring' m')
  hence inv: "ring_inv (w_ring w) (w_mem w)" by (simp add: world_inv_def)
  note s = cmd_write_spec[OF inv GuestWrite.hyps(2,3,1)]
  show ?case using GuestWrite.prems s by (simp add: world_inv_def)
next
  case (GuestRefused w dat len er ring' m')
  hence "ring' = w_ring w" "m' = w_mem w"
    by (auto simp: uk_venus_ring_cmd_write_def Let_def split: if_splits option.splits)
  thus ?case using GuestRefused.prems by simp
qed (simp_all add: publish_inv status_inv consume_inv)

definition world_start :: "ring_world \<Rightarrow> bool" where
  "world_start w \<longleftrightarrow>
     ring_protocol_ready (w_ring w) \<and> ring_base (w_ring w) \<noteq> 0 \<and>
     (\<exists>k<32. ring_len (w_ring w) = 2 ^ k) \<and> ring_buf_mask (w_ring w) = ring_buf_size (w_ring w) - 1 \<and>
     ring_cur_tail (w_ring w) = 0 \<and> uk_venus_ring_load_head (w_ring w) (w_mem w) = 0 \<and>
     shared_tail (w_ring w) (w_mem w) = 0 \<and> w_written w = [] \<and> w_consumed w = []"

lemma world_start_inv: "world_start w \<Longrightarrow> world_inv w"
  by (simp add: world_start_def world_inv_def ring_inv_def backlog_def pending_def)

lemma ring_reach_inv: "ring_step\<^sup>*\<^sup>* w w' \<Longrightarrow> world_inv w \<Longrightarrow> world_inv w'"
  by (induction rule: rtranclp_induct) (auto intro: ring_step_inv)

section \<open>Properties of the ring\<close>

text \<open>C2 (refinement): however guest writes, publications and host reads interleave, the ring is a
  bounded byte queue: the host has consumed a prefix of what the guest wrote, the rest is in the
  ring in order and fits in the buffer, and head equals tail exactly when everything is consumed.\<close>

theorem ring_is_a_queue:
  assumes "world_start w0" "ring_step\<^sup>*\<^sup>* w0 w"
  shows "w_written w = w_consumed w @ pending (w_ring w) (w_mem w) \<and>
    length (pending (w_ring w) (w_mem w)) \<le> ring_len (w_ring w) \<and>
    (uk_venus_ring_load_head (w_ring w) (w_mem w) = ring_cur_tail (w_ring w) \<longleftrightarrow>
      w_written w = w_consumed w)"
proof -
  have "world_inv w" using ring_reach_inv[OF assms(2)] world_start_inv[OF assms(1)] by blast
  moreover have "backlog (w_ring w) (w_mem w) = 0 \<longleftrightarrow>
      uk_venus_ring_load_head (w_ring w) (w_mem w) = ring_cur_tail (w_ring w)"
    by (auto simp: backlog_def unat_eq_0)
  moreover have "length (pending (w_ring w) (w_mem w)) = backlog (w_ring w) (w_mem w)"
    by (simp add: pending_def)
  ultimately show ?thesis unfolding world_inv_def ring_inv_def by (metis append_Nil2 append_self_conv length_0_conv)
qed

definition demo_ring :: uk_venus_ring where
  "demo_ring = zero_ring\<lparr>ring_ctx := \<lparr> ctx_id = 1, ctx_capset_id = 4, ctx_created = True \<rparr>,
     ring_base := 4096, ring_size := 200, ring_ready := True, ring_buf_size := 8, ring_buf_mask := 7,
     ring_protocol_ready := True\<rparr>"

definition demo_world :: ring_world where
  "demo_world = \<lparr> w_ring = demo_ring, w_mem = (\<lambda>_. 0), w_written = [], w_consumed = [] \<rparr>"

lemma load32_zero [simp]: "load32 a (\<lambda>_. 0) = 0"
  by (simp add: load32_def mem_load_def upt_rec)

lemma demo_world_start: "world_start demo_world"
proof -
  have "(8::nat) = 2 ^ 3" by simp
  hence "\<exists>k<32. (8::nat) = 2 ^ k" by (intro exI[of _ 3]) simp
  thus ?thesis
    by (simp add: world_start_def demo_world_def demo_ring_def uk_venus_ring_load_head_def shared_tail_def
        zero_ring_def)
qed

lemma demo_ring_inv: "ring_inv demo_ring (\<lambda>_. 0)"
  using world_start_inv[OF demo_world_start] by (simp add: world_inv_def demo_world_def)

lemma demo_ring_len: "ring_len demo_ring = 8" "backlog demo_ring (\<lambda>_. 0) = 0"
  by (simp_all add: demo_ring_def backlog_def uk_venus_ring_load_head_def zero_ring_def)

theorem ring_is_a_queue_witness:
  "\<exists>w. ring_step\<^sup>*\<^sup>* demo_world w \<and> w_written w = [1, 2, 3] \<and>
    w_written w = w_consumed w @ pending (w_ring w) (w_mem w)"
proof -
  obtain r' m' where c: "uk_venus_ring_cmd_write demo_ring (Some [1, 2, 3]) 3 (\<lambda>_. 0) = (Inr (), r', m')"
    using cmd_write_eq[OF demo_ring_inv, of "[1, 2, 3]" 3] by (simp add: demo_ring_len)
  let ?w = "demo_world\<lparr>w_ring := r', w_mem := m', w_written := [1, 2, 3]\<rparr>"
  have "ring_step demo_world ?w"
    using GuestWrite[of demo_world "[1, 2, 3]" 3 r' m'] c by (simp add: demo_world_def)
  hence "ring_step\<^sup>*\<^sup>* demo_world ?w" by blast
  from ring_is_a_queue[OF demo_world_start this] this show ?thesis by (intro exI[of _ ?w]) simp
qed

text \<open>C29 (functional): a write is refused with ENOSPC, changing nothing, exactly when the buffer has no
  room for it; otherwise it appends the bytes to the queue, wrapping around the end of the buffer, and
  leaves the shared head and tail and all memory outside the data buffer alone.\<close>

theorem ring_write_exact:
  assumes "ring_inv ring m" "length bs = unat len" "bs \<noteq> []"
  shows "case uk_venus_ring_cmd_write ring (Some bs) len m of
      (Inl er, ring', m') \<Rightarrow> er = ENOSPC \<and> ring' = ring \<and> m' = m \<and>
        ring_len ring < length (pending ring m) + length bs
    | (Inr _, ring', m') \<Rightarrow> length (pending ring m) + length bs \<le> ring_len ring \<and>
        ring_inv ring' m' \<and> pending ring' m' = pending ring m @ bs \<and>
        uk_venus_ring_load_head ring' m' = uk_venus_ring_load_head ring m \<and>
        shared_tail ring' m' = shared_tail ring m \<and>
        (\<forall>i. i < 2 ^ 40 \<and> (i < 192 \<or> 192 + ring_len ring \<le> i) \<longrightarrow>
          m' (ring_base ring + of_nat i) = m (ring_base ring + of_nat i))"
proof (cases "ring_len ring < backlog ring m + length bs")
  case True
  thus ?thesis using assms by (simp add: cmd_write_eq pending_def)
next
  case False
  let ?m' = "ring_copy (ring_base ring) (ring_len ring) (unat (ring_cur_tail ring) mod ring_len ring) bs m"
  have ok: "uk_venus_ring_cmd_write ring (Some bs) len m =
      (Inr (), ring\<lparr>ring_cur_tail := ring_cur_tail ring + len\<rparr>, ?m')"
    using False by (simp add: cmd_write_eq[OF assms])
  note n = ring_inv_len[OF assms(1)]
  have "?m' (ring_base ring + of_nat i) = m (ring_base ring + of_nat i)"
    if "i < 2 ^ 40" "i < 192 \<or> 192 + ring_len ring \<le> i" for i
  proof (rule ring_copy_out)
    fix j show "i \<noteq> 192 + (unat (ring_cur_tail ring) mod ring_len ring + j) mod ring_len ring"
      using that(2) mod_less_divisor[OF n(1), of "unat (ring_cur_tail ring) mod ring_len ring + j"] by linarith
  qed (use n that False in auto)
  thus ?thesis
    using cmd_write_spec[OF assms ok] False by (simp add: ok pending_def)
qed

theorem ring_write_exact_witness:
  "fst (uk_venus_ring_cmd_write demo_ring (Some [1, 2, 3, 4, 5, 6, 7, 8, 9]) 9 (\<lambda>_. 0)) = Inl ENOSPC"
  using ring_write_exact[OF demo_ring_inv, of "[1, 2, 3, 4, 5, 6, 7, 8, 9]" 9]
  by (cases "uk_venus_ring_cmd_write demo_ring (Some [1, 2, 3, 4, 5, 6, 7, 8, 9]) 9 (\<lambda>_. 0)")
    (auto simp: demo_ring_def split: sum.splits)

end
