(* ===== verification/Venus_Ring_Api.thy ===== *)
theory Venus_Ring_Api
  imports Gpu_Steps Venus_Ring_Fifo
begin

text \<open>
  The ring's control operations: what they keep of the driver's invariant and of the ring's own
  layout, the commands they send, and when waiting for the host returns.
\<close>

section \<open>Driver calls of the ring operations\<close>

lemma blob_ops_within:
  "uk_virtio_gpu_gl_blob_create_with_ctx e c n m f i b s = Some (r, s') \<Longrightarrow> within (Suc k) s s'"
  "uk_virtio_gpu_gl_blob_map e bo s = Some (r2, b2, s') \<Longrightarrow> within (Suc k) s s'"
  "uk_virtio_gpu_gl_blob_unmap e bo s = Some (r2, b2, s') \<Longrightarrow> within (Suc k) s s'"
  "uk_virtio_gpu_gl_blob_destroy e bo s = Some (r2, b2, s') \<Longrightarrow> within (Suc k) s s'"
  by (auto intro!: within_call dest: blob_create_ok blob_map_quiet blob_unmap_quiet blob_destroy_quiet
      op_quiet_ok)

lemma ctx_ops_within:
  "uk_virtio_gpu_gl_context_create e cid nm out s = Some (rc, s') \<Longrightarrow> within (Suc k) s s'"
  "uk_virtio_gpu_gl_context_destroy e c s = Some (rc, s') \<Longrightarrow> within (Suc k) s s'"
  "uk_virtio_gpu_gl_context_attach_resource e c res s = Some (ru, s') \<Longrightarrow> within (Suc k) s s'"
  "uk_virtio_gpu_gl_context_detach_resource e c res s = Some (ru, s') \<Longrightarrow> within (Suc k) s s'"
  "uk_virtio_gpu_gl_context_submit e c cmd fe s = Some (ru, fo, s') \<Longrightarrow> within (Suc k) s s'"
  by (auto intro!: within_call dest: context_create_ok context_destroy_ok context_submit_ok ctx_resource_ok
      simp: uk_virtio_gpu_gl_context_attach_resource_def uk_virtio_gpu_gl_context_detach_resource_def)

lemmas gpu_within = blob_ops_within ctx_ops_within

lemma within_then: "within (Suc 0) s t \<Longrightarrow> within k t u \<Longrightarrow> within (Suc k) s u"
  using within_trans[of "Suc 0" s t k u] by simp

lemma err_blob_within: "ring_err_blob e b s = Some s' \<Longrightarrow> within (Suc k) s s'"
  by (auto simp: ring_err_blob_def intro: gpu_within)

lemma err_unmap_within: "ring_err_unmap e b s = Some s' \<Longrightarrow> within (Suc (Suc k)) s s'"
  by (auto simp: ring_err_unmap_def split: option.splits prod.splits
      intro: within_then gpu_within err_blob_within)

lemma map_common_within:
  assumes "ring_map_common e ring sz s = Some (r, s')"
  shows "within 4 s s'"
  using assms
  by (auto simp: ring_map_common_def Let_def numeral_eq_Suc split: option.splits prod.splits sum.splits if_splits
      intro: within_then gpu_within err_blob_within err_unmap_within)

lemma ring_create_on_ctx_within:
  assumes "uk_venus_ring_create_on_ctx e ring ctx sz bid s = Some (r, ring', s')"
  shows "within 5 s s'"
proof -
  have mc: "within 5 s u" if "within (Suc 0) s t" "ring_map_common e rg sz t = Some (x, u)" for t rg x u
    using within_then[OF that(1) map_common_within[OF that(2)]] by simp
  show ?thesis
    using assms
    by (auto simp: uk_venus_ring_create_on_ctx_def Let_def split: option.splits prod.splits sum.splits if_splits
        intro: mc[OF blob_ops_within(1)] within_mono[OF blob_ops_within(1)[where k = 0]])
qed

lemma within_chain:
  "within (Suc 0) s t \<Longrightarrow> within 7 s t"
  "within (Suc 0) s t \<Longrightarrow> within (Suc 0) t u \<Longrightarrow> within (Suc 0) u v \<Longrightarrow> within 7 s v"
  "within (Suc 0) s t \<Longrightarrow> within (Suc 0) t u \<Longrightarrow> within 4 u v \<Longrightarrow> within 7 s v"
  "within (Suc 0) s t \<Longrightarrow> within (Suc 0) t u \<Longrightarrow> within 4 u v \<Longrightarrow> within (Suc 0) v w \<Longrightarrow> within 7 s w"
  using within_trans[of "Suc 0" s t "Suc 0" u] within_trans[of 2 s u "Suc 0" v] within_trans[of 2 s u 4 v]
    within_trans[of 6 s v "Suc 0" w] within_mono[of _ s _ 7]
  by (simp_all add: numeral_eq_Suc)

lemmas gpu_within_0 = gpu_within[where k = 0]

lemma ring_create_within:
  assumes "uk_venus_ring_create e ring sz bid s = Some (r, ring', s')"
  shows "within 7 s s'"
  using assms
  by (auto simp: uk_venus_ring_create_def Let_def
      dest!: ctx_ops_within(1,2)[where k = 0] blob_ops_within(1)[where k = 0] map_common_within
      intro: within_chain split: option.splits prod.splits sum.splits if_splits)

lemma within_chain4:
  "within (Suc 0) s t \<Longrightarrow> within 7 s t"
  "within (Suc 0) s t \<Longrightarrow> within (Suc 0) t u \<Longrightarrow> within 7 s u"
  "within (Suc 0) s t \<Longrightarrow> within (Suc 0) t u \<Longrightarrow> within (Suc 0) u v \<Longrightarrow> within 7 s v"
  "within (Suc 0) s t \<Longrightarrow> within (Suc 0) t u \<Longrightarrow> within (Suc 0) u v \<Longrightarrow> within (Suc 0) v w \<Longrightarrow> within 7 s w"
  using within_trans[of "Suc 0" s t "Suc 0" u] within_trans[of 2 s u "Suc 0" v] within_trans[of 3 s v "Suc 0" w]
    within_mono[of _ s _ 7]
  by (simp_all add: numeral_eq_Suc)

lemma ring_destroy_within:
  assumes "uk_venus_ring_destroy e ring s = Some (ring', s')"
  shows "within 7 s s'" "ring' = zero_ring"
proof -
  show "ring' = zero_ring" using assms by (auto simp: uk_venus_ring_destroy_def Let_def bind_Some_iff)
  show "within 7 s s'"
    using assms
    by (auto simp: uk_venus_ring_destroy_def Let_def bind_Some_iff
        dest!: ctx_ops_within(2,4)[where k = 0] blob_ops_within(3,4)[where k = 0]
        intro: within_chain4 split: if_splits)
qed

lemma submit_within_1:
  "uk_virtio_gpu_gl_context_submit e c cmd fe s = Some (ru, fo, s') \<Longrightarrow> within 7 s s'"
  "uk_virtio_gpu_gl_context_submit e c cmd fe (s\<lparr>host := h\<rparr>) = Some (ru, fo, s') \<Longrightarrow> within 7 s s'"
proof -
  show *: "uk_virtio_gpu_gl_context_submit e c cmd fe s = Some (ru, fo, s') \<Longrightarrow> within 7 s s'" for s
    using ctx_ops_within(5)[where k = 6] by (simp add: numeral_eq_Suc)
  show "uk_virtio_gpu_gl_context_submit e c cmd fe (s\<lparr>host := h\<rparr>) = Some (ru, fo, s') \<Longrightarrow> within 7 s s'"
    by (rule within_host_first[OF *])
qed

lemma ring_submit_within:
  "uk_venus_ring_submit e ring enc s = Some (r, ring', s') \<Longrightarrow> within 7 s s'"
  by (auto simp: uk_venus_ring_submit_def Let_def split: option.splits prod.splits sum.splits if_splits
      intro: submit_within_1)

lemma ring_register_within:
  "uk_venus_ring_register e ring rid s = Some (ru, ring', s') \<Longrightarrow> within 7 s s'"
  by (auto simp: uk_venus_ring_register_def Let_def split: option.splits prod.splits sum.splits if_splits
      intro: submit_within_1)

lemma ring_unregister_within:
  "uk_venus_ring_unregister e ring s = Some (ru, ring', s') \<Longrightarrow> within 7 s s'"
  by (auto simp: uk_venus_ring_unregister_def Let_def split: option.splits prod.splits sum.splits if_splits
      intro: submit_within_1)

lemma ring_flush_within:
  "uk_venus_ring_cmd_flush e ring s = Some (ru, s') \<Longrightarrow> within 7 s s'"
  by (auto simp: uk_venus_ring_cmd_flush_def Let_def split: option.splits prod.splits sum.splits if_splits
      intro: submit_within_1)

section \<open>The layout of a ring\<close>

definition vring_wf :: "uk_venus_ring \<Rightarrow> bool" where
  "vring_wf ring \<longleftrightarrow>
     (if ring_ready ring
      then ring_base ring \<noteq> 0 \<and> ring_base ring = blob_mapped_addr (ring_blob ring) \<and>
        ring_size ring \<le> blob_mapped_size (ring_blob ring) \<and> ring_write_pos ring \<le> ring_size ring
      else \<not> ring_protocol_ready ring) \<and>
     (if ring_protocol_ready ring
      then (\<exists>k<32. ring_len ring = 2 ^ k) \<and> ring_buf_mask ring = ring_buf_size ring - 1 \<and>
        192 + ring_len ring \<le> unat (ring_size ring)
      else True)"

lemma zero_ring_wf [simp]: "vring_wf zero_ring"
  by (simp add: vring_wf_def zero_ring_def)

lemma map_common_wf:
  "ring_map_common e ring sz s = Some (Inr ring', s') \<Longrightarrow> \<not> ring_protocol_ready ring \<Longrightarrow> vring_wf ring'"
  by (auto simp: ring_map_common_def Let_def vring_wf_def not_less
      split: option.splits prod.splits sum.splits if_splits)

lemma create_wf:
  "uk_venus_ring_create e ring sz bid s = Some (r, ring', s') \<Longrightarrow> vring_wf ring \<Longrightarrow> vring_wf ring'"
  "uk_venus_ring_create_on_ctx e ring ctx sz bid s = Some (r, ring', s') \<Longrightarrow> vring_wf ring \<Longrightarrow> vring_wf ring'"
  by (auto simp: uk_venus_ring_create_def uk_venus_ring_create_on_ctx_def Let_def zero_ring_def
      dest: map_common_wf split: option.splits prod.splits sum.splits if_splits)
    (simp_all add: vring_wf_def)

lemma ring_write_wf:
  assumes "uk_venus_ring_write ring dat m = (r, ring', m')" "vring_wf ring"
  shows "vring_wf ring'"
proof -
  have add: "unat (a + b) = unat a + unat b \<and> a + b \<le> c" if "b \<le> c - a" "a \<le> c" for a b c :: u64
  proof -
    have "unat (c - a) = unat c - unat a" using that(2) by (rule unat_sub)
    hence "unat a + unat b \<le> unat c" using that by (simp add: word_le_nat_alt)
    moreover have "unat c < 2 ^ 64" using unsigned_less[of c] by simp
    ultimately show ?thesis by (simp add: unat_word_ariths word_le_nat_alt)
  qed
  show ?thesis
    using assms add[of _ "ring_size ring" "ring_write_pos ring"]
    by (auto simp: uk_venus_ring_write_def Let_def vring_wf_def not_less
        split: option.splits if_splits)
qed

lemma wf_counter: "vring_wf ring \<Longrightarrow> vring_wf (ring\<lparr>ring_commands_submitted := n\<rparr>)"
  by (auto simp: vring_wf_def)

lemma ring_submit_wf:
  "uk_venus_ring_submit e ring enc s = Some (r, ring', s') \<Longrightarrow> vring_wf ring \<Longrightarrow> vring_wf ring'"
  by (auto simp: uk_venus_ring_submit_def Let_def split: option.splits prod.splits sum.splits if_splits
      dest!: ring_write_wf intro: wf_counter)

lemma ring_cmd_write_wf:
  "uk_venus_ring_cmd_write ring dat len m = (r, ring', m') \<Longrightarrow> vring_wf ring \<Longrightarrow> vring_wf ring'"
  by (auto simp: uk_venus_ring_cmd_write_def Let_def vring_wf_def split: option.splits if_splits)

lemma ring_unregister_wf:
  "uk_venus_ring_unregister e ring s = Some (ru, ring', s') \<Longrightarrow> vring_wf ring \<Longrightarrow> vring_wf ring'"
  by (auto simp: uk_venus_ring_unregister_def Let_def vring_wf_def split: option.splits sum.splits if_splits)

lemma registered_fits:
  fixes sz :: u64
  assumes "192 < sz" "venus_prev_pow2 (ucast (sz - 192)) \<noteq> 0"
  shows "(\<exists>k<32. unat (venus_prev_pow2 (ucast (sz - 192))) = 2 ^ k) \<and>
    192 + unat (venus_prev_pow2 (ucast (sz - 192))) \<le> unat sz"
proof -
  let ?n = "ucast (sz - 192) :: u32"
  have "?n \<noteq> 0" using assms(2) by (auto simp: venus_prev_pow2_def)
  then obtain k where k: "k < 32" "unat (venus_prev_pow2 ?n) = 2 ^ k" "2 ^ k \<le> unat ?n"
    using prev_pow2 by blast
  have "unat ?n \<le> unat (sz - 192)" by (simp add: unsigned_ucast_eq take_bit_eq_mod)
  moreover have "unat (sz - 192) = unat sz - 192" using assms(1) by (subst unat_sub) simp_all
  moreover have "192 \<le> unat sz" using assms(1) by (simp add: word_less_nat_alt)
  ultimately show ?thesis using k by auto
qed

lemma ring_register_wf:
  "uk_venus_ring_register e ring rid s = Some (ru, ring', s') \<Longrightarrow> vring_wf ring \<Longrightarrow> vring_wf ring'"
  using registered_fits[of "ring_size ring"]
  by (auto simp: uk_venus_ring_register_def Let_def vring_wf_def UK_VENUS_RING_CTRL_SIZE_def not_le
      split: option.splits prod.splits sum.splits if_splits)

section \<open>Sequences of ring calls\<close>

text \<open>Every ring operation, with the arguments of the caller; \<open>HostRuns\<close> is the host changing the
  platform and the shared memory in between.\<close>

datatype 'h ring_call =
    RingCreate u64 u64
  | RingCreateOnCtx "uk_virtio_gpu_context option" u64 u64
  | RingDestroy
  | RingWrite "u8 list option"
  | RingSubmit "uk_venus_encoder option"
  | RingRegister u64
  | RingUnregister
  | RingCmdWrite "u8 list option" u32
  | RingCmdFlush
  | HostRuns "'h machine"

fun ring_do :: "'h machine env \<Rightarrow> 'h ring_call \<Rightarrow> uk_venus_ring \<Rightarrow> 'h machine sys
    \<Rightarrow> (uk_venus_ring \<times> 'h machine sys) option" where
  "ring_do e (RingCreate sz bid) ring s = map_option snd (uk_venus_ring_create e ring sz bid s)"
| "ring_do e (RingCreateOnCtx c sz bid) ring s =
    map_option snd (uk_venus_ring_create_on_ctx e ring c sz bid s)"
| "ring_do e RingDestroy ring s = uk_venus_ring_destroy e ring s"
| "ring_do e (RingWrite dat) ring s =
    (case uk_venus_ring_write ring dat (shm (host s)) of (_, ring, m) \<Rightarrow> Some (ring, with_shm (\<lambda>_. m) s))"
| "ring_do e (RingSubmit enc) ring s = map_option snd (uk_venus_ring_submit e ring enc s)"
| "ring_do e (RingRegister rid) ring s = map_option snd (uk_venus_ring_register e ring rid s)"
| "ring_do e RingUnregister ring s = map_option snd (uk_venus_ring_unregister e ring s)"
| "ring_do e (RingCmdWrite dat len) ring s =
    (case uk_venus_ring_cmd_write ring dat len (shm (host s)) of
       (_, ring, m) \<Rightarrow> Some (ring, with_shm (\<lambda>_. m) s))"
| "ring_do e RingCmdFlush ring s = map_option (\<lambda>(_, s). (ring, s)) (uk_venus_ring_cmd_flush e ring s)"
| "ring_do e (HostRuns h) ring s = Some (ring, s\<lparr>host := h\<rparr>)"

fun ring_run :: "'h machine env \<Rightarrow> 'h ring_call list \<Rightarrow> uk_venus_ring \<Rightarrow> 'h machine sys
    \<Rightarrow> (uk_venus_ring \<times> 'h machine sys) option" where
  "ring_run e [] ring s = Some (ring, s)"
| "ring_run e (c # cs) ring s =
    (case ring_do e c ring s of None \<Rightarrow> None | Some (ring, s) \<Rightarrow> ring_run e cs ring s)"

lemma ring_do_step:
  assumes "ring_do e c ring s = Some (ring', s')" "vring_wf ring"
  shows "within 7 s s' \<and> vring_wf ring'"
proof (cases c)
  case (RingCreateOnCtx x sz bid)
  thus ?thesis
    using assms ring_create_on_ctx_within[of e ring x sz bid s] within_mono[of 5 s s' 7]
    by (auto dest: create_wf(2))
qed (use assms in \<open>auto dest: ring_create_within ring_destroy_within ring_submit_within
    ring_register_within ring_unregister_within ring_flush_within create_wf(1) ring_write_wf
    ring_submit_wf ring_register_wf ring_unregister_wf ring_cmd_write_wf split: prod.splits\<close>)

text \<open>C19 (invariant): any sequence of ring operations, with any arguments, in any order and with any
  behaviour of the host in between, keeps the driver's invariant and the layout of the ring: a ready
  ring lies inside its mapped blob and its write position inside the ring, and a registered ring has a
  power-of-two buffer that fits behind the control fields.\<close>

theorem ring_calls_keep_layout:
  assumes "ring_run e calls ring s = Some (ring', s')" "vring_wf ring"
    and "dev_inv (vg s)" "counters_below n (vg s)" "n + 7 * length calls < 2 ^ 32"
  shows "vring_wf ring' \<and> dev_inv (vg s') \<and> g_ctrlq_lock s' = g_ctrlq_lock s"
  using assms
proof (induction calls arbitrary: ring s n)
  case (Cons c cs)
  then obtain r1 s1 where s1: "ring_do e c ring s = Some (r1, s1)" and
    rest: "ring_run e cs r1 s1 = Some (ring', s')" by (auto split: option.splits)
  from ring_do_step[OF s1 Cons.prems(2)] have w: "within 7 s s1" "vring_wf r1" by auto
  have "n + 7 < 2 ^ 32" using Cons.prems(5) by simp
  from within_inv[OF w(1) Cons.prems(3,4) this]
  have "dev_inv (vg s1)" "counters_below (n + 7) (vg s1)" "g_ctrlq_lock s1 = g_ctrlq_lock s" by auto
  with Cons.IH[OF rest w(2)] Cons.prems(5) show ?case by simp
qed simp

section \<open>The commands on the control queue\<close>

lemma stack_encoded:
  assumes "n \<noteq> 0" "n \<le> 2 ^ 62" "\<forall>c\<in>set cs. small_bytes c" "length (concat cs) \<le> n"
  obtains e0 where "uk_venus_encoder_init (stack_buf n) (of_nat n) = Inr e0"
    "\<not> ve_overflow (vs.puts cs e0)" "encoded (vs.puts cs e0) = concat cs"
proof -
  define e0 where "e0 = \<lparr> ve_buf = replicate n (0 :: u8), ve_cap = of_nat n, ve_pos = 0, ve_overflow = False \<rparr>"
  have n: "unat (of_nat n :: u64) = n" using assms(2) by (intro unat_of_nat_u64) simp
  have n0: "(of_nat n :: u64) \<noteq> 0" using n assms(1) by (metis unat_0)
  have "uk_venus_encoder_init (stack_buf n) (of_nat n) = Inr e0"
    using n0 by (simp add: uk_venus_encoder_init_def stack_buf_def e0_def)
  moreover have "ve_wf e0" "\<not> ve_overflow e0" "ve_room e0 = n" "ve_content e0 = []"
    using n assms(2) by (simp_all add: e0_def ve_wf_def ve_room_def ve_content_def)
  with vs.puts_fits[of e0 cs] assms(3,4)
  have "\<not> ve_overflow (vs.puts cs e0)" "ve_content (vs.puts cs e0) = concat cs" by simp_all
  ultimately show ?thesis using that by (simp add: encoded_def ve_content_def)
qed

lemma small_ring_cmds:
  "\<forall>c\<in>set (venus_wire H (CreateRing r res bs buf)). small_bytes c"
  "\<forall>c\<in>set (venus_wire H (DestroyRing r)). small_bytes c"
  "\<forall>c\<in>set (venus_wire H (NotifyRing r sq)). small_bytes c"
  by simp_all

lemma length_ring_cmds:
  "length (concat (venus_wire H (CreateRing r res bs buf))) = 124"
  "length (concat (venus_wire H (DestroyRing r))) = 16"
  "length (concat (venus_wire H (NotifyRing r sq))) = 24"
  by simp_all

definition ring_zeroed :: "uk_venus_ring \<Rightarrow> (u64 \<Rightarrow> u8) \<Rightarrow> u64 \<Rightarrow> u8" where
  "ring_zeroed ring m = mem_store (ring_base ring + 128) (le32 0)
     (mem_store (ring_base ring + 64) (le32 0) (mem_store (ring_base ring) (le32 0) m))"

lemma sent_64:
  assumes "\<forall>c\<in>set cs. small_bytes c" "length (concat cs) \<le> 64"
  obtains e0 where "uk_venus_encoder_init (stack_buf 64) 64 = Inr e0"
    "\<not> ve_overflow (vs.puts cs e0)" "encoded (vs.puts cs e0) = concat cs"
  using stack_encoded[of 64 cs] assms by auto

lemma sent_256:
  assumes "\<forall>c\<in>set cs. small_bytes c" "length (concat cs) \<le> 256"
  obtains e0 where "uk_venus_encoder_init (stack_buf 256) 256 = Inr e0"
    "\<not> ve_overflow (vs.puts cs e0)" "encoded (vs.puts cs e0) = concat cs"
  using stack_encoded[of 256 cs] assms by auto

lemmas ring_cmd_puts = ring_wire[unfolded venus_encode.simps]

lemma flush_eq:
  "uk_venus_ring_cmd_flush e ring s =
    (if ring_protocol_ready ring \<and> ring_base ring \<noteq> 0
     then map_option (\<lambda>(r, _, s). (r, s))
       (uk_virtio_gpu_gl_context_submit e (Some (ring_ctx ring))
         (Some (concat (venus_wire H (NotifyRing (ring_id ring) (ring_cur_tail ring))))) True
         (with_shm (ring_store_tail ring) s))
     else Some (Inl EINVAL, s))"
proof -
  obtain e0 where "uk_venus_encoder_init (stack_buf 64) 64 = Inr e0"
    "\<not> ve_overflow (vs.puts (venus_wire H (NotifyRing (ring_id ring) (ring_cur_tail ring))) e0)"
    "encoded (vs.puts (venus_wire H (NotifyRing (ring_id ring) (ring_cur_tail ring))) e0) =
      concat (venus_wire H (NotifyRing (ring_id ring) (ring_cur_tail ring)))"
    by (rule sent_64[OF small_ring_cmds(3)]) (simp_all only: length_ring_cmds, simp)
  thus ?thesis
    by (auto simp: uk_venus_ring_cmd_flush_def ring_cmd_puts(3)[of _ _ _ H] Let_def simp del: venus_wire.simps)
qed

lemma unregister_eq:
  "uk_venus_ring_unregister e ring s =
    (if \<not> ring_protocol_ready ring then Some (Inr (), ring, s)
     else map_option (\<lambda>(_, _, s). (Inr (), ring\<lparr>ring_protocol_ready := False, ring_id := 0,
         ring_buf_size := 0, ring_buf_mask := 0, ring_cur_tail := 0\<rparr>, s))
       (uk_virtio_gpu_gl_context_submit e (Some (ring_ctx ring))
         (Some (concat (venus_wire H (DestroyRing (ring_id ring))))) True s))"
proof -
  obtain e0 where "uk_venus_encoder_init (stack_buf 64) 64 = Inr e0"
    "\<not> ve_overflow (vs.puts (venus_wire H (DestroyRing (ring_id ring))) e0)"
    "encoded (vs.puts (venus_wire H (DestroyRing (ring_id ring))) e0) =
      concat (venus_wire H (DestroyRing (ring_id ring)))"
    by (rule sent_64[OF small_ring_cmds(2)]) (simp_all only: length_ring_cmds, simp)
  thus ?thesis
    by (simp only: uk_venus_ring_unregister_def ring_cmd_puts(2)[of _ _ H] Let_def sum.case if_False)
qed

lemma register_eq:
  "uk_venus_ring_register e ring rid s =
    (let buf = venus_prev_pow2 (ucast (ring_size ring - 192)) in
     if ring_ready ring \<and> ctx_created (ring_ctx ring) \<and> ring_base ring \<noteq> 0 \<and>
        \<not> ring_protocol_ready ring \<and> 192 < ring_size ring \<and> buf \<noteq> 0
     then map_option (\<lambda>(r, _, s). case r of
           Inl er \<Rightarrow> (Inl er, ring, s)
         | Inr _ \<Rightarrow> (Inr (), ring\<lparr>ring_id := rid, ring_buf_size := buf, ring_buf_mask := buf - 1,
             ring_cur_tail := 0, ring_protocol_ready := True\<rparr>, s))
       (uk_virtio_gpu_gl_context_submit e (Some (ring_ctx ring))
         (Some (concat (venus_wire H (CreateRing rid (blob_resource_id (ring_blob ring))
           (ring_size ring) (ucast buf))))) True (with_shm (ring_zeroed ring) s))
     else Some (Inl EINVAL, ring, s))"
proof -
  define buf where "buf = venus_prev_pow2 (ucast (ring_size ring - 192))"
  define w where "w = venus_wire H (CreateRing rid (blob_resource_id (ring_blob ring)) (ring_size ring) (ucast buf))"
  obtain e0 where "uk_venus_encoder_init (stack_buf 256) 256 = Inr e0"
    "\<not> ve_overflow (vs.puts w e0)" "encoded (vs.puts w e0) = concat w"
    unfolding w_def by (rule sent_256[OF small_ring_cmds(1)]) (simp_all only: length_ring_cmds, simp)
  thus ?thesis
    by (auto simp: uk_venus_ring_register_def ring_cmd_puts(1)[of _ _ _ _ _ H] Let_def venus_consts
        ring_zeroed_def buf_def[symmetric] w_def[symmetric] simp del: venus_wire.simps
        split: option.splits sum.splits)
qed

text \<open>The control operations of the ring never run out of their stack buffers and send
  exactly one command each.  A flush publishes the tail before it notifies the host with it;
  registering clears the control fields before it announces a buffer of the largest power of two that
  fits; unregistering resets the ring whether or not the host acknowledged.\<close>

theorem ring_control_commands:
  "ring_store_tail ring = mem_store (ring_base ring + 64) (le32 (ring_cur_tail ring)) \<and>
   uk_venus_ring_cmd_flush e ring s =
    (if ring_protocol_ready ring \<and> ring_base ring \<noteq> 0
     then map_option (\<lambda>(r, _, s). (r, s))
       (uk_virtio_gpu_gl_context_submit e (Some (ring_ctx ring))
         (Some (concat (venus_wire H (NotifyRing (ring_id ring) (ring_cur_tail ring))))) True
         (with_shm (ring_store_tail ring) s))
     else Some (Inl EINVAL, s)) \<and>
   uk_venus_ring_unregister e' ring t =
    (if \<not> ring_protocol_ready ring then Some (Inr (), ring, t)
     else map_option (\<lambda>(_, _, t). (Inr (), ring\<lparr>ring_protocol_ready := False, ring_id := 0,
         ring_buf_size := 0, ring_buf_mask := 0, ring_cur_tail := 0\<rparr>, t))
       (uk_virtio_gpu_gl_context_submit e' (Some (ring_ctx ring))
         (Some (concat (venus_wire H (DestroyRing (ring_id ring))))) True t)) \<and>
   uk_venus_ring_register e ring rid s =
    (let buf = venus_prev_pow2 (ucast (ring_size ring - 192)) in
     if ring_ready ring \<and> ctx_created (ring_ctx ring) \<and> ring_base ring \<noteq> 0 \<and>
        \<not> ring_protocol_ready ring \<and> 192 < ring_size ring \<and> buf \<noteq> 0
     then map_option (\<lambda>(r, _, s). case r of
           Inl er \<Rightarrow> (Inl er, ring, s)
         | Inr _ \<Rightarrow> (Inr (), ring\<lparr>ring_id := rid, ring_buf_size := buf, ring_buf_mask := buf - 1,
             ring_cur_tail := 0, ring_protocol_ready := True\<rparr>, s))
       (uk_virtio_gpu_gl_context_submit e (Some (ring_ctx ring))
         (Some (concat (venus_wire H (CreateRing rid (blob_resource_id (ring_blob ring))
           (ring_size ring) (ucast buf))))) True (with_shm (ring_zeroed ring) s))
     else Some (Inl EINVAL, ring, s))"
  by (intro conjI flush_eq unregister_eq register_eq)
    (rule ext, simp add: ring_store_tail_def UK_VENUS_RING_TAIL_OFFSET_def)

section \<open>A ring on a host that answers\<close>

definition answering_machine :: "u8 list machine env" where
  "answering_machine = \<lparr> env_sg_append = (\<lambda>_ _ h. (None, h)),
     env_vq_enqueue = (\<lambda>req _ h. (None, h\<lparr>link := req\<rparr>)), env_vq_notify = (\<lambda>h. h),
     env_vq_dequeue = (\<lambda>h. (VqDone True 24 (le32 (ok_reply (un32 (link h))) @ drop 4 (take 24 (link h))), h)),
     env_now_ns = (\<lambda>h. (0, h)), env_malloc = (\<lambda>_ h. (True, h)), env_free = (\<lambda>h. h) \<rparr>"

lemma machine_answered:
  assumes "ctrlq (vg s)" "24 \<le> n" "ok_reply (hdr_type h) = ex" "gpu_resp_errno ex = None"
  shows "cmd_submit answering_machine (enc_ctrl_hdr h @ rest) n ex f s =
    Some (Inr (answer (enc_ctrl_hdr h @ rest) n),
      s\<lparr>vg := echo_fence h f (vg s), host := (host s)\<lparr>link := enc_ctrl_hdr h @ rest\<rparr>\<rparr>)"
proof -
  let ?req = "enc_ctrl_hdr h @ rest"
  have ne: "?req \<noteq> []" "n \<noteq> 0"
    using length_enc_ctrl_hdr[of h] assms(2) by (auto simp del: length_enc_ctrl_hdr)
  have sub: "cmd_submit answering_machine ?req n ex f s =
    (if \<not> ctrlq (vg s) \<or> ?req = [] \<or> n = 0 then Some (Inl EINVAL, s)
     else case cmd_response (un32 ?req) True 24 (answer ?req n) ex f (vg s) of
       (r, d) \<Rightarrow> Some (r, s\<lparr>vg := d, host := (host s)\<lparr>link := ?req\<rparr>\<rparr>))"
    by (simp add: cmd_submit_def cmd_submit_locked_def answering_machine_def Let_def answer_def
        dequeue_spin.simps split: prod.splits)
  have "dec_ctrl_hdr (answer ?req n) = h\<lparr>hdr_type := ex\<rparr>"
    using echoed_header[OF assms(2)] assms(3) by (simp only: answer_def un32_enc_ctrl_hdr)
  from cmd_response_echo[OF this assms(4)] show ?thesis
    using assms(1) ne by (simp only: sub if_False not_True_eq_False disj_not1 simp_thms prod.case)
qed

lemma machine_heap [simp]:
  "env_malloc answering_machine n h = (True, h)" "env_free answering_machine h = h"
  by (simp_all add: answering_machine_def)

lemma ok_reply_submit: "ok_reply CMD_SUBMIT_3D = RESP_OK_NODATA"
  by (simp add: ok_reply_def proto_consts)

lemma machine_submit:
  assumes "ctrlq (vg s)" "find_ctx (vg s) (ctx_id c) = Some i" "bytes \<noteq> []" "length bytes < 2 ^ 32"
  shows "\<exists>f s'. uk_virtio_gpu_gl_context_submit answering_machine (Some c) (Some bytes) True s =
      Some (Inr (), f, s') \<and> shm (host s') = shm (host s) \<and> ctrlq (vg s') \<and>
      find_ctx (vg s') (ctx_id c) = Some i"
proof -
  have fc: "find_ctx (d\<lparr>next_fence := k\<rparr>) n = find_ctx d n" for d k n by simp
  have ec: "ctrlq (echo_fence h f d) = ctrlq d" "find_ctx (echo_fence h f d) n = find_ctx d n" for h f d n
    by (simp_all add: echo_fence_def split: option.splits)
  show ?thesis
    using assms
    by (simp add: uk_virtio_gpu_gl_context_submit_def hdr_init_def Let_def
        enc_cmd_submit_3d_def machine_answered ok_reply_submit sizeof_ctrl_hdr_def ec ctx_id_or_0_def not_less)
qed

definition demo_ctx_dev :: uk_virtio_gpu_dev where
  "demo_ctx_dev = snd (the (alloc_ctx demo_dev))"

definition demo_ctx_sys :: "u8 list machine sys" where
  "demo_ctx_sys = \<lparr> vg = demo_ctx_dev, host = \<lparr> link = [], shm = (\<lambda>_. 0) \<rparr>, g_ctrlq_lock = 0 \<rparr>"

definition staged_ring :: uk_venus_ring where
  "staged_ring = zero_ring\<lparr> ring_ctx := \<lparr> ctx_id = 1, ctx_capset_id = 4, ctx_created = True \<rparr>,
     ring_blob := zero_blob\<lparr> blob_mapped_addr := 0x70000000, blob_mapped_size := 4096 \<rparr>,
     ring_base := 0x70000000, ring_size := 4096, ring_ready := True \<rparr>"

lemma demo_ctx_alloc: "alloc_ctx demo_dev = Some (0, demo_ctx_dev)" "find_ctx demo_ctx_dev 1 = Some 0"
  "ctrlq demo_ctx_dev"
proof -
  have f: "first_index (\<lambda>c. \<not> c_live c) (contexts demo_dev) = Some 0" and n: "next_ctx demo_dev = 1"
    and l: "0 < length (contexts demo_dev)"
    by (simp_all add: first_index_Some demo_dev_def vgpu_new_dev_def UKVGPU_MAX_CONTEXTS_def)
  show a: "alloc_ctx demo_dev = Some (0, demo_ctx_dev)" using f by (simp add: demo_ctx_dev_def alloc_ctx_def)
  hence d: "demo_ctx_dev = demo_dev\<lparr>contexts := (contexts demo_dev)[0 := zero_context\<lparr>c_id := 1, c_live := True\<rparr>],
      next_ctx := 2\<rparr>" using f n by (simp add: alloc_ctx_def)
  show "find_ctx demo_ctx_dev 1 = Some 0"
    using l by (simp add: d find_ctx_def first_index_Some)
  show "ctrlq demo_ctx_dev" by (simp add: d demo_dev_def)
qed

lemma demo_ctx_inv: "dev_inv demo_ctx_dev" "counters_below 2 demo_ctx_dev"
proof -
  have n: "next_ctx demo_dev = 1" by (simp add: demo_dev_def vgpu_new_dev_def)
  show "dev_inv demo_ctx_dev" using dev_inv_alloc_ctx[OF demo_ctx_alloc(1) demo_inv(1)] n by simp
  show "counters_below 2 demo_ctx_dev"
    unfolding counters_below_def alloc_ctx_SomeD(3)[OF demo_ctx_alloc(1)]
    using demo_inv(2) n by (simp add: counters_below_def)
qed

lemma le_nonempty [simp]: "le32 v \<noteq> []" "le64 w \<noteq> []"
  by (simp_all flip: length_0_conv)

lemma ring_demo_run:
  "\<exists>ring' s'. ring_run answering_machine [RingRegister 7, RingCmdWrite (Some [1, 2, 3]) 3, RingCmdFlush]
     staged_ring demo_ctx_sys = Some (ring', s') \<and> ring_protocol_ready ring' \<and> ring_cur_tail ring' = 3 \<and>
     ring_buf_size ring' = 2048"
proof -
  have sz: "venus_prev_pow2 (ucast (ring_size staged_ring - 192)) = 2048"
    by (simp add: staged_ring_def venus_prev_pow2_def Let_def)
  let ?r1 = "staged_ring\<lparr>ring_id := 7, ring_buf_size := 2048, ring_buf_mask := 2047,
    ring_cur_tail := 0, ring_protocol_ready := True\<rparr>"
  let ?s0 = "with_shm (ring_zeroed staged_ring) demo_ctx_sys"
  let ?c1 = "concat (venus_wire khronos (CreateRing 7 (blob_resource_id (ring_blob staged_ring))
        (ring_size staged_ring) 2048))"
  have c: "ctx_id (ring_ctx staged_ring) = 1" by (simp add: staged_ring_def)
  have "ctrlq (vg ?s0)" "find_ctx (vg ?s0) (ctx_id (ring_ctx staged_ring)) = Some 0" "?c1 \<noteq> []"
    "length ?c1 < 2 ^ 32"
    using demo_ctx_alloc(2,3) by (simp_all add: demo_ctx_sys_def c)
  from machine_submit[OF this] obtain f s1
    where s1: "uk_virtio_gpu_gl_context_submit answering_machine (Some (ring_ctx staged_ring))
        (Some ?c1) True ?s0 = Some (Inr (), f, s1)"
      "shm (host s1) = shm (host ?s0)" "ctrlq (vg s1)" "find_ctx (vg s1) 1 = Some 0"
    unfolding c by blast
  have reg: "uk_venus_ring_register answering_machine staged_ring 7 demo_ctx_sys = Some (Inr (), ?r1, s1)"
    using s1(1) unfolding register_eq[of _ _ _ _ khronos] sz
    by (simp add: staged_ring_def zero_ring_def del: venus_wire.simps)
  have head: "uk_venus_ring_load_head ?r1 (shm (host s1)) = 0"
    using s1(2) by (simp add: uk_venus_ring_load_head_def staged_ring_def ring_zeroed_def
        UK_VENUS_RING_HEAD_OFFSET_def load32_def mem_load_def mem_store_def upt_rec demo_ctx_sys_def) (simp add: le32_def)
  obtain m where wr: "uk_venus_ring_cmd_write ?r1 (Some [1, 2, 3]) 3 (shm (host s1)) =
      (Inr (), ?r1\<lparr>ring_cur_tail := 3\<rparr>, m)"
    using head by (simp add: uk_venus_ring_cmd_write_def Let_def staged_ring_def)
  let ?s2 = "with_shm (\<lambda>_. m) s1"
  let ?r2 = "?r1\<lparr>ring_cur_tail := 3\<rparr>"
  let ?s3 = "with_shm (ring_store_tail ?r2) ?s2"
  let ?c2 = "concat (venus_wire khronos (NotifyRing 7 3))"
  have c2: "ctx_id (ring_ctx ?r2) = 1" by (simp add: staged_ring_def)
  have "ctrlq (vg ?s3)" "find_ctx (vg ?s3) (ctx_id (ring_ctx ?r2)) = Some 0" "?c2 \<noteq> []" "length ?c2 < 2 ^ 32"
    using s1(3,4) by (simp_all add: c)
  from machine_submit[OF this] obtain f s4 where
    "uk_virtio_gpu_gl_context_submit answering_machine (Some (ring_ctx ?r2)) (Some ?c2) True ?s3 =
      Some (Inr (), f, s4)" by blast
  hence "uk_venus_ring_cmd_flush answering_machine ?r2 ?s2 = Some (Inr (), s4)"
    unfolding flush_eq[of _ _ _ khronos] by (simp add: staged_ring_def del: venus_wire.simps)
  thus ?thesis using reg wr by simp
qed

theorem ring_calls_keep_layout_witness:
  "\<exists>ring' s'. ring_run answering_machine [RingRegister 7, RingCmdWrite (Some [1, 2, 3]) 3, RingCmdFlush]
     staged_ring demo_ctx_sys = Some (ring', s') \<and> ring_protocol_ready ring' \<and> ring_cur_tail ring' = 3 \<and>
     vring_wf ring' \<and> dev_inv (vg s')"
proof -
  obtain ring' s' where r: "ring_run answering_machine
      [RingRegister 7, RingCmdWrite (Some [1, 2, 3]) 3, RingCmdFlush] staged_ring demo_ctx_sys = Some (ring', s')"
    "ring_protocol_ready ring'" "ring_cur_tail ring' = 3"
    using ring_demo_run by blast
  have "vring_wf staged_ring" by (simp add: vring_wf_def staged_ring_def zero_ring_def)
  with ring_calls_keep_layout[OF r(1) _ _ _, of 2] demo_ctx_inv
  have "vring_wf ring' \<and> dev_inv (vg s')" by (simp add: demo_ctx_sys_def)
  with r show ?thesis by blast
qed

section \<open>Waiting for the host\<close>

definition caught_up :: "('h machine \<Rightarrow> 'h machine) \<Rightarrow> uk_venus_ring \<Rightarrow> 'h machine \<Rightarrow> nat \<Rightarrow> bool" where
  "caught_up poll ring h k \<longleftrightarrow>
    load32 (ring_base ring + UK_VENUS_RING_HEAD_OFFSET) (shm ((poll ^^ (k + 1)) h)) = ring_cur_tail ring"

lemma caught_up_Suc: "caught_up poll ring (poll h) k \<longleftrightarrow> caught_up poll ring h (Suc k)"
  by (simp add: caught_up_def funpow_swap1)

lemma below_plus_1: "\<not> t \<le> i \<Longrightarrow> unat (i + 1) = Suc (unat i)" for t i :: "'a::len word"
proof -
  assume i: "\<not> t \<le> i"
  have "i + 1 \<noteq> 0"
  proof
    assume "i + 1 = 0"
    hence "i = - 1" by (simp add: eq_neg_iff_add_eq_0)
    with i show False by simp
  qed
  thus ?thesis by (rule unat_plus_1)
qed

lemma wait_loop_success:
  assumes "caught_up poll ring h k" "\<forall>j<k. \<not> caught_up poll ring h j"
    "t = - 1 \<or> unat iters + k \<le> unat t"
  shows "ring_wait_loop poll ring t iters h = Some (Inr (), (poll ^^ (k + 1)) h)"
  using assms
proof (induction k arbitrary: iters h)
  case 0
  thus ?case by (subst ring_wait_loop.simps) (simp add: caught_up_def)
next
  case (Suc k)
  have nc: "\<not> caught_up poll ring h 0" using Suc.prems(2) by blast
  have lt: "\<not> t \<le> iters" if "t \<noteq> - 1" using Suc.prems(3) that by (simp add: word_le_nat_alt)
  have it: "t = - 1 \<or> unat (iters + 1) + k \<le> unat t"
    using Suc.prems(3) lt below_plus_1[of t iters] by (cases "t = - 1") auto
  have "ring_wait_loop poll ring t (iters + 1) (poll h) = Some (Inr (), (poll ^^ (k + 1)) (poll h))"
    using Suc.prems(1,2) it by (intro Suc.IH) (auto simp: caught_up_Suc)
  thus ?case using nc lt by (subst ring_wait_loop.simps) (auto simp: caught_up_def funpow_swap1 Let_def)
qed

lemma wait_loop_timeout:
  assumes "\<forall>j\<le>k. \<not> caught_up poll ring h j" "t \<noteq> - 1" "unat iters + k = unat t"
  shows "ring_wait_loop poll ring t iters h = Some (Inl ETIMEDOUT, (poll ^^ (k + 1)) h)"
  using assms
proof (induction k arbitrary: iters h)
  case 0
  hence "iters = t" by (simp add: unsigned_word_eqI)
  thus ?case using 0 by (subst ring_wait_loop.simps) (simp add: caught_up_def)
next
  case (Suc k)
  have nc: "\<not> caught_up poll ring h 0" using Suc.prems(1) by blast
  have lt: "\<not> t \<le> iters" using Suc.prems(3) by (simp add: word_le_nat_alt)
  have it: "unat (iters + 1) + k = unat t"
    using Suc.prems(3) lt below_plus_1[of t iters] by auto
  have "ring_wait_loop poll ring t (iters + 1) (poll h) = Some (Inl ETIMEDOUT, (poll ^^ (k + 1)) (poll h))"
    using Suc.prems(1,2) it by (intro Suc.IH) (auto simp: caught_up_Suc)
  thus ?case using nc lt by (subst ring_wait_loop.simps) (auto simp: caught_up_def funpow_swap1)
qed

lemma wait_loop_forever:
  assumes "\<forall>k. \<not> caught_up poll ring h k"
  shows "ring_wait_loop poll ring (- 1) iters h = None"
proof -
  have "t = - 1 \<longrightarrow> (\<exists>k. caught_up poll ring h k)" if "ring_wait_loop poll ring t iters h = Some y" for t y
    using that
  proof (induction rule: ring_wait_loop.raw_induct[rotated, consumes 1])
    case (1 wl poll ring t iters h y)
    show ?case
    proof (cases "caught_up poll ring h 0")
      case False
      have nc: "load32 (ring_base ring + UK_VENUS_RING_HEAD_OFFSET) (shm (poll h)) \<noteq> ring_cur_tail ring"
        using False by (simp add: caught_up_def)
      show ?thesis
      proof
        assume t: "t = - 1"
        with 1(2) nc have "wl poll ring t (iters + 1) (poll h) = Some y" by (simp add: Let_def)
        from 1(1)[OF this] t obtain k where "caught_up poll ring (poll h) k" by blast
        thus "\<exists>k. caught_up poll ring h k" unfolding caught_up_Suc by blast
      qed
    qed blast
  qed
  thus ?thesis using assms by (cases "ring_wait_loop poll ring (- 1) iters h") auto
qed

text \<open>C35 (liveness): waiting returns success after exactly the first poll at which the host's head has
  reached the tail, if that happens within the allowed number of polls; it times out after that many
  polls otherwise, and never returns only when the timeout is infinite and the host never catches up.\<close>

theorem ring_wait_exact:
  "uk_venus_ring_cmd_wait poll ring t h =
    (if \<not> (ring_protocol_ready ring \<and> ring_base ring \<noteq> 0) then Some (Inl EINVAL, h)
     else if \<exists>k. caught_up poll ring h k \<and> (t = - 1 \<or> k \<le> unat t)
     then Some (Inr (), (poll ^^ ((LEAST k. caught_up poll ring h k) + 1)) h)
     else if t = - 1 then None
     else Some (Inl ETIMEDOUT, (poll ^^ (unat t + 1)) h))"
proof (cases "\<exists>k. caught_up poll ring h k \<and> (t = - 1 \<or> k \<le> unat t)")
  case True
  then obtain k where k: "caught_up poll ring h k" "t = - 1 \<or> k \<le> unat t" by blast
  let ?k = "LEAST k. caught_up poll ring h k"
  have "caught_up poll ring h ?k" using k(1) by (rule LeastI)
  moreover have "\<forall>j<?k. \<not> caught_up poll ring h j" by (blast dest: not_less_Least)
  moreover have "?k \<le> k" using k(1) by (rule Least_le)
  hence "t = - 1 \<or> unat (0 :: u32) + ?k \<le> unat t" using k(2) by auto
  ultimately have "ring_wait_loop poll ring t 0 h = Some (Inr (), (poll ^^ (?k + 1)) h)"
    by (rule wait_loop_success)
  thus ?thesis unfolding uk_venus_ring_cmd_wait_def if_P[OF True] by simp
next
  case False
  show ?thesis
  proof (cases "t = - 1")
    case True
    thus ?thesis using False wait_loop_forever[of poll ring h 0] by (auto simp: uk_venus_ring_cmd_wait_def)
  next
    case t: False
    hence "\<forall>j\<le>unat t. \<not> caught_up poll ring h j" using False by blast
    from wait_loop_timeout[OF this t, of 0]
    have "ring_wait_loop poll ring t 0 h = Some (Inl ETIMEDOUT, (poll ^^ (unat t + 1)) h)" by simp
    thus ?thesis unfolding uk_venus_ring_cmd_wait_def if_not_P[OF False] if_not_P[OF t] by simp
  qed
qed

end
