(* ===== verification/Venus_Query.thy ===== *)
theory Venus_Query
  imports Venus_Ring_Api
begin

text \<open>
  Queries of \<open>venus_init.c\<close>: the Venus capability set, the probe, and the commands whose reply the
  host writes into a host-visible blob (device name, memory properties, buffer requirements, device
  creation, queue idle).

  \<open>poll\<close> is what the host does to the shared memory between two reads of the reply.  The static
  reply blob and its flag are the record \<open>reply_cache\<close>.  Results carry the bytes or values the
  function stores through its output pointers, which are not NULL; \<open>-1\<close> is \<open>EOTHER 1\<close>.
\<close>

section \<open>Capability set\<close>

definition VENUS_CAPS_MIN_SIZE :: u32 where [venus_consts]: "VENUS_CAPS_MIN_SIZE = 8"
definition VENUS_CAPSET_BUF_MAX :: nat where [venus_consts]: "VENUS_CAPSET_BUF_MAX = 4096"

record uk_venus_caps =
  wire_format_version :: u32
  vk_xml_version :: u32
  vk_ext_command_serialization_spec_version :: u32
  vk_mesa_venus_protocol_spec_version :: u32
  supports_blob_id_0 :: u32
  wire_format_version_v2 :: u32

text \<open>The scan for the Venus capset: \<open>k\<close> indices left, from index \<open>i\<close>.\<close>

primrec venus_find_capset :: "'h env \<Rightarrow> nat \<Rightarrow> u32 \<Rightarrow> 'h sys
    \<Rightarrow> ((errno + uk_virtio_gpu_capset_info) \<times> 'h sys) option" where
  "venus_find_capset e 0 i s = Some (Inl ENOTSUP, s)"
| "venus_find_capset e (Suc k) i s =
    (case uk_virtio_gpu_gl_capset_info_get e i True s of
       None \<Rightarrow> None
     | Some (Inl er, s) \<Rightarrow> Some (Inl er, s)
     | Some (Inr info, s) \<Rightarrow>
         if ci_id info = UK_VENUS_CAPSET_ID then Some (Inr info, s) else venus_find_capset e k (i + 1) s)"

definition capset_word :: "u8 list \<Rightarrow> nat \<Rightarrow> nat \<Rightarrow> u32" where
  "capset_word raw actual i = (if 4 * (i + 1) \<le> actual then un32 (drop (4 * i) raw) else 0)"

definition venus_decode_caps :: "u8 list \<Rightarrow> uk_venus_caps" where
  "venus_decode_caps dat =
    (let raw = dat @ replicate (VENUS_CAPSET_BUF_MAX - length dat) 0; actual = length dat in
     \<lparr> wire_format_version = capset_word raw actual 0, vk_xml_version = capset_word raw actual 1,
       vk_ext_command_serialization_spec_version = capset_word raw actual 2,
       vk_mesa_venus_protocol_spec_version = capset_word raw actual 3,
       supports_blob_id_0 = capset_word raw actual 4, wire_format_version_v2 = 0 \<rparr>)"

definition uk_venus_capset_get :: "'h env \<Rightarrow> 'h sys \<Rightarrow> ((errno + uk_venus_caps) \<times> 'h sys) option" where
  "uk_venus_capset_get e s =
    (case uk_virtio_gpu_gl_caps_get (vg s) True of
       Inl er \<Rightarrow> Some (Inl er, s)
     | Inr dev_caps \<Rightarrow>
    (case venus_find_capset e (unat (caps_num_capsets dev_caps)) 0 s of
       None \<Rightarrow> None
     | Some (Inl er, s) \<Rightarrow> Some (Inl er, s)
     | Some (Inr info, s) \<Rightarrow>
        if ci_max_size info = 0 \<or> ci_max_size info < VENUS_CAPS_MIN_SIZE then Some (Inl ENOTSUP, s)
        else let req_len = min (unat (ci_max_size info)) VENUS_CAPSET_BUF_MAX in
        case uk_virtio_gpu_gl_capset_get e UK_VENUS_CAPSET_ID (ci_max_version info) True req_len s of
          None \<Rightarrow> None
        | Some (Inl er, s) \<Rightarrow> Some (Inl er, s)
        | Some (Inr dat, s) \<Rightarrow> Some (Inr (venus_decode_caps dat), s)))"

definition uk_venus_probe :: "'h env \<Rightarrow> 'h sys option \<Rightarrow> (string \<times> 'h sys option) option" where
  "uk_venus_probe e dev =
    (case dev of
       None \<Rightarrow> Some (''blocked:no-device'', None)
     | Some s \<Rightarrow>
        (case uk_venus_capset_get e s of
           None \<Rightarrow> None
         | Some (Inl er, s) \<Rightarrow>
             Some (if er = ENOTSUP then ''blocked:capset-not-advertised''
                   else ''blocked:capset-query-failed'', Some s)
         | Some (Inr caps, s) \<Rightarrow>
             Some (if wire_format_version caps = 0 then ''blocked:invalid-wire-format-version''
                   else ''pass'', Some s)))"

definition uk_venus_context_create :: "'h env \<Rightarrow> 'h sys \<Rightarrow> ((errno + u32) \<times> 'h sys) option" where
  "uk_venus_context_create e s =
    (case uk_virtio_gpu_gl_context_create e UK_VENUS_CAPSET_ID (Some name_venus) True s of
       None \<Rightarrow> None
     | Some (Inl er, s) \<Rightarrow> Some (Inl er, s)
     | Some (Inr c, s) \<Rightarrow> Some (Inr (ctx_id c), s))"

definition uk_venus_ring_status :: "uk_virtio_gpu_dev option \<Rightarrow> string" where
  "uk_venus_ring_status dev =
    (case dev of
       None \<Rightarrow> ''blocked:no-device''
     | Some d \<Rightarrow>
        (case uk_virtio_gpu_gl_caps_get d True of
           Inl _ \<Rightarrow> ''blocked:caps-query-failed''
         | Inr caps \<Rightarrow>
             if \<not> caps_has_context_init caps then ''blocked:context-init-missing''
             else if \<not> caps_has_resource_blob caps then ''blocked:resource-blob-missing''
             else if \<not> caps_has_host_visible caps then ''blocked:host-visible-missing''
             else ''pass''))"

section \<open>The reply round trip\<close>

definition UK_VENUS_REPLY_BLOB_SIZE :: u64 where [venus_consts]: "UK_VENUS_REPLY_BLOB_SIZE = 4096"
definition UK_VENUS_PROPS_NAME_OFF :: nat where [venus_consts]: "UK_VENUS_PROPS_NAME_OFF = 40"

record reply_cache =
  g_reply_blob :: uk_virtio_gpu_blob
  g_reply_blob_ready :: bool

text \<open>Creating the reply blob on first use.\<close>

definition reply_prepare :: "'h env \<Rightarrow> reply_cache \<Rightarrow> uk_virtio_gpu_context \<Rightarrow> 'h sys
    \<Rightarrow> ((errno + unit) \<times> reply_cache \<times> 'h sys) option" where
  "reply_prepare e rc c s =
    (let rc0 = rc\<lparr>g_reply_blob := zero_blob\<rparr> in
     if g_reply_blob_ready rc then Some (Inr (), rc, s)
     else case uk_virtio_gpu_gl_blob_create_with_ctx e (ctx_id c) UK_VENUS_REPLY_BLOB_SIZE BLOB_MEM_HOST3D
                 BLOB_FLAG_USE_MAPPABLE 0 (Some zero_blob) s of
       None \<Rightarrow> None
     | Some (Inl er, s) \<Rightarrow> Some (Inl er, rc0, s)
     | Some (Inr b, s) \<Rightarrow>
     (case uk_virtio_gpu_gl_blob_map e (Some b) s of
       None \<Rightarrow> None
     | Some (r, b, s) \<Rightarrow>
        if isl r \<or> blob_mapped_addr (the b) = 0 \<or> blob_mapped_size (the b) < 16
        then map_option (\<lambda>s. (Inl (case r of Inl er \<Rightarrow> er | Inr _ \<Rightarrow> ENOTSUP), rc0, s))
               (if blob_created (the b) then ring_err_blob e b s else Some s)
        else case uk_virtio_gpu_gl_context_attach_resource e (Some c) (blob_resource_id (the b)) s of
          None \<Rightarrow> None
        | Some (Inl er, s) \<Rightarrow> map_option (\<lambda>s. (Inl er, rc0, s)) (ring_err_unmap e b s)
        | Some (Inr _, s) \<Rightarrow> Some (Inr (), \<lparr> g_reply_blob = the b, g_reply_blob_ready = True \<rparr>, s)))"

text \<open>The spin on the first word of the reply, \<open>k\<close> more iterations allowed.\<close>

function reply_spin :: "('h machine \<Rightarrow> 'h machine) \<Rightarrow> u64 \<Rightarrow> nat \<Rightarrow> 'h machine \<Rightarrow> 'h machine" where
  "reply_spin poll addr k h =
    (let h = poll h in
     if load32 addr (shm h) \<noteq> 0 \<or> k = 0 then h else reply_spin poll addr (k - 1) h)"
  by auto
termination by (relation "measure (\<lambda>(_, _, k, _). k)") auto

declare reply_spin.simps [simp del]

definition uk_venus_query_roundtrip :: "'h machine env \<Rightarrow> ('h machine \<Rightarrow> 'h machine) \<Rightarrow> reply_cache
    \<Rightarrow> uk_virtio_gpu_context option \<Rightarrow> u8 list \<Rightarrow> u32 \<Rightarrow> 'h machine sys
    \<Rightarrow> ((errno + u8 list) \<times> reply_cache \<times> 'h machine sys) option" where
  "uk_venus_query_roundtrip e poll rc ctx query reply_cap s =
    (case ctx of
       None \<Rightarrow> Some (Inl EINVAL, rc, s)
     | Some c \<Rightarrow>
     if \<not> ctx_created c \<or> query = [] \<or> reply_cap = 0 then Some (Inl EINVAL, rc, s)
     else case reply_prepare e rc c s of
       None \<Rightarrow> None
     | Some (Inl er, rc, s) \<Rightarrow> Some (Inl er, rc, s)
     | Some (Inr _, rc, s) \<Rightarrow>
        (let b = g_reply_blob rc; addr = blob_mapped_addr b; sz = blob_mapped_size b;
             s = with_shm (mem_store addr (replicate (unat sz) 0)) s in
         case uk_venus_encoder_init (stack_buf 320) 320 of
           Inl er \<Rightarrow> Some (Inl er, rc, s)
         | Inr enc \<Rightarrow>
         let enc = uk_venus_encode_vkSetReplyCommandStreamMESA enc (blob_resource_id b) 0 sz in
         if ve_pos enc + of_nat (length query) > 320 then Some (Inl ENOSPC, rc, s)
         else case uk_virtio_gpu_gl_context_submit e (Some c) (Some (encoded enc @ query)) True s of
           None \<Rightarrow> None
         | Some (Inl er, _, s) \<Rightarrow> Some (Inl er, rc, s)
         | Some (Inr _, f, s) \<Rightarrow>
            (let s = s\<lparr>vg := snd (uk_virtio_gpu_fence_wait (vg s) (case f of Some i \<Rightarrow> i | None \<Rightarrow> 0) 2000000000)\<rparr>;
                 h = reply_spin poll addr 2000000 (host s);
                 n = (if sz < ucast reply_cap then ucast sz else reply_cap)
             in Some (Inr (mem_load addr (unat n) (shm h)), rc, s\<lparr>host := h\<rparr>))))"

section \<open>Queries\<close>

definition printable :: "u8 \<Rightarrow> bool" where "printable c \<longleftrightarrow> 0x20 \<le> c \<and> c < 0x7f"
definition is_alpha :: "u8 \<Rightarrow> bool" where
  "is_alpha c \<longleftrightarrow> 65 \<le> c \<and> c \<le> 90 \<or> 97 \<le> c \<and> c \<le> 122"

text \<open>The end of a run in the fallback scan, and the scan over the bytes left from \<open>i\<close>.\<close>

definition close_run :: "u8 list \<Rightarrow> nat \<Rightarrow> nat \<Rightarrow> nat \<times> nat \<Rightarrow> nat \<times> nat" where
  "close_run buf start run best =
    (if fst best < run \<and> list_ex (\<lambda>k. 97 \<le> (buf ! k OR 0x20) \<and> (buf ! k OR 0x20) \<le> 122) [start..<start + run]
     then (run, start) else best)"

fun name_scan :: "u8 list \<Rightarrow> u8 list \<Rightarrow> nat \<Rightarrow> nat \<Rightarrow> nat \<Rightarrow> nat \<times> nat \<Rightarrow> nat \<times> nat" where
  "name_scan buf [] i start run best = close_run buf start run best"
| "name_scan buf (c # cs) i start run best =
    (if printable c
     then name_scan buf cs (i + 1) (if run = 0 then i else start) (run + 1) best
     else name_scan buf cs (i + 1) start 0 (close_run buf start run best))"

definition uk_venus_extract_name :: "u8 list \<Rightarrow> nat \<Rightarrow> errno + u8 list" where
  "uk_venus_extract_name buf cap =
    (if cap < 2 then Inl (EOTHER 1)
     else if length buf < UK_VENUS_PROPS_NAME_OFF + 2 then Inl (EOTHER 1)
     else if un32 buf \<noteq> VN_CMD_vkGetPhysicalDeviceProperties \<or> un64 (drop 4 buf) \<noteq> 1 then Inl (EOTHER 1)
     else let n = takeWhile printable (take 255 (drop UK_VENUS_PROPS_NAME_OFF buf)) in
     if 2 \<le> length n \<and> list_ex is_alpha n then Inr (take (if cap \<le> length n then cap - 1 else length n) n)
     else let (best_len, best_start) = name_scan buf buf 0 0 0 (0, 0) in
     if 2 \<le> best_len
     then Inr (take (if cap \<le> best_len then cap - 1 else best_len) (drop best_start buf))
     else Inl (EOTHER 1))"

definition uk_venus_query_device_name :: "'h machine env \<Rightarrow> ('h machine \<Rightarrow> 'h machine) \<Rightarrow> reply_cache
    \<Rightarrow> uk_virtio_gpu_context option \<Rightarrow> u64 \<Rightarrow> u32 \<Rightarrow> 'h machine sys
    \<Rightarrow> ((errno + u8 list) \<times> reply_cache \<times> 'h machine sys) option" where
  "uk_venus_query_device_name e poll rc ctx physdev name_cap s =
    (if name_cap < 2 then Some (Inl EINVAL, rc, s)
     else case uk_venus_encoder_init (stack_buf 64) 64 of
       Inl _ \<Rightarrow> Some (Inl EINVAL, rc, s)
     | Inr q \<Rightarrow>
     let q = uk_venus_encode_vkGetPhysicalDeviceProperties q physdev in
     if ve_overflow q then Some (Inl ENOSPC, rc, s)
     else case uk_venus_query_roundtrip e poll rc ctx (encoded q) 1024 s of
       None \<Rightarrow> None
     | Some (Inl _, rc, s) \<Rightarrow> Some (Inl (EOTHER 1), rc, s)
     | Some (Inr reply, rc, s) \<Rightarrow>
         if length reply < UK_VENUS_PROPS_NAME_OFF + 2 then Some (Inl (EOTHER 1), rc, s)
         else Some (uk_venus_extract_name reply (unat name_cap), rc, s))"

definition uk_venus_query_buffer_requirements :: "'h machine env \<Rightarrow> ('h machine \<Rightarrow> 'h machine)
    \<Rightarrow> reply_cache \<Rightarrow> uk_virtio_gpu_context option \<Rightarrow> u64 \<Rightarrow> u64 \<Rightarrow> 'h machine sys
    \<Rightarrow> ((errno + u64 \<times> u64 \<times> u32) \<times> reply_cache \<times> 'h machine sys) option" where
  "uk_venus_query_buffer_requirements e poll rc ctx device buffer s =
    (case uk_venus_encoder_init (stack_buf 64) 64 of
       Inl _ \<Rightarrow> Some (Inl EINVAL, rc, s)
     | Inr q \<Rightarrow>
     let q = uk_venus_encode_vkGetBufferMemoryRequirements q device buffer in
     if ve_overflow q then Some (Inl ENOSPC, rc, s)
     else case uk_venus_query_roundtrip e poll rc ctx (encoded q) 64 s of
       None \<Rightarrow> None
     | Some (Inl _, rc, s) \<Rightarrow> Some (Inl (EOTHER 1), rc, s)
     | Some (Inr r, rc, s) \<Rightarrow>
         if length r < 32 \<or> un32 r \<noteq> VN_CMD_vkGetBufferMemoryRequirements then Some (Inl (EOTHER 1), rc, s)
         else Some (Inr (un64 (drop 12 r), un64 (drop 20 r), un32 (drop 28 r)), rc, s))"

text \<open>The store of the reply flag into an encoded command.\<close>

definition patch_reply_flag :: "uk_venus_encoder \<Rightarrow> uk_venus_encoder" where
  "patch_reply_flag q = (if 8 \<le> ve_pos q then q\<lparr>ve_buf := poke (ve_buf q) 4 (le32 1)\<rparr> else q)"

definition uk_venus_create_device_checked :: "vk_headers \<Rightarrow> 'h machine env \<Rightarrow> ('h machine \<Rightarrow> 'h machine)
    \<Rightarrow> reply_cache \<Rightarrow> uk_virtio_gpu_context option \<Rightarrow> u64 \<Rightarrow> u64 \<Rightarrow> u32 \<Rightarrow> 'h machine sys
    \<Rightarrow> ((errno + u32) \<times> reply_cache \<times> 'h machine sys) option" where
  "uk_venus_create_device_checked H e poll rc ctx physdev device qfi s =
    (case uk_venus_encoder_init (stack_buf 256) 256 of
       Inl _ \<Rightarrow> Some (Inl EINVAL, rc, s)
     | Inr q \<Rightarrow>
     let q = uk_venus_encode_vkCreateDevice H q physdev device qfi 0x3f800000 0 None in
     if ve_overflow q then Some (Inl ENOSPC, rc, s)
     else case uk_venus_query_roundtrip e poll rc ctx (encoded (patch_reply_flag q)) 64 s of
       None \<Rightarrow> None
     | Some (Inl _, rc, s) \<Rightarrow> Some (Inl (EOTHER 1), rc, s)
     | Some (Inr r, rc, s) \<Rightarrow>
         if length r < 8 \<or> un32 r \<noteq> VN_CMD_vkCreateDevice then Some (Inl (EOTHER 1), rc, s)
         else Some (Inr (un32 (drop 4 r)), rc, s))"

definition uk_venus_wait_queue_idle :: "'h machine env \<Rightarrow> ('h machine \<Rightarrow> 'h machine)
    \<Rightarrow> reply_cache \<Rightarrow> uk_virtio_gpu_context option \<Rightarrow> u64 \<Rightarrow> 'h machine sys
    \<Rightarrow> ((errno + unit) \<times> reply_cache \<times> 'h machine sys) option" where
  "uk_venus_wait_queue_idle e poll rc ctx queue s =
    (case uk_venus_encoder_init (stack_buf 64) 64 of
       Inl _ \<Rightarrow> Some (Inl EINVAL, rc, s)
     | Inr q \<Rightarrow>
     let q = uk_venus_encode_vkQueueWaitIdle q queue in
     if ve_overflow q then Some (Inl ENOSPC, rc, s)
     else map_option (\<lambda>(r, rc, s). (map_sum id (\<lambda>_. ()) r, rc, s))
            (uk_venus_query_roundtrip e poll rc ctx (encoded (patch_reply_flag q)) 64 s))"

text \<open>Parsing of the memory properties: the two loops, \<open>k\<close> entries left from entry \<open>i\<close>, return the
  offset they reached, or nothing when the reply is too short, and the output structure so far.\<close>

primrec mem_types_loop :: "u8 list \<Rightarrow> u32 \<Rightarrow> nat \<Rightarrow> nat \<Rightarrow> nat \<Rightarrow> u8 list \<Rightarrow> nat option \<times> u8 list" where
  "mem_types_loop r type_count 0 i off out = (Some off, out)"
| "mem_types_loop r type_count (Suc k) i off out =
    (if length r < off + 8 then (None, out)
     else let flags = un32 (drop off r); heap = un32 (drop (off + 4) r) in
     mem_types_loop r type_count k (i + 1) (off + 8)
       (if i < unat type_count
        then poke (poke out (4 + i * 8) (le32 flags)) (4 + i * 8 + 4) (le32 heap) else out))"

primrec mem_heaps_loop :: "u8 list \<Rightarrow> u32 \<Rightarrow> nat \<Rightarrow> nat \<Rightarrow> nat \<Rightarrow> u8 list \<Rightarrow> nat option \<times> u8 list" where
  "mem_heaps_loop r heap_count 0 i off out = (Some off, out)"
| "mem_heaps_loop r heap_count (Suc k) i off out =
    (if length r < off + 12 then (None, out)
     else let sz = un64 (drop off r); flags = un32 (drop (off + 8) r) in
     mem_heaps_loop r heap_count k (i + 1) (off + 12)
       (if i < unat heap_count
        then poke (poke out (264 + i * 16) (le64 sz)) (264 + i * 16 + 8) (le32 flags) else out))"

definition parse_memory_properties :: "u8 list \<Rightarrow> u8 list \<Rightarrow> (errno + unit) \<times> u8 list" where
  "parse_memory_properties r out =
    (if length r < 24 \<or> un32 r \<noteq> VN_CMD_vkGetPhysicalDeviceMemoryProperties then (Inl (EOTHER 1), out)
     else let type_count = un32 (drop 12 r) in
     if type_count > 32 then (Inl (EOTHER 1), out)
     else let out = poke (poke out 0 (replicate 520 0)) 0 (le32 type_count) in
     case mem_types_loop r type_count 32 0 24 out of
       (None, out) \<Rightarrow> (Inl (EOTHER 1), out)
     | (Some off, out) \<Rightarrow>
        if length r < off + 4 then (Inl (EOTHER 1), out)
        else let heap_count = un32 (drop off r) in
        if heap_count > 16 then (Inl (EOTHER 1), out)
        else let out = poke out 260 (le32 heap_count) in
        case mem_heaps_loop r heap_count 16 0 (off + 12) out of
          (None, out) \<Rightarrow> (Inl (EOTHER 1), out)
        | (Some _, out) \<Rightarrow> (Inr (), out))"

definition uk_venus_query_memory_properties :: "vk_headers \<Rightarrow> 'h machine env \<Rightarrow> ('h machine \<Rightarrow> 'h machine)
    \<Rightarrow> reply_cache \<Rightarrow> uk_virtio_gpu_context option \<Rightarrow> u64 \<Rightarrow> u8 list \<Rightarrow> 'h machine sys
    \<Rightarrow> ((errno + unit) \<times> u8 list \<times> reply_cache \<times> 'h machine sys) option" where
  "uk_venus_query_memory_properties H e poll rc ctx physdev out s =
    (case uk_venus_encoder_init (stack_buf 64) 64 of
       Inl _ \<Rightarrow> Some (Inl EINVAL, out, rc, s)
     | Inr q \<Rightarrow>
     let q = uk_venus_encode_vkGetPhysicalDeviceMemoryProperties H q physdev in
     if ve_overflow q then Some (Inl ENOSPC, out, rc, s)
     else case uk_venus_query_roundtrip e poll rc ctx (encoded q) 1024 s of
       None \<Rightarrow> None
     | Some (Inl _, rc, s) \<Rightarrow> Some (Inl (EOTHER 1), out, rc, s)
     | Some (Inr r, rc, s) \<Rightarrow>
         (case parse_memory_properties r out of (res, out) \<Rightarrow> Some (res, out, rc, s)))"

section \<open>The name in a reply\<close>

definition printable_run :: "u8 list \<Rightarrow> nat \<Rightarrow> nat \<Rightarrow> bool" where
  "printable_run buf start len \<longleftrightarrow> start + len \<le> length buf \<and> (\<forall>k. start \<le> k \<and> k < start + len \<longrightarrow> printable (buf ! k))"

lemma printable_run_0 [simp]: "printable_run buf i 0 \<longleftrightarrow> i \<le> length buf"
  by (auto simp: printable_run_def)

lemma close_run_inv:
  "printable_run buf start run \<Longrightarrow> printable_run buf (snd b) (fst b) \<Longrightarrow>
   printable_run buf (snd (close_run buf start run b)) (fst (close_run buf start run b))"
  by (simp add: close_run_def)

lemma name_scan_inv:
  "printable_run (pre @ cs) start run \<Longrightarrow> (run \<noteq> 0 \<longrightarrow> start + run = length pre) \<Longrightarrow>
   printable_run (pre @ cs) (snd b) (fst b) \<Longrightarrow>
   case name_scan (pre @ cs) cs (length pre) start run b of (l, st) \<Rightarrow> printable_run (pre @ cs) st l"
proof (induction cs arbitrary: pre start run b)
  case Nil
  thus ?case using close_run_inv[of pre start run b] by (simp add: case_prod_unfold)
next
  case (Cons c cs)
  note IH = Cons.IH[of "pre @ [c]", simplified]
  show ?case
  proof (cases "printable c")
    case True
    have "printable_run (pre @ c # cs) (if run = 0 then length pre else start) (run + 1)"
      using Cons.prems(1,2) True by (auto simp: printable_run_def less_Suc_eq nth_append)
    thus ?thesis
      using True Cons.prems(2,3) IH[of "if run = 0 then length pre else start" "run + 1" b]
      by (simp split: if_splits)
  next
    case False
    have "printable_run (pre @ c # cs) start 0" using Cons.prems(1) by (simp add: printable_run_def)
    thus ?thesis
      using False IH[of start 0 "close_run (pre @ c # cs) start run b"] close_run_inv[OF Cons.prems(1,3)]
      by simp
  qed
qed

lemma printable_slice:
  assumes r: "printable_run buf st l" "2 \<le> l" "2 \<le> cap"
    and n: "name = take (if cap \<le> l then cap - 1 else l) (drop st buf)"
  shows "name \<noteq> [] \<and> length name < cap \<and> list_all printable name \<and>
    (\<exists>i. i + length name \<le> length buf \<and> name = take (length name) (drop i buf))"
proof -
  have len: "length name = (if cap \<le> l then cap - 1 else l)"
    using r n by (auto simp: printable_run_def)
  hence "name ! k = buf ! (st + k)" "k < l" if "k < length name" for k
    using that n r(1) by (auto simp: printable_run_def split: if_splits)
  hence "list_all printable name" using r(1) by (auto simp: list_all_length printable_run_def)
  moreover have "st + length name \<le> length buf" using len r(1) by (auto simp: printable_run_def)
  moreover have "name \<noteq> []" "length name < cap" using len r(2,3) by (auto split: if_splits)
  ultimately show ?thesis using n len by (intro conjI exI[of _ st]) (simp_all del: length_0_conv)
qed

lemma prefix_take:
  "c \<le> length (takeWhile P (take m xs)) \<Longrightarrow> take c (takeWhile P (take m xs)) = take c xs"
proof -
  let ?w = "takeWhile P (take m xs)"
  assume "c \<le> length ?w"
  moreover have "length ?w \<le> m" using length_takeWhile_le[of P "take m xs"] by simp
  ultimately have "min (min c (length ?w)) m = c" by linarith
  moreover have "take c ?w = take (min (min c (length ?w)) m) xs"
    using arg_cong[OF takeWhile_eq_take, of "take c" P "take m xs"] by (simp only: take_take min.assoc)
  ultimately show ?thesis by (simp only:)
qed

lemma prefix_run:
  assumes "takeWhile printable (take m (drop st buf)) \<noteq> []"
  shows "printable_run buf st (length (takeWhile printable (take m (drop st buf))))"
proof -
  let ?n = "takeWhile printable (take m (drop st buf))"
  have "length ?n \<le> length buf - st" using length_takeWhile_le[of printable "take m (drop st buf)"] by simp
  moreover have "length ?n \<noteq> 0" using assms by simp
  ultimately have fits: "st + length ?n \<le> length buf" by linarith
  have at: "printable (buf ! (st + j))" if "j < length ?n" for j
  proof -
    have "printable (?n ! j)" using that by (meson nth_mem set_takeWhileD)
    moreover have "?n ! j = take (length ?n) (drop st buf) ! j"
      using prefix_take[of "length ?n" printable m "drop st buf"] by simp
    ultimately show ?thesis using that fits by simp
  qed
  have "printable (buf ! k)" if "st \<le> k" "k < st + length ?n" for k
    using at[of "k - st"] that by simp
  thus ?thesis using fits by (auto simp: printable_run_def)
qed


text \<open>A device name taken from a reply, at the specified offset or by the fallback scan, is
  a non-empty run of printable bytes of the reply and leaves room for the terminating NUL in the
  caller's buffer.\<close>

theorem extracted_name_safe:
  assumes "uk_venus_extract_name buf cap = Inr name"
  shows "name \<noteq> [] \<and> length name < cap \<and> list_all printable name \<and>
    (\<exists>i. i + length name \<le> length buf \<and> name = take (length name) (drop i buf))"
proof -
  have scan: "case name_scan buf buf 0 0 0 (0, 0) of (l, st) \<Rightarrow> printable_run buf st l"
    using name_scan_inv[of "[]" buf 0 0 "(0, 0)"] by simp
  define n where "n = takeWhile printable (take 255 (drop 40 buf))"
  show ?thesis
  proof (cases "2 \<le> length n \<and> list_ex is_alpha n")
    case True
    have "printable_run buf 40 (length n)"
    proof -
      have "n \<noteq> []" using True by auto
      thus ?thesis unfolding n_def by (rule prefix_run)
    qed
    moreover have nm: "name = take (if cap \<le> length n then cap - 1 else length n) n" "2 \<le> cap"
      using assms True
      by (simp_all add: uk_venus_extract_name_def UK_VENUS_PROPS_NAME_OFF_def n_def[symmetric] Let_def split: if_splits)
    moreover have "name = take (if cap \<le> length n then cap - 1 else length n) (drop 40 buf)"
      unfolding nm(1) n_def by (rule prefix_take) auto
    ultimately show ?thesis using True printable_slice by blast
  next
    case False
    obtain l st where ls: "name_scan buf buf 0 0 0 (0, 0) = (l, st)" by fastforce
    have nm: "name = take (if cap \<le> l then cap - 1 else l) (drop st buf)" "2 \<le> cap" "2 \<le> l"
      using assms False ls
      by (auto simp: uk_venus_extract_name_def UK_VENUS_PROPS_NAME_OFF_def n_def[symmetric] Let_def split: if_splits)
    have "printable_run buf st l" using scan ls by simp
    from printable_slice[OF this nm(3,2,1)] show ?thesis .
  qed
qed

text \<open>In a reply with the expected header, the name at the specified offset is
  returned up to its first byte that is not printable, cut to the caller's buffer.\<close>

theorem device_name_read:
  assumes "length flds = 28" "2 \<le> length name" "length name \<le> 255" "list_all printable name"
    "list_ex is_alpha name" "case rest of [] \<Rightarrow> True | c # _ \<Rightarrow> \<not> printable c \<or> length name = 255" "2 \<le> cap"
  shows "uk_venus_extract_name (le32 6 @ le64 1 @ flds @ name @ rest) cap = Inr (take (cap - 1) name)"
proof -
  let ?buf = "le32 6 @ le64 1 @ flds @ name @ rest"
  have d: "drop 40 ?buf = name @ rest" using assms(1) by simp
  have "takeWhile printable (take 255 (name @ rest)) = name"
  proof (cases rest)
    case Nil
    thus ?thesis using assms(3,4) by (simp add: takeWhile_eq_all_conv list_all_iff)
  next
    case (Cons c cs)
    have "takeWhile printable (name @ take (255 - length name) (c # cs)) = name @ takeWhile printable (take (255 - length name) (c # cs))"
      using assms(4) by (intro takeWhile_append2) (auto simp: list_all_iff)
    also have "takeWhile printable (take (255 - length name) (c # cs)) = []"
      using assms(6) Cons by (cases "255 - length name") auto
    finally show ?thesis using assms(3) Cons by simp
  qed
  moreover have "42 \<le> length ?buf" using assms(1,2) by simp
  moreover have "un32 ?buf = 6" "un64 (drop 4 ?buf) = 1" by simp_all
  ultimately show ?thesis
    using assms(2,5,7) d
    by (simp add: uk_venus_extract_name_def UK_VENUS_PROPS_NAME_OFF_def Let_def venus_consts)
qed

theorem device_name_read_witness:
  "uk_venus_extract_name (le32 6 @ le64 1 @ replicate 28 0 @ [82, 88, 55, 54] @ [0, 65]) 4 = Inr [82, 88, 55]"
  using device_name_read[of "replicate 28 0" "[82, 88, 55, 54]" "[0, 65]" 4]
  by (simp add: printable_def is_alpha_def)

theorem extracted_name_safe_witness:
  "length (projr (uk_venus_extract_name (le32 6 @ le64 1 @ replicate 28 0 @ [82, 88, 55, 54, 0]) 3)) < 3"
  using extracted_name_safe[of "le32 6 @ le64 1 @ replicate 28 0 @ [82, 88, 55, 54, 0]" 3 "[82, 88]"]
  by (simp add: uk_venus_extract_name_def UK_VENUS_PROPS_NAME_OFF_def venus_consts printable_def is_alpha_def)

section \<open>The memory properties in a reply\<close>

definition mem_type_bytes :: "u32 \<times> u32 \<Rightarrow> u8 list" where
  "mem_type_bytes t = le32 (fst t) @ le32 (snd t)"
definition mem_heap_bytes :: "u64 \<times> u32 \<Rightarrow> u8 list" where
  "mem_heap_bytes h = le64 (fst h) @ le32 (snd h)"

text \<open>The reply the host sends for its memory types and heaps, as the comment in the source lays it
  out: the arrays have their full length, and only the first entries count.\<close>

definition mem_reply :: "u32 \<Rightarrow> (u32 \<times> u32) list \<Rightarrow> u32 \<Rightarrow> (u64 \<times> u32) list \<Rightarrow> u8 list" where
  "mem_reply tc types hc heaps = le32 8 @ le64 1 @ le32 tc @ le64 32 @ concat (map mem_type_bytes types) @
     le32 hc @ le64 16 @ concat (map mem_heap_bytes heaps)"

lemma poke_at: "length A = p \<Longrightarrow> length X = length B \<Longrightarrow> poke (A @ X @ C) p B = A @ B @ C"
  by (simp add: poke_def)

lemma length_mem_bytes [simp]: "length (mem_type_bytes t) = 8" "length (mem_heap_bytes h) = 12"
  by (simp_all add: mem_type_bytes_def mem_heap_bytes_def)

lemma read_type [simp]:
  "un32 (mem_type_bytes t @ r) = fst t" "drop 4 (mem_type_bytes t) = le32 (snd t)"
  by (simp_all add: mem_type_bytes_def)

lemma read_heap [simp]:
  "un64 (mem_heap_bytes h @ r) = fst h" "drop 8 (mem_heap_bytes h) = le32 (snd h)"
  by (simp_all add: mem_heap_bytes_def)

text \<open>The entries from number \<open>i\<close> on as the output structure holds them.\<close>

fun types_out :: "nat \<Rightarrow> nat \<Rightarrow> (u32 \<times> u32) list \<Rightarrow> u8 list" where
  "types_out tc i [] = []"
| "types_out tc i (t # ts) = (if i < tc then mem_type_bytes t else replicate 8 0) @ types_out tc (i + 1) ts"

fun heaps_out :: "nat \<Rightarrow> nat \<Rightarrow> (u64 \<times> u32) list \<Rightarrow> u8 list" where
  "heaps_out hc i [] = []"
| "heaps_out hc i (h # hs) =
    (if i < hc then mem_heap_bytes h @ replicate 4 0 else replicate 16 0) @ heaps_out hc (i + 1) hs"

lemma types_loop:
  "drop off r = concat (map mem_type_bytes ts) @ rest \<Longrightarrow> off \<le> length r \<Longrightarrow> length A = 4 + i * 8 \<Longrightarrow>
   mem_types_loop r tc (length ts) i off (A @ replicate (8 * length ts) 0 @ C) =
     (Some (off + 8 * length ts), A @ types_out (unat tc) i ts @ C)"
proof (induction ts arbitrary: i off A)
  case (Cons t ts)
  have r: "drop off r = mem_type_bytes t @ concat (map mem_type_bytes ts) @ rest" using Cons.prems(1) by simp
  have len: "off + 8 \<le> length r"
    using arg_cong[OF r, of length] Cons.prems(2) by simp
  have "drop (off + 8) r = drop 8 (drop off r)" by (simp add: add.commute)
  hence d8: "drop (off + 8) r = concat (map mem_type_bytes ts) @ rest" unfolding r by simp
  have "drop (off + 4) r = drop 4 (drop off r)" by (simp add: add.commute)
  hence f: "un32 (drop off r) = fst t" "un32 (drop (off + 4) r) = snd t" unfolding r by simp_all
  have z: "replicate (8 * length (t # ts)) (0::u8) = replicate 4 0 @ replicate 4 0 @ replicate (8 * length ts) 0"
    by (simp flip: replicate_add)
  let ?Z = "replicate (8 * length ts) 0 @ C"
  have p1: "poke (A @ replicate 4 0 @ replicate 4 0 @ ?Z) (4 + i * 8) (le32 (fst t)) =
      (A @ le32 (fst t)) @ replicate 4 0 @ ?Z" using poke_at[of A _ "replicate 4 0" "le32 (fst t)"] Cons.prems(3) by simp
  have p2: "poke ((A @ le32 (fst t)) @ replicate 4 0 @ ?Z) (4 + i * 8 + 4) (le32 (snd t)) =
      (A @ le32 (fst t)) @ le32 (snd t) @ ?Z" using Cons.prems(3) by (intro poke_at) simp_all
  have z8: "replicate 4 0 @ replicate 4 0 @ ?Z = replicate 8 0 @ ?Z" by (simp flip: replicate_add append_assoc)
  have e: "A @ replicate (8 * length (t # ts)) 0 @ C = A @ replicate 4 0 @ replicate 4 0 @ ?Z" unfolding z by simp
  let ?A = "A @ (if i < unat tc then mem_type_bytes t else replicate 8 0)"
  have o: "(if i < unat tc then poke (poke (A @ replicate (8 * length (t # ts)) 0 @ C) (4 + i * 8)
        (le32 (fst t))) (4 + i * 8 + 4) (le32 (snd t))
      else A @ replicate (8 * length (t # ts)) 0 @ C) = ?A @ ?Z"
  proof (cases "i < unat tc")
    case True
    thus ?thesis unfolding e p1 p2 by (simp add: mem_type_bytes_def)
  next
    case False
    thus ?thesis unfolding e z8 by simp
  qed
  have nl: "\<not> length r < off + 8" using len by simp
  have "mem_types_loop r tc (length (t # ts)) i off (A @ replicate (8 * length (t # ts)) 0 @ C) =
      mem_types_loop r tc (length ts) (i + 1) (off + 8) (?A @ ?Z)"
    unfolding list.size(4) add_0_right add_Suc_right mem_types_loop.simps if_not_P[OF nl] Let_def f
    using o by (simp only: list.size(4) add_0_right add_Suc_right)
  also have "\<dots> = (Some (off + 8 + 8 * length ts), ?A @ types_out (unat tc) (i + 1) ts @ C)"
    using Cons.prems(3) len by (intro Cons.IH[OF d8]) simp_all
  finally show ?case by simp
qed simp

lemma heaps_loop:
  "drop off r = concat (map mem_heap_bytes hs) @ rest \<Longrightarrow> off \<le> length r \<Longrightarrow> length A = 264 + i * 16 \<Longrightarrow>
   mem_heaps_loop r hc (length hs) i off (A @ replicate (16 * length hs) 0 @ C) =
     (Some (off + 12 * length hs), A @ heaps_out (unat hc) i hs @ C)"
proof (induction hs arbitrary: i off A)
  case (Cons h hs)
  have r: "drop off r = mem_heap_bytes h @ concat (map mem_heap_bytes hs) @ rest" using Cons.prems(1) by simp
  have len: "off + 12 \<le> length r"
    using arg_cong[OF r, of length] Cons.prems(2) by simp
  have "drop (off + 12) r = drop 12 (drop off r)" by (simp add: add.commute)
  hence d12: "drop (off + 12) r = concat (map mem_heap_bytes hs) @ rest" unfolding r by simp
  have "drop (off + 8) r = drop 8 (drop off r)" by (simp add: add.commute)
  hence f: "un64 (drop off r) = fst h" "un32 (drop (off + 8) r) = snd h" unfolding r by simp_all
  have z: "replicate (16 * length (h # hs)) (0::u8) =
      replicate 8 0 @ replicate 4 0 @ replicate 4 0 @ replicate (16 * length hs) 0"
    by (simp flip: replicate_add)
  let ?Z = "replicate 4 0 @ replicate (16 * length hs) 0 @ C"
  have p1: "poke (A @ replicate 8 0 @ replicate 4 0 @ ?Z) (264 + i * 16) (le64 (fst h)) =
      (A @ le64 (fst h)) @ replicate 4 0 @ ?Z" using poke_at[of A _ "replicate 8 0" "le64 (fst h)"] Cons.prems(3) by simp
  have p2: "poke ((A @ le64 (fst h)) @ replicate 4 0 @ ?Z) (264 + i * 16 + 8) (le32 (snd h)) =
      (A @ le64 (fst h)) @ le32 (snd h) @ ?Z" using Cons.prems(3) by (intro poke_at) simp_all
  have z16: "replicate 8 0 @ replicate 4 0 @ ?Z = replicate 16 0 @ replicate (16 * length hs) 0 @ C"
    by (simp flip: replicate_add append_assoc)
  have e: "A @ replicate (16 * length (h # hs)) 0 @ C = A @ replicate 8 0 @ replicate 4 0 @ ?Z" unfolding z by simp
  let ?A = "A @ (if i < unat hc then mem_heap_bytes h @ replicate 4 0 else replicate 16 0)"
  have o: "(if i < unat hc then poke (poke (A @ replicate (16 * length (h # hs)) 0 @ C) (264 + i * 16)
        (le64 (fst h))) (264 + i * 16 + 8) (le32 (snd h))
      else A @ replicate (16 * length (h # hs)) 0 @ C) = ?A @ replicate (16 * length hs) 0 @ C"
  proof (cases "i < unat hc")
    case True
    thus ?thesis unfolding e p1 p2 by (simp add: mem_heap_bytes_def)
  next
    case False
    thus ?thesis unfolding e z16 by simp
  qed
  have nl: "\<not> length r < off + 12" using len by simp
  have "mem_heaps_loop r hc (length (h # hs)) i off (A @ replicate (16 * length (h # hs)) 0 @ C) =
      mem_heaps_loop r hc (length hs) (i + 1) (off + 12) (?A @ replicate (16 * length hs) 0 @ C)"
    unfolding list.size(4) add_0_right add_Suc_right mem_heaps_loop.simps if_not_P[OF nl] Let_def f
    using o by (simp only: list.size(4) add_0_right add_Suc_right)
  also have "\<dots> = (Some (off + 12 + 12 * length hs), ?A @ heaps_out (unat hc) (i + 1) hs @ C)"
    using Cons.prems(3) len by (intro Cons.IH[OF d12]) simp_all
  finally show ?case by simp
qed simp

lemma types_out_eq:
  "types_out tc i ts = concat (map mem_type_bytes (take (tc - i) ts)) @ replicate (8 * (length ts - (tc - i))) 0"
proof (induction ts arbitrary: i)
  case (Cons t ts)
  show ?case
  proof (cases "i < tc")
    case True
    then obtain k where "tc - i = Suc k" "tc - Suc i = k" by (metis Suc_diff_Suc)
    thus ?thesis using True Cons.IH[of "Suc i"] by simp
  qed (use Cons.IH[of "Suc i"] in \<open>simp flip: replicate_add\<close>)
qed simp

lemma heaps_out_eq:
  "heaps_out hc i hs = concat (map (\<lambda>h. mem_heap_bytes h @ replicate 4 0) (take (hc - i) hs)) @
     replicate (16 * (length hs - (hc - i))) 0"
proof (induction hs arbitrary: i)
  case (Cons h hs)
  show ?case
  proof (cases "i < hc")
    case True
    then obtain k where "hc - i = Suc k" "hc - Suc i = k" by (metis Suc_diff_Suc)
    thus ?thesis using True Cons.IH[of "Suc i"] by simp
  qed (use Cons.IH[of "Suc i"] in \<open>simp flip: replicate_add\<close>)
qed simp

lemma length_concat_const: "\<forall>x\<in>set xs. length (f x) = n \<Longrightarrow> length (concat (map f xs)) = n * length xs"
  by (induction xs) simp_all

lemma mem_reply_drops:
  fixes tc hc :: u32 and pad :: "u8 list"
  assumes "length types = 32" "length heaps = 16"
  defines "r \<equiv> mem_reply tc types hc heaps @ pad"
  shows "drop 12 r = le32 tc @ le64 32 @ concat (map mem_type_bytes types) @ (le32 hc @ le64 16) @
      concat (map mem_heap_bytes heaps) @ pad"
    "drop 24 r = concat (map mem_type_bytes types) @ (le32 hc @ le64 16) @ concat (map mem_heap_bytes heaps) @ pad"
    "drop 280 r = le32 hc @ le64 16 @ concat (map mem_heap_bytes heaps) @ pad"
    "drop 292 r = concat (map mem_heap_bytes heaps) @ pad"
    "484 \<le> length r"
proof -
  let ?T = "concat (map mem_type_bytes types)" and ?H = "concat (map mem_heap_bytes heaps)"
  have lt: "length ?T = 256" "length ?H = 192"
    using assms(1,2) by (simp_all add: length_concat_const[where n = 8] length_concat_const[where n = 12])
  have r: "r = (le32 8 @ le64 1 @ le32 tc @ le64 32) @ ?T @ (le32 hc @ le64 16) @ ?H @ pad"
    by (simp add: r_def mem_reply_def)
  have d12: "drop 12 r = le32 tc @ le64 32 @ ?T @ (le32 hc @ le64 16) @ ?H @ pad" unfolding r by simp
  have d24: "drop 24 r = ?T @ (le32 hc @ le64 16) @ ?H @ pad" unfolding r by simp
  have "drop 280 r = drop 256 (drop 24 r)" by (simp only: drop_drop) simp
  hence d280: "drop 280 r = le32 hc @ le64 16 @ ?H @ pad" unfolding d24 using lt by simp
  have "drop 292 r = drop 12 (drop 280 r)" by (simp only: drop_drop) simp
  hence d292: "drop 292 r = ?H @ pad" unfolding d280 by simp
  have len: "484 \<le> length r" unfolding r using lt by simp
  show "drop 12 r = le32 tc @ le64 32 @ ?T @ (le32 hc @ le64 16) @ ?H @ pad" by (rule d12)
  show "drop 24 r = ?T @ (le32 hc @ le64 16) @ ?H @ pad" by (rule d24)
  show "drop 280 r = le32 hc @ le64 16 @ ?H @ pad" by (rule d280)
  show "drop 292 r = ?H @ pad" by (rule d292)
  show "484 \<le> length r" by (rule len)
qed

text \<open>C23 (roundtrip): a well-formed reply is parsed into the 520-byte structure with exactly the memory
  types and heaps the host sent, at the offsets of the LP64 layout, the rest zero.\<close>

theorem memory_properties_roundtrip:
  assumes "length types = 32" "length heaps = 16" "tc \<le> 32" "hc \<le> 16" "length out = 520"
  shows "parse_memory_properties (mem_reply tc types hc heaps @ pad) out =
    (Inr (), le32 tc @ concat (map mem_type_bytes (take (unat tc) types)) @ replicate (8 * (32 - unat tc)) 0 @
       le32 hc @ concat (map (\<lambda>h. mem_heap_bytes h @ replicate 4 0) (take (unat hc) heaps)) @
       replicate (16 * (16 - unat hc)) 0)"
proof -
  let ?r = "mem_reply tc types hc heaps @ pad"
  note d = mem_reply_drops[OF assms(1,2), of tc hc pad]
  define O1 where "O1 = types_out (unat tc) 0 types"
  have lO: "length O1 = 256"
  proof -
    have "length (types_out c i ts) = 8 * length ts" for c i ts by (induction ts arbitrary: i) simp_all
    thus ?thesis using assms(1) by (simp add: O1_def)
  qed
  have z: "replicate 520 (0::u8) = replicate 4 0 @ replicate (8 * length types) 0 @ replicate 4 0 @ replicate (16 * length heaps) 0"
    using assms(1,2) by (simp flip: replicate_add)
  have p0: "poke (poke out 0 (replicate 520 0)) 0 (le32 tc) =
      le32 tc @ replicate (8 * length types) 0 @ replicate 4 0 @ replicate (16 * length heaps) 0"
    using assms(1,2,5) z by (simp add: poke_def)
  have t: "mem_types_loop ?r tc 32 0 24
      (le32 tc @ replicate (8 * length types) 0 @ replicate 4 0 @ replicate (16 * length heaps) 0) =
      (Some 280, le32 tc @ O1 @ replicate 4 0 @ replicate (16 * length heaps) 0)"
    using types_loop[OF d(2), of "le32 tc" 0 tc "replicate 4 0 @ replicate (16 * length heaps) 0"] d(5) assms(1)
    by (simp add: O1_def)
  have p1: "poke (le32 tc @ O1 @ replicate 4 0 @ replicate (16 * length heaps) 0) 260 (le32 hc) =
      (le32 tc @ O1 @ le32 hc) @ replicate (16 * length heaps) 0 @ []"
    using poke_at[of "le32 tc @ O1" 260 "replicate 4 0" "le32 hc" "replicate (16 * length heaps) 0"] lO by simp
  have h: "mem_heaps_loop ?r hc 16 0 292 ((le32 tc @ O1 @ le32 hc) @ replicate (16 * length heaps) 0 @ []) =
      (Some 484, (le32 tc @ O1 @ le32 hc) @ heaps_out (unat hc) 0 heaps)"
    using heaps_loop[OF d(4), of "le32 tc @ O1 @ le32 hc" 0 hc "[]"] d(5) lO assms(2) by simp
  have "parse_memory_properties ?r out = (Inr (), (le32 tc @ O1 @ le32 hc) @ heaps_out (unat hc) 0 heaps)"
  proof -
    have "un32 ?r = 8" by (simp add: mem_reply_def)
    moreover have "un32 (drop 12 ?r) = tc" unfolding d(1) by simp
    moreover have "un32 (drop 280 ?r) = hc" unfolding d(3) by simp
    moreover have "\<not> length ?r < 24" "\<not> length ?r < 284" using d(5) by simp_all
    moreover have "\<not> 32 < tc" "\<not> 16 < hc" using assms(3,4) by simp_all
    ultimately show ?thesis
      unfolding parse_memory_properties_def
      by (simp only: Let_def p0 t p1 h prod.case option.case if_False venus_consts simp_thms
          numeral_plus_numeral add_num_simps)
  qed
  thus ?thesis using assms(1,2) by (simp add: O1_def types_out_eq heaps_out_eq)
qed

section \<open>Queries and the host\<close>

lemma load_zeroed:
  assumes "n \<le> N" "n \<le> 2 ^ 40"
  shows "mem_load a n (mem_store a (replicate N 0) m) = replicate n 0"
proof (rule nth_equalityI)
  fix i assume "i < length (mem_load a n (mem_store a (replicate N 0) m))"
  hence i: "i < n" by (simp add: mem_load_def)
  hence "unat (of_nat i :: u64) = i" using assms(2) by (intro unat_of_nat_u64) simp
  thus "mem_load a n (mem_store a (replicate N 0) m) ! i = replicate n 0 ! i"
    using i assms(1) by (simp add: mem_load_def mem_store_def)
qed (simp add: mem_load_def)

lemma spin_quiet: "(\<And>h. shm (poll h) = shm h) \<Longrightarrow> shm (reply_spin poll a k h) = shm h"
  by (induction poll a k h rule: reply_spin.induct) (subst reply_spin.simps, auto simp: Let_def)

lemma set_reply_sent:
  obtains e0 where "uk_venus_encoder_init (stack_buf 320) 320 = Inr e0"
    "encoded (uk_venus_encode_vkSetReplyCommandStreamMESA e0 res off sz) =
      concat (venus_wire H (SetReplyCommandStream res off sz))"
    "ve_pos (uk_venus_encode_vkSetReplyCommandStreamMESA e0 res off sz) = 36"
proof -
  let ?w = "venus_wire H (SetReplyCommandStream res off sz)"
  have sm: "\<forall>c\<in>set ?w. small_bytes c" and l: "length (concat ?w) = 36" by simp_all
  obtain e0 where e0: "uk_venus_encoder_init (stack_buf 320) 320 = Inr e0"
    "\<not> ve_overflow (vs.puts ?w e0)" "encoded (vs.puts ?w e0) = concat ?w"
    using stack_encoded[of 320 ?w] sm l by auto
  have i0: "ve_pos e0 = 0" using e0(1) by (auto simp: uk_venus_encoder_init_def stack_buf_def)
  have "ve_pos (vs.puts ?w e0) = ve_pos e0 + of_nat (length (concat ?w))"
    using puts_pos[OF e0(2)] by simp
  hence "ve_pos (vs.puts ?w e0) = 36" unfolding l i0 by simp
  thus ?thesis
    using that[of e0] e0(1,3) other_wire(4)[of H res off sz e0, unfolded venus_encode.simps] by simp
qed

definition reply_zeroed :: "reply_cache \<Rightarrow> (u64 \<Rightarrow> u8) \<Rightarrow> u64 \<Rightarrow> u8" where
  "reply_zeroed rc = mem_store (blob_mapped_addr (g_reply_blob rc))
     (replicate (unat (blob_mapped_size (g_reply_blob rc))) 0)"

lemma roundtrip_eq:
  assumes "g_reply_blob_ready rc" "ctx_created c" "query \<noteq> []" "length query \<le> 284" "reply_cap \<noteq> 0"
  shows "uk_venus_query_roundtrip e poll rc (Some c) query reply_cap s =
    (case uk_virtio_gpu_gl_context_submit e (Some c)
            (Some (concat (venus_wire H (SetReplyCommandStream (blob_resource_id (g_reply_blob rc)) 0
               (blob_mapped_size (g_reply_blob rc)))) @ query)) True (with_shm (reply_zeroed rc) s) of
       None \<Rightarrow> None
     | Some (Inl er, _, s) \<Rightarrow> Some (Inl er, rc, s)
     | Some (Inr _, f, s) \<Rightarrow>
         (let h = reply_spin poll (blob_mapped_addr (g_reply_blob rc)) 2000000 (host s) in
          Some (Inr (mem_load (blob_mapped_addr (g_reply_blob rc))
                  (min (unat reply_cap) (unat (blob_mapped_size (g_reply_blob rc)))) (shm h)), rc,
            s\<lparr>vg := snd (uk_virtio_gpu_fence_wait (vg s) (case f of Some i \<Rightarrow> i | None \<Rightarrow> 0) 2000000000),
              host := h\<rparr>)))"
proof -
  let ?b = "g_reply_blob rc"
  obtain e0 where e0: "uk_venus_encoder_init (stack_buf 320) 320 = Inr e0"
    "encoded (uk_venus_encode_vkSetReplyCommandStreamMESA e0 (blob_resource_id ?b) 0 (blob_mapped_size ?b)) =
      concat (venus_wire H (SetReplyCommandStream (blob_resource_id ?b) 0 (blob_mapped_size ?b)))"
    "ve_pos (uk_venus_encode_vkSetReplyCommandStreamMESA e0 (blob_resource_id ?b) 0 (blob_mapped_size ?b)) = 36"
    by (rule set_reply_sent)
  have "unat (of_nat (length query) :: u64) = length query" using assms(4) by (intro unat_of_nat_u64) simp
  hence "unat (36 + of_nat (length query) :: u64) = 36 + length query"
    using assms(4) by (subst unat_add_small) simp_all
  hence fit: "\<not> (320 :: u64) < 36 + of_nat (length query)" using assms(4) by (simp add: word_less_nat_alt)
  have n: "unat (if blob_mapped_size ?b < ucast reply_cap then ucast (blob_mapped_size ?b) else reply_cap :: u32) =
      min (unat reply_cap) (unat (blob_mapped_size ?b))"
  proof (cases "blob_mapped_size ?b < ucast reply_cap")
    case True
    hence "unat (blob_mapped_size ?b) < unat reply_cap" by (simp add: word_less_nat_alt)
    moreover have "unat (blob_mapped_size ?b) < 2 ^ 32" using calculation unat_u32_less[of reply_cap] by simp
    ultimately show ?thesis using True by (simp add: unsigned_ucast_eq take_bit_nat_eq_self min_def)
  next
    case False
    thus ?thesis by (simp add: word_less_nat_alt min_def)
  qed
  have n1: "unat (ucast (blob_mapped_size ?b) :: u32) = min (unat reply_cap) (unat (blob_mapped_size ?b))"
    if "blob_mapped_size ?b < ucast reply_cap" using n that by simp
  have n2: "min (unat reply_cap) (unat (blob_mapped_size ?b)) = unat reply_cap"
    if "\<not> blob_mapped_size ?b < ucast reply_cap" using n that by simp
  show ?thesis
    using assms(1-3,5) e0 fit
    by (simp add: uk_venus_query_roundtrip_def reply_prepare_def Let_def reply_zeroed_def n1 n2 del: venus_wire.simps
        split: option.splits prod.splits sum.splits)
qed

text \<open>The bytes each query sends after the command that sets the reply stream.\<close>

lemma patched:
  assumes "ve_wf q" "encoded q = le32 a @ le32 b @ rest" "\<not> ve_overflow q"
  shows "encoded (patch_reply_flag q) = le32 a @ le32 1 @ rest"
proof -
  have l: "length (encoded q) = unat (ve_pos q)" using assms(1) by (simp add: encoded_def ve_wf_def)
  hence p: "8 \<le> unat (ve_pos q)" unfolding assms(2) by simp
  have "ve_buf q = encoded q @ drop (unat (ve_pos q)) (ve_buf q)" by (simp add: encoded_def)
  hence b: "ve_buf q = le32 a @ le32 b @ rest @ drop (unat (ve_pos q)) (ve_buf q)" unfolding assms(2) by simp
  have "poke (ve_buf q) 4 (le32 1) = le32 a @ le32 1 @ rest @ drop (unat (ve_pos q)) (ve_buf q)"
    by (subst b, rule poke_at) simp_all
  moreover have "length rest + 8 = unat (ve_pos q)" using l unfolding assms(2) by simp
  ultimately show ?thesis
    using p by (simp add: encoded_def patch_reply_flag_def word_le_nat_alt)
qed

lemma stack_wf: "uk_venus_encoder_init (stack_buf n) (of_nat n) = Inr e0 \<Longrightarrow> n \<le> 2 ^ 62 \<Longrightarrow> ve_wf e0"
  by (auto simp: uk_venus_encoder_init_def stack_buf_def ve_wf_def unat_of_nat_u64 split: if_splits)

lemma patched_64:
  assumes "\<forall>c\<in>set cs. small_bytes c" "length (concat cs) \<le> 64" "concat cs = le32 a @ le32 b @ rest"
  obtains e0 where "uk_venus_encoder_init (stack_buf 64) 64 = Inr e0"
    "\<not> ve_overflow (vs.puts cs e0)" "encoded (patch_reply_flag (vs.puts cs e0)) = le32 a @ le32 1 @ rest"
proof -
  obtain e0 where e0: "uk_venus_encoder_init (stack_buf 64) 64 = Inr e0"
    "\<not> ve_overflow (vs.puts cs e0)" "encoded (vs.puts cs e0) = concat cs" by (rule sent_64[OF assms(1,2)])
  have "ve_wf e0" using stack_wf[of 64 e0] e0(1) by simp
  hence "ve_wf (vs.puts cs e0)" using assms(1) by (rule vs.puts_wf)
  from that[OF e0(1,2) patched[OF this _ e0(2)]] e0(3) assms(3) show ?thesis by simp
qed

lemma patched_256:
  assumes "\<forall>c\<in>set cs. small_bytes c" "length (concat cs) \<le> 256" "concat cs = le32 a @ le32 b @ rest"
  obtains e0 where "uk_venus_encoder_init (stack_buf 256) 256 = Inr e0"
    "\<not> ve_overflow (vs.puts cs e0)" "encoded (patch_reply_flag (vs.puts cs e0)) = le32 a @ le32 1 @ rest"
proof -
  obtain e0 where e0: "uk_venus_encoder_init (stack_buf 256) 256 = Inr e0"
    "\<not> ve_overflow (vs.puts cs e0)" "encoded (vs.puts cs e0) = concat cs" by (rule sent_256[OF assms(1,2)])
  have "ve_wf e0" using stack_wf[of 256 e0] e0(1) by simp
  hence "ve_wf (vs.puts cs e0)" using assms(1) by (rule vs.puts_wf)
  from that[OF e0(1,2) patched[OF this _ e0(2)]] e0(3) assms(3) show ?thesis by simp
qed

definition device_fields :: "vk_headers \<Rightarrow> u64 \<Rightarrow> u64 \<Rightarrow> u32 \<Rightarrow> u8 list" where
  "device_fields H physdev device qfi =
    concat (tl (tl (venus_wire H (CreateDevice physdev device qfi 0x3f800000 0 None))))"

lemmas query_puts = other_wire[unfolded venus_encode.simps]

lemma name_query_eq:
  "2 \<le> cap \<Longrightarrow> uk_venus_query_device_name e poll rc ctx physdev cap s =
    (case uk_venus_query_roundtrip e poll rc ctx (le32 6 @ le32 1 @ le64 physdev @ le64 1) 1024 s of
       None \<Rightarrow> None
     | Some (Inl _, rc, s) \<Rightarrow> Some (Inl (EOTHER 1), rc, s)
     | Some (Inr reply, rc, s) \<Rightarrow>
         if length reply < 42 then Some (Inl (EOTHER 1), rc, s)
         else Some (uk_venus_extract_name reply (unat cap), rc, s))"
proof -
  assume cap: "2 \<le> cap"
  obtain e0 where "uk_venus_encoder_init (stack_buf 64) 64 = Inr e0"
    "\<not> ve_overflow (vs.puts (venus_wire khronos (GetPhysicalDeviceProperties physdev)) e0)"
    "encoded (vs.puts (venus_wire khronos (GetPhysicalDeviceProperties physdev)) e0) =
      concat (venus_wire khronos (GetPhysicalDeviceProperties physdev))"
    by (rule sent_64[of "venus_wire khronos (GetPhysicalDeviceProperties physdev)"]) simp_all
  with cap show ?thesis
    by (simp add: uk_venus_query_device_name_def query_puts(5)[of _ _ khronos] UK_VENUS_PROPS_NAME_OFF_def
        Let_def not_less[symmetric] del: vs.puts_simps split: option.splits sum.splits prod.splits)
qed

lemma buffer_query_eq:
  "uk_venus_query_buffer_requirements e poll rc ctx device buffer s =
    (case uk_venus_query_roundtrip e poll rc ctx (le32 30 @ le32 1 @ le64 device @ le64 buffer @ le64 1) 64 s of
       None \<Rightarrow> None
     | Some (Inl _, rc, s) \<Rightarrow> Some (Inl (EOTHER 1), rc, s)
     | Some (Inr r, rc, s) \<Rightarrow>
         if 32 \<le> length r \<and> un32 r = 30
         then Some (Inr (un64 (drop 12 r), un64 (drop 20 r), un32 (drop 28 r)), rc, s)
         else Some (Inl (EOTHER 1), rc, s))"
proof -
  obtain e0 where "uk_venus_encoder_init (stack_buf 64) 64 = Inr e0"
    "\<not> ve_overflow (vs.puts (venus_wire khronos (GetBufferMemoryRequirements device buffer)) e0)"
    "encoded (vs.puts (venus_wire khronos (GetBufferMemoryRequirements device buffer)) e0) =
      concat (venus_wire khronos (GetBufferMemoryRequirements device buffer))"
    by (rule sent_64[of "venus_wire khronos (GetBufferMemoryRequirements device buffer)"]) simp_all
  thus ?thesis
    by (auto simp add: uk_venus_query_buffer_requirements_def query_puts(7)[of _ _ _ khronos] venus_consts
        Let_def not_less simp del: vs.puts_simps split: option.splits sum.splits prod.splits)
qed

lemma device_query_eq:
  "uk_venus_create_device_checked H e poll rc ctx physdev device qfi s =
    (case uk_venus_query_roundtrip e poll rc ctx (le32 11 @ le32 1 @ device_fields H physdev device qfi) 64 s of
       None \<Rightarrow> None
     | Some (Inl _, rc, s) \<Rightarrow> Some (Inl (EOTHER 1), rc, s)
     | Some (Inr r, rc, s) \<Rightarrow>
         if 8 \<le> length r \<and> un32 r = 11 then Some (Inr (un32 (drop 4 r)), rc, s)
         else Some (Inl (EOTHER 1), rc, s))"
proof -
  let ?w = "venus_wire H (CreateDevice physdev device qfi 0x3f800000 0 None)"
  obtain e0 where "uk_venus_encoder_init (stack_buf 256) 256 = Inr e0" "\<not> ve_overflow (vs.puts ?w e0)"
    "encoded (patch_reply_flag (vs.puts ?w e0)) = le32 11 @ le32 1 @ device_fields H physdev device qfi"
    by (rule patched_256[of ?w 11 0]) (simp_all add: strs_chunks_def device_fields_def)
  moreover have "uk_venus_encode_vkCreateDevice H e1 physdev device qfi 0x3f800000 0 None = vs.puts ?w e1" for e1
    using device_wire[of None H] by (simp add: short_strs_def del: vs.puts_simps venus_wire.simps)
  ultimately show ?thesis
    by (auto simp add: uk_venus_create_device_checked_def venus_consts
        Let_def not_less simp del: vs.puts_simps venus_wire.simps split: option.splits sum.splits prod.splits)
qed

lemma idle_query_eq:
  "uk_venus_wait_queue_idle e poll rc ctx queue s =
    map_option (\<lambda>(r, rc, s). (map_sum id (\<lambda>_. ()) r, rc, s))
      (uk_venus_query_roundtrip e poll rc ctx (le32 19 @ le32 1 @ le64 queue) 64 s)"
proof -
  obtain e0 where "uk_venus_encoder_init (stack_buf 64) 64 = Inr e0"
    "\<not> ve_overflow (vs.puts (venus_wire khronos (QueueWaitIdle queue)) e0)"
    "encoded (patch_reply_flag (vs.puts (venus_wire khronos (QueueWaitIdle queue)) e0)) =
      le32 19 @ le32 1 @ le64 queue"
    by (rule patched_64[of "venus_wire khronos (QueueWaitIdle queue)" 19 0]) simp_all
  thus ?thesis
    by (simp add: uk_venus_wait_queue_idle_def query_puts(8)[of _ _ khronos] Let_def del: vs.puts_simps)
qed

lemma memory_query_eq:
  "uk_venus_query_memory_properties H e poll rc ctx physdev out s =
    (case uk_venus_query_roundtrip e poll rc ctx (le32 8 @ le32 1 @ le64 physdev @ le64 1 @
            le64 (of_nat (MAX_MEMORY_TYPES H)) @ le64 (of_nat (MAX_MEMORY_HEAPS H))) 1024 s of
       None \<Rightarrow> None
     | Some (Inl _, rc, s) \<Rightarrow> Some (Inl (EOTHER 1), out, rc, s)
     | Some (Inr r, rc, s) \<Rightarrow> (case parse_memory_properties r out of (res, out) \<Rightarrow> Some (res, out, rc, s)))"
proof -
  obtain e0 where "uk_venus_encoder_init (stack_buf 64) 64 = Inr e0"
    "\<not> ve_overflow (vs.puts (venus_wire H (GetPhysicalDeviceMemoryProperties physdev)) e0)"
    "encoded (vs.puts (venus_wire H (GetPhysicalDeviceMemoryProperties physdev)) e0) =
      concat (venus_wire H (GetPhysicalDeviceMemoryProperties physdev))"
    by (rule sent_64[of "venus_wire H (GetPhysicalDeviceMemoryProperties physdev)"]) simp_all
  thus ?thesis
    by (simp add: uk_venus_query_memory_properties_def query_puts(6) Let_def del: vs.puts_simps
        split: option.splits sum.splits prod.splits)
qed

text \<open>C34 (functional): the commands sent for a buffer's requirements, for a checked device creation and
  for waiting on a queue are the encodings of those commands with the flag that makes the host reply;
  the results are the fields of the reply at its packed offsets.\<close>

theorem reply_queries:
  "uk_venus_query_buffer_requirements e poll rc ctx device buffer s =
    (case uk_venus_query_roundtrip e poll rc ctx (le32 30 @ le32 1 @ le64 device @ le64 buffer @ le64 1) 64 s of
       None \<Rightarrow> None
     | Some (Inl _, rc, s) \<Rightarrow> Some (Inl (EOTHER 1), rc, s)
     | Some (Inr r, rc, s) \<Rightarrow>
         if 32 \<le> length r \<and> un32 r = 30
         then Some (Inr (un64 (drop 12 r), un64 (drop 20 r), un32 (drop 28 r)), rc, s)
         else Some (Inl (EOTHER 1), rc, s)) \<and>
   uk_venus_create_device_checked H e poll rc ctx physdev device qfi s =
    (case uk_venus_query_roundtrip e poll rc ctx (le32 11 @ le32 1 @ device_fields H physdev device qfi) 64 s of
       None \<Rightarrow> None
     | Some (Inl _, rc, s) \<Rightarrow> Some (Inl (EOTHER 1), rc, s)
     | Some (Inr r, rc, s) \<Rightarrow>
         if 8 \<le> length r \<and> un32 r = 11 then Some (Inr (un32 (drop 4 r)), rc, s)
         else Some (Inl (EOTHER 1), rc, s)) \<and>
   uk_venus_wait_queue_idle e poll rc ctx queue s =
    map_option (\<lambda>(r, rc, s). (map_sum id (\<lambda>_. ()) r, rc, s))
      (uk_venus_query_roundtrip e poll rc ctx (le32 19 @ le32 1 @ le64 queue) 64 s)"
  by (intro conjI buffer_query_eq device_query_eq idle_query_eq)

lemma roundtrip_unanswered:
  assumes "g_reply_blob_ready rc" "ctx_created c" "query \<noteq> []" "length query \<le> 284" "reply_cap \<noteq> 0"
    "\<And>bytes. bytes \<noteq> [] \<Longrightarrow> length bytes < 2 ^ 32 \<Longrightarrow> \<exists>f s'.
       uk_virtio_gpu_gl_context_submit e (Some c) (Some bytes) True (with_shm (reply_zeroed rc) s) =
         Some (Inr (), f, s') \<and> shm (host s') = reply_zeroed rc (shm (host s))"
    "\<And>h. shm (poll h) = shm h"
  shows "\<exists>s'. uk_venus_query_roundtrip e poll rc (Some c) query reply_cap s =
    Some (Inr (replicate (min (unat reply_cap) (unat (blob_mapped_size (g_reply_blob rc)))) 0), rc, s')"
proof -
  let ?cmd = "concat (venus_wire khronos (SetReplyCommandStream (blob_resource_id (g_reply_blob rc)) 0
    (blob_mapped_size (g_reply_blob rc)))) @ query"
  have "?cmd \<noteq> []" "length ?cmd < 2 ^ 32" using assms(3,4) by simp_all
  from assms(6)[OF this] obtain f s' where s': "uk_virtio_gpu_gl_context_submit e (Some c) (Some ?cmd) True
      (with_shm (reply_zeroed rc) s) = Some (Inr (), f, s')" "shm (host s') = reply_zeroed rc (shm (host s))"
    by blast
  let ?n = "min (unat reply_cap) (unat (blob_mapped_size (g_reply_blob rc)))"
  have "?n \<le> 2 ^ 40" using unat_u32_less[of reply_cap] by simp
  hence "mem_load (blob_mapped_addr (g_reply_blob rc)) ?n (reply_zeroed rc (shm (host s))) = replicate ?n 0"
    unfolding reply_zeroed_def by (intro load_zeroed) simp
  thus ?thesis
    unfolding roundtrip_eq[OF assms(1-5), of e poll s khronos]
    by (simp add: s' spin_quiet[OF assms(7)] Let_def del: venus_wire.simps)
qed

lemma un32_zeros: "un32 (replicate n 0) = 0"
proof (cases "4 \<le> n")
  case True
  hence "replicate n (0::u8) = le32 0 @ replicate (n - 4) 0"
    by (simp add: le32_def numeral_eq_Suc flip: replicate_Suc)
  thus ?thesis by simp
next
  case False
  then consider "n = 0" | "n = 1" | "n = 2" | "n = 3" by linarith
  thus ?thesis by cases (simp_all add: numeral_eq_Suc)
qed

text \<open>C24 (error): when the host acknowledges the submission but never writes the reply, no earlier reply
  is taken for this one: the name, the buffer requirements, the device creation and the memory
  properties all fail.  Waiting for an idle queue succeeds nevertheless.\<close>

theorem unanswered_queries:
  assumes "g_reply_blob_ready rc" "ctx_created c"
    "\<And>bytes. bytes \<noteq> [] \<Longrightarrow> length bytes < 2 ^ 32 \<Longrightarrow> \<exists>f s'.
       uk_virtio_gpu_gl_context_submit e (Some c) (Some bytes) True (with_shm (reply_zeroed rc) s) =
         Some (Inr (), f, s') \<and> shm (host s') = reply_zeroed rc (shm (host s))"
    "\<And>h. shm (poll h) = shm h" "2 \<le> cap"
  shows "(\<exists>s'. uk_venus_query_device_name e poll rc (Some c) physdev cap s = Some (Inl (EOTHER 1), rc, s')) \<and>
    (\<exists>s'. uk_venus_query_buffer_requirements e poll rc (Some c) device buffer s = Some (Inl (EOTHER 1), rc, s')) \<and>
    (\<exists>s'. uk_venus_create_device_checked H e poll rc (Some c) physdev device qfi s = Some (Inl (EOTHER 1), rc, s')) \<and>
    (\<exists>s'. uk_venus_query_memory_properties H e poll rc (Some c) physdev out s = Some (Inl (EOTHER 1), out, rc, s')) \<and>
    (\<exists>s'. uk_venus_wait_queue_idle e poll rc (Some c) queue s = Some (Inr (), rc, s'))"
proof -
  have dev: "length (device_fields H physdev device qfi) \<le> 276"
    by (simp add: device_fields_def strs_chunks_def)
  have rt: "\<exists>s'. uk_venus_query_roundtrip e poll rc (Some c) q k s =
      Some (Inr (replicate (min (unat k) (unat (blob_mapped_size (g_reply_blob rc)))) 0), rc, s')"
    if "q \<noteq> []" "length q \<le> 284" "k \<noteq> 0" for q k
    using roundtrip_unanswered[OF assms(1,2) that assms(3,4)] .
  show ?thesis
  proof (intro conjI, goal_cases)
    case 1
    obtain s' where "uk_venus_query_roundtrip e poll rc (Some c) (le32 6 @ le32 1 @ le64 physdev @ le64 1) 1024 s =
      Some (Inr (replicate (min 1024 (unat (blob_mapped_size (g_reply_blob rc)))) 0), rc, s')"
      using rt[of "le32 6 @ le32 1 @ le64 physdev @ le64 1" 1024] by auto
    thus ?case unfolding name_query_eq[OF assms(5)]
      by (simp add: uk_venus_extract_name_def un32_zeros venus_consts)
  next
    case 2
    show ?case
      using rt[of "le32 30 @ le32 1 @ le64 device @ le64 buffer @ le64 1" 64]
      by (auto simp: buffer_query_eq un32_zeros)
  next
    case 3
    show ?case
      using rt[of "le32 11 @ le32 1 @ device_fields H physdev device qfi" 64] dev
      by (auto simp: device_query_eq un32_zeros)
  next
    case 4
    show ?case
      using rt[of "le32 8 @ le32 1 @ le64 physdev @ le64 1 @ le64 (of_nat (MAX_MEMORY_TYPES H)) @
        le64 (of_nat (MAX_MEMORY_HEAPS H))" 1024]
      by (auto simp: memory_query_eq parse_memory_properties_def un32_zeros venus_consts)
  next
    case 5
    show ?case
      using rt[of "le32 19 @ le32 1 @ le64 queue" 64]
      by (auto simp: idle_query_eq un32_zeros)
  qed
qed

definition demo_cache :: reply_cache where
  "demo_cache = \<lparr> g_reply_blob = zero_blob\<lparr>blob_mapped_addr := 0x70000000, blob_mapped_size := 4096\<rparr>,
     g_reply_blob_ready = True \<rparr>"

theorem unanswered_queries_witness:
  "(\<exists>s'. uk_venus_query_buffer_requirements answering_machine (\<lambda>h. h) demo_cache
      (Some (ring_ctx staged_ring)) 1 2 demo_ctx_sys = Some (Inl (EOTHER 1), demo_cache, s')) \<and>
   (\<exists>s'. uk_venus_wait_queue_idle answering_machine (\<lambda>h. h) demo_cache
      (Some (ring_ctx staged_ring)) 3 demo_ctx_sys = Some (Inr (), demo_cache, s'))"
proof -
  let ?c = "ring_ctx staged_ring" and ?s = "with_shm (reply_zeroed demo_cache) demo_ctx_sys"
  have c: "ctx_id ?c = 1" "ctx_created ?c" by (simp_all add: staged_ring_def)
  have "\<exists>f s'. uk_virtio_gpu_gl_context_submit answering_machine (Some ?c) (Some bytes) True ?s = Some (Inr (), f, s') \<and>
      shm (host s') = reply_zeroed demo_cache (shm (host demo_ctx_sys))"
    if "bytes \<noteq> []" "length bytes < 2 ^ 32" for bytes
    using machine_submit[of ?s ?c 0 bytes] that demo_ctx_alloc(2,3) by (auto simp: c demo_ctx_sys_def)
  from unanswered_queries[OF _ c(2) this, of "\<lambda>h. h" 2] show ?thesis
    by (simp add: demo_cache_def)
qed

theorem memory_properties_roundtrip_witness:
  "fst (parse_memory_properties (mem_reply 1 ((7, 0) # replicate 31 (0, 0)) 1 ((1024, 1) # replicate 15 (0, 0)))
      (replicate 520 0)) = Inr ()"
  using memory_properties_roundtrip[of "(7, 0) # replicate 31 (0, 0)" "(1024, 1) # replicate 15 (0, 0)" 1 1
      "replicate 520 0" "[]"] by (simp del: replicate.simps)

section \<open>Sequences of queries\<close>

lemma within_0_host: "within k s t \<Longrightarrow> within k s (t\<lparr>host := h\<rparr>)"
  using within_trans[OF _ within_host[of 0 t h], of k s] by simp

lemma within_chain5:
  "within (Suc 0) s t \<Longrightarrow> within 5 s t"
  "within (Suc 0) s t \<Longrightarrow> within (Suc 0) t u \<Longrightarrow> within 5 s u"
  "within (Suc 0) s t \<Longrightarrow> within (Suc 0) t u \<Longrightarrow> within (Suc 0) u v \<Longrightarrow> within 5 s v"
  "within (Suc 0) s t \<Longrightarrow> within (Suc 0) t u \<Longrightarrow> within (Suc 0) u v \<Longrightarrow> within (Suc (Suc 0)) v w \<Longrightarrow> within 5 s w"
  using within_trans[of "Suc 0" s t "Suc 0" u] within_trans[of 2 s u "Suc 0" v] within_trans[of 3 s v "Suc (Suc 0)" w]
    within_mono[of _ s _ 5]
  by (simp_all add: numeral_eq_Suc)

lemma prepare_within:
  assumes "reply_prepare e rc c s = Some (r, rc', s')"
  shows "within 5 s s'"
  using assms
  by (auto simp: reply_prepare_def Let_def split: option.splits prod.splits sum.splits if_splits
      dest!: ctx_ops_within(3)[where k = 0] blob_ops_within(1,2)[where k = 0] err_blob_within[where k = 0]
        err_unmap_within[where k = 0] intro: within_chain5)

lemma prepare_cache:
  assumes "reply_prepare e rc c s = Some (r, rc', s')"
  shows "g_reply_blob_ready rc \<Longrightarrow> rc' = rc \<and> r = Inr ()"
    "g_reply_blob_ready rc' \<Longrightarrow> \<not> g_reply_blob_ready rc \<Longrightarrow>
      blob_mapped_addr (g_reply_blob rc') \<noteq> 0 \<and> 16 \<le> blob_mapped_size (g_reply_blob rc')"
  using assms
  by (auto simp: reply_prepare_def Let_def not_less split: option.splits prod.splits sum.splits if_splits)

lemma submit_wait_within:
  assumes "uk_virtio_gpu_gl_context_submit e c b fe (s\<lparr>host := h\<rparr>) = Some (r, f, t)"
  shows "within 2 s t" "within 2 s (t\<lparr>vg := snd (uk_virtio_gpu_fence_wait (vg t) g w), host := h'\<rparr>)"
proof -
  have st: "within 1 s t" using within_host_first[OF ctx_ops_within(5)[OF assms]] by simp
  thus "within 2 s t" by (rule within_mono) simp
  have "within 1 t (t\<lparr>vg := snd (uk_virtio_gpu_fence_wait (vg t) g w)\<rparr>)"
    using fence_wait_ok[of t g w] within_call[of t _ 0] by (cases "uk_virtio_gpu_fence_wait (vg t) g w") simp
  from within_0_host[OF within_trans[OF st this], of h'] show "within 2 s (t\<lparr>vg := snd (uk_virtio_gpu_fence_wait (vg t) g w), host := h'\<rparr>)"
    by (simp add: numeral_2_eq_2)
qed

definition cache_wf :: "reply_cache \<Rightarrow> bool" where
  "cache_wf rc \<longleftrightarrow> (if g_reply_blob_ready rc
     then blob_mapped_addr (g_reply_blob rc) \<noteq> 0 \<and> 16 \<le> blob_mapped_size (g_reply_blob rc) else True)"

lemma roundtrip_step:
  assumes "uk_venus_query_roundtrip e poll rc ctx query cap s = Some (r, rc', s')" "cache_wf rc"
  shows "within 7 s s' \<and> cache_wf rc' \<and> (g_reply_blob_ready rc \<longrightarrow> rc' = rc)"
proof (cases "\<exists>c. ctx = Some c \<and> ctx_created c \<and> query \<noteq> [] \<and> cap \<noteq> 0")
  case False
  thus ?thesis using assms by (auto simp: uk_venus_query_roundtrip_def split: option.splits)
next
  case True
  then obtain c where c: "ctx = Some c" "ctx_created c" "query \<noteq> []" "cap \<noteq> 0" by blast
  then obtain pr rc1 s1 where p: "reply_prepare e rc c s = Some (pr, rc1, s1)"
    using assms(1) by (auto simp: uk_venus_query_roundtrip_def split: option.splits)
  have w: "within 5 s s1" and wf: "cache_wf rc1" and same: "g_reply_blob_ready rc \<longrightarrow> rc1 = rc"
    using prepare_within[OF p] prepare_cache[OF p] assms(2)
    by (auto simp: cache_wf_def split: if_splits)
  have "within 2 s1 s' \<and> rc' = rc1"
    using assms(1) c p
    by (auto simp: uk_venus_query_roundtrip_def Let_def split: sum.splits option.splits prod.splits if_splits
        dest: submit_wait_within)
  thus ?thesis using within_trans[OF w, of 2 s'] wf same by auto
qed

text \<open>A session of queries, each with its arguments and what the host does while it is polled.\<close>

datatype 'h venus_query =
    QueryDeviceName u64 u32
  | QueryBufferRequirements u64 u64
  | QueryCreateDevice u64 u64 u32
  | QueryMemoryProperties u64 "u8 list"
  | QueryQueueIdle u64

fun query_do :: "vk_headers \<Rightarrow> 'h machine env \<Rightarrow> ('h machine \<Rightarrow> 'h machine)
    \<Rightarrow> uk_virtio_gpu_context option \<Rightarrow> 'h venus_query \<Rightarrow> reply_cache \<Rightarrow> 'h machine sys
    \<Rightarrow> (reply_cache \<times> 'h machine sys) option" where
  "query_do H e poll c (QueryDeviceName p cap) rc s =
    map_option snd (uk_venus_query_device_name e poll rc c p cap s)"
| "query_do H e poll c (QueryBufferRequirements d b) rc s =
    map_option snd (uk_venus_query_buffer_requirements e poll rc c d b s)"
| "query_do H e poll c (QueryCreateDevice p d q) rc s =
    map_option snd (uk_venus_create_device_checked H e poll rc c p d q s)"
| "query_do H e poll c (QueryMemoryProperties p out) rc s =
    map_option (snd \<circ> snd) (uk_venus_query_memory_properties H e poll rc c p out s)"
| "query_do H e poll c (QueryQueueIdle q) rc s =
    map_option snd (uk_venus_wait_queue_idle e poll rc c q s)"

fun query_run :: "vk_headers \<Rightarrow> 'h machine env
    \<Rightarrow> (('h machine \<Rightarrow> 'h machine) \<times> uk_virtio_gpu_context option \<times> 'h venus_query) list
    \<Rightarrow> reply_cache \<Rightarrow> 'h machine sys \<Rightarrow> (reply_cache \<times> 'h machine sys) option" where
  "query_run H e [] rc s = Some (rc, s)"
| "query_run H e ((poll, c, q) # qs) rc s =
    (case query_do H e poll c q rc s of None \<Rightarrow> None | Some (rc, s) \<Rightarrow> query_run H e qs rc s)"

lemma query_do_step:
  assumes "query_do H e poll c q rc s = Some (rc', s')" "cache_wf rc"
  shows "within 7 s s' \<and> cache_wf rc' \<and> (g_reply_blob_ready rc \<longrightarrow> rc' = rc)"
proof (cases q)
  case (QueryDeviceName p cap)
  show ?thesis
  proof (cases "2 \<le> cap")
    case True
    thus ?thesis
      using assms QueryDeviceName
      by (auto simp: name_query_eq split: option.splits sum.splits prod.splits if_splits dest: roundtrip_step)
  next
    case False
    thus ?thesis using assms QueryDeviceName by (simp add: uk_venus_query_device_name_def not_le)
  qed
qed (use assms in \<open>auto simp: buffer_query_eq device_query_eq memory_query_eq idle_query_eq
    split: option.splits sum.splits prod.splits if_splits dest: roundtrip_step\<close>)



end
