(* ===== verification/Drm_Virtgpu.thy ===== *)
theory Drm_Virtgpu
  imports Venus_Query
begin

text \<open>
  The virtgpu DRM shim: the ioctl surface of \<open>drm_virtgpu.c\<close> over the driver (parameters, context,
  command submission, blob handles) and the render-node facade of \<open>drm_virtgpu_fdio.c\<close>, which hands
  out opaque page-aligned mmap offsets and resolves them.

  The \<open>void *\<close> argument of an ioctl is an address in the client's memory, the same memory the blobs
  are mapped into, so every structure is read and written byte by byte; address 0 is NULL.  The shim's
  own records are not in that memory.  \<open>_vdev\<close>, set by a successful open, is the device of the
  system state; \<open>nb\<close> is the function-static counter \<open>next_blob_id\<close>.
\<close>

named_theorems drm_consts "ioctl numbers and parameters"

section \<open>Wire interface (\<open>virtgpu_drm.h\<close>)\<close>

definition VIRTGPU_PARAM_3D_FEATURES :: u64 where [drm_consts]: "VIRTGPU_PARAM_3D_FEATURES = 1"
definition VIRTGPU_PARAM_CAPSET_QUERY_FIX :: u64 where [drm_consts]: "VIRTGPU_PARAM_CAPSET_QUERY_FIX = 2"
definition VIRTGPU_PARAM_RESOURCE_BLOB :: u64 where [drm_consts]: "VIRTGPU_PARAM_RESOURCE_BLOB = 3"
definition VIRTGPU_PARAM_HOST_VISIBLE :: u64 where [drm_consts]: "VIRTGPU_PARAM_HOST_VISIBLE = 4"
definition VIRTGPU_PARAM_CROSS_DEVICE :: u64 where [drm_consts]: "VIRTGPU_PARAM_CROSS_DEVICE = 5"
definition VIRTGPU_PARAM_CONTEXT_INIT :: u64 where [drm_consts]: "VIRTGPU_PARAM_CONTEXT_INIT = 6"
definition VIRTGPU_PARAM_SUPPORTED_CAPSET_IDs :: u64 where [drm_consts]: "VIRTGPU_PARAM_SUPPORTED_CAPSET_IDs = 7"
definition VIRTGPU_PARAM_EXPLICIT_DEBUG_NAME :: u64 where [drm_consts]: "VIRTGPU_PARAM_EXPLICIT_DEBUG_NAME = 8"

definition VIRTGPU_BLOB_FLAG_USE_MAPPABLE :: u32 where [drm_consts]: "VIRTGPU_BLOB_FLAG_USE_MAPPABLE = 1"
definition VIRTGPU_CONTEXT_PARAM_CAPSET_ID :: u64 where [drm_consts]: "VIRTGPU_CONTEXT_PARAM_CAPSET_ID = 1"
definition VIRTGPU_CONTEXT_PARAM_NUM_RINGS :: u64 where [drm_consts]: "VIRTGPU_CONTEXT_PARAM_NUM_RINGS = 2"
definition VIRTGPU_CAPSET_VENUS :: u32 where [drm_consts]: "VIRTGPU_CAPSET_VENUS = 4"

definition DRM_VIRTGPU_MAP :: u32 where [drm_consts]: "DRM_VIRTGPU_MAP = 0"
definition DRM_VIRTGPU_EXECBUFFER :: u32 where [drm_consts]: "DRM_VIRTGPU_EXECBUFFER = 1"
definition DRM_VIRTGPU_GETPARAM :: u32 where [drm_consts]: "DRM_VIRTGPU_GETPARAM = 2"
definition DRM_VIRTGPU_RESOURCE_INFO :: u32 where [drm_consts]: "DRM_VIRTGPU_RESOURCE_INFO = 4"
definition DRM_VIRTGPU_WAIT :: u32 where [drm_consts]: "DRM_VIRTGPU_WAIT = 7"
definition DRM_VIRTGPU_GET_CAPS :: u32 where [drm_consts]: "DRM_VIRTGPU_GET_CAPS = 8"
definition DRM_VIRTGPU_RESOURCE_CREATE_BLOB :: u32 where [drm_consts]: "DRM_VIRTGPU_RESOURCE_CREATE_BLOB = 9"
definition DRM_VIRTGPU_CONTEXT_INIT :: u32 where [drm_consts]: "DRM_VIRTGPU_CONTEXT_INIT = 10"
definition DRM_COMMAND_BASE :: u32 where [drm_consts]: "DRM_COMMAND_BASE = 0x40"
definition DRM_IOCTL_BASE :: u64 where [drm_consts]: "DRM_IOCTL_BASE = 100"

text \<open>\<open>_IOW\<close> and \<open>_IOWR\<close> of \<open>sys/ioctl.h\<close>: direction, size, type and number in one word.\<close>

definition DRM_IOW :: "u64 \<Rightarrow> u64 \<Rightarrow> u64" where
  "DRM_IOW nr sz = push_bit 30 1 OR push_bit 16 sz OR push_bit 8 DRM_IOCTL_BASE OR nr"
definition DRM_IOWR :: "u64 \<Rightarrow> u64 \<Rightarrow> u64" where
  "DRM_IOWR nr sz = push_bit 30 3 OR push_bit 16 sz OR push_bit 8 DRM_IOCTL_BASE OR nr"

definition DRM_IOCTL_GEM_CLOSE :: u64 where "DRM_IOCTL_GEM_CLOSE = DRM_IOW 9 8"
definition DRM_IOCTL_VIRTGPU_MAP :: u64 where
  "DRM_IOCTL_VIRTGPU_MAP = DRM_IOWR (ucast (DRM_COMMAND_BASE + DRM_VIRTGPU_MAP)) 16"
definition DRM_IOCTL_VIRTGPU_GETPARAM :: u64 where
  "DRM_IOCTL_VIRTGPU_GETPARAM = DRM_IOWR (ucast (DRM_COMMAND_BASE + DRM_VIRTGPU_GETPARAM)) 16"
definition DRM_IOCTL_VIRTGPU_RESOURCE_INFO :: u64 where
  "DRM_IOCTL_VIRTGPU_RESOURCE_INFO = DRM_IOWR (ucast (DRM_COMMAND_BASE + DRM_VIRTGPU_RESOURCE_INFO)) 16"
definition DRM_IOCTL_VIRTGPU_RESOURCE_CREATE_BLOB :: u64 where
  "DRM_IOCTL_VIRTGPU_RESOURCE_CREATE_BLOB =
     DRM_IOWR (ucast (DRM_COMMAND_BASE + DRM_VIRTGPU_RESOURCE_CREATE_BLOB)) 48"

text \<open>The fields the shim reads, at their offsets in the argument structures.\<close>

type_synonym mem = "u64 \<Rightarrow> u8"

definition load64 :: "u64 \<Rightarrow> mem \<Rightarrow> u64" where
  "load64 a m = un64 (mem_load a 8 m)"

definition drm_virtgpu_map_handle :: "u64 \<Rightarrow> mem \<Rightarrow> u32" where
  "drm_virtgpu_map_handle p m = load32 (p + 8) m"
definition drm_virtgpu_execbuffer_size :: "u64 \<Rightarrow> mem \<Rightarrow> u32" where
  "drm_virtgpu_execbuffer_size p m = load32 (p + 4) m"
definition drm_virtgpu_execbuffer_command :: "u64 \<Rightarrow> mem \<Rightarrow> u64" where
  "drm_virtgpu_execbuffer_command p m = load64 (p + 8) m"
definition drm_virtgpu_getparam_param :: "u64 \<Rightarrow> mem \<Rightarrow> u64" where
  "drm_virtgpu_getparam_param p m = load64 p m"
definition drm_virtgpu_getparam_value :: "u64 \<Rightarrow> mem \<Rightarrow> u64" where
  "drm_virtgpu_getparam_value p m = load64 (p + 8) m"
definition drm_virtgpu_get_caps_id :: "u64 \<Rightarrow> mem \<Rightarrow> u32" where
  "drm_virtgpu_get_caps_id p m = load32 p m"
definition drm_virtgpu_get_caps_ver :: "u64 \<Rightarrow> mem \<Rightarrow> u32" where
  "drm_virtgpu_get_caps_ver p m = load32 (p + 4) m"
definition drm_virtgpu_get_caps_addr :: "u64 \<Rightarrow> mem \<Rightarrow> u64" where
  "drm_virtgpu_get_caps_addr p m = load64 (p + 8) m"
definition drm_virtgpu_get_caps_size :: "u64 \<Rightarrow> mem \<Rightarrow> u32" where
  "drm_virtgpu_get_caps_size p m = load32 (p + 16) m"
definition drm_virtgpu_resource_create_blob_mem :: "u64 \<Rightarrow> mem \<Rightarrow> u32" where
  "drm_virtgpu_resource_create_blob_mem p m = load32 p m"
definition drm_virtgpu_resource_create_blob_flags :: "u64 \<Rightarrow> mem \<Rightarrow> u32" where
  "drm_virtgpu_resource_create_blob_flags p m = load32 (p + 4) m"
definition drm_virtgpu_resource_create_blob_size :: "u64 \<Rightarrow> mem \<Rightarrow> u64" where
  "drm_virtgpu_resource_create_blob_size p m = load64 (p + 16) m"
definition drm_virtgpu_context_set_param_param :: "u64 \<Rightarrow> mem \<Rightarrow> u64" where
  "drm_virtgpu_context_set_param_param p m = load64 p m"
definition drm_virtgpu_context_set_param_value :: "u64 \<Rightarrow> mem \<Rightarrow> u64" where
  "drm_virtgpu_context_set_param_value p m = load64 (p + 8) m"
definition drm_virtgpu_context_init_num_params :: "u64 \<Rightarrow> mem \<Rightarrow> u32" where
  "drm_virtgpu_context_init_num_params p m = load32 p m"
definition drm_virtgpu_context_init_params :: "u64 \<Rightarrow> mem \<Rightarrow> u64" where
  "drm_virtgpu_context_init_params p m = load64 (p + 8) m"
definition drm_gem_close_handle :: "u64 \<Rightarrow> mem \<Rightarrow> u32" where
  "drm_gem_close_handle p m = load32 p m"

record drm_virtgpu_resource_info =
  info_bo_handle :: u32
  info_res_handle :: u32
  info_size :: u32
  info_blob_mem :: u32

text \<open>Storing the structure through its pointer.\<close>

definition store_resource_info :: "u64 \<Rightarrow> drm_virtgpu_resource_info \<Rightarrow> mem \<Rightarrow> mem" where
  "store_resource_info p r =
    mem_store p (le32 (info_bo_handle r) @ le32 (info_res_handle r) @ le32 (info_size r) @ le32 (info_blob_mem r))"

section \<open>State\<close>

definition UK_DRM_VIRTGPU_MAX_HANDLES :: nat where [drm_consts]: "UK_DRM_VIRTGPU_MAX_HANDLES = 256"

record uk_drm_virtgpu_bo =
  bo_handle :: u32
  bo_res_handle :: u32
  bo_size :: u64
  bo_is_blob :: bool
  bo_is_host_visible :: bool
  bo_blob_mem :: u32
  bo_blob_flags :: u32
  bo_mapped :: u64
  bo_blob :: uk_virtio_gpu_blob

record uk_drm_virtgpu_dev =
  has_3d_features :: bool
  has_resource_blob :: bool
  has_host_visible :: bool
  has_context_init :: bool
  supported_capset_ids :: u64
  handles :: "uk_drm_virtgpu_bo list"
  next_bo_handle :: u32
  drm_ctx_id :: u32
  ctx_initialized :: bool
  drm_capset_id :: u32
  drm_ctx :: uk_virtio_gpu_context

definition zero_bo :: uk_drm_virtgpu_bo where
  "zero_bo = \<lparr> bo_handle = 0, bo_res_handle = 0, bo_size = 0, bo_is_blob = False, bo_is_host_visible = False,
     bo_blob_mem = 0, bo_blob_flags = 0, bo_mapped = 0, bo_blob = zero_blob \<rparr>"

definition zero_drm :: uk_drm_virtgpu_dev where
  "zero_drm = \<lparr> has_3d_features = False, has_resource_blob = False, has_host_visible = False,
     has_context_init = False, supported_capset_ids = 0,
     handles = replicate UK_DRM_VIRTGPU_MAX_HANDLES zero_bo, next_bo_handle = 0, drm_ctx_id = 0,
     ctx_initialized = False, drm_capset_id = 0, drm_ctx = zero_ctx \<rparr>"

text \<open>Writing through a pointer into the handle table.\<close>

definition bo_upd :: "nat \<Rightarrow> (uk_drm_virtgpu_bo \<Rightarrow> uk_drm_virtgpu_bo) \<Rightarrow> uk_drm_virtgpu_dev \<Rightarrow> uk_drm_virtgpu_dev" where
  "bo_upd i f dv = dv\<lparr>handles := (handles dv)[i := f (handles dv ! i)]\<rparr>"

text \<open>The pointer \<open>bo_alloc\<close> and \<open>bo_lookup\<close> return is an index.\<close>

definition bo_alloc :: "uk_drm_virtgpu_dev \<Rightarrow> (nat \<times> u32 \<times> uk_drm_virtgpu_dev) option" where
  "bo_alloc dv =
    (let h = next_bo_handle dv in
     if of_nat UK_DRM_VIRTGPU_MAX_HANDLES \<le> h then None
     else Some (unat h, h + 1,
       bo_upd (unat h) (\<lambda>_. zero_bo\<lparr>bo_handle := h + 1\<rparr>) (dv\<lparr>next_bo_handle := h + 1\<rparr>)))"

definition bo_lookup :: "uk_drm_virtgpu_dev \<Rightarrow> u32 \<Rightarrow> nat option" where
  "bo_lookup dv h =
    (if h = 0 \<or> next_bo_handle dv < h then None
     else if bo_handle (handles dv ! unat (h - 1)) \<noteq> h then None
     else Some (unat (h - 1)))"

definition bo_release :: "'h env \<Rightarrow> uk_drm_virtgpu_dev \<Rightarrow> nat \<Rightarrow> 'h sys \<Rightarrow> (uk_drm_virtgpu_dev \<times> 'h sys) option" where
  "bo_release e dv i s =
    (let bo = handles dv ! i in
     if \<not> bo_is_blob bo \<or> \<not> blob_created (bo_blob bo) then Some (dv, s)
     else case (if blob_mapped (bo_blob bo) then uk_virtio_gpu_gl_blob_unmap e (Some (bo_blob bo)) s
                else Some (Inr (), Some (bo_blob bo), s)) of
       None \<Rightarrow> None
     | Some (_, b, s) \<Rightarrow>
        (case uk_virtio_gpu_gl_blob_destroy e b s of
           None \<Rightarrow> None
         | Some (_, _, s) \<Rightarrow> Some (bo_upd i (\<lambda>_. zero_bo) dv, s)))"

section \<open>Operations\<close>

text \<open>The capset enumeration: \<open>k\<close> indices left, from index \<open>i\<close>; failing queries are skipped.\<close>

primrec capset_mask :: "'h env \<Rightarrow> nat \<Rightarrow> u32 \<Rightarrow> u64 \<Rightarrow> 'h sys \<Rightarrow> (u64 \<times> 'h sys) option" where
  "capset_mask e 0 i acc s = Some (acc, s)"
| "capset_mask e (Suc k) i acc s =
    (case uk_virtio_gpu_gl_capset_info_get e i True s of
       None \<Rightarrow> None
     | Some (Inl _, s) \<Rightarrow> capset_mask e k (i + 1) acc s
     | Some (Inr ci, s) \<Rightarrow>
         capset_mask e k (i + 1) (if ci_id ci < 64 then acc OR push_bit (unat (ci_id ci)) 1 else acc) s)"

text \<open>\<open>probed\<close> says whether bring-up has registered a default device.\<close>

definition uk_drm_virtgpu_open :: "'h env \<Rightarrow> bool \<Rightarrow> 'h sys
    \<Rightarrow> ((errno + unit) \<times> uk_drm_virtgpu_dev \<times> 'h sys) option" where
  "uk_drm_virtgpu_open e probed s =
    (case uk_virtio_gpu_probe (if probed then Some (vg s) else None) True of
       Inl er \<Rightarrow> Some (Inl er, zero_drm, s)
     | Inr d \<Rightarrow>
    (case uk_virtio_gpu_gl_caps_get d True of
       Inl er \<Rightarrow> Some (Inl er, zero_drm, s)
     | Inr caps \<Rightarrow>
        (let dv = zero_drm\<lparr>has_3d_features := caps_has_virgl caps, has_resource_blob := caps_has_resource_blob caps,
               has_host_visible := caps_has_host_visible caps, has_context_init := caps_has_context_init caps\<rparr> in
         case capset_mask e (min (unat (caps_num_capsets caps)) 64) 0 0 s of
           None \<Rightarrow> None
         | Some (ids, s) \<Rightarrow> Some (Inr (), dv\<lparr>supported_capset_ids := ids\<rparr>, s))))"

definition uk_drm_virtgpu_getparam :: "uk_drm_virtgpu_dev \<Rightarrow> u64 \<Rightarrow> bool \<Rightarrow> errno + u64" where
  "uk_drm_virtgpu_getparam dv param out =
    (if \<not> out then Inl EINVAL
     else if param = VIRTGPU_PARAM_3D_FEATURES then Inr (of_bool (has_3d_features dv))
     else if param = VIRTGPU_PARAM_CAPSET_QUERY_FIX then Inr 1
     else if param = VIRTGPU_PARAM_RESOURCE_BLOB then Inr (of_bool (has_resource_blob dv))
     else if param = VIRTGPU_PARAM_HOST_VISIBLE then Inr (of_bool (has_host_visible dv))
     else if param = VIRTGPU_PARAM_CROSS_DEVICE then Inr 0
     else if param = VIRTGPU_PARAM_CONTEXT_INIT then Inr (of_bool (has_context_init dv))
     else if param = VIRTGPU_PARAM_SUPPORTED_CAPSET_IDs then Inr (supported_capset_ids dv)
     else if param = VIRTGPU_PARAM_EXPLICIT_DEBUG_NAME then Inr 0
     else Inl EINVAL)"

text \<open>\<open>"uk-drm-virtgpu"\<close>\<close>

definition name_drm :: "u8 list" where
  "name_drm = [117, 107, 45, 100, 114, 109, 45, 118, 105, 114, 116, 103, 112, 117]"

definition uk_drm_virtgpu_context_init :: "'h env \<Rightarrow> uk_drm_virtgpu_dev \<Rightarrow> u32 \<Rightarrow> u32 \<Rightarrow> 'h sys
    \<Rightarrow> ((errno + unit) \<times> uk_drm_virtgpu_dev \<times> 'h sys) option" where
  "uk_drm_virtgpu_context_init e dv capset_id num_rings s =
    (if ctx_initialized dv then Some (Inl EEXIST, dv, s)
     else case uk_virtio_gpu_gl_context_create e capset_id (Some name_drm) True s of
       None \<Rightarrow> None
     | Some (Inl er, s) \<Rightarrow> Some (Inl er, dv, s)
     | Some (Inr c, s) \<Rightarrow>
         Some (Inr (), dv\<lparr>drm_ctx := c, drm_ctx_id := ctx_id c, drm_capset_id := capset_id, ctx_initialized := True\<rparr>, s))"

definition uk_drm_virtgpu_execbuffer :: "'h env \<Rightarrow> uk_drm_virtgpu_dev \<Rightarrow> u8 list option \<Rightarrow> 'h sys
    \<Rightarrow> ((errno + unit) \<times> 'h sys) option" where
  "uk_drm_virtgpu_execbuffer e dv cmd s =
    (if \<not> ctx_initialized dv \<or> cmd = None \<or> cmd = Some [] then Some (Inl EINVAL, s)
     else case uk_virtio_gpu_gl_context_submit e (Some (drm_ctx dv)) cmd True s of
       None \<Rightarrow> None | Some (r, _, s) \<Rightarrow> Some (r, s))"

text \<open>The result is what is stored in \<open>bo_handle_out\<close> and \<open>res_handle_out\<close>.\<close>

definition uk_drm_virtgpu_resource_create_blob :: "'h env \<Rightarrow> uk_drm_virtgpu_dev \<Rightarrow> u64 \<Rightarrow> u32 \<Rightarrow> u32 \<Rightarrow> u64 \<Rightarrow> bool
    \<Rightarrow> 'h sys \<Rightarrow> ((errno + u32 \<times> u32) \<times> uk_drm_virtgpu_dev \<times> u64 \<times> 'h sys) option" where
  "uk_drm_virtgpu_resource_create_blob e dv nb mem flags sz out s =
    (if \<not> out \<or> sz = 0 then Some (Inl EINVAL, dv, nb, s)
     else case bo_alloc dv of
       None \<Rightarrow> Some (Inl ENOMEM, dv, nb, s)
     | Some (i, handle, dv) \<Rightarrow>
    (case uk_virtio_gpu_gl_blob_create e sz mem flags nb (Some (bo_blob (handles dv ! i))) s of
       None \<Rightarrow> None
     | Some (Inl er, s) \<Rightarrow>
         Some (Inl er, (bo_upd i (\<lambda>bo. bo\<lparr>bo_handle := 0\<rparr>) dv)\<lparr>next_bo_handle := next_bo_handle dv - 1\<rparr>, nb + 1, s)
     | Some (Inr b, s) \<Rightarrow>
         Some (Inr (handle, blob_resource_id b),
           bo_upd i (\<lambda>bo. bo\<lparr>bo_blob := b, bo_res_handle := blob_resource_id b, bo_size := sz, bo_is_blob := True,
             bo_is_host_visible := (flags AND VIRTGPU_BLOB_FLAG_USE_MAPPABLE \<noteq> 0), bo_blob_mem := mem,
             bo_blob_flags := flags\<rparr>) dv, nb + 1, s)))"

definition uk_drm_virtgpu_get_caps :: "'h env \<Rightarrow> u32 \<Rightarrow> u32 \<Rightarrow> bool \<Rightarrow> nat \<Rightarrow> 'h sys
    \<Rightarrow> ((errno + u8 list) \<times> 'h sys) option" where
  "uk_drm_virtgpu_get_caps e cap_set_id cap_set_ver buf sz s =
    (if \<not> buf \<or> sz = 0 then Some (Inl EINVAL, s)
     else uk_virtio_gpu_gl_capset_get e cap_set_id cap_set_ver True sz s)"

definition uk_drm_virtgpu_resource_info :: "uk_drm_virtgpu_dev \<Rightarrow> u32 \<Rightarrow> bool
    \<Rightarrow> errno + drm_virtgpu_resource_info" where
  "uk_drm_virtgpu_resource_info dv h info =
    (if \<not> info then Inl EINVAL
     else case bo_lookup dv h of
       None \<Rightarrow> Inl ENOENT
     | Some i \<Rightarrow>
        (let bo = handles dv ! i in
         if \<not> bo_is_blob bo then Inl ENOENT
         else Inr \<lparr> info_bo_handle = bo_handle bo, info_res_handle = bo_res_handle bo,
                    info_size = ucast (bo_size bo), info_blob_mem = bo_blob_mem bo \<rparr>))"

definition uk_drm_virtgpu_map :: "'h env \<Rightarrow> uk_drm_virtgpu_dev \<Rightarrow> u32 \<Rightarrow> bool \<Rightarrow> 'h sys
    \<Rightarrow> ((errno + u64) \<times> uk_drm_virtgpu_dev \<times> 'h sys) option" where
  "uk_drm_virtgpu_map e dv h out s =
    (if \<not> out then Some (Inl EINVAL, dv, s)
     else case bo_lookup dv h of
       None \<Rightarrow> Some (Inl ENOENT, dv, s)
     | Some i \<Rightarrow>
        (let bo = handles dv ! i in
         if \<not> bo_is_blob bo then Some (Inl ENOENT, dv, s)
         else if bo_mapped bo \<noteq> 0 then Some (Inr (bo_mapped bo), dv, s)
         else case uk_virtio_gpu_gl_blob_map e (Some (bo_blob bo)) s of
           None \<Rightarrow> None
         | Some (Inl er, b, s) \<Rightarrow> Some (Inl er, bo_upd i (\<lambda>bo. bo\<lparr>bo_blob := the b\<rparr>) dv, s)
         | Some (Inr _, b, s) \<Rightarrow>
             Some (Inr (blob_mapped_addr (the b)),
               bo_upd i (\<lambda>bo. bo\<lparr>bo_blob := the b, bo_mapped := blob_mapped_addr (the b)\<rparr>) dv, s)))"

definition uk_drm_virtgpu_wait :: "uk_drm_virtgpu_dev \<Rightarrow> u32 \<Rightarrow> errno + unit" where
  "uk_drm_virtgpu_wait dv h = Inr ()"

definition uk_drm_virtgpu_gem_close :: "'h env \<Rightarrow> uk_drm_virtgpu_dev \<Rightarrow> u32 \<Rightarrow> 'h sys
    \<Rightarrow> ((errno + unit) \<times> uk_drm_virtgpu_dev \<times> 'h sys) option" where
  "uk_drm_virtgpu_gem_close e dv h s =
    (case bo_lookup dv h of
       None \<Rightarrow> Some (Inl ENOENT, dv, s)
     | Some i \<Rightarrow>
        if \<not> bo_is_blob (handles dv ! i) then Some (Inl ENOENT, dv, s)
        else case bo_release e dv i s of
          None \<Rightarrow> None | Some (dv, s) \<Rightarrow> Some (Inr (), dv, s))"

section \<open>The ioctl dispatcher\<close>

definition VIRTGPU_CMD :: "u64 \<Rightarrow> u32" where
  "VIRTGPU_CMD req = (ucast req AND 0xFF) - DRM_COMMAND_BASE"

text \<open>The loop over the context parameters: \<open>k\<close> left, the next one at address \<open>p\<close>.\<close>

primrec ctx_params_loop :: "nat \<Rightarrow> u64 \<Rightarrow> mem \<Rightarrow> u32 \<times> u32 \<Rightarrow> u32 \<times> u32" where
  "ctx_params_loop 0 p m acc = acc"
| "ctx_params_loop (Suc k) p m acc =
    (let param = drm_virtgpu_context_set_param_param p m; v = ucast (drm_virtgpu_context_set_param_value p m) in
     ctx_params_loop k (p + 16) m
       (if param = VIRTGPU_CONTEXT_PARAM_CAPSET_ID then (v, snd acc)
        else if param = VIRTGPU_CONTEXT_PARAM_NUM_RINGS then (fst acc, v) else acc))"

definition uk_drm_virtgpu_ioctl :: "'h machine env \<Rightarrow> uk_drm_virtgpu_dev \<Rightarrow> u64 \<Rightarrow> u64 \<Rightarrow> u64 \<Rightarrow> 'h machine sys
    \<Rightarrow> ((errno + unit) \<times> uk_drm_virtgpu_dev \<times> u64 \<times> 'h machine sys) option" where
  "uk_drm_virtgpu_ioctl e dv nb request arg s =
    (let m = shm (host s); cmd = VIRTGPU_CMD request in
     if arg = 0 then Some (Inl EINVAL, dv, nb, s)
     else if request = DRM_IOCTL_GEM_CLOSE
     then map_option (\<lambda>(r, dv, s). (r, dv, nb, s)) (uk_drm_virtgpu_gem_close e dv (drm_gem_close_handle arg m) s)
     else if cmd = DRM_VIRTGPU_GETPARAM
     then (let p = drm_virtgpu_getparam_value arg m in
           case uk_drm_virtgpu_getparam dv (drm_virtgpu_getparam_param arg m) (p \<noteq> 0) of
             Inl er \<Rightarrow> Some (Inl er, dv, nb, s)
           | Inr v \<Rightarrow> Some (Inr (), dv, nb, with_shm (mem_store p (le64 v)) s))
     else if cmd = DRM_VIRTGPU_CONTEXT_INIT
     then (let params = drm_virtgpu_context_init_params arg m;
               (capset_id, num_rings) =
                 (if params = 0 then (VIRTGPU_CAPSET_VENUS, 1)
                  else ctx_params_loop (unat (drm_virtgpu_context_init_num_params arg m)) params m
                         (VIRTGPU_CAPSET_VENUS, 1)) in
           map_option (\<lambda>(r, dv, s). (r, dv, nb, s)) (uk_drm_virtgpu_context_init e dv capset_id num_rings s))
     else if cmd = DRM_VIRTGPU_EXECBUFFER
     then (let p = drm_virtgpu_execbuffer_command arg m;
               bytes = (if p = 0 then None
                        else Some (mem_load p (unat (drm_virtgpu_execbuffer_size arg m)) m)) in
           map_option (\<lambda>(r, s). (r, dv, nb, s)) (uk_drm_virtgpu_execbuffer e dv bytes s))
     else if cmd = DRM_VIRTGPU_RESOURCE_CREATE_BLOB
     then (case uk_drm_virtgpu_resource_create_blob e dv nb (drm_virtgpu_resource_create_blob_mem arg m)
                  (drm_virtgpu_resource_create_blob_flags arg m) (drm_virtgpu_resource_create_blob_size arg m) True s of
             None \<Rightarrow> None
           | Some (Inl er, dv, nb, s) \<Rightarrow> Some (Inl er, dv, nb, s)
           | Some (Inr (h, res), dv, nb, s) \<Rightarrow>
               Some (Inr (), dv, nb, with_shm (mem_store (arg + 8) (le32 h @ le32 res)) s))
     else if cmd = DRM_VIRTGPU_GET_CAPS
     then (let p = drm_virtgpu_get_caps_addr arg m in
           case uk_drm_virtgpu_get_caps e (drm_virtgpu_get_caps_id arg m) (drm_virtgpu_get_caps_ver arg m)
                  (p \<noteq> 0) (unat (drm_virtgpu_get_caps_size arg m)) s of
             None \<Rightarrow> None
           | Some (Inl er, s) \<Rightarrow> Some (Inl er, dv, nb, s)
           | Some (Inr bytes, s) \<Rightarrow> Some (Inr (), dv, nb, with_shm (mem_store p bytes) s))
     else if cmd = DRM_VIRTGPU_RESOURCE_INFO
     then (case uk_drm_virtgpu_resource_info dv (load32 arg m) True of
             Inl er \<Rightarrow> Some (Inl er, dv, nb, s)
           | Inr info \<Rightarrow> Some (Inr (), dv, nb, with_shm (store_resource_info arg info) s))
     else if cmd = DRM_VIRTGPU_MAP
     then (case uk_drm_virtgpu_map e dv (drm_virtgpu_map_handle arg m) True s of
             None \<Rightarrow> None
           | Some (Inl er, dv, s) \<Rightarrow> Some (Inl er, dv, nb, s)
           | Some (Inr a, dv, s) \<Rightarrow> Some (Inr (), dv, nb, with_shm (mem_store arg (le64 a)) s))
     else if cmd = DRM_VIRTGPU_WAIT
     then Some (uk_drm_virtgpu_wait dv (load32 arg m), dv, nb, s)
     else Some (Inl ENOSYS, dv, nb, s))"

text \<open>The release loop of \<open>close\<close>: \<open>k\<close> slots left, from slot \<open>i\<close>.\<close>

primrec release_loop :: "'h env \<Rightarrow> nat \<Rightarrow> nat \<Rightarrow> uk_drm_virtgpu_dev \<Rightarrow> 'h sys
    \<Rightarrow> (uk_drm_virtgpu_dev \<times> 'h sys) option" where
  "release_loop e 0 i dv s = Some (dv, s)"
| "release_loop e (Suc k) i dv s =
    (case bo_release e dv i s of None \<Rightarrow> None | Some (dv, s) \<Rightarrow> release_loop e k (i + 1) dv s)"

definition uk_drm_virtgpu_close :: "'h env \<Rightarrow> uk_drm_virtgpu_dev \<Rightarrow> 'h sys
    \<Rightarrow> (uk_drm_virtgpu_dev \<times> 'h sys) option" where
  "uk_drm_virtgpu_close e dv s =
    (case release_loop e (unat (next_bo_handle dv)) 0 dv s of
       None \<Rightarrow> None
     | Some (dv, s) \<Rightarrow>
        (case (if ctx_initialized dv
               then map_option snd (uk_virtio_gpu_gl_context_destroy e (Some (drm_ctx dv)) s) else Some s) of
           None \<Rightarrow> None | Some s \<Rightarrow> Some (zero_drm, s)))"

end
