(* ===== verification/Drm_File.thy ===== *)
theory Drm_File
  imports Drm_Virtgpu
begin

text \<open>
  The render-node facade of \<open>drm_virtgpu_fdio.c\<close>: one opened file is the shim's device with a registry
  of mmap offsets.  MAP hands out an opaque page-aligned offset, \<open>mmap\<close> resolves it, closing a handle
  removes its entries.
\<close>

section \<open>State\<close>

definition UK_DRM_VIRTGPU_PAGE_SIZE :: u64 where [drm_consts]: "UK_DRM_VIRTGPU_PAGE_SIZE = 4096"
definition UK_DRM_VIRTGPU_MMAP_BASE :: u64 where [drm_consts]: "UK_DRM_VIRTGPU_MMAP_BASE = 0x100000000"
definition UK_DRM_VIRTGPU_FDIO_MAX_MMAPS :: nat where [drm_consts]: "UK_DRM_VIRTGPU_FDIO_MAX_MMAPS = 256"

record uk_drm_virtgpu_mmap_entry =
  me_offset :: u64
  me_size :: u64
  me_bo_handle :: u32
  me_ptr :: u64

record uk_drm_virtgpu_file =
  file_dev :: uk_drm_virtgpu_dev
  mmaps :: "uk_drm_virtgpu_mmap_entry list"
  next_offset :: u64
  file_opened :: bool

definition zero_mmap :: uk_drm_virtgpu_mmap_entry where
  "zero_mmap = \<lparr> me_offset = 0, me_size = 0, me_bo_handle = 0, me_ptr = 0 \<rparr>"

definition zero_file :: uk_drm_virtgpu_file where
  "zero_file = \<lparr> file_dev = zero_drm, mmaps = replicate UK_DRM_VIRTGPU_FDIO_MAX_MMAPS zero_mmap,
     next_offset = 0, file_opened = False \<rparr>"

section \<open>Operations\<close>

definition align_up_u64 :: "u64 \<Rightarrow> u64 \<Rightarrow> u64" where
  "align_up_u64 v align = (v + align - 1) AND NOT (align - 1)"

definition mmap_lookup_handle :: "uk_drm_virtgpu_file \<Rightarrow> u32 \<Rightarrow> nat option" where
  "mmap_lookup_handle F h = first_index (\<lambda>en. me_bo_handle en = h \<and> me_ptr en \<noteq> 0) (mmaps F)"

definition mmap_alloc :: "uk_drm_virtgpu_file \<Rightarrow> nat option" where
  "mmap_alloc F = first_index (\<lambda>en. me_bo_handle en = 0) (mmaps F)"

definition mmap_remove_handle :: "uk_drm_virtgpu_file \<Rightarrow> u32 \<Rightarrow> uk_drm_virtgpu_file" where
  "mmap_remove_handle F h = F\<lparr>mmaps := map (\<lambda>en. if me_bo_handle en = h then zero_mmap else en) (mmaps F)\<rparr>"

definition uk_drm_virtgpu_render_node_path :: string where
  "uk_drm_virtgpu_render_node_path = ''/dev/dri/renderD128''"

definition uk_drm_virtgpu_file_open :: "'h env \<Rightarrow> bool \<Rightarrow> 'h sys
    \<Rightarrow> ((errno + unit) \<times> uk_drm_virtgpu_file \<times> 'h sys) option" where
  "uk_drm_virtgpu_file_open e probed s =
    (let F = zero_file\<lparr>next_offset := UK_DRM_VIRTGPU_MMAP_BASE\<rparr> in
     case uk_drm_virtgpu_open e probed s of
       None \<Rightarrow> None
     | Some (Inl er, dv, s) \<Rightarrow> Some (Inl er, F\<lparr>file_dev := dv\<rparr>, s)
     | Some (Inr _, dv, s) \<Rightarrow> Some (Inr (), F\<lparr>file_dev := dv, file_opened := True\<rparr>, s))"

text \<open>The MAP request: the result is the offset stored in the argument.\<close>

definition file_map :: "'h env \<Rightarrow> uk_drm_virtgpu_file \<Rightarrow> u32 \<Rightarrow> 'h sys
    \<Rightarrow> ((errno + u64) \<times> uk_drm_virtgpu_file \<times> 'h sys) option" where
  "file_map e F h s =
    (case mmap_lookup_handle F h of
       Some i \<Rightarrow> Some (Inr (me_offset (mmaps F ! i)), F, s)
     | None \<Rightarrow>
    (case uk_drm_virtgpu_resource_info (file_dev F) h True of
       Inl er \<Rightarrow> Some (Inl er, F, s)
     | Inr info \<Rightarrow>
    (case uk_drm_virtgpu_map e (file_dev F) h True s of
       None \<Rightarrow> None
     | Some (Inl er, dv, s) \<Rightarrow> Some (Inl er, F\<lparr>file_dev := dv\<rparr>, s)
     | Some (Inr ptr, dv, s) \<Rightarrow>
        (let F = F\<lparr>file_dev := dv\<rparr> in
         case mmap_alloc F of
           None \<Rightarrow> Some (Inl ENOMEM, F, s)
         | Some i \<Rightarrow>
            (let sz = align_up_u64 (ucast (info_size info)) UK_DRM_VIRTGPU_PAGE_SIZE;
                 en = \<lparr> me_offset = next_offset F, me_size = sz, me_bo_handle = h, me_ptr = ptr \<rparr>;
                 nxt = next_offset F + (if sz \<noteq> 0 then sz else UK_DRM_VIRTGPU_PAGE_SIZE) in
             Some (Inr (me_offset en),
               F\<lparr>mmaps := (mmaps F)[i := en], next_offset := align_up_u64 nxt UK_DRM_VIRTGPU_PAGE_SIZE\<rparr>, s))))))"

definition uk_drm_virtgpu_file_ioctl :: "'h machine env \<Rightarrow> uk_drm_virtgpu_file \<Rightarrow> u64 \<Rightarrow> u64 \<Rightarrow> u64 \<Rightarrow> 'h machine sys
    \<Rightarrow> ((errno + unit) \<times> uk_drm_virtgpu_file \<times> u64 \<times> 'h machine sys) option" where
  "uk_drm_virtgpu_file_ioctl e F nb request arg s =
    (if \<not> file_opened F \<or> arg = 0 then Some (Inl EINVAL, F, nb, s)
     else if request = DRM_IOCTL_VIRTGPU_MAP
     then (case file_map e F (drm_virtgpu_map_handle arg (shm (host s))) s of
             None \<Rightarrow> None
           | Some (Inl er, F, s) \<Rightarrow> Some (Inl er, F, nb, s)
           | Some (Inr off, F, s) \<Rightarrow> Some (Inr (), F, nb, with_shm (mem_store arg (le64 off)) s))
     else (case uk_drm_virtgpu_ioctl e (file_dev F) nb request arg s of
             None \<Rightarrow> None
           | Some (r, dv, nb, s) \<Rightarrow>
              (let F = F\<lparr>file_dev := dv\<rparr> in
               Some (r, if request = DRM_IOCTL_GEM_CLOSE \<and> r = Inr ()
                        then mmap_remove_handle F (drm_gem_close_handle arg (shm (host s))) else F, nb, s))))"

text \<open>The mmap loop returns at the first live entry whose window contains the offset.\<close>

definition mmap_hit :: "u64 \<Rightarrow> uk_drm_virtgpu_mmap_entry \<Rightarrow> bool" where
  "mmap_hit offset en \<longleftrightarrow> me_bo_handle en \<noteq> 0 \<and> me_ptr en \<noteq> 0 \<and>
     \<not> (offset < me_offset en \<or> me_offset en + me_size en \<le> offset)"

definition uk_drm_virtgpu_file_mmap :: "uk_drm_virtgpu_file \<Rightarrow> u64 \<Rightarrow> u64 \<Rightarrow> bool \<Rightarrow> errno + u64" where
  "uk_drm_virtgpu_file_mmap F offset len addr_out =
    (if \<not> file_opened F \<or> \<not> addr_out \<or> len = 0 then Inl EINVAL
     else if offset AND (UK_DRM_VIRTGPU_PAGE_SIZE - 1) \<noteq> 0 then Inl EINVAL
     else case first_index (mmap_hit offset) (mmaps F) of
       None \<Rightarrow> Inl ENOENT
     | Some i \<Rightarrow>
        (let en = mmaps F ! i; delta = offset - me_offset en in
         if me_size en - delta < len then Inl EINVAL else Inr (me_ptr en + delta)))"

definition uk_drm_virtgpu_file_close :: "'h env \<Rightarrow> uk_drm_virtgpu_file \<Rightarrow> 'h sys
    \<Rightarrow> (uk_drm_virtgpu_file \<times> 'h sys) option" where
  "uk_drm_virtgpu_file_close e F s =
    (if \<not> file_opened F then Some (F, s)
     else case uk_drm_virtgpu_close e (file_dev F) s of
       None \<Rightarrow> None | Some (_, s) \<Rightarrow> Some (zero_file, s))"

end
