(* ===== verification/Drm_Handles.thy ===== *)
theory Drm_Handles
  imports Drm_File
begin

text \<open>
  The handle table of the DRM shim under every operation: open objects keep their slot, size and
  mapping until they are closed, closed handles stay closed; and what the platform may not change
  while a request is processed.
\<close>

section \<open>The handle table\<close>

definition drm_inv :: "uk_drm_virtgpu_dev \<Rightarrow> bool" where
  "drm_inv dv \<longleftrightarrow> length (handles dv) = 256 \<and> unat (next_bo_handle dv) \<le> 256 \<and>
     (\<forall>i<256. (bo_handle (handles dv ! i) = 0 \<or> bo_handle (handles dv ! i) = of_nat (i + 1) \<and> i < unat (next_bo_handle dv)) \<and>
       (bo_is_blob (handles dv ! i) \<longrightarrow> blob_created (bo_blob (handles dv ! i))))"

text \<open>A handle that was handed out and closed.\<close>

definition dead_handle :: "u32 \<Rightarrow> uk_drm_virtgpu_dev \<Rightarrow> bool" where
  "dead_handle h dv \<longleftrightarrow> h \<noteq> 0 \<and> h \<le> next_bo_handle dv \<and> bo_lookup dv h = None"

text \<open>What an operation may do to the table: open objects other than \<open>H\<close> keep their slot, size and
  mapping, and a closed handle stays closed.\<close>

definition table_step :: "u32 set \<Rightarrow> uk_drm_virtgpu_dev \<Rightarrow> uk_drm_virtgpu_dev \<Rightarrow> bool" where
  "table_step H dv dv' \<longleftrightarrow> drm_inv dv' \<and> next_bo_handle dv \<le> next_bo_handle dv' \<and>
     (\<forall>h. dead_handle h dv \<longrightarrow> dead_handle h dv') \<and>
     (\<forall>h i. h \<notin> H \<longrightarrow> bo_lookup dv h = Some i \<longrightarrow> bo_lookup dv' h = Some i \<and>
        bo_is_blob (handles dv' ! i) = bo_is_blob (handles dv ! i) \<and>
        bo_size (handles dv' ! i) = bo_size (handles dv ! i) \<and>
        (bo_mapped (handles dv ! i) \<noteq> 0 \<longrightarrow> bo_mapped (handles dv' ! i) = bo_mapped (handles dv ! i)))"

lemma unat_handle: "unat h \<le> 256 \<Longrightarrow> h \<noteq> 0 \<Longrightarrow> h = of_nat (unat (h - 1) + 1) \<and> unat (h - 1) < 256 \<and> unat h = unat (h - 1) + 1"
  for h :: u32
  by (simp add: unat_diff_1 unat_gt_0)

lemma table_step_refl: "drm_inv dv \<Longrightarrow> table_step H dv dv"
  by (auto simp: table_step_def)

lemma lookup_SomeD:
  assumes "bo_lookup dv h = Some i" "drm_inv dv"
  shows "i < 256" "h = of_nat (i + 1)" "bo_handle (handles dv ! i) = h" "i < unat (next_bo_handle dv)" "h \<noteq> 0"
proof -
  from assms have h: "h \<noteq> 0" "\<not> next_bo_handle dv < h" "i = unat (h - 1)" "bo_handle (handles dv ! i) = h"
    by (auto simp: bo_lookup_def split: if_splits)
  moreover have le: "unat h \<le> unat (next_bo_handle dv)" using h(2) by (simp add: word_less_nat_alt)
  moreover have n: "unat (next_bo_handle dv) \<le> 256" using assms(2) by (simp add: drm_inv_def)
  ultimately show "i < 256" "h = of_nat (i + 1)" "bo_handle (handles dv ! i) = h" "i < unat (next_bo_handle dv)" "h \<noteq> 0"
    using unat_handle[of h] by auto
qed

text \<open>Writing to an open object, and clearing its slot.\<close>

lemma table_step_upd:
  assumes "drm_inv dv" "bo_lookup dv h = Some i" "\<And>bo. bo_handle (f bo) = bo_handle bo"
    "\<And>bo. bo_is_blob (f bo) = bo_is_blob bo" "\<And>bo. bo_size (f bo) = bo_size bo"
    "blob_created (bo_blob (handles dv ! i)) \<Longrightarrow> blob_created (bo_blob (f (handles dv ! i)))"
    "bo_mapped (handles dv ! i) \<noteq> 0 \<Longrightarrow> bo_mapped (f (handles dv ! i)) = bo_mapped (handles dv ! i)"
  shows "table_step H dv (bo_upd i f dv)"
proof -
  have l: "bo_lookup (bo_upd i f dv) k = bo_lookup dv k" for k
    using assms(3) by (cases "i = unat (k - 1)"; cases "i < length (handles dv)") (simp_all add: bo_lookup_def bo_upd_def list_update_beyond)
  have len: "i < length (handles dv)" using lookup_SomeD(1)[OF assms(2,1)] assms(1) by (simp add: drm_inv_def)
  hence nth: "handles (bo_upd i f dv) ! j = (if j = i then f (handles dv ! i) else handles dv ! j)" for j
    by (simp add: bo_upd_def)
  have n: "next_bo_handle (bo_upd i f dv) = next_bo_handle dv" "length (handles (bo_upd i f dv)) = length (handles dv)"
    by (simp_all add: bo_upd_def)
  have "drm_inv (bo_upd i f dv)"
    using assms(1,6) len by (auto simp: drm_inv_def nth n assms(3,4))
  thus ?thesis
    using assms(7) by (auto simp: table_step_def dead_handle_def l nth n assms(4,5))
qed

lemma table_step_clear:
  assumes "drm_inv dv" "bo_lookup dv h = Some i"
  shows "table_step {h} dv (bo_upd i (\<lambda>_. zero_bo) dv)" "dead_handle h (bo_upd i (\<lambda>_. zero_bo) dv)"
proof -
  note i = lookup_SomeD[OF assms(2,1)]
  let ?d = "bo_upd i (\<lambda>_. zero_bo) dv"
  have inv: "drm_inv ?d" using assms(1) i(1) by (auto simp: drm_inv_def bo_upd_def nth_list_update zero_bo_def)
  have n: "next_bo_handle ?d = next_bo_handle dv" by (simp add: bo_upd_def)
  have len: "i < length (handles dv)" using i(1) assms(1) by (simp add: drm_inv_def)
  have hle: "h \<le> next_bo_handle dv" "i = unat (h - 1)"
    using assms(2) by (auto simp: bo_lookup_def split: if_splits)
  have same: "bo_lookup ?d k = (if k = h then None else bo_lookup dv k)" for k
  proof (cases "k = 0 \<or> next_bo_handle dv < k")
    case True
    thus ?thesis using i(5) hle(1) by (auto simp: bo_lookup_def n)
  next
    case False
    hence k: "unat k \<le> 256" "k \<noteq> 0"
      using assms(1) by (auto simp: drm_inv_def word_less_nat_alt)
    have "unat (k - 1) = i \<longleftrightarrow> k = h" using unat_handle[OF k] i(2) hle(2) by metis
    thus ?thesis
      using False len i(5) hle by (auto simp: bo_lookup_def bo_upd_def nth_list_update zero_bo_def)
  qed
  have "\<forall>k. dead_handle k dv \<longrightarrow> dead_handle k ?d" by (auto simp: dead_handle_def n same)
  moreover have "handles ?d ! j = handles dv ! j" if "bo_lookup dv k = Some j" "k \<noteq> h" for j k
    using lookup_SomeD(2)[OF that(1) assms(1)] i(2) that(2) by (cases "j = i") (simp_all add: bo_upd_def)
  ultimately show "table_step {h} dv ?d" using inv by (auto simp: table_step_def n same)
  show "dead_handle h ?d" using i(5) hle(1) by (simp add: dead_handle_def n same)
qed

section \<open>Every operation is a step of the table\<close>

lemma release_step:
  assumes "bo_release e dv i s = Some (dv', s')" "drm_inv dv" "bo_lookup dv h = Some i" "bo_is_blob (handles dv ! i)"
  shows "table_step {h} dv dv' \<and> dead_handle h dv' \<and> within 2 s s'"
proof -
  have "blob_created (bo_blob (handles dv ! i))"
    using assms(2,4) lookup_SomeD(1)[OF assms(3,2)] by (simp add: drm_inv_def)
  hence "dv' = bo_upd i (\<lambda>_. zero_bo) dv \<and> within 2 s s'"
    using assms(1,4)
    by (auto simp: bo_release_def Let_def numeral_2_eq_2 split: option.splits prod.splits if_splits
        intro: within_then gpu_within)
  thus ?thesis using table_step_clear[OF assms(2,3)] by simp
qed

lemma gem_close_step:
  assumes "uk_drm_virtgpu_gem_close e dv h s = Some (r, dv', s')" "drm_inv dv"
  shows "table_step {h} dv dv' \<and> (if r = Inr () then dead_handle h dv' else dv' = dv) \<and> within 2 s s'"
  using assms
  by (auto simp: uk_drm_virtgpu_gem_close_def table_step_refl split: option.splits if_splits dest: release_step)

lemma blob_unmap_created:
  "uk_virtio_gpu_gl_blob_unmap e (Some b) s = Some (r, b', s') \<Longrightarrow> \<exists>c. b' = Some c \<and> blob_created c = blob_created b"
  by (auto simp: uk_virtio_gpu_gl_blob_unmap_def Let_def split: option.splits sum.splits if_splits)

lemma blob_map_created:
  "uk_virtio_gpu_gl_blob_map e (Some b) s = Some (r, b', s') \<Longrightarrow> \<exists>c. b' = Some c \<and> blob_created c = blob_created b"
  by (auto simp: uk_virtio_gpu_gl_blob_map_def Let_def split: option.splits sum.splits if_splits
      dest!: blob_unmap_created)

lemma drm_map_step:
  assumes "uk_drm_virtgpu_map e dv h out s = Some (r, dv', s')" "drm_inv dv"
  shows "table_step H dv dv' \<and> within 2 s s' \<and> (\<forall>a. r = Inr a \<longrightarrow>
    (\<exists>i. bo_lookup dv h = Some i \<and> bo_is_blob (handles dv ! i) \<and> bo_mapped (handles dv' ! i) = a))"
proof (cases "out \<and> (\<exists>i. bo_lookup dv h = Some i \<and> bo_is_blob (handles dv ! i) \<and> bo_mapped (handles dv ! i) = 0)")
  case False
  thus ?thesis
    using assms by (auto simp: uk_drm_virtgpu_map_def Let_def table_step_refl split: option.splits if_splits)
next
  case True
  then obtain i where i: "bo_lookup dv h = Some i" "bo_is_blob (handles dv ! i)" "bo_mapped (handles dv ! i) = 0"
    by blast
  have len: "i < length (handles dv)" using lookup_SomeD(1)[OF i(1) assms(2)] assms(2) by (simp add: drm_inv_def)
  from assms(1) True i obtain mr b where m: "uk_virtio_gpu_gl_blob_map e (Some (bo_blob (handles dv ! i))) s = Some (mr, b, s')"
    and rd: "r = (case mr of Inl er \<Rightarrow> Inl er | Inr _ \<Rightarrow> Inr (blob_mapped_addr (the b)))"
      "dv' = (case mr of Inl _ \<Rightarrow> bo_upd i (\<lambda>bo. bo\<lparr>bo_blob := the b\<rparr>) dv
         | Inr _ \<Rightarrow> bo_upd i (\<lambda>bo. bo\<lparr>bo_blob := the b, bo_mapped := blob_mapped_addr (the b)\<rparr>) dv)"
    by (auto simp: uk_drm_virtgpu_map_def Let_def split: option.splits sum.splits)
  from blob_map_created[OF m] obtain c where c: "b = Some c" "blob_created c = blob_created (bo_blob (handles dv ! i))" by blast
  have "table_step H dv dv'"
    unfolding rd(2) using i(3) c by (cases mr) (auto intro!: table_step_upd[OF assms(2) i(1)])
  moreover have "within 2 s s'" using gpu_within(2)[OF m, of 1] by (simp add: numeral_2_eq_2)
  ultimately show ?thesis using rd i len by (auto simp: bo_upd_def split: sum.splits)
qed

text \<open>Changes to slots that no handle has named yet.\<close>

lemma table_step_extend:
  assumes "drm_inv dv" "length (handles dv') = 256" "next_bo_handle dv \<le> next_bo_handle dv'"
    "unat (next_bo_handle dv') \<le> 256"
    "\<And>j. j < 256 \<Longrightarrow> handles dv' ! j = handles dv ! j \<or> unat (next_bo_handle dv) \<le> j \<and>
      (bo_handle (handles dv' ! j) = 0 \<or> bo_handle (handles dv' ! j) = of_nat (j + 1) \<and> j < unat (next_bo_handle dv')) \<and>
      (bo_is_blob (handles dv' ! j) \<longrightarrow> blob_created (bo_blob (handles dv' ! j)))"
  shows "table_step H dv dv'"
proof -
  have le: "unat (next_bo_handle dv) \<le> unat (next_bo_handle dv')" using assms(3) by (simp add: word_le_nat_alt)
  have slot: "unat (k - 1) < unat (next_bo_handle dv)" if "k \<noteq> 0" "\<not> next_bo_handle dv < k" for k
  proof -
    have "unat k \<le> unat (next_bo_handle dv)" using that(2) by (simp add: word_less_nat_alt)
    moreover have "unat k \<noteq> 0" using that(1) by (simp add: unat_eq_0)
    ultimately show ?thesis using that(1) by (simp add: unat_diff_1)
  qed
  have low: "handles dv' ! j = handles dv ! j" if "j < unat (next_bo_handle dv)" for j
    using assms(5)[of j] that le assms(4) by auto
  have look: "bo_lookup dv' k = bo_lookup dv k" if "\<not> next_bo_handle dv < k" for k
    using that assms(3) slot[of k] low by (auto simp: bo_lookup_def)
  have inv: "drm_inv dv'"
    unfolding drm_inv_def
  proof (intro conjI allI impI assms(2,4))
    fix j :: nat assume j: "j < 256"
    show "bo_handle (handles dv' ! j) = 0 \<or> bo_handle (handles dv' ! j) = of_nat (j + 1) \<and> j < unat (next_bo_handle dv')"
      using assms(5)[OF j] assms(1) j le unfolding drm_inv_def by fastforce
  next
    fix j :: nat assume "j < 256" "bo_is_blob (handles dv' ! j)"
    thus "blob_created (bo_blob (handles dv' ! j))" using assms(5)[of j] assms(1) by (auto simp: drm_inv_def)
  qed
  have "bo_lookup dv' k = Some i \<and> handles dv' ! i = handles dv ! i" if "bo_lookup dv k = Some i" for k i
    using that look[of k] lookup_SomeD(4)[OF that assms(1)] low by (auto simp: bo_lookup_def split: if_splits)
  moreover have "dead_handle k dv'" if "dead_handle k dv" for k
    using that look[of k] assms(3) by (auto simp: dead_handle_def not_less)
  ultimately show ?thesis using inv assms(3) by (simp add: table_step_def)
qed

lemma blob_create_created:
  "uk_virtio_gpu_gl_blob_create_with_ctx e c sz mem flags nb bo s = Some (Inr b, s') \<Longrightarrow> blob_created b"
  by (auto simp: uk_virtio_gpu_gl_blob_create_with_ctx_def Let_def split: option.splits sum.splits if_splits)

lemma create_blob_step:
  assumes "uk_drm_virtgpu_resource_create_blob e dv nb mem flags sz out s = Some (r, dv', nb', s')" "drm_inv dv"
  shows "table_step H dv dv' \<and> within 2 s s'"
proof (cases "out \<and> sz \<noteq> 0 \<and> next_bo_handle dv < 256")
  case False
  thus ?thesis
    using assms by (auto simp: uk_drm_virtgpu_resource_create_blob_def bo_alloc_def Let_def table_step_refl
        UK_DRM_VIRTGPU_MAX_HANDLES_def not_le not_less split: option.splits if_splits)
next
  case True
  let ?n = "next_bo_handle dv"
  have n: "unat ?n < 256" using True by (simp add: word_less_nat_alt)
  hence n1: "unat (?n + 1) = unat ?n + 1" by (subst unat_add_small) simp_all
  hence n2: "?n \<le> ?n + 1" by (simp add: word_le_nat_alt)
  have of_n: "?n + 1 = of_nat (unat ?n + 1)" by simp
  have len: "length (handles dv) = 256" "unat ?n \<le> 256" using assms(2) by (auto simp: drm_inv_def)
  let ?d = "bo_upd (unat ?n) (\<lambda>_. zero_bo\<lparr>bo_handle := ?n + 1\<rparr>) (dv\<lparr>next_bo_handle := ?n + 1\<rparr>)"
  have al: "bo_alloc dv = Some (unat ?n, ?n + 1, ?d)"
    using True by (simp add: bo_alloc_def Let_def UK_DRM_VIRTGPU_MAX_HANDLES_def not_le)
  from assms(1) True al obtain cr where
    c: "uk_virtio_gpu_gl_blob_create e sz mem flags nb (Some (bo_blob (handles ?d ! unat ?n))) s = Some (cr, s')"
    and dv': "dv' = (case cr of Inl _ \<Rightarrow> (bo_upd (unat ?n) (\<lambda>bo. bo\<lparr>bo_handle := 0\<rparr>) ?d)\<lparr>next_bo_handle := ?n + 1 - 1\<rparr>
       | Inr b \<Rightarrow> bo_upd (unat ?n) (\<lambda>bo. bo\<lparr>bo_blob := b, bo_res_handle := blob_resource_id b, bo_size := sz,
           bo_is_blob := True, bo_is_host_visible := (flags AND VIRTGPU_BLOB_FLAG_USE_MAPPABLE \<noteq> 0), bo_blob_mem := mem,
           bo_blob_flags := flags\<rparr>) ?d)"
    by (auto simp: uk_drm_virtgpu_resource_create_blob_def bo_upd_def split: option.splits sum.splits prod.splits)
  have "within 2 s s'"
    using gpu_within(1)[of e 0 sz mem flags nb _ s cr s' 1] c
    by (simp add: uk_virtio_gpu_gl_blob_create_def numeral_2_eq_2)
  moreover have "table_step H dv dv'"
  proof (rule table_step_extend[OF assms(2)], goal_cases)
    case 1 show ?case by (simp add: dv' bo_upd_def len split: sum.splits)
  next
    case 2 show ?case using n2 by (simp add: dv' bo_upd_def split: sum.splits)
  next
    case 3 show ?case using n n1 by (simp add: dv' bo_upd_def split: sum.splits)
  next
    case (4 j)
    show ?case
    proof (cases "j = unat ?n")
      case True
      have "blob_created b" if "cr = Inr b" for b
        using c that by (simp add: uk_virtio_gpu_gl_blob_create_def blob_create_created)
      thus ?thesis
        using True n of_n len by (auto simp: dv' bo_upd_def zero_bo_def n1 split: sum.splits)
    qed (simp add: dv' bo_upd_def split: sum.splits)
  qed
  ultimately show ?thesis by blast
qed

lemma context_init_step:
  assumes "uk_drm_virtgpu_context_init e dv c n s = Some (r, dv', s')" "drm_inv dv"
  shows "table_step H dv dv' \<and> within 2 s s'"
proof -
  have "table_step H dv (dv\<lparr>drm_ctx := a, drm_ctx_id := b, drm_capset_id := c, ctx_initialized := d\<rparr>)" for a b c d
    using assms(2) by (intro table_step_extend) (auto simp: drm_inv_def)
  thus ?thesis
    using assms
    by (auto simp: uk_drm_virtgpu_context_init_def table_step_refl numeral_2_eq_2 split: option.splits sum.splits if_splits
        intro: gpu_within)
qed

lemma execbuffer_within:
  "uk_drm_virtgpu_execbuffer e dv cmd s = Some (r, s') \<Longrightarrow> within 2 s s'"
  by (auto simp: uk_drm_virtgpu_execbuffer_def numeral_2_eq_2 split: option.splits if_splits intro: gpu_within)

lemma get_caps_within:
  "uk_drm_virtgpu_get_caps e i v b sz s = Some (r, s') \<Longrightarrow> within 2 s s'"
  by (auto simp: uk_drm_virtgpu_get_caps_def split: if_splits dest!: capset_get_frame)

lemma within_host_last: "within k s t \<Longrightarrow> within k s (t\<lparr>host := h\<rparr>)"
  by (rule within_0_host)

lemma ioctl_step:
  assumes "uk_drm_virtgpu_ioctl e dv nb req arg s = Some (r, dv', nb', s')" "drm_inv dv"
  shows "table_step (if req = DRM_IOCTL_GEM_CLOSE then {drm_gem_close_handle arg (shm (host s))} else {}) dv dv' \<and>
    (req = DRM_IOCTL_GEM_CLOSE \<longrightarrow>
      (if r = Inr () then dead_handle (drm_gem_close_handle arg (shm (host s))) dv' else dv' = dv)) \<and> within 2 s s'"
proof (cases "arg = 0 \<or> req = DRM_IOCTL_GEM_CLOSE")
  case True
  thus ?thesis
    using assms by (auto simp: uk_drm_virtgpu_ioctl_def Let_def table_step_refl split: if_splits dest: gem_close_step)
next
  case False
  thus ?thesis
    using assms
    by (auto simp: uk_drm_virtgpu_ioctl_def Let_def table_step_refl
        split: if_splits option.splits sum.splits prod.splits
        dest: context_init_step[where H = "{}"] create_blob_step[where H = "{}"] drm_map_step[where H = "{}"]
          execbuffer_within get_caps_within
        intro!: within_host_last)
qed

section \<open>What the platform leaves alone\<close>

text \<open>An observation of the platform state that no operation of the platform changes, for instance a
  word of the client's memory that the host does not write.\<close>

definition env_preserves :: "'h env \<Rightarrow> ('h \<Rightarrow> 'a) \<Rightarrow> bool" where
  "env_preserves e f \<longleftrightarrow> (\<forall>n a h. f (snd (env_sg_append e n a h)) = f h) \<and>
     (\<forall>bs a h. f (snd (env_vq_enqueue e bs a h)) = f h) \<and> (\<forall>h. f (env_vq_notify e h) = f h) \<and>
     (\<forall>h. f (snd (env_vq_dequeue e h)) = f h) \<and> (\<forall>h. f (snd (env_now_ns e h)) = f h) \<and>
     (\<forall>n h. f (snd (env_malloc e n h)) = f h) \<and> (\<forall>h. f (env_free e h) = f h)"

lemma env_preservesD:
  assumes "env_preserves e f"
  shows "env_sg_append e n a h = (r1, h1) \<Longrightarrow> f h1 = f h" "env_vq_enqueue e bs a h = (r1, h1) \<Longrightarrow> f h1 = f h"
    "f (env_vq_notify e h) = f h" "env_vq_dequeue e h = (q, h1) \<Longrightarrow> f h1 = f h"
    "env_now_ns e h = (t, h1) \<Longrightarrow> f h1 = f h" "env_malloc e a h = (b, h1) \<Longrightarrow> f h1 = f h" "f (env_free e h) = f h"
  using assms unfolding env_preserves_def by (metis snd_conv)+

lemma dequeue_spin_preserves:
  assumes "dequeue_spin e dl h = Some y" "env_preserves e f" shows "f (snd y) = f h"
  using assms
proof (induction rule: dequeue_spin.raw_induct[rotated, consumes 1])
  case (1 spin e dl h y)
  note p = env_preservesD(4,5)[OF 1(3)]
  show ?case
    using 1(2) 1(1)[OF _ 1(3)] p by (auto split: prod.splits vq_result.splits if_splits)
qed

lemma cmd_submit_preserves:
  assumes "cmd_submit e req n ex fe s = Some (r, s')" "env_preserves e f" shows "f (host s') = f (host s)"
  using assms(1) env_preservesD(3)[OF assms(2)]
  by (auto simp: cmd_submit_def cmd_submit_locked_def Let_def split: option.splits prod.splits sum.splits if_splits
      dest!: env_preservesD(1,2,5)[OF assms(2)] dequeue_spin_preserves[OF _ assms(2)])

lemma unmap_preserves:
  assumes "uk_virtio_gpu_gl_blob_unmap e b s = Some (r, b', s')" "env_preserves e f" shows "f (host s') = f (host s)"
  using assms(1)
  by (auto simp: uk_virtio_gpu_gl_blob_unmap_def Let_def split: option.splits sum.splits if_splits
      dest!: cmd_submit_preserves[OF _ assms(2)])

lemma destroy_preserves:
  assumes "uk_virtio_gpu_gl_blob_destroy e b s = Some (r, b', s')" "env_preserves e f" shows "f (host s') = f (host s)"
  using assms(1)
  by (auto simp: uk_virtio_gpu_gl_blob_destroy_def uk_virtio_gpu_gl_resource_unref_def Let_def
      split: option.splits sum.splits if_splits dest!: cmd_submit_preserves[OF _ assms(2)])

lemma gem_close_preserves:
  assumes "uk_drm_virtgpu_gem_close e dv h s = Some (r, dv', s')" "env_preserves e f" shows "f (host s') = f (host s)"
  using assms(1)
  by (auto simp: uk_drm_virtgpu_gem_close_def bo_release_def Let_def
      split: option.splits prod.splits if_splits dest!: unmap_preserves[OF _ assms(2)] destroy_preserves[OF _ assms(2)])

end
