(* ===== verification/Drm_Session.thy ===== *)
theory Drm_Session
  imports Drm_Handles
begin

text \<open>
  Sessions on an opened render node: the invariant of the mmap registry, and what a client can rely on
  after any sequence of ioctls.
\<close>

section \<open>The mmap registry\<close>

abbreviation live_map :: "uk_drm_virtgpu_mmap_entry \<Rightarrow> bool" where
  "live_map en \<equiv> me_bo_handle en \<noteq> 0"

definition page_up :: "nat \<Rightarrow> nat" where
  "page_up n = (n + 4095) div 4096 * 4096"

text \<open>An entry names an open object, and its window has the object's size (as the 32-bit field of
  \<open>resource_info\<close> reports it) rounded up to a page.\<close>

definition entry_ok :: "uk_drm_virtgpu_file \<Rightarrow> uk_drm_virtgpu_mmap_entry \<Rightarrow> bool" where
  "entry_ok F en \<longleftrightarrow> unat (me_offset en) mod 4096 = 0 \<and> 2 ^ 32 \<le> unat (me_offset en) \<and>
     unat (me_offset en) + unat (me_size en) \<le> unat (next_offset F) \<and>
     (\<exists>i. bo_lookup (file_dev F) (me_bo_handle en) = Some i \<and> bo_is_blob (handles (file_dev F) ! i) \<and>
        unat (me_size en) = page_up (unat (bo_size (handles (file_dev F) ! i)) mod 2 ^ 32) \<and>
        (me_ptr en \<noteq> 0 \<longrightarrow> bo_mapped (handles (file_dev F) ! i) = me_ptr en))"

definition maps_apart :: "uk_drm_virtgpu_mmap_entry \<Rightarrow> uk_drm_virtgpu_mmap_entry \<Rightarrow> bool" where
  "maps_apart a b \<longleftrightarrow> unat (me_offset a) + unat (me_size a) \<le> unat (me_offset b) \<or>
     unat (me_offset b) + unat (me_size b) \<le> unat (me_offset a)"

text \<open>\<open>n\<close> bounds the number of MAP requests so far.\<close>

definition file_inv :: "nat \<Rightarrow> uk_drm_virtgpu_file \<Rightarrow> bool" where
  "file_inv n F \<longleftrightarrow> drm_inv (file_dev F) \<and> length (mmaps F) = 256 \<and> unat (next_offset F) mod 4096 = 0 \<and>
     2 ^ 32 \<le> unat (next_offset F) \<and> unat (next_offset F) \<le> 2 ^ 32 * (n + 1) \<and>
     (\<forall>i<256. live_map (mmaps F ! i) \<longrightarrow> entry_ok F (mmaps F ! i)) \<and>
     (\<forall>i<256. \<forall>j<256. i \<noteq> j \<longrightarrow> live_map (mmaps F ! i) \<longrightarrow> live_map (mmaps F ! j) \<longrightarrow>
        maps_apart (mmaps F ! i) (mmaps F ! j))"

lemma align_up:
  assumes "unat v + 4095 < 2 ^ 64"
  shows "unat (align_up_u64 v UK_DRM_VIRTGPU_PAGE_SIZE) = page_up (unat v)"
proof -
  have m: "(4095 :: u64) = mask 12" by (simp add: mask_eq_exp_minus_1)
  have a: "v + UK_DRM_VIRTGPU_PAGE_SIZE - 1 = v + 4095" by (simp add: UK_DRM_VIRTGPU_PAGE_SIZE_def)
  have u: "unat (v + 4095) = unat v + 4095" using assms by (subst unat_add_small) simp_all
  have "unat (align_up_u64 v UK_DRM_VIRTGPU_PAGE_SIZE) = unat ((v + 4095) AND NOT (mask 12))"
    unfolding align_up_u64_def a by (simp add: UK_DRM_VIRTGPU_PAGE_SIZE_def m)
  also have "\<dots> = unat v + 4095 - (unat v + 4095) mod 2 ^ 12" by (simp only: and_not_mask_nat u)
  also have "\<dots> = page_up (unat v)" by (simp add: page_up_def minus_mod_eq_div_mult)
  finally show ?thesis .
qed

lemma page_up_props: "page_up n mod 4096 = 0" "n \<le> page_up n" "page_up n \<le> n + 4095"
  "n mod 4096 = 0 \<Longrightarrow> page_up n = n" "n \<le> 2 ^ 32 \<Longrightarrow> page_up n \<le> 2 ^ 32"
proof -
  show "page_up n mod 4096 = 0" by (simp add: page_up_def)
  have "page_up n + (n + 4095) mod 4096 = n + 4095" unfolding page_up_def by (rule div_mult_mod_eq)
  moreover have "(n + 4095) mod 4096 < 4096" by simp
  ultimately show "n \<le> page_up n" "page_up n \<le> n + 4095" by linarith+
  show "page_up n = n" if "n mod 4096 = 0"
  proof -
    from that obtain k where "n = 4096 * k" by (auto simp: mod_eq_0_iff_dvd elim: dvdE)
    thus ?thesis by (simp add: page_up_def)
  qed
  assume "n \<le> 2 ^ 32"
  hence "(n + 4095) div 4096 \<le> (2 ^ 32 + 4095) div 4096" by (intro div_le_mono) simp
  thus "page_up n \<le> 2 ^ 32" by (simp add: page_up_def)
qed

text \<open>The step of the offset counter.\<close>

lemma next_offset_step:
  fixes w :: u32 and off :: u64
  assumes "unat off mod 4096 = 0" "unat off + 2 ^ 33 < 2 ^ 64"
  defines "sz \<equiv> align_up_u64 (ucast w) UK_DRM_VIRTGPU_PAGE_SIZE"
  defines "nx \<equiv> align_up_u64 (off + (if sz \<noteq> 0 then sz else UK_DRM_VIRTGPU_PAGE_SIZE)) UK_DRM_VIRTGPU_PAGE_SIZE"
  shows "unat sz = page_up (unat w)" "unat nx mod 4096 = 0" "unat off + unat sz \<le> unat nx"
    "unat off < unat nx" "unat nx \<le> unat off + 2 ^ 32"
proof -
  have w: "unat (ucast w :: u64) = unat w" by (rule unat_u32_u64)
  show sz: "unat sz = page_up (unat w)"
    unfolding sz_def by (subst align_up) (use unat_u32_less[of w] in \<open>simp_all add: w\<close>)
  let ?step = "if sz \<noteq> 0 then sz else UK_DRM_VIRTGPU_PAGE_SIZE"
  have st: "unat ?step mod 4096 = 0" "unat sz \<le> unat ?step" "0 < unat ?step" "unat ?step \<le> 2 ^ 32"
    using page_up_props(1,5)[of "unat w"] unat_u32_less[of w] sz
    by (auto simp: UK_DRM_VIRTGPU_PAGE_SIZE_def unat_gt_0)
  have sum: "unat (off + ?step) = unat off + unat ?step"
    using st(4) assms(2) by (subst unat_add_small) simp_all
  have "unat nx = page_up (unat off + unat ?step)"
    unfolding nx_def by (subst align_up) (use st(4) assms(2) in \<open>simp_all only: sum, simp\<close>)
  also have "\<dots> = unat off + unat ?step" using assms(1) st(1) by (intro page_up_props(4)) (simp add: mod_eq_0_iff_dvd)
  finally have nx: "unat nx = unat off + unat ?step" .
  show "unat nx mod 4096 = 0" using nx assms(1) st(1) by (simp add: mod_eq_0_iff_dvd)
  show "unat off + unat sz \<le> unat nx" "unat off < unat nx" "unat nx \<le> unat off + 2 ^ 32" using nx st by simp_all
qed

lemma file_inv_mono: "file_inv m F \<Longrightarrow> m \<le> n \<Longrightarrow> file_inv n F"
  unfolding file_inv_def by (auto intro: order_trans[where y = "2 ^ 32 * (m + 1)"])

lemma entry_ok_step:
  assumes "entry_ok F en" "table_step H (file_dev F) (file_dev F')" "me_bo_handle en \<notin> H"
    "unat (next_offset F) \<le> unat (next_offset F')"
  shows "entry_ok F' en"
  using assms unfolding entry_ok_def table_step_def by fastforce

lemma file_inv_dev:
  assumes "file_inv n F" "table_step {} (file_dev F) dv'"
  shows "file_inv n (F\<lparr>file_dev := dv'\<rparr>)"
proof -
  have "entry_ok (F\<lparr>file_dev := dv'\<rparr>) en" if "entry_ok F en" for en
    by (rule entry_ok_step[OF that, where H = "{}"]) (use assms(2) in simp_all)
  thus ?thesis using assms by (auto simp: file_inv_def table_step_def)
qed

lemma file_inv_remove:
  assumes "file_inv n F" "table_step {h} (file_dev F) dv'"
  shows "file_inv n (mmap_remove_handle (F\<lparr>file_dev := dv'\<rparr>) h)"
proof -
  let ?F = "mmap_remove_handle (F\<lparr>file_dev := dv'\<rparr>) h"
  have "entry_ok ?F en" if "entry_ok F en" "me_bo_handle en \<noteq> h" for en
    by (rule entry_ok_step[OF that(1), where H = "{h}"]) (use assms(2) that(2) in \<open>simp_all add: mmap_remove_handle_def\<close>)
  moreover have "mmaps ?F ! i = (if me_bo_handle (mmaps F ! i) = h then zero_mmap else mmaps F ! i)" if "i < 256" for i
    using that assms(1) by (simp add: mmap_remove_handle_def file_inv_def)
  moreover have "file_dev ?F = dv'" "length (mmaps ?F) = length (mmaps F)" "next_offset ?F = next_offset F"
    by (simp_all add: mmap_remove_handle_def)
  moreover have "\<not> live_map zero_mmap" by (simp add: zero_mmap_def)
  ultimately show ?thesis using assms by (auto simp: file_inv_def table_step_def)
qed

text \<open>A new entry: its window starts where all the others end.\<close>

lemma file_inv_add:
  assumes "file_inv n F" "i < 256" "h \<noteq> 0" "bo_lookup (file_dev F) h = Some k" "bo_is_blob (handles (file_dev F) ! k)"
    "unat (w :: u32) = unat (bo_size (handles (file_dev F) ! k)) mod 2 ^ 32"
    "bo_mapped (handles (file_dev F) ! k) = ptr" "n < 2 ^ 31"
    "sz = align_up_u64 (ucast w) UK_DRM_VIRTGPU_PAGE_SIZE"
    "nx = align_up_u64 (next_offset F + (if sz \<noteq> 0 then sz else UK_DRM_VIRTGPU_PAGE_SIZE)) UK_DRM_VIRTGPU_PAGE_SIZE"
  shows "file_inv (n + 1) (F\<lparr>mmaps := (mmaps F)[i := \<lparr> me_offset = next_offset F, me_size = sz, me_bo_handle = h,
    me_ptr = ptr \<rparr>], next_offset := nx\<rparr>)" (is "file_inv _ ?F")
proof -
  let ?en = "\<lparr> me_offset = next_offset F, me_size = sz, me_bo_handle = h, me_ptr = ptr \<rparr>"
  note inv = assms(1)[unfolded file_inv_def]
  have "unat (next_offset F) \<le> 2 ^ 32 * (n + 1)" using inv by blast
  also have "\<dots> \<le> 2 ^ 32 * 2 ^ 31" using assms(8) by (intro mult_le_mono2) simp
  finally have room: "unat (next_offset F) + 2 ^ 33 < 2 ^ 64" by simp
  have nx: "unat sz = page_up (unat w)" "unat nx mod 4096 = 0" "unat (next_offset F) + unat sz \<le> unat nx"
    "unat (next_offset F) < unat nx" "unat nx \<le> unat (next_offset F) + 2 ^ 32"
    using next_offset_step[OF conjunct1[OF conjunct2[OF conjunct2[OF inv]]] room, of w]
    unfolding assms(9,10) by blast+
  have len: "length (mmaps F) = 256" using inv by blast
  have old: "entry_ok F (mmaps F ! j)" if "j < 256" "live_map (mmaps F ! j)" for j using inv that by blast
  have keep: "entry_ok ?F en" if "entry_ok F en" for en
    by (rule entry_ok_step[OF that, where H = "{}"]) (use nx(4) inv in \<open>auto intro: table_step_refl\<close>)
  have new: "entry_ok ?F ?en"
    using inv nx assms(4-7) unfolding entry_ok_def by auto
  have below: "maps_apart (mmaps F ! j) ?en" "maps_apart ?en (mmaps F ! j)" if "j < 256" "live_map (mmaps F ! j)" for j
    using old[OF that] by (auto simp: maps_apart_def entry_ok_def)
  have nth: "mmaps ?F ! j = (if j = i then ?en else mmaps F ! j)" if "j < 256" for j
    using that len by (simp add: nth_list_update)
  have ok: "entry_ok ?F (mmaps ?F ! j)" if "j < 256" "live_map (mmaps ?F ! j)" for j
    using that keep[OF old] new unfolding nth[OF that(1)] by (cases "j = i") (simp_all only: if_True if_False simp_thms)
  have apart: "maps_apart (mmaps ?F ! j) (mmaps ?F ! k)"
    if "j < 256" "k < 256" "j \<noteq> k" "live_map (mmaps ?F ! j)" "live_map (mmaps ?F ! k)" for j k
    using that below[of j] below[of k] inv unfolding nth[OF that(1)] nth[OF that(2)]
    by (cases "j = i"; cases "k = i") (simp_all only: if_True if_False simp_thms)
  have "unat nx \<le> 2 ^ 32 * (n + 1) + 2 ^ 32" using nx(5) inv by linarith
  hence top: "unat nx \<le> 2 ^ 32 * (n + 1 + 1)" by simp
  have frame: "file_dev ?F = file_dev F" "length (mmaps ?F) = length (mmaps F)" "next_offset ?F = nx" by simp_all
  show ?thesis
    unfolding file_inv_def frame using inv nx top ok apart by auto
qed

section \<open>Sessions\<close>

lemma file_map_step:
  assumes "file_map e F h s = Some (r, F', s')" "file_inv n F" "n < 2 ^ 31"
  shows "file_inv (n + 1) F' \<and> table_step {} (file_dev F) (file_dev F') \<and> within 2 s s' \<and> file_opened F' = file_opened F"
proof (cases "mmap_lookup_handle F h = None \<and> (\<exists>info. uk_drm_virtgpu_resource_info (file_dev F) h True = Inr info)")
  case False
  thus ?thesis
    using assms file_inv_mono[OF assms(2), of "n + 1"] table_step_refl[of "file_dev F" "{}"]
    by (auto simp: file_map_def file_inv_def split: option.splits sum.splits)
next
  case True
  then obtain info where info: "uk_drm_virtgpu_resource_info (file_dev F) h True = Inr info" by blast
  from assms(1) True info obtain mr dv where m: "uk_drm_virtgpu_map e (file_dev F) h True s = Some (mr, dv, s')"
    by (auto simp: file_map_def Let_def split: option.splits sum.splits)
  have di: "drm_inv (file_dev F)" using assms(2) by (simp add: file_inv_def)
  from drm_map_step[OF m di, of "{}"] have st: "table_step {} (file_dev F) dv" and w: "within 2 s s'"
    and a: "\<And>a. mr = Inr a \<Longrightarrow> \<exists>i. bo_lookup (file_dev F) h = Some i \<and> bo_is_blob (handles (file_dev F) ! i) \<and>
      bo_mapped (handles dv ! i) = a" by auto
  let ?F = "F\<lparr>file_dev := dv\<rparr>"
  have inv: "file_inv n ?F" "file_inv (n + 1) ?F"
    using file_inv_dev[OF assms(2) st] file_inv_mono by auto
  show ?thesis
  proof (cases "\<exists>a i. mr = Inr a \<and> mmap_alloc ?F = Some i")
    case False
    thus ?thesis using assms(1) True info m inv st w by (auto simp: file_map_def split: sum.splits option.splits)
  next
    case True2: True
    then obtain a i where ai: "mr = Inr a" "mmap_alloc ?F = Some i" by blast
    from a[OF ai(1)] obtain k where k: "bo_lookup (file_dev F) h = Some k" "bo_is_blob (handles (file_dev F) ! k)"
      "bo_mapped (handles dv ! k) = a" by blast
    with st have k': "bo_lookup dv h = Some k" "bo_is_blob (handles dv ! k)"
      "bo_size (handles dv ! k) = bo_size (handles (file_dev F) ! k)" by (auto simp: table_step_def)
    have i: "i < 256" using first_index_SomeD(1)[OF ai(2)[unfolded mmap_alloc_def]] inv(1) by (simp add: file_inv_def)
    have sz: "unat (info_size info) = unat (bo_size (handles dv ! k)) mod 2 ^ 32"
      using info k k'(3) by (auto simp: uk_drm_virtgpu_resource_info_def Let_def unsigned_ucast_eq take_bit_eq_mod)
    have h0: "h \<noteq> 0" using lookup_SomeD(5)[OF k(1) di] .
    let ?sz = "align_up_u64 (ucast (info_size info)) UK_DRM_VIRTGPU_PAGE_SIZE"
    have F': "F' = ?F\<lparr>mmaps := (mmaps ?F)[i := \<lparr> me_offset = next_offset ?F, me_size = ?sz, me_bo_handle = h, me_ptr = a \<rparr>],
        next_offset := align_up_u64 (next_offset ?F + (if ?sz \<noteq> 0 then ?sz else UK_DRM_VIRTGPU_PAGE_SIZE)) UK_DRM_VIRTGPU_PAGE_SIZE\<rparr>"
      using assms(1) True info m ai by (auto simp: file_map_def Let_def)
    have "file_inv (n + 1) F'"
      unfolding F' using k' k(3) sz by (intro file_inv_add[OF inv(1) i h0 _ _ _ _ assms(3) refl refl]) simp_all
    thus ?thesis using st w F' by simp
  qed
qed

text \<open>The client may change its memory before each request.\<close>

fun file_run :: "'h machine env \<Rightarrow> (u64 \<times> u64 \<times> (mem \<Rightarrow> mem)) list \<Rightarrow> uk_drm_virtgpu_file \<Rightarrow> u64 \<Rightarrow> 'h machine sys
    \<Rightarrow> (uk_drm_virtgpu_file \<times> u64 \<times> 'h machine sys) option" where
  "file_run e [] F nb s = Some (F, nb, s)"
| "file_run e ((request, arg, g) # xs) F nb s =
    (case uk_drm_virtgpu_file_ioctl e F nb request arg (with_shm g s) of
       None \<Rightarrow> None | Some (_, F, nb, s) \<Rightarrow> file_run e xs F nb s)"

text \<open>The host does not write the handle of a close request while it is processed.\<close>

definition private_closes :: "'h machine env \<Rightarrow> (u64 \<times> u64 \<times> (mem \<Rightarrow> mem)) list \<Rightarrow> bool" where
  "private_closes e xs \<longleftrightarrow> (\<forall>(request, arg, g)\<in>set xs. request = DRM_IOCTL_GEM_CLOSE \<longrightarrow>
     env_preserves e (\<lambda>h. drm_gem_close_handle arg (shm h)))"

lemma file_ioctl_step:
  assumes "uk_drm_virtgpu_file_ioctl e F nb request arg s = Some (r, F', nb', s')" "file_inv n F" "n < 2 ^ 31"
    "request = DRM_IOCTL_GEM_CLOSE \<Longrightarrow> env_preserves e (\<lambda>h. drm_gem_close_handle arg (shm h))"
  shows "file_inv (n + 1) F' \<and> (\<exists>H. table_step H (file_dev F) (file_dev F')) \<and> within 2 s s' \<and>
    file_opened F' = file_opened F \<and>
    (request = DRM_IOCTL_GEM_CLOSE \<and> r = Inr () \<longrightarrow> dead_handle (drm_gem_close_handle arg (shm (host s))) (file_dev F'))"
proof -
  have neq: "DRM_IOCTL_VIRTGPU_MAP \<noteq> DRM_IOCTL_GEM_CLOSE"
    by (simp add: DRM_IOCTL_VIRTGPU_MAP_def DRM_IOCTL_GEM_CLOSE_def DRM_IOW_def DRM_IOWR_def drm_consts)
  have di: "drm_inv (file_dev F)" using assms(2) by (simp add: file_inv_def)
  consider "\<not> file_opened F \<or> arg = 0" | "file_opened F" "arg \<noteq> 0" "request = DRM_IOCTL_VIRTGPU_MAP"
    | "file_opened F" "arg \<noteq> 0" "request \<noteq> DRM_IOCTL_VIRTGPU_MAP" by blast
  thus ?thesis
  proof cases
    case 1
    thus ?thesis using assms(1) file_inv_mono[OF assms(2)] table_step_refl[OF di]
      by (auto simp: uk_drm_virtgpu_file_ioctl_def)
  next
    case 2
    thus ?thesis using assms(1) neq
      by (auto simp: uk_drm_virtgpu_file_ioctl_def split: option.splits sum.splits
          dest!: file_map_step[OF _ assms(2,3)] intro!: within_host_last)
  next
    case 3
    then obtain dv where io: "uk_drm_virtgpu_ioctl e (file_dev F) nb request arg s = Some (r, dv, nb', s')"
      and F': "F' = (if request = DRM_IOCTL_GEM_CLOSE \<and> r = Inr ()
         then mmap_remove_handle (F\<lparr>file_dev := dv\<rparr>) (drm_gem_close_handle arg (shm (host s'))) else F\<lparr>file_dev := dv\<rparr>)"
      using assms(1) by (auto simp: uk_drm_virtgpu_file_ioctl_def Let_def split: option.splits)
    let ?h = "drm_gem_close_handle arg (shm (host s))"
    note st = ioctl_step[OF io di]
    have opened: "file_opened F' = file_opened F" "file_dev F' = dv" by (simp_all add: F' mmap_remove_handle_def)
    show ?thesis
    proof (cases "request = DRM_IOCTL_GEM_CLOSE \<and> r = Inr ()")
      case True
      have "drm_gem_close_handle arg (shm (host s')) = ?h"
        using io 3 True assms(4) by (auto simp: uk_drm_virtgpu_ioctl_def Let_def
            dest: gem_close_preserves[where f = "\<lambda>h. drm_gem_close_handle arg (shm h)"])
      hence "file_inv n F'" using file_inv_remove[OF assms(2), of ?h dv] st True by (simp add: F')
      thus ?thesis using file_inv_mono st True opened by auto
    next
      case False
      hence "table_step {} (file_dev F) dv" using st table_step_refl[OF di] by (auto split: if_splits)
      from file_inv_dev[OF assms(2) this] have "file_inv n F'" using False by (auto simp: F')
      thus ?thesis using file_inv_mono st False opened by auto
    qed
  qed
qed

lemma file_run_step:
  assumes "file_run e xs F nb s = Some (F', nb', s')" "file_inv n F" "n + length xs \<le> 2 ^ 31" "private_closes e xs"
  shows "file_inv (n + length xs) F' \<and> within (2 * length xs) s s' \<and> file_opened F' = file_opened F \<and>
    next_bo_handle (file_dev F) \<le> next_bo_handle (file_dev F') \<and>
    (\<forall>h. dead_handle h (file_dev F) \<longrightarrow> dead_handle h (file_dev F'))"
  using assms
proof (induction xs arbitrary: F nb s n)
  case (Cons x xs)
  obtain request arg g where x: "x = (request, arg, g)" by (cases x)
  with Cons.prems(1) obtain r F1 nb1 s1 where
    io: "uk_drm_virtgpu_file_ioctl e F nb request arg (with_shm g s) = Some (r, F1, nb1, s1)"
    and rest: "file_run e xs F1 nb1 s1 = Some (F', nb', s')" by (auto split: option.splits)
  have pc: "request = DRM_IOCTL_GEM_CLOSE \<Longrightarrow> env_preserves e (\<lambda>h. drm_gem_close_handle arg (shm h))"
    "private_closes e xs" using Cons.prems(4) by (auto simp: private_closes_def x)
  have n: "n < 2 ^ 31" "n + 1 + length xs \<le> 2 ^ 31" using Cons.prems(3) by auto
  from file_ioctl_step[OF io Cons.prems(2) n(1) pc(1)] obtain H where
    st: "file_inv (n + 1) F1" "table_step H (file_dev F) (file_dev F1)" "within 2 (with_shm g s) s1"
      "file_opened F1 = file_opened F" by auto
  have w1: "within 2 s s1" using within_host_first[OF st(3)] .
  from Cons.IH[OF rest st(1) n(2) pc(2)] have
    ih: "file_inv (n + 1 + length xs) F'" "within (2 * length xs) s1 s'" "file_opened F' = file_opened F1"
      "next_bo_handle (file_dev F1) \<le> next_bo_handle (file_dev F')"
      "\<forall>h. dead_handle h (file_dev F1) \<longrightarrow> dead_handle h (file_dev F')" by auto
  have "within (2 * length (x # xs)) s s'" using within_trans[OF w1 ih(2)] by simp
  moreover have "file_inv (n + length (x # xs)) F'" using ih(1) by simp
  ultimately show ?case using ih(3-5) st(2,4) by (auto simp: table_step_def)
qed simp

lemma capset_mask_frame: "capset_mask e k i acc s = Some (ids, s') \<Longrightarrow> \<exists>h. s' = s\<lparr>host := h\<rparr>"
proof (induction k arbitrary: i acc s)
  case 0
  thus ?case by (auto intro: exI[where x = "host s"])
next
  case (Suc k)
  thus ?case by (fastforce dest!: capset_info_frame split: option.splits sum.splits)
qed

lemma drm_inv_zero: "drm_inv zero_drm"
  by (simp add: drm_inv_def zero_drm_def zero_bo_def UK_DRM_VIRTGPU_MAX_HANDLES_def)

lemma file_open_inv:
  assumes "uk_drm_virtgpu_file_open e probed s = Some (Inr (), F, s')"
  shows "file_inv 0 F \<and> file_opened F \<and> (\<exists>h. s' = s\<lparr>host := h\<rparr>) \<and> next_bo_handle (file_dev F) = 0"
proof -
  have "file_inv 0 (zero_file\<lparr>next_offset := UK_DRM_VIRTGPU_MMAP_BASE, file_dev := dv, file_opened := True\<rparr>)"
    if "drm_inv dv" for dv
    using that by (simp add: file_inv_def zero_file_def zero_mmap_def UK_DRM_VIRTGPU_FDIO_MAX_MMAPS_def UK_DRM_VIRTGPU_MMAP_BASE_def)
  moreover have "drm_inv (zero_drm\<lparr>has_3d_features := a, has_resource_blob := b, has_host_visible := c,
      has_context_init := d, supported_capset_ids := ids\<rparr>)" for a b c d ids
    using drm_inv_zero by (simp add: drm_inv_def)
  moreover have "next_bo_handle zero_drm = 0" by (simp add: zero_drm_def)
  ultimately show ?thesis
    using assms by (auto simp: uk_drm_virtgpu_file_open_def uk_drm_virtgpu_open_def Let_def
        split: option.splits sum.splits prod.splits if_splits dest!: capset_mask_frame)
qed

section \<open>What a client can rely on\<close>

text \<open>C11 (invariant): from a freshly opened render node, any sequence of ioctls with any arguments, in which
  the host does not write the handle of a close request, keeps the handle table and the mmap registry
  consistent (windows page-aligned, disjoint, below the offset counter and each naming an open object)
  and the driver's invariant below them.\<close>

theorem drm_sessions_keep_invariant:
  assumes "uk_drm_virtgpu_file_open e True s = Some (Inr (), F, s1)" "file_run e xs F nb s1 = Some (F', nb', s')"
    "private_closes e xs" "length xs < 2 ^ 31" "dev_inv (vg s)" "counters_below n (vg s)" "n + 2 * length xs < 2 ^ 32"
  shows "file_inv (length xs) F' \<and> dev_inv (vg s') \<and> g_ctrlq_lock s' = g_ctrlq_lock s"
proof -
  from file_open_inv[OF assms(1)] obtain h where F: "file_inv 0 F" and s1: "s1 = s\<lparr>host := h\<rparr>" by blast
  from file_run_step[OF assms(2) F _ assms(3)] assms(4)
  have "file_inv (length xs) F'" "within (2 * length xs) s1 s'" by auto
  with within_inv[OF this(2), of n] assms(5-7) show ?thesis by (simp add: s1)
qed

text \<open>C15 (safety): an address that \<open>mmap\<close> returns after any session lies in the mapping of exactly one
  object, which is still open, and the requested length stays inside its window.\<close>

theorem mmap_resolves_open_object:
  assumes "file_inv n F" "file_run e xs F nb s = Some (F', nb', s')" "private_closes e xs" "n + length xs \<le> 2 ^ 31"
    "uk_drm_virtgpu_file_mmap F' off len True = Inr a"
  shows "\<exists>i<256. \<exists>k. let en = mmaps F' ! i; bo = handles (file_dev F') ! k in
    bo_lookup (file_dev F') (me_bo_handle en) = Some k \<and> bo_is_blob bo \<and> bo_mapped bo \<noteq> 0 \<and>
    unat (me_offset en) \<le> unat off \<and> a = bo_mapped bo + (off - me_offset en) \<and>
    unat off - unat (me_offset en) + unat len \<le> page_up (unat (bo_size bo) mod 2 ^ 32) \<and>
    (\<forall>j<256. mmap_hit off (mmaps F' ! j) \<longrightarrow> j = i)"
proof -
  from file_run_step[OF assms(2,1,4,3)] have inv: "file_inv (n + length xs) F'" by blast
  from assms(5) obtain i where i: "first_index (mmap_hit off) (mmaps F') = Some i"
    and a: "\<not> me_size (mmaps F' ! i) - (off - me_offset (mmaps F' ! i)) < len"
      "a = me_ptr (mmaps F' ! i) + (off - me_offset (mmaps F' ! i))"
    by (auto simp: uk_drm_virtgpu_file_mmap_def Let_def split: option.splits if_splits)
  have len: "length (mmaps F') = 256" using inv by (simp add: file_inv_def)
  have end_at: "unat (me_offset (mmaps F' ! j) + me_size (mmaps F' ! j)) =
      unat (me_offset (mmaps F' ! j)) + unat (me_size (mmaps F' ! j))" if "j < 256" "live_map (mmaps F' ! j)" for j
  proof (rule unat_add_small)
    have "entry_ok F' (mmaps F' ! j)" using inv that by (simp add: file_inv_def)
    thus "unat (me_offset (mmaps F' ! j)) + unat (me_size (mmaps F' ! j)) < 2 ^ LENGTH(64)"
      using unat_u64_less[of "next_offset F'"] unfolding entry_ok_def by simp
  qed
  have hit: "live_map (mmaps F' ! j) \<and> me_ptr (mmaps F' ! j) \<noteq> 0 \<and> unat (me_offset (mmaps F' ! j)) \<le> unat off \<and>
      unat off < unat (me_offset (mmaps F' ! j)) + unat (me_size (mmaps F' ! j))"
    if "j < 256" "mmap_hit off (mmaps F' ! j)" for j
    using that end_at[of j] by (auto simp: mmap_hit_def word_less_nat_alt word_le_nat_alt)
  have i256: "i < 256" and hi: "mmap_hit off (mmaps F' ! i)"
    using first_index_SomeD[OF i] len by auto
  note hi' = hit[OF i256 hi]
  from inv i256 hi' obtain k where k: "bo_lookup (file_dev F') (me_bo_handle (mmaps F' ! i)) = Some k"
    "bo_is_blob (handles (file_dev F') ! k)" "bo_mapped (handles (file_dev F') ! k) = me_ptr (mmaps F' ! i)"
    "unat (me_size (mmaps F' ! i)) = page_up (unat (bo_size (handles (file_dev F') ! k)) mod 2 ^ 32)"
    by (auto simp: file_inv_def entry_ok_def)
  have d: "unat (off - me_offset (mmaps F' ! i)) = unat off - unat (me_offset (mmaps F' ! i))"
    using hi' by (simp add: unat_sub word_le_nat_alt)
  have "unat (me_size (mmaps F' ! i) - (off - me_offset (mmaps F' ! i))) =
      unat (me_size (mmaps F' ! i)) - (unat off - unat (me_offset (mmaps F' ! i)))"
    using hi' by (subst unat_sub) (auto simp: word_le_nat_alt d)
  with a(1) hi' have fits: "unat off - unat (me_offset (mmaps F' ! i)) + unat len \<le> unat (me_size (mmaps F' ! i))"
    by (auto simp: word_less_nat_alt)
  have "j = i" if "j < 256" "mmap_hit off (mmaps F' ! j)" for j
  proof (rule ccontr)
    assume "j \<noteq> i"
    hence "maps_apart (mmaps F' ! j) (mmaps F' ! i)" using inv that i256 hi' hit[OF that] by (simp add: file_inv_def)
    thus False using hit[OF that] hi' by (auto simp: maps_apart_def)
  qed
  thus ?thesis
    using i256 k hi' a(2) fits by (intro exI[where x = i] conjI exI[where x = k]) (simp_all add: Let_def)
qed

text \<open>C18 (safety): once a close request has succeeded its handle is dead for the rest of the session: no
  query, map or close accepts it, and no mmap window names it.\<close>

theorem closed_handles_stay_closed:
  assumes "file_inv n F" "uk_drm_virtgpu_file_ioctl e F nb DRM_IOCTL_GEM_CLOSE arg s = Some (Inr (), F1, nb1, s1)"
    "file_run e xs F1 nb1 s1 = Some (F', nb', s')" "private_closes e ((DRM_IOCTL_GEM_CLOSE, arg, g) # xs)"
    "n + length xs < 2 ^ 31" "h = drm_gem_close_handle arg (shm (host s))"
  shows "uk_drm_virtgpu_resource_info (file_dev F') h True = Inl ENOENT \<and>
    uk_drm_virtgpu_map e (file_dev F') h True s' = Some (Inl ENOENT, file_dev F', s') \<and>
    uk_drm_virtgpu_gem_close e (file_dev F') h s' = Some (Inl ENOENT, file_dev F', s') \<and>
    (\<forall>en\<in>set (mmaps F'). me_bo_handle en \<noteq> h)"
proof -
  have pc: "env_preserves e (\<lambda>h. drm_gem_close_handle arg (shm h))" "private_closes e xs"
    using assms(4) by (auto simp: private_closes_def)
  have "n < 2 ^ 31" using assms(5) by simp
  from file_ioctl_step[OF assms(2,1) this pc(1)] assms(6)
  have F1: "file_inv (n + 1) F1" "dead_handle h (file_dev F1)" by auto
  from file_run_step[OF assms(3) F1(1) _ pc(2)] assms(5)
  have F': "file_inv (n + 1 + length xs) F'" "\<forall>h. dead_handle h (file_dev F1) \<longrightarrow> dead_handle h (file_dev F')" by auto
  with F1(2) have none: "bo_lookup (file_dev F') h = None" "h \<noteq> 0" by (auto simp: dead_handle_def)
  have "me_bo_handle en \<noteq> h" if "en \<in> set (mmaps F')" for en
    using that F'(1) none by (force simp: file_inv_def entry_ok_def in_set_conv_nth)
  thus ?thesis
    using none by (simp add: uk_drm_virtgpu_resource_info_def uk_drm_virtgpu_map_def uk_drm_virtgpu_gem_close_def)
qed

text \<open>Handles are never reused: once 256 have been handed out every later creation fails with
  ENOMEM, however many of them the client has closed.\<close>

theorem handles_run_out:
  assumes "file_inv n F" "next_bo_handle (file_dev F) = 256" "file_run e xs F nb s = Some (F', nb', s')"
    "private_closes e xs" "n + length xs \<le> 2 ^ 31" "sz \<noteq> 0"
  shows "uk_drm_virtgpu_resource_create_blob e (file_dev F') nb' mem flags sz True s' =
    Some (Inl ENOMEM, file_dev F', nb', s')"
proof -
  from file_run_step[OF assms(3,1,5,4)] assms(2) have "256 \<le> next_bo_handle (file_dev F')" by simp
  thus ?thesis using assms(6)
    by (simp add: uk_drm_virtgpu_resource_create_blob_def bo_alloc_def Let_def UK_DRM_VIRTGPU_MAX_HANDLES_def)
qed

text \<open>A created object is reported back under its handle with the identifier of its resource,
  its memory type and its size, of which the query shows only the low 32 bits.\<close>

theorem created_object_reported:
  assumes "uk_drm_virtgpu_resource_create_blob e dv nb mem flags sz True s = Some (Inr (h, res), dv', nb', s')" "drm_inv dv"
  shows "h = next_bo_handle dv + 1 \<and> nb' = nb + 1 \<and> \<not> dead_handle h dv \<and> bo_lookup dv h = None \<and>
    uk_drm_virtgpu_resource_info dv' h True =
      Inr \<lparr> info_bo_handle = h, info_res_handle = res, info_size = ucast sz, info_blob_mem = mem \<rparr>"
proof -
  let ?n = "next_bo_handle dv"
  from assms(1) have lt: "?n < 256"
    by (auto simp: uk_drm_virtgpu_resource_create_blob_def bo_alloc_def Let_def UK_DRM_VIRTGPU_MAX_HANDLES_def not_le
        split: if_splits)
  hence n: "unat ?n < 256" by (simp add: word_less_nat_alt)
  have u: "unat (?n + 1) = unat ?n + 1" using n by (subst unat_add_small) simp_all
  hence h: "?n + 1 \<noteq> 0" "?n < ?n + 1" "\<not> ?n + 1 \<le> ?n"
    by (simp_all add: word_less_nat_alt word_le_nat_alt flip: unat_0_iff)
  have len: "unat ?n < length (handles dv)" using n assms(2) by (simp add: drm_inv_def)
  from assms(1) lt len h(1) have "h = ?n + 1" "nb' = nb + 1" "uk_drm_virtgpu_resource_info dv' h True =
      Inr \<lparr> info_bo_handle = h, info_res_handle = res, info_size = ucast sz, info_blob_mem = mem \<rparr>"
    by (auto simp: uk_drm_virtgpu_resource_create_blob_def bo_alloc_def Let_def UK_DRM_VIRTGPU_MAX_HANDLES_def not_le
        bo_upd_def uk_drm_virtgpu_resource_info_def bo_lookup_def zero_bo_def split: option.splits sum.splits if_splits)
  thus ?thesis using h by (simp add: dead_handle_def bo_lookup_def)
qed

section \<open>Concrete sessions\<close>

text \<open>A file with one open object of 5000 bytes, mapped at \<open>0x70000000\<close>, and a client that has stored
  the handle 1 at \<open>0x1000\<close> and \<open>0x1008\<close>.\<close>

definition demo_bo :: uk_drm_virtgpu_bo where
  "demo_bo = zero_bo\<lparr>bo_handle := 1, bo_res_handle := 7, bo_size := 5000, bo_is_blob := True, bo_mapped := 0x70000000,
     bo_blob := zero_blob\<lparr>blob_resource_id := 7, blob_created := True\<rparr>\<rparr>"

definition demo_map :: uk_drm_virtgpu_mmap_entry where
  "demo_map = \<lparr> me_offset = 0x100000000, me_size = 8192, me_bo_handle = 1, me_ptr = 0x70000000 \<rparr>"

definition demo_file :: uk_drm_virtgpu_file where
  "demo_file = zero_file\<lparr>file_dev := zero_drm\<lparr>handles := (replicate 256 zero_bo)[0 := demo_bo], next_bo_handle := 1\<rparr>,
     mmaps := (replicate 256 zero_mmap)[0 := demo_map], next_offset := 0x100002000, file_opened := True\<rparr>"

definition demo_client :: "mem \<Rightarrow> mem" where
  "demo_client m = mem_store 0x1000 (le32 1 @ le32 0 @ le32 1) (\<lambda>_. 0)"

definition demo_machine_sys :: "u8 list machine sys" where
  "demo_machine_sys = \<lparr> vg = demo_dev, host = \<lparr> link = [], shm = (\<lambda>_. 0) \<rparr>, g_ctrlq_lock = 0 \<rparr>"

lemma demo_client_reads: "load32 0x1000 (demo_client m) = 1" "load32 0x1008 (demo_client m) = 1"
  by (simp_all add: load32_def mem_load_def demo_client_def mem_store_def upt_rec) (simp_all add: le32_def)

lemma machine_preserves_memory: "env_preserves answering_machine (\<lambda>h. f (shm h))"
  by (simp add: env_preserves_def answering_machine_def)

lemma demo_file_inv: "file_inv 1 demo_file"
proof -
  have nth: "(replicate 256 x)[0 := y] ! i = (if i = 0 then y else x)" if "i < 256" for i :: nat and x y :: 'a
    using that by simp
  have look: "bo_lookup (file_dev demo_file) 1 = Some 0" "handles (file_dev demo_file) ! 0 = demo_bo"
    by (simp_all add: bo_lookup_def demo_file_def demo_bo_def)
  have "drm_inv (file_dev demo_file)"
    by (auto simp: drm_inv_def demo_file_def nth demo_bo_def zero_bo_def)
  moreover have "entry_ok demo_file demo_map"
    using look by (simp add: entry_ok_def demo_map_def page_up_def demo_bo_def) (simp add: demo_file_def)
  moreover have "\<not> live_map zero_mmap" by (simp add: zero_mmap_def)
  ultimately show ?thesis
    by (auto simp: file_inv_def nth demo_file_def)
qed

theorem mmap_resolves_open_object_witness:
  "\<exists>F' nb' s'. file_run answering_machine [(DRM_IOCTL_VIRTGPU_MAP, 0x1000, demo_client)] demo_file 1 demo_machine_sys =
      Some (F', nb', s') \<and> uk_drm_virtgpu_file_mmap F' 0x100001000 100 True = Inr 0x70001000 \<and>
    (\<exists>i<256. \<exists>k. let en = mmaps F' ! i; bo = handles (file_dev F') ! k in
      bo_lookup (file_dev F') (me_bo_handle en) = Some k \<and> bo_is_blob bo \<and> bo_mapped bo \<noteq> 0 \<and>
      unat (me_offset en) \<le> 0x100001000 \<and> 0x70001000 = bo_mapped bo + (0x100001000 - me_offset en) \<and>
      0x100001000 - unat (me_offset en) + 100 \<le> page_up (unat (bo_size bo) mod 2 ^ 32) \<and>
      (\<forall>j<256. mmap_hit 0x100001000 (mmaps F' ! j) \<longrightarrow> j = i))"
proof -
  have hit: "mmap_lookup_handle demo_file 1 = Some 0"
    by (simp add: mmap_lookup_handle_def first_index_Some demo_file_def demo_map_def)
  let ?s = "with_shm (mem_store 0x1000 (le64 0x100000000)) (with_shm demo_client demo_machine_sys)"
  have off: "me_offset (mmaps demo_file ! 0) = 0x100000000" by (simp add: demo_file_def demo_map_def)
  have run: "file_run answering_machine [(DRM_IOCTL_VIRTGPU_MAP, 0x1000, demo_client)] demo_file 1 demo_machine_sys =
      Some (demo_file, 1, ?s)"
    using hit off by (simp add: uk_drm_virtgpu_file_ioctl_def file_map_def drm_virtgpu_map_handle_def demo_client_reads)
      (simp add: demo_file_def)
  have "first_index (mmap_hit 0x100001000) (mmaps demo_file) = Some 0"
    by (simp add: first_index_Some demo_file_def mmap_hit_def demo_map_def)
  hence mm: "uk_drm_virtgpu_file_mmap demo_file 0x100001000 100 True = Inr 0x70001000"
    by (simp add: uk_drm_virtgpu_file_mmap_def UK_DRM_VIRTGPU_PAGE_SIZE_def) (simp add: demo_file_def demo_map_def)
  have pc: "private_closes answering_machine [(DRM_IOCTL_VIRTGPU_MAP, 0x1000, demo_client)]"
    by (simp add: private_closes_def machine_preserves_memory)
  from mmap_resolves_open_object[OF demo_file_inv run pc _ mm] run mm show ?thesis by simp
qed

theorem closed_handles_stay_closed_witness:
  "\<exists>F1 nb1 s1. uk_drm_virtgpu_file_ioctl answering_machine demo_file 1 DRM_IOCTL_GEM_CLOSE 0x1000
      (with_shm demo_client demo_machine_sys) = Some (Inr (), F1, nb1, s1) \<and>
    uk_drm_virtgpu_resource_info (file_dev F1) 1 True = Inl ENOENT \<and> (\<forall>en\<in>set (mmaps F1). me_bo_handle en \<noteq> 1)"
proof -
  let ?s = "with_shm demo_client demo_machine_sys"
  have h: "drm_gem_close_handle 0x1000 (shm (host ?s)) = 1"
    by (simp add: drm_gem_close_handle_def demo_client_reads)
  have look: "bo_lookup (file_dev demo_file) 1 = Some 0" "handles (file_dev demo_file) ! 0 = demo_bo"
    by (simp_all add: bo_lookup_def demo_file_def demo_bo_def)
  have "find_res demo_dev 7 = None"
    by (simp add: find_res_def first_index_None demo_dev_def vgpu_new_dev_def)
  hence "bo_release answering_machine (file_dev demo_file) 0 ?s = Some (bo_upd 0 (\<lambda>_. zero_bo) (file_dev demo_file), ?s)"
    using look by (simp add: bo_release_def Let_def demo_bo_def uk_virtio_gpu_gl_blob_destroy_def
        uk_virtio_gpu_gl_resource_unref_def demo_machine_sys_def zero_blob_def)
  hence "uk_drm_virtgpu_gem_close answering_machine (file_dev demo_file) 1 ?s =
      Some (Inr (), bo_upd 0 (\<lambda>_. zero_bo) (file_dev demo_file), ?s)"
    using look by (simp add: uk_drm_virtgpu_gem_close_def demo_bo_def)
  moreover have "DRM_IOCTL_GEM_CLOSE \<noteq> DRM_IOCTL_VIRTGPU_MAP"
    by (simp add: DRM_IOCTL_VIRTGPU_MAP_def DRM_IOCTL_GEM_CLOSE_def DRM_IOW_def DRM_IOWR_def drm_consts)
  ultimately obtain F1 where io: "uk_drm_virtgpu_file_ioctl answering_machine demo_file 1 DRM_IOCTL_GEM_CLOSE 0x1000 ?s =
      Some (Inr (), F1, 1, ?s)"
    using h by (simp add: uk_drm_virtgpu_file_ioctl_def uk_drm_virtgpu_ioctl_def Let_def demo_file_def)
  have pc: "private_closes answering_machine [(DRM_IOCTL_GEM_CLOSE, 0x1000, id)]"
    by (simp add: private_closes_def machine_preserves_memory)
  from closed_handles_stay_closed[OF demo_file_inv io _ pc _ h[symmetric], of F1 1 ?s] io show ?thesis by simp
qed

theorem handles_run_out_witness:
  "\<exists>F :: uk_drm_virtgpu_file. (\<forall>h. bo_lookup (file_dev F) h = None) \<and> (\<forall>mem flags. uk_drm_virtgpu_resource_create_blob answering_machine
    (file_dev F) 257 mem flags 4096 True demo_machine_sys = Some (Inl ENOMEM, file_dev F, 257, demo_machine_sys))"
proof -
  let ?F = "zero_file\<lparr>next_offset := UK_DRM_VIRTGPU_MMAP_BASE, file_dev := zero_drm\<lparr>next_bo_handle := 256\<rparr>, file_opened := True\<rparr>"
  have "file_inv 0 ?F"
    by (simp add: file_inv_def drm_inv_def zero_drm_def zero_bo_def zero_file_def zero_mmap_def UK_DRM_VIRTGPU_MAX_HANDLES_def
        UK_DRM_VIRTGPU_FDIO_MAX_MMAPS_def UK_DRM_VIRTGPU_MMAP_BASE_def)
  from handles_run_out[OF this _ _ _ _, of answering_machine "[]" 257 demo_machine_sys ?F 257 demo_machine_sys 4096]
  have "uk_drm_virtgpu_resource_create_blob answering_machine (file_dev ?F) 257 mem flags 4096 True demo_machine_sys =
      Some (Inl ENOMEM, file_dev ?F, 257, demo_machine_sys)" for mem flags
    by (simp add: private_closes_def)
  moreover have "bo_lookup (file_dev ?F) h = None" for h
  proof (cases "h = 0 \<or> 256 < h")
    case False
    hence "unat h \<noteq> 0" "unat h \<le> 256" by (auto simp: unat_eq_0 word_less_nat_alt)
    hence "unat (h - 1) < 256" using False by (simp add: unat_diff_1)
    thus ?thesis by (simp add: bo_lookup_def zero_drm_def zero_bo_def UK_DRM_VIRTGPU_MAX_HANDLES_def)
  qed (auto simp: bo_lookup_def)
  ultimately show ?thesis by (intro exI[where x = ?F]) simp
qed

text \<open>Creating the first object on the demo device.\<close>

lemma demo_blob_created:
  assumes "s = demo_machine_sys\<lparr>host := h\<rparr>"
  shows "\<exists>b s'. uk_virtio_gpu_gl_blob_create answering_machine 64 2 1 nb (Some zero_blob) s = Some (Inr b, s') \<and>
    blob_resource_id b = 1 \<and> shm (host s') = shm h"
proof -
  have d: "ctrlq demo_dev" "resources demo_dev \<noteq> []" "next_blob_map_offset demo_dev = 0"
    by (simp_all add: demo_dev_def vgpu_new_dev_def UKVGPU_MAX_RESOURCES_def)
  have n: "negotiated demo_dev F_RESOURCE_BLOB" by (simp add: negotiated_def demo_dev_def F_RESOURCE_BLOB_def)
  have al: "blob_aligned_size demo_dev 64 = Some 4096"
    by (simp add: blob_aligned_size_def blob_align_def demo_dev_def add_overflow_def Let_def)
  show ?thesis
    using d n al by (simp add: assms uk_virtio_gpu_gl_blob_create_def uk_virtio_gpu_gl_blob_create_with_ctx_def Let_def
        demo_machine_sys_def demo_alloc BLOB_MEM_HOST3D_def enc_resource_create_blob_def machine_answered sizeof_ctrl_hdr_def
        add_overflow_def zero_blob_def res_upd_def)
qed

theorem created_object_reported_witness:
  "\<exists>dv' s'. uk_drm_virtgpu_resource_create_blob answering_machine zero_drm 5 2 1 64 True demo_machine_sys =
      Some (Inr (1, 1), dv', 6, s') \<and> uk_drm_virtgpu_resource_info dv' 1 True =
      Inr \<lparr> info_bo_handle = 1, info_res_handle = 1, info_size = 64, info_blob_mem = 2 \<rparr>"
proof -
  obtain b s' where b: "uk_virtio_gpu_gl_blob_create answering_machine 64 2 1 5 (Some zero_blob) demo_machine_sys = Some (Inr b, s')"
    "blob_resource_id b = 1"
    using demo_blob_created[of demo_machine_sys "host demo_machine_sys" 5] by auto
  then obtain dv' where c: "uk_drm_virtgpu_resource_create_blob answering_machine zero_drm 5 2 1 64 True demo_machine_sys =
      Some (Inr (1, 1), dv', 6, s')"
    by (simp add: uk_drm_virtgpu_resource_create_blob_def bo_alloc_def Let_def UK_DRM_VIRTGPU_MAX_HANDLES_def zero_drm_def
        bo_upd_def zero_bo_def)
  from created_object_reported[OF c drm_inv_zero] c show ?thesis by auto
qed

text \<open>A client that asks for an object of 64 bytes through the ioctl.\<close>

definition create_client :: "mem \<Rightarrow> mem" where
  "create_client m = mem_store 0x1000 (le32 2 @ le32 1 @ le32 0 @ le32 0 @ le64 64) (\<lambda>_. 0)"

lemma create_client_reads:
  "load32 0x1000 (create_client m) = 2" "load32 0x1004 (create_client m) = 1" "load64 0x1010 (create_client m) = 64"
  by (simp_all add: load32_def load64_def mem_load_def create_client_def mem_store_def upt_rec)
    (simp_all add: le32_def le64_def un64_def)

theorem drm_sessions_keep_invariant_witness:
  "\<exists>F s1 F' s'. uk_drm_virtgpu_file_open answering_machine True demo_machine_sys = Some (Inr (), F, s1) \<and>
    file_run answering_machine [(DRM_IOCTL_VIRTGPU_RESOURCE_CREATE_BLOB, 0x1000, create_client)] F 1 s1 = Some (F', 2, s') \<and>
    next_bo_handle (file_dev F') = 1 \<and> file_inv 1 F' \<and> dev_inv (vg s')"
proof -
  have caps: "num_capsets demo_dev = 1" "ctrlq demo_dev" by (simp_all add: demo_dev_def)
  have "gpu_resp_errno RESP_OK_CAPSET_INFO = None" "ok_reply CMD_GET_CAPSET_INFO = RESP_OK_CAPSET_INFO"
    by (simp_all add: gpu_resp_errno_def ok_reply_def proto_consts)
  hence "\<exists>ids h. capset_mask answering_machine 1 0 0 demo_machine_sys = Some (ids, demo_machine_sys\<lparr>host := h\<rparr>)"
    using caps by (simp add: uk_virtio_gpu_gl_capset_info_get_def Let_def demo_machine_sys_def machine_answered
        enc_get_capset_info_def sizeof_resp_capset_info_def)
  then obtain F h where op: "uk_drm_virtgpu_file_open answering_machine True demo_machine_sys = Some (Inr (), F, demo_machine_sys\<lparr>host := h\<rparr>)"
    using caps by (auto simp: uk_drm_virtgpu_file_open_def uk_drm_virtgpu_open_def uk_virtio_gpu_probe_def
        uk_virtio_gpu_gl_caps_get_def Let_def demo_machine_sys_def)
  note F = file_open_inv[OF op]
  let ?m = "with_shm create_client (demo_machine_sys\<lparr>host := h\<rparr>)"
  have ms: "?m = demo_machine_sys\<lparr>host := h\<lparr>shm := create_client (shm h)\<rparr>\<rparr>" by simp
  obtain b s' where b: "uk_virtio_gpu_gl_blob_create answering_machine 64 2 1 1 (Some zero_blob) ?m = Some (Inr b, s')"
    "blob_resource_id b = 1"
    using demo_blob_created[OF ms, of 1] by auto
  have hl: "length (handles (file_dev F)) = 256" using F by (simp add: file_inv_def drm_inv_def)
  obtain dv' where c: "uk_drm_virtgpu_resource_create_blob answering_machine (file_dev F) 1 2 1 64 True ?m =
      Some (Inr (1, 1), dv', 2, s')" "next_bo_handle dv' = 1"
    using b F hl by (simp add: uk_drm_virtgpu_resource_create_blob_def bo_alloc_def Let_def UK_DRM_VIRTGPU_MAX_HANDLES_def
        bo_upd_def zero_bo_def)
  let ?s = "with_shm (mem_store 0x1008 (le32 1 @ le32 1)) s'"
  have cmd: "VIRTGPU_CMD DRM_IOCTL_VIRTGPU_RESOURCE_CREATE_BLOB = DRM_VIRTGPU_RESOURCE_CREATE_BLOB"
    "DRM_IOCTL_VIRTGPU_RESOURCE_CREATE_BLOB \<noteq> DRM_IOCTL_GEM_CLOSE"
    "DRM_IOCTL_VIRTGPU_RESOURCE_CREATE_BLOB \<noteq> DRM_IOCTL_VIRTGPU_MAP"
    by (simp_all add: VIRTGPU_CMD_def DRM_IOCTL_VIRTGPU_RESOURCE_CREATE_BLOB_def DRM_IOCTL_GEM_CLOSE_def
        DRM_IOCTL_VIRTGPU_MAP_def DRM_IOW_def DRM_IOWR_def drm_consts)
  have ne: "DRM_VIRTGPU_RESOURCE_CREATE_BLOB \<noteq> DRM_VIRTGPU_GETPARAM" "DRM_VIRTGPU_RESOURCE_CREATE_BLOB \<noteq> DRM_VIRTGPU_CONTEXT_INIT"
    "DRM_VIRTGPU_RESOURCE_CREATE_BLOB \<noteq> DRM_VIRTGPU_EXECBUFFER" by (simp_all add: drm_consts)
  have run: "file_run answering_machine [(DRM_IOCTL_VIRTGPU_RESOURCE_CREATE_BLOB, 0x1000, create_client)] F 1
      (demo_machine_sys\<lparr>host := h\<rparr>) = Some (F\<lparr>file_dev := dv'\<rparr>, 2, ?s)"
    using c F cmd ne by (simp add: uk_drm_virtgpu_file_ioctl_def uk_drm_virtgpu_ioctl_def Let_def create_client_reads
        drm_virtgpu_resource_create_blob_mem_def drm_virtgpu_resource_create_blob_flags_def
        drm_virtgpu_resource_create_blob_size_def)
  have pc: "private_closes answering_machine [(DRM_IOCTL_VIRTGPU_RESOURCE_CREATE_BLOB, 0x1000, create_client)]"
    by (simp add: private_closes_def machine_preserves_memory)
  from drm_sessions_keep_invariant[OF op run pc _ _ _, of 1] demo_inv op run c(2) show ?thesis
    by (auto simp: demo_machine_sys_def)
qed

end
