(* ===== verification/Venus_Driver.thy ===== *)
theory Venus_Driver
  imports Drm_Session
begin

text \<open>
  The Venus driver's bootstrap (\<open>venus_driver.c\<close>): probe the device, record its capabilities, create the
  Venus context; and the four functions of \<open>vn_ring_shim.c\<close> that the generated submit wrappers call.

  \<open>vvd_gpu\<close> says whether the device pointer is set; it then points to the device of the system state.
  The capset scan is the same loop as in the DRM shim (\<open>capset_mask\<close>).
\<close>

section \<open>Bootstrap\<close>

definition UK_VULKAN_VENUS_MAX_NAME :: nat where [venus_consts]: "UK_VULKAN_VENUS_MAX_NAME = 64"

record uk_vulkan_venus_info =
  vvi_capset_id :: u32
  vvi_has_resource_blob :: bool
  vvi_has_host_visible :: bool
  vvi_has_context_init :: bool
  vvi_supported_capsets :: u64
  vvi_venus_available :: bool
  vvi_device_name :: "u8 list"
  vvi_rendering_status :: "string option"

record uk_vulkan_venus_dev =
  vvd_gpu :: bool
  vvd_ctx :: uk_virtio_gpu_context
  vvd_info :: uk_vulkan_venus_info
  vvd_ctx_ready :: bool
  vvd_opened :: bool

definition zero_venus_dev :: uk_vulkan_venus_dev where
  "zero_venus_dev = \<lparr> vvd_gpu = False, vvd_ctx = zero_ctx,
     vvd_info = \<lparr> vvi_capset_id = 0, vvi_has_resource_blob = False, vvi_has_host_visible = False,
       vvi_has_context_init = False, vvi_supported_capsets = 0, vvi_venus_available = False,
       vvi_device_name = replicate UK_VULKAN_VENUS_MAX_NAME 0, vvi_rendering_status = None \<rparr>,
     vvd_ctx_ready = False, vvd_opened = False \<rparr>"

text \<open>\<open>"virtio-gpu-venus"\<close> and \<open>"uk-venus"\<close>\<close>

definition name_device :: "u8 list" where
  "name_device = [118, 105, 114, 116, 105, 111, 45, 103, 112, 117, 45, 118, 101, 110, 117, 115]"
definition name_uk_venus :: "u8 list" where
  "name_uk_venus = [117, 107, 45, 118, 101, 110, 117, 115]"

definition strncpy64 :: "u8 list \<Rightarrow> u8 list" where
  "strncpy64 src = take (UK_VULKAN_VENUS_MAX_NAME - 1) (src @ replicate UK_VULKAN_VENUS_MAX_NAME 0) @ [0]"

definition uk_vulkan_venus_open :: "'h env \<Rightarrow> bool \<Rightarrow> 'h sys
    \<Rightarrow> ((errno + unit) \<times> uk_vulkan_venus_dev \<times> 'h sys) option" where
  "uk_vulkan_venus_open e probed s =
    (case uk_virtio_gpu_probe (if probed then Some (vg s) else None) True of
       Inl er \<Rightarrow> Some (Inl er, zero_venus_dev, s)
     | Inr d \<Rightarrow>
    (case uk_virtio_gpu_gl_caps_get d True of
       Inl er \<Rightarrow> Some (Inl er, zero_venus_dev\<lparr>vvd_gpu := True\<rparr>, s)
     | Inr caps \<Rightarrow>
    (case capset_mask e (min (unat (caps_num_capsets caps)) 64) 0 0 s of
       None \<Rightarrow> None
     | Some (ids, s) \<Rightarrow>
        (let avail = (ids AND push_bit (unat CAPSET_VENUS) 1 \<noteq> 0);
             info = \<lparr> vvi_capset_id = CAPSET_VENUS, vvi_has_resource_blob = caps_has_resource_blob caps,
               vvi_has_host_visible = caps_has_host_visible caps, vvi_has_context_init = caps_has_context_init caps,
               vvi_supported_capsets = ids, vvi_venus_available = avail,
               vvi_device_name = strncpy64 name_device,
               vvi_rendering_status = Some ''blocked:ring-buffer-frame-proof-missing'' \<rparr>;
             dev = zero_venus_dev\<lparr>vvd_gpu := True, vvd_info := info, vvd_opened := True\<rparr> in
         if \<not> (caps_has_context_init caps \<and> avail) then Some (Inr (), dev, s)
         else case uk_virtio_gpu_gl_context_create e CAPSET_VENUS (Some name_uk_venus) True s of
           None \<Rightarrow> None
         | Some (Inl _, s) \<Rightarrow> Some (Inr (), dev, s)
         | Some (Inr c, s) \<Rightarrow> Some (Inr (), dev\<lparr>vvd_ctx := c, vvd_ctx_ready := True\<rparr>, s)))))"

definition uk_vulkan_venus_close :: "'h env \<Rightarrow> uk_vulkan_venus_dev \<Rightarrow> 'h sys \<Rightarrow> (uk_vulkan_venus_dev \<times> 'h sys) option" where
  "uk_vulkan_venus_close e dev s =
    (if vvd_ctx_ready dev \<and> vvd_gpu dev
     then map_option (\<lambda>(_, s). (zero_venus_dev, s)) (uk_virtio_gpu_gl_context_destroy e (Some (vvd_ctx dev)) s)
     else Some (zero_venus_dev, s))"

definition uk_vulkan_venus_get_info :: "uk_vulkan_venus_dev option \<Rightarrow> bool \<Rightarrow> errno + uk_vulkan_venus_info" where
  "uk_vulkan_venus_get_info dev out =
    (case dev of None \<Rightarrow> Inl EINVAL
     | Some d \<Rightarrow> if \<not> out \<or> \<not> vvd_opened d then Inl EINVAL else Inr (vvd_info d))"

definition uk_vulkan_venus_probe_status :: "uk_vulkan_venus_dev option \<Rightarrow> string" where
  "uk_vulkan_venus_probe_status dev =
    (case dev of None \<Rightarrow> ''venus driver uninitialised (libukvulkan_venus)''
     | Some d \<Rightarrow>
        if \<not> vvd_opened d then ''venus driver uninitialised (libukvulkan_venus)''
        else if vvd_ctx_ready d then ''venus driver ready (libukvulkan_venus); native VirtIO-GPU context''
        else if vvi_venus_available (vvd_info d) then ''venus capset present; context not created (libukvulkan_venus)''
        else ''venus capset unavailable (libukvulkan_venus)'')"

definition uk_vulkan_venus_gpu :: "uk_vulkan_venus_dev option \<Rightarrow> bool" where
  "uk_vulkan_venus_gpu dev = (case dev of None \<Rightarrow> False | Some d \<Rightarrow> vvd_gpu d)"

definition uk_vulkan_venus_ctx :: "uk_vulkan_venus_dev option \<Rightarrow> uk_virtio_gpu_context option" where
  "uk_vulkan_venus_ctx dev = map_option vvd_ctx dev"

section \<open>The ring shim under the generated wrappers\<close>

text \<open>The file's statics.  A command is encoded into \<open>vsc_backing\<close>, which the encoder handle returned by
  \<open>init\<close> points to.\<close>

record vn_ring_binding =
  g_dev :: bool
  g_ctx :: "uk_virtio_gpu_context option"

record vn_ring_submit_state =
  vsc_backing :: uk_venus_encoder
  vsc_cmd_data :: "u8 list option"
  vsc_cmd_size :: u64
  vsc_reply_size :: u64
  vsc_has_reply :: bool

definition uk_venus_ring_bind_current :: "bool \<Rightarrow> uk_virtio_gpu_context option \<Rightarrow> vn_ring_binding" where
  "uk_venus_ring_bind_current dev ctx = \<lparr> g_dev = dev, g_ctx = ctx \<rparr>"

text \<open>The result is whether an encoder is returned; a failing \<open>encoder_init\<close> leaves the encoder as it was.\<close>

definition vn_ring_submit_command_init :: "vn_ring_submit_state \<Rightarrow> u8 list option \<Rightarrow> u64 \<Rightarrow> u64
    \<Rightarrow> bool \<times> vn_ring_submit_state" where
  "vn_ring_submit_command_init sub cmd_data cmd_size reply_size =
    (if cmd_size = 0 then (False, sub)
     else (True, sub\<lparr>vsc_backing := (case uk_venus_encoder_init cmd_data cmd_size of Inl _ \<Rightarrow> vsc_backing sub | Inr b \<Rightarrow> b),
            vsc_cmd_data := cmd_data, vsc_cmd_size := cmd_size, vsc_reply_size := reply_size, vsc_has_reply := False\<rparr>))"

definition vn_ring_submit_command :: "'h env \<Rightarrow> vn_ring_binding \<Rightarrow> vn_ring_submit_state \<Rightarrow> 'h sys \<Rightarrow> 'h sys option" where
  "vn_ring_submit_command e b sub s =
    (if \<not> g_dev b \<or> g_ctx b = None then Some s
     else map_option snd (uk_venus_submit e (g_ctx b) (Some (vsc_backing sub)) s))"

definition vn_ring_get_command_reply :: "vn_ring_submit_state \<Rightarrow> bool" where
  "vn_ring_get_command_reply sub = vsc_has_reply sub"

definition vn_ring_free_command_reply :: "vn_ring_submit_state \<Rightarrow> vn_ring_submit_state" where
  "vn_ring_free_command_reply sub = sub"

section \<open>What the bootstrap establishes\<close>

text \<open>A created context is live in the device's table.\<close>

lemma context_create_live:
  assumes "uk_virtio_gpu_gl_context_create e cid nm True s = Some (Inr c, s')" "dev_inv (vg s)"
  shows "find_ctx (vg s') (ctx_id c) \<noteq> None \<and> ctx_id c \<noteq> 0 \<and> ctx_created c \<and> ctx_capset_id c = cid"
proof -
  have "\<exists>i d0. alloc_ctx (vg s) = Some (i, d0) \<and> ctx_id c = c_id (contexts (vg s') ! i) \<and> ctx_created c \<and>
      ctx_capset_id c = cid \<and> contexts (vg s') = contexts (ctx_upd i (\<lambda>c. c\<lparr>c_capset_id := cid\<rparr>) d0)"
    using assms(1)
    by (auto simp: uk_virtio_gpu_gl_context_create_def Let_def hdr_init_def
        dest!: has_capset_frame cq.succeeded split: if_splits option.splits sum.splits bool.splits)
  then obtain i d0 where al: "alloc_ctx (vg s) = Some (i, d0)" and c: "ctx_id c = c_id (contexts (vg s') ! i)"
    "ctx_created c" "ctx_capset_id c = cid" "contexts (vg s') = contexts (ctx_upd i (\<lambda>c. c\<lparr>c_capset_id := cid\<rparr>) d0)" by blast
  note a = alloc_ctx_SomeD[OF al]
  have "i < length (contexts (vg s'))" "c_live (contexts (vg s') ! i)" "c_id (contexts (vg s') ! i) = next_ctx (vg s)"
    using a(1) unfolding c(4) a(3) by (simp_all add: ctx_upd_def)
  moreover have "next_ctx (vg s) \<noteq> 0" using assms(2) by (simp add: dev_inv_def)
  ultimately show ?thesis
    using c(1-3) by (auto simp: find_ctx_def first_index_None intro!: bexI[where x = "contexts (vg s') ! i"])
qed

text \<open>The information an open records when the capset scan answers \<open>ids\<close>.\<close>
definition opened_info :: "uk_virtio_gpu_dev \<Rightarrow> u64 \<Rightarrow> uk_vulkan_venus_info" where
  "opened_info g ids = \<lparr> vvi_capset_id = CAPSET_VENUS, vvi_has_resource_blob = negotiated g F_RESOURCE_BLOB,
     vvi_has_host_visible = (shm_size (host_visible g) \<noteq> 0), vvi_has_context_init = negotiated g F_CONTEXT_INIT,
     vvi_supported_capsets = ids, vvi_venus_available = bit ids 4, vvi_device_name = strncpy64 name_device,
     vvi_rendering_status = Some ''blocked:ring-buffer-frame-proof-missing'' \<rparr>"

lemma venus_open_cases:
  defines "opened \<equiv> \<lambda>g ids. zero_venus_dev\<lparr>vvd_gpu := True, vvd_info := opened_info g ids, vvd_opened := True\<rparr>"
  assumes "uk_vulkan_venus_open e True s = Some (Inr (), dev, s')"
  shows "\<exists>ids h. (dev = opened (vg s) ids \<and> s' = s\<lparr>host := h\<rparr>) \<or> negotiated (vg s) F_CONTEXT_INIT \<and> bit ids 4 \<and>
      (\<exists>r. uk_virtio_gpu_gl_context_create e CAPSET_VENUS (Some name_uk_venus) True (s\<lparr>host := h\<rparr>) = Some (r, s') \<and>
        dev = (case r of Inl _ \<Rightarrow> opened (vg s) ids | Inr c \<Rightarrow> (opened (vg s) ids)\<lparr>vvd_ctx := c, vvd_ctx_ready := True\<rparr>))"
proof -
  have bit4: "(ids AND push_bit (unat CAPSET_VENUS) 1 \<noteq> 0) = bit ids 4" for ids :: u64
    by (simp add: CAPSET_VENUS_def and_exp_eq_0_iff_not_bit[of ids 4, simplified])
  show ?thesis
    using assms(2)
    unfolding uk_vulkan_venus_open_def uk_virtio_gpu_probe_def uk_virtio_gpu_gl_caps_get_def Let_def bit4
      opened_def opened_info_def
    by (fastforce dest!: capset_mask_frame split: option.splits sum.splits if_splits)
qed



end
