(* ===== verification/Vk_Dispatch.thy ===== *)
theory Vk_Dispatch
  imports Venus_Compute_Wire Venus_Driver
begin

text \<open>
  The state of the Vulkan dispatch (\<open>libvulkan/uk_vulkan_dispatch.c\<close>), its transport of encoded commands and
  its start and stop.  A command is encoded into a static buffer and goes to the host in one of three ways:
  as its own SUBMIT_3D, appended to the batch of the command buffer being recorded, or into the ring.

  \<open>disp\<close> holds the file's statics and, in \<open>g_reply\<close> and \<open>g_binding\<close>, those of the Venus library it calls.
  \<open>g_gpu\<close> says whether that pointer is set; \<open>g_ctx_set\<close> whether the file's \<open>g_ctx\<close> is, which then points to
  the context inside \<open>g_venus\<close>.  \<open>real_name\<close> is the cached string without its NUL.  The client's structures are read from and written to the machine's memory at
  the addresses it passes.  \<open>g_disp_lock\<close> is recursive and released by every function; calls are sequential
  here.  \<open>g_buf_size_next\<close> stays below \<open>2 ^ 31\<close>.
\<close>

section \<open>State\<close>

record uk_hv_mem =
  hv_handle :: u64
  hv_blob :: uk_virtio_gpu_blob
  hv_used :: bool

record disp =
  g_gpu :: bool
  g_venus :: uk_vulkan_venus_dev
  g_disp_initialized :: bool
  g_ctx_set :: bool
  g_last_fence :: u64
  g_gpu_sync :: bool
  g_memprops :: "u8 list"
  g_memprops_valid :: bool
  g_device_created :: bool
  g_next_handle :: u64
  g_enc_buf :: "u8 list"
  g_batch_enabled :: bool
  g_batch_recording :: bool
  g_batch_enc :: uk_venus_encoder
  g_ring_want :: bool
  g_ring_tried :: bool
  g_ring_enabled :: bool
  g_ring :: uk_venus_ring
  g_ring_ready :: bool
  g_ring_recording :: bool
  g_hv_mem :: "uk_hv_mem list"
  g_buf_size :: "(u64 \<times> u64) list"
  g_buf_size_next :: nat
  real_name :: "u8 list"
  real_name_state :: int
  real_mp_state :: int
  g_reply :: reply_cache
  g_binding :: vn_ring_binding

text \<open>What the dispatch runs on: the platform, the host between two polls, the constants of the Khronos
  headers, the process environment, whether a device was probed, and the address of \<open>g_staging_mem\<close>.\<close>

record 'h vk_env =
  vk_e :: "'h machine env"
  vk_poll :: "'h machine \<Rightarrow> 'h machine"
  vk_H :: vk_headers
  vk_C :: vk_enums
  vk_getenv :: "string \<Rightarrow> string option"
  vk_probed :: bool
  vk_staging :: u64

type_synonym VkResult = u32

definition VK_SUCCESS :: VkResult where "VK_SUCCESS = 0"
definition VK_NOT_READY :: VkResult where "VK_NOT_READY = 1"
definition VK_ERROR_DEVICE_LOST :: VkResult where "VK_ERROR_DEVICE_LOST = -4"

section \<open>Handles\<close>

definition UK_VK_HANDLE_BASE :: u64 where "UK_VK_HANDLE_BASE = 0x0002000000000000"
definition UK_VK_HANDLE_FIRST_DYNAMIC :: u64 where "UK_VK_HANDLE_FIRST_DYNAMIC = UK_VK_HANDLE_BASE + 0x100"
definition UK_H_INSTANCE :: u64 where "UK_H_INSTANCE = UK_VK_HANDLE_BASE + 1"
definition UK_H_PHYSDEV :: u64 where "UK_H_PHYSDEV = UK_VK_HANDLE_BASE + 2"
definition UK_H_DEVICE :: u64 where "UK_H_DEVICE = UK_VK_HANDLE_BASE + 3"
definition UK_H_QUEUE :: u64 where "UK_H_QUEUE = UK_VK_HANDLE_BASE + 4"

definition uk_vk_alloc_handle :: "disp \<Rightarrow> u64 \<times> disp" where
  "uk_vk_alloc_handle d = (g_next_handle d, d\<lparr>g_next_handle := g_next_handle d + 1\<rparr>)"

section \<open>Transport\<close>

definition UK_DISPATCH_BUF_SIZE :: u64 where "UK_DISPATCH_BUF_SIZE = 2 * 1024 * 1024"
definition UK_BATCH_FLUSH_THRESHOLD :: u64 where "UK_BATCH_FLUSH_THRESHOLD = 64 * 1024"

text \<open>The statics before the first call: everything zero.  The bytes behind \<open>g_batch_enc\<close> are always those
  of \<open>g_batch_buf\<close>.\<close>

definition zero_bytes :: "u64 \<Rightarrow> u8 list" where "zero_bytes n = replicate (unat n) 0"
definition UK_HV_MEM_MAX :: nat where "UK_HV_MEM_MAX = 128"
definition UK_BUF_SIZE_MAX :: nat where "UK_BUF_SIZE_MAX = 1024"

definition zero_disp :: disp where
  "zero_disp = \<lparr> g_gpu = False, g_venus = zero_venus_dev, g_disp_initialized = False, g_ctx_set = False,
     g_last_fence = 0, g_gpu_sync = False, g_memprops = zero_bytes 520, g_memprops_valid = False,
     g_device_created = False, g_next_handle = UK_VK_HANDLE_FIRST_DYNAMIC,
     g_enc_buf = zero_bytes UK_DISPATCH_BUF_SIZE, g_batch_enabled = False, g_batch_recording = False,
     g_batch_enc = \<lparr> ve_buf = zero_bytes UK_DISPATCH_BUF_SIZE, ve_cap = 0, ve_pos = 0, ve_overflow = False \<rparr>,
     g_ring_want = False, g_ring_tried = False, g_ring_enabled = False, g_ring = zero_ring, g_ring_ready = False,
     g_ring_recording = False,
     g_hv_mem = replicate UK_HV_MEM_MAX \<lparr> hv_handle = 0, hv_blob = zero_blob, hv_used = False \<rparr>,
     g_buf_size = replicate UK_BUF_SIZE_MAX (0, 0), g_buf_size_next = 0, real_name = [],
     real_name_state = 0, real_mp_state = 0,
     g_reply = \<lparr> g_reply_blob = zero_blob, g_reply_blob_ready = False \<rparr>,
     g_binding = \<lparr> g_dev = False, g_ctx = None \<rparr> \<rparr>"

definition disp_ctx :: "disp \<Rightarrow> uk_virtio_gpu_context option" where
  "disp_ctx d = (if g_ctx_set d then uk_vulkan_venus_ctx (Some (g_venus d)) else None)"

definition uk_dispatch_batch_active :: "disp \<Rightarrow> bool" where
  "uk_dispatch_batch_active d \<longleftrightarrow> g_batch_enabled d \<and> g_batch_recording d"

definition uk_dispatch_ring_active :: "disp \<Rightarrow> bool" where
  "uk_dispatch_ring_active d \<longleftrightarrow> g_ring_enabled d \<and> g_ring_ready d \<and> g_ring_recording d"

text \<open>\<open>uk_venus_encoder_init\<close> on a static buffer; it cannot fail.\<close>

definition static_encoder :: "u8 list \<Rightarrow> uk_venus_encoder" where
  "static_encoder buf = projr (uk_venus_encoder_init (Some buf) UK_DISPATCH_BUF_SIZE)"

definition UK_ENC_BEGIN :: "disp \<Rightarrow> uk_venus_encoder" where
  "UK_ENC_BEGIN d = (if uk_dispatch_batch_active d then g_batch_enc d else static_encoder (g_enc_buf d))"

text \<open>The buffer keeps what was encoded into it.\<close>

definition enc_written :: "uk_venus_encoder \<Rightarrow> disp \<Rightarrow> disp" where
  "enc_written enc d =
    (if uk_dispatch_batch_active d then d\<lparr>g_batch_enc := (g_batch_enc d)\<lparr>ve_buf := ve_buf enc\<rparr>\<rparr>
     else d\<lparr>g_enc_buf := ve_buf enc\<rparr>)"

definition disp_submit :: "'h vk_env \<Rightarrow> uk_venus_encoder \<Rightarrow> disp \<Rightarrow> 'h machine sys \<Rightarrow> 'h machine sys option" where
  "disp_submit E enc d s = map_option snd (uk_venus_submit (vk_e E) (disp_ctx d) (Some enc) s)"

definition uk_dispatch_batch_accumulate :: "'h vk_env \<Rightarrow> uk_venus_encoder \<Rightarrow> disp \<Rightarrow> 'h machine sys
    \<Rightarrow> (disp \<times> 'h machine sys) option" where
  "uk_dispatch_batch_accumulate E enc d s =
    (let d = d\<lparr>g_batch_enc := enc\<rparr> in
     if UK_BATCH_FLUSH_THRESHOLD \<le> ve_pos (g_batch_enc d)
     then map_option (\<lambda>s. (d\<lparr>g_batch_enc := static_encoder (ve_buf (g_batch_enc d))\<rparr>, s))
            (disp_submit E (g_batch_enc d) d s)
     else Some (d, s))"

definition UK_ENC_SUBMIT :: "'h vk_env \<Rightarrow> uk_venus_encoder \<Rightarrow> disp \<Rightarrow> 'h machine sys
    \<Rightarrow> (disp \<times> 'h machine sys) option" where
  "UK_ENC_SUBMIT E enc d s =
    (let d = enc_written enc d in
     if uk_dispatch_ring_active d
     then (case uk_venus_ring_cmd_write (g_ring d) (Some (ve_buf enc)) (ucast (ve_pos enc)) (shm (host s)) of
             (_, ring, m) \<Rightarrow> Some (d\<lparr>g_ring := ring\<rparr>, with_shm (\<lambda>_. m) s))
     else if uk_dispatch_batch_active d then uk_dispatch_batch_accumulate E enc d s
     else map_option (\<lambda>s. (d, s)) (disp_submit E enc d s))"

definition enc_call :: "'h vk_env \<Rightarrow> (uk_venus_encoder \<Rightarrow> uk_venus_encoder) \<Rightarrow> disp \<Rightarrow> 'h machine sys
    \<Rightarrow> (disp \<times> 'h machine sys) option" where
  "enc_call E f d s = UK_ENC_SUBMIT E (f (UK_ENC_BEGIN d)) d s"

definition UK_ENC_BEGIN_IMMEDIATE :: "disp \<Rightarrow> uk_venus_encoder" where
  "UK_ENC_BEGIN_IMMEDIATE d = static_encoder (g_enc_buf d)"

definition UK_ENC_SUBMIT_IMMEDIATE :: "'h vk_env \<Rightarrow> uk_venus_encoder \<Rightarrow> disp \<Rightarrow> 'h machine sys
    \<Rightarrow> (disp \<times> 'h machine sys) option" where
  "UK_ENC_SUBMIT_IMMEDIATE E enc d s = map_option (\<lambda>s. (d\<lparr>g_enc_buf := ve_buf enc\<rparr>, s)) (disp_submit E enc d s)"

definition enc_call_immediate :: "'h vk_env \<Rightarrow> (uk_venus_encoder \<Rightarrow> uk_venus_encoder) \<Rightarrow> disp \<Rightarrow> 'h machine sys
    \<Rightarrow> (disp \<times> 'h machine sys) option" where
  "enc_call_immediate E f d s = UK_ENC_SUBMIT_IMMEDIATE E (f (UK_ENC_BEGIN_IMMEDIATE d)) d s"

definition uk_dispatch_destroy_dev_handle :: "'h vk_env \<Rightarrow> (uk_venus_encoder \<Rightarrow> u64 \<Rightarrow> u64 \<Rightarrow> uk_venus_encoder)
    \<Rightarrow> u64 \<Rightarrow> disp \<Rightarrow> 'h machine sys \<Rightarrow> (disp \<times> 'h machine sys) option" where
  "uk_dispatch_destroy_dev_handle E fn handle d s = enc_call E (\<lambda>enc. fn enc UK_H_DEVICE handle) d s"

section \<open>Start, ring and stop\<close>

definition env_flag :: "'h vk_env \<Rightarrow> string \<Rightarrow> char list \<Rightarrow> bool" where
  "env_flag E name cs = (case vk_getenv E name of Some (c # _) \<Rightarrow> c \<in> set cs | _ \<Rightarrow> False)"

definition uk_vulkan_init :: "'h vk_env \<Rightarrow> disp \<Rightarrow> 'h machine sys \<Rightarrow> (bool \<times> disp \<times> 'h machine sys) option" where
  "uk_vulkan_init E d s =
    (if g_disp_initialized d then Some (True, d, s)
     else case uk_vulkan_venus_open (vk_e E) (vk_probed E) s of
       None \<Rightarrow> None
     | Some (Inl _, dev, s) \<Rightarrow> Some (False, d\<lparr>g_venus := dev\<rparr>, s)
     | Some (Inr _, dev, s) \<Rightarrow>
         Some (True, d\<lparr>g_venus := dev, g_gpu := uk_vulkan_venus_gpu (Some dev), g_ctx_set := True,
           g_disp_initialized := True,
           g_batch_enabled := env_flag E ''UK_GGML_VK_DISPATCH_BATCH'' ''1yY'',
           g_gpu_sync := env_flag E ''UK_GGML_VK_GPU_SYNC'' ''1yY'',
           g_batch_recording := False,
           g_batch_enc := static_encoder (ve_buf (g_batch_enc d)),
           g_ring_want := env_flag E ''UK_GGML_VK_DISPATCH_RING'' ''1''\<rparr>, s))"

definition uk_dispatch_ring_lazy_init :: "'h vk_env \<Rightarrow> disp \<Rightarrow> 'h machine sys \<Rightarrow> (disp \<times> 'h machine sys) option" where
  "uk_dispatch_ring_lazy_init E d s =
    (if \<not> g_ring_want d \<or> g_ring_tried d then Some (d, s)
     else let d = d\<lparr>g_ring_tried := True\<rparr> in
     case uk_venus_ring_create_on_ctx (vk_e E) (g_ring d) (disp_ctx d)
            (UK_VENUS_RING_CTRL_SIZE + UK_VENUS_RING_DEFAULT_SIZE) (UK_VENUS_RING_DEFAULT_BLOB_ID + 1) s of
       None \<Rightarrow> None
     | Some (Inl _, ring, s) \<Rightarrow> Some (d\<lparr>g_ring := ring\<rparr>, s)
     | Some (Inr _, ring, s) \<Rightarrow>
       (case uk_venus_ring_register (vk_e E) ring (UK_VENUS_RING_DEFAULT_BLOB_ID + 1) s of
          None \<Rightarrow> None
        | Some (Inl _, ring, s) \<Rightarrow>
            map_option (\<lambda>(ring, s). (d\<lparr>g_ring := ring\<rparr>, s)) (uk_venus_ring_destroy (vk_e E) ring s)
        | Some (Inr _, ring, s) \<Rightarrow>
            Some (d\<lparr>g_ring := ring, g_binding := uk_venus_ring_bind_current (g_gpu d) (disp_ctx d),
                   g_ring_enabled := True, g_ring_ready := True\<rparr>, s)))"

definition uk_vulkan_shutdown :: "'h vk_env \<Rightarrow> disp \<Rightarrow> 'h machine sys \<Rightarrow> (disp \<times> 'h machine sys) option" where
  "uk_vulkan_shutdown E d s =
    (if \<not> g_disp_initialized d then Some (d, s)
     else if g_ring_ready d
     then (case uk_venus_ring_unregister (vk_e E) (g_ring d) s of
             None \<Rightarrow> None
           | Some (_, ring, s) \<Rightarrow>
               map_option (\<lambda>(ring, s). (d\<lparr>g_ring := ring, g_ring_ready := False, g_disp_initialized := False\<rparr>, s))
                 (uk_venus_ring_destroy (vk_e E) ring s))
     else Some (d\<lparr>g_disp_initialized := False\<rparr>, s))"

definition UK_VULKAN_SUPPORTED_COMMAND_COUNT :: u32 where "UK_VULKAN_SUPPORTED_COMMAND_COUNT = 93"

record uk_vulkan_info =
  vki_initialized :: bool
  vki_driver_name :: string
  vki_claim_boundary :: string
  vki_supported_command_count :: u32
  vki_batch_enabled :: bool
  vki_ring_enabled :: bool
  vki_hostmem_fixed :: bool

definition uk_vulkan_get_info :: "disp \<Rightarrow> bool \<Rightarrow> uk_vulkan_info option" where
  "uk_vulkan_get_info d out =
    (if \<not> out then None
     else Some \<lparr> vki_initialized = g_disp_initialized d, vki_driver_name = ''venus'',
       vki_claim_boundary = ''ggml compute subset'',
       vki_supported_command_count = UK_VULKAN_SUPPORTED_COMMAND_COUNT,
       vki_batch_enabled = g_batch_enabled d, vki_ring_enabled = (g_ring_enabled d \<and> g_ring_ready d),
       vki_hostmem_fixed = False \<rparr>)"

section \<open>The client's memory\<close>

definition rd_u32 :: "u64 \<Rightarrow> u64 \<Rightarrow> mem \<Rightarrow> u32" where
  "rd_u32 b off m = (if b = 0 then 0 else load32 (b + off) m)"
definition rd_u64 :: "u64 \<Rightarrow> u64 \<Rightarrow> mem \<Rightarrow> u64" where
  "rd_u64 b off m = (if b = 0 then 0 else load64 (b + off) m)"
definition rd_ptr :: "u64 \<Rightarrow> u64 \<Rightarrow> mem \<Rightarrow> u64" where
  "rd_ptr b off m = rd_u64 b off m"

text \<open>A store through one of the client's pointers.\<close>

abbreviation store :: "u64 \<Rightarrow> u8 list \<Rightarrow> 'h machine sys \<Rightarrow> 'h machine sys" where
  "store p bs \<equiv> with_shm (mem_store p bs)"

abbreviation cmem :: "'h machine sys \<Rightarrow> mem" where "cmem s \<equiv> shm (host s)"

text \<open>The arrays an encoder reads through a pointer.\<close>

definition load_handles :: "u64 \<Rightarrow> u32 \<Rightarrow> mem \<Rightarrow> u64 list" where
  "load_handles p n m = map (\<lambda>i. load64 (p + 8 * of_nat i) m) [0..<unat n]"
definition load_words :: "u64 \<Rightarrow> u32 \<Rightarrow> mem \<Rightarrow> u32 list" where
  "load_words p n m = map (\<lambda>i. load32 (p + 4 * of_nat i) m) [0..<unat n]"

text \<open>A C string; a memory without a zero byte has none.\<close>

partial_function (option) c_string :: "u64 \<Rightarrow> mem \<Rightarrow> u8 list option" where
  "c_string p m = (if m p = 0 then Some [] else Option.bind (c_string (p + 1) m) (\<lambda>cs. Some (m p # cs)))"

end
