(* ===== verification/Vk_Procs.thy ===== *)
theory Vk_Procs
  imports Vk_Dispatch
begin

text \<open>
  The table of entry points and the lookups of Vulkan's loader interface.  A function pointer is the name of
  the function; \<open>pName\<close> may be NULL.  The table's terminator is the end of the list.
\<close>

definition PROC :: "string \<Rightarrow> string \<times> string" where "PROC fn = (fn, ''stub_'' @ fn)"

definition k_procs :: "(string \<times> string) list" where
  "k_procs = map PROC
     [''vkCreateInstance'', ''vkDestroyInstance'', ''vkEnumeratePhysicalDevices'',
      ''vkGetPhysicalDeviceProperties'', ''vkGetPhysicalDeviceProperties2'',
      ''vkGetPhysicalDeviceProperties2KHR'', ''vkGetPhysicalDeviceFeatures'',
      ''vkGetPhysicalDeviceFeatures2'', ''vkGetPhysicalDeviceFeatures2KHR'',
      ''vkGetPhysicalDeviceMemoryProperties'', ''vkGetPhysicalDeviceMemoryProperties2'',
      ''vkGetPhysicalDeviceMemoryProperties2KHR'', ''vkGetPhysicalDeviceQueueFamilyProperties'',
      ''vkEnumerateDeviceExtensionProperties'', ''vkEnumerateInstanceLayerProperties'',
      ''vkEnumerateInstanceExtensionProperties'', ''vkEnumerateInstanceVersion'', ''vkCreateDevice'',
      ''vkDestroyDevice'', ''vkGetDeviceQueue'', ''vkAllocateMemory'', ''vkFreeMemory'', ''vkMapMemory'',
      ''vkUnmapMemory'', ''vkCreateBuffer'', ''vkDestroyBuffer'', ''vkGetBufferMemoryRequirements'',
      ''vkGetBufferMemoryRequirements2'', ''vkGetBufferMemoryRequirements2KHR'', ''vkBindBufferMemory'',
      ''vkGetBufferDeviceAddress'', ''vkGetBufferDeviceAddressKHR'', ''vkCreateShaderModule'',
      ''vkDestroyShaderModule'', ''vkCreateDescriptorSetLayout'', ''vkDestroyDescriptorSetLayout'',
      ''vkCreateDescriptorPool'', ''vkDestroyDescriptorPool'', ''vkAllocateDescriptorSets'',
      ''vkUpdateDescriptorSets'', ''vkCreatePipelineLayout'', ''vkDestroyPipelineLayout'',
      ''vkCreateComputePipelines'', ''vkDestroyPipeline'', ''vkCreateCommandPool'',
      ''vkDestroyCommandPool'', ''vkAllocateCommandBuffers'', ''vkFreeCommandBuffers'',
      ''vkBeginCommandBuffer'', ''vkEndCommandBuffer'', ''vkResetCommandBuffer'', ''vkResetCommandPool'',
      ''vkGetMemoryHostPointerPropertiesEXT'', ''vkCmdBindPipeline'', ''vkCmdBindDescriptorSets'',
      ''vkCmdPushConstants'', ''vkCmdDispatch'', ''vkCmdCopyBuffer'', ''vkCmdFillBuffer'',
      ''vkCmdPipelineBarrier'', ''vkQueueSubmit'', ''vkQueueWaitIdle'', ''vkDeviceWaitIdle'',
      ''vkCreateFence'', ''vkDestroyFence'', ''vkResetFences'', ''vkWaitForFences'',
      ''vkGetFenceStatus'', ''vkCreateEvent'', ''vkDestroyEvent'', ''vkGetEventStatus'', ''vkSetEvent'',
      ''vkResetEvent'', ''vkCreateSemaphore'', ''vkWaitSemaphores'', ''vkSignalSemaphore'',
      ''vkGetSemaphoreCounterValue'', ''vkCmdSetEvent'', ''vkCmdResetEvent'', ''vkCmdWaitEvents'',
      ''vkCmdPipelineBarrier2'', ''vkCmdCopyBuffer2'', ''vkQueueSubmit2'', ''vkFlushMappedMemoryRanges'',
      ''vkInvalidateMappedMemoryRanges'', ''vkDestroySemaphore'', ''vkCreateQueryPool'',
      ''vkDestroyQueryPool'', ''vkGetQueryPoolResults'', ''vkCmdResetQueryPool'',
      ''vkCmdWriteTimestamp'', ''vkCmdBeginQuery'', ''vkCmdEndQuery'']"

primrec proc_scan :: "string \<Rightarrow> (string \<times> string) list \<Rightarrow> string option" where
  "proc_scan pName [] = None"
| "proc_scan pName (p # ps) = (if fst p = pName then Some (snd p) else proc_scan pName ps)"

definition vkGetInstanceProcAddr :: "string option \<Rightarrow> string option" where
  "vkGetInstanceProcAddr pName = (case pName of None \<Rightarrow> None | Some n \<Rightarrow> proc_scan n k_procs)"

definition vkGetDeviceProcAddr :: "string option \<Rightarrow> string option" where
  "vkGetDeviceProcAddr pName = vkGetInstanceProcAddr pName"

lemma proc_scan_eq:
  "\<forall>p\<in>set ps. p = PROC (fst p) \<Longrightarrow>
    proc_scan n ps = (if n \<in> fst ` set ps then Some (''stub_'' @ n) else None)"
  by (induction ps) (auto simp: PROC_def)

lemma procs_shape: "\<forall>p\<in>set k_procs. p = PROC (fst p)"
  unfolding k_procs_def by (auto simp only: set_map image_iff PROC_def fst_conv)

lemma procs_count: "length k_procs = unat UK_VULKAN_SUPPORTED_COMMAND_COUNT"
  unfolding k_procs_def length_map by (simp add: UK_VULKAN_SUPPORTED_COMMAND_COUNT_def)

text \<open>The loader finds exactly the names of the table and gives the stub of that name,
  through the device entry as through the instance entry; the reported number of commands is the number of
  entries.\<close>

theorem procs_resolve:
  "(vkGetDeviceProcAddr p = Some f \<longleftrightarrow> (\<exists>n. p = Some n \<and> f = ''stub_'' @ n \<and> n \<in> fst ` set k_procs)) \<and>
   vkGetDeviceProcAddr p = vkGetInstanceProcAddr p \<and>
   map_option vki_supported_command_count (uk_vulkan_get_info d True) = Some (of_nat (length k_procs))"
  using proc_scan_eq[OF procs_shape] procs_count
  by (auto simp: vkGetDeviceProcAddr_def vkGetInstanceProcAddr_def uk_vulkan_get_info_def
      split: option.splits if_splits)

end
