(* ===== verification/Vk_Physical.thy ===== *)
theory Vk_Physical
  imports Vk_Dispatch
begin

text \<open>
  The entry points for the instance, the physical device and the device.  Properties that the host can
  answer are asked for once and cached; everything else is a table of constants written into the client's
  structure at the offsets of the C ABI.
\<close>

definition ascii :: "string \<Rightarrow> u8 list" where "ascii s = map of_char s"

definition store_fields :: "u64 \<Rightarrow> (u64 \<times> u8 list) list \<Rightarrow> 'h machine sys \<Rightarrow> 'h machine sys" where
  "store_fields b fs s = fold (\<lambda>(off, bs) s. store (b + off) bs s) fs s"

section \<open>Instance\<close>

definition stub_vkCreateInstance :: "'h vk_env \<Rightarrow> u64 \<Rightarrow> disp \<Rightarrow> 'h machine sys
    \<Rightarrow> (VkResult \<times> disp \<times> 'h machine sys) option" where
  "stub_vkCreateInstance E pInstance d s =
    (case uk_vulkan_init E d s of
       None \<Rightarrow> None
     | Some (False, d, s) \<Rightarrow> Some (VK_ERROR_DEVICE_LOST, d, s)
     | Some (True, d, s) \<Rightarrow>
       (case enc_call E (\<lambda>enc. uk_venus_encode_vkCreateInstance (vk_H E) enc UK_H_INSTANCE
               (Some (ascii ''ggml-vulkan-uk'')) 0x00402000 0 None) d s of
          None \<Rightarrow> None
        | Some (d, s) \<Rightarrow> Some (VK_SUCCESS, d, store pInstance (le64 UK_H_INSTANCE) s)))"

definition stub_vkDestroyInstance :: VkResult where "stub_vkDestroyInstance = VK_SUCCESS"

definition stub_vkEnumeratePhysicalDevices :: "'h vk_env \<Rightarrow> u64 \<Rightarrow> u64 \<Rightarrow> disp \<Rightarrow> 'h machine sys
    \<Rightarrow> (VkResult \<times> disp \<times> 'h machine sys) option" where
  "stub_vkEnumeratePhysicalDevices E pCount pDevices d s =
    (if pDevices = 0 then Some (VK_SUCCESS, d, store pCount (le32 1) s)
     else if 1 \<le> load32 pCount (cmem s)
     then map_option (\<lambda>(d, s). (VK_SUCCESS, d, store pCount (le32 1) (store pDevices (le64 UK_H_PHYSDEV) s)))
            (enc_call E (\<lambda>enc. uk_venus_encode_vkEnumeratePhysicalDevices enc UK_H_INSTANCE 1
               (Some [UK_H_PHYSDEV])) d s)
     else Some (VK_SUCCESS, d, s))"

section \<open>Physical device properties\<close>

text \<open>The cached name of the host's device: asked for on the first call with an open context.\<close>

definition real_name_query :: "'h vk_env \<Rightarrow> disp \<Rightarrow> 'h machine sys \<Rightarrow> (disp \<times> 'h machine sys) option" where
  "real_name_query E d s =
    (if real_name_state d = 0 \<and> g_gpu d \<and> g_ctx_set d
     then case uk_venus_query_device_name (vk_e E) (vk_poll E) (g_reply d) (disp_ctx d) UK_H_PHYSDEV 256 s of
            None \<Rightarrow> None
          | Some (Inl _, rc, s) \<Rightarrow> Some (d\<lparr>g_reply := rc, real_name_state := -1\<rparr>, s)
          | Some (Inr n, rc, s) \<Rightarrow>
              Some (d\<lparr>g_reply := rc, real_name := n, real_name_state := (if n \<noteq> [] then 1 else -1)\<rparr>, s)
     else Some (d, s))"

definition device_limits :: "(u64 \<times> u8 list) list" where
  "device_limits = [(324, le32 0xFFFFFFFF), (328, le32 256), (332, le32 4096), (360, le32 32), (512, le32 49152),
     (516, le32 2147483647), (520, le32 65535), (524, le32 65535), (528, le32 1024), (532, le32 1024),
     (536, le32 1024), (540, le32 64), (600, le64 64), (616, le64 256), (624, le64 16)]"

definition stub_vkGetPhysicalDeviceProperties :: "'h vk_env \<Rightarrow> u64 \<Rightarrow> disp \<Rightarrow> 'h machine sys
    \<Rightarrow> (disp \<times> 'h machine sys) option" where
  "stub_vkGetPhysicalDeviceProperties E b d s =
    (if b = 0 then Some (d, s)
     else let s = store b (replicate 824 0) s;
              s = store_fields b [(0, le32 0x00402000), (4, le32 0), (8, le32 0x10de), (12, le32 0x27b0), (16, le32 2)] s in
     case real_name_query E d s of
       None \<Rightarrow> None
     | Some (d, s) \<Rightarrow>
        (let n = (if real_name_state d = 1 then real_name d
                  else ascii ''VOGUE-Venus PLACEHOLDER GPU (hardcoded fallback)'')
         in Some (d, store_fields b device_limits (store (b + 20) (n @ [0]) s))))"

text \<open>The \<open>pNext\<close> chain of the second version: one structure of it.\<close>

definition props_ext :: "u64 \<Rightarrow> 'h machine sys \<Rightarrow> 'h machine sys" where
  "props_ext chain s =
    (let ty = load32 chain (cmem s) in
     if ty = 1000094000
     then store_fields chain [(16, le32 32), (20, le32 0x20), (24, le32 0x7f), (28, le32 1)] s
     else if ty = 1000168000 then store_fields chain [(16, le32 1024), (24, le64 0xFFFFFFFFFFFFFFFF)] s
     else if ty = 1000196000 then store (chain + 16) (le32 1) s
     else if ty = 50
     then store_fields chain [(64, le32 32), (68, le32 0x20), (72, le32 0x7f), (104, le64 0xFFFFFFFFFFFFFFFF)] s
     else s)"

partial_function (option) props_chain :: "u64 \<Rightarrow> 'h machine sys \<Rightarrow> 'h machine sys option" where
  "props_chain chain s =
    (if chain = 0 then Some s
     else let s = props_ext chain s in props_chain (load64 (chain + 8) (cmem s)) s)"

definition stub_vkGetPhysicalDeviceProperties2 :: "'h vk_env \<Rightarrow> u64 \<Rightarrow> disp \<Rightarrow> 'h machine sys
    \<Rightarrow> (disp \<times> 'h machine sys) option" where
  "stub_vkGetPhysicalDeviceProperties2 E p2 d s =
    (if p2 = 0 then Some (d, s)
     else case stub_vkGetPhysicalDeviceProperties E (p2 + 16) d s of
       None \<Rightarrow> None
     | Some (d, s) \<Rightarrow> map_option (\<lambda>s. (d, s)) (props_chain (load64 (p2 + 8) (cmem s)) s))"

section \<open>Features\<close>

definition bools :: "nat \<Rightarrow> u8 list" where "bools n = concat (replicate n (le32 1))"

definition stub_vkGetPhysicalDeviceFeatures :: "u64 \<Rightarrow> 'h machine sys \<Rightarrow> 'h machine sys" where
  "stub_vkGetPhysicalDeviceFeatures p s = (if p = 0 then s else store p (bools 55) s)"

definition feature_count :: "u32 \<Rightarrow> nat" where
  "feature_count ty = (if ty = 49 then 12 else if ty = 51 then 47 else if ty = 53 then 15 else 2)"

partial_function (option) features_chain :: "u64 \<Rightarrow> 'h machine sys \<Rightarrow> 'h machine sys option" where
  "features_chain chain s =
    (if chain = 0 then Some s
     else let s = store (chain + 16) (bools (feature_count (load32 chain (cmem s)))) s
          in features_chain (load64 (chain + 8) (cmem s)) s)"

definition stub_vkGetPhysicalDeviceFeatures2 :: "u64 \<Rightarrow> 'h machine sys \<Rightarrow> 'h machine sys option" where
  "stub_vkGetPhysicalDeviceFeatures2 p2 s =
    (if p2 = 0 then Some s
     else let s = stub_vkGetPhysicalDeviceFeatures (p2 + 16) s
          in features_chain (load64 (p2 + 8) (cmem s)) s)"

section \<open>Memory properties and queues\<close>

definition real_mp_query :: "'h vk_env \<Rightarrow> disp \<Rightarrow> 'h machine sys \<Rightarrow> (disp \<times> 'h machine sys) option" where
  "real_mp_query E d s =
    (if real_mp_state d = 0 \<and> g_gpu d \<and> g_ctx_set d
     then case uk_venus_query_memory_properties (vk_H E) (vk_e E) (vk_poll E) (g_reply d) (disp_ctx d) UK_H_PHYSDEV
                 (g_memprops d) s of
            None \<Rightarrow> None
          | Some (r, out, rc, s) \<Rightarrow>
              (let d = d\<lparr>g_memprops := out, g_reply := rc\<rparr> in
               if r = Inr () \<and> un32 out > 0
               then Some (d\<lparr>real_mp_state := 1, g_memprops_valid := True\<rparr>, s)
               else Some (d\<lparr>real_mp_state := -1\<rparr>, s))
     else Some (d, s))"

text \<open>The layout reported when the host was not asked or did not answer.\<close>

definition default_memory :: "(u64 \<times> u8 list) list" where
  "default_memory = [(0, le32 3), (4, le32 1), (8, le32 0), (12, le32 6), (16, le32 1), (20, le32 7), (24, le32 0),
     (260, le32 2), (264, le64 21474836480), (272, le32 1), (280, le64 34359738368), (288, le32 0)]"

definition stub_vkGetPhysicalDeviceMemoryProperties :: "'h vk_env \<Rightarrow> u64 \<Rightarrow> disp \<Rightarrow> 'h machine sys
    \<Rightarrow> (disp \<times> 'h machine sys) option" where
  "stub_vkGetPhysicalDeviceMemoryProperties E p d s =
    (if p = 0 then Some (d, s)
     else case real_mp_query E d s of
       None \<Rightarrow> None
     | Some (d, s) \<Rightarrow>
         if real_mp_state d = 1 then Some (d, store p (g_memprops d) s)
         else Some (d, store_fields p default_memory (store p (replicate 520 0) s)))"

definition stub_vkGetPhysicalDeviceMemoryProperties2 :: "'h vk_env \<Rightarrow> u64 \<Rightarrow> disp \<Rightarrow> 'h machine sys
    \<Rightarrow> (disp \<times> 'h machine sys) option" where
  "stub_vkGetPhysicalDeviceMemoryProperties2 E p2 d s =
    (if p2 = 0 then Some (d, s) else stub_vkGetPhysicalDeviceMemoryProperties E (p2 + 16) d s)"

definition stub_vkGetPhysicalDeviceQueueFamilyProperties :: "u64 \<Rightarrow> u64 \<Rightarrow> 'h machine sys \<Rightarrow> 'h machine sys" where
  "stub_vkGetPhysicalDeviceQueueFamilyProperties pCount q s =
    (if q = 0 then store pCount (le32 1) s
     else if 1 \<le> load32 pCount (cmem s)
     then store pCount (le32 1) (store_fields q [(0, le32 7), (4, le32 16), (8, le32 64), (12, le32 1), (16, le32 1),
            (20, le32 1)] s)
     else s)"

text \<open>The three enumerations that report nothing, and the version.\<close>

definition stub_vkEnumerateDeviceExtensionProperties :: "u64 \<Rightarrow> 'h machine sys \<Rightarrow> VkResult \<times> 'h machine sys" where
  "stub_vkEnumerateDeviceExtensionProperties pCount s = (VK_SUCCESS, store pCount (le32 0) s)"
definition stub_vkEnumerateInstanceLayerProperties :: "u64 \<Rightarrow> 'h machine sys \<Rightarrow> VkResult \<times> 'h machine sys" where
  "stub_vkEnumerateInstanceLayerProperties pCount s = (VK_SUCCESS, store pCount (le32 0) s)"
definition stub_vkEnumerateInstanceExtensionProperties :: "u64 \<Rightarrow> 'h machine sys \<Rightarrow> VkResult \<times> 'h machine sys" where
  "stub_vkEnumerateInstanceExtensionProperties pCount s = (VK_SUCCESS, store pCount (le32 0) s)"
definition stub_vkEnumerateInstanceVersion :: "u64 \<Rightarrow> 'h machine sys \<Rightarrow> VkResult \<times> 'h machine sys" where
  "stub_vkEnumerateInstanceVersion p s = (VK_SUCCESS, if p = 0 then s else store p (le32 0x00403000) s)"

section \<open>Device\<close>

definition stub_vkCreateDevice :: "'h vk_env \<Rightarrow> u64 \<Rightarrow> disp \<Rightarrow> 'h machine sys
    \<Rightarrow> (VkResult \<times> disp \<times> 'h machine sys) option" where
  "stub_vkCreateDevice E pDevice d s =
    (let s = store pDevice (le64 UK_H_DEVICE) s in
     if g_device_created d then Some (VK_SUCCESS, d, s)
     else let d = d\<lparr>g_device_created := True\<rparr> in
     if g_gpu d \<and> g_ctx_set d
     then case uk_venus_create_device_checked (vk_H E) (vk_e E) (vk_poll E) (g_reply d) (disp_ctx d)
                 UK_H_PHYSDEV UK_H_DEVICE 0 s of
            None \<Rightarrow> None
          | Some (_, rc, s) \<Rightarrow>
              map_option (\<lambda>(d, s). (VK_SUCCESS, d, s))
                (enc_call E (\<lambda>enc. uk_venus_encode_vkGetDeviceQueue2 (vk_H E) enc UK_H_DEVICE 0 0 1 UK_H_QUEUE)
                  (d\<lparr>g_reply := rc\<rparr>) s)
     else map_option (\<lambda>(d, s). (VK_SUCCESS, d, s))
            (enc_call E (\<lambda>enc. uk_venus_encode_vkGetDeviceQueue
                (uk_venus_encode_vkCreateDevice (vk_H E) enc UK_H_PHYSDEV UK_H_DEVICE 0 0x3f800000 0 None)
                UK_H_DEVICE 0 0 UK_H_QUEUE) d s))"

definition stub_vkGetDeviceQueue :: "u64 \<Rightarrow> 'h machine sys \<Rightarrow> 'h machine sys" where
  "stub_vkGetDeviceQueue q s = store q (le64 UK_H_QUEUE) s"

section \<open>The KHR aliases\<close>

definition stub_vkGetPhysicalDeviceProperties2KHR :: "'h vk_env \<Rightarrow> u64 \<Rightarrow> disp \<Rightarrow> 'h machine sys
    \<Rightarrow> (disp \<times> 'h machine sys) option" where
  "stub_vkGetPhysicalDeviceProperties2KHR E v d s = stub_vkGetPhysicalDeviceProperties2 E v d s"
definition stub_vkGetPhysicalDeviceFeatures2KHR :: "u64 \<Rightarrow> 'h machine sys \<Rightarrow> 'h machine sys option" where
  "stub_vkGetPhysicalDeviceFeatures2KHR v s = stub_vkGetPhysicalDeviceFeatures2 v s"
definition stub_vkGetPhysicalDeviceMemoryProperties2KHR :: "'h vk_env \<Rightarrow> u64 \<Rightarrow> disp \<Rightarrow> 'h machine sys
    \<Rightarrow> (disp \<times> 'h machine sys) option" where
  "stub_vkGetPhysicalDeviceMemoryProperties2KHR E v d s = stub_vkGetPhysicalDeviceMemoryProperties2 E v d s"

end
