(* ===== verification/Vk_Objects.thy ===== *)
theory Vk_Objects
  imports Vk_Dispatch
begin

text \<open>
  The entry points that create and destroy objects: device memory (with the table of host-visible memory),
  buffers (with the registry of their sizes), shader modules, descriptor layouts, pools and sets, pipeline
  layouts and pipelines.  What an entry point reads from the client's structures it reads at the offsets of
  the C ABI, at the moment the code reads it.
\<close>

section \<open>Host-visible memory\<close>

definition uk_mem_type_host_visible :: "disp \<Rightarrow> u32 \<Rightarrow> bool" where
  "uk_mem_type_host_visible d idx =
    (if g_memprops_valid d \<and> idx < 32
     then un32 (drop (4 + unat idx * 8) (g_memprops d)) AND 2 \<noteq> 0
     else idx = 1 \<or> idx = 2)"

definition uk_hv_mem_find :: "disp \<Rightarrow> u64 \<Rightarrow> nat option" where
  "uk_hv_mem_find d h = first_index (\<lambda>x. hv_used x \<and> hv_handle x = h) (g_hv_mem d)"

text \<open>Tearing down a blob whose export failed.\<close>

definition hv_undo :: "'h env \<Rightarrow> uk_hv_mem \<Rightarrow> uk_virtio_gpu_blob \<Rightarrow> 'h sys \<Rightarrow> (uk_hv_mem \<times> 'h sys) option" where
  "hv_undo e slot b s =
    do { (b, s) \<leftarrow> (if blob_mapped b
             then map_option (\<lambda>(_, b, s). (the b, s)) (uk_virtio_gpu_gl_blob_unmap e (Some b) s) else Some (b, s));
         s \<leftarrow> (if blob_created b
             then map_option (\<lambda>(_, _, s). s) (uk_virtio_gpu_gl_blob_destroy e (Some b) s) else Some s);
         Some (slot\<lparr>hv_blob := zero_blob\<rparr>, s) }"

text \<open>Allocating on the host, then exporting through a blob; the result is the slot afterwards.\<close>

definition hv_allocate :: "'h vk_env \<Rightarrow> uk_virtio_gpu_context option \<Rightarrow> uk_hv_mem \<Rightarrow> u64 \<Rightarrow> u64 \<Rightarrow> u32
    \<Rightarrow> 'h machine sys \<Rightarrow> (uk_hv_mem \<times> 'h machine sys) option" where
  "hv_allocate E ctx slot h sz ty s =
    (let bsz = (sz + 0xFFF) AND NOT 0xFFF;
         aenc = uk_venus_encode_vkAllocateMemory (vk_C E) (projr (uk_venus_encoder_init (stack_buf 128) 128))
                  UK_H_DEVICE h sz ty in
     case uk_virtio_gpu_gl_context_submit (vk_e E) ctx (Some (encoded aenc)) True s of
       None \<Rightarrow> None
     | Some (Inl _, _, s) \<Rightarrow> Some (slot\<lparr>hv_blob := zero_blob\<rparr>, s)
     | Some (Inr _, f, s) \<Rightarrow>
       (let s = s\<lparr>vg := snd (uk_virtio_gpu_fence_wait (vg s) (case f of Some f \<Rightarrow> f | None \<Rightarrow> 0) 2000000000)\<rparr> in
        case uk_virtio_gpu_gl_blob_create_with_ctx (vk_e E) (ctx_id_or_0 ctx) bsz BLOB_MEM_HOST3D
               BLOB_FLAG_USE_MAPPABLE h (Some zero_blob) s of
          None \<Rightarrow> None
        | Some (Inl _, s) \<Rightarrow> Some (slot\<lparr>hv_blob := zero_blob\<rparr>, s)
        | Some (Inr b, s) \<Rightarrow>
          (case uk_virtio_gpu_gl_blob_map (vk_e E) (Some b) s of
             None \<Rightarrow> None
           | Some (r, b, s) \<Rightarrow>
               if r \<noteq> Inr () \<or> blob_mapped_addr (the b) = 0 then hv_undo (vk_e E) slot (the b) s
               else case uk_virtio_gpu_gl_context_attach_resource (vk_e E) ctx (blob_resource_id (the b)) s of
                 None \<Rightarrow> None
               | Some (Inl _, s) \<Rightarrow> hv_undo (vk_e E) slot (the b) s
               | Some (Inr _, s) \<Rightarrow> Some (\<lparr> hv_handle = h, hv_blob = the b, hv_used = True \<rparr>, s))))"

definition stub_vkAllocateMemory :: "'h vk_env \<Rightarrow> u64 \<Rightarrow> u64 \<Rightarrow> disp \<Rightarrow> 'h machine sys
    \<Rightarrow> (VkResult \<times> disp \<times> 'h machine sys) option" where
  "stub_vkAllocateMemory E ci pMem d s =
    (let (h, d) = uk_vk_alloc_handle d;
         sz = rd_u64 ci 16 (cmem s); ty = rd_u32 ci 24 (cmem s);
         plain = map_option (\<lambda>(d, s). (VK_SUCCESS, d, store pMem (le64 h) s))
           (enc_call E (\<lambda>enc. uk_venus_encode_vkAllocateMemory (vk_C E) enc UK_H_DEVICE h sz ty) d s) in
     if uk_mem_type_host_visible d ty \<and> g_gpu d \<and> g_ctx_set d \<and> \<not> uk_dispatch_batch_active d \<and> sz \<noteq> 0
     then case first_index (\<lambda>x. \<not> hv_used x) (g_hv_mem d) of
            Some i \<Rightarrow>
              map_option (\<lambda>(x, s). (VK_SUCCESS, d\<lparr>g_hv_mem := (g_hv_mem d)[i := x]\<rparr>, store pMem (le64 h) s))
                (hv_allocate E (disp_ctx d) (g_hv_mem d ! i) h sz ty s)
          | None \<Rightarrow> plain
     else plain)"

definition stub_vkFreeMemory :: "'h vk_env \<Rightarrow> u64 \<Rightarrow> disp \<Rightarrow> 'h machine sys \<Rightarrow> (disp \<times> 'h machine sys) option" where
  "stub_vkFreeMemory E mm d s =
    (case uk_hv_mem_find d mm of
       None \<Rightarrow> Some (d, s)
     | Some i \<Rightarrow>
        let hv = g_hv_mem d ! i; b = hv_blob hv in
        do { s \<leftarrow> (if g_gpu d \<and> blob_created b
                then map_option snd (uk_virtio_gpu_gl_context_detach_resource (vk_e E) (disp_ctx d) (blob_resource_id b) s)
                else Some s);
             (b, s) \<leftarrow> (if g_gpu d \<and> blob_mapped b
                then map_option (\<lambda>(_, b, s). (the b, s)) (uk_virtio_gpu_gl_blob_unmap (vk_e E) (Some b) s)
                else Some (b, s));
             (b, s) \<leftarrow> (if g_gpu d \<and> blob_created b
                then map_option (\<lambda>(_, b, s). (the b, s)) (uk_virtio_gpu_gl_blob_destroy (vk_e E) (Some b) s)
                else Some (b, s));
             Some (d\<lparr>g_hv_mem := (g_hv_mem d)[i := hv\<lparr>hv_blob := b, hv_used := False\<rparr>]\<rparr>, s) })"

definition UK_STAGING_BUF_SIZE :: u64 where "UK_STAGING_BUF_SIZE = 256 * 1024 * 1024"

definition stub_vkMapMemory :: "'h vk_env \<Rightarrow> u64 \<Rightarrow> u64 \<Rightarrow> u64 \<Rightarrow> disp \<Rightarrow> 'h machine sys \<Rightarrow> VkResult \<times> 'h machine sys" where
  "stub_vkMapMemory E mm off ppData d s =
    (let staging = vk_staging E + (off AND (UK_STAGING_BUF_SIZE - 1));
         p = (case uk_hv_mem_find d mm of
                Some i \<Rightarrow> let a = blob_mapped_addr (hv_blob (g_hv_mem d ! i)) in if a \<noteq> 0 then a + off else staging
              | None \<Rightarrow> staging)
     in (VK_SUCCESS, store ppData (le64 p) s))"

definition stub_vkUnmapMemory :: "'h machine sys \<Rightarrow> 'h machine sys" where "stub_vkUnmapMemory s = s"

section \<open>Buffers\<close>

definition uk_buf_size_put :: "u64 \<Rightarrow> u64 \<Rightarrow> disp \<Rightarrow> disp" where
  "uk_buf_size_put h sz d =
    d\<lparr>g_buf_size := (g_buf_size d)[g_buf_size_next d mod UK_BUF_SIZE_MAX := (h, sz)],
      g_buf_size_next := g_buf_size_next d + 1\<rparr>"

definition uk_buf_size_find :: "disp \<Rightarrow> u64 \<Rightarrow> u64" where
  "uk_buf_size_find d h =
    (case first_index (\<lambda>x. fst x = h) (g_buf_size d) of Some i \<Rightarrow> snd (g_buf_size d ! i) | None \<Rightarrow> 0)"

definition stub_vkCreateBuffer :: "'h vk_env \<Rightarrow> u64 \<Rightarrow> u64 \<Rightarrow> disp \<Rightarrow> 'h machine sys
    \<Rightarrow> (VkResult \<times> disp \<times> 'h machine sys) option" where
  "stub_vkCreateBuffer E ci pBuf d s =
    (let (h, d) = uk_vk_alloc_handle d;
         sz = rd_u64 ci 24 (cmem s); usage = rd_u32 ci 32 (cmem s);
         d = uk_buf_size_put h ((sz + 0xFFF) AND NOT 0xFFF) d in
     map_option (\<lambda>(d, s). (VK_SUCCESS, d, store pBuf (le64 h) s))
       (enc_call E (\<lambda>enc. uk_venus_encode_vkCreateBuffer (vk_C E) enc UK_H_DEVICE h sz usage) d s))"

definition stub_vkDestroyBuffer :: "'h vk_env \<Rightarrow> u64 \<Rightarrow> disp \<Rightarrow> 'h machine sys \<Rightarrow> (disp \<times> 'h machine sys) option" where
  "stub_vkDestroyBuffer E b d s = uk_dispatch_destroy_dev_handle E uk_venus_encode_vkDestroyBuffer b d s"

definition uk_buffer_memory_type_bits :: "disp \<Rightarrow> u32" where
  "uk_buffer_memory_type_bits d =
    (let tc = un32 (g_memprops d) in
     if g_memprops_valid d \<and> tc \<noteq> 0 \<and> tc \<le> 32
     then (if 32 \<le> tc then 0xFFFFFFFF else push_bit (unat tc) 1 - 1) else 7)"

definition stub_vkGetBufferMemoryRequirements :: "u64 \<Rightarrow> u64 \<Rightarrow> disp \<Rightarrow> 'h machine sys \<Rightarrow> 'h machine sys" where
  "stub_vkGetBufferMemoryRequirements buf p d s =
    (if p = 0 then s
     else let sz = uk_buf_size_find d buf in
     store (p + 16) (le32 (uk_buffer_memory_type_bits d))
       (store (p + 8) (le64 256) (store p (le64 (if sz \<noteq> 0 then sz else 64 * 1024 * 1024)) s)))"

definition stub_vkGetBufferMemoryRequirements2 :: "u64 \<Rightarrow> disp \<Rightarrow> 'h machine sys \<Rightarrow> 'h machine sys" where
  "stub_vkGetBufferMemoryRequirements2 p d s = stub_vkGetBufferMemoryRequirements 0 (p + 16) d s"

definition stub_vkGetBufferMemoryRequirements2KHR :: "u64 \<Rightarrow> disp \<Rightarrow> 'h machine sys \<Rightarrow> 'h machine sys" where
  "stub_vkGetBufferMemoryRequirements2KHR r d s = stub_vkGetBufferMemoryRequirements2 r d s"

definition stub_vkBindBufferMemory :: "'h vk_env \<Rightarrow> u64 \<Rightarrow> u64 \<Rightarrow> u64 \<Rightarrow> disp \<Rightarrow> 'h machine sys
    \<Rightarrow> (VkResult \<times> disp \<times> 'h machine sys) option" where
  "stub_vkBindBufferMemory E buf mm off d s =
    map_option (\<lambda>(d, s). (VK_SUCCESS, d, s))
      (enc_call E (\<lambda>enc. uk_venus_encode_vkBindBufferMemory enc UK_H_DEVICE buf mm off) d s)"

definition stub_vkGetBufferDeviceAddress :: "u64 \<Rightarrow> 'h machine sys \<Rightarrow> u64" where
  "stub_vkGetBufferDeviceAddress info s = load64 (info + 16) (cmem s)"
definition stub_vkGetBufferDeviceAddressKHR :: "u64 \<Rightarrow> 'h machine sys \<Rightarrow> u64" where
  "stub_vkGetBufferDeviceAddressKHR i s = stub_vkGetBufferDeviceAddress i s"

section \<open>Shader modules and descriptors\<close>

definition stub_vkCreateShaderModule :: "'h vk_env \<Rightarrow> u64 \<Rightarrow> u64 \<Rightarrow> disp \<Rightarrow> 'h machine sys
    \<Rightarrow> (VkResult \<times> disp \<times> 'h machine sys) option" where
  "stub_vkCreateShaderModule E ci pShader d s =
    (let (h, d) = uk_vk_alloc_handle d;
         code_size = rd_u64 ci 24 (cmem s); code = rd_ptr ci 32 (cmem s); n = ucast (code_size div 4) in
     map_option (\<lambda>(d, s). (VK_SUCCESS, d, store pShader (le64 h) s))
       (enc_call_immediate E (\<lambda>enc. uk_venus_encode_vkCreateShaderModule (vk_C E) enc UK_H_DEVICE h
           (if code = 0 then None else Some (load_words code n (cmem s))) n) d s))"

definition stub_vkDestroyShaderModule :: "'h vk_env \<Rightarrow> u64 \<Rightarrow> disp \<Rightarrow> 'h machine sys \<Rightarrow> (disp \<times> 'h machine sys) option" where
  "stub_vkDestroyShaderModule E h d s = uk_dispatch_destroy_dev_handle E uk_venus_encode_vkDestroyShaderModule h d s"

text \<open>A column of an array of structures of \<open>size\<close> bytes, read through a pointer that may be NULL.\<close>

definition column :: "u64 \<Rightarrow> u64 \<Rightarrow> u64 \<Rightarrow> u32 \<Rightarrow> mem \<Rightarrow> u32 list" where
  "column base sz off n m =
    map (\<lambda>i. rd_u32 (if base = 0 then 0 else base + of_nat i * sz) off m) [0..<unat n]"

definition stub_vkCreateDescriptorSetLayout :: "'h vk_env \<Rightarrow> u64 \<Rightarrow> u64 \<Rightarrow> disp \<Rightarrow> 'h machine sys
    \<Rightarrow> (VkResult \<times> disp \<times> 'h machine sys) option" where
  "stub_vkCreateDescriptorSetLayout E ci pDSL d s =
    (let (h, d) = uk_vk_alloc_handle d; m = cmem s;
         n = rd_u32 ci 20 m; bindings = rd_ptr ci 24 m;
         n = (if n > 32 then 32 else n) in
     map_option (\<lambda>(d, s). (VK_SUCCESS, d, store pDSL (le64 h) s))
       (enc_call_immediate E (\<lambda>enc. uk_venus_encode_vkCreateDescriptorSetLayout (vk_C E) enc UK_H_DEVICE h n
           (column bindings 24 0 n m) (column bindings 24 4 n m) (column bindings 24 8 n m)
           (column bindings 24 12 n m)) d s))"

definition stub_vkDestroyDescriptorSetLayout :: "'h vk_env \<Rightarrow> u64 \<Rightarrow> disp \<Rightarrow> 'h machine sys
    \<Rightarrow> (disp \<times> 'h machine sys) option" where
  "stub_vkDestroyDescriptorSetLayout E h d s =
    uk_dispatch_destroy_dev_handle E uk_venus_encode_vkDestroyDescriptorSetLayout h d s"

definition stub_vkCreateDescriptorPool :: "'h vk_env \<Rightarrow> u64 \<Rightarrow> u64 \<Rightarrow> disp \<Rightarrow> 'h machine sys
    \<Rightarrow> (VkResult \<times> disp \<times> 'h machine sys) option" where
  "stub_vkCreateDescriptorPool E ci pDP d s =
    (let (h, d) = uk_vk_alloc_handle d; m = cmem s;
         max_sets = rd_u32 ci 20 m; n = rd_u32 ci 24 m; sizes = rd_ptr ci 32 m;
         n = (if n > 32 then 32 else n) in
     map_option (\<lambda>(d, s). (VK_SUCCESS, d, store pDP (le64 h) s))
       (enc_call E (\<lambda>enc. uk_venus_encode_vkCreateDescriptorPool (vk_C E) enc UK_H_DEVICE h
           (if max_sets \<noteq> 0 then max_sets else 1) n (column sizes 8 0 n m) (column sizes 8 4 n m)) d s))"

definition stub_vkDestroyDescriptorPool :: "'h vk_env \<Rightarrow> u64 \<Rightarrow> disp \<Rightarrow> 'h machine sys
    \<Rightarrow> (disp \<times> 'h machine sys) option" where
  "stub_vkDestroyDescriptorPool E h d s = uk_dispatch_destroy_dev_handle E uk_venus_encode_vkDestroyDescriptorPool h d s"

text \<open>The loop that allocates \<open>k\<close> handles and stores them in the client's array at \<open>p\<close>.\<close>

primrec set_handles_loop :: "nat \<Rightarrow> u64 \<Rightarrow> disp \<Rightarrow> 'h machine sys \<Rightarrow> u64 list \<times> disp \<times> 'h machine sys" where
  "set_handles_loop 0 p d s = ([], d, s)"
| "set_handles_loop (Suc k) p d s =
    (let (h, d) = uk_vk_alloc_handle d;
         (hs, d, s) = set_handles_loop k (p + 8) d (store p (le64 h) s)
     in (h # hs, d, s))"

definition stub_vkAllocateDescriptorSets :: "'h vk_env \<Rightarrow> u64 \<Rightarrow> u64 \<Rightarrow> disp \<Rightarrow> 'h machine sys
    \<Rightarrow> (VkResult \<times> disp \<times> 'h machine sys) option" where
  "stub_vkAllocateDescriptorSets E ai pDS d s =
    (let m = cmem s; pool = rd_u64 ai 16 m; count = rd_u32 ai 24 m; layouts = rd_ptr ai 32 m;
         count = (if count = 0 then 1 else count);
         n = (if count > 32 then 32 else count);
         (handles, d, s) = set_handles_loop (unat n) pDS d s in
     map_option (\<lambda>(d, s). (VK_SUCCESS, d, s))
       (enc_call E (\<lambda>enc. uk_venus_encode_vkAllocateDescriptorSets (vk_C E) enc UK_H_DEVICE pool n
           (load_handles layouts n (cmem s)) handles) d s))"

text \<open>The two loops of an update: \<open>k\<close> buffer infos left, from number \<open>j\<close>; then \<open>k\<close> writes left.\<close>

primrec update_infos_loop :: "'h vk_env \<Rightarrow> u64 \<Rightarrow> u32 \<Rightarrow> u32 \<Rightarrow> u64 \<Rightarrow> nat \<Rightarrow> u32 \<Rightarrow> disp \<Rightarrow> 'h machine sys
    \<Rightarrow> (disp \<times> 'h machine sys) option" where
  "update_infos_loop E dset binding ty bi 0 j d s = Some (d, s)"
| "update_infos_loop E dset binding ty bi (Suc k) j d s =
    (let b = bi + ucast (j * 24); m = cmem s;
         buffer = rd_u64 b 0 m; off = rd_u64 b 8 m; range = rd_u64 b 16 m in
     Option.bind
       (if ty = 7
        then enc_call E (\<lambda>enc. uk_venus_encode_vkUpdateDescriptorSets_storage (vk_C E) enc UK_H_DEVICE dset (binding + j)
               buffer off range) d s
        else Some (d, s))
       (\<lambda>(d, s). update_infos_loop E dset binding ty bi k (j + 1) d s))"

primrec update_writes_loop :: "'h vk_env \<Rightarrow> nat \<Rightarrow> u64 \<Rightarrow> disp \<Rightarrow> 'h machine sys \<Rightarrow> (disp \<times> 'h machine sys) option" where
  "update_writes_loop E 0 w d s = Some (d, s)"
| "update_writes_loop E (Suc k) w d s =
    (let m = cmem s; dset = rd_u64 w 16 m; binding = rd_u32 w 24 m; count = rd_u32 w 32 m; ty = rd_u32 w 36 m;
         bi = rd_ptr w 48 m in
     Option.bind (update_infos_loop E dset binding ty bi (if bi = 0 then 0 else unat count) 0 d s)
       (\<lambda>(d, s). update_writes_loop E k (w + 64) d s))"

definition stub_vkUpdateDescriptorSets :: "'h vk_env \<Rightarrow> u32 \<Rightarrow> u64 \<Rightarrow> disp \<Rightarrow> 'h machine sys
    \<Rightarrow> (disp \<times> 'h machine sys) option" where
  "stub_vkUpdateDescriptorSets E writeCount pWrites d s = update_writes_loop E (unat writeCount) pWrites d s"

section \<open>Pipelines\<close>

definition stub_vkCreatePipelineLayout :: "'h vk_env \<Rightarrow> u64 \<Rightarrow> u64 \<Rightarrow> disp \<Rightarrow> 'h machine sys
    \<Rightarrow> (VkResult \<times> disp \<times> 'h machine sys) option" where
  "stub_vkCreatePipelineLayout E ci pPL d s =
    (let (h, d) = uk_vk_alloc_handle d; m = cmem s;
         nsets = rd_u32 ci 20 m; sets = rd_ptr ci 24 m; nranges = rd_u32 ci 32 m; range = rd_ptr ci 40 m;
         stage = (if nranges \<noteq> 0 then rd_u32 range 0 m else 0);
         off = (if nranges \<noteq> 0 then rd_u32 range 4 m else 0);
         sz = (if nranges \<noteq> 0 then rd_u32 range 8 m else 0) in
     map_option (\<lambda>(d, s). (VK_SUCCESS, d, store pPL (le64 h) s))
       (enc_call_immediate E (\<lambda>enc. uk_venus_encode_vkCreatePipelineLayout (vk_C E) enc UK_H_DEVICE h nsets
           (load_handles sets nsets m) (if nranges \<noteq> 0 then 1 else 0) stage off sz) d s))"

definition stub_vkDestroyPipelineLayout :: "'h vk_env \<Rightarrow> u64 \<Rightarrow> disp \<Rightarrow> 'h machine sys
    \<Rightarrow> (disp \<times> 'h machine sys) option" where
  "stub_vkDestroyPipelineLayout E h d s = uk_dispatch_destroy_dev_handle E uk_venus_encode_vkDestroyPipelineLayout h d s"

text \<open>Virtual addresses have 48 bits: the read of a longer string would leave the address space.\<close>

definition entry_name :: "u64 \<Rightarrow> mem \<Rightarrow> u8 list option" where
  "entry_name entry m =
    (if entry = 0 then Some main_name
     else case c_string entry m of
       None \<Rightarrow> None
     | Some n \<Rightarrow> if length n < 2 ^ 48 then Some n else None)"

text \<open>\<open>k\<close> pipelines left, with the next create info at \<open>p\<close> and the next result at \<open>q\<close>.\<close>

primrec pipelines_loop :: "'h vk_env \<Rightarrow> nat \<Rightarrow> u64 \<Rightarrow> u64 \<Rightarrow> disp \<Rightarrow> 'h machine sys \<Rightarrow> (disp \<times> 'h machine sys) option" where
  "pipelines_loop E 0 p q d s = Some (d, s)"
| "pipelines_loop E (Suc k) p q d s =
    (let (h, d) = uk_vk_alloc_handle d; m = cmem s; stage = p + 24;
         layout_h = rd_u64 p 72 m; shader_h = rd_u64 stage 24 m; entry = rd_ptr stage 32 m in
     Option.bind (entry_name entry m) (\<lambda>name.
     Option.bind (enc_call_immediate E (\<lambda>enc. uk_venus_encode_vkCreateComputePipelines (vk_C E) enc UK_H_DEVICE h
         layout_h shader_h (Some name)) d s) (\<lambda>(d, s).
     pipelines_loop E k (p + 96) (q + 8) d (store q (le64 h) s))))"

definition stub_vkCreateComputePipelines :: "'h vk_env \<Rightarrow> u32 \<Rightarrow> u64 \<Rightarrow> u64 \<Rightarrow> disp \<Rightarrow> 'h machine sys
    \<Rightarrow> (VkResult \<times> disp \<times> 'h machine sys) option" where
  "stub_vkCreateComputePipelines E count ci pPipes d s =
    map_option (\<lambda>(d, s). (VK_SUCCESS, d, s)) (pipelines_loop E (unat count) ci pPipes d s)"

definition stub_vkDestroyPipeline :: "'h vk_env \<Rightarrow> u64 \<Rightarrow> disp \<Rightarrow> 'h machine sys \<Rightarrow> (disp \<times> 'h machine sys) option" where
  "stub_vkDestroyPipeline E p d s = uk_dispatch_destroy_dev_handle E uk_venus_encode_vkDestroyPipeline p d s"

end
