(* ===== verification/Vk_Record.thy ===== *)
theory Vk_Record
  imports Vk_Dispatch
begin

text \<open>
  The entry points for command pools and buffers, command recording, queue submission and synchronisation.
  Recording opens a window (\<open>vkBeginCommandBuffer\<close> to \<open>vkEndCommandBuffer\<close>) in which commands go to the
  ring or to the batch.  Entry points that do nothing and report success are constants.
\<close>

section \<open>Command pools and buffers\<close>

definition stub_vkCreateCommandPool :: "'h vk_env \<Rightarrow> u64 \<Rightarrow> disp \<Rightarrow> 'h machine sys
    \<Rightarrow> (VkResult \<times> disp \<times> 'h machine sys) option" where
  "stub_vkCreateCommandPool E pPool d s =
    (let (h, d) = uk_vk_alloc_handle d in
     map_option (\<lambda>(d, s). (VK_SUCCESS, d, store pPool (le64 h) s))
       (enc_call E (\<lambda>enc. uk_venus_encode_vkCreateCommandPool (vk_C E) enc UK_H_DEVICE h 0) d s))"

definition stub_vkDestroyCommandPool :: "'h vk_env \<Rightarrow> u64 \<Rightarrow> disp \<Rightarrow> 'h machine sys \<Rightarrow> (disp \<times> 'h machine sys) option" where
  "stub_vkDestroyCommandPool E p d s = uk_dispatch_destroy_dev_handle E uk_venus_encode_vkDestroyCommandPool p d s"

text \<open>\<open>k\<close> command buffers left, with the next result at \<open>q\<close>.\<close>

primrec command_buffers_loop :: "'h vk_env \<Rightarrow> u64 \<Rightarrow> nat \<Rightarrow> u64 \<Rightarrow> disp \<Rightarrow> 'h machine sys
    \<Rightarrow> (disp \<times> 'h machine sys) option" where
  "command_buffers_loop E pool_h 0 q d s = Some (d, s)"
| "command_buffers_loop E pool_h (Suc k) q d s =
    (let (h, d) = uk_vk_alloc_handle d in
     Option.bind (enc_call E (\<lambda>enc. uk_venus_encode_vkAllocateCommandBuffers (vk_C E) enc UK_H_DEVICE pool_h 1 [h]) d s)
       (\<lambda>(d, s). command_buffers_loop E pool_h k (q + 8) d (store q (le64 h) s)))"

definition stub_vkAllocateCommandBuffers :: "'h vk_env \<Rightarrow> u64 \<Rightarrow> u64 \<Rightarrow> disp \<Rightarrow> 'h machine sys
    \<Rightarrow> (VkResult \<times> disp \<times> 'h machine sys) option" where
  "stub_vkAllocateCommandBuffers E ai pCBs d s =
    (let pool_h = load64 (ai + 16) (cmem s); count = load32 (ai + 28) (cmem s);
         count = (if count = 0 then 1 else count) in
     map_option (\<lambda>(d, s). (VK_SUCCESS, d, s)) (command_buffers_loop E pool_h (unat count) pCBs d s))"

definition stub_vkFreeCommandBuffers :: "'h vk_env \<Rightarrow> u64 \<Rightarrow> u32 \<Rightarrow> u64 \<Rightarrow> disp \<Rightarrow> 'h machine sys
    \<Rightarrow> (disp \<times> 'h machine sys) option" where
  "stub_vkFreeCommandBuffers E p n cbs d s =
    enc_call E (\<lambda>enc. uk_venus_encode_vkFreeCommandBuffers enc UK_H_DEVICE p n (load_handles cbs n (cmem s))) d s"

section \<open>Recording\<close>

definition begin_recording :: "disp \<Rightarrow> disp" where
  "begin_recording d =
    (if g_ring_enabled d \<and> g_ring_ready d then d\<lparr>g_ring_recording := True\<rparr>
     else if g_batch_enabled d
     then d\<lparr>g_batch_enc := static_encoder (ve_buf (g_batch_enc d)), g_batch_recording := True\<rparr>
     else d)"

definition stub_vkBeginCommandBuffer :: "'h vk_env \<Rightarrow> u64 \<Rightarrow> disp \<Rightarrow> 'h machine sys
    \<Rightarrow> (VkResult \<times> disp \<times> 'h machine sys) option" where
  "stub_vkBeginCommandBuffer E cb d s =
    do { (d, s) \<leftarrow> uk_dispatch_ring_lazy_init E d s;
         (d, s) \<leftarrow> enc_call E (\<lambda>enc. uk_venus_encode_vkBeginCommandBuffer (vk_C E) enc cb) (begin_recording d) s;
         Some (VK_SUCCESS, d, s) }"

definition stub_vkEndCommandBuffer :: "'h vk_env \<Rightarrow> u64 \<Rightarrow> disp \<Rightarrow> 'h machine sys
    \<Rightarrow> (VkResult \<times> disp \<times> 'h machine sys) option" where
  "stub_vkEndCommandBuffer E cb d s =
    do { (d, s) \<leftarrow> enc_call E (\<lambda>enc. uk_venus_encode_vkEndCommandBuffer enc cb) d s;
         if g_ring_enabled d \<and> g_ring_ready d \<and> g_ring_recording d
         then map_option (\<lambda>(_, s). (VK_SUCCESS, d\<lparr>g_ring_recording := False\<rparr>, s))
                (uk_venus_ring_cmd_flush (vk_e E) (g_ring d) s)
         else if g_batch_enabled d \<and> g_batch_recording d
         then map_option (\<lambda>s. (VK_SUCCESS, d\<lparr>g_batch_recording := False\<rparr>, s))
                (disp_submit E (g_batch_enc d) d s)
         else Some (VK_SUCCESS, d, s) }"

definition stub_vkResetCommandBuffer :: VkResult where "stub_vkResetCommandBuffer = VK_SUCCESS"
definition stub_vkResetCommandPool :: VkResult where "stub_vkResetCommandPool = VK_SUCCESS"

definition stub_vkGetMemoryHostPointerPropertiesEXT :: "u64 \<Rightarrow> 'h machine sys \<Rightarrow> VkResult \<times> 'h machine sys" where
  "stub_vkGetMemoryHostPointerPropertiesEXT pProps s =
    (VK_SUCCESS, if pProps = 0 then s else store (pProps + 16) (le32 7) s)"

definition stub_vkCmdBindPipeline :: "'h vk_env \<Rightarrow> u64 \<Rightarrow> u64 \<Rightarrow> disp \<Rightarrow> 'h machine sys
    \<Rightarrow> (disp \<times> 'h machine sys) option" where
  "stub_vkCmdBindPipeline E cb pipeline d s =
    enc_call E (\<lambda>enc. uk_venus_encode_vkCmdBindPipeline (vk_C E) enc cb pipeline) d s"

definition stub_vkCmdBindDescriptorSets :: "'h vk_env \<Rightarrow> u64 \<Rightarrow> u64 \<Rightarrow> u32 \<Rightarrow> u64 \<Rightarrow> disp \<Rightarrow> 'h machine sys
    \<Rightarrow> (disp \<times> 'h machine sys) option" where
  "stub_vkCmdBindDescriptorSets E cb layout dsCount pDS d s =
    enc_call E (\<lambda>enc. uk_venus_encode_vkCmdBindDescriptorSets (vk_C E) enc cb layout 0 dsCount
      (load_handles pDS dsCount (cmem s))) d s"

definition stub_vkCmdPushConstants :: "'h vk_env \<Rightarrow> u64 \<Rightarrow> u64 \<Rightarrow> u32 \<Rightarrow> u32 \<Rightarrow> u32 \<Rightarrow> u64 \<Rightarrow> disp \<Rightarrow> 'h machine sys
    \<Rightarrow> (disp \<times> 'h machine sys) option" where
  "stub_vkCmdPushConstants E cb layout stageFlags off sz pValues d s =
    enc_call E (\<lambda>enc. uk_venus_encode_vkCmdPushConstants enc cb layout stageFlags off sz
      (if pValues = 0 then None else Some (mem_load pValues (unat sz) (cmem s)))) d s"

definition stub_vkCmdDispatch :: "'h vk_env \<Rightarrow> u64 \<Rightarrow> u32 \<Rightarrow> u32 \<Rightarrow> u32 \<Rightarrow> disp \<Rightarrow> 'h machine sys
    \<Rightarrow> (disp \<times> 'h machine sys) option" where
  "stub_vkCmdDispatch E cb x y z d s = enc_call E (\<lambda>enc. uk_venus_encode_vkCmdDispatch enc cb x y z) d s"

text \<open>\<open>k\<close> regions left, the next at \<open>r\<close>.\<close>

primrec copy_regions_loop :: "'h vk_env \<Rightarrow> u64 \<Rightarrow> u64 \<Rightarrow> u64 \<Rightarrow> nat \<Rightarrow> u64 \<Rightarrow> disp \<Rightarrow> 'h machine sys
    \<Rightarrow> (disp \<times> 'h machine sys) option" where
  "copy_regions_loop E cb src dst 0 r d s = Some (d, s)"
| "copy_regions_loop E cb src dst (Suc k) r d s =
    (let sz = rd_u64 r 16 (cmem s) in
     Option.bind (enc_call E (\<lambda>enc. uk_venus_encode_vkCmdCopyBuffer enc cb src dst sz) d s)
       (\<lambda>(d, s). copy_regions_loop E cb src dst k (r + 24) d s))"

definition stub_vkCmdCopyBuffer :: "'h vk_env \<Rightarrow> u64 \<Rightarrow> u64 \<Rightarrow> u64 \<Rightarrow> u32 \<Rightarrow> u64 \<Rightarrow> disp \<Rightarrow> 'h machine sys
    \<Rightarrow> (disp \<times> 'h machine sys) option" where
  "stub_vkCmdCopyBuffer E cb src dst regionCount pRegions d s =
    copy_regions_loop E cb src dst (unat regionCount) pRegions d s"

definition stub_vkCmdFillBuffer :: "'h vk_env \<Rightarrow> u64 \<Rightarrow> u64 \<Rightarrow> u64 \<Rightarrow> u64 \<Rightarrow> u32 \<Rightarrow> disp \<Rightarrow> 'h machine sys
    \<Rightarrow> (disp \<times> 'h machine sys) option" where
  "stub_vkCmdFillBuffer E cb buf off sz dat d s =
    enc_call E (\<lambda>enc. uk_venus_encode_vkCmdFillBuffer enc cb buf off sz dat) d s"

definition stub_vkCmdPipelineBarrier :: "'h vk_env \<Rightarrow> u64 \<Rightarrow> u32 \<Rightarrow> u32 \<Rightarrow> disp \<Rightarrow> 'h machine sys
    \<Rightarrow> (disp \<times> 'h machine sys) option" where
  "stub_vkCmdPipelineBarrier E cb srcStage dstStage d s =
    enc_call E (\<lambda>enc. uk_venus_encode_vkCmdPipelineBarrier enc cb srcStage dstStage) d s"

section \<open>Queue submission\<close>

definition uk_dispatch_gpu_barrier :: "'h vk_env \<Rightarrow> disp \<Rightarrow> 'h machine sys \<Rightarrow> (disp \<times> 'h machine sys) option" where
  "uk_dispatch_gpu_barrier E d s =
    (if \<not> g_gpu d \<or> \<not> g_ctx_set d then Some (d, s)
     else map_option (\<lambda>(_, rc, s). (d\<lparr>g_reply := rc\<rparr>, s))
            (uk_venus_wait_queue_idle (vk_e E) (vk_poll E) (g_reply d) (disp_ctx d) UK_H_QUEUE s))"

text \<open>\<open>k\<close> submit infos left, the next at \<open>p\<close>.\<close>

primrec submits_loop :: "'h vk_env \<Rightarrow> u64 \<Rightarrow> nat \<Rightarrow> u64 \<Rightarrow> disp \<Rightarrow> 'h machine sys \<Rightarrow> (disp \<times> 'h machine sys) option" where
  "submits_loop E fence 0 p d s = Some (d, s)"
| "submits_loop E fence (Suc k) p d s =
    (let m = cmem s; cbCount = rd_u32 p 40 m; cbs = rd_ptr p 48 m in
     Option.bind (enc_call E (\<lambda>enc. uk_venus_encode_vkQueueSubmit (vk_C E) enc UK_H_QUEUE cbCount
         (load_handles cbs cbCount m) fence) d s)
       (\<lambda>(d, s). submits_loop E fence k (p + 72) d s))"

definition stub_vkQueueSubmit :: "'h vk_env \<Rightarrow> u32 \<Rightarrow> u64 \<Rightarrow> u64 \<Rightarrow> disp \<Rightarrow> 'h machine sys
    \<Rightarrow> (VkResult \<times> disp \<times> 'h machine sys) option" where
  "stub_vkQueueSubmit E submitCount pSubmits fence d s =
    do { (d, s) \<leftarrow> submits_loop E fence (unat submitCount) pSubmits d s;
         let d = (if fence \<noteq> 0 then d\<lparr>g_last_fence := fence\<rparr> else d);
         s \<leftarrow> (if g_ring_enabled d \<and> g_ring_ready d
                then map_option snd (uk_venus_ring_cmd_flush (vk_e E) (g_ring d) s) else Some s);
         (d, s) \<leftarrow> (if fence \<noteq> 0 \<and> g_gpu_sync d then uk_dispatch_gpu_barrier E d s else Some (d, s));
         Some (VK_SUCCESS, d, s) }"

definition stub_vkQueueWaitIdle :: VkResult where "stub_vkQueueWaitIdle = VK_SUCCESS"
definition stub_vkDeviceWaitIdle :: VkResult where "stub_vkDeviceWaitIdle = VK_SUCCESS"
definition stub_vkQueueSubmit2 :: VkResult where "stub_vkQueueSubmit2 = VK_SUCCESS"

section \<open>Fences, events, semaphores and queries\<close>

definition stub_vkCreateFence :: "'h vk_env \<Rightarrow> u64 \<Rightarrow> u64 \<Rightarrow> disp \<Rightarrow> 'h machine sys
    \<Rightarrow> (VkResult \<times> disp \<times> 'h machine sys) option" where
  "stub_vkCreateFence E ci pFence d s =
    (let (h, d) = uk_vk_alloc_handle d;
         signaled = (ci \<noteq> 0 \<and> rd_u32 ci 16 (cmem s) AND 1 \<noteq> 0) in
     map_option (\<lambda>(d, s). (VK_SUCCESS, d, store pFence (le64 h) s))
       (enc_call E (\<lambda>enc. uk_venus_encode_vkCreateFence (vk_C E) enc UK_H_DEVICE h signaled) d s))"

definition stub_vkResetFences :: "'h vk_env \<Rightarrow> u32 \<Rightarrow> u64 \<Rightarrow> disp \<Rightarrow> 'h machine sys
    \<Rightarrow> (VkResult \<times> disp \<times> 'h machine sys) option" where
  "stub_vkResetFences E count pFences d s =
    map_option (\<lambda>(d, s). (VK_SUCCESS, d, s))
      (enc_call E (\<lambda>enc. uk_venus_encode_vkResetFences enc UK_H_DEVICE count (load_handles pFences count (cmem s))) d s)"

definition stub_vkWaitForFences :: "u64 \<Rightarrow> disp \<Rightarrow> 'h machine sys \<Rightarrow> VkResult \<times> 'h machine sys" where
  "stub_vkWaitForFences timeout d s =
    (VK_SUCCESS,
     if g_gpu d
     then s\<lparr>vg := snd (uk_virtio_gpu_fence_wait (vg s) (g_last_fence d)
                   (if timeout = -1 then 5000000000 else timeout))\<rparr>
     else s)"

definition stub_vkGetFenceStatus :: VkResult where "stub_vkGetFenceStatus = VK_SUCCESS"
definition stub_vkGetEventStatus :: VkResult where "stub_vkGetEventStatus = VK_SUCCESS"
definition stub_vkSetEvent :: VkResult where "stub_vkSetEvent = VK_SUCCESS"
definition stub_vkResetEvent :: VkResult where "stub_vkResetEvent = VK_SUCCESS"
definition stub_vkWaitSemaphores :: VkResult where "stub_vkWaitSemaphores = VK_SUCCESS"
definition stub_vkSignalSemaphore :: VkResult where "stub_vkSignalSemaphore = VK_SUCCESS"
definition stub_vkFlushMappedMemoryRanges :: VkResult where "stub_vkFlushMappedMemoryRanges = VK_SUCCESS"
definition stub_vkInvalidateMappedMemoryRanges :: VkResult where "stub_vkInvalidateMappedMemoryRanges = VK_SUCCESS"

text \<open>Objects that exist in the guest only.\<close>

definition stub_vkCreateEvent :: "u64 \<Rightarrow> disp \<Rightarrow> 'h machine sys \<Rightarrow> VkResult \<times> disp \<times> 'h machine sys" where
  "stub_vkCreateEvent pEvent d s =
    (let (h, d) = uk_vk_alloc_handle d in (VK_SUCCESS, d, store pEvent (le64 h) s))"
definition stub_vkCreateSemaphore :: "u64 \<Rightarrow> disp \<Rightarrow> 'h machine sys \<Rightarrow> VkResult \<times> disp \<times> 'h machine sys" where
  "stub_vkCreateSemaphore pSem d s =
    (let (h, d) = uk_vk_alloc_handle d in (VK_SUCCESS, d, store pSem (le64 h) s))"
definition stub_vkCreateQueryPool :: "u64 \<Rightarrow> disp \<Rightarrow> 'h machine sys \<Rightarrow> VkResult \<times> disp \<times> 'h machine sys" where
  "stub_vkCreateQueryPool pPool d s =
    (let (h, d) = uk_vk_alloc_handle d in (VK_SUCCESS, d, store pPool (le64 h) s))"

definition stub_vkGetSemaphoreCounterValue :: "u64 \<Rightarrow> 'h machine sys \<Rightarrow> VkResult \<times> 'h machine sys" where
  "stub_vkGetSemaphoreCounterValue pValue s =
    (VK_SUCCESS, if pValue = 0 then s else store pValue (le64 (drop_bit 1 (NOT 0))) s)"

definition stub_vkGetQueryPoolResults :: "u64 \<Rightarrow> u64 \<Rightarrow> 'h machine sys \<Rightarrow> VkResult \<times> 'h machine sys" where
  "stub_vkGetQueryPoolResults sz dat s =
    (VK_NOT_READY, if dat \<noteq> 0 \<and> sz > 0 then store dat (replicate (unat sz) 0) s else s)"

end
