(* ===== verification/Vk_Transport.thy ===== *)
theory Vk_Transport
  imports Vk_Dispatch
begin

text \<open>
  What the transport relies on of an encoder: it appends the chunks of one command.  Every encoder the
  dispatch calls does (\<open>writes_intros\<close>).
\<close>

definition writes :: "(uk_venus_encoder \<Rightarrow> uk_venus_encoder) \<Rightarrow> u8 list list \<Rightarrow> bool" where
  "writes f cs \<longleftrightarrow> (\<forall>e. f e = vs.puts cs e) \<and> (\<forall>c\<in>set cs. small_bytes c)"

named_theorems writes_intros "encoders append the chunks of their command"

lemma object_writes: "(\<And>e. f e = object_encode C k e) \<Longrightarrow> object_ok k \<Longrightarrow> writes f (object_wire C k)"
  by (simp add: writes_def object_encode_wire small_object)

lemma record_writes: "(\<And>e. f e = record_encode C k e) \<Longrightarrow> record_ok k \<Longrightarrow> writes f (record_wire C k)"
  by (simp add: writes_def record_encode_wire small_record)

lemma venus_writes: "(\<And>e. f e = venus_encode H k e) \<Longrightarrow> cmd_strings_ok k \<Longrightarrow> writes f (venus_wire H k)"
  by (simp add: writes_def venus_encode_wire small_wire)

lemma writes_comp: "writes f cs \<Longrightarrow> writes g ds \<Longrightarrow> writes (\<lambda>e. g (f e)) (cs @ ds)"
  by (auto simp: writes_def puts_puts)

lemma object_plain [writes_intros]:
  "writes (\<lambda>e. uk_venus_encode_vkAllocateMemory C e d m sz t) (object_wire C (AllocateMemory d m sz t))"
  "writes (\<lambda>e. uk_venus_encode_vkBindBufferMemory e d b m off) (object_wire C (BindBufferMemory d b m off))"
  "writes (\<lambda>e. uk_venus_encode_vkCreateBuffer C e d b sz u) (object_wire C (CreateBuffer d b sz u))"
  "writes (\<lambda>e. uk_venus_encode_vkCreateDescriptorSetLayout C e d h n bn ty ct sf)
     (object_wire C (CreateDescriptorSetLayout d h n bn ty ct sf))"
  "writes (\<lambda>e. uk_venus_encode_vkCreateDescriptorPool C e d h ms n ty ct) (object_wire C (CreateDescriptorPool d h ms n ty ct))"
  "writes (\<lambda>e. uk_venus_encode_vkAllocateDescriptorSets C e d p n sl hs) (object_wire C (AllocateDescriptorSets d p n sl hs))"
  "writes (\<lambda>e. uk_venus_encode_vkUpdateDescriptorSets_storage C e d st bi b off r)
     (object_wire C (UpdateDescriptorSetsStorage d st bi b off r))"
  by (rule object_writes, simp, simp add: object_ok_def)+

lemma destroy_writes [writes_intros]:
  "writes (\<lambda>e. uk_venus_encode_vkDestroyBuffer e d b) (object_wire C (DestroyBuffer d b))"
  "writes (\<lambda>e. uk_venus_encode_vkDestroyShaderModule e d h) (object_wire C (DestroyShaderModule d h))"
  "writes (\<lambda>e. uk_venus_encode_vkDestroyPipelineLayout e d h) (object_wire C (DestroyPipelineLayout d h))"
  "writes (\<lambda>e. uk_venus_encode_vkDestroyPipeline e d h) (object_wire C (DestroyPipeline d h))"
  "writes (\<lambda>e. uk_venus_encode_vkDestroyDescriptorSetLayout e d h) (object_wire C (DestroyDescriptorSetLayout d h))"
  "writes (\<lambda>e. uk_venus_encode_vkDestroyDescriptorPool e d h) (object_wire C (DestroyDescriptorPool d h))"
  by (rule object_writes[where C = C], simp, simp add: object_ok_def)+

lemma object_sized [writes_intros]:
  "unat n \<le> length ws \<Longrightarrow>
     writes (\<lambda>e. uk_venus_encode_vkCreateShaderModule C e d h (Some ws) n) (object_wire C (CreateShaderModule d h (Some ws) n))"
  "writes (\<lambda>e. uk_venus_encode_vkCreateShaderModule C e d h None n) (object_wire C (CreateShaderModule d h None n))"
  "np \<le> 1 \<Longrightarrow> writes (\<lambda>e. uk_venus_encode_vkCreatePipelineLayout C e d h n sl np st off sz)
     (object_wire C (CreatePipelineLayout d h n sl np st off sz))"
  "short_opt nm \<Longrightarrow> writes (\<lambda>e. uk_venus_encode_vkCreateComputePipelines C e d h l sm nm)
     (object_wire C (CreateComputePipelines d h l sm nm))"
  by (rule object_writes, simp, simp add: object_ok_def)+

lemma record_plain [writes_intros]:
  "writes (\<lambda>e. uk_venus_encode_vkCreateCommandPool C e d h q) (record_wire C (CreateCommandPool d h q))"
  "writes (\<lambda>e. uk_venus_encode_vkAllocateCommandBuffers C e d p n hs) (record_wire C (AllocateCommandBuffers d p n hs))"
  "writes (\<lambda>e. uk_venus_encode_vkBeginCommandBuffer C e cb) (record_wire C (BeginCommandBuffer cb))"
  "writes (\<lambda>e. uk_venus_encode_vkCmdBindPipeline C e cb p) (record_wire C (CmdBindPipeline cb p))"
  "writes (\<lambda>e. uk_venus_encode_vkCmdBindDescriptorSets C e cb l f n hs) (record_wire C (CmdBindDescriptorSets cb l f n hs))"
  "writes (\<lambda>e. uk_venus_encode_vkCreateFence C e d f' g) (record_wire C (CreateFence d f' g))"
  "writes (\<lambda>e. uk_venus_encode_vkQueueSubmit C e q' n cbs f'') (record_wire C (QueueSubmit q' n cbs f''))"
  by (rule record_writes, simp, simp add: record_ok_def)+

lemma record_plain' [writes_intros]:
  "writes (\<lambda>e. uk_venus_encode_vkDestroyCommandPool e d h) (record_wire C (DestroyCommandPool d h))"
  "writes (\<lambda>e. uk_venus_encode_vkFreeCommandBuffers e d p n hs) (record_wire C (FreeCommandBuffers d p n hs))"
  "writes (\<lambda>e. uk_venus_encode_vkEndCommandBuffer e cb) (record_wire C (EndCommandBuffer cb))"
  "writes (\<lambda>e. uk_venus_encode_vkCmdDispatch e cb x y z) (record_wire C (CmdDispatch cb x y z))"
  "writes (\<lambda>e. uk_venus_encode_vkCmdCopyBuffer e cb a b sz) (record_wire C (CmdCopyBuffer cb a b sz))"
  "writes (\<lambda>e. uk_venus_encode_vkCmdFillBuffer e cb b off sz v) (record_wire C (CmdFillBuffer cb b off sz v))"
  "writes (\<lambda>e. uk_venus_encode_vkCmdPipelineBarrier e cb s t) (record_wire C (CmdPipelineBarrier cb s t))"
  "writes (\<lambda>e. uk_venus_encode_vkResetFences e d n' fs) (record_wire C (ResetFences d n' fs))"
  by (rule record_writes[where C = C], simp, simp add: record_ok_def)+

lemma push_writes [writes_intros]:
  "unat sz' \<le> length bs \<Longrightarrow> writes (\<lambda>e. uk_venus_encode_vkCmdPushConstants e cb l sf off sz' (Some bs))
     (record_wire C (CmdPushConstants cb l sf off sz' (Some bs)))"
  "writes (\<lambda>e. uk_venus_encode_vkCmdPushConstants e cb l sf off sz' None) (record_wire C (CmdPushConstants cb l sf off sz' None))"
  by (rule record_writes[where C = C], simp, simp add: record_ok_def)+

lemma bootstrap_writes [writes_intros]:
  "short_opt a \<Longrightarrow> writes (\<lambda>e. uk_venus_encode_vkCreateInstance H e i a v 0 None) (venus_wire H (CreateInstance i a v 0 None))"
  "writes (\<lambda>e. uk_venus_encode_vkEnumeratePhysicalDevices e i 1 (Some hs)) (venus_wire H (EnumeratePhysicalDevices i 1 (Some hs)))"
  "writes (\<lambda>e. uk_venus_encode_vkGetDeviceQueue2 H e d fi qi r q) (venus_wire H (GetDeviceQueue2 d fi qi r q))"
  "writes (\<lambda>e. uk_venus_encode_vkGetDeviceQueue e d fi qi q) (venus_wire H (GetDeviceQueue d fi qi q))"
  "writes (\<lambda>e. uk_venus_encode_vkCreateDevice H e p d qf pr 0 None) (venus_wire H (CreateDevice p d qf pr 0 None))"
  by (rule venus_writes[where H = H], simp, simp add: short_strs_def)+

section \<open>The static buffers\<close>

lemma buf_size: "UK_DISPATCH_BUF_SIZE \<noteq> 0" "unat UK_DISPATCH_BUF_SIZE = 2097152"
  by (simp_all add: UK_DISPATCH_BUF_SIZE_def)

lemma static_encoder_eq:
  "static_encoder b = \<lparr> ve_buf = b, ve_cap = UK_DISPATCH_BUF_SIZE, ve_pos = 0, ve_overflow = False \<rparr>"
  by (simp add: static_encoder_def uk_venus_encoder_init_def buf_size(1))

definition enc_wf :: "uk_venus_encoder \<Rightarrow> bool" where
  "enc_wf e \<longleftrightarrow> ve_wf e \<and> ve_cap e = UK_DISPATCH_BUF_SIZE"

lemma enc_wf_static [simp]: "length b = unat UK_DISPATCH_BUF_SIZE \<Longrightarrow> enc_wf (static_encoder b)"
  by (simp add: enc_wf_def static_encoder_eq ve_wf_def buf_size(2))

lemma enc_wf_length: "enc_wf e \<Longrightarrow> length (ve_buf e) = unat UK_DISPATCH_BUF_SIZE"
  by (simp add: enc_wf_def ve_wf_def)

lemma cap_put [simp]: "ve_cap (ve_put c e) = ve_cap e"
  by (simp add: ve_put_def uk_venus_encode_bytes_def)

lemma cap_puts [simp]: "ve_cap (vs.puts cs e) = ve_cap e"
  by (induction cs arbitrary: e) simp_all

lemma writes_wf: "writes f cs \<Longrightarrow> enc_wf e \<Longrightarrow> enc_wf (f e)"
  by (simp add: writes_def enc_wf_def vs.puts_wf)

end
