(* ===== verification/Vk_Invariant.thy ===== *)
theory Vk_Invariant
  imports Vk_Physical Vk_Objects Vk_Record Vk_Transport
begin

text \<open>
  The well-formedness of the dispatch state, that every entry point keeps it, and the dispatch as a
  transition system.
\<close>

section \<open>Well-formed states\<close>

text \<open>The encode buffers keep their size and a batch is open only when batching is on; the ring and the
  batch never record at once; the cached replies are there when their state says so.\<close>

definition bufs_wf :: "disp \<Rightarrow> bool" where
  "bufs_wf d \<longleftrightarrow>
     length (g_enc_buf d) = unat UK_DISPATCH_BUF_SIZE \<and> length (ve_buf (g_batch_enc d)) = unat UK_DISPATCH_BUF_SIZE \<and>
     (g_batch_recording d \<longrightarrow> g_batch_enabled d \<and> enc_wf (g_batch_enc d))"

definition modes_wf :: "disp \<Rightarrow> bool" where
  "modes_wf d \<longleftrightarrow>
     (g_disp_initialized d \<longrightarrow> g_gpu d \<and> g_ctx_set d) \<and>
     (g_ring_ready d \<longrightarrow> g_ring_enabled d \<and> g_ring_tried d \<and> \<not> g_batch_recording d) \<and>
     (g_batch_recording d \<and> g_ring_want d \<longrightarrow> g_ring_tried d)"

definition caches_wf :: "disp \<Rightarrow> bool" where
  "caches_wf d \<longleftrightarrow>
     length (g_memprops d) = 520 \<and> (g_memprops_valid d \<longleftrightarrow> real_mp_state d = 1) \<and>
     (g_memprops_valid d \<longrightarrow> 0 < un32 (g_memprops d)) \<and>
     (real_name_state d = 1 \<longrightarrow> real_name d \<noteq> []) \<and> length (real_name d) < 256"

definition tables_wf :: "disp \<Rightarrow> bool" where
  "tables_wf d \<longleftrightarrow>
     length (g_hv_mem d) = UK_HV_MEM_MAX \<and> (\<forall>x\<in>set (g_hv_mem d). hv_used x \<longrightarrow> blob_mapped_addr (hv_blob x) \<noteq> 0) \<and>
     length (g_buf_size d) = UK_BUF_SIZE_MAX"

definition disp_wf :: "disp \<Rightarrow> bool" where
  "disp_wf d \<longleftrightarrow> bufs_wf d \<and> modes_wf d \<and> vring_wf (g_ring d) \<and> caches_wf d \<and> tables_wf d"

lemmas wf_defs = disp_wf_def bufs_wf_def modes_wf_def caches_wf_def tables_wf_def

lemma length_zero_bytes [simp]: "length (zero_bytes n) = unat n"
  unfolding zero_bytes_def by (rule length_replicate)

lemma zero_disp_wf: "disp_wf zero_disp"
  unfolding wf_defs zero_disp_def by simp

lemma disp_wf_frame [simp]:
  "disp_wf (d\<lparr>g_next_handle := h\<rparr>) = disp_wf d" "disp_wf (d\<lparr>g_reply := rc\<rparr>) = disp_wf d"
  "disp_wf (d\<lparr>g_last_fence := f\<rparr>) = disp_wf d" "disp_wf (d\<lparr>g_device_created := b\<rparr>) = disp_wf d"
  "disp_wf (d\<lparr>g_binding := r\<rparr>) = disp_wf d" "disp_wf (d\<lparr>g_ring_recording := b\<rparr>) = disp_wf d"
  "disp_wf (d\<lparr>g_buf_size_next := k\<rparr>) = disp_wf d"
  by (simp_all add: wf_defs)

lemma parts_frame [simp]:
  "modes_wf (d\<lparr>g_enc_buf := b\<rparr>) = modes_wf d" "modes_wf (d\<lparr>g_batch_enc := e\<rparr>) = modes_wf d"
  "modes_wf (d\<lparr>g_ring := r\<rparr>) = modes_wf d"
  "caches_wf (d\<lparr>g_enc_buf := b\<rparr>) = caches_wf d" "caches_wf (d\<lparr>g_batch_enc := e\<rparr>) = caches_wf d"
  "caches_wf (d\<lparr>g_ring := r\<rparr>) = caches_wf d"
  "tables_wf (d\<lparr>g_enc_buf := b\<rparr>) = tables_wf d" "tables_wf (d\<lparr>g_batch_enc := e\<rparr>) = tables_wf d"
  "tables_wf (d\<lparr>g_ring := r\<rparr>) = tables_wf d" "bufs_wf (d\<lparr>g_ring := r\<rparr>) = bufs_wf d"
  by (simp_all add: modes_wf_def caches_wf_def tables_wf_def bufs_wf_def)

lemma alloc_handle_wf: "uk_vk_alloc_handle d = (h, d') \<Longrightarrow> disp_wf d \<Longrightarrow> disp_wf d'"
  by (auto simp: uk_vk_alloc_handle_def)

section \<open>A command keeps everything but the encoders and the ring\<close>

definition enc_frame :: "disp \<Rightarrow> disp \<Rightarrow> bool" where
  "enc_frame d d' \<longleftrightarrow> (\<exists>b e r. d' = d\<lparr>g_enc_buf := b, g_batch_enc := e, g_ring := r\<rparr>)"

lemma enc_frame_refl [simp]: "enc_frame d d"
proof -
  have "d = d\<lparr>g_enc_buf := g_enc_buf d, g_batch_enc := g_batch_enc d, g_ring := g_ring d\<rparr>" by simp
  thus ?thesis unfolding enc_frame_def by blast
qed

lemma enc_frame_upd [simp]:
  "enc_frame d (d\<lparr>g_enc_buf := b\<rparr>)" "enc_frame d (d\<lparr>g_batch_enc := e\<rparr>)" "enc_frame d (d\<lparr>g_ring := r\<rparr>)"
proof -
  have "d\<lparr>g_enc_buf := b\<rparr> = d\<lparr>g_enc_buf := b, g_batch_enc := g_batch_enc d, g_ring := g_ring d\<rparr>"
    "d\<lparr>g_batch_enc := e\<rparr> = d\<lparr>g_enc_buf := g_enc_buf d, g_batch_enc := e, g_ring := g_ring d\<rparr>"
    "d\<lparr>g_ring := r\<rparr> = d\<lparr>g_enc_buf := g_enc_buf d, g_batch_enc := g_batch_enc d, g_ring := r\<rparr>" by simp_all
  thus "enc_frame d (d\<lparr>g_enc_buf := b\<rparr>)" "enc_frame d (d\<lparr>g_batch_enc := e\<rparr>)" "enc_frame d (d\<lparr>g_ring := r\<rparr>)"
    unfolding enc_frame_def by blast+
qed

lemma enc_frame_trans: "enc_frame d d1 \<Longrightarrow> enc_frame d1 d2 \<Longrightarrow> enc_frame d d2"
  unfolding enc_frame_def by (auto; metis disp.surjective disp.update_convs)

lemma enc_written_frame: "enc_frame d (enc_written enc d)"
  by (simp add: enc_written_def)

lemma submit_frame: "UK_ENC_SUBMIT E enc d s = Some (d', s') \<Longrightarrow> enc_frame d d'"
  using enc_written_frame[of d enc]
  by (auto simp: UK_ENC_SUBMIT_def uk_dispatch_batch_accumulate_def Let_def
      intro: enc_frame_trans split: if_splits prod.splits)

lemma enc_call_frame: "enc_call E f d s = Some (d', s') \<Longrightarrow> enc_frame d d'"
  by (auto simp: enc_call_def dest: submit_frame)

lemma immediate_frame: "enc_call_immediate E f d s = Some (d', s') \<Longrightarrow> enc_frame d d'"
  by (auto simp: enc_call_immediate_def UK_ENC_SUBMIT_IMMEDIATE_def)

lemma enc_frame_keeps:
  assumes "enc_frame d d'"
  shows "g_next_handle d' = g_next_handle d" "g_hv_mem d' = g_hv_mem d" "g_buf_size d' = g_buf_size d"
    "g_buf_size_next d' = g_buf_size_next d" "g_device_created d' = g_device_created d"
    "g_disp_initialized d' = g_disp_initialized d" "g_ring_enabled d' = g_ring_enabled d"
    "g_ring_ready d' = g_ring_ready d" "g_ring_recording d' = g_ring_recording d"
    "g_batch_enabled d' = g_batch_enabled d" "g_batch_recording d' = g_batch_recording d"
    "disp_ctx d' = disp_ctx d" "g_gpu d' = g_gpu d" "g_ctx_set d' = g_ctx_set d"
    "g_ring_want d' = g_ring_want d" "g_ring_tried d' = g_ring_tried d"
  using assms by (auto simp: enc_frame_def disp_ctx_def)

section \<open>Commands keep well-formedness\<close>

lemma enc_buf_wf: "disp_wf d \<Longrightarrow> length b = unat UK_DISPATCH_BUF_SIZE \<Longrightarrow> disp_wf (d\<lparr>g_enc_buf := b\<rparr>)"
  by (simp add: disp_wf_def bufs_wf_def)

lemma batch_enc_wf: "disp_wf d \<Longrightarrow> enc_wf e \<Longrightarrow> disp_wf (d\<lparr>g_batch_enc := e\<rparr>)"
  using enc_wf_length[of e] by (simp add: disp_wf_def bufs_wf_def)

lemma ring_upd_wf: "disp_wf d \<Longrightarrow> vring_wf r \<Longrightarrow> disp_wf (d\<lparr>g_ring := r\<rparr>)"
  by (simp add: disp_wf_def)

lemma batch_wf: "disp_wf d \<Longrightarrow> uk_dispatch_batch_active d \<Longrightarrow> enc_wf (g_batch_enc d)"
  by (simp add: disp_wf_def bufs_wf_def uk_dispatch_batch_active_def)

lemma rewritten_wf: "enc_wf e \<Longrightarrow> length b = unat UK_DISPATCH_BUF_SIZE \<Longrightarrow> enc_wf (e\<lparr>ve_buf := b\<rparr>)"
  by (auto simp: enc_wf_def ve_wf_def)

lemma written_wf:
  assumes "disp_wf d" "enc_wf enc"
  shows "disp_wf (enc_written enc d)"
  using assms enc_wf_length[OF assms(2)] batch_wf[OF assms(1)]
  by (auto simp: enc_written_def intro: batch_enc_wf enc_buf_wf rewritten_wf)

lemma accumulate_wf:
  assumes "uk_dispatch_batch_accumulate E enc d s = Some (d', s')" "disp_wf d" "enc_wf enc"
  shows "disp_wf d'"
  using assms(1) batch_enc_wf[OF assms(2,3)] batch_enc_wf[OF assms(2) enc_wf_static[OF enc_wf_length[OF assms(3)]]]
  by (auto simp: uk_dispatch_batch_accumulate_def Let_def split: if_splits)

lemma begin_wf: "disp_wf d \<Longrightarrow> enc_wf (UK_ENC_BEGIN d)"
  by (auto simp: UK_ENC_BEGIN_def intro: batch_wf enc_wf_static) (simp add: disp_wf_def bufs_wf_def)

lemma submit_wf:
  assumes "UK_ENC_SUBMIT E enc d s = Some (d', s')" "disp_wf d" "enc_wf enc"
  shows "disp_wf d'"
proof -
  have w: "disp_wf (enc_written enc d)" using assms(2,3) by (rule written_wf)
  hence "vring_wf (g_ring (enc_written enc d))" by (simp add: disp_wf_def)
  hence "uk_venus_ring_cmd_write (g_ring (enc_written enc d)) b n m = (r, ring', m') \<Longrightarrow>
      disp_wf (enc_written enc d\<lparr>g_ring := ring'\<rparr>)" for b n m r ring' m'
    using ring_cmd_write_wf ring_upd_wf[OF w] by blast
  thus ?thesis
    using assms(1,3) w
    by (auto simp: UK_ENC_SUBMIT_def Let_def split: if_splits prod.splits intro: accumulate_wf)
qed

lemma enc_call_wf:
  assumes "enc_call E f d s = Some (d', s')" "writes f cs" "disp_wf d"
  shows "disp_wf d'"
  using submit_wf[OF assms(1)[unfolded enc_call_def] assms(3) writes_wf[OF assms(2) begin_wf[OF assms(3)]]] .

lemma immediate_wf:
  assumes "enc_call_immediate E f d s = Some (d', s')" "writes f cs" "disp_wf d"
  shows "disp_wf d'"
proof -
  have "length (g_enc_buf d) = unat UK_DISPATCH_BUF_SIZE" using assms(3) by (simp add: disp_wf_def bufs_wf_def)
  hence "enc_wf (f (UK_ENC_BEGIN_IMMEDIATE d))"
    using assms(2) by (simp add: UK_ENC_BEGIN_IMMEDIATE_def writes_wf)
  from enc_buf_wf[OF assms(3) enc_wf_length[OF this]] show ?thesis
    using assms(1) by (auto simp: enc_call_immediate_def UK_ENC_SUBMIT_IMMEDIATE_def)
qed

lemma destroy_wf:
  "uk_dispatch_destroy_dev_handle E fn h d s = Some (d', s') \<Longrightarrow> writes (\<lambda>e. fn e UK_H_DEVICE h) cs \<Longrightarrow>
   disp_wf d \<Longrightarrow> disp_wf d'"
  by (simp add: uk_dispatch_destroy_dev_handle_def enc_call_wf)

end
