(* ===== verification/Vk_Steps.thy ===== *)
theory Vk_Steps
  imports Vk_Invariant
begin

text \<open>
  Every entry point that changes the dispatch state keeps it well-formed, and the entry points as the steps
  of a transition system.
\<close>

section \<open>Cached queries\<close>

lemma extract_name_length:
  "uk_venus_extract_name buf cap = Inr n \<Longrightarrow> 0 < cap \<Longrightarrow> length n < cap"
  by (auto simp: uk_venus_extract_name_def Let_def split: if_splits prod.splits)

lemma query_name_length:
  "uk_venus_query_device_name e poll rc ctx p cap s = Some (Inr n, rc', s') \<Longrightarrow> 0 < unat cap \<Longrightarrow> length n < unat cap"
  by (auto simp: uk_venus_query_device_name_def Let_def extract_name_length split: if_splits option.splits sum.splits)

lemma types_loop_length:
  "mem_types_loop r tc k i off out = (ro, out') \<Longrightarrow> i + k \<le> 32 \<Longrightarrow> length out = 520 \<Longrightarrow> length out' = 520"
  by (induction k arbitrary: i off out) (auto simp: Let_def length_poke split: if_splits)

lemma heaps_loop_length:
  "mem_heaps_loop r hc k i off out = (ro, out') \<Longrightarrow> i + k \<le> 16 \<Longrightarrow> length out = 520 \<Longrightarrow> length out' = 520"
  by (induction k arbitrary: i off out) (auto simp: Let_def length_poke split: if_splits)

lemma parse_length:
  assumes "parse_memory_properties r out = (res, out')" "length out = 520"
  shows "length out' = 520"
proof -
  have z: "length (poke (poke out 0 (zero_bytes 520)) 0 (le32 tc)) = 520" for tc
    using assms(2) by (simp add: length_poke)
  have zb: "replicate 520 0 = zero_bytes 520" by (simp add: zero_bytes_def)
  have h: "length (poke o1 260 (le32 hc)) = 520" if "length o1 = 520" for o1 hc using that by (simp add: length_poke)
  show ?thesis
    using assms
    by (auto simp: parse_memory_properties_def Let_def zb split: if_splits prod.splits option.splits
        dest!: types_loop_length[OF _ _ z] heaps_loop_length[OF _ _ h])
qed

lemma memory_query_length:
  "uk_venus_query_memory_properties H e poll rc ctx p out s = Some (res, out', rc', s') \<Longrightarrow> length out = 520 \<Longrightarrow>
   length out' = 520"
  by (auto simp: uk_venus_query_memory_properties_def Let_def dest: parse_length
      split: if_splits option.splits sum.splits prod.splits)

lemma caches_upd_wf:
  "disp_wf d \<Longrightarrow> caches_wf (d\<lparr>real_name := n, real_name_state := k\<rparr>) \<Longrightarrow>
   disp_wf (d\<lparr>g_reply := rc, real_name := n, real_name_state := k\<rparr>)"
  "disp_wf d \<Longrightarrow> caches_wf (d\<lparr>g_memprops := out, real_mp_state := k, g_memprops_valid := b\<rparr>) \<Longrightarrow>
   disp_wf (d\<lparr>g_memprops := out, g_reply := rc, real_mp_state := k, g_memprops_valid := b\<rparr>)"
  by (auto simp: wf_defs)

lemma name_query_wf:
  assumes "real_name_query E d s = Some (d', s')" "disp_wf d" shows "disp_wf d'"
proof -
  have c: "caches_wf d" using assms(2) by (simp add: disp_wf_def)
  have none: "disp_wf (d\<lparr>g_reply := rc, real_name_state := -1\<rparr>)" for rc
    using assms(2) by (auto simp: wf_defs)
  have "disp_wf (d\<lparr>g_reply := rc, real_name := n, real_name_state := k\<rparr>)"
    if "length n < 256" "k = 1 \<longrightarrow> n \<noteq> []" for rc n k
    using c that by (intro caches_upd_wf(1)[OF assms(2)]) (simp add: caches_wf_def)
  thus ?thesis
    using assms none
    by (auto simp: real_name_query_def dest!: query_name_length split: if_splits option.splits sum.splits)
qed

lemma mp_query_wf:
  assumes "real_mp_query E d s = Some (d', s')" "disp_wf d" shows "disp_wf d'"
proof -
  have c: "caches_wf d" using assms(2) by (simp add: disp_wf_def)
  hence l: "length (g_memprops d) = 520" by (simp add: caches_wf_def)
  have 1: "caches_wf (d\<lparr>g_memprops := out, real_mp_state := 1, g_memprops_valid := True\<rparr>)"
    if "length out = 520" "0 < un32 out" for out using c that by (simp add: caches_wf_def)
  have 2: "caches_wf (d\<lparr>g_memprops := out, real_mp_state := -1, g_memprops_valid := g_memprops_valid d\<rparr>)"
    if "length out = 520" "real_mp_state d = 0" for out using c that by (simp add: caches_wf_def)
  show ?thesis
  proof (cases "real_mp_state d = 0 \<and> g_gpu d \<and> g_ctx_set d")
    case True
    then obtain r out rc where
      q: "uk_venus_query_memory_properties (vk_H E) (vk_e E) (vk_poll E) (g_reply d) (disp_ctx d) UK_H_PHYSDEV
            (g_memprops d) s = Some (r, out, rc, s')" and
      d': "d' = (if r = Inr () \<and> un32 out > 0
        then d\<lparr>g_memprops := out, g_reply := rc, real_mp_state := 1, g_memprops_valid := True\<rparr>
        else d\<lparr>g_memprops := out, g_reply := rc, real_mp_state := -1\<rparr>)"
      using assms(1) by (auto simp: real_mp_query_def Let_def split: option.splits prod.splits if_splits)
    have lo: "length out = 520" by (rule memory_query_length[OF q l])
    have "d\<lparr>g_memprops := out, g_reply := rc, real_mp_state := -1\<rparr> =
        d\<lparr>g_memprops := out, g_reply := rc, real_mp_state := -1, g_memprops_valid := g_memprops_valid d\<rparr>" by simp
    hence "disp_wf (d\<lparr>g_memprops := out, g_reply := rc, real_mp_state := -1\<rparr>)"
      using caches_upd_wf(2)[OF assms(2) 2[OF lo]] True by simp
    thus ?thesis using caches_upd_wf(2)[OF assms(2) 1[OF lo]] by (simp add: d')
  next
    case False
    hence "real_mp_query E d s = Some (d, s)" unfolding real_mp_query_def by (rule if_not_P)
    thus ?thesis using assms by simp
  qed
qed

section \<open>Start, ring and stop\<close>

lemma init_wf:
  assumes "uk_vulkan_init E d s = Some (r, d', s')" "disp_wf d" shows "disp_wf d'"
proof -
  have opened: "vvd_gpu dev" if "uk_vulkan_venus_open e p s = Some (Inr (), dev, t)" for e p dev t
    using that
    by (auto simp: uk_vulkan_venus_open_def Let_def split: sum.splits option.splits if_splits)
  have "length (ve_buf (g_batch_enc d)) = unat UK_DISPATCH_BUF_SIZE" using assms(2) by (simp add: wf_defs)
  hence buf: "length (ve_buf (static_encoder (ve_buf (g_batch_enc d)))) = unat UK_DISPATCH_BUF_SIZE"
    by (simp add: static_encoder_eq)
  have fail: "disp_wf (d\<lparr>g_venus := dev\<rparr>)" for dev using assms(2) by (simp add: wf_defs)
  have "disp_wf (d\<lparr>g_venus := dev, g_gpu := vvd_gpu dev, g_ctx_set := True, g_disp_initialized := True,
      g_batch_enabled := be, g_gpu_sync := gs, g_batch_recording := False,
      g_batch_enc := static_encoder (ve_buf (g_batch_enc d)), g_ring_want := rw\<rparr>)" if "vvd_gpu dev" for dev be gs rw
    using assms(2) buf that by (simp add: wf_defs)
  thus ?thesis
    using assms fail
    by (auto simp: uk_vulkan_init_def uk_vulkan_venus_gpu_def split: if_splits option.splits sum.splits dest!: opened)
qed

lemma lazy_ring_wf:
  assumes "uk_dispatch_ring_lazy_init E d s = Some (d', s')" "disp_wf d"
  shows "disp_wf d' \<and> (g_ring_want d' \<longrightarrow> g_ring_tried d') \<and> g_next_handle d' = g_next_handle d"
proof (cases "\<not> g_ring_want d \<or> g_ring_tried d")
  case True
  thus ?thesis using assms by (auto simp: uk_dispatch_ring_lazy_init_def)
next
  case False
  hence nb: "\<not> g_batch_recording d" and v: "vring_wf (g_ring d)" using assms(2) by (auto simp: wf_defs)
  have "disp_wf (d\<lparr>g_ring_tried := True, g_ring := r\<rparr>)" if "vring_wf r" for r
    using that assms(2) by (auto simp: wf_defs)
  moreover have "disp_wf (d\<lparr>g_ring_tried := True, g_ring := r, g_binding := b, g_ring_enabled := True, g_ring_ready := True\<rparr>)"
    if "vring_wf r" for r b using that assms(2) nb by (auto simp: wf_defs)
  ultimately show ?thesis
    using assms(1) False v
    by (auto simp: uk_dispatch_ring_lazy_init_def Let_def
        dest!: create_wf(2) ring_register_wf ring_destroy_within(2)
        split: option.splits sum.splits prod.splits)
qed

lemma shutdown_wf:
  assumes "uk_vulkan_shutdown E d s = Some (d', s')" "disp_wf d" shows "disp_wf d'"
proof -
  have "disp_wf (d\<lparr>g_ring := r, g_ring_ready := False, g_disp_initialized := False\<rparr>)" if "vring_wf r" for r
    using that assms(2) by (auto simp: wf_defs)
  moreover have "disp_wf (d\<lparr>g_disp_initialized := False\<rparr>)" using assms(2) by (auto simp: wf_defs)
  ultimately show ?thesis
    using assms by (auto simp: uk_vulkan_shutdown_def dest!: ring_destroy_within(2) split: if_splits option.splits prod.splits)
qed

section \<open>Instance and device\<close>

lemma ggml_short: "short_opt (Some (ascii ''ggml-vulkan-uk''))"
  by (simp add: short_opt_def short_str_def ascii_def)

lemma instance_wf:
  "stub_vkCreateInstance E p d s = Some (r, d', s') \<Longrightarrow> disp_wf d \<Longrightarrow> disp_wf d'"
  by (auto simp: stub_vkCreateInstance_def split: option.splits bool.splits
      dest!: init_wf enc_call_wf[OF _ bootstrap_writes(1)[OF ggml_short]])

lemma enumerate_wf:
  "stub_vkEnumeratePhysicalDevices E p q d s = Some (r, d', s') \<Longrightarrow> disp_wf d \<Longrightarrow> disp_wf d'"
  by (auto simp: stub_vkEnumeratePhysicalDevices_def split: if_splits
      dest!: enc_call_wf[OF _ bootstrap_writes(2)])

lemma properties_wf:
  "stub_vkGetPhysicalDeviceProperties E p d s = Some (d', s') \<Longrightarrow> disp_wf d \<Longrightarrow> disp_wf d'"
  "stub_vkGetPhysicalDeviceProperties2 E p d s = Some (d', s') \<Longrightarrow> disp_wf d \<Longrightarrow> disp_wf d'"
proof -
  show *: "stub_vkGetPhysicalDeviceProperties E p d s = Some (d', s') \<Longrightarrow> disp_wf d \<Longrightarrow> disp_wf d'" for p d s s'
    by (auto simp: stub_vkGetPhysicalDeviceProperties_def Let_def dest: name_query_wf split: if_splits option.splits)
  show "stub_vkGetPhysicalDeviceProperties2 E p d s = Some (d', s') \<Longrightarrow> disp_wf d \<Longrightarrow> disp_wf d'"
    using * by (auto simp: stub_vkGetPhysicalDeviceProperties2_def split: if_splits option.splits)
qed

lemma memory_properties_wf:
  "stub_vkGetPhysicalDeviceMemoryProperties E p d s = Some (d', s') \<Longrightarrow> disp_wf d \<Longrightarrow> disp_wf d'"
  "stub_vkGetPhysicalDeviceMemoryProperties2 E p d s = Some (d', s') \<Longrightarrow> disp_wf d \<Longrightarrow> disp_wf d'"
proof -
  show *: "stub_vkGetPhysicalDeviceMemoryProperties E p d s = Some (d', s') \<Longrightarrow> disp_wf d \<Longrightarrow> disp_wf d'" for p
    by (auto simp: stub_vkGetPhysicalDeviceMemoryProperties_def dest: mp_query_wf split: if_splits option.splits)
  show "stub_vkGetPhysicalDeviceMemoryProperties2 E p d s = Some (d', s') \<Longrightarrow> disp_wf d \<Longrightarrow> disp_wf d'"
    using * by (auto simp: stub_vkGetPhysicalDeviceMemoryProperties2_def split: if_splits)
qed

lemma device_wf:
  "stub_vkCreateDevice E p d s = Some (r, d', s') \<Longrightarrow> disp_wf d \<Longrightarrow> disp_wf d'"
  by (auto simp: stub_vkCreateDevice_def Let_def split: if_splits option.splits
      dest!: enc_call_wf[OF _ bootstrap_writes(3)] enc_call_wf[OF _ writes_comp[OF bootstrap_writes(5,4)]])

section \<open>Objects\<close>

lemma tables_upd_wf:
  "disp_wf d \<Longrightarrow> (hv_used x \<Longrightarrow> blob_mapped_addr (hv_blob x) \<noteq> 0) \<Longrightarrow> disp_wf (d\<lparr>g_hv_mem := (g_hv_mem d)[i := x]\<rparr>)"
  "disp_wf d \<Longrightarrow> disp_wf (uk_buf_size_put h sz d)"
  by (auto simp: disp_wf_def tables_wf_def bufs_wf_def modes_wf_def caches_wf_def uk_buf_size_put_def
      dest!: set_update_subset_insert[THEN subsetD])

lemma undo_unused: "hv_undo e slot b s = Some (x, s') \<Longrightarrow> hv_used x = hv_used slot"
  by (auto simp: hv_undo_def bind_Some_iff)

lemma hv_allocate_mapped:
  "hv_allocate E c slot h sz ty s = Some (x, s') \<Longrightarrow> \<not> hv_used slot \<Longrightarrow> hv_used x \<Longrightarrow>
   blob_mapped_addr (hv_blob x) \<noteq> 0 \<and> hv_handle x = h"
  by (auto simp: hv_allocate_def Let_def dest: undo_unused split: option.splits sum.splits prod.splits if_splits)

lemma allocate_memory_wf:
  assumes "stub_vkAllocateMemory E ci p d s = Some (r, d', s')" "disp_wf d" shows "disp_wf d'"
proof -
  let ?d = "snd (uk_vk_alloc_handle d)"
  have w: "disp_wf ?d" using assms(2) by (simp add: uk_vk_alloc_handle_def)
  have "disp_wf (?d\<lparr>g_hv_mem := (g_hv_mem ?d)[i := x]\<rparr>)"
    if "first_index (\<lambda>x. \<not> hv_used x) (g_hv_mem ?d) = Some i" "hv_allocate E c (g_hv_mem ?d ! i) h sz ty s = Some (x, t)"
    for i x c h sz ty t
    using that first_index_SomeD(2)[OF that(1)] hv_allocate_mapped[OF that(2)] by (intro tables_upd_wf(1)[OF w]) auto
  thus ?thesis
    using assms(1) w
    by (auto simp: stub_vkAllocateMemory_def Let_def uk_vk_alloc_handle_def split: if_splits option.splits
        dest!: enc_call_wf[OF _ object_plain(1)])
qed

lemma free_memory_wf: "stub_vkFreeMemory E mm d s = Some (d', s') \<Longrightarrow> disp_wf d \<Longrightarrow> disp_wf d'"
  by (auto simp: stub_vkFreeMemory_def Let_def bind_Some_iff intro: tables_upd_wf(1) split: option.splits)

lemma objects_wf:
  "stub_vkCreateBuffer E ci p d s = Some (r, d', s') \<Longrightarrow> disp_wf d \<Longrightarrow> disp_wf d'"
  "stub_vkBindBufferMemory E b mm off d s = Some (r, d', s') \<Longrightarrow> disp_wf d \<Longrightarrow> disp_wf d'"
  "stub_vkCreateDescriptorSetLayout E ci p d s = Some (r, d', s') \<Longrightarrow> disp_wf d \<Longrightarrow> disp_wf d'"
  "stub_vkCreateDescriptorPool E ci p d s = Some (r, d', s') \<Longrightarrow> disp_wf d \<Longrightarrow> disp_wf d'"
  by (auto simp: stub_vkCreateBuffer_def stub_vkBindBufferMemory_def stub_vkCreateDescriptorSetLayout_def
      stub_vkCreateDescriptorPool_def Let_def uk_vk_alloc_handle_def
      dest!: enc_call_wf[OF _ object_plain(2)] enc_call_wf[OF _ object_plain(3)] immediate_wf[OF _ object_plain(4)]
        enc_call_wf[OF _ object_plain(5)] intro: tables_upd_wf(2))

lemma destroys_wf:
  "stub_vkDestroyBuffer E h d s = Some (d', s') \<Longrightarrow> disp_wf d \<Longrightarrow> disp_wf d'"
  "stub_vkDestroyShaderModule E h d s = Some (d', s') \<Longrightarrow> disp_wf d \<Longrightarrow> disp_wf d'"
  "stub_vkDestroyPipelineLayout E h d s = Some (d', s') \<Longrightarrow> disp_wf d \<Longrightarrow> disp_wf d'"
  "stub_vkDestroyPipeline E h d s = Some (d', s') \<Longrightarrow> disp_wf d \<Longrightarrow> disp_wf d'"
  "stub_vkDestroyDescriptorSetLayout E h d s = Some (d', s') \<Longrightarrow> disp_wf d \<Longrightarrow> disp_wf d'"
  "stub_vkDestroyDescriptorPool E h d s = Some (d', s') \<Longrightarrow> disp_wf d \<Longrightarrow> disp_wf d'"
  "stub_vkDestroyCommandPool E h d s = Some (d', s') \<Longrightarrow> disp_wf d \<Longrightarrow> disp_wf d'"
  unfolding stub_vkDestroyBuffer_def stub_vkDestroyShaderModule_def stub_vkDestroyPipelineLayout_def
    stub_vkDestroyPipeline_def stub_vkDestroyDescriptorSetLayout_def stub_vkDestroyDescriptorPool_def
    stub_vkDestroyCommandPool_def
  by (erule destroy_wf, rule destroy_writes record_plain'(1), assumption)+

lemma shader_wf: "stub_vkCreateShaderModule E ci p d s = Some (r, d', s') \<Longrightarrow> disp_wf d \<Longrightarrow> disp_wf d'"
  by (auto simp: stub_vkCreateShaderModule_def Let_def uk_vk_alloc_handle_def load_words_def split: if_splits
      dest!: immediate_wf[OF _ object_sized(1)] immediate_wf[OF _ object_sized(2)])

lemma result_call: "map_option (\<lambda>(d, s). (v, d, g s)) X = Some (r, d', s') \<Longrightarrow> \<exists>t. X = Some (d', t)"
  by auto

lemma pipeline_layout_wf: "stub_vkCreatePipelineLayout E ci p d s = Some (r, d', s') \<Longrightarrow> disp_wf d \<Longrightarrow> disp_wf d'"
  unfolding stub_vkCreatePipelineLayout_def Let_def uk_vk_alloc_handle_def prod.case
  by (drule result_call, erule exE, erule immediate_wf, rule object_sized(3)) simp_all

lemma set_handles_wf: "set_handles_loop k p d s = (hs, d', s') \<Longrightarrow> disp_wf d \<Longrightarrow> disp_wf d'"
  by (induction k arbitrary: p d s hs d' s') (auto simp: Let_def uk_vk_alloc_handle_def split: prod.splits)

lemma descriptor_sets_wf: "stub_vkAllocateDescriptorSets E ai p d s = Some (r, d', s') \<Longrightarrow> disp_wf d \<Longrightarrow> disp_wf d'"
  by (auto simp: stub_vkAllocateDescriptorSets_def Let_def split: prod.splits
      dest!: set_handles_wf enc_call_wf[OF _ object_plain(6)])

lemma infos_loop_wf: "update_infos_loop E st bi ty p k j d s = Some (d', s') \<Longrightarrow> disp_wf d \<Longrightarrow> disp_wf d'"
  by (induction k arbitrary: j d s) (auto simp: Let_def bind_Some_iff split: if_splits
      dest!: enc_call_wf[OF _ object_plain(7)])

lemma writes_loop_wf: "update_writes_loop E k w d s = Some (d', s') \<Longrightarrow> disp_wf d \<Longrightarrow> disp_wf d'"
  by (induction k arbitrary: w d s) (auto simp: Let_def bind_Some_iff dest!: infos_loop_wf)

lemma entry_short: "entry_name p m = Some n \<Longrightarrow> short_opt (Some n)"
  by (auto simp: entry_name_def short_opt_def short_str_def main_name_def split: if_splits option.splits)

lemma pipelines_loop_wf: "pipelines_loop E k p q d s = Some (d', s') \<Longrightarrow> disp_wf d \<Longrightarrow> disp_wf d'"
proof (induction k arbitrary: p q d s)
  case (Suc k)
  have st: "disp_wf (snd (uk_vk_alloc_handle d))" using Suc.prems by (simp add: uk_vk_alloc_handle_def)
  have "disp_wf d1" if "enc_call_immediate E (\<lambda>enc. uk_venus_encode_vkCreateComputePipelines (vk_C E) enc UK_H_DEVICE h
      l sm (Some name)) (snd (uk_vk_alloc_handle d)) s = Some (d1, s1)" "entry_name x m = Some name" for h l sm name d1 s1 x m
    using immediate_wf[OF that(1) object_sized(4)[OF entry_short[OF that(2)]] st] .
  thus ?case
    using Suc.prems(1) Suc.IH
    by (auto simp: Let_def bind_Some_iff uk_vk_alloc_handle_def)
qed simp

lemma pipelines_wf: "stub_vkCreateComputePipelines E n ci p d s = Some (r, d', s') \<Longrightarrow> disp_wf d \<Longrightarrow> disp_wf d'"
  by (auto simp: stub_vkCreateComputePipelines_def intro: pipelines_loop_wf)

section \<open>Recording and submission\<close>

lemma pools_wf:
  "stub_vkCreateCommandPool E p d s = Some (r, d', s') \<Longrightarrow> disp_wf d \<Longrightarrow> disp_wf d'"
  "stub_vkCreateFence E ci p d s = Some (r, d', s') \<Longrightarrow> disp_wf d \<Longrightarrow> disp_wf d'"
  "stub_vkResetFences E n fs d s = Some (r, d', s') \<Longrightarrow> disp_wf d \<Longrightarrow> disp_wf d'"
  "stub_vkFreeCommandBuffers E h n cbs d s = Some (d', s') \<Longrightarrow> disp_wf d \<Longrightarrow> disp_wf d'"
  by (auto simp: stub_vkCreateCommandPool_def stub_vkCreateFence_def stub_vkResetFences_def stub_vkFreeCommandBuffers_def
      Let_def uk_vk_alloc_handle_def
      dest!: enc_call_wf[OF _ record_plain(1)] enc_call_wf[OF _ record_plain(6)] enc_call_wf[OF _ record_plain'(8)]
        enc_call_wf[OF _ record_plain'(2)])

lemma buffers_loop_wf: "command_buffers_loop E h k q d s = Some (d', s') \<Longrightarrow> disp_wf d \<Longrightarrow> disp_wf d'"
  by (induction k arbitrary: q d s) (auto simp: Let_def bind_Some_iff uk_vk_alloc_handle_def
      dest!: enc_call_wf[OF _ record_plain(2)])

lemma cmds_wf:
  "stub_vkCmdBindPipeline E cb p d s = Some (d', s') \<Longrightarrow> disp_wf d \<Longrightarrow> disp_wf d'"
  "stub_vkCmdBindDescriptorSets E cb l n p d s = Some (d', s') \<Longrightarrow> disp_wf d \<Longrightarrow> disp_wf d'"
  "stub_vkCmdDispatch E cb x y z d s = Some (d', s') \<Longrightarrow> disp_wf d \<Longrightarrow> disp_wf d'"
  "stub_vkCmdFillBuffer E cb b off sz v d s = Some (d', s') \<Longrightarrow> disp_wf d \<Longrightarrow> disp_wf d'"
  "stub_vkCmdPipelineBarrier E cb st dt d s = Some (d', s') \<Longrightarrow> disp_wf d \<Longrightarrow> disp_wf d'"
  by (auto simp: stub_vkCmdBindPipeline_def stub_vkCmdBindDescriptorSets_def stub_vkCmdDispatch_def
      stub_vkCmdFillBuffer_def stub_vkCmdPipelineBarrier_def
      dest!: enc_call_wf[OF _ record_plain(4)] enc_call_wf[OF _ record_plain(5)] enc_call_wf[OF _ record_plain'(4)]
        enc_call_wf[OF _ record_plain'(6)] enc_call_wf[OF _ record_plain'(7)])

lemma push_wf: "stub_vkCmdPushConstants E cb l sf off sz p d s = Some (d', s') \<Longrightarrow> disp_wf d \<Longrightarrow> disp_wf d'"
  by (auto simp: stub_vkCmdPushConstants_def mem_load_def split: if_splits
      dest!: enc_call_wf[OF _ push_writes(1)] enc_call_wf[OF _ push_writes(2)])

lemma copy_loop_wf: "copy_regions_loop E cb a b k r d s = Some (d', s') \<Longrightarrow> disp_wf d \<Longrightarrow> disp_wf d'"
  by (induction k arbitrary: r d s) (auto simp: Let_def bind_Some_iff dest!: enc_call_wf[OF _ record_plain'(5)])

lemma submits_loop_wf: "submits_loop E f k p d s = Some (d', s') \<Longrightarrow> disp_wf d \<Longrightarrow> disp_wf d'"
  by (induction k arbitrary: p d s) (auto simp: Let_def bind_Some_iff dest!: enc_call_wf[OF _ record_plain(7)])

lemma barrier_wf: "uk_dispatch_gpu_barrier E d s = Some (d', s') \<Longrightarrow> disp_wf d \<Longrightarrow> disp_wf d'"
  by (auto simp: uk_dispatch_gpu_barrier_def split: if_splits)

lemma submit_parts:
  assumes "stub_vkQueueSubmit E n p f d s = Some (r, d', s')"
  obtains d1 s1 s2 where "submits_loop E f (unat n) p d s = Some (d1, s1)"
    "d' = d1\<lparr>g_last_fence := f\<rparr> \<or> d' = d1 \<or> uk_dispatch_gpu_barrier E (d1\<lparr>g_last_fence := f\<rparr>) s2 = Some (d', s')"
proof -
  from assms obtain d1 s1 s2 where l: "submits_loop E f (unat n) p d s = Some (d1, s1)" and
    b: "(if f \<noteq> 0 \<and> g_gpu_sync (if f \<noteq> 0 then d1\<lparr>g_last_fence := f\<rparr> else d1)
      then uk_dispatch_gpu_barrier E (if f \<noteq> 0 then d1\<lparr>g_last_fence := f\<rparr> else d1) s2
      else Some (if f \<noteq> 0 then d1\<lparr>g_last_fence := f\<rparr> else d1, s2)) = Some (d', s')"
    by (auto simp: stub_vkQueueSubmit_def bind_Some_iff Let_def simp del: if_cancel split del: if_split)
  show ?thesis by (rule that[OF l]) (use b in \<open>auto split: if_splits\<close>)
qed

lemma queue_submit_wf: "stub_vkQueueSubmit E n p f d s = Some (r, d', s') \<Longrightarrow> disp_wf d \<Longrightarrow> disp_wf d'"
  by (erule submit_parts) (auto dest!: submits_loop_wf barrier_wf)

lemma begin_parts:
  assumes "stub_vkBeginCommandBuffer E cb d s = Some (r, d', s')"
  obtains d1 s1 where "uk_dispatch_ring_lazy_init E d s = Some (d1, s1)"
    "enc_call E (\<lambda>enc. uk_venus_encode_vkBeginCommandBuffer (vk_C E) enc cb) (begin_recording d1) s1 = Some (d', s')"
  using assms by (auto simp: stub_vkBeginCommandBuffer_def bind_Some_iff)

lemma end_parts:
  assumes "stub_vkEndCommandBuffer E cb d s = Some (r, d', s')"
  obtains d1 s1 where "enc_call E (\<lambda>enc. uk_venus_encode_vkEndCommandBuffer enc cb) d s = Some (d1, s1)"
    "d' = d1\<lparr>g_ring_recording := False\<rparr> \<or> d' = d1\<lparr>g_batch_recording := False\<rparr> \<or> d' = d1"
  using assms by (auto simp: stub_vkEndCommandBuffer_def bind_Some_iff split: if_splits)

lemma begin_recording_wf:
  assumes "disp_wf d" "g_ring_want d \<longrightarrow> g_ring_tried d" shows "disp_wf (begin_recording d)"
proof (cases "g_ring_enabled d \<and> g_ring_ready d \<or> \<not> g_batch_enabled d")
  case True
  thus ?thesis using assms(1) by (auto simp: begin_recording_def)
next
  case False
  let ?e = "static_encoder (ve_buf (g_batch_enc d))"
  have "length (ve_buf (g_batch_enc d)) = unat UK_DISPATCH_BUF_SIZE" using assms(1) by (simp add: wf_defs)
  hence "length (ve_buf ?e) = unat UK_DISPATCH_BUF_SIZE" "enc_wf ?e" by (auto simp: enc_wf_length)
  moreover have "\<not> g_ring_ready d" using False assms(1) by (auto simp: disp_wf_def modes_wf_def)
  ultimately have "disp_wf (d\<lparr>g_batch_enc := ?e, g_batch_recording := True\<rparr>)"
    using assms False by (simp add: wf_defs)
  thus ?thesis using False by (auto simp: begin_recording_def)
qed

lemma begin_cb_wf: "stub_vkBeginCommandBuffer E cb d s = Some (r, d', s') \<Longrightarrow> disp_wf d \<Longrightarrow> disp_wf d'"
  by (erule begin_parts) (auto dest!: lazy_ring_wf enc_call_wf[OF _ record_plain(3)] intro: begin_recording_wf)

lemma end_cb_wf: "stub_vkEndCommandBuffer E cb d s = Some (r, d', s') \<Longrightarrow> disp_wf d \<Longrightarrow> disp_wf d'"
proof (erule end_parts)
  fix d1 s1 assume "disp_wf d" and c: "enc_call E (\<lambda>enc. uk_venus_encode_vkEndCommandBuffer enc cb) d s = Some (d1, s1)"
    "d' = d1\<lparr>g_ring_recording := False\<rparr> \<or> d' = d1\<lparr>g_batch_recording := False\<rparr> \<or> d' = d1"
  have "disp_wf d1" by (rule enc_call_wf[OF c(1) record_plain'(3) \<open>disp_wf d\<close>])
  moreover have "disp_wf (d1\<lparr>g_batch_recording := False\<rparr>)" if "disp_wf d1" using that by (auto simp: wf_defs)
  ultimately show "disp_wf d'" using c(2) by auto
qed

section \<open>The dispatch as a transition system\<close>

text \<open>One step is the return of one entry point.  \<open>Elsewhere\<close> stands for the entry points that only write
  the client's structures, for the client, and for the host: they leave the dispatch state alone.\<close>

inductive vk_step :: "'h vk_env \<Rightarrow> disp \<times> 'h machine sys \<Rightarrow> disp \<times> 'h machine sys \<Rightarrow> bool" for E where
  Init: "uk_vulkan_init E d s = Some (b, d', s') \<Longrightarrow> vk_step E (d, s) (d', s')"
| Shutdown: "uk_vulkan_shutdown E d s = Some (d', s') \<Longrightarrow> vk_step E (d, s) (d', s')"
| Elsewhere: "vk_step E (d, s) (d, s')"
| Instance: "stub_vkCreateInstance E p d s = Some (r, d', s') \<Longrightarrow> vk_step E (d, s) (d', s')"
| Enumerate: "stub_vkEnumeratePhysicalDevices E p q d s = Some (r, d', s') \<Longrightarrow> vk_step E (d, s) (d', s')"
| Properties: "stub_vkGetPhysicalDeviceProperties E p d s = Some (d', s') \<Longrightarrow> vk_step E (d, s) (d', s')"
| Properties2: "stub_vkGetPhysicalDeviceProperties2 E p d s = Some (d', s') \<Longrightarrow> vk_step E (d, s) (d', s')"
| MemoryProperties: "stub_vkGetPhysicalDeviceMemoryProperties E p d s = Some (d', s') \<Longrightarrow> vk_step E (d, s) (d', s')"
| MemoryProperties2: "stub_vkGetPhysicalDeviceMemoryProperties2 E p d s = Some (d', s') \<Longrightarrow> vk_step E (d, s) (d', s')"
| Device: "stub_vkCreateDevice E p d s = Some (r, d', s') \<Longrightarrow> vk_step E (d, s) (d', s')"
| Allocate: "stub_vkAllocateMemory E ci p d s = Some (r, d', s') \<Longrightarrow> vk_step E (d, s) (d', s')"
| Free: "stub_vkFreeMemory E mm d s = Some (d', s') \<Longrightarrow> vk_step E (d, s) (d', s')"
| Bind: "stub_vkBindBufferMemory E b mm off d s = Some (r, d', s') \<Longrightarrow> vk_step E (d, s) (d', s')"
| Buffer: "stub_vkCreateBuffer E ci p d s = Some (r, d', s') \<Longrightarrow> vk_step E (d, s) (d', s')"
| Shader: "stub_vkCreateShaderModule E ci p d s = Some (r, d', s') \<Longrightarrow> vk_step E (d, s) (d', s')"
| SetLayout: "stub_vkCreateDescriptorSetLayout E ci p d s = Some (r, d', s') \<Longrightarrow> vk_step E (d, s) (d', s')"
| DescriptorPool: "stub_vkCreateDescriptorPool E ci p d s = Some (r, d', s') \<Longrightarrow> vk_step E (d, s) (d', s')"
| DescriptorSets: "stub_vkAllocateDescriptorSets E ci p d s = Some (r, d', s') \<Longrightarrow> vk_step E (d, s) (d', s')"
| UpdateSets: "stub_vkUpdateDescriptorSets E n p d s = Some (d', s') \<Longrightarrow> vk_step E (d, s) (d', s')"
| PipelineLayout: "stub_vkCreatePipelineLayout E ci p d s = Some (r, d', s') \<Longrightarrow> vk_step E (d, s) (d', s')"
| Pipelines: "stub_vkCreateComputePipelines E n ci p d s = Some (r, d', s') \<Longrightarrow> vk_step E (d, s) (d', s')"
| DestroyBuffer: "stub_vkDestroyBuffer E h d s = Some (d', s') \<Longrightarrow> vk_step E (d, s) (d', s')"
| DestroyShader: "stub_vkDestroyShaderModule E h d s = Some (d', s') \<Longrightarrow> vk_step E (d, s) (d', s')"
| DestroyPipelineLayout: "stub_vkDestroyPipelineLayout E h d s = Some (d', s') \<Longrightarrow> vk_step E (d, s) (d', s')"
| DestroyPipeline: "stub_vkDestroyPipeline E h d s = Some (d', s') \<Longrightarrow> vk_step E (d, s) (d', s')"
| DestroySetLayout: "stub_vkDestroyDescriptorSetLayout E h d s = Some (d', s') \<Longrightarrow> vk_step E (d, s) (d', s')"
| DestroyDescriptorPool: "stub_vkDestroyDescriptorPool E h d s = Some (d', s') \<Longrightarrow> vk_step E (d, s) (d', s')"
| DestroyCommandPool: "stub_vkDestroyCommandPool E h d s = Some (d', s') \<Longrightarrow> vk_step E (d, s) (d', s')"
| CommandPool: "stub_vkCreateCommandPool E p d s = Some (r, d', s') \<Longrightarrow> vk_step E (d, s) (d', s')"
| CommandBuffers: "stub_vkAllocateCommandBuffers E ai p d s = Some (r, d', s') \<Longrightarrow> vk_step E (d, s) (d', s')"
| FreeBuffers: "stub_vkFreeCommandBuffers E h n p d s = Some (d', s') \<Longrightarrow> vk_step E (d, s) (d', s')"
| Begin: "stub_vkBeginCommandBuffer E cb d s = Some (r, d', s') \<Longrightarrow> vk_step E (d, s) (d', s')"
| End: "stub_vkEndCommandBuffer E cb d s = Some (r, d', s') \<Longrightarrow> vk_step E (d, s) (d', s')"
| BindPipeline: "stub_vkCmdBindPipeline E cb p d s = Some (d', s') \<Longrightarrow> vk_step E (d, s) (d', s')"
| BindSets: "stub_vkCmdBindDescriptorSets E cb l n p d s = Some (d', s') \<Longrightarrow> vk_step E (d, s) (d', s')"
| Push: "stub_vkCmdPushConstants E cb l sf off sz p d s = Some (d', s') \<Longrightarrow> vk_step E (d, s) (d', s')"
| Dispatch: "stub_vkCmdDispatch E cb x y z d s = Some (d', s') \<Longrightarrow> vk_step E (d, s) (d', s')"
| Copy: "stub_vkCmdCopyBuffer E cb a b n p d s = Some (d', s') \<Longrightarrow> vk_step E (d, s) (d', s')"
| Fill: "stub_vkCmdFillBuffer E cb b off sz v d s = Some (d', s') \<Longrightarrow> vk_step E (d, s) (d', s')"
| Barrier: "stub_vkCmdPipelineBarrier E cb st dt d s = Some (d', s') \<Longrightarrow> vk_step E (d, s) (d', s')"
| Submit: "stub_vkQueueSubmit E n p f d s = Some (r, d', s') \<Longrightarrow> vk_step E (d, s) (d', s')"
| Fence: "stub_vkCreateFence E ci p d s = Some (r, d', s') \<Longrightarrow> vk_step E (d, s) (d', s')"
| Reset: "stub_vkResetFences E n p d s = Some (r, d', s') \<Longrightarrow> vk_step E (d, s) (d', s')"
| Event: "stub_vkCreateEvent p d s = (r, d', s') \<Longrightarrow> vk_step E (d, s) (d', s')"
| Semaphore: "stub_vkCreateSemaphore p d s = (r, d', s') \<Longrightarrow> vk_step E (d, s) (d', s')"
| QueryPool: "stub_vkCreateQueryPool p d s = (r, d', s') \<Longrightarrow> vk_step E (d, s) (d', s')"

lemmas entry_points_wf = init_wf shutdown_wf instance_wf enumerate_wf properties_wf memory_properties_wf device_wf
  allocate_memory_wf free_memory_wf objects_wf shader_wf descriptor_sets_wf pipeline_layout_wf pipelines_wf
  destroys_wf pools_wf begin_cb_wf end_cb_wf cmds_wf push_wf queue_submit_wf

lemma vk_step_wf:
  assumes "vk_step E c c'" "disp_wf (fst c)" shows "disp_wf (fst c')"
  using assms
  by cases (auto simp: stub_vkUpdateDescriptorSets_def stub_vkAllocateCommandBuffers_def stub_vkCmdCopyBuffer_def
      stub_vkCreateEvent_def stub_vkCreateSemaphore_def stub_vkCreateQueryPool_def uk_vk_alloc_handle_def Let_def
      intro: entry_points_wf writes_loop_wf buffers_loop_wf copy_loop_wf)

text \<open>Runs of \<open>n\<close> steps.\<close>

inductive vk_run :: "'h vk_env \<Rightarrow> nat \<Rightarrow> disp \<times> 'h machine sys \<Rightarrow> disp \<times> 'h machine sys \<Rightarrow> bool" for E where
  Nil: "vk_run E 0 c c"
| Snoc: "vk_run E n c c1 \<Longrightarrow> vk_step E c1 c2 \<Longrightarrow> vk_run E (Suc n) c c2"

lemma vk_run_wf: "vk_run E n c c' \<Longrightarrow> disp_wf (fst c) \<Longrightarrow> disp_wf (fst c')"
  by (induction rule: vk_run.induct) (auto intro: vk_step_wf)

end
