(* ===== verification/Vk_Batch.thy ===== *)
theory Vk_Batch
  imports Vk_Steps
begin

text \<open>
  What the host receives of a recorded command buffer.  Batching cuts the stream of commands into
  SUBMIT_3D messages; the specification is the stream itself.
\<close>

section \<open>The specification: a stream sent in chunks\<close>

primrec send_all :: "'h vk_env \<Rightarrow> uk_virtio_gpu_context \<Rightarrow> u8 list list \<Rightarrow> 'h machine sys \<Rightarrow> 'h machine sys option" where
  "send_all E c [] s = Some s"
| "send_all E c (b # bs) s =
    (case uk_virtio_gpu_gl_context_submit (vk_e E) (Some c) (Some b) True s of
       None \<Rightarrow> None
     | Some (_, _, s) \<Rightarrow> send_all E c bs s)"

lemma send_all_append: "send_all E c (bs @ cs) s = Option.bind (send_all E c bs s) (send_all E c cs)"
  by (induction bs arbitrary: s) (auto split: option.splits)

text \<open>Recording a list of commands through the entry points' transport.\<close>

primrec record_all :: "'h vk_env \<Rightarrow> record_cmd list \<Rightarrow> disp \<Rightarrow> 'h machine sys \<Rightarrow> (disp \<times> 'h machine sys) option" where
  "record_all E [] d s = Some (d, s)"
| "record_all E (k # ks) d s =
    Option.bind (enc_call E (record_encode (vk_C E) k) d s) (\<lambda>(d, s). record_all E ks d s)"

definition cmd_bytes :: "vk_enums \<Rightarrow> record_cmd \<Rightarrow> u8 list" where
  "cmd_bytes C k = concat (record_wire C k)"

definition fits :: "vk_enums \<Rightarrow> nat \<Rightarrow> record_cmd \<Rightarrow> bool" where
  "fits C n k \<longleftrightarrow> record_ok k \<and> length (cmd_bytes C k) \<le> n"

lemma fits_writes: "fits C n k \<Longrightarrow> writes (record_encode C k) (record_wire C k)"
  by (rule record_writes) (simp_all add: fits_def)

lemma record_encode_eta:
  "record_encode C (BeginCommandBuffer cb) = (\<lambda>e. uk_venus_encode_vkBeginCommandBuffer C e cb)"
  "record_encode C (EndCommandBuffer cb) = (\<lambda>e. uk_venus_encode_vkEndCommandBuffer e cb)"
  by (rule ext, simp)+

section \<open>One command\<close>

lemma submit_content:
  assumes "disp_ctx d = Some c" "\<not> ve_overflow e" "ve_wf e"
  shows "disp_submit E e d s = send_all E c (if ve_content e = [] then [] else [ve_content e]) s"
proof -
  have "ve_content e = [] \<longleftrightarrow> ve_pos e = 0"
    using assms(3) by (auto simp: ve_content_def ve_wf_def unat_eq_0)
  thus ?thesis
    using assms(1,2)
    by (auto simp: disp_submit_def uk_venus_submit_def ve_content_def split: option.splits)
qed

text \<open>An open batch holding the bytes \<open>p\<close>.\<close>

definition pending_batch :: "uk_virtio_gpu_context \<Rightarrow> disp \<Rightarrow> u8 list \<Rightarrow> bool" where
  "pending_batch c d p \<longleftrightarrow> disp_wf d \<and> uk_dispatch_batch_active d \<and> \<not> g_ring_ready d \<and> disp_ctx d = Some c \<and>
     \<not> ve_overflow (g_batch_enc d) \<and> ve_content (g_batch_enc d) = p \<and> length p < 65536"

lemma threshold: "UK_BATCH_FLUSH_THRESHOLD \<le> v \<longleftrightarrow> 65536 \<le> unat v"
  by (simp add: UK_BATCH_FLUSH_THRESHOLD_def word_le_nat_alt)

lemma length_content: "ve_wf e \<Longrightarrow> length (ve_content e) = unat (ve_pos e)"
  by (simp add: ve_content_def ve_wf_def)

lemma written_batch:
  assumes "pending_batch c d p" "writes f cs" "length (concat cs) \<le> 2031616"
  defines "e \<equiv> f (g_batch_enc d)"
  shows "enc_wf e" "\<not> ve_overflow e" "ve_content e = p @ concat cs"
proof -
  have w: "enc_wf (g_batch_enc d)" using assms(1) batch_wf by (auto simp: pending_batch_def)
  thus "enc_wf e" unfolding e_def by (rule writes_wf[OF assms(2)])
  have b: "ve_wf (g_batch_enc d)" "unat (ve_cap (g_batch_enc d)) = 2097152"
    using w by (simp_all add: enc_wf_def buf_size(2))
  have "length (concat cs) \<le> ve_room (g_batch_enc d)"
    using assms(1,3) b length_content[OF b(1)] by (auto simp: pending_batch_def ve_room_def)
  from vs.puts_fits[OF b(1) _ _ this] assms(1,2)
  show "\<not> ve_overflow e" "ve_content e = p @ concat cs" by (simp_all add: e_def writes_def pending_batch_def)
qed

lemma batch_enc_frame [simp]:
  "disp_ctx (d\<lparr>g_batch_enc := e\<rparr>) = disp_ctx d" "uk_dispatch_batch_active (d\<lparr>g_batch_enc := e\<rparr>) = uk_dispatch_batch_active d"
  "uk_dispatch_ring_active (d\<lparr>g_batch_enc := e\<rparr>) = uk_dispatch_ring_active d"
  "disp_ctx (d\<lparr>g_enc_buf := b\<rparr>) = disp_ctx d" "uk_dispatch_batch_active (d\<lparr>g_enc_buf := b\<rparr>) = uk_dispatch_batch_active d"
  "uk_dispatch_ring_active (d\<lparr>g_enc_buf := b\<rparr>) = uk_dispatch_ring_active d"
  by (simp_all add: disp_ctx_def uk_dispatch_batch_active_def uk_dispatch_ring_active_def)

lemma batched_call:
  assumes p: "pending_batch c d p" and w: "writes f cs" and l: "length (concat cs) \<le> 2031616"
    and r: "enc_call E f d s = Some (d', s')"
  shows "\<exists>ch p'. send_all E c ch s = Some s' \<and> concat ch @ p' = p @ concat cs \<and> pending_batch c d' p' \<and>
    (ch = [] \<or> ch = [p @ concat cs]) \<and> (ch = [] \<longleftrightarrow> length (p @ concat cs) < 65536)"
proof -
  note e = written_batch[OF p w l]
  let ?e = "f (g_batch_enc d)"
  have act: "uk_dispatch_batch_active d" "\<not> uk_dispatch_ring_active d" "disp_ctx d = Some c"
    using p by (simp_all add: pending_batch_def uk_dispatch_ring_active_def)
  have wf': "disp_wf d'" using r w p by (auto simp: pending_batch_def intro: enc_call_wf)
  have vw: "ve_wf ?e" using e(1) by (simp add: enc_wf_def)
  have len: "unat (ve_pos ?e) = length (p @ concat cs)" using length_content[OF vw] e(3) by simp
  have acc: "uk_dispatch_batch_accumulate E ?e (d\<lparr>g_batch_enc := (g_batch_enc d)\<lparr>ve_buf := ve_buf ?e\<rparr>\<rparr>) s = Some (d', s')"
    using r act by (simp add: enc_call_def UK_ENC_BEGIN_def UK_ENC_SUBMIT_def enc_written_def)
  show ?thesis
  proof (cases "length (p @ concat cs) < 65536")
    case True
    hence "d' = d\<lparr>g_batch_enc := ?e\<rparr>" "s' = s"
      using acc len by (simp_all add: uk_dispatch_batch_accumulate_def threshold)
    hence "pending_batch c d' (p @ concat cs)" using p wf' e True by (simp add: pending_batch_def)
    thus ?thesis using True \<open>s' = s\<close> by (intro exI[of _ "[]"] exI[of _ "p @ concat cs"]) simp
  next
    case False
    hence "ve_content ?e \<noteq> []" unfolding e(3) by (metis list.size(3) zero_less_numeral)
    have "disp_submit E ?e (d\<lparr>g_batch_enc := ?e\<rparr>) s = send_all E c [p @ concat cs] s"
      using submit_content[of "d\<lparr>g_batch_enc := ?e\<rparr>" c ?e E s] act(3) e(2) vw \<open>ve_content ?e \<noteq> []\<close>
      by (simp only: batch_enc_frame if_False e(3) simp_thms)
    hence "d' = d\<lparr>g_batch_enc := static_encoder (ve_buf ?e)\<rparr> \<and> send_all E c [p @ concat cs] s = Some s'"
      using acc len False by (auto simp: uk_dispatch_batch_accumulate_def Let_def threshold simp del: send_all.simps)
    moreover hence "pending_batch c d' []" using p wf'
      by (simp add: pending_batch_def static_encoder_eq ve_content_def)
    ultimately show ?thesis using False
      by (intro exI[of _ "[p @ concat cs]"] exI[of _ "[]"]) (simp del: send_all.simps)
  qed
qed

lemma batched_calls:
  assumes "pending_batch c d p" "\<forall>k\<in>set ks. fits (vk_C E) m k" "m \<le> 2031616" "record_all E ks d s = Some (d', s')"
  shows "\<exists>ch p'. send_all E c ch s = Some s' \<and> concat ch @ p' = p @ concat (map (cmd_bytes (vk_C E)) ks) \<and>
    pending_batch c d' p' \<and> (\<forall>b\<in>set ch. 65536 \<le> length b \<and> length b < 65536 + m)"
  using assms
proof (induction ks arbitrary: d p s)
  case Nil
  thus ?case by (intro exI[of _ "[]"] exI[of _ p]) simp
next
  case (Cons k ks)
  let ?b = "cmd_bytes (vk_C E) k"
  from Cons.prems(4) obtain d1 s1 where k: "enc_call E (record_encode (vk_C E) k) d s = Some (d1, s1)"
    and ks: "record_all E ks d1 s1 = Some (d', s')" by (auto simp: bind_Some_iff)
  have fk: "fits (vk_C E) m k" using Cons.prems(2) by simp
  have l: "length (concat (record_wire (vk_C E) k)) \<le> 2031616" using fk Cons.prems(3) by (simp add: fits_def cmd_bytes_def)
  from batched_call[OF Cons.prems(1) fits_writes[OF fk] l k] obtain ch p1 where
    ch: "send_all E c ch s = Some s1" "concat ch @ p1 = p @ ?b" "pending_batch c d1 p1"
      "ch = [] \<or> ch = [p @ ?b]" "ch = [] \<longleftrightarrow> length (p @ ?b) < 65536" by (auto simp: cmd_bytes_def)
  have sz: "65536 \<le> length b \<and> length b < 65536 + m" if "b \<in> set ch" for b
    using that ch(4,5) fk Cons.prems(1) by (auto simp: fits_def pending_batch_def)
  from Cons.IH[OF ch(3) _ Cons.prems(3) ks] Cons.prems(2) obtain ch' p' where
    ch': "send_all E c ch' s1 = Some s'" "concat ch' @ p' = p1 @ concat (map (cmd_bytes (vk_C E)) ks)"
      "pending_batch c d' p'" "\<forall>b\<in>set ch'. 65536 \<le> length b \<and> length b < 65536 + m" by auto
  have "send_all E c (ch @ ch') s = Some s'" using ch(1) ch'(1) by (simp add: send_all_append)
  moreover have "concat (ch @ ch') @ p' = p @ concat (map (cmd_bytes (vk_C E)) (k # ks))"
    using ch(2) ch'(2) by simp
  ultimately show ?case using ch'(3,4) sz by (intro exI[of _ "ch @ ch'"] exI[of _ p']) auto
qed

section \<open>A whole recording\<close>

definition record_session :: "'h vk_env \<Rightarrow> u64 \<Rightarrow> record_cmd list \<Rightarrow> disp \<Rightarrow> 'h machine sys
    \<Rightarrow> (VkResult \<times> disp \<times> 'h machine sys) option" where
  "record_session E cb ks d s =
    do { (_, d, s) \<leftarrow> stub_vkBeginCommandBuffer E cb d s;
         (d, s) \<leftarrow> record_all E ks d s;
         stub_vkEndCommandBuffer E cb d s }"

abbreviation session_bytes :: "vk_enums \<Rightarrow> u64 \<Rightarrow> record_cmd list \<Rightarrow> u8 list" where
  "session_bytes C cb ks \<equiv> concat (map (cmd_bytes C) (BeginCommandBuffer cb # ks @ [EndCommandBuffer cb]))"

lemma begin_pending:
  assumes "disp_wf d" "g_batch_enabled d" "\<not> g_ring_ready d" "g_ring_want d \<longrightarrow> g_ring_tried d" "disp_ctx d = Some c"
  shows "pending_batch c (begin_recording d) []"
proof -
  have "disp_ctx (begin_recording d) = disp_ctx d"
    by (simp add: begin_recording_def disp_ctx_def)
  thus ?thesis
    using assms begin_recording_wf[OF assms(1)]
    by (simp add: pending_batch_def begin_recording_def uk_dispatch_batch_active_def static_encoder_eq ve_content_def)
qed

lemma session_calls:
  assumes "record_session E cb ks d s = Some (r, d', s')" "g_ring_want d \<longrightarrow> g_ring_tried d"
  obtains d1 s1 where
    "record_all E (BeginCommandBuffer cb # ks @ [EndCommandBuffer cb]) (begin_recording d) s = Some (d1, s1)"
    "r = VK_SUCCESS"
    "if g_ring_enabled d1 \<and> g_ring_ready d1 \<and> g_ring_recording d1
     then \<exists>x. uk_venus_ring_cmd_flush (vk_e E) (g_ring d1) s1 = Some (x, s') \<and> d' = d1\<lparr>g_ring_recording := False\<rparr>
     else if g_batch_enabled d1 \<and> g_batch_recording d1
     then disp_submit E (g_batch_enc d1) d1 s1 = Some s' \<and> d' = d1\<lparr>g_batch_recording := False\<rparr>
     else d' = d1 \<and> s' = s1"
proof -
  have app: "record_all E (xs @ ys) d s = Option.bind (record_all E xs d s) (\<lambda>(d, s). record_all E ys d s)" for xs ys d s
  proof (induction xs arbitrary: d s)
    case (Cons x xs)
    thus ?case by (cases "enc_call E (record_encode (vk_C E) x) d s") auto
  qed simp
  have lazy: "uk_dispatch_ring_lazy_init E d s = Some (d, s)"
    using assms(2) by (auto simp: uk_dispatch_ring_lazy_init_def)
  obtain d0 s0 d2 s2 where
    b: "enc_call E (record_encode (vk_C E) (BeginCommandBuffer cb)) (begin_recording d) s = Some (d0, s0)" and
    ks: "record_all E ks d0 s0 = Some (d2, s2)" and en: "stub_vkEndCommandBuffer E cb d2 s2 = Some (r, d', s')"
    using assms(1) unfolding record_encode_eta
    by (auto simp: record_session_def stub_vkBeginCommandBuffer_def lazy bind_Some_iff)
  obtain d1 s1 where e: "enc_call E (record_encode (vk_C E) (EndCommandBuffer cb)) d2 s2 = Some (d1, s1)" and
    rest: "(if g_ring_enabled d1 \<and> g_ring_ready d1 \<and> g_ring_recording d1
         then map_option (\<lambda>(_, s). (VK_SUCCESS, d1\<lparr>g_ring_recording := False\<rparr>, s))
                (uk_venus_ring_cmd_flush (vk_e E) (g_ring d1) s1)
         else if g_batch_enabled d1 \<and> g_batch_recording d1
         then map_option (\<lambda>s. (VK_SUCCESS, d1\<lparr>g_batch_recording := False\<rparr>, s)) (disp_submit E (g_batch_enc d1) d1 s1)
         else Some (VK_SUCCESS, d1, s1)) = Some (r, d', s')"
    using en unfolding record_encode_eta by (auto simp: stub_vkEndCommandBuffer_def bind_Some_iff)
  have "record_all E (BeginCommandBuffer cb # ks @ [EndCommandBuffer cb]) (begin_recording d) s = Some (d1, s1)"
    using b ks e by (simp add: app)
  thus ?thesis
    by (rule that; cases "g_ring_enabled d1 \<and> g_ring_ready d1 \<and> g_ring_recording d1";
        cases "g_batch_enabled d1 \<and> g_batch_recording d1")
      (use rest in \<open>simp_all only: if_True if_False map_option_eq_Some prod.case option.inject prod.inject simp_thms, auto\<close>)
qed

lemma frame_cmds: "fits C 64 (BeginCommandBuffer cb)" "fits C 64 (EndCommandBuffer cb)"
  by (simp_all add: fits_def cmd_bytes_def record_ok_def)

lemma session_fits:
  assumes "\<forall>k\<in>set ks. fits C m k" "64 \<le> m"
  shows "\<forall>k\<in>set (BeginCommandBuffer cb # ks @ [EndCommandBuffer cb]). fits C m k"
  using assms frame_cmds[of C cb] by (auto simp: fits_def)

lemma batched_session:
  assumes "record_session E cb ks d s = Some (r, d', s')" "disp_wf d" "g_batch_enabled d" "\<not> g_ring_ready d"
    "g_ring_want d \<longrightarrow> g_ring_tried d" "disp_ctx d = Some c"
    "\<forall>k\<in>set ks. fits (vk_C E) m k" "64 \<le> m" "m \<le> 2031616"
  shows "r = VK_SUCCESS \<and> \<not> g_batch_recording d' \<and> (\<exists>ch. send_all E c ch s = Some s' \<and>
    concat ch = session_bytes (vk_C E) cb ks \<and> (\<forall>b\<in>set ch. b \<noteq> [] \<and> length b < 65536 + m))"
proof -
  let ?ks = "BeginCommandBuffer cb # ks @ [EndCommandBuffer cb]"
  from session_calls[OF assms(1,5)] obtain d1 s1 where
    ra: "record_all E ?ks (begin_recording d) s = Some (d1, s1)" and r: "r = VK_SUCCESS" and
    en: "if g_ring_enabled d1 \<and> g_ring_ready d1 \<and> g_ring_recording d1
      then \<exists>x. uk_venus_ring_cmd_flush (vk_e E) (g_ring d1) s1 = Some (x, s') \<and> d' = d1\<lparr>g_ring_recording := False\<rparr>
      else if g_batch_enabled d1 \<and> g_batch_recording d1
      then disp_submit E (g_batch_enc d1) d1 s1 = Some s' \<and> d' = d1\<lparr>g_batch_recording := False\<rparr>
      else d' = d1 \<and> s' = s1" by blast
  have "\<forall>k\<in>set ?ks. fits (vk_C E) m k" by (rule session_fits[OF assms(7,8)])
  from batched_calls[OF begin_pending[OF assms(2-6)] this assms(9) ra] obtain ch p where
    ch: "send_all E c ch s = Some s1" "concat ch @ p = session_bytes (vk_C E) cb ks" "pending_batch c d1 p"
      "\<forall>b\<in>set ch. 65536 \<le> length b \<and> length b < 65536 + m" by auto
  have w: "ve_wf (g_batch_enc d1)" "\<not> g_ring_ready d1" "uk_dispatch_batch_active d1" "disp_ctx d1 = Some c"
    "\<not> ve_overflow (g_batch_enc d1)" "ve_content (g_batch_enc d1) = p" "length p < 65536"
    using ch(3) batch_wf[of d1] by (auto simp: pending_batch_def enc_wf_def)
  have d': "disp_submit E (g_batch_enc d1) d1 s1 = Some s'" "d' = d1\<lparr>g_batch_recording := False\<rparr>"
    using en w(2,3) by (simp_all add: uk_dispatch_batch_active_def)
  let ?last = "if p = [] then [] else [p]"
  have "send_all E c ?last s1 = Some s'"
    using submit_content[OF w(4,5,1), of E s1] d'(1) w(6) by simp
  hence "send_all E c (ch @ ?last) s = Some s'" using ch(1) by (simp add: send_all_append)
  moreover have "concat (ch @ ?last) = session_bytes (vk_C E) cb ks" using ch(2) by (cases "p = []") simp_all
  moreover have "b \<noteq> [] \<and> length b < 65536 + m" if "b \<in> set (ch @ ?last)" for b
    using that bspec[OF ch(4), of b] w(7) by (cases "b \<in> set ch") (auto split: if_splits)
  ultimately have "\<exists>ch. send_all E c ch s = Some s' \<and> concat ch = session_bytes (vk_C E) cb ks \<and>
      (\<forall>b\<in>set ch. b \<noteq> [] \<and> length b < 65536 + m)"
    by (intro exI[of _ "ch @ ?last"]) blast
  thus ?thesis unfolding r d'(2) by simp
qed

lemma wire_nonempty: "cmd_bytes C k \<noteq> []"
  by (cases k) (simp_all add: cmd_bytes_def)

text \<open>A command encoded alone, outside a batch.\<close>

lemma alone_encoded:
  assumes "disp_wf d" "fits C 2031616 k"
  defines "e \<equiv> record_encode C k (static_encoder (g_enc_buf d))"
  shows "\<not> ve_overflow e" "ve_content e = cmd_bytes C k" "ve_wf e"
proof -
  have wr: "writes (record_encode C k) (record_wire C k)" using assms(2) by (rule fits_writes)
  have b: "enc_wf (static_encoder (g_enc_buf d))" using assms(1) by (intro enc_wf_static) (simp add: disp_wf_def bufs_wf_def)
  hence v: "ve_wf (static_encoder (g_enc_buf d))" by (simp add: enc_wf_def)
  have "length (concat (record_wire C k)) \<le> ve_room (static_encoder (g_enc_buf d))"
    using assms(2) by (simp add: fits_def cmd_bytes_def ve_room_def static_encoder_eq buf_size(2))
  from vs.puts_fits[OF v _ _ this] wr show "\<not> ve_overflow e" "ve_content e = cmd_bytes C k"
    by (simp_all add: e_def writes_def cmd_bytes_def static_encoder_eq ve_content_def)
  show "ve_wf e" using writes_wf[OF wr b] by (simp add: e_def enc_wf_def)
qed

lemma single_call:
  assumes "disp_wf d" "\<not> uk_dispatch_batch_active d" "\<not> g_ring_ready d" "disp_ctx d = Some c"
    "fits (vk_C E) m k" "m \<le> 2031616" "enc_call E (record_encode (vk_C E) k) d s = Some (d', s')"
  shows "send_all E c [cmd_bytes (vk_C E) k] s = Some s'"
proof -
  define e where "e = record_encode (vk_C E) k (static_encoder (g_enc_buf d))"
  have "fits (vk_C E) 2031616 k" using assms(5,6) by (simp add: fits_def)
  note e = alone_encoded[OF assms(1) this, folded e_def]
  have "\<not> uk_dispatch_ring_active d" using assms(3) by (simp add: uk_dispatch_ring_active_def)
  hence "disp_submit E e (d\<lparr>g_enc_buf := ve_buf e\<rparr>) s = Some s'"
    using assms(2,7)
    by (auto simp: enc_call_def UK_ENC_BEGIN_def UK_ENC_SUBMIT_def enc_written_def Let_def e_def)
  moreover have "disp_ctx (d\<lparr>g_enc_buf := ve_buf e\<rparr>) = Some c" using assms(4) by simp
  ultimately show ?thesis
    using submit_content[of "d\<lparr>g_enc_buf := ve_buf e\<rparr>" c e E s] e wire_nonempty by simp
qed

lemma single_calls:
  assumes "disp_wf d" "\<not> uk_dispatch_batch_active d" "\<not> g_ring_ready d" "disp_ctx d = Some c"
    "\<forall>k\<in>set ks. fits (vk_C E) m k" "m \<le> 2031616" "record_all E ks d s = Some (d', s')"
  shows "send_all E c (map (cmd_bytes (vk_C E)) ks) s = Some s' \<and> enc_frame d d'"
  using assms
proof (induction ks arbitrary: d s)
  case (Cons k ks)
  from Cons.prems(7) obtain d1 s1 where k: "enc_call E (record_encode (vk_C E) k) d s = Some (d1, s1)"
    and ks: "record_all E ks d1 s1 = Some (d', s')" by (auto simp: bind_Some_iff)
  have fk: "fits (vk_C E) m k" using Cons.prems(5) by simp
  note fr = enc_frame_keeps[OF enc_call_frame[OF k]]
  have "disp_wf d1" by (rule enc_call_wf[OF k fits_writes[OF fk] Cons.prems(1)])
  hence "send_all E c (map (cmd_bytes (vk_C E)) ks) s1 = Some s' \<and> enc_frame d1 d'"
    using Cons.prems(2-6) ks fr by (intro Cons.IH) (simp_all add: uk_dispatch_batch_active_def)
  moreover have "send_all E c [cmd_bytes (vk_C E) k] s = Some s1"
    by (rule single_call[OF Cons.prems(1-4) fk Cons.prems(6) k])
  ultimately show ?case
    using send_all_append[of E c "[cmd_bytes (vk_C E) k]" "map (cmd_bytes (vk_C E)) ks" s]
      enc_frame_trans[OF enc_call_frame[OF k]] by auto
qed simp

lemma plain_session:
  assumes "record_session E cb ks d s = Some (r, d', s')" "disp_wf d" "\<not> g_batch_enabled d" "\<not> g_ring_ready d"
    "g_ring_want d \<longrightarrow> g_ring_tried d" "disp_ctx d = Some c"
    "\<forall>k\<in>set ks. fits (vk_C E) m k" "64 \<le> m" "m \<le> 2031616"
  shows "r = VK_SUCCESS \<and> \<not> g_batch_recording d' \<and>
    send_all E c (map (cmd_bytes (vk_C E)) (BeginCommandBuffer cb # ks @ [EndCommandBuffer cb])) s = Some s'"
proof -
  let ?ks = "BeginCommandBuffer cb # ks @ [EndCommandBuffer cb]"
  have b: "begin_recording d = d" using assms(3,4) by (simp add: begin_recording_def)
  from session_calls[OF assms(1,5)] obtain d1 s1 where
    ra: "record_all E ?ks d s = Some (d1, s1)" and r: "r = VK_SUCCESS" and
    en: "if g_ring_enabled d1 \<and> g_ring_ready d1 \<and> g_ring_recording d1
      then \<exists>x. uk_venus_ring_cmd_flush (vk_e E) (g_ring d1) s1 = Some (x, s') \<and> d' = d1\<lparr>g_ring_recording := False\<rparr>
      else if g_batch_enabled d1 \<and> g_batch_recording d1
      then disp_submit E (g_batch_enc d1) d1 s1 = Some s' \<and> d' = d1\<lparr>g_batch_recording := False\<rparr>
      else d' = d1 \<and> s' = s1" unfolding b by blast
  have "\<forall>k\<in>set ?ks. fits (vk_C E) m k" by (rule session_fits[OF assms(7,8)])
  from single_calls[OF assms(2) _ assms(4,6) this assms(9) ra] assms(3)
  have s1: "send_all E c (map (cmd_bytes (vk_C E)) ?ks) s = Some s1" "enc_frame d d1"
    by (auto simp: uk_dispatch_batch_active_def)
  note fr = enc_frame_keeps[OF s1(2)]
  have "d' = d1" "s' = s1" using en assms(3,4) fr by simp_all
  moreover have "\<not> g_batch_recording d" using assms(2,3) by (simp add: disp_wf_def bufs_wf_def)
  ultimately show ?thesis using s1(1) r fr by simp
qed

end
