(* ===== verification/Vk_Stream.thy ===== *)
theory Vk_Stream
  imports Vk_Batch
begin

text \<open>
  The property of recording through SUBMIT_3D, and recording through the ring: what the queue in shared
  memory receives.
\<close>

section \<open>Recording returns\<close>

lemma ring_requests_return:
  assumes "platform_clock e"
  shows "uk_venus_submit e c enc s \<noteq> None" "uk_venus_ring_cmd_flush e ring s \<noteq> None"
  using returns_ctx(6)[OF assms]
  by (auto simp: uk_venus_submit_def uk_venus_ring_cmd_flush_def Let_def simp del: not_None_eq
      split: option.splits sum.splits)

lemma enc_call_returns: "platform_clock (vk_e E) \<Longrightarrow> enc_call E f d s \<noteq> None"
  using ring_requests_return(1)[of "vk_e E"]
  by (auto simp: enc_call_def UK_ENC_SUBMIT_def uk_dispatch_batch_accumulate_def disp_submit_def Let_def
      simp del: not_None_eq split: prod.splits)

lemma record_all_returns: "platform_clock (vk_e E) \<Longrightarrow> record_all E ks d s \<noteq> None"
proof (induction ks arbitrary: d s)
  case (Cons k ks)
  thus ?case using enc_call_returns[OF Cons.prems, of "record_encode (vk_C E) k" d s]
    by (cases "enc_call E (record_encode (vk_C E) k) d s") auto
qed simp

lemma end_cb_returns: "platform_clock (vk_e E) \<Longrightarrow> stub_vkEndCommandBuffer E cb d s \<noteq> None"
  using enc_call_returns[of E "\<lambda>enc. uk_venus_encode_vkEndCommandBuffer enc cb" d s]
    ring_requests_return[of "vk_e E"]
  by (auto simp: stub_vkEndCommandBuffer_def disp_submit_def simp del: not_None_eq split: bind_splits)

lemma session_returns:
  assumes "platform_clock (vk_e E)" "g_ring_want d \<longrightarrow> g_ring_tried d"
  obtains r d' s' where "record_session E cb ks d s = Some (r, d', s')"
proof -
  have lazy: "uk_dispatch_ring_lazy_init E d s = Some (d, s)"
    using assms(2) by (auto simp: uk_dispatch_ring_lazy_init_def)
  obtain d1 s1 where "stub_vkBeginCommandBuffer E cb d s = Some (VK_SUCCESS, d1, s1)"
    using enc_call_returns[OF assms(1), of "\<lambda>enc. uk_venus_encode_vkBeginCommandBuffer (vk_C E) enc cb" "begin_recording d" s]
    by (auto simp: stub_vkBeginCommandBuffer_def lazy)
  moreover obtain d2 s2 where "record_all E ks d1 s1 = Some (d2, s2)" using record_all_returns[OF assms(1), of ks d1 s1] by auto
  moreover obtain r d' s' where "stub_vkEndCommandBuffer E cb d2 s2 = Some (r, d', s')" using end_cb_returns[OF assms(1), of cb d2 s2] by auto
  ultimately show ?thesis by (intro that) (simp add: record_session_def)
qed

section \<open>Recording into the ring\<close>

text \<open>The specification of the ring path: a command that does not fit is skipped.\<close>

fun ring_accepts :: "nat \<Rightarrow> u8 list list \<Rightarrow> u8 list list" where
  "ring_accepts free [] = []"
| "ring_accepts free (b # bs) =
    (if length b \<le> free then b # ring_accepts (free - length b) bs else ring_accepts free bs)"

lemma accepts_all: "length (concat bs) \<le> free \<Longrightarrow> ring_accepts free bs = bs"
  by (induction free bs rule: ring_accepts.induct) auto

lemma write_prefix:
  assumes "ring_inv ring m" "unat len \<le> length bs"
  shows "uk_venus_ring_cmd_write ring (Some bs) len m = uk_venus_ring_cmd_write ring (Some (take (unat len) bs)) len m"
proof -
  let ?off = "ring_cur_tail ring AND ring_buf_mask ring" and ?n = "ring_buf_size ring"
  have "unat ?off < unat ?n" using ring_inv_mask[OF assms(1)] ring_inv_len(1)[OF assms(1)] by simp
  hence f: "unat (?n - ?off) = unat ?n - unat ?off" by (subst unat_sub) (simp_all add: word_le_nat_alt)
  have "unat (len - (?n - ?off)) + unat (?n - ?off) \<le> unat len" if "\<not> ?off + len \<le> ?n"
  proof -
    have "?n - ?off \<le> len"
    proof (rule ccontr)
      assume "\<not> ?n - ?off \<le> len"
      hence "unat len < unat ?n - unat ?off" using f by (simp add: word_le_nat_alt)
      moreover hence "unat (?off + len) = unat ?off + unat len"
        using unat_u32_less[of ?n] by (subst unat_add_small) simp_all
      ultimately show False using that by (simp add: word_le_nat_alt)
    qed
    thus ?thesis by (simp add: unat_sub word_le_nat_alt)
  qed
  hence "take (unat (len - (?n - ?off))) (drop (unat (?n - ?off)) (take (unat len) bs)) =
      take (unat (len - (?n - ?off))) (drop (unat (?n - ?off)) bs) \<and>
      take (unat (?n - ?off)) (take (unat len) bs) = take (unat (?n - ?off)) bs" if "\<not> ?off + len \<le> ?n"
    using that by (auto simp: drop_take min_def)
  thus ?thesis by (simp add: uk_venus_ring_cmd_write_def Let_def)
qed

definition ring_stream :: "disp \<Rightarrow> 'h machine sys \<Rightarrow> u8 list" where
  "ring_stream d s = pending (g_ring d) (cmem s)"

definition ring_free :: "disp \<Rightarrow> 'h machine sys \<Rightarrow> nat" where
  "ring_free d s = ring_len (g_ring d) - length (ring_stream d s)"

definition ring_recording :: "disp \<Rightarrow> 'h machine sys \<Rightarrow> bool" where
  "ring_recording d s \<longleftrightarrow> disp_wf d \<and> uk_dispatch_ring_active d \<and> ring_inv (g_ring d) (cmem s)"

lemma ring_call:
  assumes "ring_recording d s" "fits (vk_C E) 2031616 k" "enc_call E (record_encode (vk_C E) k) d s = Some (d', s')"
  shows "ring_recording d' s' \<and> (\<exists>m. s' = with_shm (\<lambda>_. m) s) \<and> ring_len (g_ring d') = ring_len (g_ring d) \<and>
    ring_stream d' s' = ring_stream d s @ concat (ring_accepts (ring_free d s) [cmd_bytes (vk_C E) k])"
proof -
  define e where "e = record_encode (vk_C E) k (static_encoder (g_enc_buf d))"
  have act: "uk_dispatch_ring_active d" "\<not> uk_dispatch_batch_active d" "disp_wf d" "ring_inv (g_ring d) (cmem s)"
    using assms(1) by (auto simp: ring_recording_def uk_dispatch_ring_active_def uk_dispatch_batch_active_def
        disp_wf_def modes_wf_def)
  have wr: "writes (record_encode (vk_C E) k) (record_wire (vk_C E) k)" using assms(2) by (rule fits_writes)
  have e: "\<not> ve_overflow e" "ve_content e = cmd_bytes (vk_C E) k" "ve_wf e"
    unfolding e_def using alone_encoded[OF act(3) assms(2)] by simp_all
  have len: "length (ve_content e) = unat (ve_pos e)" "length (ve_content e) \<le> 2031616"
    using length_content[OF e(3)] assms(2) e(2) by (simp_all add: fits_def)
  have pos: "unat (ucast (ve_pos e) :: u32) = length (cmd_bytes (vk_C E) k)"
    using len e(2) by (simp add: unsigned_ucast_eq take_bit_eq_mod)
  have tk: "take (unat (ucast (ve_pos e) :: u32)) (ve_buf e) = cmd_bytes (vk_C E) k"
    using pos e(2) len(1) by (simp add: ve_content_def)
  let ?w = "uk_venus_ring_cmd_write (g_ring d) (Some (cmd_bytes (vk_C E) k)) (ucast (ve_pos e)) (cmem s)"
  have "unat (ucast (ve_pos e) :: u32) \<le> length (ve_buf e)" using pos tk by (metis length_take min.absorb_iff2 min.commute)
  hence w: "uk_venus_ring_cmd_write (g_ring d) (Some (ve_buf e)) (ucast (ve_pos e)) (cmem s) = ?w"
    using write_prefix[OF act(4)] tk by metis
  have call: "(case ?w of (_, ring, m) \<Rightarrow> Some (d\<lparr>g_enc_buf := ve_buf e, g_ring := ring\<rparr>, with_shm (\<lambda>_. m) s)) = Some (d', s')"
    using assms(3) act(1,2) w
    by (simp add: enc_call_def UK_ENC_BEGIN_def UK_ENC_SUBMIT_def enc_written_def Let_def e_def)
  have wf': "disp_wf d'" by (rule enc_call_wf[OF assms(3) wr act(3)])
  have ract: "uk_dispatch_ring_active d'"
    using act(1) enc_frame_keeps[OF enc_call_frame[OF assms(3)]] by (simp add: uk_dispatch_ring_active_def)
  note eq = cmd_write_eq[OF act(4) pos[symmetric] wire_nonempty]
  have used: "backlog (g_ring d) (cmem s) = length (ring_stream d s)" by (simp add: ring_stream_def pending_def)
  have le: "length (ring_stream d s) \<le> ring_len (g_ring d)" using act(4) used by (simp add: ring_inv_def)
  show ?thesis
  proof (cases "length (cmd_bytes (vk_C E) k) \<le> ring_free d s")
    case True
    hence "\<not> ring_len (g_ring d) < backlog (g_ring d) (cmem s) + length (cmd_bytes (vk_C E) k)"
      using le used by (simp add: ring_free_def)
    then obtain ring m where ok: "?w = (Inr (), ring, m)" "ring = (g_ring d)\<lparr>ring_cur_tail := ring_cur_tail (g_ring d) + ucast (ve_pos e)\<rparr>"
      using eq by simp
    note spec = cmd_write_spec[OF act(4) pos[symmetric] wire_nonempty ok(1)]
    have "d' = d\<lparr>g_enc_buf := ve_buf e, g_ring := ring\<rparr>" "s' = with_shm (\<lambda>_. m) s" using call ok(1) by simp_all
    thus ?thesis using spec True wf' ract ok(2) by (auto simp: ring_recording_def ring_stream_def)
  next
    case False
    hence "ring_len (g_ring d) < backlog (g_ring d) (cmem s) + length (cmd_bytes (vk_C E) k)"
      using le used by (simp add: ring_free_def)
    hence "?w = (Inl ENOSPC, g_ring d, cmem s)" using eq by simp
    hence d': "d' = d\<lparr>g_enc_buf := ve_buf e\<rparr>" "s' = with_shm (\<lambda>_. cmem s) s" using call by simp_all
    have "ring_recording d' s'" using wf' ract act(4) by (simp add: ring_recording_def d')
    moreover have "\<exists>m. s' = with_shm (\<lambda>_. m) s" using d'(2) by blast
    ultimately show ?thesis using False d' by (simp add: ring_stream_def)
  qed
qed

lemma ring_calls:
  assumes "ring_recording d s" "\<forall>k\<in>set ks. fits (vk_C E) 2031616 k" "record_all E ks d s = Some (d', s')"
  shows "ring_recording d' s' \<and> (\<exists>m. s' = with_shm (\<lambda>_. m) s) \<and>
    ring_stream d' s' = ring_stream d s @ concat (ring_accepts (ring_free d s) (map (cmd_bytes (vk_C E)) ks))"
  using assms
proof (induction ks arbitrary: d s)
  case Nil
  thus ?case by (auto intro!: exI[of _ "cmem s"])
next
  case (Cons k ks)
  from Cons.prems(3) obtain d1 s1 where k: "enc_call E (record_encode (vk_C E) k) d s = Some (d1, s1)"
    and ks: "record_all E ks d1 s1 = Some (d', s')" by (auto simp: bind_Some_iff)
  have fk: "fits (vk_C E) 2031616 k" using Cons.prems(2) by simp
  let ?b = "cmd_bytes (vk_C E) k"
  from ring_call[OF Cons.prems(1) fk k] obtain m where
    r: "ring_recording d1 s1" "s1 = with_shm (\<lambda>_. m) s" "ring_len (g_ring d1) = ring_len (g_ring d)"
      "ring_stream d1 s1 = ring_stream d s @ concat (ring_accepts (ring_free d s) [?b])" by blast
  have fr: "ring_free d1 s1 = ring_free d s - (if length ?b \<le> ring_free d s then length ?b else 0)"
    unfolding ring_free_def[of d1 s1] r(3,4) by (simp add: ring_free_def)
  from Cons.IH[OF r(1) _ ks] Cons.prems(2) r(2) show ?case
    unfolding r(4) fr by (auto simp: fun_eq_iff)
qed

section \<open>A whole recording into the ring\<close>

lemma ring_session:
  assumes "record_session E cb ks d s = Some (r, d', s')" "disp_wf d" "g_ring_ready d" "ring_inv (g_ring d) (cmem s)"
    "\<forall>k\<in>set ks. fits (vk_C E) 2031616 k"
  defines "sent \<equiv> ring_accepts (ring_free d s) (map (cmd_bytes (vk_C E)) (BeginCommandBuffer cb # ks @ [EndCommandBuffer cb]))"
  shows "r = VK_SUCCESS \<and> \<not> g_ring_recording d' \<and> (\<exists>m x. ring_inv (g_ring d') m \<and>
    pending (g_ring d') m = pending (g_ring d) (cmem s) @ concat sent \<and>
    uk_venus_ring_cmd_flush (vk_e E) (g_ring d') (with_shm (\<lambda>_. m) s) = Some (x, s'))"
proof -
  let ?ks = "BeginCommandBuffer cb # ks @ [EndCommandBuffer cb]" and ?d = "d\<lparr>g_ring_recording := True\<rparr>"
  have flags: "g_ring_enabled d" "g_ring_want d \<longrightarrow> g_ring_tried d"
    using assms(2,3) by (simp_all add: disp_wf_def modes_wf_def)
  have b: "begin_recording d = ?d" using assms(3) flags(1) by (simp add: begin_recording_def)
  from session_calls[OF assms(1) flags(2)] obtain d1 s1 where
    ra: "record_all E ?ks ?d s = Some (d1, s1)" and r: "r = VK_SUCCESS" and
    en: "if g_ring_enabled d1 \<and> g_ring_ready d1 \<and> g_ring_recording d1
      then \<exists>x. uk_venus_ring_cmd_flush (vk_e E) (g_ring d1) s1 = Some (x, s') \<and> d' = d1\<lparr>g_ring_recording := False\<rparr>
      else if g_batch_enabled d1 \<and> g_batch_recording d1
      then disp_submit E (g_batch_enc d1) d1 s1 = Some s' \<and> d' = d1\<lparr>g_batch_recording := False\<rparr>
      else d' = d1 \<and> s' = s1" unfolding b by blast
  have rec: "ring_recording ?d s"
    using assms(2-4) flags(1) by (simp add: ring_recording_def uk_dispatch_ring_active_def)
  have "\<forall>k\<in>set ?ks. fits (vk_C E) 2031616 k" by (rule session_fits[OF assms(5)]) simp
  from ring_calls[OF rec this ra] obtain m where
    s1: "ring_recording d1 s1" "s1 = with_shm (\<lambda>_. m) s"
      "ring_stream d1 s1 = ring_stream ?d s @ concat (ring_accepts (ring_free ?d s) (map (cmd_bytes (vk_C E)) ?ks))"
    by blast
  have same: "ring_stream ?d s = pending (g_ring d) (cmem s)" "ring_free ?d s = ring_free d s"
    by (simp_all add: ring_stream_def ring_free_def)
  obtain x where fl: "uk_venus_ring_cmd_flush (vk_e E) (g_ring d1) s1 = Some (x, s')" "d' = d1\<lparr>g_ring_recording := False\<rparr>"
    using en s1(1) by (auto simp: ring_recording_def uk_dispatch_ring_active_def)
  have m: "cmem s1 = m" using s1(2) by simp
  have "ring_inv (g_ring d') m" "pending (g_ring d') m = pending (g_ring d) (cmem s) @ concat sent"
    using s1(1,3) unfolding same fl(2) sent_def m[symmetric] by (simp_all add: ring_recording_def ring_stream_def)
  thus ?thesis using fl s1(2) r by auto
qed

end
