(* ===== verification/Vk_Handles.thy ===== *)
theory Vk_Handles
  imports Vk_Steps
begin

text \<open>
  The guest assigns the object identifiers of the Venus context, and the host tears the context down on a
  duplicate.  Every entry point advances the handle counter by the number of objects it names.
\<close>

section \<open>The handle counter of an entry point\<close>

text \<open>Two flags are never cleared: the device has been created, and the ring has been tried.\<close>

abbreviation sticky :: "disp \<Rightarrow> disp \<Rightarrow> bool" where
  "sticky d d' \<equiv> (g_device_created d \<longrightarrow> g_device_created d') \<and> (g_ring_tried d \<longrightarrow> g_ring_tried d')"

abbreviation same :: "disp \<Rightarrow> disp \<Rightarrow> bool" where
  "same d d' \<equiv> g_next_handle d' = g_next_handle d \<and> sticky d d'"

abbreviation one_more :: "disp \<Rightarrow> disp \<Rightarrow> bool" where
  "one_more d d' \<equiv> g_next_handle d' = g_next_handle d + 1 \<and> sticky d d'"

definition advances :: "nat \<Rightarrow> disp \<Rightarrow> disp \<Rightarrow> bool" where
  "advances n d d' \<longleftrightarrow> (\<exists>k\<le>n. g_next_handle d' = g_next_handle d + of_nat k) \<and> sticky d d'"

lemma advances_same: "same d d' \<Longrightarrow> advances n d d'"
  unfolding advances_def by (intro conjI exI[of _ 0]) simp_all

lemma advances_one: "one_more d d' \<Longrightarrow> 0 < n \<Longrightarrow> advances n d d'"
  unfolding advances_def by (intro conjI exI[of _ 1]) simp_all

lemma advances_trans:
  assumes "advances m d d1" "advances n d1 d2" shows "advances (m + n) d d2"
proof -
  obtain j k where "j \<le> m" "k \<le> n" "g_next_handle d1 = g_next_handle d + of_nat j"
    "g_next_handle d2 = g_next_handle d1 + of_nat k" using assms by (auto simp: advances_def)
  hence "\<exists>k\<le>m + n. g_next_handle d2 = g_next_handle d + of_nat k" by (intro exI[of _ "j + k"]) simp
  thus ?thesis using assms by (auto simp: advances_def)
qed

lemma advances_Suc:
  assumes "one_more d d1" "advances n d1 d2" shows "advances (Suc n) d d2"
proof -
  have "advances 1 d d1" using assms(1) by (rule advances_one) simp
  from advances_trans[OF this assms(2)] show ?thesis by simp
qed

lemma advances_mono: "advances m d d' \<Longrightarrow> m \<le> n \<Longrightarrow> advances n d d'"
  unfolding advances_def using order_trans by blast

lemma frame_same: "enc_frame d d' \<Longrightarrow> same d d'"
  by (simp add: enc_frame_keeps)

lemmas keeps_next = frame_same[OF enc_call_frame] frame_same[OF immediate_frame]

lemma start_next:
  "uk_vulkan_init E d s = Some (r, d', s') \<Longrightarrow> same d d'"
  "uk_vulkan_shutdown E d s = Some (d', s') \<Longrightarrow> same d d'"
  "real_name_query E d s = Some (d', s') \<Longrightarrow> same d d'"
  "real_mp_query E d s = Some (d', s') \<Longrightarrow> same d d'"
  "uk_dispatch_gpu_barrier E d s = Some (d', s') \<Longrightarrow> same d d'"
  by (auto simp: uk_vulkan_init_def uk_vulkan_shutdown_def real_name_query_def real_mp_query_def Let_def
      uk_dispatch_gpu_barrier_def split: if_splits option.splits sum.splits)

lemma destroy_next: "uk_dispatch_destroy_dev_handle E fn h d s = Some (d', s') \<Longrightarrow> same d d'"
  by (auto simp: uk_dispatch_destroy_dev_handle_def dest: keeps_next)

lemma begin_next: "same d (begin_recording d)"
  by (simp add: begin_recording_def)

lemma loops_next:
  "update_infos_loop E st bi ty p k j d s = Some (d', s') \<Longrightarrow> same d d'"
  "copy_regions_loop E cb a b k r d s = Some (d', s') \<Longrightarrow> same d d'"
  "submits_loop E f k r d s = Some (d', s') \<Longrightarrow> same d d'"
  by (induction k arbitrary: j r d s) (auto simp: Let_def bind_Some_iff dest!: keeps_next split: if_splits)

lemma writes_next: "update_writes_loop E k w d s = Some (d', s') \<Longrightarrow> same d d'"
  by (induction k arbitrary: w d s) (auto simp: Let_def bind_Some_iff dest!: loops_next(1))

lemma buffers_next: "command_buffers_loop E h k q d s = Some (d', s') \<Longrightarrow> advances k d d'"
proof (induction k arbitrary: q d s)
  case (Suc k)
  then obtain d1 s1 where 1: "enc_call E (\<lambda>enc. uk_venus_encode_vkAllocateCommandBuffers (vk_C E) enc UK_H_DEVICE h 1
      [g_next_handle d]) (d\<lparr>g_next_handle := g_next_handle d + 1\<rparr>) s = Some (d1, s1)"
    and 2: "command_buffers_loop E h k (q + 8) d1 (store q (le64 (g_next_handle d)) s1) = Some (d', s')"
    by (auto simp: Let_def bind_Some_iff uk_vk_alloc_handle_def)
  show ?case using advances_Suc[OF _ Suc.IH[OF 2]] keeps_next(1)[OF 1] by simp
qed (simp add: advances_same)

lemma pipelines_next: "pipelines_loop E k p q d s = Some (d', s') \<Longrightarrow> advances k d d'"
proof (induction k arbitrary: p q d s)
  case (Suc k)
  then obtain f d1 s1 s2 where 1: "enc_call_immediate E f (d\<lparr>g_next_handle := g_next_handle d + 1\<rparr>) s = Some (d1, s1)"
    and 2: "pipelines_loop E k (p + 96) (q + 8) d1 s2 = Some (d', s')"
    by (auto simp: Let_def bind_Some_iff uk_vk_alloc_handle_def)
  show ?case using advances_Suc[OF _ Suc.IH[OF 2]] keeps_next(2)[OF 1] by simp
qed (simp add: advances_same)

lemma set_handles_next: "set_handles_loop k p d s = (hs, d', s') \<Longrightarrow> advances k d d'"
proof (induction k arbitrary: p d s hs)
  case (Suc k)
  then obtain hs' where "set_handles_loop k (p + 8) (d\<lparr>g_next_handle := g_next_handle d + 1\<rparr>)
      (store p (le64 (g_next_handle d)) s) = (hs', d', s')"
    by (auto simp: Let_def uk_vk_alloc_handle_def split: prod.splits)
  from advances_Suc[OF _ Suc.IH[OF this]] show ?case by simp
qed (simp add: advances_same)

section \<open>The handle counter of a step\<close>

lemma submit_next: "stub_vkQueueSubmit E n p f d s = Some (r, d', s') \<Longrightarrow> same d d'"
proof (erule submit_parts)
  fix d1 s1 s2 x y assume "submits_loop E f x y d s = Some (d1, s1)"
    "d' = d1\<lparr>g_last_fence := f\<rparr> \<or> d' = d1 \<or> uk_dispatch_gpu_barrier E (d1\<lparr>g_last_fence := f\<rparr>) s2 = Some (d', s')"
  thus "same d d'" using start_next(5)[of E "d1\<lparr>g_last_fence := f\<rparr>" s2 d' s'] by (auto dest!: loops_next(3))
qed

lemma lazy_next: "uk_dispatch_ring_lazy_init E d s = Some (d', s') \<Longrightarrow> same d d'"
  by (auto simp: uk_dispatch_ring_lazy_init_def Let_def split: if_splits option.splits sum.splits)

lemma begin_cb_next: "stub_vkBeginCommandBuffer E cb d s = Some (r, d', s') \<Longrightarrow> same d d'"
proof (erule begin_parts)
  fix d1 s1 f assume "uk_dispatch_ring_lazy_init E d s = Some (d1, s1)" "enc_call E f (begin_recording d1) s1 = Some (d', s')"
  from lazy_next[OF this(1)] keeps_next(1)[OF this(2)] begin_next[of d1] show "same d d'" by simp
qed

lemma end_cb_next: "stub_vkEndCommandBuffer E cb d s = Some (r, d', s') \<Longrightarrow> same d d'"
  by (erule end_parts) (auto dest!: keeps_next(1))

lemma create_one:
  "stub_vkAllocateMemory E ci p d s = Some (r, d', s') \<Longrightarrow> one_more d d'"
  "stub_vkCreateBuffer E ci p d s = Some (r, d', s') \<Longrightarrow> one_more d d'"
  "stub_vkCreateShaderModule E ci p d s = Some (r, d', s') \<Longrightarrow> one_more d d'"
  "stub_vkCreateDescriptorSetLayout E ci p d s = Some (r, d', s') \<Longrightarrow> one_more d d'"
  "stub_vkCreateDescriptorPool E ci p d s = Some (r, d', s') \<Longrightarrow> one_more d d'"
  "stub_vkCreatePipelineLayout E ci p d s = Some (r, d', s') \<Longrightarrow> one_more d d'"
  "stub_vkCreateCommandPool E p d s = Some (r, d', s') \<Longrightarrow> one_more d d'"
  "stub_vkCreateFence E ci p d s = Some (r, d', s') \<Longrightarrow> one_more d d'"
  "stub_vkCreateEvent p d s = (r, d', s') \<Longrightarrow> one_more d d'"
  "stub_vkCreateSemaphore p d s = (r, d', s') \<Longrightarrow> one_more d d'"
  "stub_vkCreateQueryPool p d s = (r, d', s') \<Longrightarrow> one_more d d'"
  by (auto simp: stub_vkAllocateMemory_def stub_vkCreateBuffer_def stub_vkCreateShaderModule_def
      stub_vkCreateDescriptorSetLayout_def stub_vkCreateDescriptorPool_def stub_vkCreatePipelineLayout_def
      stub_vkCreateCommandPool_def stub_vkCreateFence_def stub_vkCreateEvent_def stub_vkCreateSemaphore_def
      stub_vkCreateQueryPool_def uk_vk_alloc_handle_def uk_buf_size_put_def Let_def
      dest!: keeps_next split: if_splits option.splits)

lemma instance_next: "stub_vkCreateInstance E p d s = Some (r, d', s') \<Longrightarrow> same d d'"
  by (auto simp: stub_vkCreateInstance_def dest!: start_next(1) keeps_next(1) split: option.splits bool.splits)

lemma device_next: "stub_vkCreateDevice E p d s = Some (r, d', s') \<Longrightarrow> same d d'"
  by (auto simp: stub_vkCreateDevice_def Let_def dest!: keeps_next(1) split: if_splits option.splits)

lemma free_next: "stub_vkFreeMemory E mm d s = Some (d', s') \<Longrightarrow> same d d'"
  by (auto simp: stub_vkFreeMemory_def Let_def bind_Some_iff split: option.splits)

lemma create_none:
  "stub_vkEnumeratePhysicalDevices E p q d s = Some (r, d', s') \<Longrightarrow> same d d'"
  "stub_vkBindBufferMemory E b mm off d s = Some (r, d', s') \<Longrightarrow> same d d'"
  "stub_vkFreeCommandBuffers E h n p d s = Some (d', s') \<Longrightarrow> same d d'"
  "stub_vkResetFences E n p d s = Some (r, d', s') \<Longrightarrow> same d d'"
  by (auto simp: stub_vkEnumeratePhysicalDevices_def stub_vkBindBufferMemory_def stub_vkFreeCommandBuffers_def
      stub_vkResetFences_def dest!: keeps_next(1) split: if_splits)

lemma properties_next:
  "stub_vkGetPhysicalDeviceProperties E p d s = Some (d', s') \<Longrightarrow> same d d'"
  "stub_vkGetPhysicalDeviceMemoryProperties E p d s = Some (d', s') \<Longrightarrow> same d d'"
  by (auto simp: stub_vkGetPhysicalDeviceProperties_def stub_vkGetPhysicalDeviceMemoryProperties_def Let_def
      dest!: start_next split: if_splits option.splits)

lemma cmds_next:
  "stub_vkCmdBindPipeline E cb p d s = Some (d', s') \<Longrightarrow> same d d'"
  "stub_vkCmdBindDescriptorSets E cb l n p d s = Some (d', s') \<Longrightarrow> same d d'"
  "stub_vkCmdPushConstants E cb l sf off sz p d s = Some (d', s') \<Longrightarrow> same d d'"
  "stub_vkCmdDispatch E cb x y z d s = Some (d', s') \<Longrightarrow> same d d'"
  "stub_vkCmdFillBuffer E cb b off8 sz8 v d s = Some (d', s') \<Longrightarrow> same d d'"
  "stub_vkCmdPipelineBarrier E cb st dt d s = Some (d', s') \<Longrightarrow> same d d'"
  by (auto simp: stub_vkCmdBindPipeline_def stub_vkCmdBindDescriptorSets_def stub_vkCmdPushConstants_def
      stub_vkCmdDispatch_def stub_vkCmdFillBuffer_def stub_vkCmdPipelineBarrier_def dest: keeps_next)

lemma destroys_next:
  "stub_vkDestroyBuffer E h d s = Some (d', s') \<Longrightarrow> same d d'"
  "stub_vkDestroyShaderModule E h d s = Some (d', s') \<Longrightarrow> same d d'"
  "stub_vkDestroyPipelineLayout E h d s = Some (d', s') \<Longrightarrow> same d d'"
  "stub_vkDestroyPipeline E h d s = Some (d', s') \<Longrightarrow> same d d'"
  "stub_vkDestroyDescriptorSetLayout E h d s = Some (d', s') \<Longrightarrow> same d d'"
  "stub_vkDestroyDescriptorPool E h d s = Some (d', s') \<Longrightarrow> same d d'"
  "stub_vkDestroyCommandPool E h d s = Some (d', s') \<Longrightarrow> same d d'"
  by (auto simp: stub_vkDestroyBuffer_def stub_vkDestroyShaderModule_def stub_vkDestroyPipelineLayout_def
      stub_vkDestroyPipeline_def stub_vkDestroyDescriptorSetLayout_def stub_vkDestroyDescriptorPool_def
      stub_vkDestroyCommandPool_def dest: destroy_next)

lemma properties2_next:
  "stub_vkGetPhysicalDeviceProperties2 E p d s = Some (d', s') \<Longrightarrow> same d d'"
  "stub_vkGetPhysicalDeviceMemoryProperties2 E p d s = Some (d', s') \<Longrightarrow> same d d'"
  by (auto simp: stub_vkGetPhysicalDeviceProperties2_def stub_vkGetPhysicalDeviceMemoryProperties2_def
      dest: properties_next split: if_splits option.splits)

lemma update_next:
  "stub_vkUpdateDescriptorSets E n p d s = Some (d', s') \<Longrightarrow> same d d'"
  "stub_vkCmdCopyBuffer E cb a b n p d s = Some (d', s') \<Longrightarrow> same d d'"
  by (auto simp: stub_vkUpdateDescriptorSets_def stub_vkCmdCopyBuffer_def dest: writes_next loops_next)

lemma u32_count: "unat n \<le> 4294967296" for n :: u32
  using unat_u32_less[of n] by simp

lemma create_many:
  "stub_vkAllocateCommandBuffers E ai p d s = Some (r, d', s') \<Longrightarrow> advances 4294967296 d d'"
  "stub_vkCreateComputePipelines E n ci p d s = Some (r, d', s') \<Longrightarrow> advances 4294967296 d d'"
  "stub_vkAllocateDescriptorSets E ci p d s = Some (r, d', s') \<Longrightarrow> advances 4294967296 d d'"
proof -
  assume b: "stub_vkAllocateCommandBuffers E ai p d s = Some (r, d', s')"
  obtain h k q where "command_buffers_loop E h (unat (k :: u32)) q d s = Some (d', s')"
    by (rule that[of _ "if load32 (ai + 28) (cmem s) = 0 then 1 else load32 (ai + 28) (cmem s)"])
      (use b in \<open>unfold stub_vkAllocateCommandBuffers_def Let_def, auto simp only: map_option_eq_Some prod.case prod.inject\<close>)
  thus "advances 4294967296 d d'" by (rule advances_mono[OF buffers_next u32_count])
next
  show "stub_vkCreateComputePipelines E n ci p d s = Some (r, d', s') \<Longrightarrow> advances 4294967296 d d'"
    by (auto simp: stub_vkCreateComputePipelines_def dest!: pipelines_next intro: advances_mono[OF _ u32_count])
next
  assume a: "stub_vkAllocateDescriptorSets E ci p d s = Some (r, d', s')"
  then obtain n hs d1 s1 f where 1: "set_handles_loop (unat (n :: u32)) p d s = (hs, d1, s1)" and
    2: "enc_call E f d1 s1 = Some (d', s')"
    by (auto simp: stub_vkAllocateDescriptorSets_def Let_def split: prod.splits)
  have "advances (unat n + 0) d d'" by (rule advances_trans[OF set_handles_next[OF 1] advances_same[OF keeps_next(1)[OF 2]]])
  thus "advances 4294967296 d d'" using u32_count[of n] by (auto intro: advances_mono)
qed

lemmas next_same = start_next(1,2) instance_next create_none properties_next properties2_next device_next free_next
  update_next destroys_next begin_cb_next end_cb_next cmds_next submit_next

lemma step_advances:
  assumes "vk_step E c c'" "disp_wf (fst c)"
  shows "advances 4294967296 (fst c) (fst c')"
  using assms
  by cases (auto dest: next_same create_one intro: advances_same advances_one create_many)

section \<open>Runs\<close>

lemma run_advances:
  assumes "vk_run E n c c'" "disp_wf (fst c)"
  shows "advances (n * 4294967296) (fst c) (fst c')"
  using assms
proof (induction rule: vk_run.induct)
  case (Snoc n c c1 c2)
  have "advances (n * 4294967296 + 4294967296) (fst c) (fst c2)"
    using Snoc step_advances[OF Snoc.hyps(2) vk_run_wf[OF Snoc.hyps(1) Snoc.prems]] by (auto intro: advances_trans)
  thus ?case by (simp add: add.commute)
qed (simp add: advances_same)

lemma advances_unat:
  assumes "advances n d d'" "unat (g_next_handle d) + n < 2 ^ 64"
  shows "unat (g_next_handle d) \<le> unat (g_next_handle d')" "unat (g_next_handle d') \<le> unat (g_next_handle d) + n"
proof -
  obtain k where k: "k \<le> n" "g_next_handle d' = g_next_handle d + of_nat k" using assms(1) by (auto simp: advances_def)
  have "unat (of_nat k :: u64) = k" using k(1) assms(2) by (intro unat_of_nat_u64) simp
  hence "unat (g_next_handle d') = unat (g_next_handle d) + k" using k assms(2) by (simp add: unat_add_small)
  thus "unat (g_next_handle d) \<le> unat (g_next_handle d')" "unat (g_next_handle d') \<le> unat (g_next_handle d) + n"
    using k(1) by simp_all
qed

lemma first_dynamic: "unat UK_VK_HANDLE_FIRST_DYNAMIC = 562949953421568"
  by (simp add: UK_VK_HANDLE_FIRST_DYNAMIC_def UK_VK_HANDLE_BASE_def)

end
