(* ===== verification/Vk_Demo.thy ===== *)
theory Vk_Demo
  imports Vk_Stream Vk_Handles
begin

text \<open>
  A concrete machine for the dispatch: the host that answers every command, the constants of the Vulkan
  headers, a device with one open context, and a ring of 2048 bytes behind it.
\<close>

definition khronos_enums :: vk_enums where
  "khronos_enums = \<lparr> ST_MEMORY_ALLOCATE_INFO = 5, ST_BUFFER_CREATE_INFO = 12, ST_SHADER_MODULE_CREATE_INFO = 16,
     ST_PIPELINE_LAYOUT_CREATE_INFO = 30, ST_COMPUTE_PIPELINE_CREATE_INFO = 29,
     ST_PIPELINE_SHADER_STAGE_CREATE_INFO = 18, ST_DESCRIPTOR_SET_LAYOUT_CREATE_INFO = 32,
     ST_DESCRIPTOR_POOL_CREATE_INFO = 33, ST_DESCRIPTOR_SET_ALLOCATE_INFO = 34, ST_WRITE_DESCRIPTOR_SET = 35,
     ST_COMMAND_POOL_CREATE_INFO = 39, ST_COMMAND_BUFFER_ALLOCATE_INFO = 40, ST_COMMAND_BUFFER_BEGIN_INFO = 42,
     ST_FENCE_CREATE_INFO = 8, ST_SUBMIT_INFO = 4, SHARING_MODE_EXCLUSIVE = 0, SHARING_MODE_CONCURRENT = 1,
     SHADER_STAGE_COMPUTE_BIT = 0x20, PIPELINE_BIND_POINT_COMPUTE = 1, DESCRIPTOR_TYPE_STORAGE_BUFFER = 7,
     COMMAND_BUFFER_LEVEL_PRIMARY = 0, FENCE_CREATE_SIGNALED_BIT = 1, TRUE_BOOL32 = 1, NULL_HANDLE = 0 \<rparr>"

definition demo_vk :: "u8 list vk_env" where
  "demo_vk = \<lparr> vk_e = answering_machine, vk_poll = (\<lambda>h. h), vk_H = khronos, vk_C = khronos_enums,
     vk_getenv = (\<lambda>_. None), vk_probed = True, vk_staging = 0x50000000 \<rparr>"

lemma demo_vk_simps [simp]:
  "vk_e demo_vk = answering_machine" "vk_C demo_vk = khronos_enums" "vk_H demo_vk = khronos"
  "vk_staging demo_vk = 0x50000000"
  by (simp_all add: demo_vk_def)

definition demo_ctx :: uk_virtio_gpu_context where
  "demo_ctx = \<lparr> ctx_id = 1, ctx_capset_id = 4, ctx_created = True \<rparr>"

definition open_disp :: "bool \<Rightarrow> disp" where
  "open_disp batch = zero_disp\<lparr> g_gpu := True, g_ctx_set := True, g_disp_initialized := True,
     g_batch_enabled := batch,
     g_venus := zero_venus_dev\<lparr> vvd_gpu := True, vvd_ctx := demo_ctx, vvd_ctx_ready := True, vvd_opened := True \<rparr> \<rparr>"

definition ring_2048 :: uk_venus_ring where
  "ring_2048 = staged_ring\<lparr> ring_id := 7, ring_buf_size := 2048, ring_buf_mask := 2047, ring_cur_tail := 0,
     ring_protocol_ready := True \<rparr>"

definition ring_disp :: disp where
  "ring_disp = (open_disp False)\<lparr> g_ring := ring_2048, g_ring_enabled := True, g_ring_tried := True,
     g_ring_ready := True \<rparr>"

lemma open_disp_wf: "disp_wf (open_disp batch)"
proof -
  have "bufs_wf (open_disp batch)" using zero_disp_wf by (simp add: open_disp_def disp_wf_def bufs_wf_def zero_disp_def)
  moreover have "modes_wf (open_disp batch)" by (simp add: open_disp_def modes_wf_def zero_disp_def)
  moreover have "caches_wf (open_disp batch)" "tables_wf (open_disp batch)" "vring_wf (g_ring (open_disp batch))"
    using zero_disp_wf by (simp_all add: open_disp_def disp_wf_def caches_wf_def tables_wf_def)
  ultimately show ?thesis by (simp add: disp_wf_def)
qed

lemma ring_2048_wf: "vring_wf ring_2048" "ring_inv ring_2048 (\<lambda>_. 0)"
proof -
  have k: "\<exists>k<32. (2048 :: nat) = 2 ^ k" by (intro exI[of _ 11]) simp
  show "vring_wf ring_2048" using k by (simp add: vring_wf_def ring_2048_def staged_ring_def zero_ring_def)
  show "ring_inv ring_2048 (\<lambda>_. 0)"
    using k by (simp add: ring_inv_def ring_2048_def staged_ring_def backlog_def uk_venus_ring_load_head_def)
qed

lemma ring_disp_wf: "disp_wf ring_disp"
  using open_disp_wf[of False] ring_2048_wf(1)
  by (simp add: ring_disp_def disp_wf_def bufs_wf_def modes_wf_def caches_wf_def tables_wf_def open_disp_def zero_disp_def)

section \<open>The machine's clock\<close>

lemma machine_clock: "platform_clock (vk_e demo_vk)"
  by (simp add: platform_clock_def clock_advances_def answering_machine_def)

lemma demo_dispatch_fits: "fits khronos_enums 64 (CmdDispatch 2 1 1 1)"
  by (simp add: fits_def cmd_bytes_def record_ok_def)

end
