(* ===== verification/Vk_Tables.thy ===== *)
theory Vk_Tables
  imports Vk_Invariant
begin

text \<open>
  The two tables of the dispatch: the registry of buffer sizes, a circular array without a removal, and the
  table of host-visible memory that \<open>vkMapMemory\<close> reads.
\<close>

section \<open>Stores of 64 bits\<close>

lemma load64_at: "load64 (base + of_nat c) m = un64 (map (\<lambda>i. m (base + of_nat (c + i))) [0..<8])"
  by (simp add: load64_def mem_load_def add.assoc)

lemma load64_store:
  assumes "c < 2 ^ 32" "j + length bs < 2 ^ 32"
  shows "c + 8 \<le> j \<or> j + length bs \<le> c \<Longrightarrow>
      load64 (base + of_nat c) (mem_store (base + of_nat j) bs m) = load64 (base + of_nat c) m"
    and "load64 (base + of_nat c) (mem_store (base + of_nat c) (le64 v) m) = v"
proof -
  show "load64 (base + of_nat c) (mem_store (base + of_nat j) bs m) = load64 (base + of_nat c) m"
    if "c + 8 \<le> j \<or> j + length bs \<le> c"
    unfolding load64_at using assms that
    by (intro arg_cong[where f = un64] map_cong refl) (subst store_at, auto)
  have "map (\<lambda>i. mem_store (base + of_nat c) (le64 v) m (base + of_nat (c + i))) [0..<8] = le64 v"
  proof (rule nth_equalityI)
    fix i assume "i < length (map (\<lambda>i. mem_store (base + of_nat c) (le64 v) m (base + of_nat (c + i))) [0..<8])"
    hence "i < 8" by simp
    thus "map (\<lambda>i. mem_store (base + of_nat c) (le64 v) m (base + of_nat (c + i))) [0..<8] ! i = le64 v ! i"
      using assms store_at[of "c + i" c "le64 v" base m] by simp
  qed simp
  thus "load64 (base + of_nat c) (mem_store (base + of_nat c) (le64 v) m) = v" unfolding load64_at by simp
qed

lemma load64_requirements:
  "load64 p (mem_store (p + 16) (le32 a) (mem_store (p + 8) (le64 b) (mem_store p (le64 v) m))) = v"
  using load64_store(1)[of 0 16 "le32 a" p "mem_store (p + 8) (le64 b) (mem_store p (le64 v) m)"]
    load64_store(1)[of 0 8 "le64 b" p "mem_store p (le64 v) m"] load64_store(2)[of 0 0 "[]" p v m]
  by simp

section \<open>The registry of buffer sizes\<close>

text \<open>The entry of \<open>h\<close> is the one at \<open>i\<close>, and \<open>r\<close> more insertions leave it alone.\<close>

definition held :: "u64 \<Rightarrow> u64 \<Rightarrow> nat \<Rightarrow> nat \<Rightarrow> disp \<Rightarrow> bool" where
  "held h sz i r d \<longleftrightarrow> length (g_buf_size d) = UK_BUF_SIZE_MAX \<and> i < UK_BUF_SIZE_MAX \<and> r < UK_BUF_SIZE_MAX \<and>
     (g_buf_size_next d + r) mod UK_BUF_SIZE_MAX = i \<and> g_buf_size d ! i = (h, sz) \<and>
     (\<forall>j<UK_BUF_SIZE_MAX. fst (g_buf_size d ! j) = h \<longrightarrow> j = i)"

definition absent :: "u64 \<Rightarrow> disp \<Rightarrow> bool" where
  "absent h d \<longleftrightarrow> length (g_buf_size d) = UK_BUF_SIZE_MAX \<and> h \<notin> fst ` set (g_buf_size d)"

abbreviation puts_sizes :: "(u64 \<times> u64) list \<Rightarrow> disp \<Rightarrow> disp" where
  "puts_sizes ps d \<equiv> fold (\<lambda>(k, z). uk_buf_size_put k z) ps d"

lemma held_find: "held h sz i r d \<Longrightarrow> uk_buf_size_find d h = sz"
proof -
  assume "held h sz i r d"
  moreover hence "first_index (\<lambda>x. fst x = h) (g_buf_size d) = Some i"
    by (intro first_index_unique) (auto simp: held_def)
  ultimately show ?thesis by (simp add: uk_buf_size_find_def held_def)
qed

lemma absent_find: "absent h d \<Longrightarrow> uk_buf_size_find d h = 0"
proof -
  assume "absent h d"
  hence "first_index (\<lambda>x. fst x = h) (g_buf_size d) = None" by (auto simp: absent_def first_index_None)
  thus ?thesis by (simp add: uk_buf_size_find_def)
qed

lemma put_nth:
  "length (g_buf_size d) = UK_BUF_SIZE_MAX \<Longrightarrow> j < UK_BUF_SIZE_MAX \<Longrightarrow>
    g_buf_size (uk_buf_size_put k z d) ! j = (if j = g_buf_size_next d mod UK_BUF_SIZE_MAX then (k, z) else g_buf_size d ! j)"
  "length (g_buf_size (uk_buf_size_put k z d)) = length (g_buf_size d)"
  "g_buf_size_next (uk_buf_size_put k z d) = Suc (g_buf_size_next d)"
  by (auto simp: uk_buf_size_put_def nth_list_update)

lemma absent_nth: "absent h d \<longleftrightarrow> length (g_buf_size d) = UK_BUF_SIZE_MAX \<and>
    (\<forall>j<UK_BUF_SIZE_MAX. fst (g_buf_size d ! j) \<noteq> h)"
proof -
  have "h \<notin> fst ` set (g_buf_size d) \<longleftrightarrow> (\<forall>x\<in>set (g_buf_size d). fst x \<noteq> h)" by auto
  thus ?thesis by (auto simp: absent_def all_set_conv_all_nth)
qed

lemma absent_puts: "absent h d \<Longrightarrow> h \<notin> fst ` set ps \<Longrightarrow> absent h (puts_sizes ps d)"
proof (induction ps arbitrary: d)
  case (Cons p ps)
  have "absent h (uk_buf_size_put (fst p) (snd p) d)"
    using Cons.prems by (auto simp: absent_def uk_buf_size_put_def dest!: set_update_subset_insert[THEN subsetD])
  from Cons.IH[OF this] Cons.prems(2) show ?case by (simp add: case_prod_beta)
qed simp

lemma put_held:
  assumes "absent h d" shows "held h sz (g_buf_size_next d mod UK_BUF_SIZE_MAX) (UK_BUF_SIZE_MAX - 1) (uk_buf_size_put h sz d)"
proof -
  have pos: "0 < UK_BUF_SIZE_MAX" by (simp add: UK_BUF_SIZE_MAX_def)
  hence "Suc (g_buf_size_next d) + (UK_BUF_SIZE_MAX - 1) = g_buf_size_next d + UK_BUF_SIZE_MAX" by simp
  thus ?thesis using assms pos by (simp add: held_def absent_nth put_nth)
qed

lemma held_puts:
  assumes "held h sz i r d" "h \<notin> fst ` set ps"
  shows "uk_buf_size_find (puts_sizes ps d) h = (if length ps \<le> r then sz else 0)"
  using assms
proof (induction ps arbitrary: d r)
  case Nil
  thus ?case by (simp add: held_find)
next
  case (Cons p ps)
  let ?d = "uk_buf_size_put (fst p) (snd p) d"
  have h: "fst p \<noteq> h" "h \<notin> fst ` set ps" using Cons.prems(2) by auto
  have step: "puts_sizes (p # ps) d = puts_sizes ps ?d" by (cases p) simp
  show ?case
  proof (cases r)
    case 0
    hence "absent h ?d" using Cons.prems(1) h(1) by (auto simp: absent_nth held_def put_nth)
    thus ?thesis using absent_find[OF absent_puts[OF _ h(2)]] 0 unfolding step by simp
  next
    case (Suc q)
    have ne: "g_buf_size_next d mod UK_BUF_SIZE_MAX \<noteq> i"
    proof
      assume e: "g_buf_size_next d mod UK_BUF_SIZE_MAX = i"
      hence "(g_buf_size_next d + r) mod UK_BUF_SIZE_MAX = g_buf_size_next d mod UK_BUF_SIZE_MAX"
        using Cons.prems(1) by (simp add: held_def)
      hence "UK_BUF_SIZE_MAX dvd r" using mod_eq_dvd_iff_nat[of "g_buf_size_next d" "g_buf_size_next d + r"] by simp
      thus False using Suc Cons.prems(1) by (auto simp: held_def dest: dvd_imp_le)
    qed
    have "held h sz i q ?d"
      using Cons.prems(1) h(1) ne Suc by (simp add: held_def put_nth)
    from Cons.IH[OF this h(2)] Suc show ?thesis unfolding step by simp
  qed
qed

section \<open>Mapped memory\<close>

lemma staging_offset: "\<exists>k<2 ^ 28. off AND (UK_STAGING_BUF_SIZE - 1) = (of_nat k :: u64)"
proof -
  have "UK_STAGING_BUF_SIZE - 1 = mask 28" by (simp add: UK_STAGING_BUF_SIZE_def mask_eq_exp_minus_1)
  hence "off AND (UK_STAGING_BUF_SIZE - 1) = take_bit 28 off" by (simp add: take_bit_eq_mask)
  moreover have "unat (take_bit 28 off) < 2 ^ 28" unfolding unsigned_take_bit_eq by (rule take_bit_nat_less_exp)
  ultimately show ?thesis by (intro exI[of _ "unat (take_bit 28 off)"]) simp
qed

lemma found_mapped:
  assumes "disp_wf d" "uk_hv_mem_find d h = Some i"
  shows "hv_handle (g_hv_mem d ! i) = h" "hv_used (g_hv_mem d ! i)" "blob_mapped_addr (hv_blob (g_hv_mem d ! i)) \<noteq> 0"
proof -
  have i: "i < length (g_hv_mem d)" "hv_used (g_hv_mem d ! i) \<and> hv_handle (g_hv_mem d ! i) = h"
    using first_index_SomeD[OF assms(2)[unfolded uk_hv_mem_find_def]] by blast+
  thus "hv_handle (g_hv_mem d ! i) = h" "hv_used (g_hv_mem d ! i)" by simp_all
  have "g_hv_mem d ! i \<in> set (g_hv_mem d)" using i(1) by simp
  thus "blob_mapped_addr (hv_blob (g_hv_mem d ! i)) \<noteq> 0" using assms(1) i(2) by (simp add: disp_wf_def tables_wf_def)
qed

end
