(* ===== verification/Vk_Properties.thy ===== *)
theory Vk_Properties
  imports Vk_Demo Vk_Tables
begin

text \<open>
  The properties of the Vulkan dispatch: what reaches the host of a recorded command buffer, which states and
  identifiers any sequence of entry points can produce, and what the tables and the reported results say.
\<close>

section \<open>Recording\<close>

text \<open>C4 (refinement): recording a command buffer through SUBMIT_3D always returns, reports success and sends the host
  exactly the commands, from begin to end and in the order they were recorded: as one message per command,
  or, in batch mode, cut into non-empty messages below the flush threshold plus one command.  The commands may have any length up to the space that a batch leaves.\<close>

theorem recording_is_a_stream:
  assumes "platform_clock (vk_e E)" "disp_wf d" "\<not> g_ring_ready d" "g_ring_want d \<longrightarrow> g_ring_tried d"
    and "disp_ctx d = Some c" "\<forall>k\<in>set ks. fits (vk_C E) m k" "64 \<le> m" "m \<le> 2031616"
  shows "\<exists>d' s' msgs. record_session E cb ks d s = Some (VK_SUCCESS, d', s') \<and> \<not> g_batch_recording d' \<and>
    send_all E c msgs s = Some s' \<and> concat msgs = session_bytes (vk_C E) cb ks \<and>
    (if g_batch_enabled d then \<forall>b\<in>set msgs. b \<noteq> [] \<and> length b < 65536 + m
     else msgs = map (cmd_bytes (vk_C E)) (BeginCommandBuffer cb # ks @ [EndCommandBuffer cb]))"
proof -
  obtain r d' s' where rs: "record_session E cb ks d s = Some (r, d', s')"
    by (rule session_returns[OF assms(1,4)])
  show ?thesis
  proof (cases "g_batch_enabled d")
    case True
    from batched_session[OF rs assms(2) True assms(3-8)] True rs show ?thesis by auto
  next
    case False
    from plain_session[OF rs assms(2) False assms(3-8)] False rs show ?thesis by auto
  qed
qed

theorem recording_is_a_stream_witness:
  "\<exists>d' s' msgs. record_session demo_vk 2 [CmdDispatch 2 1 1 1] (open_disp True) demo_ctx_sys = Some (VK_SUCCESS, d', s') \<and>
     send_all demo_vk demo_ctx msgs demo_ctx_sys = Some s' \<and>
     concat msgs = session_bytes khronos_enums 2 [CmdDispatch 2 1 1 1]"
proof -
  have d: "\<not> g_ring_ready (open_disp True)" "\<not> g_ring_want (open_disp True)" "disp_ctx (open_disp True) = Some demo_ctx"
    by (simp_all add: open_disp_def zero_disp_def disp_ctx_def uk_vulkan_venus_ctx_def)
  have k: "\<forall>k\<in>set [CmdDispatch 2 1 1 1]. fits (vk_C demo_vk) 64 k" using demo_dispatch_fits by simp
  have w: "g_ring_want (open_disp True) \<longrightarrow> g_ring_tried (open_disp True)" using d(2) by blast
  have "(64::nat) \<le> 64" "(64::nat) \<le> 2031616" by simp_all
  from recording_is_a_stream[OF machine_clock open_disp_wf d(1) w d(3) k this, of 2 demo_ctx_sys] show ?thesis
    unfolding demo_vk_simps by blast
qed

text \<open>C13 (refinement): recording through the ring always returns and reports success; what the host can read from the
  ring grows by the recorded commands in order, whole, without those that found no room (the code ignores the
  refusal), and by all of them when they fit together; then the tail is published and the host notified.\<close>

theorem ring_recording_is_a_stream:
  assumes "platform_clock (vk_e E)" "disp_wf d" "g_ring_ready d" "ring_inv (g_ring d) (cmem s)"
    and "\<forall>k\<in>set ks. fits (vk_C E) 2031616 k"
  shows "\<exists>d' s' m x. record_session E cb ks d s = Some (VK_SUCCESS, d', s') \<and> \<not> g_ring_recording d' \<and>
    ring_inv (g_ring d') m \<and>
    pending (g_ring d') m = pending (g_ring d) (cmem s) @ concat (ring_accepts (ring_free d s)
      (map (cmd_bytes (vk_C E)) (BeginCommandBuffer cb # ks @ [EndCommandBuffer cb]))) \<and>
    (length (session_bytes (vk_C E) cb ks) \<le> ring_free d s \<longrightarrow>
       pending (g_ring d') m = pending (g_ring d) (cmem s) @ session_bytes (vk_C E) cb ks) \<and>
    uk_venus_ring_cmd_flush (vk_e E) (g_ring d') (with_shm (\<lambda>_. m) s) = Some (x, s')"
proof -
  have "g_ring_want d \<longrightarrow> g_ring_tried d" using assms(2,3) by (simp add: disp_wf_def modes_wf_def)
  then obtain r d' s' where rs: "record_session E cb ks d s = Some (r, d', s')"
    by (rule session_returns[OF assms(1)])
  from ring_session[OF rs assms(2-5)] rs show ?thesis
    using accepts_all[of "map (cmd_bytes (vk_C E)) (BeginCommandBuffer cb # ks @ [EndCommandBuffer cb])" "ring_free d s"]
    by (auto simp del: concat.simps list.map)
qed

theorem ring_recording_is_a_stream_witness:
  "\<exists>d' s' m x. record_session demo_vk 2 [CmdDispatch 2 1 1 1] ring_disp demo_ctx_sys = Some (VK_SUCCESS, d', s') \<and>
     pending (g_ring d') m = session_bytes khronos_enums 2 [CmdDispatch 2 1 1 1] \<and>
     uk_venus_ring_cmd_flush answering_machine (g_ring d') (with_shm (\<lambda>_. m) demo_ctx_sys) = Some (x, s')"
proof -
  have z: "cmem demo_ctx_sys = (\<lambda>_. 0)" by (simp add: demo_ctx_sys_def)
  have d: "g_ring_ready ring_disp" "g_ring ring_disp = ring_2048" by (simp_all add: ring_disp_def)
  have p: "pending ring_2048 (\<lambda>_. 0) = []" "ring_len ring_2048 = 2048"
    by (simp_all add: pending_def backlog_def ring_2048_def staged_ring_def uk_venus_ring_load_head_def)
  have fr: "ring_free ring_disp demo_ctx_sys = 2048" using p by (simp add: ring_free_def ring_stream_def d z)
  have l: "length (session_bytes khronos_enums 2 [CmdDispatch 2 1 1 1]) \<le> 2048" by (simp add: cmd_bytes_def)
  have k: "\<forall>k\<in>set [CmdDispatch 2 1 1 1]. fits (vk_C demo_vk) 2031616 k"
    using demo_dispatch_fits by (simp add: fits_def)
  have "ring_inv (g_ring ring_disp) (cmem demo_ctx_sys)" using ring_2048_wf(2) d(2) z by simp
  from ring_recording_is_a_stream[OF machine_clock ring_disp_wf d(1) this k, where cb = 2] p(1) l
  show ?thesis unfolding demo_vk_simps fr d(2) z by (auto simp del: concat.simps list.map)
qed

section \<open>Runs of entry points\<close>



text \<open>C16 (type): any sequence of entry points from the zeroed statics, under any host and any client memory,
  leaves the dispatch state well formed: buffers and tables keep their size, an open batch holds an encoder
  inside its buffer, the ring keeps its layout, cached replies are there when their state says so; a started
  dispatch has a device and a context, and commands never go to the ring and to the batch at once.\<close>

theorem dispatch_runs_typed:
  assumes "vk_run E n (zero_disp, s) (d, s')"
  shows "disp_wf d \<and> (if g_disp_initialized d then g_gpu d \<and> g_ctx_set d else True) \<and>
    \<not> (uk_dispatch_ring_active d \<and> uk_dispatch_batch_active d)"
proof -
  have "disp_wf d" using vk_run_wf[OF assms] zero_disp_wf by simp
  thus ?thesis
    by (auto simp: disp_wf_def modes_wf_def uk_dispatch_ring_active_def uk_dispatch_batch_active_def)
qed

theorem dispatch_runs_typed_witness:
  "\<exists>d s'. vk_run demo_vk 1 (zero_disp, demo_ctx_sys) (d, s') \<and> disp_wf d \<and>
     g_next_handle d = UK_VK_HANDLE_FIRST_DYNAMIC + 1"
proof -
  let ?d = "zero_disp\<lparr>g_next_handle := g_next_handle zero_disp + 1\<rparr>"
    and ?s = "store 8 (le64 (g_next_handle zero_disp)) demo_ctx_sys"
  have "stub_vkCreateSemaphore 8 zero_disp demo_ctx_sys = (VK_SUCCESS, ?d, ?s)"
    by (simp add: stub_vkCreateSemaphore_def uk_vk_alloc_handle_def)
  hence run: "vk_run demo_vk 1 (zero_disp, demo_ctx_sys) (?d, ?s)"
    using vk_run.Snoc[OF vk_run.Nil vk_step.Semaphore] by fastforce
  have "g_next_handle zero_disp = UK_VK_HANDLE_FIRST_DYNAMIC" by (simp add: zero_disp_def)
  thus ?thesis using run dispatch_runs_typed[OF run] by (intro exI[of _ ?d] exI[of _ ?s]) simp
qed

text \<open>C26 (safety): the device object is created on the host at most once: after one call of
  \<open>vkCreateDevice\<close> and any sequence of further entry points, a shutdown and a new start included, another
  call only returns the fixed handle and sends nothing.\<close>

theorem device_created_once:
  assumes "stub_vkCreateDevice E p d0 s0 = Some (r, d1, s1)" "disp_wf d0" "vk_run E n (d1, s1) (d2, s2)"
  shows "r = VK_SUCCESS \<and> stub_vkCreateDevice E q d2 s2 = Some (VK_SUCCESS, d2, store q (le64 UK_H_DEVICE) s2)"
proof -
  have r: "r = VK_SUCCESS" "g_device_created d1"
    using assms(1)
    by (auto simp: stub_vkCreateDevice_def Let_def dest!: enc_frame_keeps(5)[OF enc_call_frame]
        split: if_splits option.splits)
  have "disp_wf d1" using device_wf[OF assms(1,2)] .
  hence "g_device_created d2" using run_advances[OF assms(3)] r(2) by (simp add: advances_def)
  thus ?thesis using r(1) by (simp add: stub_vkCreateDevice_def)
qed

theorem device_created_once_witness:
  "\<exists>r d s. stub_vkCreateDevice demo_vk 8 zero_disp demo_ctx_sys = Some (r, d, s) \<and>
     stub_vkCreateDevice demo_vk 16 d s = Some (VK_SUCCESS, d, store 16 (le64 UK_H_DEVICE) s)"
proof -
  have "\<not> g_device_created zero_disp" "\<not> g_gpu zero_disp" by (simp_all add: zero_disp_def)
  hence "stub_vkCreateDevice demo_vk 8 zero_disp demo_ctx_sys \<noteq> None"
    using enc_call_returns[OF machine_clock] by (simp add: stub_vkCreateDevice_def)
  then obtain r d s where "stub_vkCreateDevice demo_vk 8 zero_disp demo_ctx_sys = Some (r, d, s)" by auto
  with device_created_once[OF this zero_disp_wf vk_run.Nil, of 16] show ?thesis by blast
qed

section \<open>Tables and results\<close>







text \<open>C34 (error): \<open>vkAllocateDescriptorSets\<close> names at most 32 sets, and one when the client asks for none; it
  reports success although a client that asked for more got handles for the first 32 only.\<close>

theorem descriptor_sets_truncated:
  assumes "stub_vkAllocateDescriptorSets E ai p d s = Some (r, d', s')" "ai \<noteq> 0"
  shows "r = VK_SUCCESS \<and>
    g_next_handle d' = g_next_handle d + of_nat (min 32 (max 1 (unat (load32 (ai + 24) (cmem s)))))"
proof -
  let ?c = "load32 (ai + 24) (cmem s)"
  define n where "n = (if (if ?c = 0 then 1 else ?c) > 32 then 32 else if ?c = 0 then 1 else ?c)"
  have n: "unat n = min 32 (max 1 (unat ?c))"
    using unat_gt_0[of ?c] by (auto simp: n_def min_def max_def word_less_nat_alt)
  obtain hs d1 s1 where l: "set_handles_loop (unat n) p d s = (hs, d1, s1)" by (metis prod_cases3)
  have r: "r = VK_SUCCESS" "g_next_handle d' = g_next_handle d1"
    using assms l
    by (auto simp: stub_vkAllocateDescriptorSets_def Let_def rd_u32_def n_def[symmetric]
        dest!: enc_frame_keeps(1)[OF enc_call_frame])
  have "set_handles_loop k p d s = (hs, d1, s1) \<Longrightarrow> g_next_handle d1 = g_next_handle d + of_nat k" for k
    by (induction k arbitrary: p d s hs) (auto simp: uk_vk_alloc_handle_def Let_def split: prod.splits)
  from this[OF l] r n show ?thesis by simp
qed

theorem descriptor_sets_truncated_witness:
  "\<exists>d' s'. stub_vkAllocateDescriptorSets demo_vk 8 64 zero_disp
      (store 32 (le32 100) demo_ctx_sys) = Some (VK_SUCCESS, d', s') \<and>
     g_next_handle d' = g_next_handle zero_disp + 32"
proof -
  let ?s = "store 32 (le32 100) demo_ctx_sys"
  have "stub_vkAllocateDescriptorSets demo_vk 8 64 zero_disp ?s \<noteq> None"
    using enc_call_returns[OF machine_clock] by (auto simp: stub_vkAllocateDescriptorSets_def Let_def split: prod.splits)
  then obtain r d' s' where a: "stub_vkAllocateDescriptorSets demo_vk 8 64 zero_disp ?s = Some (r, d', s')" by auto
  have "load32 32 (cmem ?s) = 100" using load32_store32[of 0 32 100] by simp
  with descriptor_sets_truncated[OF a] a show ?thesis by simp
qed

section \<open>The command stream\<close>

text \<open>A command of either group.\<close>

definition compute_encode :: "vk_enums \<Rightarrow> object_cmd + record_cmd \<Rightarrow> uk_venus_encoder \<Rightarrow> uk_venus_encoder" where
  "compute_encode C k = case_sum (object_encode C) (record_encode C) k"

definition compute_wire :: "vk_enums \<Rightarrow> object_cmd + record_cmd \<Rightarrow> u8 list list" where
  "compute_wire C k = case_sum (object_wire C) (record_wire C) k"

definition compute_ok :: "object_cmd + record_cmd \<Rightarrow> bool" where
  "compute_ok k \<longleftrightarrow> case_sum object_ok record_ok k"

definition compute_stream :: "vk_enums \<Rightarrow> (object_cmd + record_cmd) list \<Rightarrow> uk_venus_encoder \<Rightarrow> uk_venus_encoder" where
  "compute_stream C ks e = fold (compute_encode C) ks e"

abbreviation compute_chunks :: "vk_enums \<Rightarrow> (object_cmd + record_cmd) list \<Rightarrow> u8 list list" where
  "compute_chunks C ks \<equiv> concat (map (compute_wire C) ks)"

lemma compute_puts:
  assumes "\<forall>k\<in>set ks. compute_ok k"
  shows "compute_stream C ks e = vs.puts (compute_chunks C ks) e" "\<forall>c\<in>set (compute_chunks C ks). small_bytes c"
proof -
  have one: "compute_encode C k e = vs.puts (compute_wire C k) e" "\<forall>c\<in>set (compute_wire C k). small_bytes c"
    if "compute_ok k" for k e
    using that object_encode_wire record_encode_wire small_object small_record
    by (cases k; simp add: compute_encode_def compute_wire_def compute_ok_def; blast)+
  show "compute_stream C ks e = vs.puts (compute_chunks C ks) e"
    using assms one(1) unfolding compute_stream_def
    by (induction ks arbitrary: e) (simp_all add: puts_puts)
  show "\<forall>c\<in>set (compute_chunks C ks). small_bytes c" using assms one(2) by auto
qed

text \<open>C17 (refinement): encoding any sequence of object and recording commands appends exactly the bytes of the
  wire format of the commands when the encoder has room for them, and otherwise marks the encoder as
  overflown with the same stream cut before one of its fields; it never writes outside its buffer.\<close>

theorem compute_stream_refines:
  assumes "ve_wf e" "\<not> ve_overflow e" "\<forall>k\<in>set ks. compute_ok k"
  shows "ve_wf (compute_stream C ks e) \<and> ve_cap (compute_stream C ks e) = ve_cap e \<and>
    (if length (concat (compute_chunks C ks)) \<le> ve_room e
     then \<not> ve_overflow (compute_stream C ks e) \<and>
       ve_content (compute_stream C ks e) = ve_content e @ concat (compute_chunks C ks)
     else ve_overflow (compute_stream C ks e) \<and>
       (\<exists>k<length (compute_chunks C ks).
          ve_content (compute_stream C ks e) = ve_content e @ concat (take k (compute_chunks C ks))))"
proof -
  note small = compute_puts(2)[OF assms(3), of C]
  show ?thesis
    unfolding compute_puts(1)[OF assms(3)]
    using vs.puts_wf[OF assms(1) small] vs.puts_fits[OF assms(1) small assms(2)]
      vs.puts_full[OF assms(1) small assms(2)]
    by (auto simp: not_le)
qed

theorem compute_stream_refines_witness:
  "ve_overflow (compute_stream khronos_enums
     [Inl (DestroyBuffer 3 9), Inr (CmdDispatch 2 1 1 1), Inr (EndCommandBuffer 2)] demo_encoder) \<and>
   \<not> ve_overflow (compute_stream khronos_enums [Inl (DestroyBuffer 3 9), Inr (CmdDispatch 2 1 1 1)] demo_encoder)"
  using compute_stream_refines[of demo_encoder
      "[Inl (DestroyBuffer 3 9), Inr (CmdDispatch 2 1 1 1), Inr (EndCommandBuffer 2)]" khronos_enums]
    compute_stream_refines[of demo_encoder "[Inl (DestroyBuffer 3 9), Inr (CmdDispatch 2 1 1 1)]" khronos_enums]
  by (simp add: demo_encoder_wf compute_ok_def object_ok_def record_ok_def compute_wire_def)

end
