(* ===== verification/App_Kmscube.thy ===== *)
theory App_Kmscube
  imports Virgl_Encoder Venus_Ring_Api Venus_Query
begin

text \<open>
  The application \<open>app-kmscube/main.c\<close>: the client that drives the whole native stack.  It scans the
  capsets, renders three frames through a virgl context (resource, surface, clear, submission,
  presentation), optionally holds the last frame on the screen, and optionally brings a Venus ring up
  and down.  Its output is the list of verdict lines \<open>main\<close> prints; the progress lines are left out.
  A float is its 32-bit pattern, the return codes \<open>-1\<close> and \<open>-2\<close> are \<open>EOTHER 1\<close> and \<open>EOTHER 2\<close>.
  The build is the one without the fake backend.
\<close>

section \<open>Arguments, capsets and the hold\<close>

text \<open>\<open>strstr\<close>, and \<open>argv\<close> as the list of its strings (\<open>None\<close> a null pointer) with at least \<open>argc\<close> entries.\<close>

fun strstr :: "string \<Rightarrow> string \<Rightarrow> bool" where
  "strstr [] n = (n = [])"
| "strstr (c # cs) n = (take (length n) (c # cs) = n \<or> strstr cs n)"

definition argv_has :: "int \<Rightarrow> string option list option \<Rightarrow> string option \<Rightarrow> bool" where
  "argv_has argc argv needle =
    (case needle of
       None \<Rightarrow> False
     | Some n \<Rightarrow> list_ex (\<lambda>i. case argv of
           None \<Rightarrow> False
         | Some av \<Rightarrow> (case av ! i of None \<Rightarrow> False | Some a \<Rightarrow> strstr a n)) [0..<nat argc])"

text \<open>The capset scans look at no more than 8 capsets; an index whose query fails is skipped.  The
  result is the list of the capset ids that were read.\<close>

primrec capset_scan :: "'h env \<Rightarrow> nat \<Rightarrow> u32 \<Rightarrow> 'h sys \<Rightarrow> (u32 list \<times> 'h sys) option" where
  "capset_scan e 0 i s = Some ([], s)"
| "capset_scan e (Suc k) i s =
    (case uk_virtio_gpu_gl_capset_info_get e i True s of
       None \<Rightarrow> None
     | Some (Inl _, s) \<Rightarrow> capset_scan e k (i + 1) s
     | Some (Inr ci, s) \<Rightarrow> map_option (\<lambda>(ids, s). (ci_id ci # ids, s)) (capset_scan e k (i + 1) s))"

definition print_capsets :: "'h env \<Rightarrow> uk_virtio_gpu_caps \<Rightarrow> 'h sys \<Rightarrow> (u32 list \<times> 'h sys) option" where
  "print_capsets e caps s = capset_scan e (min (unat (caps_num_capsets caps)) 8) 0 s"

partial_function (option) hold_loop :: "'h env \<Rightarrow> u64 \<Rightarrow> 'h \<Rightarrow> 'h option" where
  "hold_loop e deadline h =
    (case env_now_ns e h of (t, h) \<Rightarrow> if t < deadline then hold_loop e deadline h else Some h)"

definition hold_for_qmp_screendump :: "'h env \<Rightarrow> 'h sys \<Rightarrow> 'h sys option" where
  "hold_for_qmp_screendump e s =
    (case env_now_ns e (host s) of (start, h) \<Rightarrow>
       map_option (\<lambda>h. s\<lparr>host := h\<rparr>) (hold_loop e (start + 5000000000) h))"

section \<open>The Venus ring probe\<close>

definition run_venus_ring_probe :: "'h machine env \<Rightarrow> ('h machine \<Rightarrow> 'h machine) \<Rightarrow> bool
    \<Rightarrow> 'h machine sys \<Rightarrow> ((errno + unit) \<times> uk_venus_ring \<times> 'h machine sys) option" where
  "run_venus_ring_probe e poll dev s =
    (if \<not> dev then Some (Inl (EOTHER 1), zero_ring, s)
     else case uk_venus_ring_create e zero_ring UK_VENUS_RING_DEFAULT_SIZE 0 s of
       None \<Rightarrow> None
     | Some (Inl er, ring, s) \<Rightarrow> Some (Inl er, ring, s)
     | Some (Inr _, ring, s) \<Rightarrow>
      (case uk_venus_ring_register e ring 0x766f677565000001 s of
         None \<Rightarrow> None
       | Some (Inl er, ring, s) \<Rightarrow>
           map_option (\<lambda>(ring, s). (Inl er, ring, s)) (uk_venus_ring_destroy e ring s)
       | Some (Inr _, ring, s) \<Rightarrow>
          do {
            (rc, s) \<leftarrow> uk_venus_ring_cmd_flush e ring s;
            (rc, s) \<leftarrow> (case rc of
               Inl er \<Rightarrow> Some (Inl er, s)
             | Inr _ \<Rightarrow> map_option (\<lambda>(rc, h). (rc, s\<lparr>host := h\<rparr>))
                          (uk_venus_ring_cmd_wait poll ring 100000 (host s)));
            (_, ring, s) \<leftarrow> uk_venus_ring_unregister e ring s;
            (ring, s) \<leftarrow> uk_venus_ring_destroy e ring s;
            Some (rc, ring, s)
          }))"

section \<open>The virgl render path\<close>

definition NFRAMES :: nat where "NFRAMES = 3"

text \<open>\<open>0.20f\<close>, \<open>0.40f\<close>, \<open>0.80f\<close> and \<open>1.0f\<close>\<close>

definition colours :: "(u32 \<times> u32 \<times> u32 \<times> u32) list" where
  "colours = [(0x3E4CCCCD, 0x3ECCCCCD, 0x3F4CCCCD, 0x3F800000),
              (0x3F4CCCCD, 0x3E4CCCCD, 0x3ECCCCCD, 0x3F800000),
              (0x3ECCCCCD, 0x3F4CCCCD, 0x3E4CCCCD, 0x3F800000)]"

text \<open>\<open>rc |= ...\<close> over the codes the encoders return, 0, \<open>-EINVAL\<close> and \<open>-1\<close>: the bits of \<open>-1\<close> are all set.\<close>

definition or_rc :: "errno + unit \<Rightarrow> errno + unit \<Rightarrow> errno + unit" where
  "or_rc a b = (case (a, b) of (Inr _, b) \<Rightarrow> b | (a, Inr _) \<Rightarrow> a
    | (Inl x, Inl y) \<Rightarrow> if x = y then Inl x else Inl (EOTHER 1))"

definition encode_frame :: "u32 \<Rightarrow> u32 \<Rightarrow> u32 \<times> u32 \<times> u32 \<times> u32 \<Rightarrow> uk_virgl_encoder
    \<Rightarrow> (errno + unit) \<times> uk_virgl_encoder" where
  "encode_frame f res col enc =
    (let (cr, cg, cb, ca) = col;
         (rc1, enc) = uk_virgl_encode_create_surface (Some (uk_virgl_encoder_init enc)) (f + 1) res
                        UK_VIRGL_FORMAT_B8G8R8X8_UNORM 0;
         (rc2, enc) = uk_virgl_encode_set_framebuffer enc (f + 1);
         (rc3, enc) = uk_virgl_encode_clear enc cr cg cb ca
     in (or_rc (or_rc rc1 rc2) rc3, the enc))"

text \<open>\<open>uk_virgl_encoder_buf\<close> and \<open>uk_virgl_encoder_len\<close>: the command bytes in memory order.\<close>

definition virgl_bytes :: "uk_virgl_encoder \<Rightarrow> u8 list" where
  "virgl_bytes enc = take (unat (uk_virgl_encoder_len enc)) (concat (map le32 (vg_buf enc)))"

definition frame_desc :: "u32 \<Rightarrow> u32 \<Rightarrow> uk_virtio_gpu_resource_3d" where
  "frame_desc w h = \<lparr> desc_target = UK_VIRGL_PIPE_TEXTURE_2D, desc_format = UK_VIRGL_FORMAT_B8G8R8X8_UNORM,
     desc_bind = UK_VIRGL_PIPE_BIND_RENDER_TARGET, desc_width = w, desc_height = h, desc_depth = 1,
     desc_array_size = 1, desc_last_level = 0, desc_nr_samples = 0, desc_flags = 0 \<rparr>"

definition frame_xfer :: "u32 \<Rightarrow> u32 \<Rightarrow> uk_virtio_gpu_transfer_3d" where
  "frame_xfer w h = \<lparr> x_box = \<lparr> box_x = 0, box_y = 0, box_z = 0, box_w = w, box_h = h, box_d = 1 \<rparr>,
     x_offset = 0, x_level = 0, x_stride = w * 4, x_layer_stride = 0 \<rparr>"

definition frame_rect :: "u32 \<Rightarrow> u32 \<Rightarrow> uk_gpu_rect" where
  "frame_rect w h = \<lparr> rect_x = 0, rect_y = 0, rect_w = w, rect_h = h \<rparr>"

text \<open>\<open>uk_virtio_gpu_fence_wait(dev, fence, 2000000u)\<close> on a fence variable that was 0 before the call;
  its result is not looked at.\<close>

definition wait_fence :: "u64 option \<Rightarrow> 'h sys \<Rightarrow> 'h sys" where
  "wait_fence f s = s\<lparr>vg := snd (uk_virtio_gpu_fence_wait (vg s) (case f of None \<Rightarrow> 0 | Some i \<Rightarrow> i) 2000000)\<rparr>"

text \<open>The resource, its attachment and the submission of a frame; the result is the resource.  When the
  creation reports success with the identifier 0, the exit code is \<open>-1\<close>.\<close>

definition submit_frame :: "'h env \<Rightarrow> uk_virtio_gpu_context \<Rightarrow> u32 \<Rightarrow> u32 \<Rightarrow> u32 \<Rightarrow> u32 \<times> u32 \<times> u32 \<times> u32
    \<Rightarrow> 'h sys \<Rightarrow> ((errno + u32) \<times> 'h sys) option" where
  "submit_frame e ctx w h f col s =
    (case uk_virtio_gpu_gl_resource_create_3d e (Some (frame_desc w h)) True s of
       None \<Rightarrow> None
     | Some (Inl er, s) \<Rightarrow> Some (Inl er, s)
     | Some (Inr res, s) \<Rightarrow>
        if res = 0 then Some (Inl (EOTHER 1), s)
        else case uk_virtio_gpu_gl_context_attach_resource e (Some ctx) res s of
          None \<Rightarrow> None
        | Some (Inl er, s) \<Rightarrow> Some (Inl er, s)
        | Some (Inr _, s) \<Rightarrow>
           (case encode_frame f res col fresh_virgl of
              (Inl er, _) \<Rightarrow> Some (Inl er, s)
            | (Inr _, enc) \<Rightarrow>
                if vg_overflow enc then Some (Inl (EOTHER 1), s)
                else (case uk_virtio_gpu_gl_context_submit e (Some ctx) (Some (virgl_bytes enc)) True s of
                  None \<Rightarrow> None
                | Some (Inl er, _, s) \<Rightarrow> Some (Inl er, s)
                | Some (Inr _, fence, s) \<Rightarrow> Some (Inr res, wait_fence fence s))))"

text \<open>The presentation of a frame; the results of its calls are ignored.\<close>

definition flush_frame :: "'h env \<Rightarrow> u32 \<Rightarrow> u32 \<Rightarrow> u32 \<Rightarrow> 'h sys \<Rightarrow> 'h sys option" where
  "flush_frame e w h res s = do {
     (_, fence, s) \<leftarrow> uk_virtio_gpu_resource_flush e res (Some (frame_rect w h)) True s;
     Some (wait_fence fence s)
   }"

definition present_frame :: "'h env \<Rightarrow> u32 \<Rightarrow> u32 \<Rightarrow> u32 \<Rightarrow> 'h sys \<Rightarrow> 'h sys option" where
  "present_frame e w h res s = do {
     (_, s) \<leftarrow> uk_virtio_gpu_gl_set_scanout e 0 res (Some (frame_rect w h)) s;
     (_, fence, s) \<leftarrow> uk_virtio_gpu_gl_transfer_to_host_3d e res (Some (frame_xfer w h)) True s;
     flush_frame e w h res (wait_fence fence s)
   }"

text \<open>The loop over the frames: the result is the array \<open>res\<close> (\<open>submits\<close> is its length), or the code the
  loop is left with.\<close>

fun frame_loop :: "'h env \<Rightarrow> uk_virtio_gpu_context \<Rightarrow> u32 \<Rightarrow> u32 \<Rightarrow> u32 \<Rightarrow> (u32 \<times> u32 \<times> u32 \<times> u32) list
    \<Rightarrow> 'h sys \<Rightarrow> ((errno + u32 list) \<times> 'h sys) option" where
  "frame_loop e ctx w h f [] s = Some (Inr [], s)"
| "frame_loop e ctx w h f (col # cols) s =
    (case submit_frame e ctx w h f col s of
       None \<Rightarrow> None
     | Some (Inl er, s) \<Rightarrow> Some (Inl er, s)
     | Some (Inr res, s) \<Rightarrow>
        (case present_frame e w h res s of
           None \<Rightarrow> None
         | Some s \<Rightarrow> map_option (\<lambda>(r, s). (map_sum id (\<lambda>rs. res # rs) r, s))
                      (frame_loop e ctx w h (f + 1) cols s)))"

definition hold_frame :: "'h env \<Rightarrow> u32 \<Rightarrow> u32 \<Rightarrow> u32 \<Rightarrow> 'h sys \<Rightarrow> 'h sys option" where
  "hold_frame e w h res s = do {
     (_, s) \<leftarrow> uk_virtio_gpu_gl_set_scanout e 0 res (Some (frame_rect w h)) s;
     s \<leftarrow> flush_frame e w h res s;
     hold_for_qmp_screendump e s
   }"

text \<open>\<open>"kmscube-virgl"\<close>\<close>

definition name_kmscube :: "u8 list" where
  "name_kmscube = [107, 109, 115, 99, 117, 98, 101, 45, 118, 105, 114, 103, 108]"

definition run_virgl_path :: "'h env \<Rightarrow> bool \<Rightarrow> u32 \<Rightarrow> u32 \<Rightarrow> bool \<Rightarrow> 'h sys
    \<Rightarrow> ((errno + u32) \<times> 'h sys) option" where
  "run_virgl_path e dev w h want_hold s =
    (if \<not> dev then Some (Inl (EOTHER 1), s)
     else case (case uk_virtio_gpu_gl_caps_get (vg s) True of
         Inl _ \<Rightarrow> Some ([], s)
       | Inr caps \<Rightarrow> capset_scan e (min (unat (caps_num_capsets caps)) 8) 0 s) of
       None \<Rightarrow> None
     | Some (ids, s) \<Rightarrow>
        if 1 \<notin> set ids then Some (Inl (EOTHER 2), s)
        else case uk_virtio_gpu_gl_context_create e 1 (Some name_kmscube) True s of
          None \<Rightarrow> None
        | Some (Inl er, s) \<Rightarrow> Some (Inl er, s)
        | Some (Inr ctx, s) \<Rightarrow>
           (case frame_loop e ctx w h 0 colours s of
              None \<Rightarrow> None
            | Some (Inl er, s) \<Rightarrow>
                map_option (\<lambda>(_, s). (Inl er, s)) (uk_virtio_gpu_gl_context_destroy e (Some ctx) s)
            | Some (Inr res, s) \<Rightarrow>
               do {
                 s \<leftarrow> (if want_hold then hold_frame e w h (res ! (NFRAMES - 1)) s else Some s);
                 (_, s) \<leftarrow> uk_virtio_gpu_gl_context_destroy e (Some ctx) s;
                 Some (Inr (of_nat (length res)), s)
               }))"

section \<open>The main program\<close>

text \<open>The verdict lines of \<open>main\<close> and of the ring probe; the exit code is always 0.\<close>

datatype verdict =
    BLOCKED_no_device
  | PASS_virgl u32
  | BLOCKED_virgl errno
  | PASS_ring
  | BLOCKED_ring errno

definition TARGET_W :: u32 where "TARGET_W = 640"
definition TARGET_H :: u32 where "TARGET_H = 480"

definition ring_verdict :: "errno + unit \<Rightarrow> verdict" where
  "ring_verdict r = (case r of Inl er \<Rightarrow> BLOCKED_ring er | Inr _ \<Rightarrow> PASS_ring)"

definition virgl_verdict :: "errno + u32 \<Rightarrow> verdict" where
  "virgl_verdict r = (case r of Inl er \<Rightarrow> BLOCKED_virgl er | Inr n \<Rightarrow> PASS_virgl n)"

definition kmscube_main :: "'h machine env \<Rightarrow> ('h machine \<Rightarrow> 'h machine) \<Rightarrow> bool \<Rightarrow> int
    \<Rightarrow> string option list option \<Rightarrow> 'h machine sys \<Rightarrow> (verdict list \<times> 'h machine sys) option" where
  "kmscube_main e poll gpu argc argv s =
    (let want_venus_ring = argv_has argc argv (Some ''venus_ring_test=1'');
         want_frame_hold = argv_has argc argv (Some ''frame_proof_hold=1'') in
     if \<not> gpu then Some ([BLOCKED_no_device], s)
     else do {
       s \<leftarrow> (case uk_virtio_gpu_gl_caps_get (vg s) True of
               Inl _ \<Rightarrow> Some s
             | Inr caps \<Rightarrow> map_option snd (print_capsets e caps s));
       (virgl_rc, s) \<leftarrow> run_virgl_path e gpu TARGET_W TARGET_H want_frame_hold s;
       if want_venus_ring
       then do {
         (rc, _, s) \<leftarrow> run_venus_ring_probe e poll gpu s;
         Some ([virgl_verdict virgl_rc, ring_verdict rc], s)
       }
       else Some ([virgl_verdict virgl_rc], s)
     })"

end
