(* ===== verification/App_Properties.thy ===== *)
theory App_Properties
  imports App_Kmscube Gpu_Properties
begin

text \<open>
  What the application relies on and what it achieves: every run of \<open>main\<close> returns, keeps the driver's
  invariant, and a virgl verdict of success means three acknowledged submissions from three resources
  that stay allocated.
\<close>

section \<open>A run makes a bounded number of driver calls\<close>

lemma capset_scan_host: "capset_scan e k i s = Some (ids, s') \<Longrightarrow> \<exists>h. s' = s\<lparr>host := h\<rparr>"
proof (induction k arbitrary: i s ids)
  case 0
  thus ?case by (auto intro: exI[where x = "host s"])
next
  case (Suc k)
  thus ?case by (fastforce dest!: capset_info_frame split: option.splits sum.splits)
qed

lemma wait_fence_ok: "op_ok s (wait_fence f s)"
  by (simp add: wait_fence_def fence_wait_step_ok)

lemma hold_host: "hold_for_qmp_screendump e s = Some s' \<Longrightarrow> \<exists>h. s' = s\<lparr>host := h\<rparr>"
  by (auto simp: hold_for_qmp_screendump_def split: prod.splits)

lemma one_call: "op_ok s t \<Longrightarrow> within 1 s t"
  using within_call[of s t 0] by simp

lemma submit_frame_within:
  assumes "submit_frame e ctx w h f col s = Some (r, s')" shows "within 4 s s'"
proof -
  have fin: "within 4 s (wait_fence x u)"
    if "op_ok s t" "uk_virtio_gpu_gl_context_attach_resource e (Some ctx) res t = Some (r1, v)"
      "uk_virtio_gpu_gl_context_submit e (Some ctx) bs True v = Some (r2, x, u)" for t v u x res bs r1 r2
    using within_trans[OF within_trans[OF within_trans[OF one_call[OF that(1)] ctx_ops_within(3)[OF that(2), where k = 0]]
        ctx_ops_within(5)[OF that(3), where k = 0]] one_call[OF wait_fence_ok]] by (simp add: numeral_eq_Suc)
  show ?thesis
    using assms
    by (auto simp: submit_frame_def split: option.splits sum.splits prod.splits if_splits dest!: create_3d_ok
        intro: fin) (auto simp: numeral_eq_Suc intro: within_then within_call gpu_within)
qed

lemma flush_frame_within:
  assumes "flush_frame e w h res s = Some s'" shows "within 2 s s'"
  using assms
  by (auto simp: flush_frame_def numeral_eq_Suc bind_Some_iff
      intro: within_then within_call wait_fence_ok dest!: flush_ok)

lemma present_frame_within:
  assumes "present_frame e w h res s = Some s'" shows "within 5 s s'"
proof -
  obtain r1 s1 r2 f s2 where s: "uk_virtio_gpu_gl_set_scanout e 0 res (Some (frame_rect w h)) s = Some (r1, s1)"
    "transfer_3d e res (Some (frame_xfer w h)) True CMD_TRANSFER_TO_HOST_3D s1 = Some (r2, f, s2)"
    "flush_frame e w h res (wait_fence f s2) = Some s'"
    using assms by (auto simp: present_frame_def bind_Some_iff uk_virtio_gpu_gl_transfer_to_host_3d_def)
  have "within (1 + (1 + (1 + 2))) s s'"
    using s by (intro within_trans[OF one_call[OF set_scanout_ok]] within_trans[OF one_call[OF transfer_3d_ok]]
        within_trans[OF one_call[OF wait_fence_ok]] flush_frame_within)
  thus ?thesis by (simp add: numeral_eq_Suc)
qed

lemma frame_loop_within:
  "frame_loop e ctx w h f cols s = Some (r, s') \<Longrightarrow> within (9 * length cols) s s'"
proof (induction cols arbitrary: f s r)
  case (Cons col cols)
  obtain r1 s1 where s1: "submit_frame e ctx w h f col s = Some (r1, s1)"
    using Cons.prems by (auto split: option.splits)
  note sf = submit_frame_within[OF s1]
  show ?case
  proof (cases r1)
    case (Inl er)
    thus ?thesis using Cons.prems s1 within_mono[OF sf] by simp
  next
    case (Inr res)
    then obtain s2 r2 where s2: "present_frame e w h res s1 = Some s2"
      "frame_loop e ctx w h (f + 1) cols s2 = Some (r2, s')"
      using Cons.prems s1 by (auto split: option.splits)
    have "within (4 + (5 + 9 * length cols)) s s'"
      using s2 Cons.IH by (intro within_trans[OF sf] within_trans[OF present_frame_within]) auto
    thus ?thesis by simp
  qed
qed simp

lemma hold_frame_within:
  assumes "hold_frame e w h res s = Some s'" shows "within 3 s s'"
proof -
  obtain r1 s1 s2 where s: "uk_virtio_gpu_gl_set_scanout e 0 res (Some (frame_rect w h)) s = Some (r1, s1)"
    "flush_frame e w h res s1 = Some s2" "hold_for_qmp_screendump e s2 = Some s'"
    using assms by (auto simp: hold_frame_def bind_Some_iff)
  have "within (1 + (2 + 0)) s s'"
    using s(1,2) hold_host[OF s(3)]
    by (intro within_trans[OF one_call[OF set_scanout_ok]] within_trans[OF flush_frame_within]) auto
  thus ?thesis by (simp add: numeral_eq_Suc)
qed

lemma destroy_within: "uk_virtio_gpu_gl_context_destroy e c s = Some (r, s') \<Longrightarrow> within 1 s s'"
  using ctx_ops_within(2)[where k = 0] by simp

text \<open>The stages of a run that got past the capset scan, shared by the results below.\<close>

lemma virgl_path_stages:
  assumes "run_virgl_path e True w h hold s = Some (r, s')"
  obtains (absent) hs where "r = Inl (EOTHER 2)" "s' = s\<lparr>host := hs\<rparr>"
  | (no_ctx) hs er where "uk_virtio_gpu_gl_context_create e 1 (Some name_kmscube) True (s\<lparr>host := hs\<rparr>) = Some (Inl er, s')"
      "r = Inl er"
  | (failed) hs ctx s1 s2 er rc where
      "uk_virtio_gpu_gl_context_create e 1 (Some name_kmscube) True (s\<lparr>host := hs\<rparr>) = Some (Inr ctx, s1)"
      "frame_loop e ctx w h 0 colours s1 = Some (Inl er, s2)"
      "uk_virtio_gpu_gl_context_destroy e (Some ctx) s2 = Some (rc, s')" "r = Inl er"
  | (rendered) hs ctx s1 s2 s3 res rc where
      "uk_virtio_gpu_gl_context_create e 1 (Some name_kmscube) True (s\<lparr>host := hs\<rparr>) = Some (Inr ctx, s1)"
      "frame_loop e ctx w h 0 colours s1 = Some (Inr res, s2)"
      "(if hold then hold_frame e w h (res ! (NFRAMES - 1)) s2 else Some s2) = Some s3"
      "uk_virtio_gpu_gl_context_destroy e (Some ctx) s3 = Some (rc, s')" "r = Inr (of_nat (length res))"
proof -
  obtain ids s0 where s0: "capset_scan e (min (unat (num_capsets (vg s))) 8) 0 s = Some (ids, s0)"
    using assms by (auto simp: run_virgl_path_def uk_virtio_gpu_gl_caps_get_def split: option.splits)
  then obtain hs where hs: "s0 = s\<lparr>host := hs\<rparr>" using capset_scan_host by blast
  show thesis
  proof (cases "1 \<in> set ids")
    case False
    hence "r = Inl (EOTHER 2)" "s' = s\<lparr>host := hs\<rparr>"
      using assms s0 hs by (simp_all add: run_virgl_path_def uk_virtio_gpu_gl_caps_get_def)
    thus thesis by (rule absent)
  next
    case True
    show thesis
      using assms s0 True hs
      by (auto simp: run_virgl_path_def uk_virtio_gpu_gl_caps_get_def bind_Some_iff
          split: option.splits sum.splits)
        (erule (1) no_ctx, erule (3) failed, erule (4) rendered)
  qed
qed

lemma run_virgl_path_within:
  assumes "run_virgl_path e dev w h hold s = Some (r, s')" shows "within 32 s s'"
proof (cases dev)
  case False
  thus ?thesis using assms by (simp add: run_virgl_path_def)
next
  case True
  have create: "within 1 s t"
    if "uk_virtio_gpu_gl_context_create e 1 (Some name_kmscube) True (s\<lparr>host := hs\<rparr>) = Some (x, t)" for hs x t
    using within_host_first[OF ctx_ops_within(1)[OF that, where k = 0]] by simp
  have len: "length colours = 3" by (simp add: colours_def)
  have run: "run_virgl_path e True w h hold s = Some (r, s')" using assms True by simp
  from run show ?thesis
  proof (cases rule: virgl_path_stages)
    case (no_ctx hs er)
    show ?thesis using within_mono[OF create[OF no_ctx(1)]] by simp
  next
    case (failed hs ctx s1 s2 er rc)
    have "within (1 + (27 + 1)) s s'"
      using frame_loop_within[OF failed(2)] len
      by (intro within_trans[OF create[OF failed(1)]] within_trans[OF _ destroy_within[OF failed(3)]]) simp
    thus ?thesis by (rule within_mono) simp
  next
    case (rendered hs ctx s1 s2 s3 res rc)
    have h: "within 3 s2 s3" using rendered(3) hold_frame_within by (cases hold) auto
    have "within (1 + (27 + (3 + 1))) s s'"
      using frame_loop_within[OF rendered(2)] len
      by (intro within_trans[OF create[OF rendered(1)]] within_trans[OF _ within_trans[OF h destroy_within[OF rendered(4)]]]) simp
    thus ?thesis by simp
  qed simp
qed

lemma ring_wait_host: "map_option (\<lambda>(rc, h). (rc, s\<lparr>host := h\<rparr>)) x = Some (r, s') \<Longrightarrow> within k s s'"
  by auto

lemma ring_probe_within:
  assumes "run_venus_ring_probe e poll dev s = Some (r, ring, s')" shows "within 35 s s'"
proof -
  note w = within_mono[OF _ _, of _ s s' 35]
  show ?thesis
  proof (cases "dev")
    case False
    thus ?thesis using assms by (simp add: run_venus_ring_probe_def)
  next
    case True
    obtain r1 ring1 s1 where c: "uk_venus_ring_create e zero_ring UK_VENUS_RING_DEFAULT_SIZE 0 s = Some (r1, ring1, s1)"
      using assms True by (auto simp: run_venus_ring_probe_def split: option.splits)
    note c' = ring_create_within[OF c]
    show ?thesis
    proof (cases r1)
      case (Inl er)
      thus ?thesis using assms True c c' by (auto simp: run_venus_ring_probe_def intro: within_mono)
    next
      case (Inr u)
      obtain r2 ring2 s2 where g: "uk_venus_ring_register e ring1 0x766f677565000001 s1 = Some (r2, ring2, s2)"
        using assms True c Inr by (auto simp: run_venus_ring_probe_def split: option.splits)
      note g' = within_trans[OF c' ring_register_within[OF g]]
      show ?thesis
      proof (cases r2)
        case (Inl er)
        then obtain ring3 where "uk_venus_ring_destroy e ring2 s2 = Some (ring3, s')"
          using assms True c Inr g by (auto simp: run_venus_ring_probe_def)
        from within_trans[OF g' ring_destroy_within(1)[OF this]] show ?thesis by (rule within_mono) simp
      next
        case (Inr u')
        then obtain r3 s3 r4 s4 r5 ring5 s5 ring6 where f: "uk_venus_ring_cmd_flush e ring2 s2 = Some (r3, s3)"
          and wt: "(case r3 of Inl er \<Rightarrow> Some (Inl er, s3)
             | Inr _ \<Rightarrow> map_option (\<lambda>(rc, h). (rc, s3\<lparr>host := h\<rparr>))
                          (uk_venus_ring_cmd_wait poll ring2 100000 (host s3))) = Some (r4, s4)"
          and un: "uk_venus_ring_unregister e ring2 s4 = Some (r5, ring5, s5)"
          and ds: "uk_venus_ring_destroy e ring5 s5 = Some (ring6, s')"
          using assms True c g \<open>r1 = Inr u\<close> by (auto simp: run_venus_ring_probe_def bind_Some_iff)
        have w0: "within 0 s3 s4" using wt by (cases r3) auto
        have "within (7 + 7 + (7 + (0 + (7 + 7)))) s s'"
          by (intro within_trans[OF g'] within_trans[OF ring_flush_within[OF f]] within_trans[OF w0]
              within_trans[OF ring_unregister_within[OF un]] ring_destroy_within(1)[OF ds])
        thus ?thesis by simp
      qed
    qed
  qed
qed

lemma kmscube_within:
  assumes "kmscube_main e poll gpu argc argv s = Some (out, s')" shows "within 67 s s'"
proof (cases gpu)
  case False
  thus ?thesis using assms by (simp add: kmscube_main_def)
next
  case True
  let ?ring = "argv_has argc argv (Some ''venus_ring_test=1'')"
  let ?hold = "argv_has argc argv (Some ''frame_proof_hold=1'')"
  obtain ids s1 r s2 where s1: "capset_scan e (min (unat (num_capsets (vg s))) 8) 0 s = Some (ids, s1)"
    and s2: "run_virgl_path e True TARGET_W TARGET_H ?hold s1 = Some (r, s2)"
    and rest: "?ring \<Longrightarrow> \<exists>rc ring. run_venus_ring_probe e poll True s2 = Some (rc, ring, s')"
      "\<not> ?ring \<Longrightarrow> s' = s2"
    using assms True
    by (auto simp: kmscube_main_def Let_def bind_Some_iff uk_virtio_gpu_gl_caps_get_def print_capsets_def
        split: if_splits)
  have "within 0 s s1" using capset_scan_host[OF s1] by auto
  from within_trans[OF this run_virgl_path_within[OF s2]] have v: "within 32 s s2" by simp
  show ?thesis
  proof (cases ?ring)
    case True
    then obtain rc ring where "run_venus_ring_probe e poll True s2 = Some (rc, ring, s')" using rest by blast
    from within_trans[OF v ring_probe_within[OF this]] show ?thesis by simp
  next
    case False
    thus ?thesis using rest v within_mono[of 32 s s' 67] by simp
  qed
qed

section \<open>Every run returns\<close>

text \<open>The clock of the hold: it reaches every deadline the hold can set.\<close>

inductive clock_reaches :: "'h env \<Rightarrow> u64 \<Rightarrow> 'h \<Rightarrow> bool" for e where
  reached: "env_now_ns e h = (t, h') \<Longrightarrow> \<not> t < deadline \<Longrightarrow> clock_reaches e deadline h"
| later: "env_now_ns e h = (t, h') \<Longrightarrow> clock_reaches e deadline h' \<Longrightarrow> clock_reaches e deadline h"

definition hold_ends :: "'h env \<Rightarrow> bool" where
  "hold_ends e \<longleftrightarrow> (\<forall>h t h'. env_now_ns e h = (t, h') \<longrightarrow> clock_reaches e (t + 5000000000) h')"

lemma hold_loop_returns: "clock_reaches e deadline h \<Longrightarrow> hold_loop e deadline h \<noteq> None"
proof (induction rule: clock_reaches.induct)
  case (reached h t h' deadline)
  thus ?case by (simp add: hold_loop.simps)
next
  case (later h t h' deadline)
  thus ?case by (subst hold_loop.simps) simp
qed

lemma capset_scan_returns: "platform_clock e \<Longrightarrow> capset_scan e k i s \<noteq> None"
proof (induction k arbitrary: i s)
  case (Suc k)
  thus ?case using capset_info_returns[OF Suc.prems, of i True s]
    by (auto simp del: not_None_eq split: option.splits sum.splits)
qed simp

text \<open>The operations of a run, as one bundle for the proofs below.\<close>

lemma flush_frame_returns: "platform_clock e \<Longrightarrow> flush_frame e w h res s \<noteq> None"
  using returns_2d(5)[of e res "Some (frame_rect w h)" True s]
  by (auto simp: flush_frame_def)

lemma present_frame_returns:
  assumes "platform_clock e" shows "present_frame e w h res s \<noteq> None"
proof -
  obtain r1 s1 where s1: "uk_virtio_gpu_gl_set_scanout e 0 res (Some (frame_rect w h)) s = Some (r1, s1)"
    using returns_2d(6)[OF assms] by (metis not_None_eq surj_pair)
  obtain r2 f s2 where "uk_virtio_gpu_gl_transfer_to_host_3d e res (Some (frame_xfer w h)) True s1 = Some (r2, f, s2)"
    using returns_2d(10)[OF assms] unfolding uk_virtio_gpu_gl_transfer_to_host_3d_def by (metis not_None_eq surj_pair)
  thus ?thesis using s1 flush_frame_returns[OF assms] by (simp add: present_frame_def)
qed

lemma submit_frame_returns:
  "platform_clock e \<Longrightarrow> submit_frame e ctx w h f col s \<noteq> None"
  using returns_2d(9)[of e] returns_ctx(5,6)[of e]
  by (auto simp: submit_frame_def uk_virtio_gpu_gl_context_attach_resource_def
      simp del: not_None_eq split: option.splits sum.splits prod.splits)

lemma frame_loop_returns: "platform_clock e \<Longrightarrow> frame_loop e ctx w h f cols s \<noteq> None"
  using submit_frame_returns[of e] present_frame_returns[of e]
  by (induction cols arbitrary: f s) (auto simp del: not_None_eq split: option.splits sum.splits)

lemma hold_frame_returns:
  assumes "platform_clock e" "hold_ends e" shows "hold_frame e w h res s \<noteq> None"
proof -
  obtain r1 s1 where s1: "uk_virtio_gpu_gl_set_scanout e 0 res (Some (frame_rect w h)) s = Some (r1, s1)"
    using returns_2d(6)[OF assms(1)] by (metis not_None_eq surj_pair)
  obtain s2 where s2: "flush_frame e w h res s1 = Some s2" using flush_frame_returns[OF assms(1)] by blast
  obtain t h1 where t: "env_now_ns e (host s2) = (t, h1)" by fastforce
  hence "hold_loop e (t + 5000000000) h1 \<noteq> None"
    using assms(2) by (intro hold_loop_returns) (simp add: hold_ends_def)
  thus ?thesis using s1 s2 t by (simp add: hold_frame_def hold_for_qmp_screendump_def)
qed

lemma run_virgl_path_returns:
  assumes "platform_clock e" "hold \<longrightarrow> hold_ends e" shows "run_virgl_path e dev w h hold s \<noteq> None"
  using capset_scan_returns[OF assms(1)] returns_ctx(3,4)[OF assms(1)] frame_loop_returns[OF assms(1)]
    hold_frame_returns[OF assms(1)] assms(2)
  by (auto simp: run_virgl_path_def uk_virtio_gpu_gl_caps_get_def
      simp del: not_None_eq split: option.splits sum.splits prod.splits Option.bind_splits)

lemma ring_create_returns:
  assumes "platform_clock e" shows "uk_venus_ring_create e ring sz bid s \<noteq> None"
  using returns_ctx(3,4,5)[OF assms] returns_blob(1,2)[OF assms] blob_unmap_returns[OF assms] returns_blob(3)[OF assms]
  by (auto simp: uk_venus_ring_create_def ring_map_common_def ring_err_blob_def ring_err_unmap_def Let_def
      uk_virtio_gpu_gl_caps_get_def uk_virtio_gpu_gl_context_attach_resource_def
      simp del: not_None_eq split: option.splits sum.splits prod.splits if_splits)

lemma ring_ops_return:
  assumes "platform_clock e"
  shows "uk_venus_ring_register e ring rid s \<noteq> None" "uk_venus_ring_unregister e ring s \<noteq> None"
    "uk_venus_ring_cmd_flush e ring s \<noteq> None" "uk_venus_ring_destroy e ring s \<noteq> None"
  using returns_ctx(4,5,6)[OF assms] blob_unmap_returns[OF assms] returns_blob(3)[OF assms]
  by (auto simp: uk_venus_ring_register_def uk_venus_ring_unregister_def uk_venus_ring_cmd_flush_def
      uk_venus_ring_destroy_def uk_virtio_gpu_gl_context_detach_resource_def Let_def
      simp del: not_None_eq split: option.splits sum.splits prod.splits if_splits Option.bind_splits)

lemma ring_wait_loop_returns: "t \<noteq> - 1 \<Longrightarrow> ring_wait_loop poll ring t iters h \<noteq> None"
proof (induction "unat t - unat iters" arbitrary: iters h rule: less_induct)
  case less
  show ?case
  proof (cases "t \<le> iters")
    case True
    thus ?thesis using less.prems by (subst ring_wait_loop.simps) (simp add: Let_def)
  next
    case False
    hence "unat t - unat (iters + 1) < unat t - unat iters"
      using below_plus_1[OF False] by (simp add: word_le_nat_alt)
    from less.hyps[OF this less.prems] show ?thesis by (subst ring_wait_loop.simps) (simp add: Let_def)
  qed
qed

lemma ring_wait_returns: "uk_venus_ring_cmd_wait poll ring 100000 h \<noteq> None"
  using ring_wait_loop_returns[of 100000 poll ring 0 h] by (simp add: uk_venus_ring_cmd_wait_def)

lemma ring_probe_returns:
  assumes "platform_clock e" shows "run_venus_ring_probe e poll dev s \<noteq> None"
  using ring_create_returns[OF assms] ring_ops_return[OF assms] ring_wait_returns[of poll]
  by (auto simp: run_venus_ring_probe_def
      simp del: not_None_eq split: option.splits sum.splits prod.splits Option.bind_splits)

lemma kmscube_returns:
  assumes "platform_clock e" "argv_has argc argv (Some ''frame_proof_hold=1'') \<longrightarrow> hold_ends e"
  shows "kmscube_main e poll gpu argc argv s \<noteq> None"
  using capset_scan_returns[OF assms(1)] run_virgl_path_returns[OF assms] ring_probe_returns[OF assms(1), of poll]
  by (auto simp: kmscube_main_def Let_def uk_virtio_gpu_gl_caps_get_def print_capsets_def
      simp del: not_None_eq split: option.splits Option.bind_splits if_splits)


section \<open>What a virgl verdict of success means\<close>

text \<open>An operation that leaves the resources and the count of submissions alone.\<close>

definition keeps :: "'h sys \<Rightarrow> 'h sys \<Rightarrow> bool" where
  "keeps s s' \<longleftrightarrow> resources (vg s') = resources (vg s) \<and>
     m_submits_3d (metrics (vg s')) = m_submits_3d (metrics (vg s))"

lemma keeps_trans: "keeps s t \<Longrightarrow> keeps t u \<Longrightarrow> keeps s u" by (simp add: keeps_def)

lemma keeps_host [simp]: "keeps s (s\<lparr>host := h\<rparr>)" "keeps s s" by (simp_all add: keeps_def)

lemma keeps_find: "keeps s s' \<Longrightarrow> find_res (vg s') k = find_res (vg s) k"
  by (simp add: keeps_def find_res_def)

lemma keeps_ops:
  "keeps s (wait_fence f s)"
  "uk_virtio_gpu_gl_context_attach_resource e c res s = Some (r, s') \<Longrightarrow> keeps s s'"
  "uk_virtio_gpu_gl_set_scanout e sc res rect s = Some (r, s') \<Longrightarrow> keeps s s'"
  "uk_virtio_gpu_resource_flush e res rect b s = Some (r, g, s') \<Longrightarrow> keeps s s'"
  "uk_virtio_gpu_gl_transfer_to_host_3d e res x b s = Some (r, g, s') \<Longrightarrow> keeps s s'"
  "uk_virtio_gpu_gl_context_create e cid nm out s = Some (rc, s') \<Longrightarrow> keeps s s'"
  "uk_virtio_gpu_gl_context_destroy e c s = Some (rc, s') \<Longrightarrow> keeps s s'"
  by (auto simp: keeps_def wait_fence_def uk_virtio_gpu_fence_wait_def
      uk_virtio_gpu_gl_context_attach_resource_def ctx_resource_def uk_virtio_gpu_gl_set_scanout_def
      uk_virtio_gpu_resource_flush_def uk_virtio_gpu_gl_transfer_to_host_3d_def transfer_3d_def
      uk_virtio_gpu_gl_context_create_def uk_virtio_gpu_gl_context_destroy_def hdr_init_def Let_def
      alloc_ctx_frame ctx_upd_def
      dest!: cq.no_fence cq.frame has_capset_frame split: if_splits option.splits sum.splits bool.splits prod.splits)

lemma submit_counts:
  assumes "uk_virtio_gpu_gl_context_submit e c cmd fe s = Some (Inr u, f, s')"
  shows "resources (vg s') = resources (vg s) \<and>
    m_submits_3d (metrics (vg s')) = m_submits_3d (metrics (vg s)) + 1"
  using assms
  by (auto simp: uk_virtio_gpu_gl_context_submit_def hdr_init_def Let_def
      dest!: cq.no_fence cq.frame split: if_splits option.splits sum.splits bool.splits prod.splits)

lemma wait_fence_simps [simp]:
  "resources (vg (wait_fence f s)) = resources (vg s)"
  "m_submits_3d (metrics (vg (wait_fence f s))) = m_submits_3d (metrics (vg s))"
  using keeps_ops(1)[of s f] by (simp_all add: keeps_def)

lemma flush_frame_keeps: "flush_frame e w h res s = Some s' \<Longrightarrow> keeps s s'"
  by (auto simp: flush_frame_def bind_Some_iff keeps_def dest!: keeps_ops(4))

lemma present_frame_keeps: "present_frame e w h res s = Some s' \<Longrightarrow> keeps s s'"
  by (auto simp: present_frame_def bind_Some_iff keeps_def dest!: keeps_ops(3,5) flush_frame_keeps)

lemma hold_frame_keeps: "hold_frame e w h res s = Some s' \<Longrightarrow> keeps s s'"
  by (auto simp: hold_frame_def bind_Some_iff keeps_def dest!: hold_host keeps_ops(3) flush_frame_keeps)

lemma create_3d_registers:
  assumes "uk_virtio_gpu_gl_resource_create_3d e (Some dsc) True s = Some (Inr rid, s')"
    and "dev_inv (vg s)" "room (vg s)"
  shows "rid \<noteq> 0 \<and> find_res (vg s) rid = None \<and>
    (\<exists>i. find_res (vg s') rid = Some i \<and>
       (let r = resources (vg s') ! i in r_is_3d r \<and> r_width r = desc_width dsc \<and> r_height r = desc_height dsc)) \<and>
    (\<forall>k i. find_res (vg s) k = Some i \<longrightarrow> find_res (vg s') k = Some i \<and> resources (vg s') ! i = resources (vg s) ! i) \<and>
    m_submits_3d (metrics (vg s')) = m_submits_3d (metrics (vg s))"
proof -
  obtain i d0 where a: "alloc_res (vg s) = Some (i, d0)"
    using assms(1) by (auto simp: uk_virtio_gpu_gl_resource_create_3d_def split: if_splits option.splits)
  let ?f = "\<lambda>r :: ukvgpu_resource_state. r\<lparr>r_is_3d := True, r_width := desc_width dsc,
    r_height := desc_height dsc, r_depth := desc_depth dsc, r_format := desc_format dsc,
    r_size := resource_size_bytes (desc_width dsc) (desc_height dsc) (desc_depth dsc)\<rparr>"
  have s': "rid = next_res (vg s)" "vg s' = res_upd i ?f d0"
    using assms(1) a
    by (auto simp: uk_virtio_gpu_gl_resource_create_3d_def Let_def alloc_res_frame
        dest!: cq.no_fence split: if_splits option.splits sum.splits)
  have nr: "next_res (vg s) + 1 \<noteq> 0" using assms(3) by (simp add: room_def)
  note f = alloc_res_fresh[OF a assms(2) nr]
  note al = alloc_res_SomeD[OF a]
  have same: "find_res (res_upd i ?f d0) k = find_res d0 k" for k
    by (rule find_res_res_upd) simp
  have old: "k \<noteq> next_res (vg s) \<and> j \<noteq> i" if "find_res (vg s) k = Some j" for k j
    using that f(2) al(2) find_res_SomeD[OF that] by auto
  have rest: "resources (res_upd i ?f d0) ! j = resources (vg s) ! j" if "find_res (vg s) k = Some j" for k j
    using old[OF that] al(3) by (auto simp: res_upd_def)
  have i: "i < length (resources d0)" using al(1) by (simp add: alloc_res_frame[OF a])
  show ?thesis
    unfolding s' same
  proof (intro conjI allI impI)
    show "\<exists>j. find_res d0 (next_res (vg s)) = Some j \<and> (let r = resources (res_upd i ?f d0) ! j in
        r_is_3d r \<and> r_width r = desc_width dsc \<and> r_height r = desc_height dsc)"
      using f(3) i by (simp add: res_upd_def)
    show "m_submits_3d (metrics (res_upd i ?f d0)) = m_submits_3d (metrics (vg s))"
      using al(3) by (simp add: res_upd_def)
  qed (use f old rest in auto)
qed

text \<open>A live 3D resource of the given size, and lookups that survive.\<close>

definition frame_resource :: "u32 \<Rightarrow> u32 \<Rightarrow> uk_virtio_gpu_dev \<Rightarrow> u32 \<Rightarrow> bool" where
  "frame_resource w h d rid \<longleftrightarrow>
    (\<exists>i. find_res d rid = Some i \<and> r_is_3d (resources d ! i) \<and>
       r_width (resources d ! i) = w \<and> r_height (resources d ! i) = h)"

definition lookups_survive :: "uk_virtio_gpu_dev \<Rightarrow> uk_virtio_gpu_dev \<Rightarrow> bool" where
  "lookups_survive d d' \<longleftrightarrow>
    (\<forall>k i. find_res d k = Some i \<longrightarrow> find_res d' k = Some i \<and> resources d' ! i = resources d ! i)"

lemma survive_trans: "lookups_survive d d' \<Longrightarrow> lookups_survive d' d'' \<Longrightarrow> lookups_survive d d''"
  unfolding lookups_survive_def by metis

lemma keeps_survive: "keeps s s' \<Longrightarrow> lookups_survive (vg s) (vg s')"
  using keeps_find[of s s'] by (simp add: lookups_survive_def keeps_def)

lemma frame_resource_survives: "lookups_survive d d' \<Longrightarrow> frame_resource w h d r \<Longrightarrow> frame_resource w h d' r"
  unfolding lookups_survive_def frame_resource_def by metis

lemma survive_fresh: "lookups_survive d d' \<Longrightarrow> find_res d' k = None \<Longrightarrow> find_res d k = None"
  unfolding lookups_survive_def by (cases "find_res d k") auto

lemma submit_frame_result:
  assumes "submit_frame e ctx w h f col s = Some (Inr rid, s')" "dev_inv (vg s)" "room (vg s)"
  shows "find_res (vg s) rid = None \<and> frame_resource w h (vg s') rid \<and> lookups_survive (vg s) (vg s') \<and>
    m_submits_3d (metrics (vg s')) = m_submits_3d (metrics (vg s)) + 1"
proof -
  obtain s1 s2 enc fence s3 where s1: "uk_virtio_gpu_gl_resource_create_3d e (Some (frame_desc w h)) True s = Some (Inr rid, s1)"
    and s2: "uk_virtio_gpu_gl_context_attach_resource e (Some ctx) rid s1 = Some (Inr (), s2)"
    and s3: "uk_virtio_gpu_gl_context_submit e (Some ctx) (Some (virgl_bytes enc)) True s2 = Some (Inr (), fence, s3)"
    and s': "s' = wait_fence fence s3"
    using assms(1) by (auto simp: submit_frame_def split: option.splits sum.splits if_splits prod.splits)
  have r: "resources (vg s') = resources (vg s1)"
    "m_submits_3d (metrics (vg s')) = m_submits_3d (metrics (vg s1)) + 1"
    using submit_counts[OF s3] keeps_ops(2)[OF s2] by (simp_all add: s' keeps_def)
  hence "find_res (vg s') k = find_res (vg s1) k" for k by (simp add: find_res_def)
  thus ?thesis
    using create_3d_registers[OF s1 assms(2,3)] r
    by (auto simp: frame_resource_def lookups_survive_def frame_desc_def Let_def)
qed

lemma frame_loop_result:
  assumes "frame_loop e ctx w h f cols s = Some (Inr res, s')" "dev_inv (vg s)" "counters_below n (vg s)"
    "n + 9 * length cols < 2 ^ 32"
  shows "length res = length cols \<and> distinct res \<and>
    (\<forall>r\<in>set res. find_res (vg s) r = None \<and> frame_resource w h (vg s') r) \<and> lookups_survive (vg s) (vg s') \<and>
    m_submits_3d (metrics (vg s')) = m_submits_3d (metrics (vg s)) + of_nat (length cols)"
  using assms
proof (induction cols arbitrary: f s n res)
  case Nil
  thus ?case by (simp add: lookups_survive_def)
next
  case (Cons col cols)
  obtain rid s1 s2 r where s1: "submit_frame e ctx w h f col s = Some (Inr rid, s1)"
    and s2: "present_frame e w h rid s1 = Some s2"
    and r: "frame_loop e ctx w h (f + 1) cols s2 = Some (r, s')" "map_sum id (\<lambda>rs. rid # rs) r = Inr res"
    using Cons.prems(1) by (auto split: option.splits sum.splits)
  obtain rs where rest: "frame_loop e ctx w h (f + 1) cols s2 = Some (Inr rs, s')" and res: "res = rid # rs"
    using r by (cases r) auto
  have room: "room (vg s)" using counters_room[OF Cons.prems(3)] Cons.prems(4) by simp
  have w9: "within (4 + 5) s s2" by (rule within_trans[OF submit_frame_within[OF s1] present_frame_within[OF s2]])
  have i9: "dev_inv (vg s2) \<and> counters_below (n + (4 + 5)) (vg s2) \<and> g_ctrlq_lock s2 = g_ctrlq_lock s"
    using Cons.prems(4) by (intro within_inv[OF w9 Cons.prems(2,3)]) simp
  have inv: "dev_inv (vg s2)" "counters_below (n + 9) (vg s2)" using i9 by simp_all
  have "n + 9 + 9 * length cols < 2 ^ 32" using Cons.prems(4) by simp
  note IH = Cons.IH[OF rest inv this]
  note fr = submit_frame_result[OF s1 Cons.prems(2) room]
  have k: "keeps s1 s2" by (rule present_frame_keeps[OF s2])
  note sv = keeps_survive[OF k]
  have fr2: "frame_resource w h (vg s2) rid" using frame_resource_survives[OF sv] fr by blast
  hence "rid \<notin> set rs" using IH unfolding frame_resource_def by force
  moreover have "find_res (vg s) r = None" if "r \<in> set rs" for r
    using that IH survive_fresh[OF sv] survive_fresh[of "vg s" "vg s1"] fr by blast
  moreover have "frame_resource w h (vg s') rid" using IH frame_resource_survives[OF _ fr2] by blast
  moreover have "lookups_survive (vg s) (vg s')" using fr sv IH survive_trans by blast
  moreover have "m_submits_3d (metrics (vg s')) = m_submits_3d (metrics (vg s)) + of_nat (length (col # cols))"
    using IH fr k by (simp add: keeps_def)
  ultimately show ?case using IH fr res by auto
qed

text \<open>C39 (functional): a virgl verdict of success means that the host acknowledged exactly three command
  streams, and that the run leaves three new 3D resources of the frame's size allocated on the device:
  no error path and no end of the program gives them back.\<close>

theorem virgl_pass_means:
  assumes "run_virgl_path e True w h hold s = Some (Inr n, s')"
    and "dev_inv (vg s)" "counters_below m (vg s)" "m + 32 < 2 ^ 32"
  shows "n = 3 \<and> m_submits_3d (metrics (vg s')) = m_submits_3d (metrics (vg s)) + 3 \<and>
    (\<exists>res. length res = 3 \<and> distinct res \<and>
      (\<forall>r\<in>set res. find_res (vg s) r = None \<and> frame_resource w h (vg s') r))"
  using assms(1)
proof (cases rule: virgl_path_stages)
  case (rendered hs ctx s1 s2 s3 res rc)
  have k1: "keeps s s1" using keeps_ops(6)[OF rendered(1)] by (simp add: keeps_def)
  have w1: "within 1 s s1"
    using within_host_first[OF ctx_ops_within(1)[OF rendered(1), where k = 0]] by simp
  have inv: "dev_inv (vg s1)" "counters_below (m + 1) (vg s1)"
    using within_inv[OF w1 assms(2,3)] assms(4) by simp_all
  have len: "length colours = 3" by (simp add: colours_def)
  note L = frame_loop_result[OF rendered(2) inv, unfolded len]
  have k2: "keeps s2 s3" using rendered(3) hold_frame_keeps by (cases hold) auto
  have k3: "keeps s2 s'" using k2 keeps_ops(7)[OF rendered(4)] by (rule keeps_trans)
  have "length res = 3" using L assms(4) by simp
  moreover have "\<forall>r\<in>set res. find_res (vg s) r = None \<and> frame_resource w h (vg s') r"
    using L assms(4) frame_resource_survives[OF keeps_survive[OF k3]] survive_fresh[OF keeps_survive[OF k1]] by simp
  ultimately show ?thesis using L assms(4) k1 k3 rendered(5) by (auto simp: keeps_def)
qed simp_all

end
