(* ===== verification/App_Demo.thy ===== *)
theory App_Demo
  imports App_Properties Venus_Driver
begin

text \<open>
  A run of the application on a concrete platform: a host with one capset, virgl, that acknowledges
  every command, and a clock that alternates between its first and its last value.
\<close>

section \<open>The platform\<close>

text \<open>The host remembers the last request; the flag is the clock.\<close>

definition virgl_host :: "(u8 list \<times> bool) machine env" where
  "virgl_host = \<lparr> env_sg_append = (\<lambda>_ _ h. (None, h)),
     env_vq_enqueue = (\<lambda>req _ h. (None, h\<lparr>link := (req, snd (link h))\<rparr>)), env_vq_notify = (\<lambda>h. h),
     env_vq_dequeue = (\<lambda>h. (VqDone True 40 (le32 (ok_reply (un32 (fst (link h)))) @ drop 4 (take 24 (fst (link h))) @ le32 1), h)),
     env_now_ns = (\<lambda>h. (if snd (link h) then - 1 else 0, h\<lparr>link := (fst (link h), \<not> snd (link h))\<rparr>)),
     env_malloc = (\<lambda>_ h. (True, h)), env_free = (\<lambda>h. h) \<rparr>"

lemma virgl_now: "env_now_ns virgl_host h =
    (if snd (link h) then - 1 else 0, h\<lparr>link := (fst (link h), \<not> snd (link h))\<rparr>)"
  by (simp add: virgl_host_def)

lemma virgl_late: "snd (link h) \<Longrightarrow> clock_reaches virgl_host d h"
  by (rule reached[OF virgl_now]) (simp add: not_less word_n1_ge)

lemma virgl_dequeue: "\<exists>u b. env_vq_dequeue virgl_host h = (VqDone True u b, h)"
  by (simp add: virgl_host_def)

lemma virgl_clock: "platform_clock virgl_host" "hold_ends virgl_host"
proof -
  have "env_vq_dequeue virgl_host h \<noteq> (VqEmpty, h1)" for h h1 using virgl_dequeue[of h] by auto
  thus "platform_clock virgl_host" unfolding platform_clock_def clock_advances_def by blast
  have "clock_reaches virgl_host d h" for d h
  proof (cases "snd (link h)")
    case False
    show ?thesis by (rule later[OF virgl_now virgl_late]) (simp add: False)
  qed (rule virgl_late)
  thus "hold_ends virgl_host" by (simp add: hold_ends_def)
qed

definition virgl_answer :: "u8 list \<Rightarrow> nat \<Rightarrow> u8 list" where
  "virgl_answer req n = take n ((le32 (ok_reply (un32 req)) @ drop 4 (take 24 req) @ le32 1) @ replicate n 0)"

lemma virgl_answered:
  assumes "ctrlq (vg s)" "24 \<le> n" "ok_reply (hdr_type h) = ex" "gpu_resp_errno ex = None"
  shows "cmd_submit virgl_host (enc_ctrl_hdr h @ rest) n ex f s =
    Some (Inr (virgl_answer (enc_ctrl_hdr h @ rest) n),
      s\<lparr>vg := echo_fence h f (vg s),
        host := (host s)\<lparr>link := (enc_ctrl_hdr h @ rest, \<not> snd (link (host s)))\<rparr>\<rparr>)"
proof -
  let ?req = "enc_ctrl_hdr h @ rest"
  have ne: "?req \<noteq> []" "n \<noteq> 0"
    using length_enc_ctrl_hdr[of h] assms(2) by (auto simp del: length_enc_ctrl_hdr)
  have sub: "cmd_submit virgl_host ?req n ex f s =
    (if \<not> ctrlq (vg s) \<or> ?req = [] \<or> n = 0 then Some (Inl EINVAL, s)
     else case cmd_response (un32 ?req) True 40 (virgl_answer ?req n) ex f (vg s) of
       (r, d) \<Rightarrow> Some (r, s\<lparr>vg := d, host := (host s)\<lparr>link := (?req, \<not> snd (link (host s)))\<rparr>\<rparr>))"
    by (simp add: cmd_submit_def cmd_submit_locked_def virgl_host_def Let_def virgl_answer_def
        dequeue_spin.simps split: prod.splits)
  have hd: "dec_ctrl_hdr (virgl_answer ?req n) = h\<lparr>hdr_type := ex\<rparr>"
    using echoed_header[OF assms(2), where zs = "le32 1 @ replicate n 0"] assms(3)
    by (simp only: virgl_answer_def un32_enc_ctrl_hdr append_assoc)
  have "ex \<noteq> 0" using assms(4) by (auto simp: gpu_resp_errno_def proto_consts)
  hence "cmd_response (un32 ?req) True 40 (virgl_answer ?req n) ex f (vg s) = (Inr (virgl_answer ?req n), echo_fence h f (vg s))"
    using assms(4) hd by (cases f) (simp_all add: cmd_response_def Let_def sizeof_ctrl_hdr_def echo_fence_def)
  thus ?thesis using assms(1) ne by (simp only: sub if_False not_True_eq_False disj_not1 simp_thms prod.case)
qed

lemma virgl_answer_capset:
  "28 \<le> n \<Longrightarrow> un32 (drop 24 (virgl_answer (enc_ctrl_hdr h @ rest) n)) = 1"
proof -
  assume n: "28 \<le> n"
  have l: "length (le32 t @ drop 4 (take 24 (enc_ctrl_hdr h @ rest))) = 24" for t by simp
  have "drop 24 (virgl_answer (enc_ctrl_hdr h @ rest) n) = take (n - 24) (le32 1 @ replicate n 0)"
    unfolding virgl_answer_def drop_take append_assoc[symmetric]
    by (simp only: append_assoc drop_append l) simp
  also have "\<dots> = le32 1 @ take (n - 28) (replicate n 0)" using n by simp
  finally show ?thesis by simp
qed

lemma virgl_heap [simp]:
  "env_malloc virgl_host n h = (True, h)" "env_free virgl_host h = h"
  by (simp_all add: virgl_host_def)

lemma ok_reply_virgl:
  "ok_reply CMD_GET_CAPSET_INFO = RESP_OK_CAPSET_INFO" "ok_reply CMD_CTX_CREATE = RESP_OK_NODATA"
  "ok_reply CMD_RESOURCE_CREATE_3D = RESP_OK_NODATA" "ok_reply CMD_CTX_ATTACH_RESOURCE = RESP_OK_NODATA"
  "ok_reply CMD_SUBMIT_3D = RESP_OK_NODATA"
  by (simp_all add: ok_reply_def proto_consts)

lemma resp_ok_virgl: "gpu_resp_errno RESP_OK_NODATA = None" "gpu_resp_errno RESP_OK_CAPSET_INFO = None"
  by (simp_all add: gpu_resp_errno_def)

lemmas virgl_replies = virgl_answered ok_reply_virgl resp_ok_virgl sizeof_ctrl_hdr_def

lemma virgl_capset:
  assumes "ctrlq (vg s)" "i < num_capsets (vg s)"
  shows "\<exists>v m h. uk_virtio_gpu_gl_capset_info_get virgl_host i True s =
    Some (Inr \<lparr> ci_id = 1, ci_max_version = v, ci_max_size = m \<rparr>, s\<lparr>host := h\<rparr>)"
  using assms
  by (simp add: uk_virtio_gpu_gl_capset_info_get_def Let_def enc_get_capset_info_def virgl_replies
      sizeof_resp_capset_info_def echo_fence_def dec_resp_capset_info_def virgl_answer_capset not_le) (rule exI, rule refl)

section \<open>A run to success\<close>

text \<open>A device on which \<open>k\<close> resource slots are taken.\<close>

definition slots_free :: "nat \<Rightarrow> uk_virtio_gpu_dev \<Rightarrow> bool" where
  "slots_free k d \<longleftrightarrow> k < length (resources d) \<and> (\<forall>j<length (resources d). k \<le> j \<longrightarrow> \<not> r_live (resources d ! j))"

definition virgl_ready :: "nat \<Rightarrow> u32 \<Rightarrow> uk_virtio_gpu_dev \<Rightarrow> bool" where
  "virgl_ready k c d \<longleftrightarrow> ctrlq d \<and> negotiated d F_VIRGL \<and> find_ctx d c \<noteq> None \<and> slots_free k d"

lemma slots_alloc:
  assumes "slots_free k d" "Suc k < length (resources d)"
  obtains i d0 where "alloc_res d = Some (i, d0)" "slots_free (Suc k) d0"
proof -
  have "first_index (\<lambda>r. \<not> r_live r) (resources d) \<noteq> None"
    using assms(1) by (auto simp: slots_free_def first_index_None)
  then obtain i where i: "first_index (\<lambda>r. \<not> r_live r) (resources d) = Some i" by blast
  hence a: "alloc_res d = Some (i, d\<lparr>
       resources := (resources d)[i := zero_resource\<lparr>r_id := next_res d, r_live := True\<rparr>],
       next_res := next_res d + 1,
       metrics := (metrics d)\<lparr>m_resources_created := m_resources_created (metrics d) + 1\<rparr>\<rparr>)"
    by (simp add: alloc_res_def)
  have "i \<le> k"
    using i assms(1) by (auto simp: slots_free_def first_index_Some intro: leI)
  hence "slots_free (Suc k) (snd (the (alloc_res d)))"
    using assms by (auto simp: a slots_free_def)
  thus thesis using that a by simp
qed

lemma slots_res_upd:
  assumes "slots_free k d" "\<And>r. r_live (f r) = r_live r" shows "slots_free k (res_upd i f d)"
proof -
  have "r_live ((resources d)[i := f (resources d ! i)] ! j) = r_live (resources d ! j)" if "j < length (resources d)" for j
    using that assms(2) by (cases "j = i") simp_all
  thus ?thesis using assms(1) by (simp add: slots_free_def res_upd_def)
qed

lemma echo_none [simp]: "echo_fence h None d = d" by (simp add: echo_fence_def)

lemma virgl_ready_frame [simp]:
  "virgl_ready k c (d\<lparr>next_fence := n\<rparr>) = virgl_ready k c d"
  "virgl_ready k c (d\<lparr>completed_fence := m\<rparr>) = virgl_ready k c d"
  "virgl_ready k c (d\<lparr>metrics := x\<rparr>) = virgl_ready k c d"
  by (simp_all add: virgl_ready_def slots_free_def negotiated_def)

lemma virgl_ready_echo [simp]:
  "virgl_ready k c (echo_fence h f d) = virgl_ready k c d" "resources (echo_fence h f d) = resources d"
  "ctrlq (echo_fence h f d) = ctrlq d" "find_ctx (echo_fence h f d) n = find_ctx d n"
  "negotiated (echo_fence h f d) b = negotiated d b" "slots_free k (echo_fence h f d) = slots_free k d"
  by (simp_all add: echo_fence_def negotiated_def slots_free_def split: option.splits)

lemma virgl_create_3d:
  assumes "virgl_ready k c (vg s)" "Suc k < length (resources (vg s))" "desc_width dsc \<noteq> 0" "desc_height dsc \<noteq> 0"
    "desc_depth dsc \<noteq> 0" "dev_inv (vg s)" "room (vg s)"
  shows "\<exists>rid s'. uk_virtio_gpu_gl_resource_create_3d virgl_host (Some dsc) True s = Some (Inr rid, s') \<and>
    virgl_ready (Suc k) c (vg s') \<and> length (resources (vg s')) = length (resources (vg s)) \<and>
    rid \<noteq> 0 \<and> find_res (vg s') rid \<noteq> None"
proof -
  have r: "ctrlq (vg s)" "negotiated (vg s) F_VIRGL" "find_ctx (vg s) c \<noteq> None" "slots_free k (vg s)"
    using assms(1) by (simp_all add: virgl_ready_def)
  obtain i d0 where a: "alloc_res (vg s) = Some (i, d0)" "slots_free (Suc k) d0" by (rule slots_alloc[OF r(4) assms(2)])
  note fr = alloc_res_frame[OF a(1)]
  let ?f = "\<lambda>r :: ukvgpu_resource_state. r\<lparr>r_is_3d := True, r_width := desc_width dsc,
    r_height := desc_height dsc, r_depth := desc_depth dsc, r_format := desc_format dsc,
    r_size := resource_size_bytes (desc_width dsc) (desc_height dsc) (desc_depth dsc)\<rparr>"
  obtain rid s' where run: "uk_virtio_gpu_gl_resource_create_3d virgl_host (Some dsc) True s = Some (Inr rid, s')"
    and s': "vg s' = res_upd i ?f d0"
    using r a fr assms(3-5)
    by (auto simp: uk_virtio_gpu_gl_resource_create_3d_def Let_def enc_resource_create_3d_def virgl_replies)
  have "find_ctx d0 c = find_ctx (vg s) c" using fr(5) by (simp add: find_ctx_def)
  moreover have "slots_free (Suc k) (vg s')" unfolding s' by (rule slots_res_upd[OF a(2)]) simp
  moreover have "length (resources (vg s')) = length (resources (vg s))" "ctrlq (vg s') = ctrlq d0"
    "negotiated (vg s') F_VIRGL = negotiated d0 F_VIRGL" "find_ctx (vg s') c = find_ctx d0 c"
    using fr by (simp_all add: s' res_upd_def negotiated_def find_ctx_def)
  moreover have "rid \<noteq> 0 \<and> find_res (vg s') rid \<noteq> None" using create_3d_registers[OF run assms(6,7)] by auto
  ultimately show ?thesis using run r fr by (auto simp: virgl_ready_def negotiated_def)
qed

lemma virgl_attach:
  assumes "virgl_ready k (ctx_id c) (vg s)" "find_res (vg s) rid \<noteq> None"
  shows "\<exists>h. uk_virtio_gpu_gl_context_attach_resource virgl_host (Some c) rid s = Some (Inr (), s\<lparr>host := h\<rparr>)"
  using assms
  by (auto simp: uk_virtio_gpu_gl_context_attach_resource_def ctx_resource_def Let_def ctx_id_or_0_def
      enc_ctx_resource_def virgl_replies virgl_ready_def)

lemma virgl_submit:
  assumes "virgl_ready k (ctx_id c) (vg s)" "bytes \<noteq> []" "length bytes < 2 ^ 32"
  shows "\<exists>f s'. uk_virtio_gpu_gl_context_submit virgl_host (Some c) (Some bytes) True s = Some (Inr (), f, s') \<and>
    virgl_ready k (ctx_id c) (vg s') \<and> resources (vg s') = resources (vg s)"
proof -
  have "ctrlq (vg s)" "\<exists>i. find_ctx (vg s) (ctx_id c) = Some i" using assms(1) by (auto simp: virgl_ready_def)
  thus ?thesis
    using assms
    by (auto simp: uk_virtio_gpu_gl_context_submit_def hdr_init_def Let_def ctx_id_or_0_def not_less
        enc_cmd_submit_3d_def virgl_replies)
qed

lemma ready_ops:
  assumes "virgl_ready k c (vg s)"
  shows "virgl_ready k c (vg (wait_fence f s))"
    "uk_virtio_gpu_gl_set_scanout e sc res rect s = Some (r, s') \<Longrightarrow> virgl_ready k c (vg s')"
    "uk_virtio_gpu_resource_flush e res rect b s = Some (r, g, s') \<Longrightarrow> virgl_ready k c (vg s')"
    "uk_virtio_gpu_gl_transfer_to_host_3d e res x b s = Some (r, g, s') \<Longrightarrow> virgl_ready k c (vg s')"
  using assms
  by (auto simp: wait_fence_def uk_virtio_gpu_fence_wait_def uk_virtio_gpu_gl_set_scanout_def
      uk_virtio_gpu_resource_flush_def uk_virtio_gpu_gl_transfer_to_host_3d_def transfer_3d_def hdr_init_def Let_def
      dest!: cq.no_fence cq.frame split: if_splits option.splits sum.splits bool.splits prod.splits)

lemma present_ready:
  assumes "present_frame e w h res s = Some s'" "virgl_ready k c (vg s)"
  shows "virgl_ready k c (vg s')"
proof -
  obtain r1 s1 r2 f s2 r3 g s3 where s: "uk_virtio_gpu_gl_set_scanout e 0 res (Some (frame_rect w h)) s = Some (r1, s1)"
    "uk_virtio_gpu_gl_transfer_to_host_3d e res (Some (frame_xfer w h)) True s1 = Some (r2, f, s2)"
    "uk_virtio_gpu_resource_flush e res (Some (frame_rect w h)) True (wait_fence f s2) = Some (r3, g, s3)"
    "s' = wait_fence g s3"
    using assms(1) by (auto simp: present_frame_def flush_frame_def bind_Some_iff)
  note r = ready_ops(2)[OF assms(2) s(1)]
  note r = ready_ops(1)[OF ready_ops(4)[OF r s(2)]]
  show ?thesis unfolding s(4) by (rule ready_ops(1)[OF ready_ops(3)[OF r s(3)]])
qed

lemma virgl_encodes:
  assumes "f + 1 \<noteq> 0" "rid \<noteq> 0"
  shows "\<exists>enc. encode_frame f rid col fresh_virgl = (Inr (), enc) \<and> \<not> vg_overflow enc \<and>
    virgl_bytes enc \<noteq> [] \<and> length (virgl_bytes enc) < 2 ^ 32"
proof -
  obtain cr cg cb ca where col: "col = (cr, cg, cb, ca)" by (cases col) auto
  obtain e1 e2 e3 where e: "uk_virgl_encode_create_surface (Some (uk_virgl_encoder_init fresh_virgl)) (f + 1) rid
      UK_VIRGL_FORMAT_B8G8R8X8_UNORM 0 = (Inr (), Some e1)"
    "uk_virgl_encode_set_framebuffer (Some e1) (f + 1) = (Inr (), Some e2)"
    "uk_virgl_encode_clear (Some e2) cr cg cb ca = (Inr (), Some e3)" "uk_virgl_encoder_len e3 = 76"
    using virgl_frame_fits[OF assms, of fresh_virgl UK_VIRGL_FORMAT_B8G8R8X8_UNORM 0 cr cg cb ca] by blast
  have wf: "vg_wf (uk_virgl_encoder_init fresh_virgl)" "\<not> vg_overflow (uk_virgl_encoder_init fresh_virgl)"
    "vg_room (uk_virgl_encoder_init fresh_virgl) = 32"
    by (simp_all add: uk_virgl_encoder_init_def vg_wf_def vg_room_def virgl_consts)
  have step: "vg_wf e' \<and> \<not> vg_overflow e'"
    if "vg_wf e \<and> \<not> vg_overflow e" "map_prod id Some (enc_words e ws) = (Inr (), Some e')" for e e' ws
    using enc_words_appended[of e ws] that by (auto simp: words_appended_def split: if_splits)
  have "\<exists>ws. map_prod id Some (enc_words (uk_virgl_encoder_init fresh_virgl) ws) = (Inr (), Some e1)"
    using e(1) assms unfolding uk_virgl_encode_create_surface_def option.case using assms by (simp del: enc_words.simps) blast
  hence s1: "vg_wf e1 \<and> \<not> vg_overflow e1" using step wf by blast
  have "\<exists>ws. map_prod id Some (enc_words e1 ws) = (Inr (), Some e2)"
    using e(2) unfolding uk_virgl_encode_set_framebuffer_def option.case by blast
  hence s2: "vg_wf e2 \<and> \<not> vg_overflow e2" using step s1 by blast
  have "\<exists>ws. map_prod id Some (enc_words e2 ws) = (Inr (), Some e3)"
    using e(3) unfolding uk_virgl_encode_clear_def option.case d2u_def prod.case by blast
  hence e3: "vg_wf e3 \<and> \<not> vg_overflow e3" using step s2 by blast
  hence len: "length (virgl_bytes e3) = 76"
    using e(4) by (simp add: virgl_bytes_def vg_wf_def length_concat comp_def sum_list_triv)
  have "encode_frame f rid col fresh_virgl = (Inr (), e3)"
    using e by (simp add: encode_frame_def col or_rc_def)
  thus ?thesis using e3 len by auto
qed

lemma virgl_frame:
  assumes "virgl_ready k (ctx_id ctx) (vg s)" "Suc k < length (resources (vg s))" "w \<noteq> 0" "h \<noteq> 0"
    "dev_inv (vg s)" "room (vg s)" "f + 1 \<noteq> 0"
  shows "\<exists>rid s'. submit_frame virgl_host ctx w h f col s = Some (Inr rid, s') \<and>
    virgl_ready (Suc k) (ctx_id ctx) (vg s') \<and> length (resources (vg s')) = length (resources (vg s))"
proof -
  have d: "desc_width (frame_desc w h) \<noteq> 0" "desc_height (frame_desc w h) \<noteq> 0" "desc_depth (frame_desc w h) \<noteq> 0"
    using assms(3,4) by (simp_all add: frame_desc_def)
  from virgl_create_3d[OF assms(1,2) d assms(5,6)] obtain rid s1
    where c: "uk_virtio_gpu_gl_resource_create_3d virgl_host (Some (frame_desc w h)) True s = Some (Inr rid, s1)"
      and r: "virgl_ready (Suc k) (ctx_id ctx) (vg s1)" "length (resources (vg s1)) = length (resources (vg s))"
      "rid \<noteq> 0" "find_res (vg s1) rid \<noteq> None" by blast
  from virgl_attach[OF r(1,4)] obtain h1
    where a: "uk_virtio_gpu_gl_context_attach_resource virgl_host (Some ctx) rid s1 = Some (Inr (), s1\<lparr>host := h1\<rparr>)" by blast
  from virgl_encodes[OF assms(7) r(3), of col] obtain enc where en: "encode_frame f rid col fresh_virgl = (Inr (), enc)"
    "\<not> vg_overflow enc" "virgl_bytes enc \<noteq> []" "length (virgl_bytes enc) < 2 ^ 32" by blast
  have "virgl_ready (Suc k) (ctx_id ctx) (vg (s1\<lparr>host := h1\<rparr>))" using r(1) by simp
  from virgl_submit[OF this en(3,4)] obtain g s2 where "uk_virtio_gpu_gl_context_submit virgl_host (Some ctx)
      (Some (virgl_bytes enc)) True (s1\<lparr>host := h1\<rparr>) = Some (Inr (), g, s2)"
    "virgl_ready (Suc k) (ctx_id ctx) (vg s2)" "resources (vg s2) = resources (vg s1)" by auto
  thus ?thesis using c a en r ready_ops(1) by (simp add: submit_frame_def)
qed

lemma virgl_frames:
  assumes "virgl_ready k (ctx_id ctx) (vg s)" "k + length cols < length (resources (vg s))" "w \<noteq> 0" "h \<noteq> 0"
    "dev_inv (vg s)" "counters_below n (vg s)" "n + 9 * length cols < 2 ^ 32" "unat f + length cols < 2 ^ 32"
  shows "\<exists>res s'. frame_loop virgl_host ctx w h f cols s = Some (Inr res, s')"
  using assms
proof (induction cols arbitrary: f s k n)
  case (Cons col cols)
  have room: "room (vg s)" using counters_room[OF Cons.prems(6)] Cons.prems(7) by simp
  have f: "unat (f + 1) = unat f + 1" using Cons.prems(8) by (subst unat_add_small) simp_all
  hence f0: "f + 1 \<noteq> 0" by (metis add_is_0 unat_0 zero_neq_one)
  have k: "Suc k < length (resources (vg s))" using Cons.prems(2) by simp
  from virgl_frame[OF Cons.prems(1) k Cons.prems(3,4,5) room f0, of col] obtain rid s1
    where s1: "submit_frame virgl_host ctx w h f col s = Some (Inr rid, s1)"
      and r: "virgl_ready (Suc k) (ctx_id ctx) (vg s1)" "length (resources (vg s1)) = length (resources (vg s))" by blast
  obtain s2 where s2: "present_frame virgl_host w h rid s1 = Some s2"
    using present_frame_returns[OF virgl_clock(1)] by blast
  have w9: "within (4 + 5) s s2" by (rule within_trans[OF submit_frame_within[OF s1] present_frame_within[OF s2]])
  have i9: "dev_inv (vg s2) \<and> counters_below (n + (4 + 5)) (vg s2) \<and> g_ctrlq_lock s2 = g_ctrlq_lock s"
    using Cons.prems(7) by (intro within_inv[OF w9 Cons.prems(5,6)]) simp
  have "length (resources (vg s2)) = length (resources (vg s1))" using present_frame_keeps[OF s2] by (simp add: keeps_def)
  hence "\<exists>res s'. frame_loop virgl_host ctx w h (f + 1) cols s2 = Some (Inr res, s')"
    using Cons.prems i9 r f by (intro Cons.IH[of "Suc k" _ "n + 9"] present_ready[OF s2]) simp_all
  thus ?case using s1 s2 by auto
qed simp

section \<open>The demonstration device\<close>

lemma demo_virgl: "demo_dev = demo_dev\<lparr>ctrlq := True\<rparr>" "num_capsets demo_dev = 1" "negotiated demo_dev F_VIRGL"
  "negotiated demo_dev F_CONTEXT_INIT" "ctrlq demo_dev"
  by (simp_all add: demo_dev_def negotiated_def proto_consts)

lemma virgl_context:
  assumes "vg s = demo_dev"
  shows "\<exists>c s'. uk_virtio_gpu_gl_context_create virgl_host 1 nm True s = Some (Inr c, s') \<and>
    virgl_ready 0 (ctx_id c) (vg s') \<and> length (resources (vg s')) = 128"
proof -
  obtain v m hs where cap: "uk_virtio_gpu_gl_capset_info_get virgl_host 0 True s =
      Some (Inr \<lparr> ci_id = 1, ci_max_version = v, ci_max_size = m \<rparr>, s\<lparr>host := hs\<rparr>)"
    using virgl_capset[of s 0] assms demo_virgl by auto
  hence has: "has_capset virgl_host 1 s = Some (True, s\<lparr>host := hs\<rparr>)"
    using assms demo_virgl by (simp add: has_capset_def numeral_eq_Suc)
  obtain i d0 where al: "alloc_ctx demo_dev = Some (i, d0)" using demo_ctx_alloc by blast
  note fr = alloc_ctx_frame[OF al]
  have ng: "negotiated d0 = negotiated demo_dev" using fr(11) by (simp add: negotiated_def fun_eq_iff)
  obtain c s' where run: "uk_virtio_gpu_gl_context_create virgl_host 1 nm True s = Some (Inr c, s')"
    and s': "ctrlq (vg s')" "negotiated_features (vg s') = negotiated_features demo_dev" "resources (vg s') = resources demo_dev"
    using assms demo_virgl(2-5) has al fr ng
    by (auto simp: uk_virtio_gpu_gl_context_create_def hdr_init_def Let_def enc_ctx_create_def virgl_replies ctx_upd_def
        split: option.splits)
  have "find_ctx (vg s') (ctx_id c) \<noteq> None" using context_create_live[OF run] demo_inv(1) assms by simp
  moreover have "slots_free 0 demo_dev" "length (resources demo_dev) = 128"
    by (simp_all add: slots_free_def demo_dev_def vgpu_new_dev_def UKVGPU_MAX_RESOURCES_def zero_resource_def)
  ultimately show ?thesis using run s' demo_virgl(3) by (auto simp: virgl_ready_def slots_free_def negotiated_def)
qed

definition app_sys :: "(u8 list \<times> bool) machine sys" where
  "app_sys = \<lparr> vg = demo_dev, host = \<lparr> link = ([], False), shm = (\<lambda>_. 0) \<rparr>, g_ctrlq_lock = 0 \<rparr>"

lemma virgl_run: "\<exists>n s'. run_virgl_path virgl_host True 640 480 True app_sys = Some (Inr n, s')"
proof -
  have vg: "vg app_sys = demo_dev" by (simp add: app_sys_def)
  obtain v m hs where cap: "uk_virtio_gpu_gl_capset_info_get virgl_host 0 True app_sys =
      Some (Inr \<lparr> ci_id = 1, ci_max_version = v, ci_max_size = m \<rparr>, app_sys\<lparr>host := hs\<rparr>)"
    using virgl_capset[of app_sys 0] vg demo_virgl by auto
  let ?s = "app_sys\<lparr>host := hs\<rparr>"
  have scan: "capset_scan virgl_host (min (unat (num_capsets demo_dev)) 8) 0 app_sys = Some ([1], ?s)"
    using cap demo_virgl(2) by simp
  have vs: "vg ?s = demo_dev" using vg by simp
  obtain c s1 where c: "uk_virtio_gpu_gl_context_create virgl_host 1 (Some name_kmscube) True ?s = Some (Inr c, s1)"
    and r: "virgl_ready 0 (ctx_id c) (vg s1)" "length (resources (vg s1)) = 128"
    using virgl_context[OF vs] by blast
  have i: "dev_inv (vg s1) \<and> counters_below (1 + 1) (vg s1) \<and> g_ctrlq_lock s1 = g_ctrlq_lock ?s"
    using demo_inv vs by (intro within_inv[OF ctx_ops_within(1)[OF c, where k = 0, folded One_nat_def]]) simp_all
  have i2: "dev_inv (vg s1)" "counters_below 2 (vg s1)" using i by (simp_all only: one_add_one)
  have len: "length colours = 3" by (simp add: colours_def)
  obtain res s2 where l: "frame_loop virgl_host c 640 480 0 colours s1 = Some (Inr res, s2)"
    using virgl_frames[of 0 c s1 colours 640 480 2 0] r i2 len by auto
  obtain s3 where h: "hold_frame virgl_host 640 480 (res ! (NFRAMES - 1)) s2 = Some s3"
    using hold_frame_returns[OF virgl_clock] by blast
  obtain rc s4 where d: "uk_virtio_gpu_gl_context_destroy virgl_host (Some c) s3 = Some (rc, s4)"
    using returns_ctx(4)[OF virgl_clock(1)] by (metis not_None_eq surj_pair)
  show ?thesis
    using scan vg c l h d by (simp add: run_virgl_path_def uk_virtio_gpu_gl_caps_get_def)
qed

theorem virgl_pass_means_witness:
  "\<exists>s'. run_virgl_path virgl_host True 640 480 True app_sys = Some (Inr 3, s') \<and>
    m_submits_3d (metrics (vg s')) = m_submits_3d (metrics demo_dev) + 3 \<and>
    (\<exists>res. length res = 3 \<and> distinct res \<and>
      (\<forall>r\<in>set res. find_res demo_dev r = None \<and> frame_resource 640 480 (vg s') r))"
proof -
  obtain n s' where r: "run_virgl_path virgl_host True 640 480 True app_sys = Some (Inr n, s')" using virgl_run by blast
  have vg: "vg app_sys = demo_dev" by (simp add: app_sys_def)
  have inv: "dev_inv (vg app_sys)" "counters_below 1 (vg app_sys)" using demo_inv by (simp_all add: vg)
  have "(1::nat) + 32 < 2 ^ 32" by simp
  from virgl_pass_means[OF r inv this] show ?thesis using r by (auto simp: vg)
qed


end
