(* ===== verification/App_Vkmark.thy ===== *)
theory App_Vkmark
  imports App_Demo
begin

text \<open>
  The application \<open>app-vkmark/main.c\<close>: it opens the Venus driver, prints what the open recorded and one
  line per benchmark scene, and closes the driver again.  Its output is the list of its verdict lines.
\<close>

definition vkmark_scenes :: "string list" where
  "vkmark_scenes = [''vertex'', ''texture'', ''shading'', ''desktop'', ''effect2d'', ''terrain'', ''shadow'',
     ''refract'', ''compute'', ''clear'']"

datatype vkmark_line =
    Scenes "string list"
  | Blocked_open errno
  | Device "u8 list" u32 bool bool
  | Context bool "string option"
  | Scene string "string option"
  | Substrate_pass nat

definition vkmark_report :: "uk_vulkan_venus_dev \<Rightarrow> uk_vulkan_venus_info \<Rightarrow> vkmark_line list" where
  "vkmark_report venus info =
    [Device (vvi_device_name info) (vvi_capset_id info) (vvi_venus_available info) (vvi_has_resource_blob info),
     Context (vvd_ctx_ready venus) (vvi_rendering_status info)]
    @ map (\<lambda>sc. Scene sc (vvi_rendering_status info)) vkmark_scenes
    @ [Substrate_pass (length vkmark_scenes)]"

text \<open>\<open>info0\<close> is what the uninitialised variable \<open>info\<close> holds; the result of \<open>get_info\<close>, which writes it, is
  not looked at.\<close>

definition vkmark_main :: "'h env \<Rightarrow> bool \<Rightarrow> uk_vulkan_venus_info \<Rightarrow> 'h sys
    \<Rightarrow> (vkmark_line list \<times> 'h sys) option" where
  "vkmark_main e probed info0 s =
    (case uk_vulkan_venus_open e probed s of
       None \<Rightarrow> None
     | Some (Inl er, _, s) \<Rightarrow> Some ([Scenes vkmark_scenes, Blocked_open er], s)
     | Some (Inr _, venus, s) \<Rightarrow>
        (let info = (case uk_vulkan_venus_get_info (Some venus) True of Inl _ \<Rightarrow> info0 | Inr i \<Rightarrow> i) in
         map_option (\<lambda>(_, s). (Scenes vkmark_scenes # vkmark_report venus info, s))
           (uk_vulkan_venus_close e venus s)))"

section \<open>What its verdict rests on\<close>

lemma open_opened:
  assumes "uk_vulkan_venus_open e probed s = Some (Inr (), venus, s')"
  shows "vvd_opened venus \<and> probed"
  using assms
  by (auto simp: uk_vulkan_venus_open_def uk_virtio_gpu_probe_def uk_virtio_gpu_gl_caps_get_def Let_def
      split: option.splits sum.splits if_splits)

lemma open_probed:
  "uk_vulkan_venus_open e True s = Some (r, venus, s') \<Longrightarrow> r = Inr ()"
  by (auto simp: uk_vulkan_venus_open_def uk_virtio_gpu_probe_def uk_virtio_gpu_gl_caps_get_def Let_def
      split: option.splits sum.splits if_splits)

text \<open>The substrate verdict of a run that returns is decided by the registration of a
  device alone, whatever the device can do: with one the run passes and reports all 10 scenes, without
  one it is blocked with \<open>ENODEV\<close> and touches nothing; and the uninitialised variable \<open>info\<close> never shows.\<close>

theorem vkmark_passes_iff_registered:
  assumes "vkmark_main e probed info0 s = Some (out, s')"
  shows "(Substrate_pass 10 \<in> set out \<longleftrightarrow> probed) \<and>
    (\<not> probed \<longrightarrow> out = [Scenes vkmark_scenes, Blocked_open ENODEV] \<and> s' = s) \<and>
    vkmark_main e probed info1 s = Some (out, s')"
proof (cases probed)
  case False
  thus ?thesis
    using assms by (auto simp: vkmark_main_def uk_vulkan_venus_open_def uk_virtio_gpu_probe_def)
next
  case True
  obtain r venus s1 where o: "uk_vulkan_venus_open e True s = Some (r, venus, s1)"
    using assms True by (auto simp: vkmark_main_def split: option.splits)
  have r: "r = Inr ()" by (rule open_probed[OF o])
  have "vvd_opened venus" using open_opened[OF o[unfolded r]] by simp
  hence i: "uk_vulkan_venus_get_info (Some venus) True = Inr (vvd_info venus)"
    by (simp add: uk_vulkan_venus_get_info_def)
  have main: "vkmark_main e True x s = map_option (\<lambda>(_, s). (Scenes vkmark_scenes # vkmark_report venus (vvd_info venus), s))
      (uk_vulkan_venus_close e venus s1)" for x
    by (simp add: vkmark_main_def o r i)
  have "Substrate_pass 10 \<in> set (vkmark_report venus (vvd_info venus))"
    by (simp add: vkmark_report_def vkmark_scenes_def)
  thus ?thesis using assms True by (auto simp: main)
qed

text \<open>On a host whose only capset is virgl the run passes although Venus is absent.\<close>

theorem vkmark_passes_iff_registered_witness:
  "\<exists>out s'. vkmark_main virgl_host True (vvd_info zero_venus_dev) app_sys = Some (out, s') \<and> Substrate_pass 10 \<in> set out"
proof -
  have vg: "vg app_sys = demo_dev" by (simp add: app_sys_def)
  obtain v m hs where cap: "uk_virtio_gpu_gl_capset_info_get virgl_host 0 True app_sys =
      Some (Inr \<lparr> ci_id = 1, ci_max_version = v, ci_max_size = m \<rparr>, app_sys\<lparr>host := hs\<rparr>)"
    using virgl_capset[of app_sys 0] vg demo_virgl by auto
  have z: "\<not> vvd_ctx_ready zero_venus_dev" by (simp add: zero_venus_dev_def)
  obtain out s' where "vkmark_main virgl_host True (vvd_info zero_venus_dev) app_sys = Some (out, s')"
    using cap vg demo_virgl(2) z
    by (auto simp: vkmark_main_def uk_vulkan_venus_open_def uk_virtio_gpu_probe_def uk_virtio_gpu_gl_caps_get_def
        CAPSET_VENUS_def uk_vulkan_venus_close_def Let_def)
  from vkmark_passes_iff_registered[OF this] this show ?thesis by blast
qed

end
