(* ===== verification/Fake_Gpu.thy ===== *)
theory Fake_Gpu
  imports Gpu_Properties Gpu_Apir
begin

text \<open>
  The second implementation of the driver's interface: the synchronous fake backend of
  \<open>tests/fake\<close>, which the host-native test suite links in place of \<open>virtio_gpu_real.c\<close>.  Each function
  is the definition of its name with the prefix \<open>fake_\<close>.  It has no host: every accepted command is
  complete at once.  \<open>calloc\<close> is an argument, the address it returned or None; an object index is an index
  into the table.
\<close>

section \<open>State\<close>

definition MAX_FAKE_RESOURCES :: nat where "MAX_FAKE_RESOURCES = 64"
definition MAX_FAKE_CONTEXTS :: nat where "MAX_FAKE_CONTEXTS = 16"
definition MAX_FAKE_CAPSETS :: u32 where "MAX_FAKE_CAPSETS = 5"
definition MAX_FAKE_BLOB_SIZE :: u64 where "MAX_FAKE_BLOB_SIZE = 16 * 1024 * 1024"

record fake_resource =
  fr_id :: u32
  fr_live :: bool
  fr_is_3d :: bool
  fr_backing_attached :: bool
  fr_uuid_assigned :: bool
  fr_width :: u32
  fr_height :: u32
  fr_depth :: u32
  fr_format :: u32
  fr_size :: u64
  fr_uuid :: "u8 list"

definition zero_fake_resource :: fake_resource where
  "zero_fake_resource = \<lparr> fr_id = 0, fr_live = False, fr_is_3d = False, fr_backing_attached = False,
     fr_uuid_assigned = False, fr_width = 0, fr_height = 0, fr_depth = 0, fr_format = 0, fr_size = 0,
     fr_uuid = replicate 16 0 \<rparr>"

record fake_context =
  fc_id :: u32
  fc_capset_id :: u32
  fc_live :: bool
  fc_attached :: "u32 list"
  fc_attached_count :: nat

definition zero_fake_context :: fake_context where
  "zero_fake_context = \<lparr> fc_id = 0, fc_capset_id = 0, fc_live = False,
     fc_attached = replicate MAX_FAKE_RESOURCES 0, fc_attached_count = 0 \<rparr>"

record fake_dev =
  fd_next_res :: u32
  fd_next_ctx :: u32
  fd_next_fence :: u64
  fd_completed_fence :: u64
  fd_resources :: "fake_resource list"
  fd_contexts :: "fake_context list"
  fd_metrics :: uk_virtio_gpu_metrics

abbreviation fd_count :: "(uk_virtio_gpu_metrics \<Rightarrow> uk_virtio_gpu_metrics) \<Rightarrow> fake_dev \<Rightarrow> fake_dev" where
  "fd_count f d \<equiv> d\<lparr>fd_metrics := f (fd_metrics d)\<rparr>"

definition fr_upd :: "nat \<Rightarrow> (fake_resource \<Rightarrow> fake_resource) \<Rightarrow> fake_dev \<Rightarrow> fake_dev" where
  "fr_upd i f d = d\<lparr>fd_resources := (fd_resources d)[i := f (fd_resources d ! i)]\<rparr>"

definition fc_upd :: "nat \<Rightarrow> (fake_context \<Rightarrow> fake_context) \<Rightarrow> fake_dev \<Rightarrow> fake_dev" where
  "fc_upd i f d = d\<lparr>fd_contexts := (fd_contexts d)[i := f (fd_contexts d ! i)]\<rparr>"

section \<open>Helpers\<close>

definition fake_res_find :: "fake_resource list \<Rightarrow> u32 \<Rightarrow> nat option" where
  "fake_res_find t res = (if res = 0 then None else first_index (\<lambda>r. fr_live r \<and> fr_id r = res) t)"

definition fake_find_res :: "fake_dev \<Rightarrow> u32 \<Rightarrow> nat option" where
  "fake_find_res d res = fake_res_find (fd_resources d) res"

definition fake_alloc_res :: "fake_dev \<Rightarrow> (nat \<times> fake_dev) option" where
  "fake_alloc_res d =
    (case first_index (\<lambda>r. \<not> fr_live r) (fd_resources d) of
       None \<Rightarrow> None
     | Some i \<Rightarrow> Some (i, fd_count (\<lambda>m. m\<lparr>m_resources_created := m_resources_created m + 1\<rparr>)
         (d\<lparr>fd_resources := (fd_resources d)[i := zero_fake_resource\<lparr>fr_id := fd_next_res d, fr_live := True\<rparr>],
            fd_next_res := fd_next_res d + 1\<rparr>)))"

definition fake_ctx_find :: "fake_context list \<Rightarrow> u32 \<Rightarrow> nat option" where
  "fake_ctx_find t cid = (if cid = 0 then None else first_index (\<lambda>c. fc_live c \<and> fc_id c = cid) t)"

definition fake_find_ctx :: "fake_dev \<Rightarrow> u32 \<Rightarrow> nat option" where
  "fake_find_ctx d cid = fake_ctx_find (fd_contexts d) cid"

definition fake_capsets :: "uk_virtio_gpu_capset_info list" where
  "fake_capsets = [\<lparr> ci_id = CAPSET_VIRGL, ci_max_version = 2, ci_max_size = 256 \<rparr>,
     \<lparr> ci_id = CAPSET_VIRGL2, ci_max_version = 2, ci_max_size = 256 \<rparr>,
     \<lparr> ci_id = CAPSET_VENUS, ci_max_version = 1, ci_max_size = 512 \<rparr>,
     \<lparr> ci_id = CAPSET_DRM, ci_max_version = 1, ci_max_size = 128 \<rparr>,
     \<lparr> ci_id = CAPSET_APIR, ci_max_version = 1, ci_max_size = 64 \<rparr>]"

definition fake_capset_supported :: "u32 \<Rightarrow> bool" where
  "fake_capset_supported cid = list_ex (\<lambda>c. ci_id c = cid) fake_capsets"

text \<open>\<open>b > UINT64_MAX / a\<close>\<close>

definition checked_mul_u64 :: "u64 \<Rightarrow> u64 \<Rightarrow> errno + u64" where
  "checked_mul_u64 a b = (if a \<noteq> 0 \<and> b > - 1 div a then Inl EOVERFLOW else Inr (a * b))"

definition fake_resource_size :: "u32 \<Rightarrow> u32 \<Rightarrow> u32 \<Rightarrow> errno + u64" where
  "fake_resource_size w h d =
    (case checked_mul_u64 (ucast w) (ucast h) of
       Inl er \<Rightarrow> Inl er
     | Inr wh \<Rightarrow>
        (case checked_mul_u64 wh (ucast (if d \<noteq> 0 then d else 1)) of
           Inl er \<Rightarrow> Inl er
         | Inr wh \<Rightarrow> checked_mul_u64 wh 4))"

text \<open>The fence pointer may be NULL; the result is the identifier, stored when it is not.\<close>

definition fake_complete_fence :: "fake_dev \<Rightarrow> u64 \<times> fake_dev" where
  "fake_complete_fence d =
    (let i = fd_next_fence d in
     (i, fd_count (\<lambda>m. m\<lparr>m_fences_issued := m_fences_issued m + 1\<rparr>)
           (d\<lparr>fd_next_fence := i + 1, fd_completed_fence := i\<rparr>)))"

definition rect_bytes :: "uk_gpu_rect \<Rightarrow> u64" where
  "rect_bytes r = ucast (rect_w r) * ucast (rect_h r) * 4"

definition bad_rect :: "uk_gpu_rect option \<Rightarrow> bool" where
  "bad_rect r = (case r of None \<Rightarrow> True | Some r \<Rightarrow> rect_w r = 0 \<or> rect_h r = 0)"

section \<open>Device\<close>

definition fake_new_dev :: fake_dev where
  "fake_new_dev = \<lparr> fd_next_res = 1, fd_next_ctx = 1, fd_next_fence = 1, fd_completed_fence = 0,
     fd_resources = replicate MAX_FAKE_RESOURCES zero_fake_resource,
     fd_contexts = replicate MAX_FAKE_CONTEXTS zero_fake_context,
     fd_metrics = zero_metrics\<lparr>m_probes := 1\<rparr> \<rparr>"

text \<open>\<open>mem\<close> says whether \<open>calloc\<close> succeeds.\<close>

definition fake_probe :: "bool \<Rightarrow> bool \<Rightarrow> errno + fake_dev" where
  "fake_probe out mem = (if \<not> out then Inl EINVAL else if \<not> mem then Inl ENOMEM else Inr fake_new_dev)"

definition fake_caps_get :: "bool \<Rightarrow> errno + uk_virtio_gpu_caps" where
  "fake_caps_get caps =
    (if \<not> caps then Inl EINVAL
     else let feats = F_VIRGL OR F_EDID OR F_RESOURCE_UUID OR F_RESOURCE_BLOB OR F_CONTEXT_INIT in
       Inr \<lparr> caps_num_scanouts = 1, caps_num_capsets = MAX_FAKE_CAPSETS, caps_device_features = feats,
         caps_negotiated_features = feats, caps_has_virgl = True, caps_has_edid = True,
         caps_has_resource_uuid = True, caps_has_resource_blob = True, caps_has_context_init = True,
         caps_uses_blob_scanout = False, caps_has_host_visible = True, caps_has_blob_alignment = False,
         caps_blob_alignment = 0 \<rparr>)"

definition fake_capset_info_get :: "u32 \<Rightarrow> bool \<Rightarrow> errno + uk_virtio_gpu_capset_info" where
  "fake_capset_info_get index info =
    (if \<not> info then Inl EINVAL
     else if index \<ge> MAX_FAKE_CAPSETS then Inl ENOENT
     else Inr (fake_capsets ! unat index))"

text \<open>\<open>"unikraft-fake-virgl-capset"\<close> with its NUL.  The result is the return code, the value stored
  in \<open>*actual_len\<close> and what is written to \<open>buf\<close> (\<open>len\<close> bytes when it is not NULL).\<close>

definition fake_capset_payload :: "u8 list" where
  "fake_capset_payload = [117, 110, 105, 107, 114, 97, 102, 116, 45, 102, 97, 107, 101, 45, 118, 105, 114,
     103, 108, 45, 99, 97, 112, 115, 101, 116, 0]"

definition fake_copy_out :: "u8 list \<Rightarrow> bool \<Rightarrow> u64 \<Rightarrow> (errno + u8 list) \<times> u64 option" where
  "fake_copy_out src buf len =
    (if \<not> buf \<or> len < of_nat (length src) then Inl ENOSPC else Inr src, Some (of_nat (length src)))"

definition fake_capset_get :: "u32 \<Rightarrow> u32 \<Rightarrow> bool \<Rightarrow> u64 \<Rightarrow> (errno + u8 list) \<times> u64 option" where
  "fake_capset_get cid version buf len =
    (if \<not> fake_capset_supported cid \<or> version = 0 then (Inl EINVAL, None)
     else fake_copy_out fake_capset_payload buf len)"

definition fake_get_edid :: "u32 \<Rightarrow> bool \<Rightarrow> u64 \<Rightarrow> (errno + u8 list) \<times> u64 option" where
  "fake_get_edid scanout buf len =
    (if scanout \<noteq> 0 then (Inl EINVAL, None)
     else fake_copy_out ([0, 0xff, 0xff, 0xff, 0xff, 0xff, 0xff, 0] @ replicate 120 0) buf len)"

definition fake_set_scanout :: "fake_dev \<Rightarrow> u32 \<Rightarrow> u32 \<Rightarrow> uk_gpu_rect option \<Rightarrow> errno + unit" where
  "fake_set_scanout d scanout res r =
    (if fake_find_res d res = None \<or> scanout \<noteq> 0 \<or> bad_rect r then Inl EINVAL else Inr ())"

definition fake_fence_wait :: "fake_dev \<Rightarrow> u64 \<Rightarrow> u64 \<Rightarrow> (errno + unit) \<times> fake_dev" where
  "fake_fence_wait d fence timeout_ns =
    (if fence = 0 then (Inl EINVAL, d)
     else (if fence \<le> fd_completed_fence d then Inr () else Inl ETIMEDOUT,
           fd_count (\<lambda>m. m\<lparr>m_fence_waits := m_fence_waits m + 1\<rparr>) d))"

definition fake_capset_name :: "u32 \<Rightarrow> string" where
  "fake_capset_name i =
    (if i = CAPSET_VIRGL then ''virgl'' else if i = CAPSET_VIRGL2 then ''virgl2''
     else if i = CAPSET_GFXSTREAM then ''gfxstream'' else if i = CAPSET_VENUS then ''venus''
     else if i = CAPSET_CROSS_DOMAIN then ''cross-domain'' else if i = CAPSET_DRM then ''drm-native-context''
     else if i = CAPSET_APIR then ''apir'' else ''unknown'')"

section \<open>Resources\<close>

definition fake_resource_create_2d :: "fake_dev \<Rightarrow> u32 \<Rightarrow> u32 \<Rightarrow> u32 \<Rightarrow> bool
    \<Rightarrow> (errno + u32) \<times> fake_dev" where
  "fake_resource_create_2d d w h fmt out =
    (if w = 0 \<or> h = 0 \<or> \<not> out then (Inl EINVAL, d)
     else case fake_alloc_res d of
       None \<Rightarrow> (Inl ENOMEM, d)
     | Some (i, d) \<Rightarrow>
        (let d = fr_upd i (\<lambda>r. r\<lparr>fr_width := w, fr_height := h, fr_depth := 1, fr_format := fmt\<rparr>) d in
         case fake_resource_size w h 1 of
           Inl _ \<Rightarrow> (Inl EOVERFLOW, fr_upd i (\<lambda>_. zero_fake_resource) d)
         | Inr sz \<Rightarrow> (Inr (fr_id (fd_resources d ! i)), fr_upd i (\<lambda>r. r\<lparr>fr_size := sz\<rparr>) d)))"

definition fake_attach_backing :: "fake_dev \<Rightarrow> u32 \<Rightarrow> (u64 \<times> u64) list option \<Rightarrow> (errno + unit) \<times> fake_dev" where
  "fake_attach_backing d res sg =
    (case (fake_find_res d res, sg) of
       (Some i, Some segs) \<Rightarrow>
        (if segs = [] \<or> snd (hd segs) = 0 then (Inl EINVAL, d)
         else (Inr (), fd_count (\<lambda>m. m\<lparr>m_attach_calls := m_attach_calls m + 1\<rparr>)
                 (fr_upd i (\<lambda>r. r\<lparr>fr_backing_attached := True\<rparr>) d)))
     | _ \<Rightarrow> (Inl EINVAL, d))"

definition fake_transfer_to_host_2d :: "fake_dev \<Rightarrow> u32 \<Rightarrow> uk_gpu_rect option \<Rightarrow> (errno + u64) \<times> fake_dev" where
  "fake_transfer_to_host_2d d res r =
    (case fake_find_res d res of
       None \<Rightarrow> (Inl EINVAL, d)
     | Some i \<Rightarrow>
        (if bad_rect r \<or> \<not> fr_backing_attached (fd_resources d ! i) then (Inl EINVAL, d)
         else map_prod Inr id (fake_complete_fence (fd_count (\<lambda>m. m\<lparr>m_transfers_to_host := m_transfers_to_host m + 1,
                m_bytes_to_host := m_bytes_to_host m + rect_bytes (the r)\<rparr>) d))))"

definition fake_resource_flush :: "fake_dev \<Rightarrow> u32 \<Rightarrow> uk_gpu_rect option \<Rightarrow> (errno + u64) \<times> fake_dev" where
  "fake_resource_flush d res r =
    (if fake_find_res d res = None \<or> bad_rect r then (Inl EINVAL, d)
     else map_prod Inr id (fake_complete_fence (fd_count (\<lambda>m. m\<lparr>m_flushes := m_flushes m + 1\<rparr>) d)))"

definition fake_transfer_and_flush_2d :: "fake_dev \<Rightarrow> u32 \<Rightarrow> uk_gpu_rect option \<Rightarrow> bool
    \<Rightarrow> (errno + u64) \<times> fake_dev" where
  "fake_transfer_and_flush_2d d res r fence =
    (if \<not> fence then (Inl EINVAL, d)
     else case fake_transfer_to_host_2d d res r of
       (Inl er, d) \<Rightarrow> (Inl er, d)
     | (Inr _, d) \<Rightarrow> fake_resource_flush d res r)"

definition fake_detach_backing :: "fake_dev \<Rightarrow> u32 \<Rightarrow> (errno + unit) \<times> fake_dev" where
  "fake_detach_backing d res =
    (case fake_find_res d res of
       None \<Rightarrow> (Inl EINVAL, d)
     | Some i \<Rightarrow>
        (if \<not> fr_backing_attached (fd_resources d ! i) then (Inl EINVAL, d)
         else (Inr (), fd_count (\<lambda>m. m\<lparr>m_detach_calls := m_detach_calls m + 1\<rparr>)
                 (fr_upd i (\<lambda>r. r\<lparr>fr_backing_attached := False\<rparr>) d))))"

definition fake_resource_unref :: "fake_dev \<Rightarrow> u32 \<Rightarrow> (errno + unit) \<times> fake_dev" where
  "fake_resource_unref d res =
    (case fake_find_res d res of
       None \<Rightarrow> (Inl EINVAL, d)
     | Some i \<Rightarrow> (Inr (), fd_count (\<lambda>m. m\<lparr>m_resources_unrefed := m_resources_unrefed m + 1\<rparr>)
                   (fr_upd i (\<lambda>_. zero_fake_resource) d)))"

definition fake_assign_uuid :: "fake_dev \<Rightarrow> u32 \<Rightarrow> bool \<Rightarrow> (errno + u8 list) \<times> fake_dev" where
  "fake_assign_uuid d res uuid =
    (case fake_find_res d res of
       None \<Rightarrow> (Inl EINVAL, d)
     | Some i \<Rightarrow>
        (if \<not> uuid then (Inl EINVAL, d)
         else let u = map (\<lambda>k. ucast (res + of_nat k)) [0..<16] in
           (Inr u, fr_upd i (\<lambda>r. r\<lparr>fr_uuid := u, fr_uuid_assigned := True\<rparr>) d)))"

section \<open>Contexts\<close>

text \<open>\<open>ctx\<close> is the caller's structure before the call (None for NULL) and, in the result, after it.\<close>

definition fake_context_create :: "fake_dev \<Rightarrow> u32 \<Rightarrow> uk_virtio_gpu_context option
    \<Rightarrow> (errno + uk_virtio_gpu_context) \<times> fake_dev" where
  "fake_context_create d cid ctx =
    (case ctx of
       None \<Rightarrow> (Inl EINVAL, d)
     | Some c \<Rightarrow>
        if ctx_created c \<or> \<not> fake_capset_supported cid then (Inl EINVAL, d)
        else case first_index (\<lambda>c. \<not> fc_live c) (fd_contexts d) of
          None \<Rightarrow> (Inl ENOMEM, d)
        | Some i \<Rightarrow>
           (let n = fd_next_ctx d;
                d = fc_upd i (\<lambda>c. c\<lparr>fc_id := n, fc_capset_id := cid, fc_live := True\<rparr>) (d\<lparr>fd_next_ctx := n + 1\<rparr>) in
            (Inr \<lparr> ctx_id = n, ctx_capset_id = cid, ctx_created = True \<rparr>,
             fd_count (\<lambda>m. m\<lparr>m_contexts_created := m_contexts_created m + 1\<rparr>) d)))"

definition fake_context_destroy :: "fake_dev \<Rightarrow> uk_virtio_gpu_context option
    \<Rightarrow> (errno + uk_virtio_gpu_context) \<times> fake_dev" where
  "fake_context_destroy d ctx =
    (case ctx of
       None \<Rightarrow> (Inl EINVAL, d)
     | Some c \<Rightarrow>
        if \<not> ctx_created c then (Inr c, d)
        else case fake_find_ctx d (ctx_id c) of
          None \<Rightarrow> (Inl EINVAL, d)
        | Some i \<Rightarrow> (Inr (c\<lparr>ctx_created := False\<rparr>),
            fd_count (\<lambda>m. m\<lparr>m_contexts_destroyed := m_contexts_destroyed m + 1\<rparr>)
              (fc_upd i (\<lambda>_. zero_fake_context) d)))"

definition fake_attach_resource :: "fake_dev \<Rightarrow> uk_virtio_gpu_context option \<Rightarrow> u32 \<Rightarrow> (errno + unit) \<times> fake_dev" where
  "fake_attach_resource d ctx res =
    (case Option.bind ctx (\<lambda>c. fake_find_ctx d (ctx_id c)) of
       None \<Rightarrow> (Inl EINVAL, d)
     | Some i \<Rightarrow>
        (let fc = fd_contexts d ! i; n = fc_attached_count fc in
         if fake_find_res d res = None then (Inl EINVAL, d)
         else if res \<in> set (take n (fc_attached fc)) then (Inr (), d)
         else if n \<ge> MAX_FAKE_RESOURCES then (Inl ENOMEM, d)
         else (Inr (), fc_upd i (\<lambda>c. c\<lparr>fc_attached := (fc_attached c)[n := res], fc_attached_count := n + 1\<rparr>) d)))"

definition fake_detach_resource :: "fake_dev \<Rightarrow> uk_virtio_gpu_context option \<Rightarrow> u32 \<Rightarrow> (errno + unit) \<times> fake_dev" where
  "fake_detach_resource d ctx res =
    (case Option.bind ctx (\<lambda>c. fake_find_ctx d (ctx_id c)) of
       None \<Rightarrow> (Inl EINVAL, d)
     | Some i \<Rightarrow>
        (let fc = fd_contexts d ! i; n = fc_attached_count fc in
         if fake_find_res d res = None then (Inl EINVAL, d)
         else case first_index (\<lambda>a. a = res) (take n (fc_attached fc)) of
           None \<Rightarrow> (Inl EINVAL, d)
         | Some j \<Rightarrow> (Inr (), fc_upd i (\<lambda>c. c\<lparr>fc_attached := (fc_attached c)[j := fc_attached c ! (n - 1)],
                                          fc_attached_count := n - 1\<rparr>) d)))"

definition fake_context_submit :: "fake_dev \<Rightarrow> uk_virtio_gpu_context option \<Rightarrow> u8 list option
    \<Rightarrow> (errno + u64) \<times> fake_dev" where
  "fake_context_submit d ctx cmd =
    (case (Option.bind ctx (\<lambda>c. fake_find_ctx d (ctx_id c)), cmd) of
       (Some _, Some bytes) \<Rightarrow>
        (if bytes = [] then (Inl EINVAL, d)
         else map_prod Inr id (fake_complete_fence (fd_count (\<lambda>m. m\<lparr>m_submits_3d := m_submits_3d m + 1\<rparr>) d)))
     | _ \<Rightarrow> (Inl EINVAL, d))"

section \<open>Blobs\<close>

definition fake_blob_create :: "fake_dev \<Rightarrow> u64 \<Rightarrow> u32 \<Rightarrow> u32 \<Rightarrow> u64 \<Rightarrow> uk_virtio_gpu_blob option
    \<Rightarrow> (errno + uk_virtio_gpu_blob) \<times> fake_dev" where
  "fake_blob_create d sz mem flags bid blob =
    (case blob of
       None \<Rightarrow> (Inl EINVAL, d)
     | Some b \<Rightarrow>
        if sz = 0 \<or> blob_created b then (Inl EINVAL, d)
        else if sz > MAX_FAKE_BLOB_SIZE then (Inl EOVERFLOW, d)
        else if mem \<noteq> BLOB_MEM_GUEST \<and> mem \<noteq> BLOB_MEM_HOST3D \<and> mem \<noteq> BLOB_MEM_HOST3D_GUEST
        then (Inl EINVAL, d)
        else case fake_alloc_res d of
          None \<Rightarrow> (Inl ENOMEM, d)
        | Some (i, d) \<Rightarrow>
           (let d = fr_upd i (\<lambda>r. r\<lparr>fr_is_3d := True, fr_size := sz\<rparr>) d in
            (Inr (zero_blob\<lparr> blob_resource_id := fr_id (fd_resources d ! i), blob_mem := mem, blob_flags := flags,
                   blob_id := bid, blob_size := sz, blob_created := True \<rparr>),
             fd_count (\<lambda>m. m\<lparr>m_blobs_created := m_blobs_created m + 1\<rparr>) d)))"

definition fake_blob_create_with_ctx :: "fake_dev \<Rightarrow> u32 \<Rightarrow> u64 \<Rightarrow> u32 \<Rightarrow> u32 \<Rightarrow> u64 \<Rightarrow> uk_virtio_gpu_blob option
    \<Rightarrow> (errno + uk_virtio_gpu_blob) \<times> fake_dev" where
  "fake_blob_create_with_ctx d ctx sz mem flags bid blob =
    (if ctx \<noteq> 0 \<and> fake_find_ctx d ctx = None then (Inl EINVAL, d)
     else fake_blob_create d sz mem flags bid blob)"

definition fake_blob_map :: "u64 option \<Rightarrow> fake_dev \<Rightarrow> uk_virtio_gpu_blob option
    \<Rightarrow> (errno + uk_virtio_gpu_blob) \<times> fake_dev" where
  "fake_blob_map addr d blob =
    (case blob of
       None \<Rightarrow> (Inl EINVAL, d)
     | Some b \<Rightarrow>
        if \<not> blob_created b \<or> blob_mapped b \<or> fake_find_res d (blob_resource_id b) = None then (Inl EINVAL, d)
        else case addr of
          None \<Rightarrow> (Inl ENOMEM, d)
        | Some a \<Rightarrow> (Inr (b\<lparr> blob_mapped_addr := a, blob_mapped_size := blob_size b, blob_reply_notif := a,
                             blob_map_info := 1, blob_mapped := True \<rparr>),
                     fd_count (\<lambda>m. m\<lparr>m_blobs_mapped := m_blobs_mapped m + 1\<rparr>) d))"

definition fake_blob_unmap :: "fake_dev \<Rightarrow> uk_virtio_gpu_blob option \<Rightarrow> (errno + uk_virtio_gpu_blob) \<times> fake_dev" where
  "fake_blob_unmap d blob =
    (case blob of
       None \<Rightarrow> (Inl EINVAL, d)
     | Some b \<Rightarrow>
        if \<not> blob_created b \<or> \<not> blob_mapped b then (Inl EINVAL, d)
        else (Inr (b\<lparr> blob_mapped_addr := 0, blob_mapped_size := 0, blob_reply_notif := 0, blob_mapped := False \<rparr>),
              fd_count (\<lambda>m. m\<lparr>m_blobs_unmapped := m_blobs_unmapped m + 1\<rparr>) d))"

definition fake_blob_destroy :: "fake_dev \<Rightarrow> uk_virtio_gpu_blob option \<Rightarrow> (errno + uk_virtio_gpu_blob) \<times> fake_dev" where
  "fake_blob_destroy d blob =
    (case blob of
       None \<Rightarrow> (Inl EINVAL, d)
     | Some b \<Rightarrow>
        if \<not> blob_created b \<or> blob_mapped b then (Inl EINVAL, d)
        else case fake_resource_unref d (blob_resource_id b) of
          (Inl _, d) \<Rightarrow> (Inl EINVAL, d)
        | (Inr _, d) \<Rightarrow> (Inr zero_blob, d))"

definition fake_metrics_get :: "fake_dev \<Rightarrow> bool \<Rightarrow> errno + uk_virtio_gpu_metrics" where
  "fake_metrics_get d m = (if m then Inr (fd_metrics d) else Inl EINVAL)"

definition fake_metrics_reset :: "fake_dev \<Rightarrow> fake_dev" where
  "fake_metrics_reset d = d\<lparr>fd_metrics := zero_metrics\<rparr>"

section \<open>The message codec where it differs\<close>

text \<open>The reply is decoded from the buffer, field by field; a structure is written also when a later field
  is missing.  \<open>reply\<close> is the caller's structure.\<close>

definition fake_apir_decode_handshake_reply :: "u8 list option \<Rightarrow> u32 \<Rightarrow> uk_virtio_gpu_apir_handshake option
    \<Rightarrow> (errno + unit) \<times> uk_virtio_gpu_apir_handshake option" where
  "fake_apir_decode_handshake_reply buf host_rc reply =
    (case reply of
       None \<Rightarrow> (Inl EINVAL, None)
     | Some r \<Rightarrow>
        if host_rc \<noteq> APIR_HANDSHAKE_MAGIC then (Inl EINVAL, reply)
        else let r = r\<lparr>hs_guest_major := APIR_PROTOCOL_MAJOR, hs_guest_minor := APIR_PROTOCOL_MINOR\<rparr> in
        case buf of
          None \<Rightarrow> (Inl EINVAL, Some r)
        | Some b \<Rightarrow>
           (case apir_get_u32 b 0 of
              Inl _ \<Rightarrow> (Inl EINVAL, Some r)
            | Inr (v1, off) \<Rightarrow>
               (let r = r\<lparr>hs_host_major := v1\<rparr> in
                case apir_get_u32 b off of
                  Inl _ \<Rightarrow> (Inl EINVAL, Some r)
                | Inr (v2, _) \<Rightarrow> (Inr (), Some (r\<lparr>hs_host_minor := v2\<rparr>)))))"

text \<open>\<open>handshake\<close>, \<open>load_library\<close> and \<open>forward\<close>: \<open>host_rc\<close> is \<open>-1\<close> here.\<close>

definition fake_apir_unsupported :: "bool \<Rightarrow> errno \<times> uk_virtio_gpu_apir_status option" where
  "fake_apir_unsupported status =
    (ENOTSUP, if status then Some \<lparr> st_transport_rc = - 95, st_host_rc = - 1, st_reply_size = 0 \<rparr> else None)"

end
