(* ===== verification/Slot_Maps.thy ===== *)
theory Slot_Maps
  imports Gpu_Device
begin

text \<open>
  A slot table as a finite map: what a lookup finds, as a function of the identifier.  Filling, changing
  and clearing a slot are the map's updates; a table with room has a free slot.
\<close>

context slot_table
begin

definition lookup :: "'e list \<Rightarrow> 'k \<Rightarrow> 'e option" where
  "lookup tab k = map_option ((!) tab) (find tab k)"

lemma lookup_iff:
  assumes "uniq tab"
  shows "lookup tab k = Some e \<longleftrightarrow> k \<noteq> null \<and> (\<exists>i<length tab. live (tab ! i) \<and> ident (tab ! i) = k \<and> e = tab ! i)"
proof (cases "k = null")
  case False
  show ?thesis unfolding lookup_def map_option_eq_Some using find_iff[OF assms False] False by auto
qed (simp add: lookup_def find_null)

lemma lookup_eqI:
  assumes "uniq tab" "\<And>k e. lookup tab k = Some e \<longleftrightarrow> m k = Some e" shows "lookup tab = m"
proof (rule ext)
  fix k show "lookup tab k = m k" using assms(2)[of k] by (cases "m k"; cases "lookup tab k") auto
qed

lemma lookup_fill:
  assumes "uniq tab" "uniq (tab[i := e])" "i < length tab" "\<not> live (tab ! i)" "live e" "ident e \<noteq> null"
  shows "lookup (tab[i := e]) = (lookup tab)(ident e \<mapsto> e)"
proof (rule lookup_eqI[OF assms(2)])
  fix k x
  have other: "find (tab[i := e]) k = find tab k" if "k \<noteq> ident e"
    using assms that by (intro find_other) auto
  have "j \<noteq> i" if "find tab k = Some j" for j using find_sound[OF that] assms(4) by auto
  moreover have "find (tab[i := e]) (ident e) = Some i" using assms by (intro find_filled) auto
  ultimately show "lookup (tab[i := e]) k = Some x \<longleftrightarrow> ((lookup tab)(ident e \<mapsto> e)) k = Some x"
    using other assms(3) by (cases "find tab k") (auto simp: lookup_def)
qed

lemma lookup_change:
  assumes "uniq tab" "find tab k = Some i" "live e" "ident e = k"
  shows "lookup (tab[i := e]) = (lookup tab)(k \<mapsto> e)"
proof -
  note s = find_sound[OF assms(2)]
  have u: "uniq (tab[i := e])" using assms s by (intro uniq_change) auto
  show ?thesis
  proof (rule lookup_eqI[OF u])
    fix k' x
    have other: "find (tab[i := e]) k' = find tab k'" if "k' \<noteq> k"
      using assms s u that by (intro find_other) auto
    have "j \<noteq> i" if "find tab k' = Some j" "k' \<noteq> k" for j using find_sound[OF that(1)] that(2) s by auto
    moreover have "find (tab[i := e]) k = Some i" using find_filled[OF u _ assms(3)] s assms(4) by simp
    ultimately show "lookup (tab[i := e]) k' = Some x \<longleftrightarrow> ((lookup tab)(k \<mapsto> e)) k' = Some x"
      using other s by (cases "find tab k'") (auto simp: lookup_def)
  qed
qed

lemma lookup_clear:
  assumes "uniq tab" "find tab k = Some i" "\<not> live e"
  shows "lookup (tab[i := e]) = (lookup tab)(k := None)"
proof -
  note s = find_sound[OF assms(2)]
  have u: "uniq (tab[i := e])" using assms by (intro uniq_kill)
  show ?thesis
  proof (rule lookup_eqI[OF u])
    fix k' x
    have other: "find (tab[i := e]) k' = find tab k'" if "k' \<noteq> k"
      using assms s u that by (intro find_other) auto
    have "j \<noteq> i" if "find tab k' = Some j" "k' \<noteq> k" for j using find_sound[OF that(1)] that(2) s by auto
    thus "lookup (tab[i := e]) k' = Some x \<longleftrightarrow> ((lookup tab)(k := None)) k' = Some x"
      using other s find_cleared[OF assms] by (cases "find tab k'") (auto simp: lookup_def)
  qed
qed

lemma lookup_dom: "lookup tab k = None \<longleftrightarrow> find tab k = None"
  by (simp add: lookup_def)

definition used :: "'e list \<Rightarrow> nat" where
  "used tab = length (filter live tab)"

lemma used_split:
  assumes "i < length tab"
  shows "used (tab[i := e]) + (if live (tab ! i) then 1 else 0) = used tab + (if live e then 1 else 0)"
proof -
  have "tab = take i tab @ tab ! i # drop (Suc i) tab" using assms by (rule id_take_nth_drop)
  hence "used tab = length (filter live (take i tab @ tab ! i # drop (Suc i) tab))" unfolding used_def by simp
  moreover have "used (tab[i := e]) = length (filter live (take i tab @ e # drop (Suc i) tab))"
    unfolding used_def by (simp only: upd_conv_take_nth_drop[OF assms])
  ultimately show ?thesis by simp
qed

lemma used_update: "used (tab[i := e]) \<le> used tab + 1"
  using used_split[of i tab e] by (cases "i < length tab") (auto simp: list_update_beyond split: if_splits)

lemma used_kept: "(live e \<Longrightarrow> live (tab ! i)) \<Longrightarrow> used (tab[i := e]) \<le> used tab"
  using used_split[of i tab e] by (cases "i < length tab") (auto simp: list_update_beyond split: if_splits)

lemma free_slot:
  assumes "used tab < length tab" shows "free tab \<noteq> None"
proof
  assume "free tab = None"
  hence "filter live tab = tab" by (simp add: free_None_iff filter_id_conv all_set_conv_all_nth)
  thus False using assms by (simp add: used_def)
qed

end

end
