(* ===== verification/Gpu_Calls.thy ===== *)
theory Gpu_Calls
  imports Gpu_Steps
begin

text \<open>
  The calls that the real driver and the fake have in common, as data: the operation with its arguments.
  \<open>real_do\<close> performs one on the driver; its result is the identifier the call returns, 0 when it returns none.
\<close>

section \<open>Calls\<close>

datatype shared_call =
    SCreate u32 u32 u32
  | SAttach u32 "(u64 \<times> u64) list option"
  | STransfer u32 "uk_gpu_rect option" bool
  | SFlush u32 "uk_gpu_rect option" bool
  | SBoth u32 "uk_gpu_rect option"
  | SScanout u32 "uk_gpu_rect option"
  | SDetach u32
  | SUnref u32
  | SUuid u32
  | SContext u32 "u8 list option"
  | SDestroy u32
  | SLink u32 u32
  | SSubmit u32 "u8 list option" bool

text \<open>The client's structure of a context it has created.\<close>

definition handle :: "u32 \<Rightarrow> uk_virtio_gpu_context" where
  "handle c = \<lparr> ctx_id = c, ctx_capset_id = 0, ctx_created = True \<rparr>"

definition no_id :: "errno + 'a \<Rightarrow> errno + u32" where
  "no_id r = map_sum id (\<lambda>_. 0) r"

fun real_do :: "'h env \<Rightarrow> shared_call \<Rightarrow> 'h sys \<Rightarrow> ((errno + u32) \<times> 'h sys) option" where
  "real_do e (SCreate w h fmt) s = uk_virtio_gpu_resource_create_2d e w h fmt True s"
| "real_do e (SAttach r sg) s = map_option (map_prod no_id id) (uk_virtio_gpu_resource_attach_backing e r sg s)"
| "real_do e (STransfer r rect f) s =
     map_option (\<lambda>(rc, _, s). (no_id rc, s)) (uk_virtio_gpu_transfer_to_host_2d e r rect f s)"
| "real_do e (SFlush r rect f) s = map_option (\<lambda>(rc, _, s). (no_id rc, s)) (uk_virtio_gpu_resource_flush e r rect f s)"
| "real_do e (SBoth r rect) s =
     map_option (\<lambda>(rc, _, s). (no_id rc, s)) (uk_virtio_gpu_transfer_and_flush_2d e r rect True s)"
| "real_do e (SScanout r rect) s = map_option (map_prod no_id id) (uk_virtio_gpu_gl_set_scanout e 0 r rect s)"
| "real_do e (SDetach r) s = map_option (map_prod no_id id) (uk_virtio_gpu_gl_resource_detach_backing e r s)"
| "real_do e (SUnref r) s = map_option (map_prod no_id id) (uk_virtio_gpu_gl_resource_unref e r s)"
| "real_do e (SUuid r) s = map_option (map_prod no_id id) (uk_virtio_gpu_gl_resource_assign_uuid e r True s)"
| "real_do e (SContext cid nm) s =
     map_option (map_prod (map_sum id ctx_id) id) (uk_virtio_gpu_gl_context_create e cid nm True s)"
| "real_do e (SDestroy c) s = map_option (map_prod no_id id) (uk_virtio_gpu_gl_context_destroy e (Some (handle c)) s)"
| "real_do e (SLink c r) s =
     map_option (map_prod no_id id) (uk_virtio_gpu_gl_context_attach_resource e (Some (handle c)) r s)"
| "real_do e (SSubmit c cmd f) s =
     map_option (\<lambda>(rc, _, s). (no_id rc, s)) (uk_virtio_gpu_gl_context_submit e (Some (handle c)) cmd f s)"

lemma map_sum_Inr: "map_sum f g r = Inr n \<longleftrightarrow> (\<exists>x. r = Inr x \<and> n = g x)"
  by (cases r) auto

lemma no_id_Inr: "no_id r = Inr n \<longleftrightarrow> (\<exists>x. r = Inr x) \<and> n = 0"
  by (cases r) (auto simp: no_id_def)

lemma real_do_ok: "real_do e c s = Some (r, s') \<Longrightarrow> op_ok s s'"
  by (cases c) (auto simp: uk_virtio_gpu_gl_context_attach_resource_def dest: op_ok_rules)

end
