(* ===== verification/Fake_Refinement.thy ===== *)
theory Fake_Refinement
  imports Fake_Gpu Slot_Maps Gpu_Calls
begin

text \<open>
  What the two implementations of the driver's interface have in common.  The specification is a view of
  the device (which resources and contexts exist, and the next identifiers) with a success step per
  call of the shared interface.  The fake backend implements it exactly while its tables have room; a call
  that succeeds on the real driver, on whatever host, makes the same step.
\<close>

section \<open>The fake's tables are slot tables\<close>

interpretation frt: slot_table fr_live fr_id 0 fake_res_find "first_index (\<lambda>r. \<not> fr_live r)"
  by unfold_locales (auto simp: fake_res_find_def first_index_Some first_index_None split: if_splits)

interpretation fct: slot_table fc_live fc_id 0 fake_ctx_find "first_index (\<lambda>c. \<not> fc_live c)"
  by unfold_locales (auto simp: fake_ctx_find_def first_index_Some first_index_None split: if_splits)

definition attach_list_ok :: "fake_context \<Rightarrow> bool" where
  "attach_list_ok c \<longleftrightarrow> length (fc_attached c) = MAX_FAKE_RESOURCES \<and> fc_attached_count c \<le> MAX_FAKE_RESOURCES \<and>
     distinct (take (fc_attached_count c) (fc_attached c))"

definition fake_inv :: "fake_dev \<Rightarrow> bool" where
  "fake_inv d \<longleftrightarrow>
    length (fd_resources d) = MAX_FAKE_RESOURCES \<and> length (fd_contexts d) = MAX_FAKE_CONTEXTS \<and>
    frt.uniq (fd_resources d) \<and> fct.uniq (fd_contexts d) \<and>
    (\<forall>r\<in>set (fd_resources d). fr_live r \<longrightarrow> fr_id r \<noteq> 0 \<and> fr_id r < fd_next_res d) \<and>
    (\<forall>c\<in>set (fd_contexts d). fc_live c \<longrightarrow> fc_id c \<noteq> 0 \<and> fc_id c < fd_next_ctx d) \<and>
    (\<forall>c\<in>set (fd_contexts d). attach_list_ok c) \<and>
    fd_next_res d \<noteq> 0 \<and> fd_next_ctx d \<noteq> 0"

lemma fake_inv_frame [simp]:
  "fake_inv (d\<lparr>fd_metrics := m\<rparr>) = fake_inv d"
  "fake_inv (d\<lparr>fd_next_fence := a\<rparr>) = fake_inv d"
  "fake_inv (d\<lparr>fd_completed_fence := b\<rparr>) = fake_inv d"
  by (simp_all add: fake_inv_def)

lemma fake_new_inv: "fake_inv fake_new_dev"
  by (auto simp: fake_inv_def fake_new_dev_def frt.uniq_def fct.uniq_def zero_fake_resource_def
      zero_fake_context_def attach_list_ok_def)

section \<open>The shared interface and its specification\<close>

definition fresh_handle :: uk_virtio_gpu_context where
  "fresh_handle = \<lparr> ctx_id = 0, ctx_capset_id = 0, ctx_created = False \<rparr>"

fun fake_do :: "shared_call \<Rightarrow> fake_dev \<Rightarrow> (errno + u32) \<times> fake_dev" where
  "fake_do (SCreate w h fmt) d = fake_resource_create_2d d w h fmt True"
| "fake_do (SAttach r sg) d = map_prod no_id id (fake_attach_backing d r sg)"
| "fake_do (STransfer r rect f) d = map_prod no_id id (fake_transfer_to_host_2d d r rect)"
| "fake_do (SFlush r rect f) d = map_prod no_id id (fake_resource_flush d r rect)"
| "fake_do (SBoth r rect) d = map_prod no_id id (fake_transfer_and_flush_2d d r rect True)"
| "fake_do (SScanout r rect) d = (no_id (fake_set_scanout d 0 r rect), d)"
| "fake_do (SDetach r) d = map_prod no_id id (fake_detach_backing d r)"
| "fake_do (SUnref r) d = map_prod no_id id (fake_resource_unref d r)"
| "fake_do (SUuid r) d = map_prod no_id id (fake_assign_uuid d r True)"
| "fake_do (SContext cid nm) d = map_prod (map_sum id ctx_id) id (fake_context_create d cid (Some fresh_handle))"
| "fake_do (SDestroy c) d = map_prod no_id id (fake_context_destroy d (Some (handle c)))"
| "fake_do (SLink c r) d = map_prod no_id id (fake_attach_resource d (Some (handle c)) r)"
| "fake_do (SSubmit c cmd f) d = map_prod no_id id (fake_context_submit d (Some (handle c)) cmd)"

text \<open>A resource is seen as its width, its height and whether backing is attached; a context by its existence.\<close>

record gpu_view =
  v_res :: "u32 \<rightharpoonup> u32 \<times> u32 \<times> bool"
  v_ctx :: "u32 \<rightharpoonup> unit"
  v_next_res :: u32
  v_next_ctx :: u32

definition real_view :: "uk_virtio_gpu_dev \<Rightarrow> gpu_view" where
  "real_view d = \<lparr> v_res = map_option (\<lambda>r. (r_width r, r_height r, r_backing_attached r)) \<circ> rt.lookup (resources d),
     v_ctx = map_option (\<lambda>_. ()) \<circ> ct.lookup (contexts d), v_next_res = next_res d, v_next_ctx = next_ctx d \<rparr>"

definition fake_view :: "fake_dev \<Rightarrow> gpu_view" where
  "fake_view d = \<lparr> v_res = map_option (\<lambda>r. (fr_width r, fr_height r, fr_backing_attached r)) \<circ> frt.lookup (fd_resources d),
     v_ctx = map_option (\<lambda>_. ()) \<circ> fct.lookup (fd_contexts d), v_next_res = fd_next_res d, v_next_ctx = fd_next_ctx d \<rparr>"

definition backed :: "gpu_view \<Rightarrow> u32 \<Rightarrow> bool" where
  "backed v r = (case v_res v r of None \<Rightarrow> False | Some (_, _, b) \<Rightarrow> b)"

definition set_backed :: "bool \<Rightarrow> u32 \<Rightarrow> gpu_view \<Rightarrow> gpu_view" where
  "set_backed b r v = (case v_res v r of None \<Rightarrow> v | Some (w, h, _) \<Rightarrow> v\<lparr>v_res := (v_res v)(r \<mapsto> (w, h, b))\<rparr>)"

text \<open>When a call is accepted, the identifier it returns (0 when it returns none) and its effect.\<close>

fun spec_ok :: "shared_call \<Rightarrow> gpu_view \<Rightarrow> bool" where
  "spec_ok (SCreate w h fmt) v = (w \<noteq> 0 \<and> h \<noteq> 0)"
| "spec_ok (SAttach r sg) v = (v_res v r \<noteq> None \<and> (case sg of None \<Rightarrow> False | Some segs \<Rightarrow> segs \<noteq> [] \<and> snd (hd segs) \<noteq> 0))"
| "spec_ok (STransfer r rect f) v = (backed v r \<and> \<not> bad_rect rect)"
| "spec_ok (SFlush r rect f) v = (v_res v r \<noteq> None \<and> \<not> bad_rect rect)"
| "spec_ok (SBoth r rect) v = (backed v r \<and> \<not> bad_rect rect)"
| "spec_ok (SScanout r rect) v = (v_res v r \<noteq> None \<and> \<not> bad_rect rect)"
| "spec_ok (SDetach r) v = backed v r"
| "spec_ok (SUnref r) v = (v_res v r \<noteq> None)"
| "spec_ok (SUuid r) v = (v_res v r \<noteq> None)"
| "spec_ok (SContext cid nm) v = fake_capset_supported cid"
| "spec_ok (SDestroy c) v = (v_ctx v c \<noteq> None)"
| "spec_ok (SLink c r) v = (v_ctx v c \<noteq> None \<and> v_res v r \<noteq> None)"
| "spec_ok (SSubmit c cmd f) v = (v_ctx v c \<noteq> None \<and> cmd \<noteq> None \<and> cmd \<noteq> Some [])"

fun spec_step :: "shared_call \<Rightarrow> gpu_view \<Rightarrow> u32 \<times> gpu_view" where
  "spec_step (SCreate w h fmt) v =
     (v_next_res v, v\<lparr>v_res := (v_res v)(v_next_res v \<mapsto> (w, h, False)), v_next_res := v_next_res v + 1\<rparr>)"
| "spec_step (SAttach r sg) v = (0, set_backed True r v)"
| "spec_step (SDetach r) v = (0, set_backed False r v)"
| "spec_step (SUnref r) v = (0, v\<lparr>v_res := (v_res v)(r := None)\<rparr>)"
| "spec_step (SContext cid nm) v =
     (v_next_ctx v, v\<lparr>v_ctx := (v_ctx v)(v_next_ctx v \<mapsto> ()), v_next_ctx := v_next_ctx v + 1\<rparr>)"
| "spec_step (SDestroy c) v = (0, v\<lparr>v_ctx := (v_ctx v)(c := None)\<rparr>)"
| "spec_step _ v = (0, v)"

section \<open>The fake implements the specification\<close>

lemma fake_view_frame [simp]:
  "fake_view (d\<lparr>fd_metrics := m\<rparr>) = fake_view d"
  "fake_view (d\<lparr>fd_next_fence := a\<rparr>) = fake_view d"
  "fake_view (d\<lparr>fd_completed_fence := b\<rparr>) = fake_view d"
  "fake_find_res (d\<lparr>fd_metrics := m\<rparr>) k = fake_find_res d k"
  "fake_find_res (d\<lparr>fd_next_fence := a\<rparr>) k = fake_find_res d k"
  "fake_find_res (d\<lparr>fd_completed_fence := b\<rparr>) k = fake_find_res d k"
  by (simp_all add: fake_view_def fake_find_res_def)

lemma fake_res_SomeD:
  "fake_find_res d k = Some i \<Longrightarrow>
    i < length (fd_resources d) \<and> fr_live (fd_resources d ! i) \<and> fr_id (fd_resources d ! i) = k \<and> k \<noteq> 0"
  unfolding fake_find_res_def by (rule frt.find_sound)

lemma fake_ctx_SomeD:
  "fake_find_ctx d k = Some i \<Longrightarrow>
    i < length (fd_contexts d) \<and> fc_live (fd_contexts d ! i) \<and> fc_id (fd_contexts d ! i) = k \<and> k \<noteq> 0"
  unfolding fake_find_ctx_def by (rule fct.find_sound)

lemma fake_view_find:
  "v_res (fake_view d) k = map_option (\<lambda>i. let r = fd_resources d ! i in (fr_width r, fr_height r, fr_backing_attached r)) (fake_find_res d k)"
  "v_ctx (fake_view d) k = map_option (\<lambda>_. ()) (fake_find_ctx d k)"
  by (simp_all add: fake_view_def frt.lookup_def fct.lookup_def fake_find_res_def fake_find_ctx_def
      option.map_comp comp_def Let_def)

lemma fake_backed:
  "backed (fake_view d) k \<longleftrightarrow> (\<exists>i. fake_find_res d k = Some i \<and> fr_backing_attached (fd_resources d ! i))"
  by (simp add: backed_def fake_view_find Let_def split: option.splits)

lemma set_list_update: "x \<in> set (xs[i := y]) \<Longrightarrow> x = y \<or> x \<in> set xs"
  using set_update_subset_insert[of xs i y] by blast

lemma fake_res_change:
  assumes "fake_inv d" "fake_find_res d k = Some i" "fr_live (f (fd_resources d ! i))" "fr_id (f (fd_resources d ! i)) = k"
  shows "fake_inv (fr_upd i f d)"
    "fake_view (fr_upd i f d) = (fake_view d)\<lparr>v_res := (v_res (fake_view d))(k \<mapsto>
      (let r = f (fd_resources d ! i) in (fr_width r, fr_height r, fr_backing_attached r)))\<rparr>"
proof -
  note s = fake_res_SomeD[OF assms(2)]
  have u: "frt.uniq (fd_resources d)" using assms(1) by (simp add: fake_inv_def)
  have "frt.uniq ((fd_resources d)[i := f (fd_resources d ! i)])"
    using s assms(3,4) by (intro frt.uniq_change[OF u]) auto
  moreover have "fr_live r \<longrightarrow> fr_id r \<noteq> 0 \<and> fr_id r < fd_next_res d"
    if "r \<in> set ((fd_resources d)[i := f (fd_resources d ! i)])" for r
  proof -
    have "fd_resources d ! i \<in> set (fd_resources d)" using s by simp
    hence "fr_id (fd_resources d ! i) < fd_next_res d" using assms(1) s by (auto simp: fake_inv_def)
    thus ?thesis using set_list_update[OF that] assms(1,4) s by (auto simp: fake_inv_def)
  qed
  ultimately show "fake_inv (fr_upd i f d)" using assms(1) by (simp add: fake_inv_def fr_upd_def)
  show "fake_view (fr_upd i f d) = (fake_view d)\<lparr>v_res := (v_res (fake_view d))(k \<mapsto>
      (let r = f (fd_resources d ! i) in (fr_width r, fr_height r, fr_backing_attached r)))\<rparr>"
    using frt.lookup_change[OF u assms(2)[unfolded fake_find_res_def] assms(3,4)]
    by (simp add: fake_view_def fr_upd_def Let_def)
qed

lemma fake_res_clear:
  assumes "fake_inv d" "fake_find_res d k = Some i"
  shows "fake_inv (fr_upd i (\<lambda>_. zero_fake_resource) d)"
    "fake_view (fr_upd i (\<lambda>_. zero_fake_resource) d) = (fake_view d)\<lparr>v_res := (v_res (fake_view d))(k := None)\<rparr>"
proof -
  have z: "\<not> fr_live zero_fake_resource" by (simp add: zero_fake_resource_def)
  have u: "frt.uniq (fd_resources d)" using assms(1) by (simp add: fake_inv_def)
  show "fake_inv (fr_upd i (\<lambda>_. zero_fake_resource) d)"
    using assms(1) z frt.uniq_kill[OF u z] by (auto simp: fake_inv_def fr_upd_def dest!: set_list_update)
  show "fake_view (fr_upd i (\<lambda>_. zero_fake_resource) d) = (fake_view d)\<lparr>v_res := (v_res (fake_view d))(k := None)\<rparr>"
    using frt.lookup_clear[OF u assms(2)[unfolded fake_find_res_def] z]
    by (auto simp: fake_view_def fr_upd_def)
qed

lemma fake_alloc:
  assumes "fake_inv d" "frt.used (fd_resources d) < MAX_FAKE_RESOURCES"
  obtains i d' where "fake_alloc_res d = Some (i, d')" "i < length (fd_resources d)" "\<not> fr_live (fd_resources d ! i)"
    "fd_resources d' = (fd_resources d)[i := zero_fake_resource\<lparr>fr_id := fd_next_res d, fr_live := True\<rparr>]"
    "fd_next_res d' = fd_next_res d + 1" "fd_contexts d' = fd_contexts d" "fd_next_ctx d' = fd_next_ctx d"
proof -
  have "first_index (\<lambda>r. \<not> fr_live r) (fd_resources d) \<noteq> None"
    using assms frt.free_slot by (simp add: fake_inv_def)
  then obtain i where i: "first_index (\<lambda>r. \<not> fr_live r) (fd_resources d) = Some i" by blast
  show thesis using that i first_index_SomeD[OF i] by (simp add: fake_alloc_res_def)
qed

lemma fake_res_fill:
  assumes "fake_inv d" "i < length (fd_resources d)" "\<not> fr_live (fd_resources d ! i)"
    "fr_live e" "fr_id e = fd_next_res d" "fd_next_res d + 1 \<noteq> 0"
    "fd_resources d' = (fd_resources d)[i := e]" "fd_next_res d' = fd_next_res d + 1"
    "fd_contexts d' = fd_contexts d" "fd_next_ctx d' = fd_next_ctx d"
  shows "fake_inv d'"
    "fake_view d' = (fake_view d)\<lparr>v_res := (v_res (fake_view d))(fd_next_res d \<mapsto>
       (fr_width e, fr_height e, fr_backing_attached e)), v_next_res := fd_next_res d + 1\<rparr>"
proof -
  have u: "frt.uniq (fd_resources d)" and nz: "fd_next_res d \<noteq> 0" using assms(1) by (simp_all add: fake_inv_def)
  have lt: "fd_next_res d < fd_next_res d + 1" by (rule self_less_plus_1[OF assms(6)])
  have fresh: "fr_id r \<noteq> fd_next_res d" if "r \<in> set (fd_resources d)" "fr_live r" for r
    using that assms(1) by (auto simp: fake_inv_def)
  have u': "frt.uniq ((fd_resources d)[i := e])"
    using fresh assms(5) by (intro frt.uniq_fill[OF u assms(2)]) auto
  have "fr_live r \<longrightarrow> fr_id r \<noteq> 0 \<and> fr_id r < fd_next_res d + 1" if "r \<in> set ((fd_resources d)[i := e])" for r
    using set_list_update[OF that] assms(1,5) nz lt by (auto simp: fake_inv_def intro: less_trans)
  thus "fake_inv d'" using assms u' by (simp add: fake_inv_def)
  show "fake_view d' = (fake_view d)\<lparr>v_res := (v_res (fake_view d))(fd_next_res d \<mapsto>
       (fr_width e, fr_height e, fr_backing_attached e)), v_next_res := fd_next_res d + 1\<rparr>"
    using frt.lookup_fill[OF u u' assms(2-4)] assms nz by (simp add: fake_view_def)
qed

text \<open>The same for contexts: a change that keeps the slot, a cleared slot, a filled slot.\<close>

lemma fake_ctx_change:
  assumes "fake_inv d" "fake_find_ctx d k = Some i" "fc_live (f (fd_contexts d ! i)) = fc_live (fd_contexts d ! i)"
    "fc_id (f (fd_contexts d ! i)) = fc_id (fd_contexts d ! i)" "attach_list_ok (f (fd_contexts d ! i))"
  shows "fake_inv (fc_upd i f d)" "fake_view (fc_upd i f d) = fake_view d"
proof -
  note s = fake_ctx_SomeD[OF assms(2)]
  have u: "fct.uniq (fd_contexts d)" using assms(1) by (simp add: fake_inv_def)
  have m: "fd_contexts d ! i \<in> set (fd_contexts d)" using s by simp
  have "fct.uniq ((fd_contexts d)[i := f (fd_contexts d ! i)])"
    using assms(3,4) by (intro fct.uniq_change[OF u]) auto
  thus "fake_inv (fc_upd i f d)"
    using assms m by (auto simp: fake_inv_def fc_upd_def dest!: set_list_update)
  have "v_ctx (fake_view d) k = Some ()" using assms(2) by (simp add: fake_view_find)
  moreover have "fct.lookup ((fd_contexts d)[i := f (fd_contexts d ! i)])
      = (fct.lookup (fd_contexts d))(k \<mapsto> f (fd_contexts d ! i))"
    using assms(3,4) s by (intro fct.lookup_change[OF u assms(2)[unfolded fake_find_ctx_def]]) auto
  ultimately show "fake_view (fc_upd i f d) = fake_view d"
    by (auto simp: fake_view_def fc_upd_def fun_eq_iff)
qed

lemma zero_context_ok: "\<not> fc_live zero_fake_context" "attach_list_ok zero_fake_context"
  by (simp_all add: zero_fake_context_def attach_list_ok_def)

lemma fake_ctx_clear:
  assumes "fake_inv d" "fake_find_ctx d k = Some i"
  shows "fake_inv (fc_upd i (\<lambda>_. zero_fake_context) d)"
    "fake_view (fc_upd i (\<lambda>_. zero_fake_context) d) = (fake_view d)\<lparr>v_ctx := (v_ctx (fake_view d))(k := None)\<rparr>"
proof -
  have u: "fct.uniq (fd_contexts d)" using assms(1) by (simp add: fake_inv_def)
  show "fake_inv (fc_upd i (\<lambda>_. zero_fake_context) d)"
    using assms(1) zero_context_ok fct.uniq_kill[OF u zero_context_ok(1)]
    by (auto simp: fake_inv_def fc_upd_def dest!: set_list_update)
  show "fake_view (fc_upd i (\<lambda>_. zero_fake_context) d) = (fake_view d)\<lparr>v_ctx := (v_ctx (fake_view d))(k := None)\<rparr>"
    using fct.lookup_clear[OF u assms(2)[unfolded fake_find_ctx_def] zero_context_ok(1)]
    by (auto simp: fake_view_def fc_upd_def)
qed

lemma fake_ctx_fill:
  fixes cid :: u32
  assumes "fake_inv d" "first_index (\<lambda>c. \<not> fc_live c) (fd_contexts d) = Some i" "fd_next_ctx d + 1 \<noteq> 0"
  defines "d' \<equiv> fc_upd i (\<lambda>c. c\<lparr>fc_id := fd_next_ctx d, fc_capset_id := cid, fc_live := True\<rparr>)
      (d\<lparr>fd_next_ctx := fd_next_ctx d + 1\<rparr>)"
  shows "fake_inv d'"
    "fake_view d' = (fake_view d)\<lparr>v_ctx := (v_ctx (fake_view d))(fd_next_ctx d \<mapsto> ()), v_next_ctx := fd_next_ctx d + 1\<rparr>"
proof -
  let ?e = "(fd_contexts d ! i)\<lparr>fc_id := fd_next_ctx d, fc_capset_id := cid, fc_live := True\<rparr>"
  note i = first_index_SomeD[OF assms(2)]
  have d': "d' = d\<lparr>fd_next_ctx := fd_next_ctx d + 1, fd_contexts := (fd_contexts d)[i := ?e]\<rparr>"
    by (simp add: d'_def fc_upd_def)
  have u: "fct.uniq (fd_contexts d)" and nz: "fd_next_ctx d \<noteq> 0" using assms(1) by (simp_all add: fake_inv_def)
  have lt: "fd_next_ctx d < fd_next_ctx d + 1" by (rule self_less_plus_1[OF assms(3)])
  have fresh: "fc_id c \<noteq> fd_next_ctx d" if "c \<in> set (fd_contexts d)" "fc_live c" for c
    using that assms(1) by (auto simp: fake_inv_def)
  have u': "fct.uniq ((fd_contexts d)[i := ?e])"
    using fresh by (intro fct.uniq_fill[OF u i(1)]) auto
  have "fc_live c \<longrightarrow> fc_id c \<noteq> 0 \<and> fc_id c < fd_next_ctx d + 1" if "c \<in> set ((fd_contexts d)[i := ?e])" for c
    using set_list_update[OF that] assms(1) nz lt by (auto simp: fake_inv_def intro: less_trans)
  moreover have "attach_list_ok c" if "c \<in> set ((fd_contexts d)[i := ?e])" for c
    using set_list_update[OF that] assms(1) i(1) nth_mem[OF i(1)] by (auto simp: fake_inv_def attach_list_ok_def)
  ultimately show "fake_inv d'" using assms(1,3) u' by (simp add: d' fake_inv_def)
  show "fake_view d' = (fake_view d)\<lparr>v_ctx := (v_ctx (fake_view d))(fd_next_ctx d \<mapsto> ()), v_next_ctx := fd_next_ctx d + 1\<rparr>"
    using fct.lookup_fill[OF u u' i(1,2)] nz by (simp add: d' fake_view_def)
qed

lemma attach_more:
  assumes "attach_list_ok c" "res \<notin> set (take (fc_attached_count c) (fc_attached c))" "fc_attached_count c < MAX_FAKE_RESOURCES"
  shows "attach_list_ok (c\<lparr>fc_attached := (fc_attached c)[fc_attached_count c := res], fc_attached_count := fc_attached_count c + 1\<rparr>)"
proof -
  let ?n = "fc_attached_count c" and ?a = "fc_attached c"
  have n: "?n < length ?a" using assms(1,3) by (simp add: attach_list_ok_def)
  have "take (?n + 1) (?a[?n := res]) = take ?n ?a @ [res]"
    using n by (simp add: take_Suc_conv_app_nth)
  thus ?thesis using assms by (simp add: attach_list_ok_def)
qed

lemma checked_mul_fits: "unat a * unat b < 2 ^ 64 \<Longrightarrow> checked_mul_u64 a b = Inr (a * b)"
proof -
  assume lt: "unat a * unat b < 2 ^ 64"
  have "b \<le> - 1 div a" if a: "a \<noteq> 0"
  proof -
    have "unat b * unat a \<le> 2 ^ 64 - 1" using lt by (simp add: mult.commute)
    hence "unat b \<le> (2 ^ 64 - 1) div unat a"
      using a by (simp add: less_eq_div_iff_mult_less_eq unat_gt_0)
    thus ?thesis by (simp add: word_le_nat_alt unat_div unsigned_minus_1_eq_mask mask_eq_exp_minus_1)
  qed
  thus ?thesis by (auto simp: checked_mul_u64_def not_less)
qed

lemma fake_size_fits:
  assumes "unat w * unat h * 4 < 2 ^ 64" shows "\<exists>sz. fake_resource_size w h 1 = Inr sz"
proof -
  have w: "unat (ucast w :: u64) = unat w" "unat (ucast h :: u64) = unat h"
    by simp_all
  let ?m = "ucast w * ucast h :: u64"
  have lt: "unat w * unat h < 2 ^ 64" using assms by linarith
  hence m: "unat ?m = unat w * unat h" using unat_mult_small[of "ucast w :: u64" "ucast h"] w by simp
  have "checked_mul_u64 (ucast w) (ucast h) = Inr ?m"
    using checked_mul_fits[of "ucast w" "ucast h"] lt w by simp
  moreover have "checked_mul_u64 ?m 1 = Inr ?m" using lt checked_mul_fits[of ?m 1] by (simp add: m)
  moreover have "checked_mul_u64 ?m 4 = Inr (?m * 4)" using assms checked_mul_fits[of ?m 4] by (simp add: m)
  ultimately show ?thesis by (simp add: fake_resource_size_def)
qed

text \<open>What the fake's tables must have left for a call: its tables are smaller than the driver's.\<close>

fun fits :: "shared_call \<Rightarrow> fake_dev \<Rightarrow> bool" where
  "fits (SCreate w h fmt) d = (frt.used (fd_resources d) < MAX_FAKE_RESOURCES \<and> unat w * unat h * 4 < 2 ^ 64)"
| "fits (SContext cid nm) d = (fct.used (fd_contexts d) < MAX_FAKE_CONTEXTS)"
| "fits (SLink c r) d = (\<forall>fc\<in>set (fd_contexts d). fc_attached_count fc < MAX_FAKE_RESOURCES)"
| "fits _ d = True"

definition implements :: "shared_call \<Rightarrow> fake_dev \<Rightarrow> (errno + u32) \<times> fake_dev \<Rightarrow> bool" where
  "implements c d out \<longleftrightarrow>
    (case out of (r, d') \<Rightarrow> fake_inv d' \<and>
      (if spec_ok c (fake_view d)
       then r = Inr (fst (spec_step c (fake_view d))) \<and> fake_view d' = snd (spec_step c (fake_view d))
       else (\<exists>er. r = Inl er) \<and> d' = d))"

lemma fake_create_implements:
  assumes "fake_inv d" "fits (SCreate w h fmt) d" "fd_next_res d + 1 \<noteq> 0"
  shows "implements (SCreate w h fmt) d (fake_do (SCreate w h fmt) d)"
proof (cases "w = 0 \<or> h = 0")
  case True
  thus ?thesis using assms(1) by (auto simp: implements_def fake_resource_create_2d_def)
next
  case False
  have "frt.used (fd_resources d) < MAX_FAKE_RESOURCES" using assms(2) by simp
  from fake_alloc[OF assms(1) this] obtain i d1 where al: "fake_alloc_res d = Some (i, d1)"
    "i < length (fd_resources d)" "\<not> fr_live (fd_resources d ! i)"
    "fd_resources d1 = (fd_resources d)[i := zero_fake_resource\<lparr>fr_id := fd_next_res d, fr_live := True\<rparr>]"
    "fd_next_res d1 = fd_next_res d + 1" "fd_contexts d1 = fd_contexts d" "fd_next_ctx d1 = fd_next_ctx d" .
  obtain sz where sz: "fake_resource_size w h 1 = Inr sz" using fake_size_fits[of w h] assms(2) by auto
  let ?e = "zero_fake_resource\<lparr>fr_id := fd_next_res d, fr_live := True, fr_width := w, fr_height := h,
    fr_depth := 1, fr_format := fmt, fr_size := sz\<rparr>"
  obtain d' where d': "fake_do (SCreate w h fmt) d = (Inr (fd_next_res d), d')"
    "fd_resources d' = (fd_resources d)[i := ?e]" "fd_next_res d' = fd_next_res d + 1"
    "fd_contexts d' = fd_contexts d" "fd_next_ctx d' = fd_next_ctx d"
    using False al sz by (simp add: fake_resource_create_2d_def fr_upd_def)
  have e: "fr_live ?e" "fr_id ?e = fd_next_res d" by simp_all
  note F = fake_res_fill[OF assms(1) al(2,3) e assms(3) d'(2-5)]
  show ?thesis
    using False F d'(1) by (simp add: implements_def fake_view_def zero_fake_resource_def del: fake_do.simps)
qed

lemma fake_reads_implement:
  assumes "fake_inv d"
  shows "implements (SFlush r rect b) d (fake_do (SFlush r rect b) d)"
    "implements (STransfer r rect b) d (fake_do (STransfer r rect b) d)"
    "implements (SBoth r rect) d (fake_do (SBoth r rect) d)"
    "implements (SScanout r rect) d (fake_do (SScanout r rect) d)"
    "implements (SSubmit c cmd b) d (fake_do (SSubmit c cmd b) d)"
  using assms
  by (auto simp: implements_def no_id_def fake_resource_flush_def fake_transfer_to_host_2d_def
      fake_transfer_and_flush_2d_def fake_set_scanout_def fake_context_submit_def fake_complete_fence_def
      fake_backed fake_view_find handle_def Let_def split: option.splits)

lemma fake_changes_implement:
  assumes "fake_inv d"
  shows "implements (SAttach r sg) d (fake_do (SAttach r sg) d)"
    "implements (SDetach r) d (fake_do (SDetach r) d)"
    "implements (SUnref r) d (fake_do (SUnref r) d)"
    "implements (SUuid r) d (fake_do (SUuid r) d)"
proof -
  have upd: "fake_inv (fr_upd i f d) \<and> fake_view (fr_upd i f d) = set_backed (fr_backing_attached (f (fd_resources d ! i))) r (fake_view d)"
    if "fake_find_res d r = Some i" "\<And>x. fr_live (f x) = fr_live x \<and> fr_id (f x) = fr_id x \<and> fr_width (f x) = fr_width x
      \<and> fr_height (f x) = fr_height x" for i f
    using fake_res_change[OF assms that(1), of f] that fake_res_SomeD[OF that(1)]
    by (simp add: set_backed_def fake_view_find Let_def)
  show "implements (SAttach r sg) d (fake_do (SAttach r sg) d)"
    using assms upd by (auto simp: implements_def no_id_def fake_attach_backing_def fake_view_find split: option.splits)
  show "implements (SDetach r) d (fake_do (SDetach r) d)"
    using assms upd by (auto simp: implements_def no_id_def fake_detach_backing_def fake_backed split: option.splits)
  show "implements (SUnref r) d (fake_do (SUnref r) d)"
    using assms fake_res_clear[OF assms]
    by (auto simp: implements_def no_id_def fake_resource_unref_def fake_view_find split: option.splits)
  have same: "set_backed (fr_backing_attached (fd_resources d ! i)) r (fake_view d) = fake_view d"
    if "fake_find_res d r = Some i" for i
    using that by (simp add: set_backed_def fake_view_find Let_def fun_upd_idem)
  show "implements (SUuid r) d (fake_do (SUuid r) d)"
    using assms upd same
    by (auto simp: implements_def no_id_def fake_assign_uuid_def fake_view_find Let_def split: option.splits)
qed

lemma fake_contexts_implement:
  assumes "fake_inv d"
  shows "fct.used (fd_contexts d) < MAX_FAKE_CONTEXTS \<Longrightarrow> fd_next_ctx d + 1 \<noteq> 0 \<Longrightarrow>
      implements (SContext cid nm) d (fake_do (SContext cid nm) d)"
    "implements (SDestroy c) d (fake_do (SDestroy c) d)"
    "fits (SLink c r) d \<Longrightarrow> implements (SLink c r) d (fake_do (SLink c r) d)"
proof -
  show "implements (SContext cid nm) d (fake_do (SContext cid nm) d)"
    if "fct.used (fd_contexts d) < MAX_FAKE_CONTEXTS" "fd_next_ctx d + 1 \<noteq> 0"
  proof -
    have "first_index (\<lambda>c. \<not> fc_live c) (fd_contexts d) \<noteq> None"
      using that(1) assms fct.free_slot by (simp add: fake_inv_def)
    then obtain i where i: "first_index (\<lambda>c. \<not> fc_live c) (fd_contexts d) = Some i" by blast
    show ?thesis
      using fake_ctx_fill[OF assms i that(2), of cid] i assms
      by (simp add: implements_def fake_context_create_def fresh_handle_def Let_def) (simp add: fake_view_def)
  qed
  show "implements (SDestroy c) d (fake_do (SDestroy c) d)"
    using assms fake_ctx_clear[OF assms]
    by (auto simp: implements_def no_id_def fake_context_destroy_def handle_def fake_view_find split: option.splits)
  show "implements (SLink c r) d (fake_do (SLink c r) d)" if "fits (SLink c r) d"
  proof (cases "fake_find_ctx d c")
    case None
    thus ?thesis using assms by (auto simp: implements_def no_id_def fake_attach_resource_def handle_def fake_view_find)
  next
    case (Some i)
    let ?fc = "fd_contexts d ! i"
    have m: "?fc \<in> set (fd_contexts d)" using fake_ctx_SomeD[OF Some] by simp
    hence ok: "attach_list_ok ?fc" "fc_attached_count ?fc < MAX_FAKE_RESOURCES" using assms that by (auto simp: fake_inv_def)
    show ?thesis
      using assms fake_ctx_change[OF assms Some] attach_more[OF ok(1) _ ok(2)] ok Some
      by (auto simp: implements_def no_id_def fake_attach_resource_def handle_def fake_view_find Let_def)
  qed
qed

section \<open>The driver makes the same steps\<close>

lemma real_view_frame [simp]:
  "real_view (d\<lparr>metrics := m\<rparr>) = real_view d"
  "real_view (d\<lparr>next_fence := a\<rparr>) = real_view d"
  "real_view (d\<lparr>completed_fence := b\<rparr>) = real_view d"
  by (simp_all add: real_view_def)

lemma real_view_find:
  "v_res (real_view d) k = map_option (\<lambda>i. let r = resources d ! i in (r_width r, r_height r, r_backing_attached r)) (find_res d k)"
  "v_ctx (real_view d) k = map_option (\<lambda>_. ()) (find_ctx d k)"
  by (simp_all add: real_view_def rt.lookup_def ct.lookup_def find_res_table find_ctx_table
      option.map_comp comp_def Let_def)

lemma real_backed:
  "backed (real_view d) k \<longleftrightarrow> (\<exists>i. find_res d k = Some i \<and> r_backing_attached (resources d ! i))"
  by (simp add: backed_def real_view_find Let_def split: option.splits)

lemma real_res_change:
  assumes "dev_inv d" "find_res d k = Some i"
    "\<And>x. r_live (f x) = r_live x \<and> r_id (f x) = r_id x \<and> r_width (f x) = r_width x \<and> r_height (f x) = r_height x"
  shows "real_view (res_upd i f d) = set_backed (r_backing_attached (f (resources d ! i))) k (real_view d)"
proof -
  note s = find_res_SomeD[OF assms(2)]
  have u: "rt.uniq (resources d)" using assms(1) by (simp add: dev_inv_def)
  have "rt.lookup ((resources d)[i := f (resources d ! i)]) = (rt.lookup (resources d))(k \<mapsto> f (resources d ! i))"
    using assms(3) s by (intro rt.lookup_change[OF u assms(2)[unfolded find_res_table]]) auto
  moreover have "v_res (real_view d) k = Some (r_width (resources d ! i), r_height (resources d ! i), r_backing_attached (resources d ! i))"
    using assms(2) by (simp add: real_view_find Let_def)
  ultimately show ?thesis using assms(3) by (simp add: set_backed_def) (simp add: real_view_def res_upd_def)
qed

lemma real_res_clear:
  assumes "dev_inv d" "find_res d k = Some i"
  shows "real_view (res_upd i (\<lambda>_. zero_resource) d) = (real_view d)\<lparr>v_res := (v_res (real_view d))(k := None)\<rparr>"
proof -
  have u: "rt.uniq (resources d)" using assms(1) by (simp add: dev_inv_def)
  show ?thesis
    using rt.lookup_clear[OF u assms(2)[unfolded find_res_table], of zero_resource]
    by (auto simp: real_view_def res_upd_def)
qed

lemma real_ctx_clear:
  assumes "dev_inv d" "find_ctx d k = Some i"
  shows "real_view (ctx_upd i (\<lambda>_. zero_context) d) = (real_view d)\<lparr>v_ctx := (v_ctx (real_view d))(k := None)\<rparr>"
proof -
  have u: "ct.uniq (contexts d)" using assms(1) by (simp add: dev_inv_def)
  show ?thesis
    using ct.lookup_clear[OF u assms(2)[unfolded find_ctx_table], of zero_context]
    by (auto simp: real_view_def ctx_upd_def)
qed

lemma real_res_fill:
  assumes "dev_inv d" "dev_inv d'" "i < length (resources d)" "\<not> r_live (resources d ! i)" "r_live e" "r_id e = next_res d"
    "resources d' = (resources d)[i := e]" "next_res d' = next_res d + 1" "contexts d' = contexts d" "next_ctx d' = next_ctx d"
  shows "real_view d' = (real_view d)\<lparr>v_res := (v_res (real_view d))(next_res d \<mapsto>
    (r_width e, r_height e, r_backing_attached e)), v_next_res := next_res d + 1\<rparr>"
proof -
  have u: "rt.uniq (resources d)" "rt.uniq ((resources d)[i := e])" "next_res d \<noteq> 0"
    using assms(1,2,7) by (simp_all add: dev_inv_def)
  show ?thesis using rt.lookup_fill[OF u(1,2) assms(3-5)] u(3) assms by (simp add: real_view_def)
qed

lemma real_ctx_fill:
  assumes "dev_inv d" "dev_inv d'" "i < length (contexts d)" "\<not> c_live (contexts d ! i)" "c_live e" "c_id e = next_ctx d"
    "contexts d' = (contexts d)[i := e]" "next_ctx d' = next_ctx d + 1" "resources d' = resources d" "next_res d' = next_res d"
  shows "real_view d' = (real_view d)\<lparr>v_ctx := (v_ctx (real_view d))(next_ctx d \<mapsto> ()), v_next_ctx := next_ctx d + 1\<rparr>"
proof -
  have u: "ct.uniq (contexts d)" "ct.uniq ((contexts d)[i := e])" "next_ctx d \<noteq> 0"
    using assms(1,2,7) by (simp_all add: dev_inv_def)
  show ?thesis using ct.lookup_fill[OF u(1,2) assms(3-5)] u(3) assms by (simp add: real_view_def)
qed

text \<open>The limits within which a success of the driver is accepted by the fake: a scanout rectangle that is
  not empty, and one of the capsets the fake lists.\<close>

fun covered :: "shared_call \<Rightarrow> bool" where
  "covered (SScanout r rect) = (\<not> bad_rect rect)"
| "covered (SContext cid nm) = fake_capset_supported cid"
| "covered _ = True"

definition steps_as :: "shared_call \<Rightarrow> uk_virtio_gpu_dev \<Rightarrow> u32 \<Rightarrow> uk_virtio_gpu_dev \<Rightarrow> bool" where
  "steps_as c d n d' \<longleftrightarrow> spec_ok c (real_view d) \<and> (n, real_view d') = spec_step c (real_view d)"

lemma real_create_steps:
  assumes "real_do e (SCreate w h fmt) s = Some (Inr n, s')" "dev_inv (vg s)" "room (vg s)"
  shows "steps_as (SCreate w h fmt) (vg s) n (vg s')"
proof -
  have inv': "dev_inv (vg s')" using real_do_ok[OF assms(1)] assms(2,3) by (simp add: op_ok_def)
  obtain i d0 where a: "alloc_res (vg s) = Some (i, d0)" and wh: "w \<noteq> 0" "h \<noteq> 0"
    using assms(1) by (auto simp: uk_virtio_gpu_resource_create_2d_def split: if_splits option.splits)
  note al = alloc_res_SomeD[OF a] and fr = alloc_res_frame[OF a]
  let ?e = "zero_resource\<lparr>r_id := next_res (vg s), r_live := True, r_width := w, r_height := h, r_depth := 1,
    r_format := compat_format fmt, r_size := resource_size_bytes w h 1\<rparr>"
  have s': "n = next_res (vg s)" "resources (vg s') = (resources (vg s))[i := ?e]"
    "next_res (vg s') = next_res (vg s) + 1" "contexts (vg s') = contexts (vg s)" "next_ctx (vg s') = next_ctx (vg s)"
    using assms(1) a fr al(1) al(3)
    by (auto simp: uk_virtio_gpu_resource_create_2d_def Let_def res_upd_def
        dest!: cq.no_fence split: if_splits option.splits sum.splits)
  have e: "r_live ?e" "r_id ?e = next_res (vg s)" by simp_all
  have "real_view (vg s') = (real_view (vg s))\<lparr>v_res := (v_res (real_view (vg s)))(next_res (vg s) \<mapsto>
    (r_width ?e, r_height ?e, r_backing_attached ?e)), v_next_res := next_res (vg s) + 1\<rparr>"
    by (rule real_res_fill[OF assms(2) inv' al(1,2) e s'(2-5)])
  thus ?thesis using wh s'(1) by (simp add: steps_as_def) (simp add: real_view_def zero_resource_def)
qed

lemma transfer_2d_done:
  assumes "uk_virtio_gpu_transfer_to_host_2d e r rect f s = Some (Inr u, g, s')"
  shows "backed (real_view (vg s)) r \<and> \<not> bad_rect rect \<and> real_view (vg s') = real_view (vg s)"
  using assms
  by (auto simp: uk_virtio_gpu_transfer_to_host_2d_def hdr_init_def Let_def bad_rect_def real_backed
      dest!: cq.frame split: if_splits option.splits sum.splits)

lemma flush_done:
  assumes "uk_virtio_gpu_resource_flush e r rect f s = Some (Inr u, g, s')"
  shows "v_res (real_view (vg s)) r \<noteq> None \<and> \<not> bad_rect rect \<and> real_view (vg s') = real_view (vg s)"
  using assms
  by (auto simp: uk_virtio_gpu_resource_flush_def hdr_init_def Let_def bad_rect_def real_view_find
      dest!: cq.frame split: if_splits option.splits sum.splits)

lemma both_done:
  assumes "uk_virtio_gpu_transfer_and_flush_2d e r rect f s = Some (Inr u, g, s')"
  shows "backed (real_view (vg s)) r \<and> \<not> bad_rect rect \<and> real_view (vg s') = real_view (vg s)"
  using assms
  by (auto simp: uk_virtio_gpu_transfer_and_flush_2d_def dest!: transfer_2d_done flush_done
      split: if_splits option.splits sum.splits)

lemma submit_done:
  assumes "uk_virtio_gpu_gl_context_submit e (Some (handle c)) cmd f s = Some (Inr u, g, s')"
  shows "v_ctx (real_view (vg s)) c \<noteq> None \<and> cmd \<noteq> None \<and> cmd \<noteq> Some [] \<and> real_view (vg s') = real_view (vg s)"
  using assms
  by (auto simp: uk_virtio_gpu_gl_context_submit_def hdr_init_def Let_def ctx_id_or_0_def handle_def real_view_find
      dest!: cq.frame split: if_splits option.splits sum.splits prod.splits bool.splits)

lemma scanout_done:
  assumes "uk_virtio_gpu_gl_set_scanout e sc r rect s = Some (Inr u, s')"
  shows "v_res (real_view (vg s)) r \<noteq> None \<and> real_view (vg s') = real_view (vg s)"
  using assms
  by (auto simp: uk_virtio_gpu_gl_set_scanout_def Let_def real_view_find
      dest!: cq.no_fence split: if_splits option.splits sum.splits)

lemma uuid_done:
  assumes "uk_virtio_gpu_gl_resource_assign_uuid e r out s = Some (Inr u, s')"
  shows "v_res (real_view (vg s)) r \<noteq> None \<and> real_view (vg s') = real_view (vg s)"
  using assms
  by (auto simp: uk_virtio_gpu_gl_resource_assign_uuid_def Let_def real_view_find
      dest!: cq.no_fence split: if_splits option.splits sum.splits)

lemma link_done:
  assumes "uk_virtio_gpu_gl_context_attach_resource e (Some (handle c)) r s = Some (Inr u, s')"
  shows "v_ctx (real_view (vg s)) c \<noteq> None \<and> v_res (real_view (vg s)) r \<noteq> None \<and> real_view (vg s') = real_view (vg s)"
  using assms
  by (auto simp: uk_virtio_gpu_gl_context_attach_resource_def ctx_resource_def Let_def real_view_find ctx_id_or_0_def handle_def
      dest!: cq.no_fence split: if_splits option.splits sum.splits)

lemma attach_done:
  assumes "uk_virtio_gpu_resource_attach_backing e r sg s = Some (Inr u, s')" "dev_inv (vg s)"
  shows "spec_ok (SAttach r sg) (real_view (vg s)) \<and> real_view (vg s') = set_backed True r (real_view (vg s))"
proof -
  obtain i segs where i: "find_res (vg s) r = Some i" "sg = Some segs" "segs \<noteq> []" "\<not> list_ex (\<lambda>(_, len). len = 0) segs"
    using assms(1) by (auto simp: uk_virtio_gpu_resource_attach_backing_def Let_def split: option.splits if_splits)
  have "snd (hd segs) \<noteq> 0" using i(3,4) by (cases segs) (auto split: prod.splits)
  moreover have "real_view (vg s') = real_view (res_upd i (\<lambda>r. r\<lparr>r_backing_attached := True\<rparr>) (vg s))"
    using assms(1) i by (auto simp: uk_virtio_gpu_resource_attach_backing_def Let_def
        dest!: cq.no_fence split: option.splits sum.splits if_splits)
  ultimately show ?thesis
    using i real_res_change[OF assms(2) i(1), of "\<lambda>r. r\<lparr>r_backing_attached := True\<rparr>"] by (simp add: real_view_find)
qed

lemma detach_done:
  assumes "uk_virtio_gpu_gl_resource_detach_backing e r s = Some (Inr u, s')" "dev_inv (vg s)"
  shows "backed (real_view (vg s)) r \<and> real_view (vg s') = set_backed False r (real_view (vg s))"
proof -
  obtain i where i: "find_res (vg s) r = Some i" "r_backing_attached (resources (vg s) ! i)"
    using assms(1) by (auto simp: uk_virtio_gpu_gl_resource_detach_backing_def Let_def split: option.splits if_splits)
  have "real_view (vg s') = real_view (res_upd i (\<lambda>r. r\<lparr>r_backing_attached := False\<rparr>) (vg s))"
    using assms(1) i by (auto simp: uk_virtio_gpu_gl_resource_detach_backing_def Let_def
        dest!: cq.no_fence split: option.splits sum.splits if_splits)
  thus ?thesis
    using i real_res_change[OF assms(2) i(1), of "\<lambda>r. r\<lparr>r_backing_attached := False\<rparr>"] by (simp add: real_backed)
qed

lemma unref_done:
  assumes "uk_virtio_gpu_gl_resource_unref e r s = Some (Inr u, s')" "dev_inv (vg s)"
  shows "v_res (real_view (vg s)) r \<noteq> None \<and> real_view (vg s') = (real_view (vg s))\<lparr>v_res := (v_res (real_view (vg s)))(r := None)\<rparr>"
proof -
  obtain i where i: "find_res (vg s) r = Some i"
    using assms(1) by (auto simp: uk_virtio_gpu_gl_resource_unref_def split: option.splits)
  have "real_view (vg s') = real_view (res_upd i (\<lambda>_. zero_resource) (vg s))"
    using assms(1) i by (auto simp: uk_virtio_gpu_gl_resource_unref_def Let_def
        dest!: cq.no_fence split: option.splits sum.splits)
  thus ?thesis using i real_res_clear[OF assms(2) i] by (simp add: real_view_find)
qed

lemma destroy_done:
  assumes "uk_virtio_gpu_gl_context_destroy e (Some (handle c)) s = Some (Inr u, s')" "dev_inv (vg s)"
  shows "v_ctx (real_view (vg s)) c \<noteq> None \<and> real_view (vg s') = (real_view (vg s))\<lparr>v_ctx := (v_ctx (real_view (vg s)))(c := None)\<rparr>"
proof -
  obtain i where i: "find_ctx (vg s) c = Some i"
    using assms(1) by (auto simp: uk_virtio_gpu_gl_context_destroy_def handle_def split: option.splits)
  have "real_view (vg s') = real_view (ctx_upd i (\<lambda>_. zero_context) (vg s))"
    using assms(1) i by (auto simp: uk_virtio_gpu_gl_context_destroy_def handle_def Let_def
        dest!: cq.no_fence split: option.splits sum.splits)
  thus ?thesis using i real_ctx_clear[OF assms(2) i] by (simp add: real_view_find)
qed

lemma context_done:
  assumes "uk_virtio_gpu_gl_context_create e cid nm True s = Some (Inr c, s')" "dev_inv (vg s)" "room (vg s)"
  shows "ctx_id c = next_ctx (vg s) \<and> real_view (vg s') = (real_view (vg s))\<lparr>v_ctx := (v_ctx (real_view (vg s)))(next_ctx (vg s) \<mapsto> ()),
    v_next_ctx := next_ctx (vg s) + 1\<rparr>"
proof -
  have inv': "dev_inv (vg s')" using context_create_ok[OF assms(1)] assms(2,3) by (simp add: op_ok_def)
  have "\<exists>i d0. alloc_ctx (vg s) = Some (i, d0) \<and> ctx_id c = c_id (contexts (vg s') ! i) \<and>
      contexts (vg s') = contexts (ctx_upd i (\<lambda>c. c\<lparr>c_capset_id := cid\<rparr>) d0) \<and> next_ctx (vg s') = next_ctx d0 \<and>
      resources (vg s') = resources d0 \<and> next_res (vg s') = next_res d0"
    using assms(1)
    by (auto simp: uk_virtio_gpu_gl_context_create_def Let_def hdr_init_def
        dest!: has_capset_frame cq.succeeded split: if_splits option.splits sum.splits bool.splits)
  then obtain i d0 where a: "alloc_ctx (vg s) = Some (i, d0)" and c: "ctx_id c = c_id (contexts (vg s') ! i)"
    "contexts (vg s') = contexts (ctx_upd i (\<lambda>c. c\<lparr>c_capset_id := cid\<rparr>) d0)" "next_ctx (vg s') = next_ctx d0"
    "resources (vg s') = resources d0" "next_res (vg s') = next_res d0" by blast
  note al = alloc_ctx_SomeD[OF a]
  let ?e = "zero_context\<lparr>c_id := next_ctx (vg s), c_live := True, c_capset_id := cid\<rparr>"
  have s': "contexts (vg s') = (contexts (vg s))[i := ?e]" "next_ctx (vg s') = next_ctx (vg s) + 1"
    "resources (vg s') = resources (vg s)" "next_res (vg s') = next_res (vg s)"
    using c(2-5) al(1) unfolding al(3) by (simp_all add: ctx_upd_def)
  have id: "ctx_id c = next_ctx (vg s)" using al(1) unfolding c(1) s'(1) by simp
  have e: "c_live ?e" "c_id ?e = next_ctx (vg s)" by simp_all
  show ?thesis using id real_ctx_fill[OF assms(2) inv' al(1,2) e s'] by simp
qed

text \<open>Every success of the driver is a step of the specification, and the fake, while its tables have room,
  does exactly what the specification says.\<close>

lemma driver_step:
  assumes "real_do e c s = Some (Inr n, s')" "covered c" "dev_inv (vg s)" "room (vg s)"
  shows "steps_as c (vg s) n (vg s')"
proof (cases c)
  case (SCreate w h fmt)
  thus ?thesis using real_create_steps assms by metis
next
  case (SContext cid nm)
  then obtain ctx where "uk_virtio_gpu_gl_context_create e cid nm True s = Some (Inr ctx, s')" "n = ctx_id ctx"
    using assms(1) by (auto simp: map_sum_Inr)
  thus ?thesis using context_done[OF _ assms(3,4)] SContext assms(2) by (fastforce simp: steps_as_def real_view_def)
qed (use assms(1-3) in \<open>auto simp: steps_as_def no_id_Inr
    dest!: transfer_2d_done flush_done both_done submit_done scanout_done uuid_done link_done attach_done detach_done
      unref_done destroy_done\<close>)

end
