(* ===== verification/Gpu_Start.thy ===== *)
theory Gpu_Start
  imports Gpu_Properties
begin

text \<open>The state in which bring-up leaves the driver: empty tables, the first identifiers, a control queue.\<close>

definition tables :: "uk_virtio_gpu_dev \<Rightarrow> ukvgpu_resource_state list \<times> ukvgpu_context_state list \<times> u32 \<times> u32" where
  "tables d = (resources d, contexts d, next_res d, next_ctx d)"

lemma tables_frame [simp]:
  "tables (d\<lparr>host_features := a\<rparr>) = tables d"
  "tables (d\<lparr>negotiated_features := b\<rparr>) = tables d"
  "tables (d\<lparr>num_scanouts := x\<rparr>) = tables d"
  "tables (d\<lparr>num_capsets := x\<rparr>) = tables d"
  "tables (d\<lparr>events_read := x\<rparr>) = tables d"
  "tables (d\<lparr>blob_alignment := x\<rparr>) = tables d"
  "tables (d\<lparr>host_visible := r\<rparr>) = tables d"
  "tables (d\<lparr>ctrlq := q\<rparr>) = tables d"
  "tables (d\<lparr>cursorq := q\<rparr>) = tables d"
  "tables (d\<lparr>scanouts := sc\<rparr>) = tables d"
  by (simp_all add: tables_def)

lemma bring_up_start:
  assumes "vgpu_add_dev e b n lk None h = Some (Inr (), Some d, h')"
  shows "tables d = tables vgpu_new_dev" "ctrlq d"
proof -
  obtain hf d1 d2 d3 h1 h2 h3 h4 h5 sc where
    st: "vgpu_read_config b (negotiate hf) (vgpu_new_dev\<lparr>host_features := hf,
       negotiated_features := negotiate hf\<rparr>) h1 = (Inr d1, h2)"
    "vgpu_read_shm b (negotiate hf) d1 h2 = (d2, h3)"
    "vgpu_setup_queues b d2 h3 = (Inr (), d3, h4)" "d = d3\<lparr>scanouts := sc\<rparr>"
    by (rule add_dev_stages[OF assms])
  have "tables d1 = tables vgpu_new_dev"
    using st(1) by (auto simp: vgpu_read_config_def Let_def split: prod.splits sum.splits if_splits)
  moreover have "tables d2 = tables d1"
    using st(2) by (auto simp: vgpu_read_shm_def split: prod.splits sum.splits if_splits)
  moreover have "tables d3 = tables d2"
    using st(3) by (auto simp: vgpu_setup_queues_def Let_def split: prod.splits sum.splits if_splits option.splits)
  ultimately show "tables d = tables vgpu_new_dev" using st(4) by simp
  show "ctrlq d" using setup_queues_facts[OF st(3)] st(4) by simp
qed

end
