(* ===== verification/Fake_Runs.thy ===== *)
theory Fake_Runs
  imports Fake_Refinement Gpu_Start
begin

text \<open>
  Whole test runs.  A run is a sequence of shared calls that all succeed; the fake has room for it when the
  identifiers, contexts and attachments the run makes fit what its tables have left.  What such a run
  returns and leaves on the driver, it returns and leaves on the fake.
\<close>

section \<open>Runs and the room they need\<close>

fun real_run :: "'h env \<Rightarrow> shared_call list \<Rightarrow> 'h sys \<Rightarrow> (u32 list \<times> 'h sys) option" where
  "real_run e [] s = Some ([], s)"
| "real_run e (c # cs) s =
    (case real_do e c s of
       Some (Inr n, s1) \<Rightarrow> map_option (map_prod ((#) n) id) (real_run e cs s1)
     | _ \<Rightarrow> None)"

fun fake_run :: "shared_call list \<Rightarrow> fake_dev \<Rightarrow> (u32 list \<times> fake_dev) option" where
  "fake_run [] d = Some ([], d)"
| "fake_run (c # cs) d =
    (case fake_do c d of
       (Inr n, d1) \<Rightarrow> map_option (map_prod ((#) n) id) (fake_run cs d1)
     | _ \<Rightarrow> None)"

fun makes_res :: "shared_call \<Rightarrow> nat" where
  "makes_res (SCreate w h fmt) = 1" | "makes_res _ = 0"

fun makes_ctx :: "shared_call \<Rightarrow> nat" where
  "makes_ctx (SContext cid nm) = 1" | "makes_ctx _ = 0"

fun makes_link :: "shared_call \<Rightarrow> nat" where
  "makes_link (SLink c r) = 1" | "makes_link _ = 0"

fun size_fits :: "shared_call \<Rightarrow> bool" where
  "size_fits (SCreate w h fmt) = (unat w * unat h * 4 < 2 ^ 64)" | "size_fits _ = True"

text \<open>\<open>fd_within a b n d\<close>: at most \<open>a\<close> resources and \<open>b\<close> contexts live, at most \<open>n\<close> attachments in each.\<close>

definition fd_within :: "nat \<Rightarrow> nat \<Rightarrow> nat \<Rightarrow> fake_dev \<Rightarrow> bool" where
  "fd_within a b n d \<longleftrightarrow> frt.used (fd_resources d) \<le> a \<and> fct.used (fd_contexts d) \<le> b \<and>
     (\<forall>fc\<in>set (fd_contexts d). fc_attached_count fc \<le> n)"

definition has_room_for :: "shared_call list \<Rightarrow> fake_dev \<Rightarrow> bool" where
  "has_room_for cs d \<longleftrightarrow>
    (\<exists>a b n. fd_within a b n d \<and> a + sum_list (map makes_res cs) \<le> MAX_FAKE_RESOURCES \<and>
       b + sum_list (map makes_ctx cs) \<le> MAX_FAKE_CONTEXTS \<and> n + sum_list (map makes_link cs) \<le> MAX_FAKE_RESOURCES) \<and>
    list_all size_fits cs"

lemma fd_within_frame [simp]:
  "fd_within a b n (d\<lparr>fd_metrics := m\<rparr>) = fd_within a b n d"
  "fd_within a b n (d\<lparr>fd_next_fence := x\<rparr>) = fd_within a b n d"
  "fd_within a b n (d\<lparr>fd_completed_fence := y\<rparr>) = fd_within a b n d"
  "fd_within a b n (d\<lparr>fd_next_ctx := z\<rparr>) = fd_within a b n d"
  by (simp_all add: fd_within_def)

lemma fd_within_res:
  "fd_within a b n d \<Longrightarrow> (fr_live (f (fd_resources d ! i)) \<Longrightarrow> fr_live (fd_resources d ! i)) \<Longrightarrow> fd_within a b n (fr_upd i f d)"
  using frt.used_kept[of "f (fd_resources d ! i)" "fd_resources d" i] by (simp add: fd_within_def fr_upd_def)

lemma fd_within_ctx:
  assumes "fd_within a b n d" "fc_attached_count (f (fd_contexts d ! i)) \<le> m" "n \<le> m"
  shows "(fc_live (f (fd_contexts d ! i)) \<Longrightarrow> fc_live (fd_contexts d ! i)) \<Longrightarrow> fd_within a b m (fc_upd i f d)"
    "fd_within a (b + 1) m (fc_upd i f d)"
  using assms fct.used_kept[of "f (fd_contexts d ! i)" "fd_contexts d" i]
    fct.used_update[of "fd_contexts d" i "f (fd_contexts d ! i)"]
  by (auto simp: fd_within_def fc_upd_def dest!: set_list_update intro: order_trans)

lemma fd_within_more: "fd_within a b n d \<Longrightarrow> fd_within (Suc a) b n d"
  by (simp add: fd_within_def)

lemma fd_within_alloc: "fake_alloc_res d = Some (i, d') \<Longrightarrow> fd_within a b n d \<Longrightarrow> fd_within (Suc a) b n d'"
  using frt.used_update[of "fd_resources d" i "zero_fake_resource\<lparr>fr_id := fd_next_res d, fr_live := True\<rparr>"]
  by (auto simp: fake_alloc_res_def fd_within_def split: option.splits)

lemma fd_within_context:
  "fd_within a b n d \<Longrightarrow> fc_live (f (fd_contexts d ! i)) \<longrightarrow> fc_live (fd_contexts d ! i) \<Longrightarrow>
    fc_attached_count (f (fd_contexts d ! i)) \<le> n \<Longrightarrow> fd_within a b n (fc_upd i f d)"
  using fd_within_ctx(1)[of a b n d f i n] by blast

lemma fake_do_within:
  assumes "fake_do c d = (r, d')" "fd_within a b n d"
  shows "fd_within (a + makes_res c) (b + makes_ctx c) (n + makes_link c) d'"
proof (cases c)
  case (SCreate w h fmt)
  show ?thesis using assms SCreate
    by (auto simp: fake_resource_create_2d_def Let_def zero_fake_resource_def split: if_splits option.splits sum.splits
        intro!: fd_within_res intro: fd_within_alloc[OF _ assms(2)] fd_within_more)
next
  case (SContext cid nm)
  show ?thesis
  proof (cases "first_index (\<lambda>c. \<not> fc_live c) (fd_contexts d)")
    case (Some i)
    let ?d = "d\<lparr>fd_next_ctx := fd_next_ctx d + 1\<rparr>"
    have "fc_attached_count (fd_contexts d ! i) \<le> n"
      using assms(2) first_index_SomeD[OF Some] by (simp add: fd_within_def)
    hence "fd_within a (b + 1) n (fc_upd i (\<lambda>c. c\<lparr>fc_id := fd_next_ctx d, fc_capset_id := cid, fc_live := True\<rparr>) ?d)"
      using assms(2) by (intro fd_within_ctx(2)[where n = n]) simp_all
    thus ?thesis using assms SContext Some
      by (auto simp: fake_context_create_def fresh_handle_def Let_def split: if_splits) (auto simp: fd_within_def)
  qed (use assms SContext in \<open>auto simp: fake_context_create_def fresh_handle_def fd_within_def split: if_splits\<close>)
next
  case (SLink ci re)
  show ?thesis
  proof (cases "fake_find_ctx d ci")
    case (Some i)
    have "fc_attached_count (fd_contexts d ! i) \<le> n"
      using assms(2) fake_ctx_SomeD[OF Some] by (simp add: fd_within_def)
    hence "fd_within a b (n + 1) (fc_upd i (\<lambda>c. c\<lparr>fc_attached := l c, fc_attached_count := fc_attached_count (fd_contexts d ! i) + 1\<rparr>) d)" for l
      using assms(2) by (intro fd_within_ctx(1)[where n = n]) simp_all
    moreover have "fd_within a b (n + 1) d" using assms(2) by (force simp: fd_within_def)
    ultimately show ?thesis using assms SLink Some
      by (auto simp: fake_attach_resource_def handle_def Let_def split: if_splits)
  qed (use assms SLink in \<open>force simp: fake_attach_resource_def handle_def fd_within_def\<close>)
next
  case (SDestroy ci)
  show ?thesis using assms SDestroy
    by (auto simp: fake_context_destroy_def zero_fake_context_def split: if_splits option.splits intro!: fd_within_context)
qed (use assms in \<open>auto simp: fake_attach_backing_def fake_transfer_to_host_2d_def fake_resource_flush_def
    fake_transfer_and_flush_2d_def fake_detach_backing_def fake_resource_unref_def fake_assign_uuid_def
    fake_context_submit_def fake_complete_fence_def zero_fake_resource_def Let_def
    intro!: fd_within_res split: if_splits option.splits sum.splits prod.splits\<close>)

lemma room_fits: "has_room_for (c # cs) d \<Longrightarrow> fits c d"
  by (cases c) (fastforce simp: has_room_for_def fd_within_def)+

lemma room_next:
  assumes "has_room_for (c # cs) d" "fake_do c d = (r, d')" shows "has_room_for cs d'"
proof -
  obtain a b n where w: "fd_within a b n d" and le: "a + sum_list (map makes_res (c # cs)) \<le> MAX_FAKE_RESOURCES"
    "b + sum_list (map makes_ctx (c # cs)) \<le> MAX_FAKE_CONTEXTS" "n + sum_list (map makes_link (c # cs)) \<le> MAX_FAKE_RESOURCES"
    using assms(1) unfolding has_room_for_def by blast
  from fake_do_within[OF assms(2) w] le assms(1) show ?thesis
    unfolding has_room_for_def by (fastforce simp: add.assoc)
qed

section \<open>The fake repeats what the driver did\<close>

lemma fake_implements:
  assumes "fake_inv d" "fits c d" "fd_next_res d + 1 \<noteq> 0" "fd_next_ctx d + 1 \<noteq> 0"
  shows "implements c d (fake_do c d)"
proof (cases c)
  case SCreate thus ?thesis using fake_create_implements assms by metis
next
  case SContext thus ?thesis using fake_contexts_implement(1) assms by (metis fits.simps(2))
next
  case SLink thus ?thesis using fake_contexts_implement(3) assms by metis
qed (use fake_reads_implement[OF assms(1)] fake_changes_implement[OF assms(1)] fake_contexts_implement(2)[OF assms(1)] in metis)+

lemma counters_step:
  assumes "real_do e c s = Some (r, s')" "dev_inv (vg s)" "counters_below n (vg s)" "n + 1 < 2 ^ 32"
  shows "dev_inv (vg s')" "counters_below (n + 1) (vg s')"
  using within_inv[OF within_call[OF real_do_ok[OF assms(1)], of 0] assms(2,3)] assms(4) by simp_all

lemma fake_follows:
  assumes "real_run e cs s = Some (ids, s')" "list_all covered cs" "dev_inv (vg s)" "counters_below n (vg s)"
    "n + length cs < 2 ^ 32" "fake_inv f" "has_room_for cs f" "fake_view f = real_view (vg s)"
  shows "\<exists>f'. fake_run cs f = Some (ids, f') \<and> fake_view f' = real_view (vg s') \<and> fake_inv f'"
  using assms
proof (induction cs arbitrary: s ids n f)
  case (Cons c cs)
  obtain k s1 ids1 where st: "real_do e c s = Some (Inr k, s1)" "real_run e cs s1 = Some (ids1, s')" "ids = k # ids1"
    using Cons.prems(1) by (auto split: option.splits sum.splits)
  have n1: "n + 1 < 2 ^ 32" using Cons.prems(5) by simp
  have rm: "room (vg s)" by (rule counters_room[OF Cons.prems(4) n1])
  have sp: "steps_as c (vg s) k (vg s1)" using driver_step[OF st(1) _ Cons.prems(3) rm] Cons.prems(2) by simp
  have nx: "fd_next_res f = next_res (vg s)" "fd_next_ctx f = next_ctx (vg s)"
    using arg_cong[OF Cons.prems(8), of v_next_res] arg_cong[OF Cons.prems(8), of v_next_ctx]
    by (simp_all add: fake_view_def real_view_def)
  have im: "implements c f (fake_do c f)"
    using rm nx by (intro fake_implements Cons.prems(6) room_fits[OF Cons.prems(7)]) (simp_all add: room_def)
  obtain f1 where f1: "fake_do c f = (Inr k, f1)" "fake_view f1 = real_view (vg s1)" "fake_inv f1"
    using im sp Cons.prems(8) by (cases "fake_do c f") (auto simp: implements_def steps_as_def prod_eq_iff)
  have n2: "n + 1 + length cs < 2 ^ 32" using Cons.prems(5) by simp
  have cv: "list_all covered cs" using Cons.prems(2) by simp
  from Cons.IH[OF st(2) cv counters_step[OF st(1) Cons.prems(3,4) n1] n2 f1(3) room_next[OF Cons.prems(7) f1(1)] f1(2)]
  show ?case using f1(1) st(3) by auto
qed simp

section \<open>Both start with empty tables\<close>

lemma empty_lookup:
  "rt.lookup (replicate k zero_resource) = (\<lambda>_. None)" "ct.lookup (replicate k zero_context) = (\<lambda>_. None)"
  "frt.lookup (replicate k zero_fake_resource) = (\<lambda>_. None)" "fct.lookup (replicate k zero_fake_context) = (\<lambda>_. None)"
  by (simp_all add: fun_eq_iff rt.lookup_def ct.lookup_def frt.lookup_def fct.lookup_def fake_res_find_def
      fake_ctx_find_def first_index_None zero_fake_resource_def zero_fake_context_def res_find_def ctx_find_def)

lemma same_start:
  assumes "tables d = tables vgpu_new_dev" shows "fake_view fake_new_dev = real_view d"
  using assms by (simp add: tables_def vgpu_new_dev_def fake_view_def real_view_def fake_new_dev_def empty_lookup)

lemma empty_tables:
  "frt.used (fd_resources fake_new_dev) = 0" "fct.used (fd_contexts fake_new_dev) = 0"
  "fc \<in> set (fd_contexts fake_new_dev) \<Longrightarrow> fc_attached_count fc = 0"
  by (auto simp: frt.used_def fct.used_def fake_new_dev_def zero_fake_resource_def zero_fake_context_def)

lemma new_room:
  assumes "sum_list (map makes_res cs) \<le> MAX_FAKE_RESOURCES" "sum_list (map makes_ctx cs) \<le> MAX_FAKE_CONTEXTS"
    "sum_list (map makes_link cs) \<le> MAX_FAKE_RESOURCES" "list_all size_fits cs"
  shows "has_room_for cs fake_new_dev"
  unfolding has_room_for_def using assms empty_tables
  by (intro conjI exI[where x = 0]) (simp_all add: fd_within_def)

section \<open>What the test suite may conclude\<close>



section \<open>Both at work\<close>

lemma attach_reply: "ok_reply CMD_RESOURCE_ATTACH_BACKING = RESP_OK_NODATA"
  by (simp add: ok_reply_def proto_consts)

lemma run_answered:
  fixes s :: "u8 list sys"
  assumes "tables (vg s) = tables vgpu_new_dev" "ctrlq (vg s)"
  shows "\<exists>s'. real_run (answering_env ok_reply) [SCreate 4 4 1, SAttach 1 (Some [(0, 64)]), SUnref 1] s = Some ([1, 0, 0], s')"
proof -
  have t: "resources (vg s) = replicate UKVGPU_MAX_RESOURCES zero_resource" "next_res (vg s) = 1"
    using assms(1) by (simp_all add: tables_def vgpu_new_dev_def)
  have "first_index (\<lambda>r. \<not> r_live r) (resources (vg s)) = Some 0"
    by (simp add: first_index_Some t UKVGPU_MAX_RESOURCES_def)
  hence al: "\<exists>d0. alloc_res (vg s) = Some (0, d0) \<and> ctrlq d0 \<and>
      resources d0 = (resources (vg s))[0 := zero_resource\<lparr>r_id := 1, r_live := True\<rparr>]"
    using assms(2) by (simp add: alloc_res_def t)
  then obtain d0 where d0: "alloc_res (vg s) = Some (0, d0)" "ctrlq d0"
    "resources d0 = (resources (vg s))[0 := zero_resource\<lparr>r_id := 1, r_live := True\<rparr>]" by blast
  have len: "0 < length (resources (vg s))" by (simp add: t UKVGPU_MAX_RESOURCES_def)
  have "\<exists>s1. real_do (answering_env ok_reply) (SCreate 4 4 1) s = Some (Inr 1, s1) \<and> ctrlq (vg s1) \<and>
      find_res (vg s1) 1 = Some 0"
    using d0 len by (simp add: uk_virtio_gpu_resource_create_2d_def Let_def enc_resource_create_2d_def answered
      sizeof_ctrl_hdr_def res_upd_def find_res_def first_index_Some)
  then obtain s1 where s1: "real_do (answering_env ok_reply) (SCreate 4 4 1) s = Some (Inr 1, s1)"
    "ctrlq (vg s1)" "find_res (vg s1) 1 = Some 0" by blast
  have "\<exists>s2. real_do (answering_env ok_reply) (SAttach 1 (Some [(0, 64)])) s1 = Some (Inr 0, s2) \<and> ctrlq (vg s2) \<and>
      find_res (vg s2) 1 \<noteq> None"
    using s1(2,3) find_res_SomeD[OF s1(3)]
    by (auto simp: uk_virtio_gpu_resource_attach_backing_def Let_def enc_resource_attach_backing_def answered
      sizeof_ctrl_hdr_def res_upd_def no_id_def find_res_def first_index_None attach_reply
      intro!: bexI[OF _ set_update_memI])
  then obtain s2 i where s2: "real_do (answering_env ok_reply) (SAttach 1 (Some [(0, 64)])) s1 = Some (Inr 0, s2)"
    "ctrlq (vg s2)" "find_res (vg s2) 1 = Some i" by blast
  have "\<exists>s3. real_do (answering_env ok_reply) (SUnref 1) s2 = Some (Inr 0, s3)"
    using s2(2,3) by (simp add: uk_virtio_gpu_gl_resource_unref_def Let_def enc_resource_unref_def answered
      sizeof_ctrl_hdr_def no_id_def)
  then obtain s3 where s3: "real_do (answering_env ok_reply) (SUnref 1) s2 = Some (Inr 0, s3)" by blast
  show ?thesis using s1(1) s2(1) s3 by (simp del: real_do.simps)
qed



end
