(* ===== verification/Test_Core.thy ===== *)
theory Test_Core
  imports Fake_Gpu
begin

text \<open>
  The test program \<open>tests/libukvirtio_gpu/core_test.c\<close> with \<open>tests/test_utils.h\<close> and the scatter-list shim
  \<open>tests/shim/uk/sglist.h\<close>, as it runs on the fake backend.  \<open>mem\<close> says whether \<open>calloc\<close> succeeds in the
  probe, \<open>hdr\<close> is what the uninitialised header buffer holds, \<open>frame\<close> is the address \<open>posix_memalign\<close> stores, None when it fails.  The pixels written to the frame are
  never read and are left out.  The last section says when the program passes.
\<close>

section \<open>Checks\<close>

record test_state =
  ts_checks :: u32
  ts_failures :: u32
  ts_log :: "(string \<times> bool) list"

definition test_start :: test_state where
  "test_start = \<lparr> ts_checks = 0, ts_failures = 0, ts_log = [] \<rparr>"

text \<open>The log is what is printed: the label with PASS or FAIL.\<close>

definition test_check :: "string \<Rightarrow> bool \<Rightarrow> test_state \<Rightarrow> test_state" where
  "test_check label ok t =
    \<lparr> ts_checks = ts_checks t + 1, ts_failures = (if ok then ts_failures t else ts_failures t + 1),
      ts_log = ts_log t @ [(label, ok)] \<rparr>"

definition test_finish :: "test_state \<Rightarrow> int" where
  "test_finish t = (if ts_failures t = 0 then 0 else 1)"

definition test_device_init :: "bool \<Rightarrow> test_state \<Rightarrow> fake_dev option \<times> test_state" where
  "test_device_init mem t =
    (case fake_probe True mem of
       Inl _ \<Rightarrow> (None, test_check ''probe fake device'' False t)
     | Inr dev \<Rightarrow> (Some dev, test_check ''probe fake device'' True t))"

definition test_context_create :: "fake_dev \<Rightarrow> u32 \<Rightarrow> test_state \<Rightarrow> uk_virtio_gpu_context \<times> fake_dev \<times> test_state" where
  "test_context_create dev cid t =
    (let z = \<lparr> ctx_id = 0, ctx_capset_id = 0, ctx_created = False \<rparr> in
     case fake_context_create dev cid (Some z) of
       (Inl _, dev) \<Rightarrow> (z, dev, test_check ''context create'' False t)
     | (Inr ctx, dev) \<Rightarrow> (ctx, dev, test_check ''context create'' True t))"

definition test_context_destroy :: "fake_dev \<Rightarrow> uk_virtio_gpu_context \<Rightarrow> test_state \<Rightarrow> fake_dev \<times> test_state" where
  "test_context_destroy dev ctx t =
    (case fake_context_destroy dev (Some ctx) of (r, dev) \<Rightarrow> (dev, test_check ''context destroy'' (\<not> isl r) t))"

section \<open>Scatter lists\<close>

record uk_sglist =
  sg_segs :: "(u64 \<times> u64) list"
  sg_maxseg :: nat

definition uk_sglist_init :: "nat \<Rightarrow> uk_sglist" where
  "uk_sglist_init maxsegs = \<lparr> sg_segs = [], sg_maxseg = maxsegs \<rparr>"

text \<open>The result None is 0, Some the error returned.\<close>

definition uk_sglist_append :: "uk_sglist \<Rightarrow> u64 \<Rightarrow> u64 \<Rightarrow> errno option \<times> uk_sglist" where
  "uk_sglist_append sg buf len =
    (if len = 0 then (None, sg)
     else if sg_segs sg \<noteq> [] \<and> fst (last (sg_segs sg)) + snd (last (sg_segs sg)) = buf
     then (None, sg\<lparr>sg_segs := butlast (sg_segs sg) @ [(fst (last (sg_segs sg)), snd (last (sg_segs sg)) + len)]\<rparr>)
     else if length (sg_segs sg) \<ge> sg_maxseg sg then (Some (EOTHER 27), sg)
     else (None, sg\<lparr>sg_segs := sg_segs sg @ [(buf, len)]\<rparr>))"

section \<open>The program\<close>

definition CORE_WIDTH :: u32 where "CORE_WIDTH = 64"
definition CORE_HEIGHT :: u32 where "CORE_HEIGHT = 64"
definition CORE_BPP :: u32 where "CORE_BPP = 4"
definition APIR_COMMAND_FORWARD :: u32 where "APIR_COMMAND_FORWARD = 2"

definition core_queries :: "fake_dev \<Rightarrow> test_state \<Rightarrow> fake_dev \<times> test_state" where
  "core_queries dev t =
    (let dev = fake_metrics_reset dev; t = test_check ''metrics reset'' True t;
         rc = fake_caps_get True; caps = projr rc;
         t = test_check ''caps get'' (\<not> isl rc) t;
         t = test_check ''virgl supported'' (caps_has_virgl caps) t;
         t = test_check ''resource blob supported'' (caps_has_resource_blob caps) t;
         t = test_check ''context init supported'' (caps_has_context_init caps) t;
         t = test_check ''venus capset present'' (caps_num_capsets caps \<ge> 3) t;
         rc = fake_capset_info_get 0 True; cap = projr rc;
         t = test_check ''capset info get'' (\<not> isl rc) t;
         t = test_check ''capset name virgl'' (fake_capset_name (ci_id cap) = ''virgl'') t;
         (rc, used) = fake_get_edid 0 True 128; edid = projr rc;
         t = test_check ''edid get'' (\<not> isl rc) t;
         t = test_check ''edid length'' (used = Some 128) t;
         t = test_check ''edid header'' (edid ! 0 = 0 \<and> edid ! 1 = 0xff) t
     in (dev, t))"

definition core_resources :: "uk_sglist \<Rightarrow> fake_dev \<Rightarrow> test_state \<Rightarrow> u32 \<times> fake_dev \<times> test_state" where
  "core_resources sg dev t =
    (let rect = \<lparr> rect_x = 0, rect_y = 0, rect_w = CORE_WIDTH, rect_h = CORE_HEIGHT \<rparr>;
         (rc, dev) = fake_resource_create_2d dev CORE_WIDTH CORE_HEIGHT 1 True;
         res = (case rc of Inl _ \<Rightarrow> 0 | Inr r \<Rightarrow> r);
         t = test_check ''resource create 2d'' (\<not> isl rc \<and> res \<noteq> 0) t;
         (rc, dev) = fake_attach_backing dev res (Some (sg_segs sg));
         t = test_check ''attach backing'' (\<not> isl rc) t;
         (rc, dev) = fake_transfer_and_flush_2d dev res (Some rect) True;
         fence = (case rc of Inl _ \<Rightarrow> 0 | Inr f \<Rightarrow> f);
         t = test_check ''transfer+flush'' (\<not> isl rc \<and> fence \<noteq> 0) t;
         (rc, dev) = fake_fence_wait dev fence 1000000;
         t = test_check ''wait fence'' (\<not> isl rc) t;
         t = test_check ''set scanout'' (\<not> isl (fake_set_scanout dev 0 res (Some rect))) t;
         (rc, dev) = fake_assign_uuid dev res True;
         uuid = (case rc of Inl _ \<Rightarrow> replicate 16 0 | Inr u \<Rightarrow> u);
         t = test_check ''assign uuid'' (\<not> isl rc) t;
         t = test_check ''uuid non-zero'' (uuid ! 0 \<noteq> 0) t;
         rc = fake_metrics_get dev True; metrics = projr rc;
         t = test_check ''metrics get'' (\<not> isl rc) t;
         t = test_check ''resource counted'' (m_resources_created metrics \<ge> 1) t;
         t = test_check ''transfer counted'' (m_transfers_to_host metrics \<ge> 1) t;
         t = test_check ''flush counted'' (m_flushes metrics \<ge> 1) t;
         t = test_check ''fence counted'' (m_fence_waits metrics \<ge> 1) t
     in (res, dev, t))"

definition core_apir :: "u8 list \<Rightarrow> test_state \<Rightarrow> test_state" where
  "core_apir hdr t =
    (let msg = \<lparr> msg_command_type = APIR_COMMAND_FORWARD, msg_flags = 3, msg_reply_resource_id = 17 \<rparr>;
         (rc, buf) = uk_virtio_gpu_apir_encode_header (Some hdr) (Some msg);
         used = (case rc of Inl _ \<Rightarrow> 128 | Inr n \<Rightarrow> n);
         t = test_check ''apir encode header'' (\<not> isl rc) t;
         t = test_check ''apir header size'' (used = 12) t;
         (rc, decoded) = uk_virtio_gpu_apir_decode_header (map_option (take used) buf)
           (Some \<lparr> msg_command_type = 0, msg_flags = 0, msg_reply_resource_id = 0 \<rparr>);
         t = test_check ''apir decode header'' (\<not> isl rc) t;
         t = test_check ''apir decode round-trip'' (decoded = Some msg) t;
         (rc, reply) = fake_apir_decode_handshake_reply (Some [1, 0, 0, 0, 2, 0, 0, 0]) APIR_HANDSHAKE_MAGIC
           (Some \<lparr> hs_guest_major = 0, hs_guest_minor = 0, hs_host_major = 0, hs_host_minor = 0 \<rparr>);
         t = test_check ''apir decode handshake reply'' (\<not> isl rc) t;
         t = test_check ''apir reply version'' (case reply of None \<Rightarrow> False | Some r \<Rightarrow> hs_host_major r = 1 \<and> hs_host_minor r = 2) t
     in t)"

definition core_release :: "u32 \<Rightarrow> fake_dev \<Rightarrow> test_state \<Rightarrow> test_state" where
  "core_release res dev t =
    (let (rc, dev) = fake_detach_backing dev res; t = test_check ''detach backing'' (\<not> isl rc) t;
         (rc, dev) = fake_resource_unref dev res
     in test_check ''resource unref'' (\<not> isl rc) t)"

definition core_main :: "bool \<Rightarrow> u64 option \<Rightarrow> u8 list \<Rightarrow> test_state \<Rightarrow> test_state" where
  "core_main mem frame hdr t =
    (let t = test_check ''alloc default available'' True t in
     case test_device_init mem t of
       (None, t) \<Rightarrow> t
     | (Some dev, t) \<Rightarrow>
        (let (dev, t) = core_queries dev t; t = test_check ''aligned frame alloc'' (frame \<noteq> None) t in
         case frame of
           None \<Rightarrow> t
         | Some p \<Rightarrow>
            (let t = test_check ''frame alignment'' (p mod 4096 = 0) t;
                 (rc, sg) = uk_sglist_append (uk_sglist_init 1) p (ucast (CORE_WIDTH * CORE_HEIGHT * CORE_BPP));
                 t = test_check ''sg append frame'' (rc = None) t;
                 t = test_check ''sg single segment'' (length (sg_segs sg) = 1) t;
                 (res, dev, t) = core_resources sg dev t;
                 t = core_apir hdr t
             in core_release res dev t)))"

definition core_test :: "bool \<Rightarrow> u64 option \<Rightarrow> u8 list \<Rightarrow> int" where
  "core_test mem frame hdr = test_finish (core_main mem frame hdr test_start)"

section \<open>Its verdict\<close>

lemma test_check_log [simp]: "ts_log (test_check l ok t) = ts_log t @ [(l, ok)]"
  by (simp add: test_check_def)

lemma test_check_fields [simp]:
  "ts_checks (test_check l ok t) = ts_checks t + 1"
  "ts_failures (test_check l ok t) = (if ok then ts_failures t else ts_failures t + 1)"
  by (simp_all add: test_check_def)

definition passes :: "nat \<Rightarrow> test_state \<Rightarrow> test_state \<Rightarrow> bool" where
  "passes n t t' \<longleftrightarrow> ts_failures t' = ts_failures t \<and> ts_checks t' = ts_checks t + of_nat n"

lemma core_queries_pass:
  "fst (core_queries fake_new_dev t) = fake_metrics_reset fake_new_dev" (is ?d)
  "passes 11 t (snd (core_queries fake_new_dev t))" (is ?p)
  by (simp_all add: core_queries_def passes_def Let_def fake_caps_get_def fake_capset_info_get_def
      fake_capsets_def fake_capset_name_def fake_get_edid_def fake_copy_out_def MAX_FAKE_CAPSETS_def)

lemma fake_new_resources: "fd_resources (fake_metrics_reset fake_new_dev) = zero_fake_resource # replicate 63 zero_fake_resource"
  by (simp add: fake_metrics_reset_def fake_new_dev_def MAX_FAKE_RESOURCES_def numeral_eq_Suc)

lemma first_resource:
  assumes "fd_resources d = r # rs" "fr_live r" "fr_id r = 1"
  shows "fake_find_res d 1 = Some 0"
  using assms by (simp add: fake_find_res_def fake_res_find_def)

lemma core_create_2d:
  assumes "d = fake_metrics_reset fake_new_dev"
  obtains d' r where "fake_resource_create_2d d CORE_WIDTH CORE_HEIGHT 1 True = (Inr 1, d')"
    "fd_resources d' = r # replicate 63 zero_fake_resource" "fr_live r" "fr_id r = 1" "fd_next_fence d' = 1"
    "fd_metrics d' = zero_metrics\<lparr>m_resources_created := 1\<rparr>"
proof -
  have m: "fd_next_res d = 1" "fd_next_fence d = 1" "fd_metrics d = zero_metrics"
    by (simp_all add: assms fake_metrics_reset_def fake_new_dev_def)
  have z: "\<not> fr_live zero_fake_resource" "m_resources_created zero_metrics = 0"
    by (simp_all add: zero_fake_resource_def zero_metrics_def)
  show ?thesis
    using fake_new_resources m z
    by (intro that [where d' = "snd (fake_resource_create_2d d CORE_WIDTH CORE_HEIGHT 1 True)" and
          r = "hd (fd_resources (snd (fake_resource_create_2d d CORE_WIDTH CORE_HEIGHT 1 True)))"])
      (simp_all add: assms fake_resource_create_2d_def fake_alloc_res_def fr_upd_def Let_def
        CORE_WIDTH_def CORE_HEIGHT_def fake_resource_size_def checked_mul_u64_def)
qed

lemma core_resources_pass:
  assumes "sg_segs sg = [(p, n)]" "n \<noteq> 0" "core_resources sg (fake_metrics_reset fake_new_dev) t = (res, d, t')"
  shows "passes 12 t t' \<and> res = 1 \<and> (\<exists>r rs. fd_resources d = r # rs \<and> fr_live r \<and> fr_id r = 1 \<and> fr_backing_attached r)"
proof -
  obtain d1 r where d1: "fake_resource_create_2d (fake_metrics_reset fake_new_dev) CORE_WIDTH CORE_HEIGHT 1 True = (Inr 1, d1)"
    "fd_resources d1 = r # replicate 63 zero_fake_resource" "fr_live r" "fr_id r = 1" "fd_next_fence d1 = 1"
    "fd_metrics d1 = zero_metrics\<lparr>m_resources_created := 1\<rparr>"
    by (rule core_create_2d [OF refl])
  have z: "m_transfers_to_host zero_metrics = 0" "m_flushes zero_metrics = 0" "m_fence_waits zero_metrics = 0"
    by (simp_all add: zero_metrics_def)
  show ?thesis
    using assms(3) d1 z assms(1,2)
    by (auto simp: core_resources_def Let_def passes_def fake_attach_backing_def fake_transfer_and_flush_2d_def
        fake_transfer_to_host_2d_def fake_resource_flush_def fake_complete_fence_def fake_fence_wait_def
        fake_set_scanout_def fake_assign_uuid_def fake_metrics_get_def fr_upd_def bad_rect_def
        fake_find_res_def fake_res_find_def CORE_WIDTH_def CORE_HEIGHT_def)
qed

lemma core_apir_pass:
  assumes "length hdr = 32"
  shows "passes 6 t (core_apir hdr t)"
proof -
  let ?m = "\<lparr> msg_command_type = APIR_COMMAND_FORWARD, msg_flags = 3, msg_reply_resource_id = 17 \<rparr>"
  have "uk_virtio_gpu_apir_encode_header (Some hdr) (Some ?m) = (Inr 12, Some (le32 2 @ le32 3 @ le32 17 @ drop 12 hdr))"
    using assms by (subst apir_encode_header_long) (simp_all add: APIR_COMMAND_FORWARD_def APIR_COMMAND_LENGTH_def)
  moreover have "uk_virtio_gpu_apir_decode_header (Some (take 12 (le32 2 @ le32 3 @ le32 17 @ drop 12 hdr))) (Some m0) = (Inr 12, Some ?m)" for m0
    by (subst apir_decode_header_long) (simp_all add: APIR_COMMAND_FORWARD_def APIR_COMMAND_LENGTH_def Let_def)
  moreover have "apir_get_u32 [1, 0, 0, 0, 2, 0, 0, 0] 0 = Inr (1, 4)" "apir_get_u32 [1, 0, 0, 0, 2, 0, 0, 0] 4 = Inr (2, 8)"
    by code_simp+
  ultimately show ?thesis
    by (simp add: core_apir_def passes_def Let_def fake_apir_decode_handshake_reply_def)
qed

lemma core_release_pass:
  assumes "fd_resources d = r # rs" "fr_live r" "fr_id r = 1" "fr_backing_attached r"
  shows "passes 2 t (core_release 1 d t)"
proof -
  let ?d = "snd (fake_detach_backing d 1)"
  have f: "fake_find_res d 1 = Some 0" by (rule first_resource [OF assms(1-3)])
  have d: "\<not> isl (fst (fake_detach_backing d 1))" "fd_resources ?d = r\<lparr>fr_backing_attached := False\<rparr> # rs"
    using f assms by (simp_all add: fake_detach_backing_def fr_upd_def)
  have "fake_find_res ?d 1 = Some 0" by (rule first_resource [OF d(2)]) (simp_all add: assms)
  hence "\<not> isl (fst (fake_resource_unref ?d 1))" by (simp add: fake_resource_unref_def)
  thus ?thesis using d(1) by (simp add: core_release_def passes_def split_def Let_def)
qed

lemma core_segment: "uk_sglist_append (uk_sglist_init 1) p (ucast (CORE_WIDTH * CORE_HEIGHT * CORE_BPP)) =
    (None, \<lparr> sg_segs = [(p, 16384)], sg_maxseg = 1 \<rparr>)"
  by (simp add: uk_sglist_append_def uk_sglist_init_def CORE_WIDTH_def CORE_HEIGHT_def CORE_BPP_def)

text \<open>All 37 checks run when both allocations succeed, and only the alignment of the frame can fail; the
  program answers 0 exactly when \<open>posix_memalign\<close> keeps its promise.  Without a frame it stops after 14
  checks, without a device after 2, and answers 1.\<close>

theorem core_test_verdict:
  assumes "length hdr = 32"
  shows "core_test mem frame hdr = (if mem \<and> (\<exists>p. frame = Some p \<and> p mod 4096 = 0) then 0 else 1)"
    "ts_checks (core_main mem frame hdr test_start) = (if \<not> mem then 2 else if frame = None then 14 else 37)"
proof -
  obtain t1 where q: "core_queries fake_new_dev (test_check ''probe fake device'' True
      (test_check ''alloc default available'' True test_start)) = (fake_metrics_reset fake_new_dev, t1)"
    "ts_failures t1 = 0" "ts_checks t1 = 13"
    using core_queries_pass [of "test_check ''probe fake device'' True
      (test_check ''alloc default available'' True test_start)"]
    by (cases "core_queries fake_new_dev (test_check ''probe fake device'' True
      (test_check ''alloc default available'' True test_start))") (simp add: passes_def test_start_def)
  have r: "passes 20 t (core_release res d (core_apir hdr t'))"
    if "core_resources \<lparr> sg_segs = [(p, 16384)], sg_maxseg = 1 \<rparr> (fake_metrics_reset fake_new_dev) t = (res, d, t')"
    for p t res d t'
  proof -
    have "passes 12 t t'" "res = 1" "\<exists>r rs. fd_resources d = r # rs \<and> fr_live r \<and> fr_id r = 1 \<and> fr_backing_attached r"
      using core_resources_pass [OF _ _ that] by simp_all
    thus ?thesis using core_apir_pass [OF assms, of t'] core_release_pass by (fastforce simp: passes_def)
  qed
  have "ts_failures (core_main mem frame hdr test_start) =
      (if mem \<and> (\<exists>p. frame = Some p \<and> p mod 4096 = 0) then 0 else 1) \<and>
    ts_checks (core_main mem frame hdr test_start) = (if \<not> mem then 2 else if frame = None then 14 else 37)"
  proof (cases "mem \<and> frame \<noteq> None")
    case False
    thus ?thesis using q by (auto simp: core_main_def test_device_init_def fake_probe_def test_start_def Let_def)
  next
    case True
    then obtain p where p: "mem" "frame = Some p" by blast
    let ?t = "test_check ''sg single segment'' True (test_check ''sg append frame'' True
      (test_check ''frame alignment'' (p mod 4096 = 0) (test_check ''aligned frame alloc'' True t1)))"
    obtain res d t' where c: "core_resources \<lparr> sg_segs = [(p, 16384)], sg_maxseg = 1 \<rparr>
        (fake_metrics_reset fake_new_dev) ?t = (res, d, t')" by (metis prod_cases3)
    have "core_main mem frame hdr test_start = core_release res d (core_apir hdr t')"
      using p q(1) c by (simp add: core_main_def test_device_init_def fake_probe_def core_segment [unfolded One_nat_def])
    thus ?thesis using r [OF c] p q by (simp add: passes_def)
  qed
  thus "core_test mem frame hdr = (if mem \<and> (\<exists>p. frame = Some p \<and> p mod 4096 = 0) then 0 else 1)"
    "ts_checks (core_main mem frame hdr test_start) = (if \<not> mem then 2 else if frame = None then 14 else 37)"
    by (auto simp: core_test_def test_finish_def)
qed

end
