(* ===== verification/Gpu_Threads.thy ===== *)
theory Gpu_Threads
  imports Gpu_Calls Gpu_Demo
begin

text \<open>
  Concurrent callers.  The control queue is guarded by a mutex inside \<open>cmd_submit\<close>, and threads are switched
  there: while one polls the queue, or waits for the mutex.  An operation is therefore a sequence of segments
  that run without interruption, separated by submissions; \<open>act_of\<close> cuts each call of the shared interface at
  these points, and a schedule interleaves the segments of any number of threads.  A submission is one step,
  because the mutex admits one at a time and it touches the device record only at its end.
\<close>

section \<open>Operations cut at the mutex\<close>

text \<open>A segment ends with a result, or with a command, the device record as the segment leaves it, and what
  the operation does with the outcome in whatever record it then finds.\<close>

datatype act =
    Done "errno + u32" uk_virtio_gpu_dev
  | Submit uk_virtio_gpu_dev "u8 list" nat u32 "u64 option" "errno + u8 list \<Rightarrow> uk_virtio_gpu_dev \<Rightarrow> act"
  | Malloc u64 "bool \<Rightarrow> act"
  | Free act

primrec run_act :: "'h env \<Rightarrow> act \<Rightarrow> 'h sys \<Rightarrow> ((errno + u32) \<times> 'h sys) option" where
  "run_act e (Done r d) s = Some (r, s\<lparr>vg := d\<rparr>)"
| "run_act e (Submit d req n ex f k) s =
    (case cmd_submit e req n ex f (s\<lparr>vg := d\<rparr>) of
       None \<Rightarrow> None
     | Some (r, s1) \<Rightarrow> run_act e (k r (vg s1)) s1)"
| "run_act e (Malloc n k) s =
    (case env_malloc e n (host s) of (b, h) \<Rightarrow> run_act e (k b) (s\<lparr>host := h\<rparr>))"
| "run_act e (Free a) s = run_act e a (s\<lparr>host := env_free e (host s)\<rparr>)"

definition count :: "(uk_virtio_gpu_metrics \<Rightarrow> uk_virtio_gpu_metrics) \<Rightarrow> uk_virtio_gpu_dev \<Rightarrow> uk_virtio_gpu_dev" where
  "count f d = d\<lparr>metrics := f (metrics d)\<rparr>"

text \<open>Most operations give up when the command fails and otherwise apply an update.\<close>

definition after :: "(uk_virtio_gpu_dev \<Rightarrow> uk_virtio_gpu_dev) \<Rightarrow> errno + u8 list \<Rightarrow> uk_virtio_gpu_dev \<Rightarrow> act" where
  "after f r d = (case r of Inl er \<Rightarrow> Done (Inl er) d | Inr _ \<Rightarrow> Done (Inr 0) (f d))"

definition create_end :: "u32 \<Rightarrow> u32 \<Rightarrow> u32 \<Rightarrow> nat \<Rightarrow> errno + u8 list \<Rightarrow> uk_virtio_gpu_dev \<Rightarrow> act" where
  "create_end w h fmt i r d =
    (case r of
       Inl er \<Rightarrow> Done (Inl er) (res_upd i (\<lambda>_. zero_resource) d)
     | Inr _ \<Rightarrow> Done (Inr (r_id (resources d ! i)))
         (res_upd i (\<lambda>r. r\<lparr>r_width := w, r_height := h, r_depth := 1, r_format := compat_format fmt,
            r_size := resource_size_bytes w h 1\<rparr>) d))"

definition create_act :: "u32 \<Rightarrow> u32 \<Rightarrow> u32 \<Rightarrow> uk_virtio_gpu_dev \<Rightarrow> act" where
  "create_act w h fmt d =
    (if w = 0 \<or> h = 0 then Done (Inl EINVAL) d
     else case alloc_res d of
       None \<Rightarrow> Done (Inl ENOMEM) d
     | Some (i, d0) \<Rightarrow>
        Submit d0 (enc_resource_create_2d \<lparr> c2d_hdr = fst (hdr_init d0 CMD_RESOURCE_CREATE_2D False 0),
            c2d_resource_id = r_id (resources d0 ! i), c2d_format = compat_format fmt, c2d_width = w, c2d_height = h \<rparr>)
          sizeof_ctrl_hdr RESP_OK_NODATA None (create_end w h fmt i))"

definition attach_act :: "u32 \<Rightarrow> (u64 \<times> u64) list option \<Rightarrow> uk_virtio_gpu_dev \<Rightarrow> act" where
  "attach_act res sg d =
    (case (find_res d res, sg) of
       (Some i, Some segs) \<Rightarrow>
        (if segs = [] \<or> 16 < length segs \<or> list_ex (\<lambda>(_, len). len = 0) segs then Done (Inl EINVAL) d
         else Submit d (enc_resource_attach_backing \<lparr> ab_hdr = fst (hdr_init d CMD_RESOURCE_ATTACH_BACKING False 0),
               ab_resource_id = res, ab_nr_entries = of_nat (length segs) \<rparr> @
               concat (map enc_mem_entry (map (\<lambda>(a, len). \<lparr> me_addr = a, me_length = ucast len, me_padding = 0 \<rparr>) segs)))
             sizeof_ctrl_hdr RESP_OK_NODATA None
             (after (\<lambda>d. count (\<lambda>m. m\<lparr>m_attach_calls := m_attach_calls m + 1\<rparr>) (res_upd i (\<lambda>r. r\<lparr>r_backing_attached := True\<rparr>) d))))
     | _ \<Rightarrow> Done (Inl EINVAL) d)"

definition flush_act :: "u32 \<Rightarrow> uk_gpu_rect option \<Rightarrow> bool \<Rightarrow> uk_virtio_gpu_dev \<Rightarrow> act" where
  "flush_act res rect fence d =
    (case (find_res d res, rect) of
       (Some _, Some rect) \<Rightarrow>
        (if rect_w rect = 0 \<or> rect_h rect = 0 then Done (Inl EINVAL) d
         else case hdr_init d CMD_RESOURCE_FLUSH fence 0 of (h, f, d) \<Rightarrow>
           Submit d (enc_resource_flush \<lparr> flush_hdr = h, flush_r = wire_rect rect, flush_resource_id = res, flush_padding = 0 \<rparr>)
             sizeof_ctrl_hdr RESP_OK_NODATA f (after (count (\<lambda>m. m\<lparr>m_flushes := m_flushes m + 1\<rparr>))))
     | _ \<Rightarrow> Done (Inl EINVAL) d)"

text \<open>A transfer, and what follows it when it succeeds.\<close>

definition transfer_act :: "u32 \<Rightarrow> uk_gpu_rect option \<Rightarrow> bool \<Rightarrow> (uk_virtio_gpu_dev \<Rightarrow> act) \<Rightarrow> uk_virtio_gpu_dev \<Rightarrow> act" where
  "transfer_act res rect fence k d =
    (case (find_res d res, rect) of
       (Some i, Some rect) \<Rightarrow>
        (if rect_w rect = 0 \<or> rect_h rect = 0 \<or> \<not> r_backing_attached (resources d ! i) then Done (Inl EINVAL) d
         else case hdr_init d CMD_TRANSFER_TO_HOST_2D fence 0 of (h, f, d) \<Rightarrow>
           Submit d (enc_transfer_to_host_2d \<lparr> t2d_hdr = h, t2d_r = wire_rect rect, t2d_offset = 0, t2d_resource_id = res,
               t2d_padding = 0 \<rparr>)
             sizeof_ctrl_hdr RESP_OK_NODATA f
             (\<lambda>r d. case r of Inl er \<Rightarrow> Done (Inl er) d
                | Inr _ \<Rightarrow> k (count (\<lambda>m. m\<lparr>m_transfers_to_host := m_transfers_to_host m + 1,
                    m_bytes_to_host := m_bytes_to_host m + ucast (rect_w rect) * ucast (rect_h rect) * 4\<rparr>) d)))
     | _ \<Rightarrow> Done (Inl EINVAL) d)"

definition scanout_act :: "u32 \<Rightarrow> uk_gpu_rect option \<Rightarrow> uk_virtio_gpu_dev \<Rightarrow> act" where
  "scanout_act res rect d =
    (case (find_res d res, rect) of
       (Some _, Some rect) \<Rightarrow>
        (if num_scanouts d \<le> 0 then Done (Inl EINVAL) d
         else Submit d (enc_set_scanout \<lparr> sso_hdr = fst (hdr_init d CMD_SET_SCANOUT False 0), sso_r = wire_rect rect,
               sso_scanout_id = 0, sso_resource_id = res \<rparr>) sizeof_ctrl_hdr RESP_OK_NODATA None (after id))
     | _ \<Rightarrow> Done (Inl EINVAL) d)"

definition detach_act :: "u32 \<Rightarrow> uk_virtio_gpu_dev \<Rightarrow> act" where
  "detach_act res d =
    (case find_res d res of
       None \<Rightarrow> Done (Inl EINVAL) d
     | Some i \<Rightarrow>
        (if \<not> r_backing_attached (resources d ! i) then Done (Inl EINVAL) d
         else Submit d (enc_resource_detach_backing \<lparr> db_hdr = fst (hdr_init d CMD_RESOURCE_DETACH_BACKING False 0),
               db_resource_id = res, db_padding = 0 \<rparr>) sizeof_ctrl_hdr RESP_OK_NODATA None
             (after (\<lambda>d. count (\<lambda>m. m\<lparr>m_detach_calls := m_detach_calls m + 1\<rparr>) (res_upd i (\<lambda>r. r\<lparr>r_backing_attached := False\<rparr>) d)))))"

definition unref_act :: "u32 \<Rightarrow> uk_virtio_gpu_dev \<Rightarrow> act" where
  "unref_act res d =
    (case find_res d res of
       None \<Rightarrow> Done (Inl EINVAL) d
     | Some i \<Rightarrow>
        Submit d (enc_resource_unref \<lparr> unref_hdr = fst (hdr_init d CMD_RESOURCE_UNREF False 0), unref_resource_id = res,
            unref_padding = 0 \<rparr>) sizeof_ctrl_hdr RESP_OK_NODATA None
          (after (\<lambda>d. count (\<lambda>m. m\<lparr>m_resources_unrefed := m_resources_unrefed m + 1\<rparr>) (res_upd i (\<lambda>_. zero_resource) d))))"

definition uuid_act :: "u32 \<Rightarrow> uk_virtio_gpu_dev \<Rightarrow> act" where
  "uuid_act res d =
    (if find_res d res = None then Done (Inl EINVAL) d
     else if \<not> negotiated d F_RESOURCE_UUID then Done (Inl ENOTSUP) d
     else Submit d (enc_resource_assign_uuid \<lparr> uuid_hdr = fst (hdr_init d CMD_RESOURCE_ASSIGN_UUID False 0),
         uuid_resource_id = res, uuid_padding = 0 \<rparr>) (sizeof_ctrl_hdr + 16) RESP_OK_RESOURCE_UUID None (after id))"

text \<open>The scan for a capset, then \<open>k\<close> with its outcome.\<close>

primrec capset_act :: "u32 \<Rightarrow> nat \<Rightarrow> u32 \<Rightarrow> (bool \<Rightarrow> uk_virtio_gpu_dev \<Rightarrow> act) \<Rightarrow> uk_virtio_gpu_dev \<Rightarrow> act" where
  "capset_act cid 0 i k d = k False d"
| "capset_act cid (Suc n) i k d =
    (if num_capsets d \<le> i then capset_act cid n (i + 1) k d
     else Malloc (of_nat sizeof_resp_capset_info) (\<lambda>b.
       if \<not> b then capset_act cid n (i + 1) k d
       else Submit d (enc_get_capset_info \<lparr> gci_hdr = fst (hdr_init d CMD_GET_CAPSET_INFO False 0),
           gci_capset_index = i, gci_padding = 0 \<rparr>) sizeof_resp_capset_info RESP_OK_CAPSET_INFO None
         (\<lambda>r d. Free (case r of
            Inl _ \<Rightarrow> capset_act cid n (i + 1) k d
          | Inr resp \<Rightarrow> if rci_capset_id (dec_resp_capset_info resp) = cid then k True d
              else capset_act cid n (i + 1) k d))))"

definition context_end :: "nat \<Rightarrow> errno + u8 list \<Rightarrow> uk_virtio_gpu_dev \<Rightarrow> act" where
  "context_end i r d =
    (case r of
       Inl er \<Rightarrow> Done (Inl er) (ctx_upd i (\<lambda>_. zero_context) d)
     | Inr _ \<Rightarrow> Done (Inr (c_id (contexts d ! i))) (count (\<lambda>m. m\<lparr>m_contexts_created := m_contexts_created m + 1\<rparr>) d))"

definition context_new :: "u32 \<Rightarrow> u8 list option \<Rightarrow> uk_virtio_gpu_dev \<Rightarrow> act" where
  "context_new cid nm d =
    (case alloc_ctx d of
       None \<Rightarrow> Done (Inl ENOMEM) d
     | Some (i, d0) \<Rightarrow>
        (let d1 = ctx_upd i (\<lambda>c. c\<lparr>c_capset_id := cid\<rparr>) d0;
             (h, _, d2) = hdr_init d1 CMD_CTX_CREATE True (c_id (contexts d1 ! i));
             n = (case nm of None \<Rightarrow> 0 | Some nm \<Rightarrow> strnlen nm 64) in
         Submit d2 (enc_ctx_create \<lparr> cc_hdr = h, cc_nlen = of_nat n,
             cc_context_init = (if negotiated d2 F_CONTEXT_INIT then cid AND CONTEXT_INIT_CAPSET_ID_MASK else 0),
             cc_debug_name = (case nm of None \<Rightarrow> [] | Some nm \<Rightarrow> take n nm) \<rparr>)
           sizeof_ctrl_hdr RESP_OK_NODATA None (context_end i)))"

definition context_act :: "u32 \<Rightarrow> u8 list option \<Rightarrow> uk_virtio_gpu_dev \<Rightarrow> act" where
  "context_act cid nm d =
    (if cid = 0 then Done (Inl EINVAL) d
     else if \<not> negotiated d F_VIRGL then Done (Inl ENOTSUP) d
     else if negotiated d F_CONTEXT_INIT
     then capset_act cid (unat (num_capsets d)) 0 (\<lambda>b d. if b then context_new cid nm d else Done (Inl EINVAL) d) d
     else context_new cid nm d)"

definition destroy_act :: "u32 \<Rightarrow> uk_virtio_gpu_dev \<Rightarrow> act" where
  "destroy_act c d =
    (case find_ctx d c of
       None \<Rightarrow> Done (Inl EINVAL) d
     | Some i \<Rightarrow>
        Submit d (enc_ctrl_hdr (fst (hdr_init d CMD_CTX_DESTROY False (c_id (contexts d ! i))))) sizeof_ctrl_hdr RESP_OK_NODATA None
          (after (\<lambda>d. count (\<lambda>m. m\<lparr>m_contexts_destroyed := m_contexts_destroyed m + 1\<rparr>) (ctx_upd i (\<lambda>_. zero_context) d))))"

definition link_act :: "u32 \<Rightarrow> u32 \<Rightarrow> uk_virtio_gpu_dev \<Rightarrow> act" where
  "link_act c res d =
    (if find_ctx d c = None \<or> find_res d res = None then Done (Inl EINVAL) d
     else Submit d (enc_ctx_resource \<lparr> cr_hdr = fst (hdr_init d CMD_CTX_ATTACH_RESOURCE False c), cr_resource_id = res,
         cr_padding = 0 \<rparr>) sizeof_ctrl_hdr RESP_OK_NODATA None (after id))"

definition submit_act :: "u32 \<Rightarrow> u8 list option \<Rightarrow> bool \<Rightarrow> uk_virtio_gpu_dev \<Rightarrow> act" where
  "submit_act c cmd fence d =
    (case (find_ctx d c, cmd) of
       (Some _, Some bytes) \<Rightarrow>
        (if bytes = [] \<or> 0xFFFFFFFF < length bytes then Done (Inl EINVAL) d
         else Malloc (32 + of_nat (length bytes)) (\<lambda>b.
           if \<not> b then Done (Inl ENOMEM) d
           else case hdr_init d CMD_SUBMIT_3D fence c of (h, f, d) \<Rightarrow>
             Submit d (enc_cmd_submit_3d \<lparr> s3d_hdr = h, s3d_size = of_nat (length bytes), s3d_padding = 0 \<rparr> @ bytes)
               sizeof_ctrl_hdr RESP_OK_NODATA f
               (\<lambda>r d. Free (after (count (\<lambda>m. m\<lparr>m_submits_3d := m_submits_3d m + 1\<rparr>)) r d))))
     | _ \<Rightarrow> Done (Inl EINVAL) d)"

fun act_of :: "shared_call \<Rightarrow> uk_virtio_gpu_dev \<Rightarrow> act" where
  "act_of (SCreate w h fmt) = create_act w h fmt"
| "act_of (SAttach r sg) = attach_act r sg"
| "act_of (STransfer r rect f) = transfer_act r rect f (Done (Inr 0))"
| "act_of (SFlush r rect f) = flush_act r rect f"
| "act_of (SBoth r rect) = transfer_act r rect False (flush_act r rect True)"
| "act_of (SScanout r rect) = scanout_act r rect"
| "act_of (SDetach r) = detach_act r"
| "act_of (SUnref r) = unref_act r"
| "act_of (SUuid r) = uuid_act r"
| "act_of (SContext cid nm) = context_act cid nm"
| "act_of (SDestroy c) = destroy_act c"
| "act_of (SLink c r) = link_act c r"
| "act_of (SSubmit c cmd f) = submit_act c cmd f"

section \<open>Run without interruption, the segments are the operation\<close>

lemma sys_swap: "s\<lparr>vg := d, host := h\<rparr> = s\<lparr>host := h, vg := d\<rparr>"
  by simp

text \<open>A segment does not look at the record again once it is computed.\<close>

lemma run_act_vg [simp]: "run_act e a (s\<lparr>vg := d\<rparr>) = run_act e a s"
proof (induction a arbitrary: s)
  case (Malloc n k)
  have "run_act e (k b) (s\<lparr>host := h, vg := d\<rparr>) = run_act e (k b) (s\<lparr>host := h\<rparr>)" for b h
    using Malloc[OF rangeI, of b "s\<lparr>host := h\<rparr>"] by simp
  thus ?case by (simp add: sys_swap split: prod.splits)
next
  case (Free a)
  show ?case using Free[of "s\<lparr>host := env_free e (host s)\<rparr>"] by (simp add: sys_swap)
qed simp_all

lemma create_sequential:
  "uk_virtio_gpu_resource_create_2d e w h fmt True s = run_act e (create_act w h fmt (vg s)) s"
  by (auto simp: uk_virtio_gpu_resource_create_2d_def create_act_def create_end_def Let_def
      split: option.splits sum.splits prod.splits)

lemma attach_sequential:
  "map_option (map_prod no_id id) (uk_virtio_gpu_resource_attach_backing e r sg s) = run_act e (attach_act r sg (vg s)) s"
  by (auto simp: uk_virtio_gpu_resource_attach_backing_def attach_act_def after_def count_def no_id_def Let_def
      split: option.splits sum.splits prod.splits if_splits)

lemma flush_sequential:
  "map_option (\<lambda>(rc, _, s). (no_id rc, s)) (uk_virtio_gpu_resource_flush e r rect f s) = run_act e (flush_act r rect f (vg s)) s"
  by (auto simp: uk_virtio_gpu_resource_flush_def flush_act_def after_def count_def no_id_def Let_def
      split: option.splits sum.splits prod.splits if_splits)

lemma transfer_sequential:
  "map_option (\<lambda>(rc, _, s). (no_id rc, s)) (uk_virtio_gpu_transfer_to_host_2d e r rect f s)
     = run_act e (transfer_act r rect f (Done (Inr 0)) (vg s)) s"
  by (auto simp: uk_virtio_gpu_transfer_to_host_2d_def transfer_act_def count_def no_id_def Let_def
      split: option.splits sum.splits prod.splits if_splits)

lemma both_sequential:
  "map_option (\<lambda>(rc, _, s). (no_id rc, s)) (uk_virtio_gpu_transfer_and_flush_2d e r rect True s)
     = run_act e (transfer_act r rect False (flush_act r rect True) (vg s)) s"
proof -
  have "run_act e (transfer_act r rect False k (vg s)) s = (case uk_virtio_gpu_transfer_to_host_2d e r rect False s of
      None \<Rightarrow> None
    | Some (Inl er, _, s1) \<Rightarrow> Some (Inl er, s1)
    | Some (Inr _, _, s1) \<Rightarrow> run_act e (k (vg s1)) s1)" for k
    using run_act_vg[of e]
    by (auto simp: uk_virtio_gpu_transfer_to_host_2d_def transfer_act_def count_def Let_def
        split: option.splits sum.splits prod.splits if_splits)
  thus ?thesis
    by (auto simp: uk_virtio_gpu_transfer_and_flush_2d_def flush_sequential[symmetric] no_id_def
      split: option.splits sum.splits prod.splits)
qed

lemma scanout_sequential:
  "map_option (map_prod no_id id) (uk_virtio_gpu_gl_set_scanout e 0 r rect s) = run_act e (scanout_act r rect (vg s)) s"
  by (auto simp: uk_virtio_gpu_gl_set_scanout_def scanout_act_def after_def no_id_def Let_def
      split: option.splits sum.splits prod.splits if_splits)

lemma detach_sequential:
  "map_option (map_prod no_id id) (uk_virtio_gpu_gl_resource_detach_backing e r s) = run_act e (detach_act r (vg s)) s"
  by (auto simp: uk_virtio_gpu_gl_resource_detach_backing_def detach_act_def after_def count_def no_id_def Let_def
      split: option.splits sum.splits prod.splits if_splits)

lemma unref_sequential:
  "map_option (map_prod no_id id) (uk_virtio_gpu_gl_resource_unref e r s) = run_act e (unref_act r (vg s)) s"
  by (auto simp: uk_virtio_gpu_gl_resource_unref_def unref_act_def after_def count_def no_id_def Let_def
      split: option.splits sum.splits prod.splits)

lemma uuid_sequential:
  "map_option (map_prod no_id id) (uk_virtio_gpu_gl_resource_assign_uuid e r True s) = run_act e (uuid_act r (vg s)) s"
  by (auto simp: uk_virtio_gpu_gl_resource_assign_uuid_def uuid_act_def after_def no_id_def Let_def
      split: option.splits sum.splits prod.splits)

lemma destroy_sequential:
  "map_option (map_prod no_id id) (uk_virtio_gpu_gl_context_destroy e (Some (handle c)) s) = run_act e (destroy_act c (vg s)) s"
  by (auto simp: uk_virtio_gpu_gl_context_destroy_def destroy_act_def after_def count_def no_id_def handle_def Let_def
      split: option.splits sum.splits prod.splits)

lemma link_sequential:
  "map_option (map_prod no_id id) (uk_virtio_gpu_gl_context_attach_resource e (Some (handle c)) r s) = run_act e (link_act c r (vg s)) s"
  by (auto simp: uk_virtio_gpu_gl_context_attach_resource_def ctx_resource_def link_act_def after_def no_id_def
      handle_def ctx_id_or_0_def Let_def split: option.splits sum.splits prod.splits)

lemma submit_sequential:
  "map_option (\<lambda>(rc, _, s). (no_id rc, s)) (uk_virtio_gpu_gl_context_submit e (Some (handle c)) cmd f s)
     = run_act e (submit_act c cmd f (vg s)) s"
  by (auto simp: uk_virtio_gpu_gl_context_submit_def submit_act_def after_def count_def no_id_def handle_def
      ctx_id_or_0_def sys_swap Let_def split: option.splits sum.splits prod.splits bool.splits if_splits)

lemma capset_sequential:
  "run_act e (capset_act cid n i k (vg s)) s =
    (case has_capset_loop e cid n i s of None \<Rightarrow> None | Some (b, s1) \<Rightarrow> run_act e (k b (vg s1)) s1)"
proof (induction n arbitrary: i s)
  case (Suc n)
  have step: "run_act e (capset_act cid n i k (vg s)) (s\<lparr>host := h\<rparr>) =
      (case has_capset_loop e cid n i (s\<lparr>host := h\<rparr>) of None \<Rightarrow> None | Some (b, s1) \<Rightarrow> run_act e (k b (vg s1)) s1)" for i s h
    using Suc.IH[of i "s\<lparr>host := h\<rparr>"] by simp
  show ?case
    by (auto simp: uk_virtio_gpu_gl_capset_info_get_def Suc.IH step sys_swap Let_def
        split: option.splits sum.splits prod.splits bool.splits)
qed simp

lemma context_sequential:
  "map_option (map_prod (map_sum id ctx_id) id) (uk_virtio_gpu_gl_context_create e cid nm True s)
     = run_act e (context_act cid nm (vg s)) s"
proof -
  have new: "run_act e (context_new cid nm (vg s)) s =
     map_option (map_prod (map_sum id ctx_id) id)
      (case alloc_ctx (vg s) of
         None \<Rightarrow> Some (Inl ENOMEM, s)
       | Some (i, d0) \<Rightarrow>
          (let d1 = ctx_upd i (\<lambda>c. c\<lparr>c_capset_id := cid\<rparr>) d0;
               (h, _, d) = hdr_init d1 CMD_CTX_CREATE True (c_id (contexts d1 ! i));
               n = (case nm of None \<Rightarrow> 0 | Some nm \<Rightarrow> strnlen nm 64);
               req = \<lparr> cc_hdr = h, cc_nlen = of_nat n,
                       cc_context_init = (if negotiated d F_CONTEXT_INIT
                         then cid AND CONTEXT_INIT_CAPSET_ID_MASK else 0),
                       cc_debug_name = (case nm of None \<Rightarrow> [] | Some nm \<Rightarrow> take n nm) \<rparr> in
           case cmd_submit e (enc_ctx_create req) sizeof_ctrl_hdr RESP_OK_NODATA None
                  (s\<lparr>vg := d\<rparr>) of
             None \<Rightarrow> None
           | Some (Inl er, s1) \<Rightarrow> Some (Inl er, s1\<lparr>vg := ctx_upd i (\<lambda>_. zero_context) (vg s1)\<rparr>)
           | Some (Inr _, s1) \<Rightarrow>
               Some (Inr \<lparr> ctx_id = c_id (contexts (vg s1) ! i), ctx_capset_id = cid,
                           ctx_created = True \<rparr>,
                 s1\<lparr>vg := (vg s1)\<lparr>metrics := (metrics (vg s1))
                   \<lparr>m_contexts_created := m_contexts_created (metrics (vg s1)) + 1\<rparr>\<rparr>\<rparr>)))" for s :: "'a sys"
    by (simp add: context_new_def context_end_def count_def Let_def split: option.split sum.split prod.split)
  show ?thesis
    by (auto simp: uk_virtio_gpu_gl_context_create_def context_act_def capset_sequential has_capset_def new
        split: option.split prod.split bool.split)
qed

lemma act_sequential: "real_do e c s = run_act e (act_of c (vg s)) s"
  by (cases c) (simp_all add: create_sequential attach_sequential flush_sequential transfer_sequential both_sequential
      scanout_sequential detach_sequential unref_sequential uuid_sequential context_sequential destroy_sequential
      link_sequential submit_sequential del: run_act_vg)

end
