(* ===== verification/Gpu_Schedule.thy ===== *)
theory Gpu_Schedule
  imports Gpu_Threads Gpu_Start
begin

text \<open>
  Schedules of several threads.  A thread has not begun, waits with a command for its turn at the queue, or
  is over; a step lets one thread run a segment, and the mutex may be granted in any order.  One thread alone
  is the sequential operation, and no schedule breaks the tables.
\<close>

section \<open>Threads and steps\<close>

datatype thread =
    Begin shared_call
  | Wait "u8 list" nat u32 "u64 option" "errno + u8 list \<Rightarrow> uk_virtio_gpu_dev \<Rightarrow> act"
  | Over "errno + u32"

text \<open>A segment runs up to its next submission or its end.\<close>

primrec settle :: "'h env \<Rightarrow> act \<Rightarrow> 'h sys \<Rightarrow> thread \<times> 'h sys" where
  "settle e (Done r d) s = (Over r, s\<lparr>vg := d\<rparr>)"
| "settle e (Submit d req n ex f k) s = (Wait req n ex f k, s\<lparr>vg := d\<rparr>)"
| "settle e (Malloc n k) s = (case env_malloc e n (host s) of (b, h) \<Rightarrow> settle e (k b) (s\<lparr>host := h\<rparr>))"
| "settle e (Free a) s = settle e a (s\<lparr>host := env_free e (host s)\<rparr>)"

fun advance :: "'h env \<Rightarrow> thread \<Rightarrow> 'h sys \<Rightarrow> (thread \<times> 'h sys) option" where
  "advance e (Begin c) s = Some (settle e (act_of c (vg s)) s)"
| "advance e (Wait req n ex f k) s =
    (case cmd_submit e req n ex f s of None \<Rightarrow> None | Some (r, s1) \<Rightarrow> Some (settle e (k r (vg s1)) s1))"
| "advance e (Over r) s = None"

inductive sched :: "'h env \<Rightarrow> nat \<Rightarrow> 'h sys \<times> thread list \<Rightarrow> 'h sys \<times> thread list \<Rightarrow> bool" for e where
  sched_none: "sched e 0 cfg cfg"
| sched_step: "sched e m cfg (s, ts) \<Longrightarrow> i < length ts \<Longrightarrow> advance e (ts ! i) s = Some (t, s') \<Longrightarrow>
    sched e (Suc m) cfg (s', ts[i := t])"

section \<open>One thread alone\<close>

lemma sched_trans:
  assumes "sched e m b c" "sched e n a b" shows "sched e (n + m) a c"
  using assms by (induction rule: sched.induct) (auto intro: sched.intros)

lemma sched_first:
  assumes "i < length ts" "advance e (ts ! i) s = Some (t, s1)" "sched e m (s1, ts[i := t]) c"
  shows "sched e (Suc m) (s, ts) c"
  using sched_trans[OF assms(3) sched_step[OF sched_none assms(1,2)]] by simp

text \<open>What is left of a thread, run without interruption.\<close>

fun finish :: "'h env \<Rightarrow> thread \<Rightarrow> 'h sys \<Rightarrow> ((errno + u32) \<times> 'h sys) option" where
  "finish e (Begin c) s = run_act e (act_of c (vg s)) s"
| "finish e (Wait req n ex f k) s =
    (case cmd_submit e req n ex f s of None \<Rightarrow> None | Some (r, s1) \<Rightarrow> run_act e (k r (vg s1)) s1)"
| "finish e (Over r) s = Some (r, s)"

lemma finish_settle: "settle e a s = (t, s1) \<Longrightarrow> finish e t s1 = run_act e a s"
proof (induction a arbitrary: s)
  case (Malloc n k)
  thus ?case by (auto split: prod.splits)
qed auto

lemma finish_advance: "advance e t s = Some (t1, s1) \<Longrightarrow> finish e t1 s1 = finish e t s"
  by (cases t) (auto simp: finish_settle split: option.splits prod.splits)

lemma alone_back: "sched e m cfg cfg' \<Longrightarrow> cfg = (s, [t]) \<Longrightarrow> \<exists>t' s'. cfg' = (s', [t']) \<and> finish e t' s' = finish e t s"
proof (induction rule: sched.induct)
  case (sched_step m s1 ts i t1 s2)
  thus ?case using finish_advance by fastforce
qed simp

lemma alone_settled:
  "run_act e a s = Some (r, s') \<Longrightarrow> settle e a s = (t, s1) \<Longrightarrow> \<exists>m. sched e m (s1, [t]) (s', [Over r])"
proof (induction a arbitrary: s t s1)
  case (Done x d)
  thus ?case using sched_none by fastforce
next
  case (Submit d req n ex f k)
  obtain r0 s2 where sub: "cmd_submit e req n ex f (s\<lparr>vg := d\<rparr>) = Some (r0, s2)" "run_act e (k r0 (vg s2)) s2 = Some (r, s')"
    using Submit.prems(1) by (auto split: option.splits)
  obtain t2 s3 where st: "settle e (k r0 (vg s2)) s2 = (t2, s3)" by (cases "settle e (k r0 (vg s2)) s2")
  obtain m where "sched e m (s3, [t2]) (s', [Over r])" using Submit.IH[OF rangeI rangeI sub(2) st] by blast
  hence "sched e (Suc m) (s1, [t]) (s', [Over r])"
    using Submit.prems(2) sub(1) st by (intro sched_first[where i = 0 and t = t2 and ?s1.0 = s3]) auto
  thus ?case by blast
next
  case (Malloc n k)
  show ?case using Malloc.prems Malloc.IH[OF rangeI] by (auto split: prod.splits)
qed auto


section \<open>No schedule breaks the tables\<close>

text \<open>The shared calls create no blobs; without blobs the invariant of a record is that of its tables.\<close>

definition plain_inv :: "uk_virtio_gpu_dev \<Rightarrow> bool" where
  "plain_inv d \<longleftrightarrow> dev_inv d \<and> (\<forall>r\<in>set (resources d). \<not> r_is_blob r)"

text \<open>What a segment may do to the record, and that every later segment of the thread keeps it too.\<close>

definition segment :: "uk_virtio_gpu_dev \<Rightarrow> uk_virtio_gpu_dev \<Rightarrow> bool" where
  "segment d d' \<longleftrightarrow>
     unat (next_res d') \<le> unat (next_res d) + 1 \<and> unat (next_ctx d') \<le> unat (next_ctx d) + 1 \<and>
     unat (next_fence d') \<le> unat (next_fence d) + 1 \<and> completed_fence d' = completed_fence d \<and>
     (room d \<longrightarrow> next_fence d \<le> next_fence d' \<and> (plain_inv d \<longrightarrow> plain_inv d'))"

primrec segments_ok :: "act \<Rightarrow> uk_virtio_gpu_dev \<Rightarrow> bool" where
  "segments_ok (Done r d') d = segment d d'"
| "segments_ok (Submit d' req n ex f k) d =
    (segment d d' \<and> (\<forall>x. f = Some x \<longrightarrow> room d \<longrightarrow> x < next_fence d') \<and> (\<forall>r d. segments_ok (k r d) d))"
| "segments_ok (Malloc n k) d = (\<forall>b. segments_ok (k b) d)"
| "segments_ok (Free a) d = segments_ok a d"

lemma segment_refl [simp]: "segment d d"
  by (simp add: segment_def)

lemma segment_count [simp]: "segment d (count f d') = segment d d'"
  by (simp add: segment_def count_def plain_inv_def)

lemma segmentI:
  assumes "next_res d' = next_res d" "next_ctx d' = next_ctx d" "next_fence d' = next_fence d"
    "completed_fence d' = completed_fence d" "plain_inv d \<Longrightarrow> plain_inv d'"
  shows "segment d d'"
  using assms by (simp add: segment_def)

lemma no_window: "\<not> r_is_blob r \<Longrightarrow> blob_window r = None"
  by (simp add: blob_window_def)

lemma plain_res_upd:
  assumes "plain_inv d" "\<And>r. r_live (f r) = r_live r \<and> r_id (f r) = r_id r \<and> r_is_blob (f r) = r_is_blob r \<and> r_mapped (f r) = r_mapped r"
  shows "plain_inv (res_upd i f d)"
proof (cases "i < length (resources d)")
  case True
  let ?r = "resources d ! i"
  have b: "\<not> r_is_blob ?r" "\<not> r_mapped ?r"
    using assms(1) True nth_mem[OF True] by (auto simp: plain_inv_def dev_inv_def)
  hence "res_keeps ?r (f ?r)" using assms(2)[of ?r] by (simp add: res_keeps_def no_window)
  hence "dev_inv (res_upd i f d)" using assms(1) by (intro dev_inv_res_upd) (simp_all add: plain_inv_def)
  moreover have "\<not> r_is_blob x" if "x \<in> set (resources (res_upd i f d))" for x
    using that set_update_subset_insert[of "resources d" i "f ?r"] b assms(1,2) by (auto simp: res_upd_def plain_inv_def)
  ultimately show ?thesis by (simp add: plain_inv_def)
qed (use assms(1) in \<open>simp add: res_upd_def list_update_beyond plain_inv_def\<close>)

lemma plain_res_clear: "plain_inv d \<Longrightarrow> plain_inv (res_upd i (\<lambda>_. zero_resource) d)"
  using set_update_subset_insert[of "resources d" i zero_resource] dev_inv_res_clear[of d i]
  by (auto simp: plain_inv_def res_upd_def)

lemma plain_ctx:
  "plain_inv d \<Longrightarrow> plain_inv (ctx_upd i (\<lambda>_. zero_context) d)"
  "plain_inv d \<Longrightarrow> plain_inv (ctx_upd i (\<lambda>c. c\<lparr>c_capset_id := cid\<rparr>) d)"
  by (auto simp: plain_inv_def intro: dev_inv_ctx_clear dev_inv_ctx_upd)

lemma after_ok:
  assumes "\<And>d. segment d (f d)" shows "segments_ok (after f r d) d"
  using assms by (simp add: after_def split: sum.split)

lemma segment_res_upd:
  "(\<And>r. r_live (f r) = r_live r \<and> r_id (f r) = r_id r \<and> r_is_blob (f r) = r_is_blob r \<and> r_mapped (f r) = r_mapped r) \<Longrightarrow>
    segment d (res_upd i f d)"
  "segment d (res_upd i (\<lambda>_. zero_resource) d)" "segment d (ctx_upd i (\<lambda>_. zero_context) d)"
  by (auto intro!: segmentI plain_res_upd plain_res_clear plain_ctx)

lemma segment_hdr:
  assumes "hdr_init d t b c = (h, f, d')" shows "segment d d'" "f = Some x \<Longrightarrow> room d \<Longrightarrow> x < next_fence d'"
proof -
  have "plain_inv d \<Longrightarrow> room d \<Longrightarrow> plain_inv (d\<lparr>next_fence := next_fence d + 1\<rparr>)"
    using dev_inv_next_fence[of d] by (simp add: plain_inv_def room_def)
  thus "segment d d'" using assms self_less_plus_1[of "next_fence d"]
    by (auto simp: hdr_init_def Let_def segment_def room_def split: if_splits)
  show "f = Some x \<Longrightarrow> room d \<Longrightarrow> x < next_fence d'"
    using assms self_less_plus_1[of "next_fence d"] by (auto simp: hdr_init_def Let_def room_def split: if_splits)
qed

lemma segment_alloc_res:
  assumes "alloc_res d = Some (i, d')" shows "segment d d'"
proof -
  note al = alloc_res_SomeD[OF assms]
  have "plain_inv d'" if "plain_inv d" "room d"
  proof -
    have "dev_inv d'" using dev_inv_alloc_res[OF assms] that by (simp add: plain_inv_def room_def)
    moreover have "resources d' = (resources d)[i := zero_resource\<lparr>r_id := next_res d, r_live := True\<rparr>]"
      unfolding al(3) by simp
    ultimately show ?thesis
      using that(1) set_update_subset_insert[of "resources d" i "zero_resource\<lparr>r_id := next_res d, r_live := True\<rparr>"]
      by (auto simp: plain_inv_def)
  qed
  thus ?thesis using alloc_res_frame[OF assms] by (simp add: segment_def)
qed

lemma segment_alloc_ctx:
  assumes "alloc_ctx d = Some (i, d')" shows "segment d d'"
  using assms alloc_ctx_frame[OF assms] dev_inv_alloc_ctx[OF assms]
  by (auto simp: segment_def plain_inv_def room_def)

lemma segments_create: "segments_ok (create_act w h fmt d) d"
proof -
  have "segments_ok (create_end w h fmt i r d) d" for i r d
    by (auto simp: create_end_def intro!: segment_res_upd split: sum.split)
  thus ?thesis using segment_alloc_res by (auto simp: create_act_def split: option.split)
qed

lemma segments_flush: "segments_ok (flush_act r rect f d) d"
  by (auto simp: flush_act_def intro!: after_ok dest: segment_hdr split: option.split prod.split)

lemma segments_transfer:
  assumes "\<And>d. segments_ok (k d) d" shows "segments_ok (transfer_act r rect f k d) d"
proof -
  have [simp]: "segment (count g d) d' = segment d d'" "room (count g d) = room d" for g d d'
    by (simp_all add: segment_def count_def plain_inv_def room_def)
  have "segments_ok a (count g d) = segments_ok a d" for a g d
    by (induction a) simp_all
  hence "segments_ok (k (count g d)) d" for g d using assms[of "count g d"] by simp
  thus ?thesis
    by (auto simp: transfer_act_def dest: segment_hdr split: option.split prod.split sum.split)
qed

lemma segments_simple:
  "segments_ok (attach_act r sg d) d" "segments_ok (scanout_act r rect d) d" "segments_ok (detach_act r d) d"
  "segments_ok (unref_act r d) d" "segments_ok (uuid_act r d) d" "segments_ok (destroy_act c d) d" "segments_ok (link_act c r d) d"
  by (auto simp: attach_act_def scanout_act_def detach_act_def unref_act_def uuid_act_def destroy_act_def link_act_def
      intro!: after_ok segment_res_upd split: option.split)

lemma segments_submit: "segments_ok (submit_act c cmd f d) d"
  by (auto simp: submit_act_def intro!: after_ok dest: segment_hdr split: option.split prod.split)

lemma segments_capset:
  assumes "\<And>b d. segments_ok (k b d) d" shows "segments_ok (capset_act cid n i k d) d"
  using assms by (induction n arbitrary: i d) (auto split: sum.split)

lemma segment_trans_ctx: "segment d d' \<Longrightarrow> segment d (ctx_upd i (\<lambda>c. c\<lparr>c_capset_id := cid\<rparr>) d')"
  using plain_ctx(2)[of _ i cid] by (auto simp: segment_def)

lemma segments_context_new: "segments_ok (context_new cid nm d) d"
proof -
  have "segments_ok (context_end i r d) d" for i r d
    by (auto simp: context_end_def intro!: segment_res_upd split: sum.split)
  moreover have "segment d (snd (snd (hdr_init (ctx_upd i (\<lambda>c. c\<lparr>c_capset_id := cid\<rparr>) d0) t True c)))"
    if "alloc_ctx d = Some (i, d0)" for i d0 t c
  proof -
    let ?d1 = "ctx_upd i (\<lambda>c. c\<lparr>c_capset_id := cid\<rparr>) d0"
    note fr = alloc_ctx_frame[OF that]
    have "plain_inv ?d1" if "plain_inv d" "room d"
      using segment_trans_ctx[OF segment_alloc_ctx[OF \<open>alloc_ctx d = Some (i, d0)\<close>]] that by (simp add: segment_def)
    thus ?thesis using fr dev_inv_next_fence[of ?d1] self_less_plus_1[of "next_fence d"]
      by (auto simp: hdr_init_def Let_def segment_def plain_inv_def room_def)
  qed
  ultimately show ?thesis
    by (auto simp: context_new_def Let_def hdr_init_def split: option.split)
qed

lemma act_segments: "segments_ok (act_of c d) d"
  by (cases c) (auto simp: segments_create segments_flush segments_simple segments_submit context_act_def
      intro!: segments_transfer segments_capset segments_context_new)

primrec thread_ok :: "thread \<Rightarrow> uk_virtio_gpu_dev \<Rightarrow> bool" where
  "thread_ok (Begin c) d = True"
| "thread_ok (Wait req n ex f k) d = ((\<forall>x. f = Some x \<longrightarrow> x < next_fence d) \<and> (\<forall>r d. segments_ok (k r d) d))"
| "thread_ok (Over r) d = True"

lemma thread_ok_mono: "thread_ok t d \<Longrightarrow> next_fence d \<le> next_fence d' \<Longrightarrow> thread_ok t d'"
  by (cases t) auto

lemma settle_ok:
  "segments_ok a (vg s) \<Longrightarrow> settle e a s = (t, s') \<Longrightarrow>
    segment (vg s) (vg s') \<and> g_ctrlq_lock s' = g_ctrlq_lock s \<and> (room (vg s) \<longrightarrow> thread_ok t (vg s'))"
proof (induction a arbitrary: s)
  case (Malloc n k)
  obtain b h where m: "env_malloc e n (host s) = (b, h)" by (cases "env_malloc e n (host s)")
  show ?case using Malloc.prems Malloc.IH[OF rangeI, of b "s\<lparr>host := h\<rparr>"] m by simp
next
  case (Submit d req n ex f k)
  show ?case using Submit.prems by auto
next
  case (Free a)
  show ?case using Free.prems Free.IH[of "s\<lparr>host := env_free e (host s)\<rparr>"] by simp
qed auto

lemma advance_ok:
  assumes "advance e t s = Some (t', s')" "thread_ok t (vg s)" "plain_inv (vg s)" "counters_below n (vg s)" "n + 1 < 2 ^ 32"
  shows "plain_inv (vg s')" "counters_below (n + 1) (vg s')" "next_fence (vg s) \<le> next_fence (vg s')"
    "g_ctrlq_lock s' = g_ctrlq_lock s" "thread_ok t' (vg s')"
proof -
  have rm: "room (vg s)" by (rule counters_room[OF assms(4,5)])
  have "\<exists>s1 a. settle e a s1 = (t', s') \<and> segments_ok a (vg s1) \<and> plain_inv (vg s1) \<and> next_res (vg s1) = next_res (vg s) \<and>
      next_ctx (vg s1) = next_ctx (vg s) \<and> next_fence (vg s1) = next_fence (vg s) \<and> g_ctrlq_lock s1 = g_ctrlq_lock s"
  proof (cases t)
    case (Begin c)
    thus ?thesis using assms(1,3) act_segments by auto
  next
    case (Wait req m ex f k)
    then obtain r s1 where s1: "cmd_submit e req m ex f s = Some (r, s1)" "settle e (k r (vg s1)) s1 = (t', s')"
      using assms(1) by (auto split: option.splits)
    obtain c h where c: "s1 = s\<lparr>vg := (vg s)\<lparr>completed_fence := c\<rparr>, host := h\<rparr>" "c = completed_fence (vg s) \<or> f = Some c"
      using cq.frame[OF s1(1)] by blast
    have "c < next_fence (vg s)" using c(2) assms(2,3) Wait by (auto simp: plain_inv_def dev_inv_def)
    hence "plain_inv (vg s1)" using assms(3) dev_inv_completed[of "vg s" c] c(1) by (simp add: plain_inv_def)
    thus ?thesis using s1(2) c(1) assms(2) Wait
      by (intro exI[where x = s1] exI[where x = "k r (vg s1)"]) auto
  qed (use assms(1) in simp)
  then obtain s1 a where s1: "settle e a s1 = (t', s')" "segments_ok a (vg s1)" "plain_inv (vg s1)" "next_res (vg s1) = next_res (vg s)"
    "next_ctx (vg s1) = next_ctx (vg s)" "next_fence (vg s1) = next_fence (vg s)" "g_ctrlq_lock s1 = g_ctrlq_lock s" by blast
  have rm1: "room (vg s1)" using rm s1(4-6) by (simp add: room_def)
  have seg: "segment (vg s1) (vg s')" "g_ctrlq_lock s' = g_ctrlq_lock s1" "thread_ok t' (vg s')"
    using settle_ok[OF s1(2,1)] rm1 by simp_all
  show "plain_inv (vg s')" "next_fence (vg s) \<le> next_fence (vg s')" using seg(1) rm1 s1(3,6) by (simp_all add: segment_def)
  show "counters_below (n + 1) (vg s')" using seg(1) assms(4) s1(4-6) by (auto simp: segment_def counters_below_def)
  show "g_ctrlq_lock s' = g_ctrlq_lock s" "thread_ok t' (vg s')" using seg(2,3) s1(7) by simp_all
qed

lemma sched_ok:
  "sched e m cfg cfg' \<Longrightarrow> cfg = (s, ts) \<Longrightarrow> \<forall>t\<in>set ts. thread_ok t (vg s) \<Longrightarrow> plain_inv (vg s) \<Longrightarrow> counters_below n (vg s) \<Longrightarrow>
    n + m < 2 ^ 32 \<Longrightarrow> plain_inv (vg (fst cfg')) \<and> counters_below (n + m) (vg (fst cfg')) \<and>
      g_ctrlq_lock (fst cfg') = g_ctrlq_lock s \<and> (\<forall>t\<in>set (snd cfg'). thread_ok t (vg (fst cfg')))"
proof (induction rule: sched.induct)
  case (sched_step m cfg s1 ts1 i t s2)
  hence IH: "plain_inv (vg s1)" "counters_below (n + m) (vg s1)" "g_ctrlq_lock s1 = g_ctrlq_lock s"
    "\<forall>t\<in>set ts1. thread_ok t (vg s1)" by auto
  have "thread_ok (ts1 ! i) (vg s1)" using IH(4) sched_step.hyps(2) by simp
  note ad = advance_ok[OF sched_step.hyps(3) this IH(1,2)]
  have "n + m + 1 < 2 ^ 32" using sched_step.prems(5) by simp
  note ad = ad[OF this]
  show ?case using ad IH thread_ok_mono[OF _ ad(3)] set_update_subset_insert[of ts1 i t] by auto
qed simp

end
