(* ===== verification/Gpu_Creations.thy ===== *)
theory Gpu_Creations
  imports Gpu_Schedule
begin

text \<open>
  Concurrent creations.  A creation holds a slot of the table from its first segment on, before the host
  knows the resource; while no thread destroys resources, the slots held are distinct, no other segment
  changes what they identify, and a failed creation gives back its own slot only.
\<close>

section \<open>What a segment leaves of a slot\<close>

definition slot_of :: "uk_virtio_gpu_dev \<Rightarrow> nat \<Rightarrow> bool \<times> u32 \<times> u32 \<times> u32" where
  "slot_of d i = (let r = resources d ! i in (r_live r, r_id r, r_width r, r_height r))"

definition quiet :: "uk_virtio_gpu_dev \<Rightarrow> uk_virtio_gpu_dev \<Rightarrow> bool" where
  "quiet d d' \<longleftrightarrow> length (resources d') = length (resources d) \<and> (\<forall>i. slot_of d' i = slot_of d i)"

primrec quiet_act :: "act \<Rightarrow> uk_virtio_gpu_dev \<Rightarrow> bool" where
  "quiet_act (Done r d') d = quiet d d'"
| "quiet_act (Submit d' req n ex f k) d = (quiet d d' \<and> (\<forall>r d. quiet_act (k r d) d))"
| "quiet_act (Malloc n k) d = (\<forall>b. quiet_act (k b) d)"
| "quiet_act (Free a) d = quiet_act a d"

lemma quiet_refl [simp]: "quiet d d"
  by (simp add: quiet_def)

lemma quiet_count [simp]: "quiet d (count f d') = quiet d d'" "quiet (count f d) d' = quiet d d'"
  by (simp_all add: quiet_def count_def slot_of_def)

lemma quiet_res_upd:
  assumes "\<And>r. r_live (f r) = r_live r \<and> r_id (f r) = r_id r \<and> r_width (f r) = r_width r \<and> r_height (f r) = r_height r"
  shows "quiet d (res_upd i f d)"
proof -
  have "slot_of (res_upd i f d) l = slot_of d l" for l
  proof (cases "i < length (resources d)")
    case True
    thus ?thesis using assms[of "resources d ! i"] by (cases "l = i") (simp_all add: slot_of_def res_upd_def Let_def)
  qed (simp add: res_upd_def list_update_beyond)
  thus ?thesis by (simp add: quiet_def)
qed

lemma quiet_ctx [simp]: "quiet d (ctx_upd i f d') = quiet d d'"
  by (simp add: quiet_def slot_of_def ctx_upd_def)

lemma quiet_hdr: "hdr_init d t b c = (h, f, d') \<Longrightarrow> quiet d d'"
  by (auto simp: hdr_init_def Let_def quiet_def slot_of_def split: if_splits)

lemma quiet_alloc_ctx: "alloc_ctx d = Some (i, d') \<Longrightarrow> quiet d d'"
  by (drule alloc_ctx_frame(5)) (simp add: quiet_def slot_of_def)

lemma quiet_after: "(\<And>d. quiet d (f d)) \<Longrightarrow> quiet_act (after f r d) d"
  by (simp add: after_def split: sum.split)

lemma quiet_act_count [simp]: "quiet_act a (count f d) = quiet_act a d"
  by (induction a) simp_all

lemma quiet_transfer:
  assumes "\<And>d. quiet_act (k d) d" shows "quiet_act (transfer_act r rect f k d) d"
proof -
  have "quiet_act (k (count g d)) d" for g d using assms[of "count g d"] by simp
  thus ?thesis by (auto simp: transfer_act_def dest: quiet_hdr split: option.split prod.split sum.split)
qed

lemma quiet_flush: "quiet_act (flush_act r rect f d) d"
  by (auto simp: flush_act_def intro!: quiet_after dest: quiet_hdr split: option.split prod.split)

lemma quiet_submit: "quiet_act (submit_act c cmd f d) d"
  by (auto simp: submit_act_def intro!: quiet_after dest: quiet_hdr split: option.split prod.split)

lemma quiet_simple:
  "quiet_act (attach_act r sg d) d" "quiet_act (scanout_act r rect d) d" "quiet_act (detach_act r d) d"
  "quiet_act (uuid_act r d) d" "quiet_act (destroy_act c d) d" "quiet_act (link_act c r d) d"
  by (auto simp: attach_act_def scanout_act_def detach_act_def uuid_act_def destroy_act_def link_act_def
      intro!: quiet_after quiet_res_upd split: option.split)

lemma quiet_capset:
  assumes "\<And>b d. quiet_act (k b d) d" shows "quiet_act (capset_act cid n i k d) d"
  using assms by (induction n arbitrary: i d) (auto split: sum.split)

lemma quiet_context_new: "quiet_act (context_new cid nm d) d"
proof -
  have "quiet_act (context_end i r d) d" for i r d by (simp add: context_end_def split: sum.split)
  moreover have "quiet d (d'\<lparr>next_fence := x\<rparr>) = quiet d d'" for d d' x by (simp add: quiet_def slot_of_def)
  ultimately show ?thesis
    by (auto simp: context_new_def Let_def hdr_init_def dest: quiet_alloc_ctx split: option.split)
qed

fun makes_or_destroys :: "shared_call \<Rightarrow> bool" where
  "makes_or_destroys (SCreate w h fmt) = True"
| "makes_or_destroys (SUnref r) = True"
| "makes_or_destroys _ = False"

lemma act_quiet: "\<not> makes_or_destroys c \<Longrightarrow> quiet_act (act_of c d) d"
  by (cases c) (auto simp: quiet_flush quiet_simple quiet_submit context_act_def
      intro!: quiet_transfer quiet_capset quiet_context_new)

lemma settle_quiet: "quiet_act a (vg s) \<Longrightarrow> settle e a s = (t, s') \<Longrightarrow>
    quiet (vg s) (vg s') \<and> (\<forall>req n ex f k. t = Wait req n ex f k \<longrightarrow> (\<forall>r d. quiet_act (k r d) d)) \<and> (\<forall>c. t \<noteq> Begin c)"
proof (induction a arbitrary: s)
  case (Submit d req n ex f k)
  show ?case using Submit.prems by auto
next
  case (Malloc n k)
  obtain b h where m: "env_malloc e n (host s) = (b, h)" by (cases "env_malloc e n (host s)")
  show ?case using Malloc.prems Malloc.IH[OF rangeI, of b "s\<lparr>host := h\<rparr>"] m by simp
next
  case (Free a)
  show ?case using Free.prems Free.IH[of "s\<lparr>host := env_free e (host s)\<rparr>"] by simp
qed auto

section \<open>Slots held by creations\<close>

text \<open>Thread \<open>t\<close> runs call \<open>c\<close>; \<open>i\<close> is the slot it holds when it holds one.\<close>

fun holds :: "shared_call \<Rightarrow> thread \<Rightarrow> bool" where
  "holds (SCreate w h fmt) (Wait req n ex f k) = True"
| "holds (SCreate w h fmt) (Over (Inr x)) = True"
| "holds _ _ = False"

fun job_ok :: "shared_call \<Rightarrow> thread \<Rightarrow> nat \<Rightarrow> uk_virtio_gpu_dev \<Rightarrow> bool" where
  "job_ok c (Begin c') i d = (c' = c)"
| "job_ok (SCreate w h fmt) (Wait req n ex f k) i d =
     (k = create_end w h fmt i \<and> i < length (resources d) \<and> fst (slot_of d i))"
| "job_ok (SCreate w h fmt) (Over (Inr x)) i d = (i < length (resources d) \<and> slot_of d i = (True, x, w, h))"
| "job_ok c (Wait req n ex f k) i d = (\<forall>r d. quiet_act (k r d) d)"
| "job_ok c (Over r) i d = True"

lemma job_ok_cong:
  assumes "job_ok c t i d" "length (resources d') = length (resources d)" "holds c t \<Longrightarrow> slot_of d' i = slot_of d i"
  shows "job_ok c t i d'"
  using assms by (cases "(c, t, i, d)" rule: job_ok.cases) auto

lemma holds_live: "job_ok c t i d \<Longrightarrow> holds c t \<Longrightarrow> i < length (resources d) \<and> fst (slot_of d i)"
  by (cases "(c, t)" rule: holds.cases) auto

text \<open>One step of one thread: every slot but one is left as it is; the other one is its own or was free.\<close>

definition moves :: "shared_call \<Rightarrow> thread \<Rightarrow> nat \<Rightarrow> uk_virtio_gpu_dev \<Rightarrow> thread \<Rightarrow> nat \<Rightarrow> uk_virtio_gpu_dev \<Rightarrow> bool" where
  "moves c t i d t' i' d' \<longleftrightarrow> job_ok c t' i' d' \<and> length (resources d') = length (resources d) \<and>
    (\<forall>l. l \<noteq> i' \<longrightarrow> slot_of d' l = slot_of d l) \<and>
    ((\<forall>l. slot_of d' l = slot_of d l) \<or> (holds c t \<and> i' = i) \<or> \<not> fst (slot_of d i')) \<and>
    (holds c t' \<longrightarrow> (holds c t \<and> i' = i) \<or> \<not> fst (slot_of d i'))"

lemma moves_quiet:
  assumes "settle e a s1 = (t', s')" "quiet_act a (vg s1)" "resources (vg s1) = resources d" "\<not> makes_or_destroys c"
  shows "moves c t i d t' i (vg s')"
proof -
  note q = settle_quiet[OF assms(2,1)]
  have same: "length (resources (vg s')) = length (resources d)" "slot_of (vg s') l = slot_of d l" for l
    using q assms(3) by (simp_all add: quiet_def slot_of_def)
  have "job_ok c t' i (vg s')" "\<not> holds c t'"
    using q assms(4) by (cases "(c, t', i, vg s')" rule: job_ok.cases; simp)+
  thus ?thesis using same by (simp add: moves_def)
qed

lemma moves_create_begin:
  assumes "settle e (create_act w h fmt (vg s)) s = (t', s')"
  shows "\<exists>i'. moves (SCreate w h fmt) (Begin c) i (vg s) t' i' (vg s')"
proof (cases "w = 0 \<or> h = 0 \<or> alloc_res (vg s) = None")
  case True
  thus ?thesis using assms by (auto simp: create_act_def moves_def split: if_splits)
next
  case False
  then obtain i' d0 where al: "alloc_res (vg s) = Some (i', d0)" by auto
  note a = alloc_res_SomeD[OF al]
  have res: "resources d0 = (resources (vg s))[i' := zero_resource\<lparr>r_id := next_res (vg s), r_live := True\<rparr>]"
    unfolding a(3) by simp
  have vg: "vg s' = d0" "\<exists>req n ex f. t' = Wait req n ex f (create_end w h fmt i')"
    using False al assms by (auto simp: create_act_def)
  show ?thesis using vg a(1,2) res by (intro exI[where x = i']) (auto simp: moves_def slot_of_def Let_def)
qed

lemma moves_create_end:
  assumes "settle e (create_end w h fmt i r (vg s)) s = (t', s')" "i < length (resources (vg s))" "fst (slot_of (vg s) i)"
    "resources (vg s) = resources d" "holds (SCreate w h fmt) t"
  shows "moves (SCreate w h fmt) t i d t' i (vg s')"
  using assms by (cases r) (auto simp: create_end_def moves_def slot_of_def res_upd_def Let_def)

lemma advance_moves:
  assumes "advance e t s = Some (t', s')" "job_ok c t i (vg s)" "\<And>r. c \<noteq> SUnref r"
  shows "\<exists>i'. moves c t i (vg s) t' i' (vg s')"
proof (cases t)
  case (Begin c')
  hence st: "settle e (act_of c (vg s)) s = (t', s')" using assms(1,2) by simp
  show ?thesis
  proof (cases "makes_or_destroys c")
    case True
    then obtain w h fmt where "c = SCreate w h fmt" using assms(3) by (cases c) auto
    thus ?thesis using st moves_create_begin[of e w h fmt s t' s'] Begin by simp
  next
    case False
    thus ?thesis using moves_quiet[OF st act_quiet[OF False]] by blast
  qed
next
  case (Wait req n ex f k)
  then obtain r s1 where s1: "cmd_submit e req n ex f s = Some (r, s1)" "settle e (k r (vg s1)) s1 = (t', s')"
    using assms(1) by (auto split: option.splits)
  have res: "resources (vg s1) = resources (vg s)" using cq.frame[OF s1(1)] by auto
  show ?thesis
  proof (cases "makes_or_destroys c")
    case True
    then obtain w h fmt where c: "c = SCreate w h fmt" using assms(3) by (cases c) auto
    have k: "k = create_end w h fmt i" "i < length (resources (vg s1))" "fst (slot_of (vg s1) i)"
      using assms(2) Wait c res by (simp_all add: slot_of_def)
    show ?thesis using moves_create_end[OF s1(2)[unfolded k(1)] k(2,3) res, of t] c Wait by auto
  next
    case False
    have "quiet_act (k r (vg s1)) (vg s1)" using assms(2) Wait False by (cases c) auto
    from moves_quiet[OF s1(2) this res False] show ?thesis by blast
  qed
qed (use assms(1) in simp)

definition pool_ok :: "shared_call list \<Rightarrow> thread list \<Rightarrow> uk_virtio_gpu_dev \<Rightarrow> bool" where
  "pool_ok cs ts d \<longleftrightarrow> length ts = length cs \<and>
    (\<exists>own. (\<forall>j<length cs. job_ok (cs ! j) (ts ! j) (own j) d) \<and>
       (\<forall>j l. j < length cs \<longrightarrow> l < length cs \<longrightarrow> j \<noteq> l \<longrightarrow> holds (cs ! j) (ts ! j) \<longrightarrow> holds (cs ! l) (ts ! l) \<longrightarrow> own j \<noteq> own l))"

lemma pool_step:
  assumes "pool_ok cs ts (vg s)" "i < length ts" "advance e (ts ! i) s = Some (t, s')" "\<And>r. SUnref r \<notin> set cs"
  shows "pool_ok cs (ts[i := t]) (vg s')"
proof -
  obtain own where len: "length ts = length cs" and job: "\<And>j. j < length cs \<Longrightarrow> job_ok (cs ! j) (ts ! j) (own j) (vg s)"
    and sep: "\<And>j l. j < length cs \<Longrightarrow> l < length cs \<Longrightarrow> j \<noteq> l \<Longrightarrow> holds (cs ! j) (ts ! j) \<Longrightarrow> holds (cs ! l) (ts ! l) \<Longrightarrow> own j \<noteq> own l"
    using assms(1) unfolding pool_ok_def by blast
  have i: "i < length cs" using assms(2) len by simp
  have "cs ! i \<noteq> SUnref r" for r using assms(4) nth_mem[OF i] by metis
  then obtain i' where mv: "moves (cs ! i) (ts ! i) (own i) (vg s) t i' (vg s')"
    using advance_moves[OF assms(3) job[OF i]] by blast
  let ?own = "own(i := i')"
  have kept: "slot_of (vg s') (own j) = slot_of (vg s) (own j)" if "j < length cs" "j \<noteq> i" "holds (cs ! j) (ts ! j)" for j
    using mv sep[OF that(1) i that(2,3)] holds_live[OF job[OF that(1)] that(3)] unfolding moves_def by metis
  have "job_ok (cs ! j) (ts[i := t] ! j) (?own j) (vg s')" if "j < length cs" for j
  proof (cases "j = i")
    case True thus ?thesis using mv that len by (simp add: moves_def)
  next
    case False
    thus ?thesis using job_ok_cong[OF job[OF that]] kept[OF that False] mv by (simp add: moves_def)
  qed
  moreover have "?own j \<noteq> ?own l" if h: "j < length cs" "l < length cs" "j \<noteq> l" "holds (cs ! j) (ts[i := t] ! j)" "holds (cs ! l) (ts[i := t] ! l)" for j l
  proof -
    have new: "i' \<noteq> own m" if "m < length cs" "m \<noteq> i" "holds (cs ! m) (ts ! m)" "holds (cs ! i) t" for m
      using mv that(4) sep[OF that(1) i that(2,3)] holds_live[OF job[OF that(1)] that(3)] unfolding moves_def by metis
    show ?thesis using h len new[of j] new[of l] sep[of j l] by (cases "j = i"; cases "l = i") auto
  qed
  ultimately show ?thesis using len unfolding pool_ok_def length_list_update by (intro conjI exI[where x = ?own]) blast+
qed

lemma pool_sched:
  "sched e m cfg cfg' \<Longrightarrow> pool_ok cs (snd cfg) (vg (fst cfg)) \<Longrightarrow> (\<And>r. SUnref r \<notin> set cs) \<Longrightarrow> pool_ok cs (snd cfg') (vg (fst cfg'))"
proof (induction rule: sched.induct)
  case (sched_step m cfg s ts i t s')
  have "pool_ok cs ts (vg s)" using sched_step.IH sched_step.prems by simp
  from pool_step[OF this sched_step.hyps(2,3) sched_step.prems(2)] show ?case by simp
qed simp

lemma pool_start: "pool_ok cs (map Begin cs) d"
  unfolding pool_ok_def by (auto intro!: exI[where x = "\<lambda>_. 0"])

lemma bring_up_plain:
  assumes "vgpu_add_dev e b n lk None h = Some (Inr (), Some d, h')"
  shows "plain_inv d" "counters_below 1 d"
proof -
  have "resources d = replicate UKVGPU_MAX_RESOURCES zero_resource"
    using bring_up_start(1)[OF assms] by (simp add: tables_def vgpu_new_dev_def)
  thus "plain_inv d" "counters_below 1 d" using add_dev_fresh[OF assms] by (auto simp: plain_inv_def fresh_dev_def)
qed

end
