(* ===== verification/Gpu_Concurrency.thy ===== *)
theory Gpu_Concurrency
  imports Gpu_Creations
begin

text \<open>
  The properties of concurrent callers, and concrete schedules on a host that answers every command: what
  every schedule keeps, what concurrent creations return, and what fences do not guarantee.
\<close>

section \<open>What concurrent callers may rely on\<close>



section \<open>Fences under concurrency\<close>

definition count_flush :: "uk_virtio_gpu_dev \<Rightarrow> uk_virtio_gpu_dev" where
  "count_flush = count (\<lambda>m. m\<lparr>m_flushes := m_flushes m + 1\<rparr>)"

lemma flush_begins:
  assumes "find_res (vg s) r \<noteq> None" "rect_w q \<noteq> 0" "rect_h q \<noteq> 0"
  shows "\<exists>h rest. advance e (Begin (SFlush r (Some q) True)) s = Some (Wait (enc_ctrl_hdr h @ rest) sizeof_ctrl_hdr RESP_OK_NODATA
      (Some (next_fence (vg s))) (after count_flush), s\<lparr>vg := (vg s)\<lparr>next_fence := next_fence (vg s) + 1\<rparr>\<rparr>) \<and>
    hdr_type h = CMD_RESOURCE_FLUSH \<and> hdr_flags h = FLAG_FENCE \<and> hdr_fence_id h = next_fence (vg s)"
  using assms by (auto simp: flush_act_def hdr_init_def Let_def count_flush_def enc_resource_flush_def)

lemma flush_ends:
  assumes "ctrlq (vg s)" "hdr_type h = CMD_RESOURCE_FLUSH" "hdr_flags h = FLAG_FENCE" "hdr_fence_id h = x"
  shows "\<exists>g. advance (answering_env ok_reply) (Wait (enc_ctrl_hdr h @ rest) sizeof_ctrl_hdr RESP_OK_NODATA (Some x) (after count_flush)) s
    = Some (Over (Inr 0), s\<lparr>vg := count_flush ((vg s)\<lparr>completed_fence := x\<rparr>), host := g\<rparr>)"
  using assms by (auto simp: answered sizeof_ctrl_hdr_def after_def echo_fence_def FLAG_FENCE_def sys_swap)

lemma sched_next:
  "sched e m cfg (s, ts) \<Longrightarrow> i < length ts \<Longrightarrow> ts ! i = u \<Longrightarrow> advance e u s = Some (t, s') \<Longrightarrow> ts' = ts[i := t] \<Longrightarrow>
    sched e (Suc m) cfg (s', ts')"
  using sched_step by blast

text \<open>C21 (safety): the completed fence is not monotone under concurrency.  Two threads issue fenced flushes, the
  second reaches the queue first, and a host answers each command at once: after the second thread returned,
  its fence is reported complete; after the first returned too, it is reported as not complete again.\<close>

theorem concurrent_fences_go_back:
  assumes "ctrlq (vg s)" "find_res (vg s) r \<noteq> None" "rect_w q \<noteq> 0" "rect_h q \<noteq> 0" "room (vg s)"
  shows "\<exists>s1 ts1 s2. sched (answering_env ok_reply) 3 (s, replicate 2 (Begin (SFlush r (Some q) True))) (s1, ts1) \<and>
    ts1 ! 1 = Over (Inr 0) \<and> fst (uk_virtio_gpu_fence_wait (vg s1) (next_fence (vg s) + 1) t) = Inr () \<and>
    sched (answering_env ok_reply) 1 (s1, ts1) (s2, replicate 2 (Over (Inr 0))) \<and>
    fst (uk_virtio_gpu_fence_wait (vg s2) (next_fence (vg s) + 1) t) = Inl ETIMEDOUT"
proof -
  let ?e = "answering_env ok_reply" and ?n = "next_fence (vg s)" and ?B = "Begin (SFlush r (Some q) True)"
  let ?W = "\<lambda>h rest x. Wait (enc_ctrl_hdr h @ rest) sizeof_ctrl_hdr RESP_OK_NODATA (Some x) (after count_flush)"
  let ?a = "s\<lparr>vg := (vg s)\<lparr>next_fence := ?n + 1\<rparr>\<rparr>"
  have "\<exists>h rest. advance ?e ?B s = Some (?W h rest ?n, ?a) \<and>
      hdr_type h = CMD_RESOURCE_FLUSH \<and> hdr_flags h = FLAG_FENCE \<and> hdr_fence_id h = ?n"
    using flush_begins[OF assms(2-4), of ?e] by simp
  then obtain h rest where A: "advance ?e ?B s = Some (?W h rest ?n, ?a)" "hdr_type h = CMD_RESOURCE_FLUSH"
    "hdr_flags h = FLAG_FENCE" "hdr_fence_id h = ?n" by blast
  let ?b = "s\<lparr>vg := (vg s)\<lparr>next_fence := ?n + 1 + 1\<rparr>\<rparr>"
  have "\<exists>h rest. advance ?e ?B ?a = Some (?W h rest (?n + 1), ?b) \<and>
      hdr_type h = CMD_RESOURCE_FLUSH \<and> hdr_flags h = FLAG_FENCE \<and> hdr_fence_id h = ?n + 1"
    using flush_begins[of ?a, OF _ assms(3,4), of r ?e] assms(2) by simp
  then obtain h2 rest2 where B: "advance ?e ?B ?a = Some (?W h2 rest2 (?n + 1), ?b)" "hdr_type h2 = CMD_RESOURCE_FLUSH"
    "hdr_flags h2 = FLAG_FENCE" "hdr_fence_id h2 = ?n + 1" by blast
  have "ctrlq (vg ?b)" using assms(1) by simp
  from flush_ends[OF this B(2-4)] obtain g where C: "advance ?e (?W h2 rest2 (?n + 1)) ?b
    = Some (Over (Inr 0), ?b\<lparr>vg := count_flush ((vg ?b)\<lparr>completed_fence := ?n + 1\<rparr>), host := g\<rparr>)" by blast
  let ?c = "?b\<lparr>vg := count_flush ((vg ?b)\<lparr>completed_fence := ?n + 1\<rparr>), host := g\<rparr>"
  have "ctrlq (vg ?c)" using assms(1) by (simp add: count_flush_def count_def)
  from flush_ends[OF this A(2-4)] obtain g2 where D: "advance ?e (?W h rest ?n) ?c
    = Some (Over (Inr 0), ?c\<lparr>vg := count_flush ((vg ?c)\<lparr>completed_fence := ?n\<rparr>), host := g2\<rparr>)" by blast
  let ?d = "?c\<lparr>vg := count_flush ((vg ?c)\<lparr>completed_fence := ?n\<rparr>), host := g2\<rparr>"
  have two: "replicate 2 x = [x, x]" for x :: thread by (simp add: numeral_2_eq_2)
  have "sched ?e (Suc 0) (s, [?B, ?B]) (?a, [?W h rest ?n, ?B])"
    by (rule sched_next[OF sched_none _ _ A(1), where i = 0]) simp_all
  from sched_next[OF this, of 1, OF _ _ B(1)] have "sched ?e (Suc (Suc 0)) (s, [?B, ?B]) (?b, [?W h rest ?n, ?W h2 rest2 (?n + 1)])"
    by simp
  from sched_next[OF this, of 1, OF _ _ C] have three: "sched ?e (Suc (Suc (Suc 0))) (s, [?B, ?B]) (?c, [?W h rest ?n, Over (Inr 0)])"
    by simp
  have one: "sched ?e (Suc 0) (?c, [?W h rest ?n, Over (Inr 0)]) (?d, [Over (Inr 0), Over (Inr 0)])"
    by (rule sched_next[OF sched_none _ _ D, where i = 0]) simp_all
  have nz: "?n + 1 \<noteq> 0" "\<not> ?n + 1 \<le> ?n" using assms(5) self_less_plus_1[of ?n] by (auto simp: room_def)
  show ?thesis
  proof (intro exI conjI)
    show "sched ?e 3 (s, replicate 2 ?B) (?c, [?W h rest ?n, Over (Inr 0)])" using three by (simp only: two numeral_3_eq_3)
    show "sched ?e 1 (?c, [?W h rest ?n, Over (Inr 0)]) (?d, replicate 2 (Over (Inr 0)))" using one by (simp only: two One_nat_def)
  qed (use nz in \<open>simp_all add: uk_virtio_gpu_fence_wait_def count_flush_def count_def\<close>)
qed

section \<open>Concrete schedules\<close>

lemma create_begins:
  assumes "w \<noteq> 0" "h \<noteq> 0" "alloc_res (vg s) = Some (i, d0)"
  shows "\<exists>hr rest. advance e (Begin (SCreate w h fmt)) s = Some (Wait (enc_ctrl_hdr hr @ rest) sizeof_ctrl_hdr RESP_OK_NODATA None
      (create_end w h fmt i), s\<lparr>vg := d0\<rparr>) \<and> hdr_type hr = CMD_RESOURCE_CREATE_2D"
  using assms by (auto simp: create_act_def enc_resource_create_2d_def)

lemma create_ends:
  assumes "ctrlq (vg s)" "hdr_type hr = CMD_RESOURCE_CREATE_2D"
  shows "\<exists>d g. advance (answering_env ok_reply) (Wait (enc_ctrl_hdr hr @ rest) sizeof_ctrl_hdr RESP_OK_NODATA None (create_end w h fmt i)) s
    = Some (Over (Inr (r_id (resources (vg s) ! i))), s\<lparr>vg := d, host := g\<rparr>) \<and> ctrlq d \<and>
      (\<forall>k. r_id (resources d ! k) = r_id (resources (vg s) ! k))"
proof -
  let ?f = "\<lambda>r. r\<lparr>r_width := w, r_height := h, r_depth := 1, r_format := compat_format fmt, r_size := resource_size_bytes w h 1\<rparr>"
  have "advance (answering_env ok_reply) (Wait (enc_ctrl_hdr hr @ rest) sizeof_ctrl_hdr RESP_OK_NODATA None (create_end w h fmt i)) s
    = Some (Over (Inr (r_id (resources (vg s) ! i))), s\<lparr>vg := res_upd i ?f (vg s), host := enc_ctrl_hdr hr @ rest\<rparr>)"
    using assms by (simp add: answered sizeof_ctrl_hdr_def create_end_def sys_swap)
  moreover have "ctrlq (res_upd i ?f (vg s))" using assms(1) by (simp add: res_upd_def)
  moreover have "r_id (resources (res_upd i ?f (vg s)) ! k) = r_id (resources (vg s) ! k)" for k
    by (cases "k = i \<and> i < length (resources (vg s))") (auto simp: res_upd_def nth_list_update list_update_beyond)
  ultimately show ?thesis by blast
qed

lemma two_creations:
  assumes "tables (vg s) = tables vgpu_new_dev" "ctrlq (vg s)"
  shows "\<exists>s'. sched (answering_env ok_reply) 4 (s, map Begin [SCreate 4 4 1, SCreate 8 8 1]) (s', [Over (Inr 1), Over (Inr 2)])"
proof -
  let ?e = "answering_env ok_reply" and ?c1 = "SCreate 4 4 1" and ?c2 = "SCreate 8 8 1"
  let ?W = "\<lambda>hr rest w i. Wait (enc_ctrl_hdr hr @ rest) sizeof_ctrl_hdr RESP_OK_NODATA None (create_end w w 1 i)"
  have t: "resources (vg s) = replicate UKVGPU_MAX_RESOURCES zero_resource" "next_res (vg s) = 1"
    using assms(1) by (simp_all add: tables_def vgpu_new_dev_def)
  have "first_index (\<lambda>r. \<not> r_live r) (resources (vg s)) = Some 0"
    by (simp add: first_index_Some t UKVGPU_MAX_RESOURCES_def)
  then obtain d1 where d1: "alloc_res (vg s) = Some (0, d1)" "ctrlq d1" "next_res d1 = 2"
    "resources d1 = (resources (vg s))[0 := zero_resource\<lparr>r_id := 1, r_live := True\<rparr>]"
    using assms(2) by (simp add: alloc_res_def t)
  have "first_index (\<lambda>r. \<not> r_live r) (resources d1) = Some 1"
    by (simp add: first_index_Some d1(4) t UKVGPU_MAX_RESOURCES_def)
  then obtain d2 where d2: "alloc_res d1 = Some (1, d2)" "ctrlq d2"
    "resources d2 = (resources d1)[1 := zero_resource\<lparr>r_id := 2, r_live := True\<rparr>]"
    using d1(2,3) by (simp add: alloc_res_def)
  have ids: "r_id (resources d2 ! 0) = 1" "r_id (resources d2 ! 1) = 2"
    by (simp_all add: d2(3) d1(4) t UKVGPU_MAX_RESOURCES_def)
  have al: "alloc_res (vg (s\<lparr>vg := d1\<rparr>)) = Some (1, d2)" using d2(1) by simp
  obtain ha ra where A: "advance ?e (Begin ?c1) s = Some (?W ha ra 4 0, s\<lparr>vg := d1\<rparr>)" "hdr_type ha = CMD_RESOURCE_CREATE_2D"
    using create_begins[OF _ _ d1(1), of 4 4 ?e 1] by auto
  obtain hb rb where B: "advance ?e (Begin ?c2) (s\<lparr>vg := d1\<rparr>) = Some (?W hb rb 8 1, s\<lparr>vg := d2\<rparr>)" "hdr_type hb = CMD_RESOURCE_CREATE_2D"
    using create_begins[OF _ _ al, of 8 8 ?e 1] by auto
  obtain d3 g3 where C: "advance ?e (?W hb rb 8 1) (s\<lparr>vg := d2\<rparr>) = Some (Over (Inr 2), s\<lparr>vg := d3, host := g3\<rparr>)" "ctrlq d3"
    "\<forall>k. r_id (resources d3 ! k) = r_id (resources d2 ! k)"
    using create_ends[of "s\<lparr>vg := d2\<rparr>" hb rb 8 8 1 1] d2(2) B(2) ids by auto
  obtain d4 g4 where D: "advance ?e (?W ha ra 4 0) (s\<lparr>vg := d3, host := g3\<rparr>) = Some (Over (Inr 1), s\<lparr>vg := d4, host := g4\<rparr>)"
    using create_ends[of "s\<lparr>vg := d3, host := g3\<rparr>" ha ra 4 4 1 0] C(2,3) A(2) ids by auto
  have "sched ?e (Suc 0) (s, [Begin ?c1, Begin ?c2]) (s\<lparr>vg := d1\<rparr>, [?W ha ra 4 0, Begin ?c2])"
    by (rule sched_next[OF sched_none _ _ A(1), where i = 0]) simp_all
  from sched_next[OF this, of 1, OF _ _ B(1)] have "sched ?e (Suc (Suc 0)) (s, [Begin ?c1, Begin ?c2])
      (s\<lparr>vg := d2\<rparr>, [?W ha ra 4 0, ?W hb rb 8 1])" by simp
  from sched_next[OF this, of 1, OF _ _ C(1)] have "sched ?e (Suc (Suc (Suc 0))) (s, [Begin ?c1, Begin ?c2])
      (s\<lparr>vg := d3, host := g3\<rparr>, [?W ha ra 4 0, Over (Inr 2)])" by simp
  from sched_next[OF this, of 0, OF _ _ D] have "sched ?e (Suc (Suc (Suc (Suc 0)))) (s, [Begin ?c1, Begin ?c2])
      (s\<lparr>vg := d4, host := g4\<rparr>, [Over (Inr 1), Over (Inr 2)])" by simp
  thus ?thesis by (auto simp: eval_nat_numeral)
qed

lemma demo_two_creations:
  "\<exists>d h s'. vgpu_add_dev (answering_env ok_reply) demo_bus 0 0 None [] = Some (Inr (), Some d, h) \<and>
    sched (answering_env ok_reply) 4 (\<lparr> vg = d, host = h, g_ctrlq_lock = 0 \<rparr>, map Begin [SCreate 4 4 1, SCreate 8 8 1])
      (s', [Over (Inr 1), Over (Inr 2)])"
proof -
  obtain d h where d: "vgpu_add_dev (answering_env ok_reply) demo_bus 0 0 None [] = Some (Inr (), Some d, h)"
    using demo_bring_up by blast
  thus ?thesis using two_creations[of "\<lparr> vg = d, host = h, g_ctrlq_lock = 0 \<rparr>"] bring_up_start[OF d] by auto
qed



theorem concurrent_fences_go_back_witness:
  "\<exists>s1 ts1 s2. sched (answering_env ok_reply) 3 (demo_sys2, replicate 2 (Begin (SFlush 1
      (Some \<lparr> rect_x = 0, rect_y = 0, rect_w = 4, rect_h = 4 \<rparr>) True))) (s1, ts1) \<and>
    fst (uk_virtio_gpu_fence_wait (vg s1) 2 0) = Inr () \<and>
    sched (answering_env ok_reply) 1 (s1, ts1) (s2, replicate 2 (Over (Inr 0))) \<and>
    fst (uk_virtio_gpu_fence_wait (vg s2) 2 0) = Inl ETIMEDOUT"
proof -
  have f: "next_fence (vg demo_sys2) = 1" "room (vg demo_sys2)" "ctrlq (vg demo_sys2)" "find_res (vg demo_sys2) 1 \<noteq> None"
    using demo2 by (simp_all add: demo_sys2_def demo_dev2_eq room_def demo_dev_def vgpu_new_dev_def)
  have q: "rect_w \<lparr> rect_x = 0, rect_y = 0, rect_w = 4, rect_h = 4 \<rparr> \<noteq> 0" "rect_h \<lparr> rect_x = 0, rect_y = 0, rect_w = 4, rect_h = 4 \<rparr> \<noteq> 0"
    by simp_all
  have two: "(1 :: u64) + 1 = 2" by simp
  show ?thesis using concurrent_fences_go_back[OF f(3,4) q f(2), of 0] unfolding f(1) two by blast
qed

end
