(* ===== verification/Spec2Isabelle.thy ===== *)
theory Spec2Isabelle
  imports Gpu_Properties Gpu_Apir Gpu_Profile Virgl_Encoder Vk_Procs Vk_Properties App_Vkmark Fake_Runs Test_Core Gpu_Concurrency
begin

text \<open>
  The guest side of a virtio-gpu stack for a unikernel: a driver for the virtio-gpu device, encoders for
  the two command streams it carries (virgl and Venus), a command ring in memory shared with the host,
  queries answered through that memory, the table of Vulkan entry points, and a shim with the ioctl surface
  of the Linux driver.

  \<^bold>\<open>Parts and how they interact.\<close>  A client reaches the device in one of two ways.  It calls a Vulkan
  entry point (\<open>libs/libvulkan\<close>), which reads the client's structures, assigns handles and records a command
  with the Venus library (\<open>libs/libukvulkan_venus\<close>); that library opens the driver, encodes commands into
  byte buffers and submits them, one by one, in batches or through a ring.  Or it uses the DRM shim
  (\<open>libs/libukvirtgpu_drm\<close>), written for programs that speak ioctls.  Both call the driver
  (\<open>libs/libukvirtio_gpu\<close>), which turns each call into a request on the control queue, waits for the completion, checks it and updates its tables.

  \<^bold>\<open>Theories, bottom up.\<close>

  \<^item> \<open>Vgpu_Prelude\<close>: words at their C width, \<open>errno\<close>, little-endian readers and writers, the compiler's
    overflow builtins, \<open>first_index\<close> (the search loop over a table).
  \<^item> \<open>Slot_Table\<close>, \<open>Bounded_Sink\<close>: two interfaces as locales.  The driver's resource and context tables are
    slot tables; the Venus encoder (bytes) and the virgl encoder (32-bit words) are bounded sinks.  A third
    interface, \<open>ctrl_transport\<close> in \<open>Gpu_Device\<close>, is what every operation relies on of \<open>cmd_submit\<close>: it may
    change the platform and, for a successful fenced command, the completed fence, and nothing else.
  \<^item> \<open>Gpu_Proto\<close>: \<open>virtio_gpu_proto.h\<close>, every code and packed structure; requests are encoded to bytes and
    responses decoded.
  \<^item> \<open>Gpu_Device\<close>: \<open>virtio_gpu_real_priv.h\<close> and the core of \<open>virtio_gpu_real.c\<close>: the device record, slot
    lookup and allocation, header and fence numbering, the control queue (\<open>cmd_submit\<close>,
    \<open>cmd_submit_locked\<close> with its polling loop, response classification).
  \<^item> \<open>Gpu_Invariant\<close>: the invariant \<open>dev_inv\<close> of the device record and the contract \<open>op_ok\<close> of an operation.
  \<^item> \<open>Gpu_Resources\<close>, \<open>Gpu_Contexts\<close>, \<open>Gpu_Blobs\<close>, \<open>Gpu_Probe\<close>, \<open>Gpu_Apir\<close>, \<open>Gpu_Profile\<close>: the
    operations of \<open>virtio_gpu_real.c\<close> (2D and 3D resources, transfers, fences; capability sets and contexts;
    blobs and their mapping; bring-up; the APIR codec; the profiling counters), each function a definition of
    the same name.
  \<^item> \<open>Gpu_Api\<close>, \<open>Gpu_Steps\<close>, \<open>Gpu_Properties\<close>, \<open>Gpu_Demo\<close>: the driver's calls as steps of one state, what
    every sequence keeps, the properties that span components, and concrete platforms to apply them to.
    \<open>within k s s'\<close> is what the upper layers use: \<open>s'\<close> is reached by at most \<open>k\<close> driver operations, with
    arbitrary changes of the platform in between.
  \<^item> \<open>Gpu_Calls\<close>, \<open>Gpu_Start\<close>: thirteen operations as data (\<open>shared_call\<close>, performed by \<open>real_do\<close>), and the
    state in which bring-up leaves the tables.
  \<^item> \<open>Gpu_Threads\<close>, \<open>Gpu_Schedule\<close>, \<open>Gpu_Creations\<close>, \<open>Gpu_Concurrency\<close>: concurrent callers.  Each of these
    operations cut at its submissions (\<open>act_of\<close>, proved to be the operation when it runs alone), schedules
    of any number of threads (\<open>sched\<close>), and what holds of all of them: the invariant, distinct creations;
    and what does not: the completed fence may go back.
  \<^item> \<open>Virgl_Encoder\<close>: \<open>virgl_encoder.c\<close>.
  \<^item> \<open>Venus_Encoder\<close>, \<open>Venus_Commands\<close>, \<open>Venus_Wire\<close>: \<open>venus_cs.c\<close>, \<open>vn_cs.h\<close> and the part of the generated
    headers they call: the encoder cursor, packed scalars, strings and arrays, every command
    \<open>venus_cs.c\<close> can encode, and the wire format as lists of chunks that every encoder is proved to write.
  \<^item> \<open>Venus_Ring\<close>, \<open>Venus_Ring_Fifo\<close>, \<open>Venus_Ring_Api\<close>: the ring of \<open>venus_init.c\<close> in shared memory:
    creation, staging, registration, circular writes, flush, wait; the ring as a byte queue between guest
    and host; its control operations.
  \<^item> \<open>Venus_Query\<close>: the capset query, the reply round trip and the reply-bearing queries of \<open>venus_init.c\<close>.
  \<^item> \<open>Drm_Virtgpu\<close>, \<open>Drm_File\<close>, \<open>Drm_Handles\<close>, \<open>Drm_Session\<close>: \<open>drm_virtgpu.c\<close> and \<open>drm_virtgpu_fdio.c\<close>: the
    handle table, the byte-level ioctl dispatcher, the mmap registry, and what a session keeps.
  \<^item> \<open>Venus_Driver\<close>: \<open>venus_driver.c\<close> and \<open>vn_ring_shim.c\<close>.
  \<^item> \<open>Venus_Compute\<close>, \<open>Venus_Compute_Wire\<close>: \<open>venus_compute.c\<close> and the generated encoders it calls; the two
    groups of commands (objects, recording) as datatypes and the wire format each encoder is proved to write.
  \<^item> \<open>Vk_Dispatch\<close>, \<open>Vk_Physical\<close>, \<open>Vk_Objects\<close>, \<open>Vk_Record\<close>, \<open>Vk_Procs\<close>: \<open>uk_vulkan_dispatch.c\<close>: its
    statics and transports, start and stop; the entry points for instance, physical device and device; for
    memory, buffers, shaders, descriptors and pipelines; for command buffers, queues, fences; the lookup table.
  \<^item> \<open>Vk_Transport\<close>, \<open>Vk_Invariant\<close>, \<open>Vk_Steps\<close>, \<open>Vk_Handles\<close>, \<open>Vk_Tables\<close>: what the transports rely on of
    an encoder (\<open>writes\<close>), the well-formedness \<open>disp_wf\<close>, every entry point as a step of one relation
    (\<open>vk_step\<close>, \<open>vk_run\<close>), the handle counter, the two tables.
  \<^item> \<open>Vk_Batch\<close>, \<open>Vk_Stream\<close>, \<open>Vk_Demo\<close>, \<open>Vk_Properties\<close>: what the host receives of a recorded command buffer
    in each of the three modes, against the stream of commands as specification; a concrete machine; the
    properties of the dispatch.
  \<^item> \<open>App_Kmscube\<close>, \<open>App_Properties\<close>, \<open>App_Demo\<close>, \<open>App_Vkmark\<close>: the programs \<open>apps/app-kmscube\<close> and
    \<open>apps/app-vkmark\<close>, the clients of the whole stack: their runs, what their verdicts mean, and a concrete
    platform on which they run to success.
  \<^item> \<open>Fake_Gpu\<close>, \<open>Slot_Maps\<close>, \<open>Fake_Refinement\<close>, \<open>Fake_Runs\<close>: the second implementation of the driver's
    interface, the fake backend \<open>tests/fake\<close> that the host-native tests link; slot tables as finite maps; a
    specification (\<open>gpu_view\<close>, \<open>spec_ok\<close>, \<open>spec_step\<close>) that the fake implements exactly and that every
    success of the driver follows; what a run on one therefore says of the other.
  \<^item> \<open>Test_Core\<close>: the test program \<open>tests/libukvirtio_gpu/core_test.c\<close> on the fake, and when it passes.

  \<^bold>\<open>State.\<close>  A \<open>'h sys\<close> is the device record, the platform state \<open>'h\<close> and the queue mutex.  The platform
  (virtqueue, scatter lists, clock, heap) is the record \<open>'h env\<close> of functions on \<open>'h\<close>, the virtio bus the
  record \<open>'h bus\<close>: both stand for code of Unikraft that is not in the repository, and every theorem holds for
  all of them unless it names a condition.  For the ring, the queries and the DRM shim \<open>'h\<close> is a
  \<open>'h machine\<close>: a link state and a memory from addresses to bytes; the host may change that memory in every
  platform operation and, where the code polls, between two reads (\<open>poll\<close>).  \<open>vk_headers\<close> and
  \<open>vk_enums\<close> hold the constants of the Khronos headers, which are not in the repository; \<open>khronos\<close> and
  \<open>khronos_enums\<close> give their values.  The statics of the dispatch are the record \<open>disp\<close>; what it runs on is
  the record \<open>'h vk_env\<close>.  The client's structures are bytes of the machine's memory, read at the offsets the
  code uses.

  \<^bold>\<open>Reading the definitions.\<close>  Functions that return 0 or a negative errno return \<open>errno + 'a\<close>; what they
  store through output pointers is part of the result; an output pointer that may be NULL is a boolean or an
  option.  The receiver (\<open>dev\<close>, \<open>ring\<close>, \<open>file\<close>) is not NULL.  An outer \<open>option\<close> is \<open>None\<close> when the call does
  not return, which only the polling loops can cause.  Pointers into tables are indices.  Pointers are 64-bit
  and the machine is little-endian.  \<open>VOGUE_PROF_ENABLED\<close> is 0, so the timing code inside operations is
  absent, but the counters it would use are modelled (\<open>Gpu_Profile\<close>).  Messages that are only printed and
  asserts are left out.

  \<^bold>\<open>What the lemmas show.\<close>  \<open>*_ok\<close>, \<open>*_quiet\<close>, \<open>*_frame\<close>: an operation keeps the contract of its layer.
  \<open>*_returns\<close>: it returns on a platform whose clock advances.  \<open>*_chunks\<close>, \<open>*_wire\<close>: an encoder writes the
  named chunks.  \<open>*_within\<close>: how many driver operations it makes.  \<open>*_step\<close>: it keeps the tables of its layer.
  \<open>*_witness\<close>: a property at a concrete input.

  \<^bold>\<open>Bounds.\<close>  Sequences of driver calls are shorter than \<open>2 ^ 32 - 1\<close> calls: identifiers are 32-bit counters,
  and after a wrap a resource could get identifier 0 or one that is in use.  A ring or query operation makes
  at most 7 driver operations, an ioctl at most 2, a run of the kmscube program at most 67.  A run of the dispatch is shorter than \<open>2 ^ 31\<close> calls
  where handles are compared (a call names at most \<open>2 ^ 32\<close> objects); recorded commands are shorter than
  2031616 bytes, the room a batch below its threshold leaves in the 2 MiB buffer.  A render node session is shorter than \<open>2 ^ 31\<close> requests,
  so that the mmap offset counter, which moves by at most \<open>2 ^ 32\<close>, cannot wrap.  Venus commands and buffers
  are shorter than \<open>2 ^ 62\<close> bytes.  A run compared with the fake makes at most 64 resources, 16 contexts and 64
  attachments, the sizes of the fake's tables.  No fuel is used: the control queue's loop is a partial function, shown to
  return when the clock advances; the spin on a reply and the wait on the ring are bounded by the code's own
  counters.

  \<^bold>\<open>Not modelled.\<close>  The rest of the generated protocol headers (tens of thousands of lines for Vulkan
  commands and extension chains that no code here calls); entry points whose body is empty; the other
  applications (the vulkan sample does not build against the library, the rest is glue around llama.cpp);
  the other test programs; the C++ loader glue; reporting of the profile; the registration macros of the
  platform.  Threads are switched only inside
  \<open>cmd_submit\<close>, as the comment at its mutex says; a switch between two statements outside it, and schedules of
  the 3D transfers, blobs and queries, are not modelled.  The recursive lock of the dispatch makes its calls
  sequential.
\<close>

end
